(* ===== verification/Prelude.thy ===== *)
theory Prelude
  imports Main "HOL-Library.Word" "HOL-Library.Product_Lexorder"
begin

text \<open>
  Shared vocabulary of the development: the machine integers of the Rust sources at
  their width, \<open>Result\<close> values in which a panic is visible, the parts of the Rust
  standard library the sources call (checked and saturating arithmetic, \<open>str\<close>
  predicates, iterator searches, \<open>BTreeMap\<close>), instants and durations, and the generic
  lemmas and interfaces that the component theories share.
\<close>

named_theorems rust_arith \<open>reading checked and saturating word arithmetic through unat\<close>
named_theorems result_elim \<open>inversion of successful result chains\<close>


section \<open>Integers, instants and durations\<close>

type_synonym u8 = "8 word"
type_synonym u16 = "16 word"
type_synonym u32 = "32 word"
type_synonym u64 = "64 word"
type_synonym u128 = "128 word"

text \<open>
  An instant counts nanoseconds since the Unix epoch and a duration counts
  nanoseconds; a calendar date counts days since the epoch. The ends of the range that
  the calendar library can represent are not modelled.
\<close>

type_synonym instant = int
type_synonym duration = int
type_synonym naive_date = int

definition seconds :: "int \<Rightarrow> duration" where
  "seconds n = n * 1000000000"

definition minutes :: "int \<Rightarrow> duration" where
  "minutes n = seconds (60 * n)"

definition hours :: "int \<Rightarrow> duration" where
  "hours n = seconds (3600 * n)"

definition days :: "int \<Rightarrow> duration" where
  "days n = seconds (86400 * n)"

lemmas duration_defs = seconds_def minutes_def hours_def days_def

lemma seconds_mono: "seconds a \<le> seconds b \<longleftrightarrow> a \<le> b"
  by (simp add: seconds_def)

lemma seconds_nonneg: "0 \<le> seconds a \<longleftrightarrow> 0 \<le> a"
  by (simp add: seconds_def)


section \<open>Results\<close>

text \<open>
  A Rust function that returns \<open>Result\<close> may also panic (an indexing failure, an
  arithmetic overflow under \<open>overflow-checks\<close>, an \<open>expect\<close>). Both outcomes are values
  here, so that the absence of panics is a theorem.
\<close>

datatype 'e failure = Err 'e | Panic

type_synonym ('e, 'a) result = "'e failure + 'a"

abbreviation Ok :: "'a \<Rightarrow> ('e, 'a) result" where
  "Ok \<equiv> Inr"

abbreviation Error :: "'e \<Rightarrow> ('e, 'a) result" where
  "Error e \<equiv> Inl (Err e)"

abbreviation Panics :: "('e, 'a) result" where
  "Panics \<equiv> Inl Panic"

text \<open>The question-mark operator, and \<open>ensure!\<close>.\<close>

definition and_then :: "('e, 'a) result \<Rightarrow> ('a \<Rightarrow> ('e, 'b) result) \<Rightarrow> ('e, 'b) result" where
  "and_then r f = (case r of Inl e \<Rightarrow> Inl e | Inr x \<Rightarrow> f x)"

definition ensure :: "bool \<Rightarrow> 'e \<Rightarrow> ('e, 'a) result \<Rightarrow> ('e, 'a) result" where
  "ensure c e r = (if c then r else Error e)"

definition ok_or :: "'a option \<Rightarrow> 'e \<Rightarrow> ('e, 'a) result" where
  "ok_or x e = (case x of None \<Rightarrow> Error e | Some y \<Rightarrow> Ok y)"

definition or_panic :: "'a option \<Rightarrow> ('e, 'a) result" where
  "or_panic x = (case x of None \<Rightarrow> Panics | Some y \<Rightarrow> Ok y)"

text \<open>\<open>Result::map_err\<close> with a constant error, as \<open>context\<close> and \<open>map_err(|_| e)\<close> do; a
  panic stays a panic.\<close>

definition map_err :: "'f \<Rightarrow> ('e, 'a) result \<Rightarrow> ('f, 'a) result" where
  "map_err e r =
     (case r of Inl (Err _) \<Rightarrow> Error e | Inl Panic \<Rightarrow> Panics | Inr x \<Rightarrow> Ok x)"

text \<open>The conversion of one error type into another by the question-mark operator.\<close>

definition wrap_err :: "('e \<Rightarrow> 'f) \<Rightarrow> ('e, 'a) result \<Rightarrow> ('f, 'a) result" where
  "wrap_err f r =
     (case r of Inl (Err e) \<Rightarrow> Error (f e) | Inl Panic \<Rightarrow> Panics | Inr x \<Rightarrow> Ok x)"

lemma and_then_simps [simp]:
  "and_then (Inl e) f = Inl e"
  "and_then (Inr x) f = f x"
  by (simp_all add: and_then_def)

lemma and_then_Ok [result_elim]:
  "and_then r f = Inr y \<longleftrightarrow> (\<exists>x. r = Inr x \<and> f x = Inr y)"
  by (cases r) simp_all

lemma and_then_Inl [result_elim]:
  "and_then r f = Inl e \<longleftrightarrow> r = Inl e \<or> (\<exists>x. r = Inr x \<and> f x = Inl e)"
  by (cases r) simp_all

lemma ensure_True [simp]: "ensure True e r = r"
  by (simp add: ensure_def)

lemma ensure_False [simp]: "ensure False e r = Error e"
  by (simp add: ensure_def)

lemma ensure_Ok [result_elim]: "ensure c e r = Inr y \<longleftrightarrow> c \<and> r = Inr y"
  by (simp add: ensure_def)

lemma ensure_Panic [result_elim]: "ensure c e r = Inl Panic \<longleftrightarrow> c \<and> r = Inl Panic"
  by (simp add: ensure_def)

lemma ok_or_simps [simp]: "ok_or None e = Error e" "ok_or (Some x) e = Ok x"
  by (simp_all add: ok_or_def)

lemma ok_or_Ok [result_elim]: "ok_or x e = Inr y \<longleftrightarrow> x = Some y"
  by (cases x) simp_all

lemma ok_or_Panic [simp]: "ok_or x e \<noteq> Inl Panic"
  by (cases x) simp_all

lemma or_panic_simps [simp]: "or_panic None = Panics" "or_panic (Some x) = Ok x"
  by (simp_all add: or_panic_def)

lemma or_panic_Ok [result_elim]: "or_panic x = Inr y \<longleftrightarrow> x = Some y"
  by (cases x) simp_all

lemma or_panic_Panic [result_elim]: "or_panic x = Inl Panic \<longleftrightarrow> x = None"
  by (cases x) simp_all

lemma map_err_simps [simp]:
  "map_err e (Error e') = Error e" "map_err e Panics = Panics" "map_err e (Inr x) = Ok x"
  by (simp_all add: map_err_def)

lemma map_err_Ok [result_elim]: "map_err e r = Inr y \<longleftrightarrow> r = Inr y"
  by (simp add: map_err_def split: sum.splits failure.splits)

lemma map_err_Panic [result_elim]: "map_err e r = Inl Panic \<longleftrightarrow> r = Inl Panic"
  by (simp add: map_err_def split: sum.splits failure.splits)

lemma wrap_err_simps [simp]:
  "wrap_err f (Error e) = Error (f e)" "wrap_err f Panics = Panics" "wrap_err f (Inr x) = Ok x"
  by (simp_all add: wrap_err_def)

lemma wrap_err_Ok [result_elim]: "wrap_err f r = Inr y \<longleftrightarrow> r = Inr y"
  by (simp add: wrap_err_def split: sum.splits failure.splits)

lemma wrap_err_Panic [result_elim]: "wrap_err f r = Inl Panic \<longleftrightarrow> r = Inl Panic"
  by (simp add: wrap_err_def split: sum.splits failure.splits)


section \<open>Checked and saturating arithmetic\<close>

definition checked_add :: "'a::len word \<Rightarrow> 'a word \<Rightarrow> 'a word option" where
  "checked_add a b = (if unat a + unat b < 2 ^ LENGTH('a) then Some (a + b) else None)"

definition checked_mul :: "'a::len word \<Rightarrow> 'a word \<Rightarrow> 'a word option" where
  "checked_mul a b = (if unat a * unat b < 2 ^ LENGTH('a) then Some (a * b) else None)"

definition checked_div :: "'a::len word \<Rightarrow> 'a word \<Rightarrow> 'a word option" where
  "checked_div a b = (if b = 0 then None else Some (a div b))"

definition saturating_sub :: "'a::len word \<Rightarrow> 'a word \<Rightarrow> 'a word" where
  "saturating_sub a b = (if b \<le> a then a - b else 0)"

definition saturating_mul :: "'a::len word \<Rightarrow> 'a word \<Rightarrow> 'a word" where
  "saturating_mul a b = (case checked_mul a b of None \<Rightarrow> - 1 | Some c \<Rightarrow> c)"

text \<open>\<open>T::try_from\<close> between unsigned types: the value is kept or the conversion fails.\<close>

definition try_from :: "'a::len word \<Rightarrow> 'b::len word option" where
  "try_from a = (if unat a < 2 ^ LENGTH('b) then Some (ucast a) else None)"

definition widen :: "u64 \<Rightarrow> u128" where
  "widen a = ucast a"

text \<open>Evaluation goes through \<^const>\<open>uint\<close>, whose numerals are binary.\<close>

lemma less_power_int: "n < 2 ^ k \<longleftrightarrow> int n < 2 ^ k"
  by (metis of_nat_less_iff of_nat_numeral of_nat_power)

lemma checked_add_code [code]:
  "checked_add a b = (if uint a + uint b < 2 ^ LENGTH('a) then Some (a + b) else None)"
  for a :: "'a::len word"
  by (simp only: checked_add_def less_power_int of_nat_add uint_nat)

lemma checked_mul_code [code]:
  "checked_mul a b = (if uint a * uint b < 2 ^ LENGTH('a) then Some (a * b) else None)"
  for a :: "'a::len word"
  by (simp only: checked_mul_def less_power_int of_nat_mult uint_nat)

lemma try_from_code [code]:
  "(try_from a :: 'b::len word option) =
     (if uint a < 2 ^ LENGTH('b) then Some (ucast a) else None)" for a :: "'a::len word"
  by (simp only: try_from_def less_power_int uint_nat)

lemma checked_add_Some [rust_arith]:
  "checked_add a b = Some c \<longleftrightarrow> unat a + unat b < 2 ^ LENGTH('a) \<and> c = a + b"
  for a :: "'a::len word"
  by (auto simp: checked_add_def)

lemma unat_checked_add:
  "checked_add a b = Some c \<Longrightarrow> unat c = unat a + unat b" for a :: "'a::len word"
  by (auto simp: checked_add_def unat_word_ariths split: if_splits)

lemma checked_mul_Some [rust_arith]:
  "checked_mul a b = Some c \<longleftrightarrow> unat a * unat b < 2 ^ LENGTH('a) \<and> c = a * b"
  for a :: "'a::len word"
  by (auto simp: checked_mul_def)

lemma unat_checked_mul:
  "checked_mul a b = Some c \<Longrightarrow> unat c = unat a * unat b" for a :: "'a::len word"
  by (auto simp: checked_mul_def unat_word_ariths split: if_splits)

lemma unat_saturating_sub [rust_arith]: "unat (saturating_sub a b) = unat a - unat b"
  by (auto simp: saturating_sub_def unat_sub word_le_nat_alt)

lemma saturating_sub_le: "saturating_sub a b \<le> a"
  by (simp add: word_le_nat_alt unat_saturating_sub)

lemma try_from_Some [rust_arith]:
  "(try_from a :: 'b::len word option) = Some c \<longleftrightarrow>
     unat a < 2 ^ LENGTH('b) \<and> c = ucast a" for a :: "'a::len word"
  by (auto simp: try_from_def)

lemma unat_try_from:
  "(try_from a :: 'b::len word option) = Some c \<Longrightarrow> unat c = unat a"
  for a :: "'a::len word"
  by (auto simp: try_from_def unsigned_ucast_eq take_bit_nat_eq_self split: if_splits)

lemma u64_bound: "unat (a :: u64) < 18446744073709551616"
  using unsigned_less [of a] by simp

lemma unat_widen [rust_arith]: "unat (widen a) = unat a"
proof -
  have "unat a < 2 ^ 128"
    using u64_bound [of a] by simp
  then show ?thesis
    by (simp add: widen_def unsigned_ucast_eq take_bit_nat_eq_self)
qed

lemma u32_bound: "unat (a :: u32) < 4294967296"
  using unsigned_less [of a] by simp

lemma u8_bound: "unat (a :: u8) < 256"
  using unsigned_less [of a] by simp

lemma u64_mult_bound: "unat (a :: u64) * unat (b :: u64) < 2 ^ 128"
proof -
  have "unat a * unat b \<le> 18446744073709551615 * 18446744073709551615"
    using u64_bound [of a] u64_bound [of b] by (intro mult_le_mono) auto
  then show ?thesis by simp
qed

lemma unat_widen_mult [rust_arith]: "unat (widen a * widen b) = unat a * unat b"
  using u64_mult_bound [of a b] by (simp add: unat_word_ariths unat_widen)

lemma unat_max [rust_arith]: "unat (max a b) = max (unat a) (unat b)"
  for a b :: "'a::len word"
  by (simp add: max_def word_le_nat_alt)

lemma unat_min [rust_arith]: "unat (min a b) = min (unat a) (unat b)"
  for a b :: "'a::len word"
  by (simp add: min_def word_le_nat_alt)


section \<open>Strings\<close>

text \<open>
  A Rust \<open>str\<close> is its UTF-8 byte sequence, here a \<^typ>\<open>string\<close>; \<open>len()\<close> is the number
  of bytes. \<open>chars()\<close> decodes the bytes to scalar values.
\<close>

definition byte :: "char \<Rightarrow> int" where
  "byte c = of_char c"

definition is_ascii_digit :: "char \<Rightarrow> bool" where
  "is_ascii_digit c \<longleftrightarrow> 48 \<le> byte c \<and> byte c \<le> 57"

definition is_ascii_lowercase :: "char \<Rightarrow> bool" where
  "is_ascii_lowercase c \<longleftrightarrow> 97 \<le> byte c \<and> byte c \<le> 122"

definition is_ascii_uppercase :: "char \<Rightarrow> bool" where
  "is_ascii_uppercase c \<longleftrightarrow> 65 \<le> byte c \<and> byte c \<le> 90"

definition is_ascii_alphanumeric :: "char \<Rightarrow> bool" where
  "is_ascii_alphanumeric c \<longleftrightarrow>
     is_ascii_digit c \<or> is_ascii_lowercase c \<or> is_ascii_uppercase c"

definition is_lower_hexdigit :: "char \<Rightarrow> bool" where
  "is_lower_hexdigit c \<longleftrightarrow> is_ascii_digit c \<or> (97 \<le> byte c \<and> byte c \<le> 102)"

lemmas ascii_defs =
  byte_def is_ascii_digit_def is_ascii_lowercase_def is_ascii_uppercase_def
  is_ascii_alphanumeric_def is_lower_hexdigit_def

fun decode_utf8 :: "int list \<Rightarrow> int list" where
  "decode_utf8 [] = []"
| "decode_utf8 (a # bs) =
     (if a < 128 then a # decode_utf8 bs
      else case bs of
        [] \<Rightarrow> []
      | b # cs \<Rightarrow>
          if a < 224 then ((a - 192) * 64 + (b - 128)) # decode_utf8 cs
          else case cs of
            [] \<Rightarrow> []
          | c # ds \<Rightarrow>
              if a < 240
              then ((a - 224) * 4096 + (b - 128) * 64 + (c - 128)) # decode_utf8 ds
              else case ds of
                [] \<Rightarrow> []
              | d # es \<Rightarrow>
                  ((a - 240) * 262144 + (b - 128) * 4096 + (c - 128) * 64 + (d - 128))
                    # decode_utf8 es)"

definition str_chars :: "string \<Rightarrow> int list" where
  "str_chars s = decode_utf8 (map byte s)"

text \<open>\<open>char::is_control\<close> (general category Cc) and \<open>char::is_whitespace\<close> (White_Space).\<close>

definition is_control :: "int \<Rightarrow> bool" where
  "is_control c \<longleftrightarrow> c < 32 \<or> (127 \<le> c \<and> c < 160)"

definition is_whitespace :: "int \<Rightarrow> bool" where
  "is_whitespace c \<longleftrightarrow>
     (9 \<le> c \<and> c \<le> 13) \<or> c = 32 \<or> c = 133 \<or> c = 160 \<or> c = 5760 \<or>
     (8192 \<le> c \<and> c \<le> 8202) \<or> c = 8232 \<or> c = 8233 \<or> c = 8239 \<or> c = 8287 \<or> c = 12288"

definition trim_chars :: "int list \<Rightarrow> int list" where
  "trim_chars cs = rev (dropWhile is_whitespace (rev (dropWhile is_whitespace cs)))"

text \<open>\<open>value.trim() == value\<close>\<close>

definition is_trimmed :: "string \<Rightarrow> bool" where
  "is_trimmed s \<longleftrightarrow> trim_chars (str_chars s) = str_chars s"


section \<open>Iterator searches\<close>

text \<open>\<open>Iterator::find_map\<close>, \<open>filter_map\<close>, \<open>min_by_key\<close> (the first of several minima) and
  \<open>max_by_key\<close> (the last of several maxima).\<close>

fun find_map :: "('a \<Rightarrow> 'b option) \<Rightarrow> 'a list \<Rightarrow> 'b option" where
  "find_map f [] = None"
| "find_map f (x # xs) = (case f x of None \<Rightarrow> find_map f xs | Some y \<Rightarrow> Some y)"

fun filter_map :: "('a \<Rightarrow> 'b option) \<Rightarrow> 'a list \<Rightarrow> 'b list" where
  "filter_map f [] = []"
| "filter_map f (x # xs) =
     (case f x of None \<Rightarrow> filter_map f xs | Some y \<Rightarrow> y # filter_map f xs)"

fun min_by_key :: "('a \<Rightarrow> 'k::linorder) \<Rightarrow> 'a list \<Rightarrow> 'a option" where
  "min_by_key key [] = None"
| "min_by_key key (x # xs) =
     (case min_by_key key xs of
        None \<Rightarrow> Some x
      | Some y \<Rightarrow> if key y < key x then Some y else Some x)"

fun max_by_key :: "('a \<Rightarrow> 'k::linorder) \<Rightarrow> 'a list \<Rightarrow> 'a option" where
  "max_by_key key [] = None"
| "max_by_key key (x # xs) =
     (case max_by_key key xs of
        None \<Rightarrow> Some x
      | Some y \<Rightarrow> if key x \<le> key y then Some y else Some x)"

lemma find_map_Some: "find_map f xs = Some y \<Longrightarrow> \<exists>x \<in> set xs. f x = Some y"
  by (induction xs) (auto split: option.splits)

lemma find_map_None: "find_map f xs = None \<longleftrightarrow> (\<forall>x \<in> set xs. f x = None)"
  by (induction xs) (auto split: option.splits)

lemma find_Some_mem: "List.find P xs = Some x \<Longrightarrow> x \<in> set xs \<and> P x"
  by (auto simp: find_Some_iff)

lemma set_filter_map: "set (filter_map f xs) = {y. \<exists>x \<in> set xs. f x = Some y}"
  by (induction xs) (auto split: option.splits)

lemma min_by_key_None [simp]: "min_by_key key xs = None \<longleftrightarrow> xs = []"
  by (cases xs) (auto split: option.splits)

lemma max_by_key_None [simp]: "max_by_key key xs = None \<longleftrightarrow> xs = []"
  by (cases xs) (auto split: option.splits)

lemma min_by_key_Some:
  "min_by_key key xs = Some x \<Longrightarrow> x \<in> set xs \<and> (\<forall>y \<in> set xs. key x \<le> key y)"
proof (induction xs arbitrary: x)
  case Nil
  then show ?case by simp
next
  case (Cons a xs)
  then show ?case
    by (cases "min_by_key key xs") (fastforce split: if_splits)+
qed

lemma max_by_key_Some:
  "max_by_key key xs = Some x \<Longrightarrow> x \<in> set xs \<and> (\<forall>y \<in> set xs. key y \<le> key x)"
proof (induction xs arbitrary: x)
  case Nil
  then show ?case by simp
next
  case (Cons a xs)
  then show ?case
    by (cases "max_by_key key xs") (fastforce split: if_splits)+
qed

text \<open>\<open>std::cmp::Reverse\<close>: the reversed order.\<close>

datatype 'a reverse = Reverse (unreverse: 'a)

instantiation reverse :: (linorder) linorder
begin

definition less_eq_reverse :: "'a reverse \<Rightarrow> 'a reverse \<Rightarrow> bool" where
  "less_eq_reverse x y \<longleftrightarrow> unreverse y \<le> unreverse x"

definition less_reverse :: "'a reverse \<Rightarrow> 'a reverse \<Rightarrow> bool" where
  "less_reverse x y \<longleftrightarrow> unreverse y < unreverse x"

instance
  by standard
    (auto simp: less_eq_reverse_def less_reverse_def reverse.expand)

end

end
