(* ===== verification/Wb_Policy.thy ===== *)
theory Wb_Policy
  imports Prelude
begin

text \<open>
  The reviewed policy of the Wildberries advertising robot:
  \<open>WbAutomationPolicy\<close> and its fail-closed validation in
  \<open>src/src/control/automation.rs\<close> and \<open>automation/identity.rs\<close>, and the two renewal
  contracts in \<open>automation/corridor.rs\<close> and \<open>automation/recommendations.rs\<close>.
\<close>


section \<open>Data\<close>

datatype pacing_mode =
    Disabled
  | Enabled
  | TrafficFrontierV2
  | TrafficFrontierV3
  | TrafficFrontierV4

definition is_enabled :: "pacing_mode \<Rightarrow> bool" where
  "is_enabled m \<longleftrightarrow>
     m = Enabled \<or> m = TrafficFrontierV2 \<or> m = TrafficFrontierV3 \<or> m = TrafficFrontierV4"

definition uses_traffic_frontier :: "pacing_mode \<Rightarrow> bool" where
  "uses_traffic_frontier m \<longleftrightarrow>
     m = TrafficFrontierV2 \<or> m = TrafficFrontierV3 \<or> m = TrafficFrontierV4"

definition uses_marginal_feedback :: "pacing_mode \<Rightarrow> bool" where
  "uses_marginal_feedback m \<longleftrightarrow> m = TrafficFrontierV3 \<or> m = TrafficFrontierV4"

definition allows_zero_cost_probe :: "pacing_mode \<Rightarrow> bool" where
  "allows_zero_cost_probe m \<longleftrightarrow> m = TrafficFrontierV4"

lemmas pacing_mode_defs =
  is_enabled_def uses_traffic_frontier_def uses_marginal_feedback_def
  allows_zero_cost_probe_def

record wb_policy =
  p_policy_version :: string
  p_write_enabled :: bool
  p_bid_writes_enabled :: bool
  p_account_id :: string
  p_campaign_id :: u64
  p_campaign_name :: string
  p_payment_type :: string
  p_placement :: string
  p_expected_recommendation_bid_kopecks :: "u64 option"
  p_timezone :: string
  p_authorized_by_actor_id :: string
  p_authorization_reference :: string
  p_authorized_at :: instant
  p_authorization_expires_at :: instant
  p_nm_ids :: "u64 list"
  p_target_drr_basis_points :: u32
  p_hard_drr_basis_points :: u32
  p_target_impressions_per_day :: u64
  p_target_orders_per_day :: u64
  p_autonomous_pacing :: pacing_mode
  p_traffic_frontier_bid_kopecks :: "u64 option"
  p_traffic_frontier_feedback_timeout_seconds :: "u32 option"
  p_traffic_frontier_min_feedback_impressions :: "u64 option"
  p_traffic_frontier_min_feedback_clicks :: "u64 option"
  p_min_bid_kopecks :: u64
  p_max_bid_kopecks :: u64
  p_bid_step_percent :: u8
  p_daily_spend_cap_minor :: u64
  p_daily_pause_threshold_minor :: u64
  p_max_actions_per_day :: u32
  p_cooldown_seconds :: u32
  p_min_sellable_stock :: u64
  p_no_order_reduce_clicks :: u64
  p_no_order_disable_clicks :: u64
  p_no_order_disable_spend_minor :: u64
  p_efficient_min_orders :: u64
  p_efficient_min_conversion_basis_points :: u32
  p_low_exposure_max_impressions :: u64
  p_low_exposure_max_clicks :: u64
  p_observe_until :: instant
  p_allow_budget_top_up :: bool

datatype wb_decision_error = InvalidPolicy | InvalidObservation | Overflow


section \<open>Validation\<close>

definition valid_policy_identity :: "wb_policy \<Rightarrow> bool" where
  "valid_policy_identity p \<longleftrightarrow>
     (let account_id_valid =
            p_account_id p \<noteq> [] \<and> length (p_account_id p) \<le> 128 \<and>
            list_all (\<lambda>b. is_ascii_alphanumeric b \<or> b = CHR ''_'' \<or> b = CHR ''-'')
              (p_account_id p);
          campaign_name_valid =
            p_campaign_name p \<noteq> [] \<and> length (p_campaign_name p) \<le> 128 \<and>
            is_trimmed (p_campaign_name p) \<and>
            \<not> list_ex is_control (str_chars (p_campaign_name p))
      in p_policy_version p = ''wb_ads_robot.v1'' \<and>
         p_payment_type p = ''cpc'' \<and>
         p_placement p = ''search'' \<and>
         (case p_expected_recommendation_bid_kopecks p of
            None \<Rightarrow> True
          | Some bid \<Rightarrow> 0 < bid \<and> unat bid < 2 ^ 63) \<and>
         p_timezone p = ''Europe/Moscow'' \<and>
         account_id_valid \<and>
         campaign_name_valid \<and>
         p_campaign_id p \<noteq> 0)"

definition valid_identifier :: "string \<Rightarrow> bool" where
  "valid_identifier v \<longleftrightarrow>
     v \<noteq> [] \<and> length v \<le> 128 \<and>
     list_all (\<lambda>b. is_ascii_alphanumeric b \<or> b = CHR ''_'' \<or> b = CHR ''-'') v"

definition valid_policy_authorization :: "wb_policy \<Rightarrow> bool" where
  "valid_policy_authorization p \<longleftrightarrow>
     valid_identifier (p_authorized_by_actor_id p) \<and>
     p_authorization_reference p \<noteq> [] \<and>
     length (p_authorization_reference p) \<le> 128 \<and>
     list_all (\<lambda>b. is_ascii_alphanumeric b \<or>
         b = CHR ''_'' \<or> b = CHR ''-'' \<or> b = CHR ''/'' \<or> b = CHR ''.'')
       (p_authorization_reference p) \<and>
     p_authorized_at p < p_observe_until p \<and>
     p_observe_until p < p_authorization_expires_at p"

text \<open>The cardinality is the length of the \<open>BTreeSet\<close> collected from the list.\<close>

definition valid_policy_targets :: "wb_policy \<Rightarrow> bool" where
  "valid_policy_targets p \<longleftrightarrow>
     p_nm_ids p \<noteq> [] \<and>
     length (p_nm_ids p) \<le> 50 \<and>
     card (set (p_nm_ids p)) = length (p_nm_ids p) \<and>
     0 \<notin> set (p_nm_ids p)"

definition valid_marginal_feedback_policy :: "wb_policy \<Rightarrow> bool" where
  "valid_marginal_feedback_policy p =
     (case p_traffic_frontier_min_feedback_impressions p of
        None \<Rightarrow> False
      | Some min_impressions \<Rightarrow>
     (case p_traffic_frontier_min_feedback_clicks p of
        None \<Rightarrow> False
      | Some min_clicks \<Rightarrow>
          100 \<le> min_impressions \<and> min_impressions \<le> 10000 \<and>
          5 \<le> min_clicks \<and> min_clicks \<le> 100 \<and>
          min_clicks \<le> min_impressions \<and>
          1300 \<le> p_target_impressions_per_day p \<and> p_target_impressions_per_day p \<le> 1600 \<and>
          3 \<le> p_target_orders_per_day p \<and> p_target_orders_per_day p \<le> 4 \<and>
          9 \<le> p_max_actions_per_day p \<and> p_max_actions_per_day p \<le> 48 \<and>
          1800 \<le> p_cooldown_seconds p \<and> p_cooldown_seconds p \<le> 3600))"

definition valid_traffic_frontier_policy :: "wb_policy \<Rightarrow> bool" where
  "valid_traffic_frontier_policy p =
     (case p_traffic_frontier_bid_kopecks p of
        None \<Rightarrow> False
      | Some frontier \<Rightarrow>
     (case p_traffic_frontier_feedback_timeout_seconds p of
        None \<Rightarrow> False
      | Some feedback_timeout \<Rightarrow>
          (let headroom = saturating_sub (p_daily_spend_cap_minor p)
                            (p_daily_pause_threshold_minor p);
               bid_floor = p_min_bid_kopecks p
           in (bid_floor < frontier \<or>
                (frontier = bid_floor \<and> allows_zero_cost_probe (p_autonomous_pacing p))) \<and>
              frontier \<le> p_max_bid_kopecks p \<and>
              p_max_bid_kopecks p \<le> headroom \<and>
              p_cooldown_seconds p \<le> feedback_timeout \<and>
              feedback_timeout \<le> 86400)))"

definition valid_policy_pacing :: "wb_policy \<Rightarrow> bool" where
  "valid_policy_pacing p \<longleftrightarrow>
     (let drr_valid =
            0 < p_target_drr_basis_points p \<and>
            p_target_drr_basis_points p \<le> p_hard_drr_basis_points p \<and>
            (p_hard_drr_basis_points p \<noteq> p_target_drr_basis_points p \<or>
              allows_zero_cost_probe (p_autonomous_pacing p)) \<and>
            p_hard_drr_basis_points p \<le> 10000;
          frontier_fields_absent =
            p_traffic_frontier_bid_kopecks p = None \<and>
            p_traffic_frontier_feedback_timeout_seconds p = None \<and>
            p_traffic_frontier_min_feedback_impressions p = None \<and>
            p_traffic_frontier_min_feedback_clicks p = None;
          frontier_valid =
            (if uses_traffic_frontier (p_autonomous_pacing p)
             then valid_traffic_frontier_policy p else frontier_fields_absent);
          marginal_valid =
            (if uses_marginal_feedback (p_autonomous_pacing p)
             then valid_marginal_feedback_policy p else p_target_orders_per_day p = 0);
          v2_valid =
            p_autonomous_pacing p \<noteq> TrafficFrontierV2 \<or>
            (p_traffic_frontier_min_feedback_impressions p = None \<and>
             p_traffic_frontier_min_feedback_clicks p = None)
      in drr_valid \<and> 0 < p_target_impressions_per_day p \<and>
         frontier_valid \<and> marginal_valid \<and> v2_valid)"

definition valid_policy_action_limits :: "wb_policy \<Rightarrow> bool" where
  "valid_policy_action_limits p \<longleftrightarrow>
     0 < p_min_bid_kopecks p \<and>
     p_min_bid_kopecks p \<le> p_max_bid_kopecks p \<and>
     1 \<le> p_bid_step_percent p \<and> p_bid_step_percent p \<le> 25 \<and>
     0 < p_daily_spend_cap_minor p \<and>
     0 < p_daily_pause_threshold_minor p \<and>
     p_daily_pause_threshold_minor p \<le> p_daily_spend_cap_minor p \<and>
     1 \<le> p_max_actions_per_day p \<and> p_max_actions_per_day p \<le> 50 \<and>
     300 \<le> p_cooldown_seconds p \<and> p_cooldown_seconds p \<le> 86400 \<and>
     0 < p_no_order_reduce_clicks p \<and>
     p_no_order_reduce_clicks p < p_no_order_disable_clicks p \<and>
     0 < p_no_order_disable_spend_minor p \<and>
     0 < p_efficient_min_orders p \<and>
     1 \<le> p_efficient_min_conversion_basis_points p \<and>
     p_efficient_min_conversion_basis_points p \<le> 10000 \<and>
     0 < p_low_exposure_max_impressions p \<and>
     0 < p_low_exposure_max_clicks p \<and>
     \<not> p_allow_budget_top_up p \<and>
     (\<not> p_bid_writes_enabled p \<or> p_write_enabled p)"

definition policy_ok :: "wb_policy \<Rightarrow> bool" where
  "policy_ok p \<longleftrightarrow>
     list_all (\<lambda>valid. valid)
       [valid_policy_identity p,
        valid_policy_authorization p,
        valid_policy_targets p,
        valid_policy_pacing p,
        valid_policy_action_limits p]"

definition validate_policy :: "wb_policy \<Rightarrow> (wb_decision_error, unit) result" where
  "validate_policy p = (if \<not> policy_ok p then Error InvalidPolicy else Ok ())"


section \<open>Renewal contracts\<close>

datatype wb_renewal_error =
    RenewalPolicyInvalid
  | RenewalNeedsBidLivePolicy
  | RenewalNeedsChangedExpectedBid
  | RenewalNeedsNewAuthorization
  | RenewalChangesUnrelatedField

definition new_active_authorization :: "wb_policy \<Rightarrow> wb_policy \<Rightarrow> instant \<Rightarrow> bool" where
  "new_active_authorization source target now \<longleftrightarrow>
     p_authorization_reference target \<noteq> p_authorization_reference source \<and>
     p_authorized_at source \<le> p_authorized_at target \<and>
     p_authorized_at target \<le> now \<and>
     p_observe_until target \<le> now \<and>
     now < p_authorization_expires_at target \<and>
     p_authorization_expires_at target - p_authorized_at target \<le> days 31"

definition validate_wb_automation_corridor_update ::
  "wb_policy \<Rightarrow> wb_policy \<Rightarrow> instant \<Rightarrow> (wb_renewal_error, unit) result" where
  "validate_wb_automation_corridor_update source target now =
     and_then (map_err RenewalPolicyInvalid (validate_policy source)) (\<lambda>_.
     and_then (map_err RenewalPolicyInvalid (validate_policy target)) (\<lambda>_.
     ensure (p_write_enabled source \<and> p_bid_writes_enabled source)
       RenewalNeedsBidLivePolicy (
     ensure (new_active_authorization source target now) RenewalNeedsNewAuthorization (
     let expected = source\<lparr>
           p_authorization_reference := p_authorization_reference target,
           p_authorized_at := p_authorized_at target,
           p_observe_until := p_observe_until target,
           p_authorization_expires_at := p_authorization_expires_at target,
           p_min_bid_kopecks := p_min_bid_kopecks target,
           p_max_bid_kopecks := p_max_bid_kopecks target\<rparr>
     in ensure (target = expected) RenewalChangesUnrelatedField (Ok ())))))"

definition validate_wb_automation_recommendations_update ::
  "wb_policy \<Rightarrow> wb_policy \<Rightarrow> instant \<Rightarrow> (wb_renewal_error, unit) result" where
  "validate_wb_automation_recommendations_update source target now =
     and_then (map_err RenewalPolicyInvalid (validate_policy source)) (\<lambda>_.
     and_then (map_err RenewalPolicyInvalid (validate_policy target)) (\<lambda>_.
     ensure (p_write_enabled source \<and> p_bid_writes_enabled source)
       RenewalNeedsBidLivePolicy (
     ensure (p_expected_recommendation_bid_kopecks target \<noteq> None \<and>
         p_expected_recommendation_bid_kopecks target
           \<noteq> p_expected_recommendation_bid_kopecks source)
       RenewalNeedsChangedExpectedBid (
     ensure (new_active_authorization source target now) RenewalNeedsNewAuthorization (
     let expected = source\<lparr>
           p_expected_recommendation_bid_kopecks :=
             p_expected_recommendation_bid_kopecks target,
           p_authorization_reference := p_authorization_reference target,
           p_authorized_at := p_authorized_at target,
           p_observe_until := p_observe_until target,
           p_authorization_expires_at := p_authorization_expires_at target\<rparr>
     in ensure (target = expected) RenewalChangesUnrelatedField (Ok ()))))))"


section \<open>What a valid policy guarantees\<close>

lemma validate_policy_Ok [simp]: "validate_policy p = Inr u \<longleftrightarrow> policy_ok p"
  by (simp add: validate_policy_def)

lemma validate_policy_no_panic [simp]: "validate_policy p \<noteq> Inl Panic"
  by (simp add: validate_policy_def)

lemma policy_okD:
  assumes "policy_ok p"
  shows "valid_policy_identity p" "valid_policy_authorization p" "valid_policy_targets p"
    "valid_policy_pacing p" "valid_policy_action_limits p"
  using assms by (auto simp: policy_ok_def)

lemma policy_bid_bounds:
  assumes "policy_ok p"
  shows "0 < p_min_bid_kopecks p" "p_min_bid_kopecks p \<le> p_max_bid_kopecks p"
  using policy_okD(5) [OF assms] by (auto simp: valid_policy_action_limits_def)

lemma policy_spend_bounds:
  assumes "policy_ok p"
  shows "0 < p_daily_pause_threshold_minor p"
    "p_daily_pause_threshold_minor p \<le> p_daily_spend_cap_minor p"
  using policy_okD(5) [OF assms] by (auto simp: valid_policy_action_limits_def)

lemma policy_step_bounds:
  assumes "policy_ok p"
  shows "1 \<le> p_bid_step_percent p" "p_bid_step_percent p \<le> 25"
  using policy_okD(5) [OF assms] by (auto simp: valid_policy_action_limits_def)

lemma policy_reduce_clicks_pos:
  assumes "policy_ok p"
  shows "0 < p_no_order_reduce_clicks p"
  using policy_okD(5) [OF assms] by (auto simp: valid_policy_action_limits_def)

lemma policy_targets_distinct:
  assumes "policy_ok p"
  shows "distinct (p_nm_ids p)" "p_nm_ids p \<noteq> []"
  using policy_okD(3) [OF assms] by (auto simp: valid_policy_targets_def card_distinct)

text \<open>The frontier bid of a traffic-frontier policy lies inside the bid corridor.\<close>

lemma policy_frontier:
  assumes "policy_ok p" and "uses_traffic_frontier (p_autonomous_pacing p)"
  obtains frontier timeout where "p_traffic_frontier_bid_kopecks p = Some frontier"
    and "p_traffic_frontier_feedback_timeout_seconds p = Some timeout"
    and "p_min_bid_kopecks p \<le> frontier" and "frontier \<le> p_max_bid_kopecks p"
    and "p_cooldown_seconds p \<le> timeout"
    and "p_max_bid_kopecks p
      \<le> saturating_sub (p_daily_spend_cap_minor p) (p_daily_pause_threshold_minor p)"
  using policy_okD(4) [OF assms(1)] assms(2) that
  by (auto simp: valid_policy_pacing_def valid_traffic_frontier_policy_def Let_def
      split: option.splits)

lemma policy_marginal:
  assumes "policy_ok p" and "uses_marginal_feedback (p_autonomous_pacing p)"
  obtains impressions clicks
  where "p_traffic_frontier_min_feedback_impressions p = Some impressions"
    and "p_traffic_frontier_min_feedback_clicks p = Some clicks"
    and "100 \<le> impressions" and "5 \<le> clicks"
  using policy_okD(4) [OF assms(1)] assms(2) that
  by (auto simp: valid_policy_pacing_def valid_marginal_feedback_policy_def Let_def
      split: option.splits)

end
