(* ===== verification/Ordered_Map.thy ===== *)
theory Ordered_Map
  imports Prelude
begin

text \<open>
  \<open>BTreeMap\<close> as the sources use it: insertion, lookup, and iteration in key order. The
  interface \<open>ordered_map\<close> states the laws the callers rely on; the interpretation at
  the end discharges them for the sorted association list that models \<open>BTreeMap\<close>. The
  loop that indexes a list by a key and rejects duplicates is proved correct once,
  inside the interface.
\<close>

fun btree_insert :: "'k::linorder \<Rightarrow> 'v \<Rightarrow> ('k \<times> 'v) list \<Rightarrow> ('k \<times> 'v) list" where
  "btree_insert k v [] = [(k, v)]"
| "btree_insert k v ((k', v') # m) =
     (if k < k' then (k, v) # (k', v') # m
      else if k = k' then (k, v) # m
      else (k', v') # btree_insert k v m)"

definition btree_get :: "('k \<times> 'v) list \<Rightarrow> 'k \<Rightarrow> 'v option" where
  "btree_get m k = map_of m k"

definition btree_remove :: "'k \<Rightarrow> ('k \<times> 'v) list \<Rightarrow> ('k \<times> 'v) list" where
  "btree_remove k m = filter (\<lambda>e. fst e \<noteq> k) m"

definition btree_keys :: "('k \<times> 'v) list \<Rightarrow> 'k list" where
  "btree_keys m = map fst m"

definition btree_values :: "('k \<times> 'v) list \<Rightarrow> 'v list" where
  "btree_values m = map snd m"

definition btree_invar :: "('k::linorder \<times> 'v) list \<Rightarrow> bool" where
  "btree_invar m \<longleftrightarrow> sorted_wrt (<) (map fst m)"

text \<open>The loop \<open>for x in xs { if !ok(x) || map.insert(key(x), x).is_some() { fail } }\<close>.\<close>

fun insert_unique ::
  "('k \<Rightarrow> 'v \<Rightarrow> 'm \<Rightarrow> 'm) \<Rightarrow> ('m \<Rightarrow> 'k \<Rightarrow> 'v option) \<Rightarrow> ('v \<Rightarrow> 'k) \<Rightarrow> ('v \<Rightarrow> bool) \<Rightarrow>
     'v list \<Rightarrow> 'm \<Rightarrow> 'm option" where
  "insert_unique ins get key ok [] m = Some m"
| "insert_unique ins get key ok (x # xs) m =
     (if \<not> ok x \<or> get m (key x) \<noteq> None then None
      else insert_unique ins get key ok xs (ins (key x) x m))"

locale ordered_map =
  fixes empty :: "'m"
    and ins :: "'k::linorder \<Rightarrow> 'v \<Rightarrow> 'm \<Rightarrow> 'm"
    and get :: "'m \<Rightarrow> 'k \<Rightarrow> 'v option"
    and entries :: "'m \<Rightarrow> ('k \<times> 'v) list"
    and invar :: "'m \<Rightarrow> bool"
  assumes get_empty: "get empty k = None"
    and get_ins: "invar m \<Longrightarrow> get (ins k v m) = (get m)(k \<mapsto> v)"
    and entries_sorted: "invar m \<Longrightarrow> sorted_wrt (<) (map fst (entries m))"
    and entries_get: "invar m \<Longrightarrow> (k, v) \<in> set (entries m) \<longleftrightarrow> get m k = Some v"
    and invar_empty: "invar empty"
    and invar_ins: "invar m \<Longrightarrow> invar (ins k v m)"
begin

lemma keys_of_entries: "invar m \<Longrightarrow> set (map fst (entries m)) = dom (get m)"
  using entries_get by (force simp: dom_def)

lemma insert_unique_Some:
  assumes "insert_unique ins get key ok xs m = Some m'" and "invar m"
  shows "invar m'"
    and "list_all ok xs"
    and "get m' = (\<lambda>k. case find (\<lambda>x. key x = k) xs of Some x \<Rightarrow> Some x | None \<Rightarrow> get m k)"
    and "distinct (map key xs)"
    and "\<forall>x \<in> set xs. get m (key x) = None"
proof -
  have "invar m' \<and> list_all ok xs \<and> distinct (map key xs) \<and>
      (\<forall>x \<in> set xs. get m (key x) = None) \<and>
      get m' = (\<lambda>k. case find (\<lambda>x. key x = k) xs of Some x \<Rightarrow> Some x | None \<Rightarrow> get m k)"
    using assms
  proof (induction xs arbitrary: m)
    case Nil
    then show ?case by simp
  next
    case (Cons x xs)
    from Cons.prems have step: "ok x" "get m (key x) = None"
      and rest: "insert_unique ins get key ok xs (ins (key x) x m) = Some m'"
      and inv: "invar (ins (key x) x m)"
      by (auto simp: invar_ins split: if_splits)
    from Cons.prems(2) have get': "get (ins (key x) x m) = (get m)(key x \<mapsto> x)"
      by (rule get_ins)
    note IH = Cons.IH [OF rest inv, unfolded get']
    from IH have fresh: "\<forall>y \<in> set xs. key y \<noteq> key x \<and> get m (key y) = None"
      by (auto split: if_splits)
    then have "find (\<lambda>y. key y = key x) xs = None"
      by (auto simp: find_None_iff)
    with IH fresh step show ?case
      by (auto simp: fun_eq_iff split: option.splits)
  qed
  then show "invar m'" "list_all ok xs" "distinct (map key xs)"
    "\<forall>x \<in> set xs. get m (key x) = None"
    "get m' = (\<lambda>k. case find (\<lambda>x. key x = k) xs of Some x \<Rightarrow> Some x | None \<Rightarrow> get m k)"
    by blast+
qed

lemma insert_unique_total:
  assumes "list_all ok xs" and "distinct (map key xs)"
    and "\<forall>x \<in> set xs. get m (key x) = None" and "invar m"
  shows "\<exists>m'. insert_unique ins get key ok xs m = Some m'"
  using assms
proof (induction xs arbitrary: m)
  case Nil
  then show ?case by simp
next
  case (Cons x xs)
  then have "\<forall>y \<in> set xs. get (ins (key x) x m) (key y) = None"
    by (fastforce simp: get_ins image_iff)
  with Cons show ?case
    by (auto simp: invar_ins)
qed

text \<open>A successful run over the empty map is the index of the list.\<close>

lemma insert_unique_index:
  assumes "insert_unique ins get key ok xs empty = Some m"
  shows "get m k = Some x \<longleftrightarrow> x \<in> set xs \<and> key x = k"
proof -
  note run = insert_unique_Some [OF assms invar_empty]
  have inj: "y = z" if "y \<in> set xs" "z \<in> set xs" "key y = key z" for y z
    using run(4) that by (auto simp: distinct_map inj_on_def)
  show ?thesis
    using run(3) inj
    by (auto simp: get_empty find_Some_iff find_None_iff split: option.splits)
qed

lemma insert_unique_keys:
  assumes "insert_unique ins get key ok xs empty = Some m"
  shows "set (map fst (entries m)) = key ` set xs"
  using insert_unique_index [OF assms]
    keys_of_entries [OF insert_unique_Some(1) [OF assms invar_empty]]
  by (auto simp: dom_def)

lemma insert_unique_values:
  assumes "insert_unique ins get key ok xs empty = Some m"
  shows "set (map snd (entries m)) = set xs"
  using insert_unique_index [OF assms]
    entries_get [OF insert_unique_Some(1) [OF assms invar_empty]]
  by force

end

text \<open>\<open>BTreeMap::remove\<close>.\<close>

locale removable_map = ordered_map empty ins get entries invar
  for empty :: "'m"
    and ins :: "'k::linorder \<Rightarrow> 'v \<Rightarrow> 'm \<Rightarrow> 'm"
    and get :: "'m \<Rightarrow> 'k \<Rightarrow> 'v option"
    and entries :: "'m \<Rightarrow> ('k \<times> 'v) list"
    and invar :: "'m \<Rightarrow> bool" +
  fixes del :: "'k \<Rightarrow> 'm \<Rightarrow> 'm"
  assumes get_del: "invar m \<Longrightarrow> get (del k m) = (get m)(k := None)"
    and invar_del: "invar m \<Longrightarrow> invar (del k m)"
begin

lemma keys_of_del: "invar m \<Longrightarrow> set (map fst (entries (del k m))) = set (map fst (entries m)) - {k}"
  using keys_of_entries [of m] keys_of_entries [of "del k m"] by (simp add: invar_del get_del)

lemma keys_of_ins: "invar m \<Longrightarrow> set (map fst (entries (ins k v m))) = insert k (set (map fst (entries m)))"
  using keys_of_entries [of m] keys_of_entries [of "ins k v m"] by (simp add: invar_ins get_ins)

end

lemma btree_insert_keys: "fst ` set (btree_insert k v m) = insert k (fst ` set m)"
  by (induction k v m rule: btree_insert.induct) auto

lemma btree_insert_invar: "btree_invar m \<Longrightarrow> btree_invar (btree_insert k v m)"
  unfolding btree_invar_def
proof (induction k v m rule: btree_insert.induct)
  case (2 k v k' v' m)
  then show ?case
    by (auto simp: btree_insert_keys ball_simps simp flip: set_map)
      (use btree_insert_keys [of k v m] in force)+
qed simp

lemma btree_get_insert:
  "btree_invar m \<Longrightarrow> btree_get (btree_insert k v m) = (btree_get m)(k \<mapsto> v)"
  unfolding btree_invar_def btree_get_def
  by (induction k v m rule: btree_insert.induct) (auto simp: fun_eq_iff)

interpretation btree: ordered_map "[]" btree_insert btree_get "\<lambda>m. m" btree_invar
proof unfold_locales
  fix m :: "('k::linorder \<times> 'v) list" and k v
  assume "btree_invar m"
  then have "distinct (map fst m)"
    by (simp add: btree_invar_def strict_sorted_iff)
  then show "(k, v) \<in> set m \<longleftrightarrow> btree_get m k = Some v"
    by (simp add: btree_get_def)
qed (simp_all add: btree_get_insert btree_insert_invar, simp_all add: btree_get_def btree_invar_def)

lemma btree_get_remove: "btree_get (btree_remove k m) = (btree_get m)(k := None)"
  unfolding btree_get_def btree_remove_def by (induction m) (auto simp: fun_eq_iff)

lemma btree_remove_invar: "btree_invar m \<Longrightarrow> btree_invar (btree_remove k m)"
  unfolding btree_invar_def btree_remove_def by (induction m) (auto simp: sorted_wrt_filter)

interpretation btree: removable_map "[]" btree_insert btree_get "\<lambda>m. m" btree_invar btree_remove
  by unfold_locales (simp_all add: btree_get_remove btree_remove_invar)

end
