(* ===== verification/Wb_Decision.thy ===== *)
theory Wb_Decision
  imports Wb_Policy Ordered_Map
begin

text \<open>
  The decision engine of the Wildberries advertising robot,
  \<open>evaluate_wb_automation\<close> in \<open>src/src/control/automation.rs\<close>, with the observation
  check of \<open>automation/observation.rs\<close> and the floor repair of
  \<open>automation/corridor.rs\<close>. A missing key of \<open>observations[nm_id]\<close> panics in the
  source and is a panic here.
\<close>


section \<open>Data\<close>

datatype hold_reason =
    AuthorizationNotActive
  | AuthorizationExpired
  | PolicyShadowOnly
  | BidWritesDisabled
  | ObserveOnly
  | AttributionIncomplete
  | CampaignNotActive
  | ProtectivePauseRequiresApproval
  | SpendDataIncomplete
  | BudgetExhausted
  | ActionQuotaExhausted
  | CooldownActive
  | TrafficFeedbackPending
  | NoMaterialChange

datatype bid_reason =
    PolicyMaximumExceeded
  | PolicyMinimumNotMet
  | TargetDrrExceeded
  | NoOrdersAfterClicks
  | EfficientSales
  | LowExposureExploration
  | ExplicitExposureTarget
  | AutonomousExposurePacing
  | TrafficFrontierBootstrap
  | TrafficFrontierIncrease
  | TrafficFrontierRetentionDecrease
  | LowStockGuard
  | NoOrdersHardStop
  | HardDrrExceeded

datatype disable_reason =
    DisableLowStock
  | DisableNoOrdersHardStop
  | DisableHardDrrExceeded

record wb_campaign_metrics =
  m_impressions :: u64
  m_clicks :: u64
  m_spend_minor :: u64
  m_attributed_orders :: u64
  m_attributed_revenue_minor :: u64

record wb_sku_observation =
  s_nm_id :: u64
  s_minimum_bid_kopecks :: u64
  s_current_bid_kopecks :: u64
  s_sellable_stock :: u64
  s_impressions :: u64
  s_clicks :: u64
  s_spend_minor :: u64
  s_attributed_orders :: u64
  s_attributed_revenue_minor :: u64

record wb_observation =
  o_observed_at :: instant
  o_campaign_status :: int
  o_paused_by_automation :: bool
  o_budget_remaining_minor :: u64
  o_daily_spend_minor :: u64
  o_daily_spend_complete :: bool
  o_actions_today :: u32
  o_last_action_at :: "instant option"
  o_attribution_complete :: bool
  o_campaign_level_metrics :: "wb_campaign_metrics option"
  o_current_campaign_metrics :: "wb_campaign_metrics option"
  o_skus :: "wb_sku_observation list"

record wb_bid_change =
  c_nm_id :: u64
  c_from_bid_kopecks :: u64
  c_to_bid_kopecks :: u64
  c_reason :: bid_reason

record wb_sku_stop =
  st_nm_id :: u64
  st_reason :: disable_reason

datatype wb_action =
    Hold hold_reason
  | ChangeBids "wb_bid_change list"
  | DisableSku u64 disable_reason
  | PauseCampaignForDailyCap
  | ResumeCampaignAfterDailyCap

record wb_decision =
  d_account_id :: string
  d_campaign_id :: u64
  d_observed_at :: instant
  d_action :: wb_action
  d_unresolved_stops :: "wb_sku_stop list"

type_synonym sku_index = "(u64 \<times> wb_sku_observation) list"
type_synonym stop_index = "(u64 \<times> disable_reason) list"
type_synonym 'a decided = "(wb_decision_error, 'a) result"

definition ACTIVE_CAMPAIGN_STATUS :: int where
  "ACTIVE_CAMPAIGN_STATUS = 9"

definition PAUSED_CAMPAIGN_STATUS :: int where
  "PAUSED_CAMPAIGN_STATUS = 11"

lemmas status_defs = ACTIVE_CAMPAIGN_STATUS_def PAUSED_CAMPAIGN_STATUS_def

definition BASIS_POINTS :: u128 where
  "BASIS_POINTS = 10000"


section \<open>The observation check\<close>

definition sku_observation_ok :: "wb_policy \<Rightarrow> wb_sku_observation \<Rightarrow> bool" where
  "sku_observation_ok p s \<longleftrightarrow>
     s_nm_id s \<noteq> 0 \<and>
     (1 \<le> s_minimum_bid_kopecks s \<and> s_minimum_bid_kopecks s \<le> p_max_bid_kopecks p) \<and>
     s_current_bid_kopecks s \<noteq> 0 \<and>
     s_clicks s \<le> s_impressions s"

definition validate_observation :: "wb_policy \<Rightarrow> wb_observation \<Rightarrow> sku_index decided" where
  "validate_observation p ob =
     (if (case o_last_action_at ob of None \<Rightarrow> False | Some t \<Rightarrow> o_observed_at ob < t) \<or>
         (o_attribution_complete ob \<and> o_campaign_level_metrics ob \<noteq> None) \<or>
         list_ex (\<lambda>m. m_impressions m < m_clicks m)
           (filter_map (\<lambda>m. m) [o_campaign_level_metrics ob, o_current_campaign_metrics ob])
      then Error InvalidObservation
      else case insert_unique btree_insert btree_get s_nm_id (sku_observation_ok p)
                  (o_skus ob) [] of
        None \<Rightarrow> Error InvalidObservation
      | Some obs \<Rightarrow>
          if set (p_nm_ids p) \<noteq> set (btree_keys obs) then Error InvalidObservation
          else Ok obs)"


section \<open>Arithmetic\<close>

definition effective_minimum_bid :: "wb_policy \<Rightarrow> wb_sku_observation \<Rightarrow> u64" where
  "effective_minimum_bid p s = max (p_min_bid_kopecks p) (s_minimum_bid_kopecks s)"

definition ratio_basis_points :: "u64 \<Rightarrow> u64 \<Rightarrow> u32 decided" where
  "ratio_basis_points numerator denominator =
     and_then (ok_or (checked_mul (widen numerator) BASIS_POINTS) Overflow) (\<lambda>scaled.
     and_then (or_panic (checked_div scaled (widen denominator))) (\<lambda>value.
     ok_or (try_from value) Overflow))"

definition drr_basis_points_from :: "u64 \<Rightarrow> u64 \<Rightarrow> u32 option decided" where
  "drr_basis_points_from spend revenue =
     (if revenue = 0 then Ok None
      else and_then (ratio_basis_points spend revenue) (\<lambda>v. Ok (Some v)))"

definition drr_basis_points :: "wb_sku_observation \<Rightarrow> u32 option decided" where
  "drr_basis_points s = drr_basis_points_from (s_spend_minor s) (s_attributed_revenue_minor s)"

definition conversion_basis_points_from :: "u64 \<Rightarrow> u64 \<Rightarrow> u32 decided" where
  "conversion_basis_points_from orders clicks =
     (if clicks = 0 then Ok 0 else ratio_basis_points orders clicks)"

definition conversion_basis_points :: "wb_sku_observation \<Rightarrow> u32 decided" where
  "conversion_basis_points s =
     conversion_basis_points_from (s_attributed_orders s) (s_clicks s)"

definition increase_bid :: "wb_policy \<Rightarrow> u64 \<Rightarrow> u64 \<Rightarrow> u64 decided" where
  "increase_bid p current minimum =
     and_then (ok_or (checked_mul current (ucast (p_bid_step_percent p))) Overflow) (\<lambda>scaled.
     let delta = scaled div 100
     in and_then (ok_or (checked_add current (max delta 1)) Overflow) (\<lambda>value.
        Ok (min (max value minimum) (p_max_bid_kopecks p))))"

definition decrease_bid :: "wb_policy \<Rightarrow> u64 \<Rightarrow> u64 \<Rightarrow> u64" where
  "decrease_bid p current minimum =
     (let delta = saturating_mul current (ucast (p_bid_step_percent p)) div 100
      in max (saturating_sub current (max delta 1)) minimum)"


section \<open>Guards and per-SKU rules\<close>

definition campaign_gate :: "wb_policy \<Rightarrow> wb_observation \<Rightarrow> wb_action option" where
  "campaign_gate p ob =
     (if o_observed_at ob < p_authorized_at p then Some (Hold AuthorizationNotActive)
      else if p_authorization_expires_at p \<le> o_observed_at ob
      then Some (Hold AuthorizationExpired)
      else if \<not> p_write_enabled p then Some (Hold PolicyShadowOnly)
      else if o_observed_at ob < p_observe_until p then Some (Hold ObserveOnly)
      else if o_budget_remaining_minor ob = 0 then Some (Hold BudgetExhausted)
      else if \<not> o_daily_spend_complete ob then Some (Hold SpendDataIncomplete)
      else if o_campaign_status ob = ACTIVE_CAMPAIGN_STATUS \<and>
              p_daily_pause_threshold_minor p \<le> o_daily_spend_minor ob
      then Some PauseCampaignForDailyCap
      else if o_campaign_status ob = PAUSED_CAMPAIGN_STATUS \<and> o_paused_by_automation ob
      then Some (Hold ProtectivePauseRequiresApproval)
      else if o_campaign_status ob \<noteq> ACTIVE_CAMPAIGN_STATUS
      then Some (Hold CampaignNotActive)
      else if p_max_actions_per_day p \<le> o_actions_today ob
      then Some (Hold ActionQuotaExhausted)
      else if (case o_last_action_at ob of
                 None \<Rightarrow> False
               | Some last_action \<Rightarrow>
                   o_observed_at ob < last_action + seconds (uint (p_cooldown_seconds p)))
      then Some (Hold CooldownActive)
      else None)"

definition stop_reason :: "wb_policy \<Rightarrow> wb_sku_observation \<Rightarrow> disable_reason option decided"
where
  "stop_reason p s =
     (if s_sellable_stock s \<le> p_min_sellable_stock p then Ok (Some DisableLowStock)
      else if s_attributed_orders s = 0 \<and>
              (p_no_order_disable_clicks p \<le> s_clicks s \<or>
               p_no_order_disable_spend_minor p \<le> s_spend_minor s)
      then Ok (Some DisableNoOrdersHardStop)
      else and_then (drr_basis_points s) (\<lambda>drr.
        Ok (case drr of
              None \<Rightarrow> None
            | Some v \<Rightarrow>
                if p_hard_drr_basis_points p < v then Some DisableHardDrrExceeded
                else None)))"

fun sku_stops_loop ::
  "wb_policy \<Rightarrow> sku_index \<Rightarrow> u64 list \<Rightarrow> stop_index \<Rightarrow> stop_index decided" where
  "sku_stops_loop p obs [] stops = Ok stops"
| "sku_stops_loop p obs (nm_id # nm_ids) stops =
     and_then (or_panic (btree_get obs nm_id)) (\<lambda>s.
     and_then (stop_reason p s) (\<lambda>reason.
     sku_stops_loop p obs nm_ids
       (case reason of None \<Rightarrow> stops | Some r \<Rightarrow> btree_insert nm_id r stops)))"

definition sku_stops :: "wb_policy \<Rightarrow> sku_index \<Rightarrow> stop_index decided" where
  "sku_stops p obs = sku_stops_loop p obs (p_nm_ids p) []"

text \<open>The rule and direction a SKU qualifies for; \<open>True\<close> raises the bid.\<close>

definition bid_rule :: "wb_policy \<Rightarrow> wb_sku_observation \<Rightarrow> (bid_reason \<times> bool) option decided"
where
  "bid_rule p s =
     and_then (drr_basis_points s) (\<lambda>drr.
     if s_attributed_orders s = 0 \<and> p_no_order_reduce_clicks p \<le> s_clicks s
     then Ok (Some (NoOrdersAfterClicks, False))
     else if (case drr of None \<Rightarrow> False | Some v \<Rightarrow> p_target_drr_basis_points p < v)
     then Ok (Some (TargetDrrExceeded, False))
     else and_then
       (if p_efficient_min_orders p \<le> s_attributed_orders s
        then and_then (conversion_basis_points s) (\<lambda>conversion.
          Ok (p_efficient_min_conversion_basis_points p \<le> conversion \<and>
              (case drr of None \<Rightarrow> False | Some v \<Rightarrow> v \<le> p_target_drr_basis_points p)))
        else Ok False) (\<lambda>efficient.
     if efficient then Ok (Some (EfficientSales, True))
     else if s_impressions s < p_low_exposure_max_impressions p \<and>
             s_clicks s < p_low_exposure_max_clicks p
     then Ok (Some (LowExposureExploration, True))
     else Ok None))"

definition bid_change :: "wb_policy \<Rightarrow> wb_sku_observation \<Rightarrow> wb_bid_change option decided" where
  "bid_change p s =
     and_then (bid_rule p s) (\<lambda>reason_and_direction.
     case reason_and_direction of
       None \<Rightarrow> Ok None
     | Some (reason, increase) \<Rightarrow>
         let minimum = effective_minimum_bid p s
         in and_then
              (if increase then increase_bid p (s_current_bid_kopecks s) minimum
               else Ok (decrease_bid p (s_current_bid_kopecks s) minimum)) (\<lambda>to_bid.
            let moves = to_bid \<noteq> s_current_bid_kopecks s \<and>
                        (s_current_bid_kopecks s < to_bid) = increase
            in Ok (if moves
                   then Some \<lparr>c_nm_id = s_nm_id s,
                              c_from_bid_kopecks = s_current_bid_kopecks s,
                              c_to_bid_kopecks = to_bid,
                              c_reason = reason\<rparr>
                   else None)))"

definition recover_minimum :: "wb_policy \<Rightarrow> wb_sku_observation list \<Rightarrow> wb_action option" where
  "recover_minimum p skus =
     map_option (\<lambda>s. ChangeBids [\<lparr>c_nm_id = s_nm_id s,
                                 c_from_bid_kopecks = s_current_bid_kopecks s,
                                 c_to_bid_kopecks = effective_minimum_bid p s,
                                 c_reason = PolicyMinimumNotMet\<rparr>])
       (min_by_key (\<lambda>s. (s_current_bid_kopecks s, s_nm_id s))
         (filter (\<lambda>s. p_min_sellable_stock p < s_sellable_stock s \<and>
                      s_current_bid_kopecks s < effective_minimum_bid p s) skus))"


section \<open>The evaluation\<close>

fun find_observed ::
  "sku_index \<Rightarrow> (wb_sku_observation \<Rightarrow> bool) \<Rightarrow> u64 list \<Rightarrow>
     wb_sku_observation option decided" where
  "find_observed obs P [] = Ok None"
| "find_observed obs P (nm_id # nm_ids) =
     and_then (or_panic (btree_get obs nm_id)) (\<lambda>s.
     if P s then Ok (Some s) else find_observed obs P nm_ids)"

fun low_stock_stops :: "wb_policy \<Rightarrow> sku_index \<Rightarrow> u64 list \<Rightarrow> wb_sku_stop list decided" where
  "low_stock_stops p obs [] = Ok []"
| "low_stock_stops p obs (nm_id # nm_ids) =
     and_then (or_panic (btree_get obs nm_id)) (\<lambda>s.
     and_then (low_stock_stops p obs nm_ids) (\<lambda>rest.
     Ok (if s_sellable_stock s \<le> p_min_sellable_stock p \<and>
            s_current_bid_kopecks s \<le> effective_minimum_bid p s
         then \<lparr>st_nm_id = nm_id, st_reason = DisableLowStock\<rparr> # rest
         else rest)))"

definition campaign_level_action ::
  "wb_policy \<Rightarrow> wb_observation \<Rightarrow> sku_index \<Rightarrow> (wb_action \<times> wb_sku_stop list) decided"
where
  "campaign_level_action p ob obs =
     (case o_campaign_level_metrics ob of
        None \<Rightarrow> Ok (Hold AttributionIncomplete, [])
      | Some _ \<Rightarrow>
          and_then (low_stock_stops p obs (p_nm_ids p)) (\<lambda>unresolved.
          and_then (find_observed obs
                     (\<lambda>s. s_sellable_stock s \<le> p_min_sellable_stock p \<and>
                          effective_minimum_bid p s < s_current_bid_kopecks s)
                     (p_nm_ids p)) (\<lambda>found.
          case found of
            Some s \<Rightarrow> Ok (DisableSku (s_nm_id s) DisableLowStock, unresolved)
          | None \<Rightarrow>
              (case recover_minimum p (btree_values obs) of
                 Some action \<Rightarrow> Ok (action, unresolved)
               | None \<Rightarrow>
                   if unresolved \<noteq> [] then Ok (Hold NoMaterialChange, unresolved)
                   else Ok (Hold AttributionIncomplete, [])))))"

fun floored_stops ::
  "wb_policy \<Rightarrow> sku_index \<Rightarrow> stop_index \<Rightarrow> u64 list \<Rightarrow> wb_sku_stop list decided" where
  "floored_stops p obs stops [] = Ok []"
| "floored_stops p obs stops (nm_id # nm_ids) =
     (case btree_get stops nm_id of
        None \<Rightarrow> floored_stops p obs stops nm_ids
      | Some reason \<Rightarrow>
          and_then (or_panic (btree_get obs nm_id)) (\<lambda>s.
          and_then (floored_stops p obs stops nm_ids) (\<lambda>rest.
          Ok (if s_current_bid_kopecks s \<le> effective_minimum_bid p s
              then \<lparr>st_nm_id = nm_id, st_reason = reason\<rparr> # rest
              else rest))))"

fun first_actionable_stop ::
  "wb_policy \<Rightarrow> sku_index \<Rightarrow> stop_index \<Rightarrow> u64 list \<Rightarrow>
     (u64 \<times> disable_reason) option decided" where
  "first_actionable_stop p obs stops [] = Ok None"
| "first_actionable_stop p obs stops (nm_id # nm_ids) =
     (case btree_get stops nm_id of
        None \<Rightarrow> first_actionable_stop p obs stops nm_ids
      | Some reason \<Rightarrow>
          and_then (or_panic (btree_get obs nm_id)) (\<lambda>s.
          if effective_minimum_bid p s < s_current_bid_kopecks s
          then Ok (Some (nm_id, reason))
          else first_actionable_stop p obs stops nm_ids))"

fun bid_changes ::
  "wb_policy \<Rightarrow> sku_index \<Rightarrow> stop_index \<Rightarrow> u64 list \<Rightarrow> wb_bid_change list decided" where
  "bid_changes p obs stops [] = Ok []"
| "bid_changes p obs stops (nm_id # nm_ids) =
     (if btree_get stops nm_id \<noteq> None then bid_changes p obs stops nm_ids
      else
        and_then (or_panic (btree_get obs nm_id)) (\<lambda>s.
        and_then (bid_change p s) (\<lambda>change.
        and_then (bid_changes p obs stops nm_ids) (\<lambda>rest.
        Ok (case change of None \<Rightarrow> rest | Some c \<Rightarrow> c # rest)))))"

definition sku_level_action ::
  "wb_policy \<Rightarrow> sku_index \<Rightarrow> (wb_action \<times> wb_sku_stop list) decided" where
  "sku_level_action p obs =
     and_then (sku_stops p obs) (\<lambda>stops.
     and_then (floored_stops p obs stops (p_nm_ids p)) (\<lambda>unresolved.
     and_then (first_actionable_stop p obs stops (p_nm_ids p)) (\<lambda>stop.
     case stop of
       Some (nm_id, reason) \<Rightarrow> Ok (DisableSku nm_id reason, unresolved)
     | None \<Rightarrow>
         (case recover_minimum p
                 (filter (\<lambda>s. btree_get stops (s_nm_id s) = None) (btree_values obs)) of
            Some action \<Rightarrow> Ok (action, unresolved)
          | None \<Rightarrow>
              and_then (bid_changes p obs stops (p_nm_ids p)) (\<lambda>changes.
              Ok (if take 1 changes = [] then Hold NoMaterialChange
                  else ChangeBids (take 1 changes), unresolved))))))"

definition evaluate_action ::
  "wb_policy \<Rightarrow> wb_observation \<Rightarrow> sku_index \<Rightarrow> (wb_action \<times> wb_sku_stop list) decided" where
  "evaluate_action p ob obs =
     (case campaign_gate p ob of
        Some action \<Rightarrow> Ok (action, [])
      | None \<Rightarrow>
          if \<not> p_bid_writes_enabled p then Ok (Hold BidWritesDisabled, [])
          else
            and_then (find_observed obs
                       (\<lambda>s. p_max_bid_kopecks p < s_current_bid_kopecks s)
                       (p_nm_ids p)) (\<lambda>over.
            case over of
              Some s \<Rightarrow>
                Ok (ChangeBids [\<lparr>c_nm_id = s_nm_id s,
                                 c_from_bid_kopecks = s_current_bid_kopecks s,
                                 c_to_bid_kopecks = p_max_bid_kopecks p,
                                 c_reason = PolicyMaximumExceeded\<rparr>], [])
            | None \<Rightarrow>
                if \<not> o_attribution_complete ob then campaign_level_action p ob obs
                else sku_level_action p obs))"

definition evaluate_wb_automation :: "wb_policy \<Rightarrow> wb_observation \<Rightarrow> wb_decision decided" where
  "evaluate_wb_automation p ob =
     and_then (validate_policy p) (\<lambda>_.
     and_then (validate_observation p ob) (\<lambda>obs.
     and_then (evaluate_action p ob obs) (\<lambda>(action, unresolved).
     Ok \<lparr>d_account_id = p_account_id p,
         d_campaign_id = p_campaign_id p,
         d_observed_at = o_observed_at ob,
         d_action = action,
         d_unresolved_stops = unresolved\<rparr>)))"

end
