(* ===== verification/Wb_Decision_Facts.thy ===== *)
theory Wb_Decision_Facts
  imports Wb_Decision
begin

text \<open>
  Facts about the decision engine that its properties and its clients share: the arithmetic
  of bids and rates without panics, and the case rules that say where an action of
  \<open>evaluate_wb_automation\<close> comes from.
\<close>


section \<open>Arithmetic\<close>

lemma unat_step_percent: "unat (ucast (a :: u8) :: u64) = unat a"
proof -
  have "unat a < 2 ^ 64"
    by (rule less_trans [OF u8_bound]) simp
  then show ?thesis
    by (simp add: unsigned_ucast_eq take_bit_nat_eq_self)
qed

lemma unat_BASIS_POINTS: "unat BASIS_POINTS = 10000"
  by (simp add: BASIS_POINTS_def)

lemma unat_div_word: "unat (a div b) = unat a div unat b" for a b :: "'a::len word"
  by (rule unat_div)

lemma basis_points_product: "unat (a :: u64) * 10000 < 2 ^ 128"
  by (rule le_less_trans [of _ "18446744073709551615 * 10000"]) (use u64_bound [of a] in auto)

text \<open>The ratio is the exact floor of \<open>10000 * n / d\<close>, or the overflow error.\<close>

lemma ratio_basis_points_eq:
  assumes "d \<noteq> 0"
  shows "ratio_basis_points n d =
    (if unat n * 10000 div unat d < 2 ^ 32
     then Ok (word_of_nat (unat n * 10000 div unat d)) else Error Overflow)"
proof -
  have mul: "checked_mul (widen n) BASIS_POINTS = Some (widen n * BASIS_POINTS)"
    using basis_points_product [of n]
    by (simp add: checked_mul_def unat_widen unat_BASIS_POINTS)
  have val: "unat (widen n * BASIS_POINTS div widen d) = unat n * 10000 div unat d"
    using unat_checked_mul [OF mul] by (simp add: unat_div unat_widen unat_BASIS_POINTS)
  from assms have nz: "widen d \<noteq> 0"
    using unat_widen [of d] by (metis unat_0 unat_eq_zero)
  have cast: "(ucast v :: u32) = word_of_nat (unat v)" for v :: u128
    by simp
  show ?thesis
    using nz by (simp add: ratio_basis_points_def mul checked_div_def try_from_def val cast)
qed

lemma ratio_basis_points_Ok:
  assumes "ratio_basis_points n d = Inr v" and "d \<noteq> 0"
  shows "unat v = unat n * 10000 div unat d"
  using assms by (auto simp: ratio_basis_points_eq unat_of_nat split: if_splits)

lemma ratio_basis_points_no_panic: "d \<noteq> 0 \<Longrightarrow> ratio_basis_points n d \<noteq> Inl Panic"
  by (simp add: ratio_basis_points_eq)

lemma drr_no_panic [simp]: "drr_basis_points s \<noteq> Inl Panic"
  by (auto simp: drr_basis_points_def drr_basis_points_from_def result_elim
      ratio_basis_points_no_panic)

lemma conversion_no_panic [simp]: "conversion_basis_points s \<noteq> Inl Panic"
  by (auto simp: conversion_basis_points_def conversion_basis_points_from_def
      ratio_basis_points_no_panic)

lemma increase_bid_value:
  assumes "increase_bid p c m = Inr t"
  shows "unat t = min (max (unat c + max (unat c * unat (p_bid_step_percent p) div 100) 1)
      (unat m)) (unat (p_max_bid_kopecks p))"
proof -
  from assms obtain scaled raised
    where scaled: "checked_mul c (ucast (p_bid_step_percent p)) = Some scaled"
      and add: "checked_add c (max (scaled div 100) 1) = Some raised"
      and t: "t = min (max raised m) (p_max_bid_kopecks p)"
    by (auto simp: increase_bid_def Let_def result_elim)
  from scaled have "unat scaled = unat c * unat (p_bid_step_percent p)"
    by (simp add: unat_checked_mul unat_step_percent)
  with add have "unat raised = unat c + max (unat c * unat (p_bid_step_percent p) div 100) 1"
    by (simp add: unat_checked_add unat_max unat_div)
  with t show ?thesis
    by (simp add: unat_min unat_max)
qed

lemma increase_bid_range:
  assumes "increase_bid p c m = Inr t"
  shows "t \<le> p_max_bid_kopecks p"
    and "m \<le> p_max_bid_kopecks p \<Longrightarrow> m \<le> t"
    and "c < p_max_bid_kopecks p \<Longrightarrow> c < t"
  using increase_bid_value [OF assms] by (auto simp: word_le_nat_alt word_less_nat_alt)

lemma increase_bid_no_panic [simp]: "increase_bid p c m \<noteq> Inl Panic"
  by (auto simp: increase_bid_def Let_def result_elim)

lemma decrease_bid_range:
  shows "m \<le> decrease_bid p c m"
    and "m < c \<Longrightarrow> decrease_bid p c m < c"
    and "c \<le> b \<Longrightarrow> m \<le> b \<Longrightarrow> decrease_bid p c m \<le> b"
proof -
  let ?d = "max (saturating_mul c (ucast (p_bid_step_percent p)) div 100) 1"
  have val: "unat (decrease_bid p c m) = max (unat c - unat ?d) (unat m)"
    by (simp add: decrease_bid_def Let_def unat_max unat_saturating_sub)
  have "1 \<le> unat ?d"
    by (simp add: unat_max)
  with val show "m \<le> decrease_bid p c m"
    and "m < c \<Longrightarrow> decrease_bid p c m < c"
    and "c \<le> b \<Longrightarrow> m \<le> b \<Longrightarrow> decrease_bid p c m \<le> b"
    by (auto simp: word_le_nat_alt word_less_nat_alt)
qed

section \<open>The observation index\<close>

lemma validate_observation_no_panic [simp]: "validate_observation p ob \<noteq> Inl Panic"
  by (auto simp: validate_observation_def split: option.splits)

lemma validate_observationD:
  assumes "validate_observation p ob = Inr obs"
  shows "btree_get obs k = Some s \<longleftrightarrow> s \<in> set (o_skus ob) \<and> s_nm_id s = k"
    and "set (btree_values obs) = set (o_skus ob)"
    and "k \<in> set (p_nm_ids p) \<longleftrightarrow> btree_get obs k \<noteq> None"
    and "distinct (map s_nm_id (o_skus ob))"
    and "list_all (sku_observation_ok p) (o_skus ob)"
proof -
  from assms have run:
    "insert_unique btree_insert btree_get s_nm_id (sku_observation_ok p) (o_skus ob) [] = Some obs"
    and keys: "set (p_nm_ids p) = set (btree_keys obs)"
    by (auto simp: validate_observation_def split: if_splits option.splits)
  show index: "btree_get obs k = Some s \<longleftrightarrow> s \<in> set (o_skus ob) \<and> s_nm_id s = k" for k s
    by (rule btree.insert_unique_index [OF run])
  show "set (btree_values obs) = set (o_skus ob)"
    using btree.insert_unique_values [OF run] by (simp add: btree_values_def)
  show "k \<in> set (p_nm_ids p) \<longleftrightarrow> btree_get obs k \<noteq> None"
    using keys btree.insert_unique_keys [OF run] index by (auto simp: btree_keys_def)
  show "distinct (map s_nm_id (o_skus ob))"
    and "list_all (sku_observation_ok p) (o_skus ob)"
    using btree.insert_unique_Some [OF run btree.invar_empty] by auto
qed

lemma observed_sku_ok:
  assumes "validate_observation p ob = Inr obs" and "s \<in> set (o_skus ob)"
  shows "sku_observation_ok p s"
  using validate_observationD(5) [OF assms(1)] assms(2) by (auto simp: list_all_iff)

lemma effective_minimum_le_max:
  assumes "policy_ok p" and "sku_observation_ok p s"
  shows "effective_minimum_bid p s \<le> p_max_bid_kopecks p"
  using policy_bid_bounds(2) [OF assms(1)] assms(2)
  by (simp add: effective_minimum_bid_def sku_observation_ok_def)


section \<open>Searches over the index\<close>

lemma find_observed_Some:
  assumes "find_observed obs P ks = Inr (Some s)"
  shows "\<exists>k \<in> set ks. btree_get obs k = Some s \<and> P s"
  using assms by (induction ks) (auto simp: result_elim split: if_splits)

lemma find_observed_None:
  assumes "find_observed obs P ks = Inr None" and "k \<in> set ks" and "btree_get obs k = Some s"
  shows "\<not> P s"
  using assms by (induction ks) (auto simp: result_elim split: if_splits)

lemma find_observed_total:
  assumes "\<forall>k \<in> set ks. btree_get obs k \<noteq> None"
  shows "\<exists>r. find_observed obs P ks = Inr r"
  using assms by (induction ks) auto

lemma low_stock_stops_mem:
  assumes "low_stock_stops p obs ks = Inr stops"
  shows "stop \<in> set stops \<longleftrightarrow> st_reason stop = DisableLowStock \<and> st_nm_id stop \<in> set ks \<and>
    (\<exists>s. btree_get obs (st_nm_id stop) = Some s \<and>
      s_sellable_stock s \<le> p_min_sellable_stock p \<and>
      s_current_bid_kopecks s \<le> effective_minimum_bid p s)"
  using assms
proof (induction ks arbitrary: stops)
  case Nil
  then show ?case by simp
next
  case (Cons k ks)
  then show ?case
    by (cases stop) (auto simp: result_elim split: if_splits)
qed

lemma low_stock_stops_total:
  assumes "\<forall>k \<in> set ks. btree_get obs k \<noteq> None"
  shows "\<exists>r. low_stock_stops p obs ks = Inr r"
  using assms by (induction ks) auto

lemma floored_stops_mem:
  assumes "floored_stops p obs stops ks = Inr out"
  shows "stop \<in> set out \<longleftrightarrow> st_nm_id stop \<in> set ks \<and>
    btree_get stops (st_nm_id stop) = Some (st_reason stop) \<and>
    (\<exists>s. btree_get obs (st_nm_id stop) = Some s \<and>
      s_current_bid_kopecks s \<le> effective_minimum_bid p s)"
  using assms
proof (induction ks arbitrary: out)
  case Nil
  then show ?case by simp
next
  case (Cons k ks)
  then show ?case
    by (cases stop) (auto simp: result_elim split: if_splits option.splits)
qed

lemma floored_stops_total:
  assumes "\<forall>k \<in> set ks. btree_get obs k \<noteq> None"
  shows "\<exists>r. floored_stops p obs stops ks = Inr r"
  using assms by (induction ks) (auto split: option.splits)

lemma first_actionable_stop_Some:
  assumes "first_actionable_stop p obs stops ks = Inr (Some (k, r))"
  shows "k \<in> set ks \<and> btree_get stops k = Some r \<and>
    (\<exists>s. btree_get obs k = Some s \<and> effective_minimum_bid p s < s_current_bid_kopecks s)"
  using assms by (induction ks) (auto simp: result_elim split: if_splits option.splits)

lemma first_actionable_stop_None:
  assumes "first_actionable_stop p obs stops ks = Inr None"
    and "k \<in> set ks" and "btree_get stops k \<noteq> None" and "btree_get obs k = Some s"
  shows "s_current_bid_kopecks s \<le> effective_minimum_bid p s"
  using assms by (induction ks) (auto simp: result_elim not_less split: if_splits option.splits)

lemma first_actionable_stop_total:
  assumes "\<forall>k \<in> set ks. btree_get obs k \<noteq> None"
  shows "\<exists>r. first_actionable_stop p obs stops ks = Inr r"
  using assms by (induction ks) (auto split: option.splits)

lemma bid_changes_mem:
  assumes "bid_changes p obs stops ks = Inr cs" and "c \<in> set cs"
  shows "\<exists>k s. k \<in> set ks \<and> btree_get obs k = Some s \<and> btree_get stops k = None \<and>
    bid_change p s = Inr (Some c)"
  using assms
proof (induction ks arbitrary: cs)
  case Nil
  then show ?case by simp
next
  case (Cons k ks)
  then show ?case
    by (auto simp: result_elim split: if_splits option.splits) blast+
qed

lemma stop_reason_no_panic [simp]: "stop_reason p s \<noteq> Inl Panic"
  by (auto simp: stop_reason_def result_elim)

lemma bid_rule_no_panic [simp]: "bid_rule p s \<noteq> Inl Panic"
  by (auto simp: bid_rule_def result_elim split: if_splits)

lemma bid_change_no_panic [simp]: "bid_change p s \<noteq> Inl Panic"
  by (auto simp: bid_change_def result_elim Let_def split: if_splits option.splits prod.splits)

lemma bid_changes_no_panic:
  assumes "\<forall>k \<in> set ks. btree_get obs k \<noteq> None"
  shows "bid_changes p obs stops ks \<noteq> Inl Panic"
  using assms by (induction ks) (auto simp: result_elim)

lemma sku_stops_loop_no_panic:
  assumes "\<forall>k \<in> set ks. btree_get obs k \<noteq> None"
  shows "sku_stops_loop p obs ks stops \<noteq> Inl Panic"
  using assms by (induction ks arbitrary: stops) (auto simp: result_elim)

lemma sku_stops_loop_get:
  assumes "sku_stops_loop p obs ks stops = Inr out" and "btree_invar stops"
    and "distinct ks" and "\<forall>k \<in> set ks. btree_get stops k = None"
  shows "btree_get out k = Some r \<longleftrightarrow> btree_get stops k = Some r \<or>
    (k \<in> set ks \<and> (\<exists>s. btree_get obs k = Some s \<and> stop_reason p s = Inr (Some r)))"
  using assms
proof (induction ks arbitrary: stops)
  case Nil
  then show ?case by simp
next
  case (Cons j ks)
  then obtain s reason where s: "btree_get obs j = Some s" "stop_reason p s = Inr reason"
    and rest: "sku_stops_loop p obs ks
      (case reason of None \<Rightarrow> stops | Some r \<Rightarrow> btree_insert j r stops) = Inr out"
    by (auto simp: result_elim)
  let ?next = "case reason of None \<Rightarrow> stops | Some r \<Rightarrow> btree_insert j r stops"
  have inv: "btree_invar ?next"
    using Cons.prems(2) by (simp add: btree_insert_invar split: option.splits)
  have get: "btree_get ?next = (case reason of None \<Rightarrow> btree_get stops
      | Some r \<Rightarrow> (btree_get stops)(j \<mapsto> r))"
    using Cons.prems(2) by (simp add: btree_get_insert split: option.splits)
  have fresh: "\<forall>k \<in> set ks. btree_get ?next k = None"
    using Cons.prems(3,4) by (auto simp: get split: option.splits)
  from Cons.IH [OF rest inv _ fresh] Cons.prems(3,4) s show ?case
    by (auto simp: get split: option.splits if_splits)
qed

lemma sku_stops_get:
  assumes "sku_stops p obs = Inr stops" and "policy_ok p"
  shows "btree_get stops k = Some r \<longleftrightarrow> k \<in> set (p_nm_ids p) \<and>
    (\<exists>s. btree_get obs k = Some s \<and> stop_reason p s = Inr (Some r))"
  using sku_stops_loop_get [OF assms(1) [unfolded sku_stops_def] btree.invar_empty
      policy_targets_distinct(1) [OF assms(2)]]
  by (simp add: btree.get_empty)


section \<open>What a decision may ask for\<close>

text \<open>
  The contract between a decision and the executor: a bid change names one observed SKU,
  starts from its observed bid, and ends inside the corridor between the effective
  minimum and the reviewed maximum.
\<close>

definition change_in_corridor :: "wb_policy \<Rightarrow> wb_observation \<Rightarrow> wb_bid_change \<Rightarrow> bool" where
  "change_in_corridor p ob c \<longleftrightarrow>
     (\<exists>s \<in> set (o_skus ob). s_nm_id s = c_nm_id c \<and>
        c_from_bid_kopecks c = s_current_bid_kopecks s \<and>
        effective_minimum_bid p s \<le> c_to_bid_kopecks c \<and>
        c_to_bid_kopecks c \<le> p_max_bid_kopecks p \<and>
        c_to_bid_kopecks c \<noteq> c_from_bid_kopecks c)"

fun action_in_corridor :: "wb_policy \<Rightarrow> wb_observation \<Rightarrow> wb_action \<Rightarrow> bool" where
  "action_in_corridor p ob (ChangeBids cs) =
     (length cs = 1 \<and> list_all (change_in_corridor p ob) cs)"
| "action_in_corridor p ob (DisableSku nm_id r) =
     (\<exists>s \<in> set (o_skus ob). s_nm_id s = nm_id \<and>
        effective_minimum_bid p s < s_current_bid_kopecks s)"
| "action_in_corridor p ob _ = True"

text \<open>The direction every bid reason of the engine announces.\<close>

fun reason_raises :: "bid_reason \<Rightarrow> bool option" where
  "reason_raises PolicyMaximumExceeded = Some False"
| "reason_raises TargetDrrExceeded = Some False"
| "reason_raises NoOrdersAfterClicks = Some False"
| "reason_raises HardDrrExceeded = Some False"
| "reason_raises NoOrdersHardStop = Some False"
| "reason_raises LowStockGuard = Some False"
| "reason_raises TrafficFrontierRetentionDecrease = Some False"
| "reason_raises PolicyMinimumNotMet = Some True"
| "reason_raises EfficientSales = Some True"
| "reason_raises LowExposureExploration = Some True"
| "reason_raises ExplicitExposureTarget = Some True"
| "reason_raises AutonomousExposurePacing = Some True"
| "reason_raises TrafficFrontierBootstrap = Some True"
| "reason_raises TrafficFrontierIncrease = Some True"

definition change_moves_as_announced :: "wb_bid_change \<Rightarrow> bool" where
  "change_moves_as_announced c \<longleftrightarrow>
     reason_raises (c_reason c) = Some (c_from_bid_kopecks c < c_to_bid_kopecks c)"

lemma change_in_corridorI:
  assumes "s \<in> set (o_skus ob)"
    and "effective_minimum_bid p s \<le> to" and "to \<le> p_max_bid_kopecks p"
    and "to \<noteq> s_current_bid_kopecks s"
  shows "change_in_corridor p ob \<lparr>c_nm_id = s_nm_id s,
    c_from_bid_kopecks = s_current_bid_kopecks s, c_to_bid_kopecks = to, c_reason = r\<rparr>"
  using assms by (auto simp: change_in_corridor_def)

lemma bid_rule_direction:
  assumes "bid_rule p s = Inr (Some (reason, increase))"
  shows "reason_raises reason = Some increase"
  using assms by (auto simp: bid_rule_def result_elim split: if_splits)

lemma bid_change_SomeD:
  assumes "bid_change p s = Inr (Some c)"
  obtains reason increase to where
    "bid_rule p s = Inr (Some (reason, increase))"
    "c = \<lparr>c_nm_id = s_nm_id s, c_from_bid_kopecks = s_current_bid_kopecks s,
          c_to_bid_kopecks = to, c_reason = reason\<rparr>"
    "if increase
     then increase_bid p (s_current_bid_kopecks s) (effective_minimum_bid p s) = Inr to
     else to = decrease_bid p (s_current_bid_kopecks s) (effective_minimum_bid p s)"
    "to \<noteq> s_current_bid_kopecks s"
    "(s_current_bid_kopecks s < to) = increase"
proof -
  from assms obtain rule where rule: "bid_rule p s = Inr rule"
    by (auto simp: bid_change_def result_elim)
  with assms obtain reason increase where "rule = Some (reason, increase)"
    by (cases rule) (auto simp: bid_change_def)
  with assms rule that show ?thesis
    by (auto simp: bid_change_def result_elim Let_def split: if_splits)
qed

lemma bid_change_safe:
  assumes "bid_change p s = Inr (Some c)" and "policy_ok p" and "sku_observation_ok p s"
    and "s \<in> set (o_skus ob)" and "s_current_bid_kopecks s \<le> p_max_bid_kopecks p"
  shows "change_in_corridor p ob c" and "change_moves_as_announced c"
    and "c_nm_id c = s_nm_id s"
proof -
  from assms(1) obtain reason increase to where
    rule: "bid_rule p s = Inr (Some (reason, increase))"
    and c: "c = \<lparr>c_nm_id = s_nm_id s, c_from_bid_kopecks = s_current_bid_kopecks s,
          c_to_bid_kopecks = to, c_reason = reason\<rparr>"
    and step: "if increase
     then increase_bid p (s_current_bid_kopecks s) (effective_minimum_bid p s) = Inr to
     else to = decrease_bid p (s_current_bid_kopecks s) (effective_minimum_bid p s)"
    and moves: "to \<noteq> s_current_bid_kopecks s" "(s_current_bid_kopecks s < to) = increase"
    by (rule bid_change_SomeD)
  note min_max = effective_minimum_le_max [OF assms(2,3)]
  have "effective_minimum_bid p s \<le> to \<and> to \<le> p_max_bid_kopecks p"
  proof (cases increase)
    case True
    then show ?thesis using step increase_bid_range min_max by auto
  next
    case False
    then show ?thesis using step decrease_bid_range assms(5) min_max by auto
  qed
  with assms(4) moves(1) c show "change_in_corridor p ob c"
    by (auto intro: change_in_corridorI)
  show "change_moves_as_announced c"
    using bid_rule_direction [OF rule] moves(2) c by (simp add: change_moves_as_announced_def)
  show "c_nm_id c = s_nm_id s"
    using c by simp
qed

lemma recover_minimum_Some:
  assumes "recover_minimum p skus = Some a"
  obtains s where "s \<in> set skus"
    and "a = ChangeBids [\<lparr>c_nm_id = s_nm_id s, c_from_bid_kopecks = s_current_bid_kopecks s,
      c_to_bid_kopecks = effective_minimum_bid p s, c_reason = PolicyMinimumNotMet\<rparr>]"
    and "p_min_sellable_stock p < s_sellable_stock s"
    and "s_current_bid_kopecks s < effective_minimum_bid p s"
  using assms by (fastforce simp: recover_minimum_def dest: min_by_key_Some)

lemma recover_minimum_safe:
  assumes "recover_minimum p skus = Some a" and "set skus \<subseteq> set (o_skus ob)"
    and "policy_ok p" and "\<forall>s \<in> set (o_skus ob). sku_observation_ok p s"
  shows "action_in_corridor p ob a"
proof -
  from assms(1) obtain s where s: "s \<in> set skus"
    and a: "a = ChangeBids [\<lparr>c_nm_id = s_nm_id s, c_from_bid_kopecks = s_current_bid_kopecks s,
      c_to_bid_kopecks = effective_minimum_bid p s, c_reason = PolicyMinimumNotMet\<rparr>]"
    and low: "s_current_bid_kopecks s < effective_minimum_bid p s"
    by (rule recover_minimum_Some)
  with assms(2-4) have "effective_minimum_bid p s \<le> p_max_bid_kopecks p"
    by (auto intro: effective_minimum_le_max)
  with s a low assms(2) show ?thesis
    by (auto intro: change_in_corridorI)
qed

lemma campaign_gate_safe: "campaign_gate p ob = Some a \<Longrightarrow> action_in_corridor p ob a"
  by (auto simp: campaign_gate_def split: if_splits)

lemma evaluate_wb_automationD:
  assumes "evaluate_wb_automation p ob = Inr d"
  obtains obs where "policy_ok p" and "validate_observation p ob = Inr obs"
    and "evaluate_action p ob obs = Inr (d_action d, d_unresolved_stops d)"
    and "d_account_id d = p_account_id p" and "d_campaign_id d = p_campaign_id p"
    and "d_observed_at d = o_observed_at ob"
  using assms by (auto simp: evaluate_wb_automation_def result_elim)

lemma campaign_level_action_cases:
  assumes "campaign_level_action p ob obs = Inr (a, stops)"
  obtains (no_metrics) "o_campaign_level_metrics ob = None"
      and "a = Hold AttributionIncomplete" and "stops = []"
    | (disable) s where "low_stock_stops p obs (p_nm_ids p) = Inr stops"
      and "find_observed obs (\<lambda>s. s_sellable_stock s \<le> p_min_sellable_stock p \<and>
            effective_minimum_bid p s < s_current_bid_kopecks s) (p_nm_ids p) = Inr (Some s)"
      and "a = DisableSku (s_nm_id s) DisableLowStock"
    | (recover) "low_stock_stops p obs (p_nm_ids p) = Inr stops"
      and "recover_minimum p (btree_values obs) = Some a"
    | (nothing) "low_stock_stops p obs (p_nm_ids p) = Inr stops"
      and "recover_minimum p (btree_values obs) = None"
      and "a = (if stops \<noteq> [] then Hold NoMaterialChange else Hold AttributionIncomplete)"
proof (cases "o_campaign_level_metrics ob")
  case None
  with assms no_metrics show ?thesis by (simp add: campaign_level_action_def)
next
  case (Some m)
  with assms obtain low found where low: "low_stock_stops p obs (p_nm_ids p) = Inr low"
    and found: "find_observed obs (\<lambda>s. s_sellable_stock s \<le> p_min_sellable_stock p \<and>
        effective_minimum_bid p s < s_current_bid_kopecks s) (p_nm_ids p) = Inr found"
    by (auto simp: campaign_level_action_def result_elim)
  note unfolded = assms [unfolded campaign_level_action_def Some low found, simplified]
  show ?thesis
  proof (cases found)
    case None
    with low unfolded that(3,4) show ?thesis
      by (cases "recover_minimum p (btree_values obs)") (auto split: if_splits)
  next
    case (Some s)
    with low found unfolded disable show ?thesis by auto
  qed
qed

lemma campaign_level_action_safe:
  assumes "campaign_level_action p ob obs = Inr (a, stops)"
    and "validate_observation p ob = Inr obs" and "policy_ok p"
  shows "action_in_corridor p ob a"
proof -
  note index = validate_observationD [OF assms(2)]
  have ok: "\<forall>s \<in> set (o_skus ob). sku_observation_ok p s"
    using observed_sku_ok [OF assms(2)] by blast
  from assms(1) show ?thesis
  proof (cases rule: campaign_level_action_cases)
    case (disable s)
    then show ?thesis using index(1) by (auto dest!: find_observed_Some)
  next
    case recover
    show ?thesis
      by (rule recover_minimum_safe [OF recover(2) _ assms(3) ok]) (simp add: index(2))
  qed simp_all
qed

lemma sku_level_action_cases:
  assumes "sku_level_action p obs = Inr (a, out)"
  obtains (stop) stops nm_id reason where "sku_stops p obs = Inr stops"
      and "floored_stops p obs stops (p_nm_ids p) = Inr out"
      and "first_actionable_stop p obs stops (p_nm_ids p) = Inr (Some (nm_id, reason))"
      and "a = DisableSku nm_id reason"
    | (recover) stops where "sku_stops p obs = Inr stops"
      and "floored_stops p obs stops (p_nm_ids p) = Inr out"
      and "first_actionable_stop p obs stops (p_nm_ids p) = Inr None"
      and "recover_minimum p
        (filter (\<lambda>s. btree_get stops (s_nm_id s) = None) (btree_values obs)) = Some a"
    | (change) stops changes where "sku_stops p obs = Inr stops"
      and "floored_stops p obs stops (p_nm_ids p) = Inr out"
      and "first_actionable_stop p obs stops (p_nm_ids p) = Inr None"
      and "bid_changes p obs stops (p_nm_ids p) = Inr changes"
      and "a = (if take 1 changes = [] then Hold NoMaterialChange
                else ChangeBids (take 1 changes))"
proof -
  from assms obtain stops found where stops: "sku_stops p obs = Inr stops"
    and out: "floored_stops p obs stops (p_nm_ids p) = Inr out"
    and found: "first_actionable_stop p obs stops (p_nm_ids p) = Inr found"
    by (fastforce simp: sku_level_action_def result_elim split: option.splits)
  show ?thesis
  proof (cases found)
    case None
    with assms stops out found that(2,3) show ?thesis
      by (cases "recover_minimum p
          (filter (\<lambda>s. btree_get stops (s_nm_id s) = None) (btree_values obs))")
        (auto simp: sku_level_action_def result_elim)
  next
    case (Some x)
    with assms stops out found that(1) show ?thesis
      by (cases x) (auto simp: sku_level_action_def)
  qed
qed

lemma sku_level_action_safe:
  assumes "sku_level_action p obs = Inr (a, out)"
    and "validate_observation p ob = Inr obs" and "policy_ok p"
    and "\<forall>s \<in> set (o_skus ob). s_current_bid_kopecks s \<le> p_max_bid_kopecks p"
  shows "action_in_corridor p ob a"
proof -
  note index = validate_observationD [OF assms(2)]
  have ok: "\<forall>s \<in> set (o_skus ob). sku_observation_ok p s"
    using observed_sku_ok [OF assms(2)] by blast
  from assms(1) show ?thesis
  proof (cases rule: sku_level_action_cases)
    case (stop stops nm_id reason)
    then show ?thesis using index(1) first_actionable_stop_Some by fastforce
  next
    case (recover stops)
    show ?thesis
      by (rule recover_minimum_safe [OF recover(4) _ assms(3) ok]) (auto simp: index(2))
  next
    case (change stops changes)
    show ?thesis
    proof (cases changes)
      case Nil
      with change show ?thesis by simp
    next
      case (Cons c cs)
      with change(4) obtain k s where "btree_get obs k = Some s"
        and bid: "bid_change p s = Inr (Some c)"
        using bid_changes_mem by fastforce
      then have "s \<in> set (o_skus ob)" using index(1) by simp
      then have "change_in_corridor p ob c"
        using bid_change_safe(1) [OF bid assms(3)] ok assms(4) by blast
      with Cons change(5) show ?thesis by simp
    qed
  qed
qed

lemma evaluate_action_cases:
  assumes "evaluate_action p ob obs = Inr (a, out)"
  obtains (gate) "campaign_gate p ob = Some a" and "out = []"
    | (disabled) "campaign_gate p ob = None" and "\<not> p_bid_writes_enabled p"
      and "a = Hold BidWritesDisabled" and "out = []"
    | (over) s where "campaign_gate p ob = None" and "p_bid_writes_enabled p"
      and "find_observed obs (\<lambda>s. p_max_bid_kopecks p < s_current_bid_kopecks s)
            (p_nm_ids p) = Inr (Some s)"
      and "a = ChangeBids [\<lparr>c_nm_id = s_nm_id s, c_from_bid_kopecks = s_current_bid_kopecks s,
            c_to_bid_kopecks = p_max_bid_kopecks p, c_reason = PolicyMaximumExceeded\<rparr>]"
      and "out = []"
    | (campaign) "campaign_gate p ob = None" and "p_bid_writes_enabled p"
      and "find_observed obs (\<lambda>s. p_max_bid_kopecks p < s_current_bid_kopecks s)
            (p_nm_ids p) = Inr None"
      and "\<not> o_attribution_complete ob" and "campaign_level_action p ob obs = Inr (a, out)"
    | (sku) "campaign_gate p ob = None" and "p_bid_writes_enabled p"
      and "find_observed obs (\<lambda>s. p_max_bid_kopecks p < s_current_bid_kopecks s)
            (p_nm_ids p) = Inr None"
      and "o_attribution_complete ob" and "sku_level_action p obs = Inr (a, out)"
proof (cases "campaign_gate p ob = None \<and> p_bid_writes_enabled p")
  case True
  with assms obtain over where "find_observed obs
      (\<lambda>s. p_max_bid_kopecks p < s_current_bid_kopecks s) (p_nm_ids p) = Inr over"
    by (auto simp: evaluate_action_def result_elim)
  with True assms that(3-5) show ?thesis
    by (cases over) (auto simp: evaluate_action_def split: if_splits)
next
  case False
  with assms that(1,2) show ?thesis
    by (auto simp: evaluate_action_def split: option.splits)
qed

lemma no_bid_above_max:
  assumes "validate_observation p ob = Inr obs"
    and "find_observed obs (\<lambda>s. p_max_bid_kopecks p < s_current_bid_kopecks s)
          (p_nm_ids p) = Inr None"
  shows "\<forall>s \<in> set (o_skus ob). s_current_bid_kopecks s \<le> p_max_bid_kopecks p"
proof
  fix s assume "s \<in> set (o_skus ob)"
  then have "btree_get obs (s_nm_id s) = Some s"
    using validate_observationD(1) [OF assms(1)] by simp
  then show "s_current_bid_kopecks s \<le> p_max_bid_kopecks p"
    using find_observed_None [OF assms(2)] validate_observationD(3) [OF assms(1)] by fastforce
qed

lemma evaluate_action_safe:
  assumes "evaluate_action p ob obs = Inr (a, out)"
    and "validate_observation p ob = Inr obs" and "policy_ok p"
  shows "action_in_corridor p ob a"
  using assms(1)
proof (cases rule: evaluate_action_cases)
  case gate
  then show ?thesis by (simp add: campaign_gate_safe)
next
  case (over s)
  then have "s \<in> set (o_skus ob)" and "p_max_bid_kopecks p < s_current_bid_kopecks s"
    using validate_observationD(1) [OF assms(2)] by (auto dest!: find_observed_Some)
  then show ?thesis
    using over effective_minimum_le_max [OF assms(3) observed_sku_ok [OF assms(2)]]
    by (auto intro!: change_in_corridorI)
next
  case campaign
  then show ?thesis using campaign_level_action_safe assms(2,3) by blast
next
  case sku
  then show ?thesis
    using sku_level_action_safe no_bid_above_max assms(2,3) by blast
qed simp


section \<open>Guards, directions, stops\<close>

lemma campaign_gate_Some:
  assumes "campaign_gate p ob = Some a" and "\<forall>r. a \<noteq> Hold r"
  shows "a = PauseCampaignForDailyCap"
    and "p_authorized_at p \<le> o_observed_at ob"
    and "o_observed_at ob < p_authorization_expires_at p"
    and "p_write_enabled p" and "p_observe_until p \<le> o_observed_at ob"
    and "o_budget_remaining_minor ob \<noteq> 0" and "o_daily_spend_complete ob"
    and "o_campaign_status ob = ACTIVE_CAMPAIGN_STATUS"
    and "p_daily_pause_threshold_minor p \<le> o_daily_spend_minor ob"
  using assms by (auto simp: campaign_gate_def split: if_splits)

lemma campaign_gate_None:
  assumes "campaign_gate p ob = None"
  shows "p_authorized_at p \<le> o_observed_at ob"
    and "o_observed_at ob < p_authorization_expires_at p"
    and "p_write_enabled p" and "p_observe_until p \<le> o_observed_at ob"
    and "o_budget_remaining_minor ob \<noteq> 0" and "o_daily_spend_complete ob"
    and "o_campaign_status ob = ACTIVE_CAMPAIGN_STATUS"
    and "o_daily_spend_minor ob < p_daily_pause_threshold_minor p"
    and "o_actions_today ob < p_max_actions_per_day p"
    and "o_last_action_at ob = Some t \<Longrightarrow>
      t + seconds (uint (p_cooldown_seconds p)) \<le> o_observed_at ob"
  using assms by (auto simp: campaign_gate_def split: if_splits option.splits)

lemma recover_minimum_only_changes: "recover_minimum p skus = Some a \<Longrightarrow> \<exists>c. a = ChangeBids [c]"
  by (auto simp: recover_minimum_def)

lemma sku_level_action_kind:
  assumes "sku_level_action p obs = Inr (a, out)"
  shows "a \<noteq> ResumeCampaignAfterDailyCap" and "a \<noteq> PauseCampaignForDailyCap"
  using assms
  by (cases rule: sku_level_action_cases; auto dest!: recover_minimum_only_changes)+

lemma campaign_level_action_kind:
  assumes "campaign_level_action p ob obs = Inr (a, out)"
  shows "a \<noteq> ResumeCampaignAfterDailyCap" and "a \<noteq> PauseCampaignForDailyCap"
  using assms
  by (cases rule: campaign_level_action_cases; auto dest!: recover_minimum_only_changes)+

lemma evaluate_action_kind:
  assumes "evaluate_action p ob obs = Inr (a, out)"
  shows "a \<noteq> ResumeCampaignAfterDailyCap"
    and "campaign_gate p ob = None \<Longrightarrow> a \<noteq> PauseCampaignForDailyCap"
  using assms
  by (cases rule: evaluate_action_cases;
      auto simp: campaign_gate_def sku_level_action_kind campaign_level_action_kind
        split: if_splits dest: sku_level_action_kind campaign_level_action_kind)+

text \<open>Where a bid change of the engine comes from.\<close>

lemma evaluate_change_origin:
  assumes "evaluate_action p ob obs = Inr (ChangeBids cs, out)"
    and "validate_observation p ob = Inr obs" and "policy_ok p"
  obtains (over) s where "s \<in> set (o_skus ob)" and "p_max_bid_kopecks p < s_current_bid_kopecks s"
      and "cs = [\<lparr>c_nm_id = s_nm_id s, c_from_bid_kopecks = s_current_bid_kopecks s,
            c_to_bid_kopecks = p_max_bid_kopecks p, c_reason = PolicyMaximumExceeded\<rparr>]"
    | (recover) s where "s \<in> set (o_skus ob)"
      and "p_min_sellable_stock p < s_sellable_stock s"
      and "s_current_bid_kopecks s < effective_minimum_bid p s"
      and "cs = [\<lparr>c_nm_id = s_nm_id s, c_from_bid_kopecks = s_current_bid_kopecks s,
            c_to_bid_kopecks = effective_minimum_bid p s, c_reason = PolicyMinimumNotMet\<rparr>]"
      and "o_attribution_complete ob \<longrightarrow> (\<forall>r. stop_reason p s \<noteq> Inr (Some r))"
    | (bid) s c where "s \<in> set (o_skus ob)" and "cs = [c]" and "bid_change p s = Inr (Some c)"
      and "o_attribution_complete ob" and "\<forall>r. stop_reason p s \<noteq> Inr (Some r)"
      and "s_current_bid_kopecks s \<le> p_max_bid_kopecks p"
  using assms(1)
proof (cases rule: evaluate_action_cases)
  case gate
  then show ?thesis by (auto simp: campaign_gate_def split: if_splits)
next
  case (over s)
  note over' = over
  from over(3) have "s \<in> set (o_skus ob)" "p_max_bid_kopecks p < s_current_bid_kopecks s"
    using validate_observationD(1) [OF assms(2)] by (auto dest!: find_observed_Some)
  with over'(4) that(1) show ?thesis by auto
next
  case campaign
  from campaign(5) show ?thesis
  proof (cases rule: campaign_level_action_cases)
    case recover
    from recover(2) obtain s where "s \<in> set (btree_values obs)"
      and "ChangeBids cs = ChangeBids [\<lparr>c_nm_id = s_nm_id s,
        c_from_bid_kopecks = s_current_bid_kopecks s,
        c_to_bid_kopecks = effective_minimum_bid p s, c_reason = PolicyMinimumNotMet\<rparr>]"
      and "p_min_sellable_stock p < s_sellable_stock s"
      and "s_current_bid_kopecks s < effective_minimum_bid p s"
      by (rule recover_minimum_Some)
    with campaign(4) that(2) validate_observationD(2) [OF assms(2)] show ?thesis by auto
  qed (auto split: if_splits)
next
  case sku
  note index = validate_observationD [OF assms(2)]
  from sku(5) show ?thesis
  proof (cases rule: sku_level_action_cases)
    case (recover stops)
    from recover(4) obtain s where s: "s \<in> set (filter
        (\<lambda>s. btree_get stops (s_nm_id s) = None) (btree_values obs))"
      and "ChangeBids cs = ChangeBids [\<lparr>c_nm_id = s_nm_id s,
        c_from_bid_kopecks = s_current_bid_kopecks s,
        c_to_bid_kopecks = effective_minimum_bid p s, c_reason = PolicyMinimumNotMet\<rparr>]"
      and "p_min_sellable_stock p < s_sellable_stock s"
      and "s_current_bid_kopecks s < effective_minimum_bid p s"
      by (rule recover_minimum_Some)
    moreover from s have "s \<in> set (o_skus ob)" "btree_get stops (s_nm_id s) = None"
      using index(2) by auto
    moreover from this have "\<forall>r. stop_reason p s \<noteq> Inr (Some r)"
      using sku_stops_get [OF recover(1) assms(3), of "s_nm_id s"] index(1,3) by force
    ultimately show ?thesis using that(2) by auto
  next
    case (change stops changes)
    then obtain c where c: "cs = [c]" "c \<in> set changes"
      by (cases changes) auto
    with change(4) obtain k s where k: "k \<in> set (p_nm_ids p)" "btree_get obs k = Some s"
      "btree_get stops k = None" "bid_change p s = Inr (Some c)"
      using bid_changes_mem by blast
    from k(1-3) have "\<forall>r. stop_reason p s \<noteq> Inr (Some r)"
      using sku_stops_get [OF change(1) assms(3), of k] by auto
    moreover have "s \<in> set (o_skus ob)"
      using k(2) index(1) by auto
    ultimately show ?thesis
      using that(3) c(1) k(4) sku(4) no_bid_above_max [OF assms(2) sku(3)] by blast
  qed auto
qed auto

lemma evaluate_action_direction:
  assumes "evaluate_action p ob obs = Inr (ChangeBids cs, out)"
    and "validate_observation p ob = Inr obs" and "policy_ok p"
  shows "list_all change_moves_as_announced cs"
  using assms
proof (cases rule: evaluate_change_origin)
  case (bid s c)
  then show ?thesis
    using bid_change_safe(2) [OF _ assms(3) observed_sku_ok [OF assms(2)]] by auto
qed (auto simp: change_moves_as_announced_def)

lemma evaluate_action_no_panic:
  assumes "validate_observation p ob = Inr obs"
  shows "evaluate_action p ob obs \<noteq> Inl Panic"
proof -
  have dom: "\<forall>k \<in> set (p_nm_ids p). btree_get obs k \<noteq> None"
    using validate_observationD(3) [OF assms] by blast
  have "campaign_level_action p ob obs \<noteq> Inl Panic"
    using low_stock_stops_total [OF dom, of p]
      find_observed_total [OF dom, of "\<lambda>s. s_sellable_stock s \<le> p_min_sellable_stock p \<and>
        effective_minimum_bid p s < s_current_bid_kopecks s"]
    by (auto simp: campaign_level_action_def split: option.splits if_splits)
  moreover have "sku_level_action p obs \<noteq> Inl Panic"
  proof (cases "sku_stops p obs")
    case (Inl e)
    then show ?thesis
      using sku_stops_loop_no_panic [OF dom, of p "[]"]
      by (auto simp: sku_level_action_def sku_stops_def)
  next
    case (Inr stops)
    then show ?thesis
      using floored_stops_total [OF dom, of p stops]
        first_actionable_stop_total [OF dom, of p stops]
        bid_changes_no_panic [OF dom, of p stops]
      by (auto simp: sku_level_action_def result_elim split: option.splits)
  qed
  ultimately show ?thesis
    using find_observed_total [OF dom, of "\<lambda>s. p_max_bid_kopecks p < s_current_bid_kopecks s"]
    by (auto simp: evaluate_action_def split: option.splits)
qed

end
