(* ===== verification/Wb_Samples.thy ===== *)
theory Wb_Samples
  imports Wb_Decision
begin

text \<open>
  Concrete inputs for the witnesses: the policy, the SKU and the observation that the
  unit tests of \<open>src/src/control/automation.rs\<close> use.
\<close>

definition sample_now :: instant where
  "sample_now = seconds 1787659200"

definition sample_policy :: wb_policy where
  "sample_policy = \<lparr>
     p_policy_version = ''wb_ads_robot.v1'',
     p_write_enabled = True,
     p_bid_writes_enabled = True,
     p_account_id = ''ip_domnyshev_wb'',
     p_campaign_id = 39682633,
     p_campaign_name = [CHR 0xD0, CHR 0xA0, CHR 0xD0, CHR 0xBE, CHR 0xD0, CHR 0xB1,
                        CHR 0xD0, CHR 0xBE, CHR 0xD1, CHR 0x82],
     p_payment_type = ''cpc'',
     p_placement = ''search'',
     p_expected_recommendation_bid_kopecks = None,
     p_timezone = ''Europe/Moscow'',
     p_authorized_by_actor_id = ''rustam_magasumov'',
     p_authorization_reference = ''chat/2026-08-24/safe-auto-robot'',
     p_authorized_at = seconds 1787554800,
     p_authorization_expires_at = seconds 1790146800,
     p_nm_ids = [449627598, 449627015, 497424314],
     p_target_drr_basis_points = 1500,
     p_hard_drr_basis_points = 2500,
     p_target_impressions_per_day = 5000,
     p_target_orders_per_day = 0,
     p_autonomous_pacing = Enabled,
     p_traffic_frontier_bid_kopecks = None,
     p_traffic_frontier_feedback_timeout_seconds = None,
     p_traffic_frontier_min_feedback_impressions = None,
     p_traffic_frontier_min_feedback_clicks = None,
     p_min_bid_kopecks = 102,
     p_max_bid_kopecks = 600,
     p_bid_step_percent = 15,
     p_daily_spend_cap_minor = 30000,
     p_daily_pause_threshold_minor = 25000,
     p_max_actions_per_day = 2,
     p_cooldown_seconds = 21600,
     p_min_sellable_stock = 3,
     p_no_order_reduce_clicks = 30,
     p_no_order_disable_clicks = 50,
     p_no_order_disable_spend_minor = 25000,
     p_efficient_min_orders = 2,
     p_efficient_min_conversion_basis_points = 200,
     p_low_exposure_max_impressions = 200,
     p_low_exposure_max_clicks = 10,
     p_observe_until = seconds 1787655600,
     p_allow_budget_top_up = False\<rparr>"

definition sample_sku :: "u64 \<Rightarrow> wb_sku_observation" where
  "sample_sku nm_id = \<lparr>
     s_nm_id = nm_id,
     s_minimum_bid_kopecks = 102,
     s_current_bid_kopecks = 200,
     s_sellable_stock = 10,
     s_impressions = 500,
     s_clicks = 20,
     s_spend_minor = 2000,
     s_attributed_orders = 2,
     s_attributed_revenue_minor = 20000\<rparr>"

definition sample_observation :: wb_observation where
  "sample_observation = \<lparr>
     o_observed_at = sample_now,
     o_campaign_status = 9,
     o_paused_by_automation = False,
     o_budget_remaining_minor = 100000,
     o_daily_spend_minor = 10000,
     o_daily_spend_complete = True,
     o_actions_today = 0,
     o_last_action_at = None,
     o_attribution_complete = True,
     o_campaign_level_metrics = None,
     o_current_campaign_metrics = None,
     o_skus = map sample_sku [449627598, 449627015, 497424314]\<rparr>"

definition sample_decision :: "wb_action \<Rightarrow> wb_sku_stop list \<Rightarrow> wb_decision" where
  "sample_decision action stops = \<lparr>
     d_account_id = ''ip_domnyshev_wb'',
     d_campaign_id = 39682633,
     d_observed_at = sample_now,
     d_action = action,
     d_unresolved_stops = stops\<rparr>"

text \<open>The first SKU sells efficiently, so its bid rises by the reviewed step.\<close>

definition sample_raise :: wb_bid_change where
  "sample_raise = \<lparr>c_nm_id = 449627598, c_from_bid_kopecks = 200, c_to_bid_kopecks = 230,
     c_reason = EfficientSales\<rparr>"

text \<open>The first SKU is above the reviewed maximum, so its bid is capped.\<close>

definition sample_cap :: wb_bid_change where
  "sample_cap = \<lparr>c_nm_id = 449627598, c_from_bid_kopecks = 900, c_to_bid_kopecks = 600,
     c_reason = PolicyMaximumExceeded\<rparr>"

text \<open>The second SKU is sold out and parked at the floor, the third is sold out above it.\<close>

definition sample_stopped :: wb_observation where
  "sample_stopped = sample_observation\<lparr>
     o_skus := [sample_sku 449627598,
       (sample_sku 449627015)\<lparr>s_sellable_stock := 0, s_current_bid_kopecks := 102\<rparr>,
       (sample_sku 497424314)\<lparr>s_sellable_stock := 0\<rparr>]\<rparr>"

definition sample_over :: wb_observation where
  "sample_over = sample_observation\<lparr>
     o_skus := [(sample_sku 449627598)\<lparr>s_sellable_stock := 0, s_current_bid_kopecks := 900\<rparr>,
       sample_sku 449627015, sample_sku 497424314]\<rparr>"

lemma sample_policy_ok: "policy_ok sample_policy"
  by code_simp

lemma evaluate_valid_policy:
  "policy_ok p \<Longrightarrow> evaluate_wb_automation p ob =
     and_then (validate_observation p ob) (\<lambda>obs.
     and_then (evaluate_action p ob obs) (\<lambda>(action, unresolved).
     Ok \<lparr>d_account_id = p_account_id p,
         d_campaign_id = p_campaign_id p,
         d_observed_at = o_observed_at ob,
         d_action = action,
         d_unresolved_stops = unresolved\<rparr>))"
  by (simp add: evaluate_wb_automation_def validate_policy_def)

lemmas evaluate_sample = evaluate_valid_policy [OF sample_policy_ok]

lemma sample_evaluates:
  "evaluate_wb_automation sample_policy sample_observation
     = Ok (sample_decision (ChangeBids [sample_raise]) [])"
  unfolding evaluate_sample by code_simp

lemma sample_stopped_evaluates:
  "evaluate_wb_automation sample_policy sample_stopped
     = Ok (sample_decision (DisableSku 497424314 DisableLowStock)
         [\<lparr>st_nm_id = 449627015, st_reason = DisableLowStock\<rparr>])"
  unfolding evaluate_sample by code_simp

lemma sample_over_evaluates:
  "evaluate_wb_automation sample_policy sample_over
     = Ok (sample_decision (ChangeBids [sample_cap]) [])"
  unfolding evaluate_sample by code_simp

lemma sample_paused_evaluates:
  "evaluate_wb_automation sample_policy
     (sample_observation\<lparr>o_daily_spend_minor := 25000, o_actions_today := 9,
        o_last_action_at := Some sample_now\<rparr>)
     = Ok (sample_decision PauseCampaignForDailyCap [])"
  unfolding evaluate_sample by code_simp

end
