(* ===== verification/Wb_Decision_Correct.thy ===== *)
theory Wb_Decision_Correct
  imports Wb_Decision_Facts Wb_Samples
begin

text \<open>
  What the decision engine of \<open>src/src/control/automation.rs\<close> guarantees, for every
  policy and every observation: bids stay in the reviewed corridor, every action is
  authorized, the protective pause has priority, stopped SKUs are never bid up, and the
  engine neither panics nor fails on inputs that pass its own validation.
\<close>


section \<open>Helper lemmas\<close>

lemma stop_reason_total:
  assumes "s_attributed_revenue_minor s \<noteq> 0 \<Longrightarrow>
      unat (s_spend_minor s) * 10000 div unat (s_attributed_revenue_minor s) < 2 ^ 32"
  shows "\<exists>r. drr_basis_points s = Inr r" and "\<exists>r. stop_reason p s = Inr r"
proof -
  show drr: "\<exists>r. drr_basis_points s = Inr r"
    using assms by (auto simp: drr_basis_points_def drr_basis_points_from_def
        ratio_basis_points_eq)
  then show "\<exists>r. stop_reason p s = Inr r"
    by (auto simp: stop_reason_def)
qed

text \<open>The numeric range in which no computation of the engine overflows.\<close>

definition sku_in_range :: "wb_policy \<Rightarrow> wb_sku_observation \<Rightarrow> bool" where
  "sku_in_range p s \<longleftrightarrow>
     (s_attributed_revenue_minor s \<noteq> 0 \<longrightarrow>
        uint (s_spend_minor s) * 10000 div uint (s_attributed_revenue_minor s) < 2 ^ 32) \<and>
     (s_clicks s \<noteq> 0 \<longrightarrow>
        uint (s_attributed_orders s) * 10000 div uint (s_clicks s) < 2 ^ 32) \<and>
     uint (p_max_bid_kopecks p) * 100 < 2 ^ 64"

lemma ratio_range:
  "uint n * 10000 div uint d < 4294967296 \<longleftrightarrow> unat n * 10000 div unat d < 4294967296"
  for n d :: u64
proof -
  have "uint n * 10000 div uint d = int (unat n * 10000 div unat d)"
    by (simp only: uint_nat zdiv_int of_nat_mult of_nat_numeral)
  then show ?thesis by simp
qed

lemma sku_in_rangeD:
  assumes "sku_in_range p s"
  shows "s_attributed_revenue_minor s \<noteq> 0 \<Longrightarrow>
      unat (s_spend_minor s) * 10000 div unat (s_attributed_revenue_minor s) < 2 ^ 32"
    and "s_clicks s \<noteq> 0 \<Longrightarrow>
      unat (s_attributed_orders s) * 10000 div unat (s_clicks s) < 2 ^ 32"
    and "uint (p_max_bid_kopecks p) * 100 < 2 ^ 64"
  using assms by (simp_all add: sku_in_range_def ratio_range)

lemmas sku_in_range_stop = stop_reason_total [OF sku_in_rangeD(1)]

lemma increase_bid_total:
  assumes "policy_ok p" and "c \<le> p_max_bid_kopecks p"
    and "uint (p_max_bid_kopecks p) * 100 < 2 ^ 64"
  shows "\<exists>t. increase_bid p c m = Inr t"
proof -
  have step: "unat (p_bid_step_percent p) \<le> 25"
    using policy_step_bounds(2) [OF assms(1)] by (simp add: word_le_nat_alt)
  have "unat c \<le> unat (p_max_bid_kopecks p)"
    using assms(2) by (simp add: word_le_nat_alt)
  moreover have "unat (p_max_bid_kopecks p) * 100 < 2 ^ 64"
    using assms(3) by (simp only: less_power_int of_nat_mult of_nat_numeral uint_nat)
  ultimately have bound: "unat c * 100 < 2 ^ 64"
    by linarith
  have prod: "unat c * unat (p_bid_step_percent p) \<le> unat c * 25"
    using step by (rule mult_le_mono2)
  then have "unat c * unat (p_bid_step_percent p) < 2 ^ 64"
    using bound by linarith
  then have mul: "checked_mul c (ucast (p_bid_step_percent p))
      = Some (c * ucast (p_bid_step_percent p))"
    by (simp add: checked_mul_def unat_step_percent)
  have "unat (c * ucast (p_bid_step_percent p)) \<le> unat c * 25"
    using unat_checked_mul [OF mul] prod by (simp only: unat_step_percent)
  then have "unat c + unat (max (c * ucast (p_bid_step_percent p) div 100) 1) < 2 ^ 64"
    using bound by (simp add: unat_max unat_div)
  then show ?thesis
    by (simp add: increase_bid_def mul checked_add_def Let_def)
qed

lemma bid_change_total:
  assumes "policy_ok p" and "sku_in_range p s" and "s_current_bid_kopecks s \<le> p_max_bid_kopecks p"
  shows "\<exists>c. bid_change p s = Inr c"
proof -
  obtain drr where drr: "drr_basis_points s = Inr drr"
    using sku_in_range_stop(1) [OF assms(2)] by blast
  have "\<exists>v. conversion_basis_points s = Inr v"
    using assms(2) by (auto simp: conversion_basis_points_def conversion_basis_points_from_def
        ratio_basis_points_eq dest: sku_in_rangeD(2))
  then obtain conv where conv: "conversion_basis_points s = Inr conv" by blast
  obtain rule where rule: "bid_rule p s = Inr rule"
    by (cases "bid_rule p s") (auto simp: bid_rule_def drr conv split: if_splits)
  have "\<exists>t. increase_bid p (s_current_bid_kopecks s) (effective_minimum_bid p s) = Inr t"
    using increase_bid_total [OF assms(1,3) sku_in_rangeD(3) [OF assms(2)]] .
  with rule show ?thesis
    by (cases rule) (auto simp: bid_change_def Let_def)
qed

lemma sku_stops_loop_total:
  assumes "\<forall>k \<in> set ks. \<exists>s. btree_get obs k = Some s \<and> sku_in_range p s"
  shows "\<exists>r. sku_stops_loop p obs ks stops = Inr r"
  using assms
proof (induction ks arbitrary: stops)
  case (Cons k ks)
  then obtain s r where "btree_get obs k = Some s" "stop_reason p s = Inr r"
    using sku_in_range_stop(2) by fastforce
  with Cons show ?case by simp
qed simp

lemma bid_changes_total:
  assumes "\<forall>k \<in> set ks. \<exists>s. btree_get obs k = Some s \<and> (\<exists>c. bid_change p s = Inr c)"
  shows "\<exists>r. bid_changes p obs stops ks = Inr r"
  using assms by (induction ks) auto

lemma sku_level_action_total:
  assumes "\<forall>k \<in> set (p_nm_ids p). \<exists>s. btree_get obs k = Some s \<and> sku_in_range p s \<and>
      s_current_bid_kopecks s \<le> p_max_bid_kopecks p"
    and "policy_ok p"
  shows "\<exists>r. sku_level_action p obs = Inr r"
proof -
  have dom: "\<forall>k \<in> set (p_nm_ids p). btree_get obs k \<noteq> None"
    using assms(1) by fastforce
  obtain stops where "sku_stops p obs = Inr stops"
    using sku_stops_loop_total [of "p_nm_ids p" obs p "[]"] assms(1)
    by (auto simp: sku_stops_def)
  moreover have "\<exists>r. bid_changes p obs stops (p_nm_ids p) = Inr r"
    by (rule bid_changes_total) (use assms(1) bid_change_total [OF assms(2)] in metis)
  moreover note floored_stops_total [OF dom, of p stops]
    first_actionable_stop_total [OF dom, of p stops]
  ultimately show ?thesis
    by (auto simp: sku_level_action_def split: option.splits)
qed

lemma evaluate_action_total:
  assumes "policy_ok p" and "validate_observation p ob = Inr obs"
    and "\<forall>s \<in> set (o_skus ob). sku_in_range p s"
  shows "\<exists>r. evaluate_action p ob obs = Inr r"
proof -
  note index = validate_observationD [OF assms(2)]
  have dom: "\<forall>k \<in> set (p_nm_ids p). btree_get obs k \<noteq> None"
    using index(3) by blast
  obtain over where over: "find_observed obs
      (\<lambda>s. p_max_bid_kopecks p < s_current_bid_kopecks s) (p_nm_ids p) = Inr over"
    using find_observed_total [OF dom] by blast
  have campaign: "\<exists>r. campaign_level_action p ob obs = Inr r"
    using low_stock_stops_total [OF dom, of p]
      find_observed_total [OF dom, of "\<lambda>s. s_sellable_stock s \<le> p_min_sellable_stock p \<and>
        effective_minimum_bid p s < s_current_bid_kopecks s"]
    by (auto simp: campaign_level_action_def split: option.splits)
  have sku: "\<exists>r. sku_level_action p obs = Inr r" if "over = None"
  proof (rule sku_level_action_total [OF _ assms(1)], rule ballI)
    fix k assume "k \<in> set (p_nm_ids p)"
    then obtain s where s: "btree_get obs k = Some s"
      using dom by blast
    then have "s \<in> set (o_skus ob)"
      using index(1) by simp
    then show "\<exists>s. btree_get obs k = Some s \<and> sku_in_range p s \<and>
        s_current_bid_kopecks s \<le> p_max_bid_kopecks p"
      using s assms(3) no_bid_above_max [OF assms(2) over [unfolded that]] by blast
  qed
  from over campaign sku show ?thesis
    by (cases over) (auto simp: evaluate_action_def split: option.splits)
qed

text \<open>The evaluation itself can only fail with the overflow error.\<close>

definition overflow_only :: "'a decided \<Rightarrow> bool" where
  "overflow_only r \<longleftrightarrow> r \<noteq> Error InvalidPolicy \<and> r \<noteq> Error InvalidObservation"

lemma overflow_only_and_then:
  "overflow_only r \<Longrightarrow> (\<And>x. overflow_only (f x)) \<Longrightarrow> overflow_only (and_then r f)"
  by (cases r) (auto simp: overflow_only_def)

lemma overflow_only_atoms [simp]:
  "overflow_only (Inr x)" "overflow_only (or_panic y)" "overflow_only (ok_or y Overflow)"
  by (cases y; simp add: overflow_only_def)+

lemma overflow_only_ratio [simp]: "overflow_only (ratio_basis_points n d)"
  unfolding ratio_basis_points_def by (intro overflow_only_and_then) simp_all

lemma overflow_only_metrics [simp]:
  "overflow_only (drr_basis_points s)" "overflow_only (conversion_basis_points s)"
  "overflow_only (increase_bid p c m)"
  by (auto simp: drr_basis_points_def drr_basis_points_from_def conversion_basis_points_def
      conversion_basis_points_from_def increase_bid_def Let_def
      intro!: overflow_only_and_then)

lemma overflow_only_rules [simp]:
  "overflow_only (stop_reason p s)" "overflow_only (bid_rule p s)" "overflow_only (bid_change p s)"
proof -
  show "overflow_only (stop_reason p s)"
    by (auto simp: stop_reason_def intro!: overflow_only_and_then)
  show rule: "overflow_only (bid_rule p s)"
    by (auto simp: bid_rule_def intro!: overflow_only_and_then)
  show "overflow_only (bid_change p s)"
    using rule by (auto simp: bid_change_def Let_def intro!: overflow_only_and_then
        split: option.splits)
qed

lemma overflow_only_loops [simp]:
  "overflow_only (sku_stops_loop p obs ks stops)" "overflow_only (find_observed obs P ks)"
  "overflow_only (low_stock_stops p obs ks)" "overflow_only (floored_stops p obs stops ks)"
  "overflow_only (first_actionable_stop p obs stops ks)"
  "overflow_only (bid_changes p obs stops ks)"
proof -
  show "overflow_only (sku_stops_loop p obs ks stops)"
    by (induction ks arbitrary: stops) (auto intro!: overflow_only_and_then)
qed (induction ks; auto intro!: overflow_only_and_then split: option.splits)+

lemma overflow_only_evaluate_action: "overflow_only (evaluate_action p ob obs)"
  unfolding evaluate_action_def campaign_level_action_def sku_level_action_def sku_stops_def
  by (auto intro!: overflow_only_and_then split: option.splits)

lemma validate_observation_error:
  "validate_observation p ob = Inl e \<Longrightarrow> e = Err InvalidObservation"
  by (auto simp: validate_observation_def split: if_splits option.splits)

lemma evaluate_invalid_policy:
  "evaluate_wb_automation p ob = Error InvalidPolicy \<longleftrightarrow> \<not> policy_ok p"
  using overflow_only_evaluate_action [of p ob] validate_observation_error [of p ob]
  by (auto simp: evaluate_wb_automation_def validate_policy_def overflow_only_def result_elim
      split: prod.splits)

lemma evaluate_invalid_observation:
  "evaluate_wb_automation p ob = Error InvalidObservation \<longleftrightarrow>
     policy_ok p \<and> (\<forall>obs. validate_observation p ob \<noteq> Ok obs)"
  using overflow_only_evaluate_action [of p ob] validate_observation_error [of p ob]
  by (cases "validate_observation p ob")
    (auto simp: evaluate_wb_automation_def validate_policy_def overflow_only_def result_elim
      split: prod.splits)

lemma evaluate_overflow:
  assumes run: "evaluate_wb_automation p ob = Error Overflow"
  shows "\<exists>s \<in> set (o_skus ob). \<not> sku_in_range p s"
proof -
  have ok: "policy_ok p"
    using run by (auto simp: evaluate_wb_automation_def validate_policy_def split: if_splits)
  with run obtain obs where obs: "validate_observation p ob = Inr obs"
    using validate_observation_error [of p ob]
    by (cases "validate_observation p ob")
      (auto simp: evaluate_wb_automation_def validate_policy_def)
  from run ok obs have "evaluate_action p ob obs \<noteq> Inr r" for r
    by (auto simp: evaluate_wb_automation_def validate_policy_def split: prod.splits)
  then show ?thesis
    using evaluate_action_total [OF ok obs] by blast
qed


section \<open>Properties\<close>

text \<open>
  C3. Whatever the policy and the observation, a decision of the engine stays in the
  reviewed corridor: a bid change names exactly one observed SKU, starts at its observed
  bid and ends, different, between the effective minimum and the reviewed maximum; a stop
  names an observed SKU whose bid is still above its floor.
\<close>

theorem evaluate_in_corridor:
  assumes "evaluate_wb_automation p ob = Ok d"
  shows "action_in_corridor p ob (d_action d)"
  using assms by (rule evaluate_wb_automationD) (rule evaluate_action_safe)

theorem evaluate_in_corridor_witness:
  "action_in_corridor sample_policy sample_observation (ChangeBids [sample_raise])"
  using evaluate_in_corridor [OF sample_evaluates] by (simp add: sample_decision_def)

text \<open>
  Every bid change of the engine moves in the direction its reason announces: the
  protective reasons strictly lower the bid, the growth and repair reasons strictly
  raise it.
\<close>

theorem evaluate_direction:
  assumes "evaluate_wb_automation p ob = Ok d" and "d_action d = ChangeBids cs"
  shows "list_all change_moves_as_announced cs"
  using assms(1)
proof (rule evaluate_wb_automationD)
  fix obs assume "policy_ok p" "validate_observation p ob = Inr obs"
    "evaluate_action p ob obs = Inr (d_action d, d_unresolved_stops d)"
  with assms(2) show ?thesis
    using evaluate_action_direction by simp
qed

theorem evaluate_direction_witness:
  "list_all change_moves_as_announced [sample_raise]"
  using evaluate_direction [OF sample_evaluates] by (simp add: sample_decision_def)

text \<open>
  C21. An action other than a hold is authorized: it falls inside the authorization window
  and after the observe-only phase of a write-enabled policy, on an active campaign with
  budget left and complete spend data, and it never resumes a campaign. Anything but the
  protective pause also needs enabled bid writes, spend below the pause threshold, quota
  left for the day and an elapsed cooldown.
\<close>

theorem evaluate_authorized:
  assumes "evaluate_wb_automation p ob = Ok d" and "\<forall>r. d_action d \<noteq> Hold r"
  shows "p_write_enabled p \<and> p_authorized_at p \<le> o_observed_at ob \<and>
    p_observe_until p \<le> o_observed_at ob \<and>
    o_observed_at ob < p_authorization_expires_at p \<and>
    o_campaign_status ob = ACTIVE_CAMPAIGN_STATUS \<and>
    o_budget_remaining_minor ob \<noteq> 0 \<and> o_daily_spend_complete ob \<and>
    d_action d \<noteq> ResumeCampaignAfterDailyCap \<and>
    (d_action d = PauseCampaignForDailyCap \<or>
      p_bid_writes_enabled p \<and> o_daily_spend_minor ob < p_daily_pause_threshold_minor p \<and>
      o_actions_today ob < p_max_actions_per_day p \<and>
      (case o_last_action_at ob of
         None \<Rightarrow> True
       | Some t \<Rightarrow> t + seconds (uint (p_cooldown_seconds p)) \<le> o_observed_at ob))"
proof -
  from assms(1) obtain obs
    where run: "evaluate_action p ob obs = Inr (d_action d, d_unresolved_stops d)"
    by (rule evaluate_wb_automationD)
  consider (gate) "campaign_gate p ob = Some (d_action d)"
    | (clear) "campaign_gate p ob = None" and "p_bid_writes_enabled p"
    using run assms(2) by (cases rule: evaluate_action_cases) auto
  then show ?thesis
  proof cases
    case gate
    then show ?thesis
      using campaign_gate_Some [OF gate assms(2)] by simp
  next
    case clear
    then show ?thesis
      using campaign_gate_None [OF clear(1)] evaluate_action_kind(1) [OF run]
      by (simp split: option.splits)
  qed
qed

theorem evaluate_authorized_witness:
  "o_actions_today sample_observation < p_max_actions_per_day sample_policy"
  using evaluate_authorized [OF sample_evaluates] by (simp add: sample_decision_def)



text \<open>
  C11. A stopped SKU is never bid up: if a SKU is low on stock, or meets any stop rule
  while the attribution is complete, a bid change that names it strictly lowers its bid.
\<close>

theorem stopped_sku_never_raised:
  assumes "evaluate_wb_automation p ob = Ok d" and "d_action d = ChangeBids cs"
    and "c \<in> set cs" and "s \<in> set (o_skus ob)" and "s_nm_id s = c_nm_id c"
    and "s_sellable_stock s \<le> p_min_sellable_stock p \<or>
         (o_attribution_complete ob \<and> stop_reason p s = Ok (Some r))"
  shows "c_to_bid_kopecks c < c_from_bid_kopecks c"
proof -
  from assms(1) obtain obs where ok: "policy_ok p" and obs: "validate_observation p ob = Inr obs"
    and run: "evaluate_action p ob obs = Inr (ChangeBids cs, d_unresolved_stops d)"
    by (rule evaluate_wb_automationD) (simp add: assms(2))
  have same: "t = s" if "t \<in> set (o_skus ob)" "s_nm_id t = s_nm_id s" for t
    using validate_observationD(4) [OF obs] that assms(4)
    by (auto simp: distinct_map inj_on_def)
  have low: "stop_reason p t = Inr (Some DisableLowStock)"
    if "s_sellable_stock t \<le> p_min_sellable_stock p" for t
    using that by (simp add: stop_reason_def)
  from run obs ok show ?thesis
  proof (cases rule: evaluate_change_origin)
    case (over t)
    with assms(3) show ?thesis by simp
  next
    case (recover t)
    from recover(4) assms(3,5) have "s_nm_id t = s_nm_id s"
      by simp
    with recover(1) have "t = s" by (rule same)
    with recover(2,5) assms(6) show ?thesis by auto
  next
    case (bid t e)
    from bid(3) have "c_nm_id e = s_nm_id t"
      by (rule bid_change_SomeD) simp
    with bid(2) assms(3,5) have "s_nm_id t = s_nm_id s"
      by simp
    with bid(1) have "t = s" by (rule same)
    with bid(4,5) assms(6) low show ?thesis by auto
  qed
qed

theorem stopped_sku_never_raised_witness:
  "c_to_bid_kopecks sample_cap < c_from_bid_kopecks sample_cap"
  by (rule stopped_sku_never_raised [OF sample_over_evaluates, where cs = "[sample_cap]" and
        s = "(sample_sku 449627598)\<lparr>s_sellable_stock := 0, s_current_bid_kopecks := 900\<rparr>"])
    (simp_all add: sample_decision_def sample_over_def sample_sku_def sample_policy_def
      sample_cap_def)

text \<open>
  No stop is lost. When the engine judges SKU by SKU (the campaign is clear, bid
  writes are enabled, the attribution is complete and no bid exceeds the maximum), each
  SKU that meets a stop rule is either reported as an unresolved stop, because its bid is
  already at the floor, or the decision is to lower a stopped SKU that is still above it.
\<close>

theorem stops_accounted:
  assumes "evaluate_wb_automation p ob = Ok d"
    and "campaign_gate p ob = None" and "p_bid_writes_enabled p" and "o_attribution_complete ob"
    and "\<forall>t \<in> set (o_skus ob). s_current_bid_kopecks t \<le> p_max_bid_kopecks p"
    and "s \<in> set (o_skus ob)" and "stop_reason p s = Ok (Some r)"
  shows "if s_current_bid_kopecks s \<le> effective_minimum_bid p s
    then \<lparr>st_nm_id = s_nm_id s, st_reason = r\<rparr> \<in> set (d_unresolved_stops d)
    else \<exists>t q. t \<in> set (o_skus ob) \<and> stop_reason p t = Ok (Some q) \<and>
      effective_minimum_bid p t < s_current_bid_kopecks t \<and> d_action d = DisableSku (s_nm_id t) q"
proof -
  from assms(1) obtain obs where ok: "policy_ok p" and obs: "validate_observation p ob = Inr obs"
    and run: "evaluate_action p ob obs = Inr (d_action d, d_unresolved_stops d)"
    by (rule evaluate_wb_automationD)
  note index = validate_observationD [OF obs]
  have s: "btree_get obs (s_nm_id s) = Some s" "s_nm_id s \<in> set (p_nm_ids p)"
    using assms(6) index(1,3) by auto
  have "sku_level_action p obs = Inr (d_action d, d_unresolved_stops d)"
    using run assms(2-5) index(1)
    by (cases rule: evaluate_action_cases) (fastforce dest!: find_observed_Some)+
  then obtain stops found where stops: "sku_stops p obs = Inr stops"
    and out: "floored_stops p obs stops (p_nm_ids p) = Inr (d_unresolved_stops d)"
    and found: "first_actionable_stop p obs stops (p_nm_ids p) = Inr found"
    and act: "\<forall>k q. found = Some (k, q) \<longrightarrow> d_action d = DisableSku k q"
    by (cases rule: sku_level_action_cases) auto
  have stopped: "btree_get stops (s_nm_id s) = Some r"
    using sku_stops_get [OF stops ok] s assms(7) by auto
  show ?thesis
  proof (cases "s_current_bid_kopecks s \<le> effective_minimum_bid p s")
    case True
    then show ?thesis
      using floored_stops_mem [OF out] s stopped by simp
  next
    case False
    then have "found \<noteq> None"
      using first_actionable_stop_None [of p obs stops "p_nm_ids p" "s_nm_id s" s] found s stopped
      by (cases found) auto
    then obtain k q where kq: "found = Some (k, q)"
      by (cases found) auto
    from first_actionable_stop_Some [OF found [unfolded kq]] obtain t
      where t: "btree_get stops k = Some q" "btree_get obs k = Some t"
        "effective_minimum_bid p t < s_current_bid_kopecks t" by blast
    moreover from t(1,2) have "stop_reason p t = Inr (Some q)"
      using sku_stops_get [OF stops ok] by auto
    ultimately show ?thesis
      using False act kq index(1) by auto
  qed
qed

theorem stops_accounted_witness:
  "\<lparr>st_nm_id = 449627015, st_reason = DisableLowStock\<rparr> \<in> set (d_unresolved_stops
     (sample_decision (DisableSku 497424314 DisableLowStock)
       [\<lparr>st_nm_id = 449627015, st_reason = DisableLowStock\<rparr>]))"
proof -
  let ?s = "(sample_sku 449627015)\<lparr>s_sellable_stock := 0, s_current_bid_kopecks := 102\<rparr>"
  have "campaign_gate sample_policy sample_stopped = None"
    and "\<forall>t \<in> set (o_skus sample_stopped).
      s_current_bid_kopecks t \<le> p_max_bid_kopecks sample_policy"
    and "stop_reason sample_policy ?s = Ok (Some DisableLowStock)"
    and "s_current_bid_kopecks ?s \<le> effective_minimum_bid sample_policy ?s"
    by code_simp+
  then show ?thesis
    using stops_accounted [OF sample_stopped_evaluates, of ?s DisableLowStock]
    by (simp add: sample_policy_def sample_stopped_def sample_observation_def sample_sku_def)
qed

text \<open>
  The engine never panics: no lookup \<open>observations[nm_id]\<close> misses and no division is
  by zero, for any policy and any observation.
\<close>

theorem evaluate_never_panics: "evaluate_wb_automation p ob \<noteq> Panics"
  using evaluate_action_no_panic [of p ob]
  by (auto simp: evaluate_wb_automation_def result_elim split: prod.splits)

text \<open>
  The engine fails only as documented: with \<open>InvalidPolicy\<close> exactly when the policy
  does not validate, with \<open>InvalidObservation\<close> exactly when the policy validates and the
  observation does not, and with \<open>Overflow\<close> only when a ratio of some SKU does not fit 32
  bits or the maximum bid leaves no room for a step. Every other input gets a decision.
\<close>

theorem evaluate_outcomes:
  "(evaluate_wb_automation p ob = Error InvalidPolicy \<longleftrightarrow> \<not> policy_ok p) \<and>
   (evaluate_wb_automation p ob = Error InvalidObservation \<longleftrightarrow>
     policy_ok p \<and> (\<forall>obs. validate_observation p ob \<noteq> Ok obs)) \<and>
   (evaluate_wb_automation p ob = Error Overflow \<longrightarrow>
     (\<exists>s \<in> set (o_skus ob). \<not> sku_in_range p s))"
  using evaluate_invalid_policy evaluate_invalid_observation evaluate_overflow by blast

theorem evaluate_outcomes_witness:
  "\<exists>s \<in> set (o_skus (sample_observation\<lparr>o_skus := map (\<lambda>k. (sample_sku k)
      \<lparr>s_spend_minor := - 1, s_attributed_revenue_minor := 1\<rparr>)
      [449627598, 449627015, 497424314]\<rparr>)). \<not> sku_in_range sample_policy s"
proof (rule evaluate_outcomes [THEN conjunct2, THEN conjunct2, rule_format])
  show "evaluate_wb_automation sample_policy (sample_observation\<lparr>o_skus := map (\<lambda>k. (sample_sku k)
      \<lparr>s_spend_minor := - 1, s_attributed_revenue_minor := 1\<rparr>)
      [449627598, 449627015, 497424314]\<rparr>) = Error Overflow"
    unfolding evaluate_sample by code_simp
qed

end
