(* ===== verification/Business_Calendar.thy ===== *)
theory Business_Calendar
  imports Prelude
begin

text \<open>
  \<open>src/src/business_calendar.rs\<close>: the fixed-offset business clocks. A zone is its UTC
  offset in seconds; a date is the number of days since the epoch on that clock.
\<close>

definition yekaterinburg :: int where
  "yekaterinburg = 5 * 60 * 60"

definition moscow :: int where
  "moscow = 3 * 60 * 60"

definition date_in :: "int \<Rightarrow> instant \<Rightarrow> naive_date" where
  "date_in zone t = (t + seconds zone) div days 1"

definition seconds_since_midnight :: "int \<Rightarrow> instant \<Rightarrow> u32" where
  "seconds_since_midnight zone t =
     word_of_int (((t + seconds zone) mod days 1) div seconds 1)"

definition wb_automation_business_date :: "instant \<Rightarrow> naive_date" where
  "wb_automation_business_date now = date_in moscow now"

lemma date_in_mono: "s \<le> t \<Longrightarrow> date_in zone s \<le> date_in zone t"
  by (simp add: date_in_def duration_defs zdiv_mono1)

lemma date_in_add_days: "date_in zone (t + days n) = date_in zone t + n"
proof -
  have "t + days n + seconds zone = (t + seconds zone) + n * days 1"
    by (simp add: duration_defs)
  then show ?thesis
    by (simp add: date_in_def duration_defs)
qed

lemma seconds_of_day:
  "uint (seconds_since_midnight zone t) = ((t + seconds zone) mod days 1) div seconds 1"
  "uint (seconds_since_midnight zone t) < 86400"
proof -
  let ?s = "((t + seconds zone) mod days 1) div seconds 1"
  have "0 \<le> (t + seconds zone) mod days 1" "(t + seconds zone) mod days 1 < 86400 * seconds 1"
    by (simp_all add: days_def seconds_def)
  then have lower: "0 \<le> ?s" and upper: "?s < 86400"
    by (simp_all add: pos_imp_zdiv_nonneg_iff div_less_iff_less_mult seconds_def)
  have "?s < 2 ^ 32"
    by (rule less_trans [OF upper]) simp
  then have "take_bit 32 ?s = ?s"
    using lower by (rule take_bit_int_eq_self [rotated])
  then show eq: "uint (seconds_since_midnight zone t) = ?s"
    unfolding seconds_since_midnight_def using lower by (simp add: unsigned_of_int)
  show "uint (seconds_since_midnight zone t) < 86400"
    unfolding eq by (rule upper)
qed

lemma unat_seconds_since_midnight: "unat (seconds_since_midnight zone t) < 86400"
  using seconds_of_day(2) [of zone t] by (simp only: uint_nat of_nat_less_numeral_iff)

end
