(* ===== verification/Wb_Observer.thy ===== *)
theory Wb_Observer
  imports Wb_Decision_Facts Business_Calendar Wb_Samples
begin

text \<open>
  \<open>src/src/control/automation_observer.rs\<close>: how the collected advertising, stock, bid and
  budget facts become the observation that the decision engine judges
  (\<open>build_observation\<close>, \<open>validate_advertising_scope\<close>), and the snapshot that carries the
  observation with its decision. The marketplace responses arrive already parsed.
\<close>


section \<open>Data\<close>

record wb_state_view =
  v_paused_by_automation :: bool
  v_actions_today :: u32
  v_last_action_at :: "instant option"

record wb_snapshot =
  sn_schema_version :: u32
  sn_policy_sha256 :: string
  sn_previous_business_date :: naive_date
  sn_observation :: wb_observation
  sn_decision :: wb_decision

record advertising_fact =
  f_business_date :: naive_date
  f_campaign_id :: u64
  f_sku :: u64
  f_impressions :: u64
  f_clicks :: u64
  f_spend_minor :: u64
  f_attributed_orders :: u64
  f_attributed_revenue_minor :: u64

record stock_fact =
  k_sku :: u64
  k_sellable_units :: u64

record campaign_observation =
  b_status :: int
  b_bids :: "(u64 \<times> u64) list"

datatype observer_error =
    StatsOutOfScope
  | DuplicateCampaignTotal
  | StatsRowCountOverflow
  | DailySpendOverflow
  | DuplicateSkuStats
  | CurrentTotalsMixed
  | PreviousTotalsMixed
  | StockOverflow
  | MinimumBidMissing
  | CampaignBidMissing
  | ObservationRejected

type_synonym 'a observed = "(observer_error, 'a) result"

definition SNAPSHOT_SCHEMA_VERSION :: u32 where
  "SNAPSHOT_SCHEMA_VERSION = 6"


section \<open>Operations\<close>

definition validate_advertising_scope ::
  "advertising_fact list \<Rightarrow> u64 \<Rightarrow> naive_date \<Rightarrow> naive_date \<Rightarrow> unit observed" where
  "validate_advertising_scope advertising campaign_id current_date previous_date =
     ensure (list_all (\<lambda>f. f_campaign_id f = campaign_id \<and>
         (f_business_date f = current_date \<or> f_business_date f = previous_date)) advertising)
       StatsOutOfScope (Ok ())"

text \<open>The accumulators of the loop over the advertising facts.\<close>

record stats_totals =
  a_current_sku_spend_minor :: u64
  a_current_sku_rows :: u64
  a_current_campaign :: "advertising_fact option"
  a_previous :: "(u64 \<times> advertising_fact) list"
  a_previous_has_sku_rows :: bool
  a_campaign_level_previous :: "advertising_fact option"

definition initial_totals :: stats_totals where
  "initial_totals = \<lparr>
     a_current_sku_spend_minor = 0,
     a_current_sku_rows = 0,
     a_current_campaign = None,
     a_previous = [],
     a_previous_has_sku_rows = False,
     a_campaign_level_previous = None\<rparr>"

definition add_fact ::
  "u64 set \<Rightarrow> naive_date \<Rightarrow> advertising_fact \<Rightarrow> stats_totals \<Rightarrow> stats_totals observed" where
  "add_fact allowed current_date f a =
     (if f_business_date f = current_date then
        if f_sku f = 0 then
          ensure (a_current_campaign a = None) DuplicateCampaignTotal
            (Ok (a\<lparr>a_current_campaign := Some f\<rparr>))
        else
          and_then (ok_or (checked_add (a_current_sku_rows a) 1) StatsRowCountOverflow) (\<lambda>rows.
          and_then (ok_or (checked_add (a_current_sku_spend_minor a) (f_spend_minor f))
                     DailySpendOverflow) (\<lambda>spend.
          Ok (a\<lparr>a_current_sku_rows := rows, a_current_sku_spend_minor := spend\<rparr>)))
      else if f_sku f = 0 then
        ensure (a_campaign_level_previous a = None) DuplicateCampaignTotal
          (Ok (a\<lparr>a_campaign_level_previous := Some f\<rparr>))
      else if f_sku f \<in> allowed then
        ensure (btree_get (a_previous a) (f_sku f) = None) DuplicateSkuStats
          (Ok (a\<lparr>a_previous_has_sku_rows := True,
                 a_previous := btree_insert (f_sku f) f (a_previous a)\<rparr>))
      else Ok (a\<lparr>a_previous_has_sku_rows := True\<rparr>))"

fun add_facts ::
  "u64 set \<Rightarrow> naive_date \<Rightarrow> advertising_fact list \<Rightarrow> stats_totals \<Rightarrow> stats_totals observed"
where
  "add_facts allowed current_date [] a = Ok a"
| "add_facts allowed current_date (f # fs) a =
     and_then (add_fact allowed current_date f a) (add_facts allowed current_date fs)"

fun stock_totals ::
  "u64 set \<Rightarrow> stock_fact list \<Rightarrow> (u64 \<times> u64) list \<Rightarrow> (u64 \<times> u64) list observed" where
  "stock_totals allowed [] totals = Ok totals"
| "stock_totals allowed (k # ks) totals =
     (if k_sku k \<in> allowed then
        and_then (ok_or (checked_add (case btree_get totals (k_sku k) of None \<Rightarrow> 0 | Some t \<Rightarrow> t)
                           (k_sellable_units k)) StockOverflow) (\<lambda>total.
        stock_totals allowed ks (btree_insert (k_sku k) total totals))
      else stock_totals allowed ks totals)"

definition fact_or_zero :: "(advertising_fact \<Rightarrow> u64) \<Rightarrow> advertising_fact option \<Rightarrow> u64" where
  "fact_or_zero field f = (case f of None \<Rightarrow> 0 | Some v \<Rightarrow> field v)"

fun sku_observations ::
  "(u64 \<times> u64) list \<Rightarrow> campaign_observation \<Rightarrow> (u64 \<times> advertising_fact) list \<Rightarrow>
     (u64 \<times> u64) list \<Rightarrow> u64 list \<Rightarrow> wb_sku_observation list observed" where
  "sku_observations minimum_bids campaign previous stock [] = Ok []"
| "sku_observations minimum_bids campaign previous stock (nm_id # nm_ids) =
     (let f = btree_get previous nm_id
      in and_then (ok_or (btree_get minimum_bids nm_id) MinimumBidMissing) (\<lambda>minimum.
         and_then (ok_or (btree_get (b_bids campaign) nm_id) CampaignBidMissing) (\<lambda>bid.
         and_then (sku_observations minimum_bids campaign previous stock nm_ids) (\<lambda>rest.
         Ok (\<lparr>s_nm_id = nm_id,
              s_minimum_bid_kopecks = minimum,
              s_current_bid_kopecks = bid,
              s_sellable_stock = (case btree_get stock nm_id of None \<Rightarrow> 0 | Some t \<Rightarrow> t),
              s_impressions = fact_or_zero f_impressions f,
              s_clicks = fact_or_zero f_clicks f,
              s_spend_minor = fact_or_zero f_spend_minor f,
              s_attributed_orders = fact_or_zero f_attributed_orders f,
              s_attributed_revenue_minor = fact_or_zero f_attributed_revenue_minor f\<rparr>
             # rest)))))"

definition campaign_metrics_of :: "advertising_fact \<Rightarrow> wb_campaign_metrics" where
  "campaign_metrics_of f = \<lparr>
     m_impressions = f_impressions f,
     m_clicks = f_clicks f,
     m_spend_minor = f_spend_minor f,
     m_attributed_orders = f_attributed_orders f,
     m_attributed_revenue_minor = f_attributed_revenue_minor f\<rparr>"

definition build_observation ::
  "wb_policy \<Rightarrow> instant \<Rightarrow> naive_date \<Rightarrow> naive_date \<Rightarrow> campaign_observation \<Rightarrow>
     (u64 \<times> u64) list \<Rightarrow> u64 \<Rightarrow> advertising_fact list \<Rightarrow> stock_fact list \<Rightarrow> wb_state_view \<Rightarrow>
     wb_observation observed" where
  "build_observation p observed_at current_date previous_date campaign minimum_bids
       budget_remaining_minor advertising stocks view =
     (let allowed = set (p_nm_ids p) in
      and_then (validate_advertising_scope advertising (p_campaign_id p) current_date
                  previous_date) (\<lambda>_.
      and_then (add_facts allowed current_date advertising initial_totals) (\<lambda>a.
      ensure (a_current_campaign a = None \<or> a_current_sku_spend_minor a = 0)
        CurrentTotalsMixed (
      ensure (a_campaign_level_previous a = None \<or> \<not> a_previous_has_sku_rows a)
        PreviousTotalsMixed (
      and_then (stock_totals allowed stocks []) (\<lambda>stock.
      and_then (sku_observations minimum_bids campaign (a_previous a) stock (p_nm_ids p)) (\<lambda>skus.
      Ok \<lparr>o_observed_at = observed_at,
          o_campaign_status = b_status campaign,
          o_paused_by_automation = v_paused_by_automation view,
          o_budget_remaining_minor = budget_remaining_minor,
          o_daily_spend_minor =
            (case a_current_campaign a of
               None \<Rightarrow> a_current_sku_spend_minor a
             | Some f \<Rightarrow> f_spend_minor f),
          o_daily_spend_complete = (a_current_campaign a \<noteq> None \<or> 0 < a_current_sku_rows a),
          o_actions_today = v_actions_today view,
          o_last_action_at = v_last_action_at view,
          o_attribution_complete = (a_campaign_level_previous a = None \<and> a_previous a \<noteq> []),
          o_campaign_level_metrics =
            map_option campaign_metrics_of (a_campaign_level_previous a),
          o_current_campaign_metrics = map_option campaign_metrics_of (a_current_campaign a),
          o_skus = skus\<rparr>)))))))"

text \<open>
  \<open>observe\<close> after its marketplace reads: the business dates, the observation and the
  decision that the snapshot carries.
\<close>

definition observe ::
  "wb_policy \<Rightarrow> string \<Rightarrow> instant \<Rightarrow> campaign_observation \<Rightarrow> (u64 \<times> u64) list \<Rightarrow> u64 \<Rightarrow>
     advertising_fact list \<Rightarrow> stock_fact list \<Rightarrow> wb_state_view \<Rightarrow> wb_snapshot observed" where
  "observe p policy_sha256 observed_at campaign minimum_bids budget advertising stocks view =
     (let current_date = wb_automation_business_date observed_at;
          previous_date = current_date - 1
      in and_then (build_observation p observed_at current_date previous_date campaign
                     minimum_bids budget advertising stocks view) (\<lambda>ob.
         and_then (map_err ObservationRejected (evaluate_wb_automation p ob)) (\<lambda>d.
         Ok \<lparr>sn_schema_version = SNAPSHOT_SCHEMA_VERSION,
             sn_policy_sha256 = policy_sha256,
             sn_previous_business_date = previous_date,
             sn_observation = ob,
             sn_decision = d\<rparr>)))"

text \<open>What \<open>parse_minimum_bids\<close> and \<open>parse_campaign\<close> establish of their results.\<close>

definition minimum_bids_ok :: "wb_policy \<Rightarrow> (u64 \<times> u64) list \<Rightarrow> bool" where
  "minimum_bids_ok p minimums \<longleftrightarrow>
     set (btree_keys minimums) = set (p_nm_ids p) \<and>
     list_all (\<lambda>m. 0 < m \<and> m \<le> p_max_bid_kopecks p) (btree_values minimums)"


section \<open>Lemmas\<close>

lemma sku_observations_Ok:
  assumes "sku_observations minimums campaign previous stock ks = Inr skus"
  shows "map s_nm_id skus = ks"
    and "s \<in> set skus \<Longrightarrow> btree_get minimums (s_nm_id s) = Some (s_minimum_bid_kopecks s) \<and>
      btree_get (b_bids campaign) (s_nm_id s) = Some (s_current_bid_kopecks s) \<and>
      s_sellable_stock s = (case btree_get stock (s_nm_id s) of None \<Rightarrow> 0 | Some t \<Rightarrow> t) \<and>
      s_clicks s = fact_or_zero f_clicks (btree_get previous (s_nm_id s)) \<and>
      s_impressions s = fact_or_zero f_impressions (btree_get previous (s_nm_id s))"
  using assms
  by (induction ks arbitrary: skus) (fastforce simp: Let_def result_elim)+

text \<open>The stock of a SKU is the exact sum of its sellable units over the warehouses.\<close>

lemma stock_totals_Ok:
  assumes "stock_totals allowed ks totals = Inr out" and "btree_invar totals" and "n \<in> allowed"
  shows "unat (case btree_get out n of None \<Rightarrow> 0 | Some t \<Rightarrow> t) =
    unat (case btree_get totals n of None \<Rightarrow> 0 | Some t \<Rightarrow> t)
      + sum_list (map (\<lambda>k. unat (k_sellable_units k)) (filter (\<lambda>k. k_sku k = n) ks))"
  using assms
proof (induction ks arbitrary: totals)
  case Nil
  then show ?case by simp
next
  case (Cons k ks)
  show ?case
  proof (cases "k_sku k \<in> allowed")
    case True
    with Cons.prems(1) obtain total where
      add: "checked_add (case btree_get totals (k_sku k) of None \<Rightarrow> 0 | Some t \<Rightarrow> t)
        (k_sellable_units k) = Some total"
      and rest: "stock_totals allowed ks (btree_insert (k_sku k) total totals) = Inr out"
      by (auto simp: result_elim)
    note IH = Cons.IH [OF rest btree_insert_invar [OF Cons.prems(2)] Cons.prems(3)]
    show ?thesis
      using IH unat_checked_add [OF add]
      by (auto simp: btree_get_insert [OF Cons.prems(2)])
  next
    case False
    with Cons show ?thesis by auto
  qed
qed

lemma add_fact_spend:
  assumes "add_fact allowed d f a = Inr a'"
  shows "unat (a_current_sku_spend_minor a') = unat (a_current_sku_spend_minor a) +
    (if f_business_date f = d \<and> f_sku f \<noteq> 0 then unat (f_spend_minor f) else 0)"
  using assms
  by (auto simp: add_fact_def result_elim unat_checked_add split: if_splits)

lemma add_facts_spend:
  assumes "add_facts allowed d fs a = Inr a'"
  shows "unat (a_current_sku_spend_minor a') = unat (a_current_sku_spend_minor a) +
    sum_list (map (\<lambda>f. unat (f_spend_minor f))
      (filter (\<lambda>f. f_business_date f = d \<and> f_sku f \<noteq> 0) fs))"
  using assms
  by (induction fs arbitrary: a) (auto simp: result_elim dest: add_fact_spend)

lemma add_fact_current:
  assumes "add_fact allowed d f a = Inr a'"
  shows "a_current_campaign a' =
    (if f_business_date f = d \<and> f_sku f = 0 then Some f else a_current_campaign a)"
    and "f_business_date f = d \<and> f_sku f = 0 \<Longrightarrow> a_current_campaign a = None"
    and "a_current_campaign a = Some g \<Longrightarrow> a_current_campaign a' = Some g"
  using assms by (auto simp: add_fact_def result_elim split: if_splits)

lemma add_facts_current:
  assumes "add_facts allowed d fs a = Inr a'"
  shows "a_current_campaign a' = (case a_current_campaign a of Some g \<Rightarrow> Some g
    | None \<Rightarrow> find (\<lambda>f. f_business_date f = d \<and> f_sku f = 0) fs)"
  using assms
proof (induction fs arbitrary: a)
  case Nil
  then show ?case by (simp split: option.splits)
next
  case (Cons f fs)
  then obtain b where "add_fact allowed d f a = Inr b" and "add_facts allowed d fs b = Inr a'"
    by (auto simp: result_elim)
  with Cons.IH [of b] add_fact_current [of allowed d f a b] show ?case
    by (auto split: option.splits if_splits)
qed

lemma add_fact_previous:
  assumes "add_fact allowed d f a = Inr a'" and "btree_invar (a_previous a)"
    and "\<forall>k g. btree_get (a_previous a) k = Some g \<longrightarrow> g \<in> set seen \<and> f_sku g = k"
  shows "btree_invar (a_previous a')"
    and "\<forall>k g. btree_get (a_previous a') k = Some g \<longrightarrow> g \<in> set (f # seen) \<and> f_sku g = k"
  using assms
  by (auto simp: add_fact_def result_elim btree_insert_invar btree_get_insert split: if_splits)

lemma add_facts_previous:
  assumes "add_facts allowed d fs a = Inr a'" and "btree_invar (a_previous a)"
    and "\<forall>k g. btree_get (a_previous a) k = Some g \<longrightarrow> g \<in> set seen \<and> f_sku g = k"
  shows "\<forall>k g. btree_get (a_previous a') k = Some g \<longrightarrow>
    g \<in> set fs \<union> set seen \<and> f_sku g = k"
  using assms
proof (induction fs arbitrary: a seen)
  case Nil
  then show ?case by simp
next
  case (Cons f fs)
  then obtain b where b: "add_fact allowed d f a = Inr b" and "add_facts allowed d fs b = Inr a'"
    by (auto simp: result_elim)
  with Cons.IH [of b "f # seen"] add_fact_previous [OF b Cons.prems(2,3)] show ?case
    by auto
qed

lemma build_observationD:
  assumes "build_observation p t cd pd campaign minimums budget advertising stocks view = Inr ob"
  obtains a stock where
    "validate_advertising_scope advertising (p_campaign_id p) cd pd = Inr ()"
    "add_facts (set (p_nm_ids p)) cd advertising initial_totals = Inr a"
    "stock_totals (set (p_nm_ids p)) stocks [] = Inr stock"
    "sku_observations minimums campaign (a_previous a) stock (p_nm_ids p) = Inr (o_skus ob)"
    "o_daily_spend_minor ob = (case a_current_campaign a of
       None \<Rightarrow> a_current_sku_spend_minor a | Some f \<Rightarrow> f_spend_minor f)"
    "o_current_campaign_metrics ob = map_option campaign_metrics_of (a_current_campaign a)"
    "o_campaign_level_metrics ob = map_option campaign_metrics_of (a_campaign_level_previous a)"
    "o_attribution_complete ob \<longleftrightarrow> a_campaign_level_previous a = None \<and> a_previous a \<noteq> []"
    "o_last_action_at ob = v_last_action_at view" "o_observed_at ob = t"
  using assms by (auto simp: build_observation_def Let_def result_elim)

lemma add_fact_level:
  assumes "add_fact allowed d f a = Inr a'"
  shows "a_campaign_level_previous a' = a_campaign_level_previous a \<or>
    a_campaign_level_previous a' = Some f"
  using assms by (auto simp: add_fact_def result_elim split: if_splits)

lemma add_facts_level:
  assumes "add_facts allowed d fs a = Inr a'"
  shows "a_campaign_level_previous a' = a_campaign_level_previous a \<or>
    (\<exists>f \<in> set fs. a_campaign_level_previous a' = Some f)"
  using assms
proof (induction fs arbitrary: a)
  case (Cons f fs)
  then obtain b where "add_fact allowed d f a = Inr b" and "add_facts allowed d fs b = Inr a'"
    by (auto simp: result_elim)
  with Cons.IH [of b] add_fact_level show ?case
    by fastforce
qed simp

lemma metrics_of_facts:
  assumes "\<forall>f \<in> set fs. f_clicks f \<le> f_impressions f"
    and "g = None \<or> (\<exists>f \<in> set fs. g = Some f)"
  shows "\<forall>m. map_option campaign_metrics_of g = Some m \<longrightarrow> m_clicks m \<le> m_impressions m"
  using assms by (auto simp: campaign_metrics_of_def)

lemma build_observation_metrics:
  assumes "build_observation p t cd pd campaign minimums budget advertising stocks view = Inr ob"
    and "\<forall>f \<in> set advertising. f_clicks f \<le> f_impressions f"
  shows "\<forall>m. o_campaign_level_metrics ob = Some m \<longrightarrow> m_clicks m \<le> m_impressions m"
    and "\<forall>m. o_current_campaign_metrics ob = Some m \<longrightarrow> m_clicks m \<le> m_impressions m"
    and "\<forall>s \<in> set (o_skus ob). s_clicks s \<le> s_impressions s"
proof -
  from assms(1) obtain a stock where
    facts: "add_facts (set (p_nm_ids p)) cd advertising initial_totals = Inr a"
    and skus: "sku_observations minimums campaign (a_previous a) stock (p_nm_ids p) = Inr (o_skus ob)"
    and current: "o_current_campaign_metrics ob = map_option campaign_metrics_of (a_current_campaign a)"
    and level: "o_campaign_level_metrics ob
      = map_option campaign_metrics_of (a_campaign_level_previous a)"
    by (rule build_observationD)
  show "\<forall>m. o_campaign_level_metrics ob = Some m \<longrightarrow> m_clicks m \<le> m_impressions m"
    unfolding level by (rule metrics_of_facts [OF assms(2)])
      (use add_facts_level [OF facts] in \<open>simp add: initial_totals_def\<close>)
  show "\<forall>m. o_current_campaign_metrics ob = Some m \<longrightarrow> m_clicks m \<le> m_impressions m"
  proof -
    have "a_current_campaign a = find (\<lambda>f. f_business_date f = cd \<and> f_sku f = 0) advertising"
      using add_facts_current [OF facts] by (simp add: initial_totals_def)
    then have "a_current_campaign a = None \<or> (\<exists>f \<in> set advertising. a_current_campaign a = Some f)"
      by (metis find_Some_mem not_None_eq)
    then show ?thesis
      unfolding current by (rule metrics_of_facts [OF assms(2)])
  qed
  have "\<forall>k g. btree_get (a_previous a) k = Some g \<longrightarrow> g \<in> set advertising"
    using add_facts_previous [OF facts, of "[]"]
    by (auto simp: initial_totals_def btree.invar_empty btree.get_empty)
  with assms(2) sku_observations_Ok(2) [OF skus]
  show "\<forall>s \<in> set (o_skus ob). s_clicks s \<le> s_impressions s"
    by (fastforce simp: fact_or_zero_def split: option.splits)
qed


section \<open>Properties\<close>

text \<open>
  The observation adds its facts up exactly: the SKUs appear in policy order, the
  stock of each is the sum of its sellable units over all warehouses, and the daily spend
  is the campaign total of the current date when the source reports one, and otherwise the
  sum of the SKU rows of that date. No sum wraps around.
\<close>

theorem build_observation_exact:
  assumes "build_observation p t cd pd campaign minimums budget advertising stocks view = Ok ob"
  shows "map s_nm_id (o_skus ob) = p_nm_ids p \<and>
    (\<forall>s \<in> set (o_skus ob). unat (s_sellable_stock s) =
       sum_list (map (\<lambda>k. unat (k_sellable_units k)) (filter (\<lambda>k. k_sku k = s_nm_id s) stocks))) \<and>
    unat (o_daily_spend_minor ob) =
      (case find (\<lambda>f. f_business_date f = cd \<and> f_sku f = 0) advertising of
         Some f \<Rightarrow> unat (f_spend_minor f)
       | None \<Rightarrow> sum_list (map (\<lambda>f. unat (f_spend_minor f))
           (filter (\<lambda>f. f_business_date f = cd \<and> f_sku f \<noteq> 0) advertising)))"
proof -
  from assms obtain a stock where
    facts: "add_facts (set (p_nm_ids p)) cd advertising initial_totals = Inr a"
    and stock: "stock_totals (set (p_nm_ids p)) stocks [] = Inr stock"
    and skus: "sku_observations minimums campaign (a_previous a) stock (p_nm_ids p) = Inr (o_skus ob)"
    and spend: "o_daily_spend_minor ob = (case a_current_campaign a of
       None \<Rightarrow> a_current_sku_spend_minor a | Some f \<Rightarrow> f_spend_minor f)"
    by (rule build_observationD)
  note order = sku_observations_Ok(1) [OF skus]
  have "unat (s_sellable_stock s) =
      sum_list (map (\<lambda>k. unat (k_sellable_units k)) (filter (\<lambda>k. k_sku k = s_nm_id s) stocks))"
    if s: "s \<in> set (o_skus ob)" for s
  proof -
    from s have "s_nm_id s \<in> set (p_nm_ids p)"
      using order by (metis image_eqI list.set_map)
    then show ?thesis
      using stock_totals_Ok [OF stock btree.invar_empty, of "s_nm_id s"]
        sku_observations_Ok(2) [OF skus s] by (simp add: btree.get_empty)
  qed
  moreover have "unat (o_daily_spend_minor ob) =
      (case find (\<lambda>f. f_business_date f = cd \<and> f_sku f = 0) advertising of
         Some f \<Rightarrow> unat (f_spend_minor f)
       | None \<Rightarrow> sum_list (map (\<lambda>f. unat (f_spend_minor f))
           (filter (\<lambda>f. f_business_date f = cd \<and> f_sku f \<noteq> 0) advertising)))"
    using add_facts_current [OF facts] add_facts_spend [OF facts] spend
    by (simp add: initial_totals_def split: option.splits)
  ultimately show ?thesis
    using order by blast
qed

text \<open>
  The observer and the engine agree on what an observation is: with minimum bids as
  \<open>parse_minimum_bids\<close> leaves them, positive campaign bids, advertising rows that have no
  more clicks than impressions and a last action that is not in the future, every
  observation the observer builds passes the validation of the engine.
\<close>

theorem build_observation_accepted:
  assumes "build_observation p t cd pd campaign minimums budget advertising stocks view = Ok ob"
    and "policy_ok p" and "minimum_bids_ok p minimums"
    and "\<forall>b \<in> set (btree_values (b_bids campaign)). b \<noteq> 0"
    and "\<forall>f \<in> set advertising. f_clicks f \<le> f_impressions f"
    and "\<forall>a. v_last_action_at view = Some a \<longrightarrow> a \<le> t"
  shows "\<exists>obs. validate_observation p ob = Ok obs"
proof -
  from assms(1) obtain a :: stats_totals and stock where
    skus: "sku_observations minimums campaign (a_previous a) stock (p_nm_ids p) = Inr (o_skus ob)"
    and level: "o_campaign_level_metrics ob
      = map_option campaign_metrics_of (a_campaign_level_previous a)"
    and complete: "o_attribution_complete ob \<longleftrightarrow>
      a_campaign_level_previous a = None \<and> a_previous a \<noteq> []"
    and last: "o_last_action_at ob = v_last_action_at view" "o_observed_at ob = t"
    by (rule build_observationD)
  note order = sku_observations_Ok(1) [OF skus]
  note metrics = build_observation_metrics [OF assms(1,5)]
  have minimum: "1 \<le> m \<and> m \<le> p_max_bid_kopecks p" if "btree_get minimums n = Some m" for n m
    using assms(3) that by (auto simp: minimum_bids_ok_def list_all_iff btree_values_def
        btree_get_def word_le_nat_alt word_less_nat_alt dest!: map_of_SomeD)
  have bid: "b \<noteq> 0" if "btree_get (b_bids campaign) n = Some b" for n b
    using assms(4) that by (force simp: btree_values_def btree_get_def dest!: map_of_SomeD)
  have ok: "list_all (sku_observation_ok p) (o_skus ob)"
    unfolding list_all_iff
  proof
    fix s assume s: "s \<in> set (o_skus ob)"
    then have "s_nm_id s \<in> set (p_nm_ids p)"
      using order by (metis image_eqI list.set_map)
    moreover have "0 \<notin> set (p_nm_ids p)"
      using policy_okD(3) [OF assms(2)] by (simp add: valid_policy_targets_def)
    ultimately have "s_nm_id s \<noteq> 0" by metis
    then show "sku_observation_ok p s"
      using sku_observations_Ok(2) [OF skus s] metrics(3) s minimum bid
      unfolding sku_observation_ok_def by blast
  qed
  have "distinct (map s_nm_id (o_skus ob))"
    using order policy_targets_distinct(1) [OF assms(2)] by simp
  from btree.insert_unique_total [OF ok this, of "[]"] obtain index where index: "insert_unique btree_insert btree_get s_nm_id
      (sku_observation_ok p) (o_skus ob) [] = Some index"
    by (auto simp: btree.get_empty btree.invar_empty)
  moreover have "set (btree_keys index) = set (p_nm_ids p)"
    using btree.insert_unique_keys [OF index] order by (simp add: btree_keys_def flip: set_map)
  ultimately show ?thesis
    using metrics(1,2) level complete last assms(6)
    by (auto simp: validate_observation_def not_less split: option.splits)
qed

definition sample_facts :: "advertising_fact list" where
  "sample_facts = [
     \<lparr>f_business_date = 20690, f_campaign_id = 39682633, f_sku = 449627598,
      f_impressions = 100, f_clicks = 5, f_spend_minor = 4000, f_attributed_orders = 1,
      f_attributed_revenue_minor = 90000\<rparr>,
     \<lparr>f_business_date = 20690, f_campaign_id = 39682633, f_sku = 449627015,
      f_impressions = 60, f_clicks = 2, f_spend_minor = 1500, f_attributed_orders = 0,
      f_attributed_revenue_minor = 0\<rparr>,
     \<lparr>f_business_date = 20689, f_campaign_id = 39682633, f_sku = 449627598,
      f_impressions = 500, f_clicks = 20, f_spend_minor = 2000, f_attributed_orders = 2,
      f_attributed_revenue_minor = 20000\<rparr>]"

definition sample_stocks :: "stock_fact list" where
  "sample_stocks = [\<lparr>k_sku = 449627598, k_sellable_units = 4\<rparr>,
     \<lparr>k_sku = 449627598, k_sellable_units = 6\<rparr>, \<lparr>k_sku = 449627015, k_sellable_units = 9\<rparr>]"

definition sample_bids :: "(u64 \<times> u64) list" where
  "sample_bids = [(449627015, 200), (449627598, 200), (497424314, 200)]"

definition sample_view :: wb_state_view where
  "sample_view = \<lparr>v_paused_by_automation = False, v_actions_today = 1, v_last_action_at = None\<rparr>"

definition sample_built :: "wb_observation observed" where
  "sample_built = build_observation sample_policy sample_now 20690 20689
     \<lparr>b_status = 9, b_bids = sample_bids\<rparr> sample_bids 100000 sample_facts sample_stocks
     sample_view"

lemma sample_built_Ok: "case sample_built of Inr ob \<Rightarrow> o_daily_spend_minor ob = 5500 | _ \<Rightarrow> False"
  by code_simp

theorem build_observation_exact_witness:
  "\<exists>ob. sample_built = Ok ob \<and> unat (o_daily_spend_minor ob) = 5500"
proof -
  obtain ob where ob: "sample_built = Ok ob"
    using sample_built_Ok by (auto split: sum.splits)
  then show ?thesis
    using build_observation_exact [OF ob [unfolded sample_built_def]]
    by (auto simp: sample_facts_def)
qed

theorem build_observation_accepted_witness:
  "\<exists>ob obs. sample_built = Ok ob \<and> validate_observation sample_policy ob = Ok obs"
proof -
  obtain ob where ob: "sample_built = Ok ob"
    using sample_built_Ok by (auto split: sum.splits)
  have "minimum_bids_ok sample_policy sample_bids"
    by code_simp
  then have "\<exists>obs. validate_observation sample_policy ob = Ok obs"
    by (intro build_observation_accepted [OF ob [unfolded sample_built_def] sample_policy_ok])
      (simp_all add: sample_bids_def btree_values_def sample_facts_def sample_view_def)
  with ob show ?thesis by blast
qed

end
