(* ===== verification/Wb_Feedback.thy ===== *)
theory Wb_Feedback
  imports Wb_Observer
begin

text \<open>
  \<open>src/src/control/automation_executor/feedback.rs\<close>: the campaign-feedback decisions of the
  executor. The traffic-frontier controller waits for useful feedback on its last action,
  compares the campaign with its time curve and its marginal economics, and proposes one
  bounded step; the autonomous pacing turns an attribution hold into one bounded raise.

  The products here are of 64-bit values widened to 128 bits with factors of at most 64
  bits, so no multiplication overflows; divisions by a value that may be zero, fallible
  conversions and \<open>expect\<close> are explicit outcomes.
\<close>


section \<open>Data\<close>

datatype feedback_error =
    InconsistentMetrics
  | FeedbackImpressionsUnavailable
  | FeedbackClicksUnavailable
  | FrontierBidUnavailable
  | FeedbackTimeoutUnavailable
  | ClickBudgetInvalid
  | EconomicCapOverflow
  | OrdersWithoutClicks
  | EconomicCapOutOfRange
  | DrrOverflow
  | DrrOutOfRange
  | BidIncreaseInvalid
  | BidCannotIncrease

type_synonym 'a paced = "(feedback_error, 'a) result"

record traffic_frontier_feedback_data =
  tf_metrics :: wb_campaign_metrics
  tf_zero_cost_probe :: bool

definition PACING_LOWER_BASIS_POINTS :: u128 where
  "PACING_LOWER_BASIS_POINTS = 8000"

definition PACING_UPPER_BASIS_POINTS :: u128 where
  "PACING_UPPER_BASIS_POINTS = 12000"

definition SECONDS_PER_DAY :: u64 where
  "SECONDS_PER_DAY = 86400"


section \<open>Arithmetic\<close>

definition paced_value :: "u64 \<Rightarrow> instant \<Rightarrow> ('e, u64) result" where
  "paced_value day_total observed_at =
     (let elapsed = max (ucast (seconds_since_midnight moscow observed_at)) 300 :: u64;
          scaled = widen day_total * widen elapsed div widen SECONDS_PER_DAY
      in or_panic (try_from (max scaled 1)))"

definition campaign_drr_basis_points :: "wb_campaign_metrics \<Rightarrow> u32 option paced" where
  "campaign_drr_basis_points m =
     (if m_attributed_revenue_minor m = 0 then Ok None
      else
        and_then (ok_or (checked_mul (widen (m_spend_minor m)) BASIS_POINTS) DrrOverflow) (\<lambda>scaled.
        and_then (or_panic (checked_div scaled (widen (m_attributed_revenue_minor m)))) (\<lambda>ratio.
        and_then (ok_or (try_from ratio) DrrOutOfRange) (\<lambda>drr.
        Ok (Some drr)))))"

definition traffic_frontier_dynamic_cap ::
  "wb_policy \<Rightarrow> wb_snapshot \<Rightarrow> wb_campaign_metrics \<Rightarrow> u64 paced" where
  "traffic_frontier_dynamic_cap p sn m =
     (let remaining_to_pause = saturating_sub (p_daily_pause_threshold_minor p)
                                 (o_daily_spend_minor (sn_observation sn))
      in and_then
           (if m_attributed_orders m = 0
            then ok_or (checked_div (p_daily_spend_cap_minor p) (p_no_order_reduce_clicks p))
                   ClickBudgetInvalid
            else
              and_then (ok_or (checked_mul (widen (m_attributed_revenue_minor m))
                                 (ucast (p_target_drr_basis_points p))) EconomicCapOverflow)
                (\<lambda>product.
              let allowed_spend = product div BASIS_POINTS
              in and_then (ok_or (checked_div allowed_spend (widen (m_clicks m)))
                             OrdersWithoutClicks) (\<lambda>per_click.
                 ok_or (try_from per_click) EconomicCapOutOfRange)))
           (\<lambda>economic_cap.
         Ok (min (min (p_max_bid_kopecks p) remaining_to_pause) economic_cap)))"

definition decrease_frontier_bid :: "wb_policy \<Rightarrow> u64 \<Rightarrow> u64 \<Rightarrow> u64" where
  "decrease_frontier_bid p current minimum =
     (let delta = saturating_mul current (ucast (p_bid_step_percent p)) div 100
      in max (saturating_sub current (max delta 1)) minimum)"


section \<open>Feedback\<close>

definition metrics_monotonic :: "wb_campaign_metrics \<Rightarrow> wb_campaign_metrics \<Rightarrow> bool" where
  "metrics_monotonic baseline current \<longleftrightarrow>
     m_impressions baseline \<le> m_impressions current \<and>
     m_clicks baseline \<le> m_clicks current \<and>
     m_spend_minor baseline \<le> m_spend_minor current \<and>
     m_attributed_orders baseline \<le> m_attributed_orders current \<and>
     m_attributed_revenue_minor baseline \<le> m_attributed_revenue_minor current"

definition traffic_feedback_delta ::
  "wb_snapshot \<Rightarrow> wb_campaign_metrics \<Rightarrow> wb_snapshot option \<Rightarrow> wb_campaign_metrics option" where
  "traffic_feedback_delta sn current last_applied =
     (case last_applied of
        None \<Rightarrow> Some current
      | Some previous \<Rightarrow>
          if wb_automation_business_date (o_observed_at (sn_observation previous))
             \<noteq> wb_automation_business_date (o_observed_at (sn_observation sn))
          then Some current
          else
            (case o_current_campaign_metrics (sn_observation previous) of
               None \<Rightarrow> None
             | Some baseline \<Rightarrow>
                 if \<not> metrics_monotonic baseline current then None
                 else Some \<lparr>
                   m_impressions = m_impressions current - m_impressions baseline,
                   m_clicks = m_clicks current - m_clicks baseline,
                   m_spend_minor = m_spend_minor current - m_spend_minor baseline,
                   m_attributed_orders =
                     m_attributed_orders current - m_attributed_orders baseline,
                   m_attributed_revenue_minor =
                     m_attributed_revenue_minor current
                       - m_attributed_revenue_minor baseline\<rparr>))"

definition timeout_elapsed :: "wb_snapshot \<Rightarrow> instant \<Rightarrow> u32 \<Rightarrow> bool" where
  "timeout_elapsed sn last_action_at timeout \<longleftrightarrow>
     last_action_at + seconds (uint timeout) \<le> o_observed_at (sn_observation sn)"

definition traffic_frontier_v2_feedback_is_actionable ::
  "wb_policy \<Rightarrow> wb_snapshot \<Rightarrow> wb_campaign_metrics \<Rightarrow> wb_snapshot option \<Rightarrow> bool paced" where
  "traffic_frontier_v2_feedback_is_actionable p sn current last_applied =
     (case o_last_action_at (sn_observation sn) of
        None \<Rightarrow> Ok True
      | Some last_action_at \<Rightarrow>
          and_then (ok_or (p_traffic_frontier_feedback_timeout_seconds p)
                      FeedbackTimeoutUnavailable) (\<lambda>feedback_timeout.
          if timeout_elapsed sn last_action_at feedback_timeout then Ok True
          else case last_applied of
            None \<Rightarrow> Ok False
          | Some previous \<Rightarrow>
              if wb_automation_business_date (o_observed_at (sn_observation previous))
                 \<noteq> wb_automation_business_date (o_observed_at (sn_observation sn))
              then Ok True
              else
                (case o_current_campaign_metrics (sn_observation previous) of
                   None \<Rightarrow> Ok False
                 | Some baseline \<Rightarrow>
                     if \<not> metrics_monotonic baseline current then Ok False
                     else Ok (current \<noteq> baseline))))"

definition traffic_frontier_zero_cost_probe_is_actionable ::
  "wb_policy \<Rightarrow> wb_snapshot \<Rightarrow> wb_campaign_metrics \<Rightarrow> bool paced" where
  "traffic_frontier_zero_cost_probe_is_actionable p sn delta =
     (if m_clicks delta \<noteq> 0 \<or> m_spend_minor delta \<noteq> 0 \<or> m_attributed_orders delta \<noteq> 0 \<or>
         m_attributed_revenue_minor delta \<noteq> 0
      then Ok False
      else case o_last_action_at (sn_observation sn) of
        None \<Rightarrow> Ok True
      | Some last_action_at \<Rightarrow>
          and_then (ok_or (p_traffic_frontier_feedback_timeout_seconds p)
                      FeedbackTimeoutUnavailable) (\<lambda>timeout.
          Ok (timeout_elapsed sn last_action_at timeout)))"

definition traffic_frontier_feedback ::
  "wb_policy \<Rightarrow> wb_snapshot \<Rightarrow> wb_campaign_metrics \<Rightarrow> wb_snapshot option \<Rightarrow>
     traffic_frontier_feedback_data option paced" where
  "traffic_frontier_feedback p sn m last_applied =
     (if \<not> uses_marginal_feedback (p_autonomous_pacing p) then
        and_then (traffic_frontier_v2_feedback_is_actionable p sn m last_applied) (\<lambda>actionable.
        Ok (if actionable then Some \<lparr>tf_metrics = m, tf_zero_cost_probe = False\<rparr> else None))
      else case traffic_feedback_delta sn m last_applied of
        None \<Rightarrow> Ok None
      | Some delta \<Rightarrow>
          and_then (ok_or (p_traffic_frontier_min_feedback_impressions p)
                      FeedbackImpressionsUnavailable) (\<lambda>min_impressions.
          and_then (ok_or (p_traffic_frontier_min_feedback_clicks p)
                      FeedbackClicksUnavailable) (\<lambda>min_clicks.
          and_then
            (if allows_zero_cost_probe (p_autonomous_pacing p)
             then traffic_frontier_zero_cost_probe_is_actionable p sn delta
             else Ok False) (\<lambda>zero_cost_probe.
          if m_impressions delta < min_impressions \<and> m_clicks delta < min_clicks \<and>
             \<not> zero_cost_probe
          then Ok None
          else Ok (Some \<lparr>tf_metrics = delta, tf_zero_cost_probe = zero_cost_probe\<rparr>)))))"


section \<open>Decisions\<close>

definition traffic_frontier_change ::
  "wb_policy \<Rightarrow> wb_snapshot \<Rightarrow> u64 \<Rightarrow> u64 \<Rightarrow> u64 \<Rightarrow> bid_reason \<Rightarrow> wb_decision" where
  "traffic_frontier_change p sn nm_id from_bid to_bid reason = \<lparr>
     d_account_id = p_account_id p,
     d_campaign_id = p_campaign_id p,
     d_observed_at = o_observed_at (sn_observation sn),
     d_action = ChangeBids [\<lparr>c_nm_id = nm_id, c_from_bid_kopecks = from_bid,
                            c_to_bid_kopecks = to_bid, c_reason = reason\<rparr>],
     d_unresolved_stops = []\<rparr>"

definition traffic_frontier_hold :: "wb_policy \<Rightarrow> wb_snapshot \<Rightarrow> hold_reason \<Rightarrow> wb_decision" where
  "traffic_frontier_hold p sn reason = \<lparr>
     d_account_id = p_account_id p,
     d_campaign_id = p_campaign_id p,
     d_observed_at = o_observed_at (sn_observation sn),
     d_action = Hold reason,
     d_unresolved_stops = []\<rparr>"

definition traffic_frontier_decrease_reason ::
  "wb_policy \<Rightarrow> wb_campaign_metrics \<Rightarrow> u32 option \<Rightarrow> bool \<Rightarrow> bid_reason option paced" where
  "traffic_frontier_decrease_reason p feedback drr spend_over_pace =
     and_then
       (if uses_marginal_feedback (p_autonomous_pacing p)
        then ok_or (p_traffic_frontier_min_feedback_clicks p) FeedbackClicksUnavailable
        else Ok (p_no_order_reduce_clicks p)) (\<lambda>no_order_reduce_clicks.
     if m_attributed_orders feedback = 0 \<and> no_order_reduce_clicks \<le> m_clicks feedback
     then Ok (Some NoOrdersAfterClicks)
     else
       let over = (case drr of
             None \<Rightarrow> None
           | Some v \<Rightarrow> if p_target_drr_basis_points p < v then Some v else None)
       in case over of
            Some v \<Rightarrow>
              Ok (Some (if p_hard_drr_basis_points p < v then HardDrrExceeded
                        else TargetDrrExceeded))
          | None \<Rightarrow>
              Ok (if spend_over_pace then Some TrafficFrontierRetentionDecrease else None))"

definition traffic_frontier_decrease ::
  "wb_policy \<Rightarrow> wb_snapshot \<Rightarrow> bid_reason \<Rightarrow> wb_decision option" where
  "traffic_frontier_decrease p sn reason =
     (case max_by_key (\<lambda>s. (s_current_bid_kopecks s, Reverse (s_nm_id s)))
             (filter (\<lambda>s. effective_minimum_bid p s < s_current_bid_kopecks s)
               (o_skus (sn_observation sn))) of
        None \<Rightarrow> None
      | Some s \<Rightarrow>
          (let to_bid = decrease_frontier_bid p (s_current_bid_kopecks s)
                          (effective_minimum_bid p s)
           in if to_bid < s_current_bid_kopecks s
              then Some (traffic_frontier_change p sn (s_nm_id s) (s_current_bid_kopecks s)
                           to_bid reason)
              else None))"

definition traffic_frontier_increase_decision ::
  "wb_policy \<Rightarrow> wb_snapshot \<Rightarrow> wb_campaign_metrics \<Rightarrow> wb_decision option paced" where
  "traffic_frontier_increase_decision p sn feedback =
     and_then (ok_or (p_traffic_frontier_bid_kopecks p) FrontierBidUnavailable) (\<lambda>frontier.
     and_then (traffic_frontier_dynamic_cap p sn feedback) (\<lambda>dynamic_cap.
     if dynamic_cap < frontier then Ok None
     else case min_by_key (\<lambda>s. (s_current_bid_kopecks s, s_nm_id s))
                 (filter (\<lambda>s. p_min_sellable_stock p < s_sellable_stock s \<and>
                              s_current_bid_kopecks s < dynamic_cap \<and>
                              effective_minimum_bid p s \<le> dynamic_cap)
                   (o_skus (sn_observation sn))) of
       None \<Rightarrow> Ok None
     | Some s \<Rightarrow>
         (let minimum = effective_minimum_bid p s
          in and_then
               (if s_current_bid_kopecks s < frontier
                then Ok (min (max frontier minimum) dynamic_cap, TrafficFrontierBootstrap)
                else and_then (map_err BidIncreaseInvalid
                                (increase_bid p (s_current_bid_kopecks s) minimum)) (\<lambda>raised.
                     Ok (min raised dynamic_cap, TrafficFrontierIncrease))) (\<lambda>(to_bid, reason).
             Ok (Some (traffic_frontier_change p sn (s_nm_id s) (s_current_bid_kopecks s)
                         to_bid reason))))))"

definition traffic_frontier_pacing_decision ::
  "wb_policy \<Rightarrow> wb_snapshot \<Rightarrow> wb_snapshot option \<Rightarrow> wb_decision option paced" where
  "traffic_frontier_pacing_decision p sn last_applied =
     (if d_action (sn_decision sn) \<noteq> Hold AttributionIncomplete then Ok None
      else case o_current_campaign_metrics (sn_observation sn) of
        None \<Rightarrow> Ok (Some (traffic_frontier_hold p sn TrafficFeedbackPending))
      | Some m \<Rightarrow>
          ensure (m_clicks m \<le> m_impressions m \<and>
              m_attributed_orders m \<le> m_clicks m \<and>
              (0 < m_attributed_orders m \<or> m_attributed_revenue_minor m = 0))
            InconsistentMetrics (
          and_then (traffic_frontier_feedback p sn m last_applied) (\<lambda>found.
          case found of
            None \<Rightarrow> Ok (Some (traffic_frontier_hold p sn TrafficFeedbackPending))
          | Some feedback \<Rightarrow>
              and_then (campaign_drr_basis_points (tf_metrics feedback)) (\<lambda>drr.
              and_then (paced_value (p_daily_pause_threshold_minor p)
                          (o_observed_at (sn_observation sn))) (\<lambda>expected_spend.
              and_then (paced_value (p_target_impressions_per_day p)
                          (o_observed_at (sn_observation sn))) (\<lambda>expected_impressions.
              let spend_over_pace =
                    widen expected_spend * PACING_UPPER_BASIS_POINTS
                      < widen (m_spend_minor m) * BASIS_POINTS;
                  spend_under_pace =
                    widen (m_spend_minor m) * BASIS_POINTS
                      < widen expected_spend * PACING_LOWER_BASIS_POINTS;
                  delivery_under_pace = m_impressions m < expected_impressions
              in and_then (traffic_frontier_decrease_reason p (tf_metrics feedback) drr
                             spend_over_pace) (\<lambda>decrease_reason.
                 case decrease_reason of
                   Some reason \<Rightarrow> Ok (traffic_frontier_decrease p sn reason)
                 | None \<Rightarrow>
                     if uses_marginal_feedback (p_autonomous_pacing p) \<and>
                        p_target_orders_per_day p \<le> m_attributed_orders m
                     then Ok None
                     else if \<not> spend_under_pace \<or> \<not> delivery_under_pace then Ok None
                     else if uses_marginal_feedback (p_autonomous_pacing p) \<and>
                             \<not> tf_zero_cost_probe feedback \<and>
                             (m_attributed_orders (tf_metrics feedback) = 0 \<or>
                              m_clicks (tf_metrics feedback) = 0 \<or>
                              m_attributed_revenue_minor (tf_metrics feedback) = 0 \<or>
                              (case drr of
                                 None \<Rightarrow> True
                               | Some v \<Rightarrow> p_target_drr_basis_points p < v))
                     then Ok (Some (traffic_frontier_hold p sn TrafficFeedbackPending))
                     else traffic_frontier_increase_decision p sn (tf_metrics feedback))))))))"

definition autonomous_exposure_pacing_decision ::
  "wb_policy \<Rightarrow> wb_snapshot \<Rightarrow> wb_decision option paced" where
  "autonomous_exposure_pacing_decision p sn =
     (if d_action (sn_decision sn) \<noteq> Hold AttributionIncomplete then Ok None
      else case o_campaign_level_metrics (sn_observation sn) of
        None \<Rightarrow> Ok None
      | Some m \<Rightarrow>
          (let delivery_below_target = m_impressions m < p_target_impressions_per_day p;
               no_order_signal_is_safe =
                 (if m_attributed_orders m = 0
                  then m_attributed_revenue_minor m = 0 \<and>
                       m_clicks m < p_no_order_reduce_clicks p
                  else 0 < m_attributed_revenue_minor m \<and>
                       widen (m_spend_minor m) * 10000
                         \<le> widen (m_attributed_revenue_minor m)
                             * ucast (p_target_drr_basis_points p))
           in if \<not> delivery_below_target \<or> \<not> no_order_signal_is_safe then Ok None
              else case min_by_key s_current_bid_kopecks
                     (filter (\<lambda>s. p_min_sellable_stock p < s_sellable_stock s \<and>
                                  s_current_bid_kopecks s < p_max_bid_kopecks p)
                       (filter_map (\<lambda>nm_id. find (\<lambda>s. s_nm_id s = nm_id)
                                        (o_skus (sn_observation sn))) (p_nm_ids p))) of
                None \<Rightarrow> Ok None
              | Some s \<Rightarrow>
                  and_then (map_err BidIncreaseInvalid
                              (increase_bid p (s_current_bid_kopecks s)
                                (effective_minimum_bid p s))) (\<lambda>to_bid.
                  ensure (s_current_bid_kopecks s < to_bid) BidCannotIncrease
                    (Ok (Some (traffic_frontier_change p sn (s_nm_id s)
                                 (s_current_bid_kopecks s) to_bid
                                 AutonomousExposurePacing))))))"

end
