(* ===== verification/Wb_Feedback_Facts.thy ===== *)
theory Wb_Feedback_Facts
  imports Wb_Feedback
begin

text \<open>
  Facts about the campaign-feedback decisions: what each arithmetic helper computes, and
  the case rules that say where a proposed step comes from.
\<close>


section \<open>Arithmetic\<close>

lemma unat_ucast_u32 [simp]: "unat (ucast (a :: u32) :: u64) = unat a"
proof -
  have "unat a < 2 ^ 64"
    by (rule less_trans [OF u32_bound]) simp
  then show ?thesis
    by (simp add: unsigned_ucast_eq take_bit_nat_eq_self)
qed

lemma unat_ucast_u32_u128: "unat (ucast (a :: u32) :: u128) = unat a"
proof -
  have "unat a < 2 ^ 128"
    by (rule less_trans [OF u32_bound]) simp
  then show ?thesis
    by (simp add: unsigned_ucast_eq take_bit_nat_eq_self)
qed

lemma unat_constants:
  "unat SECONDS_PER_DAY = 86400" "unat PACING_LOWER_BASIS_POINTS = 8000"
  "unat PACING_UPPER_BASIS_POINTS = 12000"
  by (simp_all add: SECONDS_PER_DAY_def PACING_LOWER_BASIS_POINTS_def
      PACING_UPPER_BASIS_POINTS_def)

definition elapsed_seconds :: "instant \<Rightarrow> nat" where
  "elapsed_seconds t = max 300 (unat (seconds_since_midnight moscow t))"

lemma elapsed_seconds_bounds: "300 \<le> elapsed_seconds t" "elapsed_seconds t < 86400"
  using unat_seconds_since_midnight [of moscow t] by (auto simp: elapsed_seconds_def)

text \<open>The time curve: the share of the daily total that the elapsed day allows, at least 1.\<close>

lemma paced_value_Ok:
  obtains v where "paced_value n t = Inr v"
    and "unat v = max 1 (unat n * elapsed_seconds t div 86400)"
proof -
  let ?e = "max (ucast (seconds_since_midnight moscow t)) 300 :: u64"
  let ?q = "widen n * widen ?e div widen SECONDS_PER_DAY"
  have e: "unat ?e = elapsed_seconds t"
    by (simp add: unat_max elapsed_seconds_def max.commute)
  have q: "unat ?q = unat n * elapsed_seconds t div 86400"
    by (simp only: unat_div unat_widen_mult e unat_widen unat_constants)
  have "unat n * elapsed_seconds t \<le> unat n * 86400"
    using elapsed_seconds_bounds(2) [of t] by (intro mult_le_mono2) simp
  then have "unat n * elapsed_seconds t div 86400 \<le> unat n"
    using div_le_mono [of "unat n * elapsed_seconds t" "unat n * 86400" 86400] by simp
  then have "unat n * elapsed_seconds t div 86400 < 2 ^ 64"
    using u64_bound [of n] by simp
  then have fits: "unat (max ?q 1) < 2 ^ LENGTH(64)"
    by (simp add: unat_max q)
  then have "paced_value n t = Inr (ucast (max ?q 1))"
    by (simp add: paced_value_def Let_def try_from_def)
  moreover have "unat (ucast (max ?q 1) :: u64) = max 1 (unat n * elapsed_seconds t div 86400)"
    using fits by (simp add: unsigned_ucast_eq take_bit_nat_eq_self unat_max q max.commute)
  ultimately show ?thesis by (rule that)
qed

lemma paced_value_no_panic [simp]: "paced_value n t \<noteq> Inl e"
  by (metis Inr_not_Inl paced_value_Ok)

lemma campaign_drr_eq:
  "campaign_drr_basis_points m =
     (if m_attributed_revenue_minor m = 0 then Ok None
      else map_err DrrOutOfRange (and_then
        (ratio_basis_points (m_spend_minor m) (m_attributed_revenue_minor m)) (\<lambda>v. Ok (Some v))))"
proof (cases "m_attributed_revenue_minor m = 0")
  case False
  then have "widen (m_attributed_revenue_minor m) \<noteq> 0"
    using unat_widen [of "m_attributed_revenue_minor m"] by (metis unat_0 unat_eq_zero)
  moreover have "checked_mul (widen (m_spend_minor m)) BASIS_POINTS
      = Some (widen (m_spend_minor m) * BASIS_POINTS)"
    using basis_points_product [of "m_spend_minor m"]
    by (simp add: checked_mul_def unat_widen unat_BASIS_POINTS)
  ultimately show ?thesis
    by (simp add: campaign_drr_basis_points_def ratio_basis_points_def checked_div_def
        ok_or_def split: option.splits)
qed (simp add: campaign_drr_basis_points_def)

lemma campaign_drr_no_panic [simp]: "campaign_drr_basis_points m \<noteq> Inl Panic"
  by (simp add: campaign_drr_eq result_elim ratio_basis_points_no_panic)

lemma campaign_drr_value:
  assumes "campaign_drr_basis_points m = Inr (Some v)"
  shows "m_attributed_revenue_minor m \<noteq> 0"
    and "unat v = unat (m_spend_minor m) * 10000 div unat (m_attributed_revenue_minor m)"
  using assms ratio_basis_points_Ok
  by (auto simp: campaign_drr_eq result_elim split: if_splits)

text \<open>
  The dynamic cap respects the reviewed maximum, the spend left before the protective
  pause, and the price of a click that the observed economics can pay for.
\<close>

lemma dynamic_cap_Ok:
  assumes "traffic_frontier_dynamic_cap p sn m = Inr cap"
  shows "cap \<le> p_max_bid_kopecks p"
    and "unat cap \<le> unat (p_daily_pause_threshold_minor p)
      - unat (o_daily_spend_minor (sn_observation sn))"
    and "m_attributed_orders m = 0 \<Longrightarrow>
      unat cap * unat (p_no_order_reduce_clicks p) \<le> unat (p_daily_spend_cap_minor p)"
    and "m_attributed_orders m \<noteq> 0 \<Longrightarrow> unat cap * unat (m_clicks m) * 10000
      \<le> unat (m_attributed_revenue_minor m) * unat (p_target_drr_basis_points p)"
proof -
  from assms obtain economic where
    economic: "if m_attributed_orders m = 0
      then checked_div (p_daily_spend_cap_minor p) (p_no_order_reduce_clicks p) = Some economic
      else \<exists>product per_click. checked_mul (widen (m_attributed_revenue_minor m))
          (ucast (p_target_drr_basis_points p)) = Some product \<and>
        checked_div (product div BASIS_POINTS) (widen (m_clicks m)) = Some per_click \<and>
        try_from per_click = Some economic"
    and cap: "cap = min (min (p_max_bid_kopecks p) (saturating_sub
        (p_daily_pause_threshold_minor p) (o_daily_spend_minor (sn_observation sn)))) economic"
    by (auto simp: traffic_frontier_dynamic_cap_def Let_def result_elim split: if_splits)
  show "cap \<le> p_max_bid_kopecks p" and "unat cap \<le> unat (p_daily_pause_threshold_minor p)
      - unat (o_daily_spend_minor (sn_observation sn))"
    using cap by (auto simp: unat_min unat_saturating_sub min.coboundedI1)
  have le: "unat cap \<le> unat economic"
    using cap by (simp add: unat_min)
  show "unat cap * unat (p_no_order_reduce_clicks p) \<le> unat (p_daily_spend_cap_minor p)"
    if "m_attributed_orders m = 0"
  proof -
    have "unat economic = unat (p_daily_spend_cap_minor p) div unat (p_no_order_reduce_clicks p)"
      using economic that by (auto simp: checked_div_def unat_div split: if_splits)
    with le have "unat cap * unat (p_no_order_reduce_clicks p)
        \<le> unat (p_daily_spend_cap_minor p) div unat (p_no_order_reduce_clicks p)
          * unat (p_no_order_reduce_clicks p)"
      by (intro mult_le_mono1) simp
    also have "\<dots> \<le> unat (p_daily_spend_cap_minor p)" by simp
    finally show ?thesis .
  qed
  show "unat cap * unat (m_clicks m) * 10000
      \<le> unat (m_attributed_revenue_minor m) * unat (p_target_drr_basis_points p)"
    if "m_attributed_orders m \<noteq> 0"
  proof -
    let ?rt = "unat (m_attributed_revenue_minor m) * unat (p_target_drr_basis_points p)"
    obtain product per_click where product: "checked_mul (widen (m_attributed_revenue_minor m))
          (ucast (p_target_drr_basis_points p)) = Some product"
      and per_click: "checked_div (product div BASIS_POINTS) (widen (m_clicks m)) = Some per_click"
      and cast: "try_from per_click = Some economic"
      using economic \<open>m_attributed_orders m \<noteq> 0\<close> by auto
    have "unat product = ?rt"
      using unat_checked_mul [OF product] by (simp add: unat_widen unat_ucast_u32_u128)
    then have "unat economic = ?rt div 10000 div unat (m_clicks m)"
      using unat_try_from [OF cast] per_click
      by (auto simp: checked_div_def unat_div unat_widen unat_BASIS_POINTS split: if_splits)
    with le have "unat cap * unat (m_clicks m)
        \<le> ?rt div 10000 div unat (m_clicks m) * unat (m_clicks m)"
      by (intro mult_le_mono1) simp
    also have "\<dots> \<le> ?rt div 10000" by simp
    finally have "unat cap * unat (m_clicks m) * 10000 \<le> ?rt div 10000 * 10000"
      by (rule mult_le_mono1)
    also have "\<dots> \<le> ?rt" by simp
    finally show ?thesis .
  qed
qed

lemma decrease_frontier_bid_eq: "decrease_frontier_bid p c m = decrease_bid p c m"
  by (simp add: decrease_frontier_bid_def decrease_bid_def)


section \<open>Where a step comes from\<close>

lemma traffic_frontier_decreaseD:
  assumes "traffic_frontier_decrease p sn reason = Some d"
  obtains s where "s \<in> set (o_skus (sn_observation sn))"
    and "effective_minimum_bid p s < s_current_bid_kopecks s"
    and "d = traffic_frontier_change p sn (s_nm_id s) (s_current_bid_kopecks s)
      (decrease_bid p (s_current_bid_kopecks s) (effective_minimum_bid p s)) reason"
proof -
  from assms obtain s where
    sel: "max_by_key (\<lambda>s. (s_current_bid_kopecks s, Reverse (s_nm_id s)))
      (filter (\<lambda>s. effective_minimum_bid p s < s_current_bid_kopecks s)
        (o_skus (sn_observation sn))) = Some s"
    and d: "d = traffic_frontier_change p sn (s_nm_id s) (s_current_bid_kopecks s)
      (decrease_bid p (s_current_bid_kopecks s) (effective_minimum_bid p s)) reason"
    by (auto simp: traffic_frontier_decrease_def decrease_frontier_bid_eq Let_def
        split: option.splits if_splits)
  from max_by_key_Some [OF sel] d that show ?thesis by auto
qed

lemma traffic_frontier_increaseD:
  assumes "traffic_frontier_increase_decision p sn m = Inr (Some d)"
  obtains s frontier cap to reason where "s \<in> set (o_skus (sn_observation sn))"
    and "p_min_sellable_stock p < s_sellable_stock s"
    and "traffic_frontier_dynamic_cap p sn m = Inr cap"
    and "p_traffic_frontier_bid_kopecks p = Some frontier" and "frontier \<le> cap"
    and "effective_minimum_bid p s \<le> to" and "s_current_bid_kopecks s < to" and "to \<le> cap"
    and "reason = TrafficFrontierBootstrap \<or> reason = TrafficFrontierIncrease"
    and "d = traffic_frontier_change p sn (s_nm_id s) (s_current_bid_kopecks s) to reason"
proof -
  from assms obtain frontier cap where frontier: "p_traffic_frontier_bid_kopecks p = Some frontier"
    and cap: "traffic_frontier_dynamic_cap p sn m = Inr cap" and le: "frontier \<le> cap"
    by (auto simp: traffic_frontier_increase_decision_def result_elim not_less split: if_splits)
  let ?safe = "\<lambda>s. p_min_sellable_stock p < s_sellable_stock s \<and>
    s_current_bid_kopecks s < cap \<and> effective_minimum_bid p s \<le> cap"
  obtain s where sel: "min_by_key (\<lambda>s. (s_current_bid_kopecks s, s_nm_id s))
      (filter ?safe (o_skus (sn_observation sn))) = Some s"
    using assms frontier cap le
    by (auto simp: traffic_frontier_increase_decision_def not_less split: option.splits if_splits)
  from min_by_key_Some [OF sel] have s: "s \<in> set (o_skus (sn_observation sn))" "?safe s"
    by auto
  note run = traffic_frontier_increase_decision_def frontier cap leD [OF le] sel
  note raised = increase_bid_range [of p "s_current_bid_kopecks s" "effective_minimum_bid p s"]
  have "cap \<le> p_max_bid_kopecks p"
    by (rule dynamic_cap_Ok(1) [OF cap])
  show ?thesis
  proof (cases "s_current_bid_kopecks s < frontier")
    case True
    with assms have "d = traffic_frontier_change p sn (s_nm_id s) (s_current_bid_kopecks s)
        (min (max frontier (effective_minimum_bid p s)) cap) TrafficFrontierBootstrap"
      by (simp add: run Let_def)
    then show ?thesis
      using s True le by (intro that [OF s(1) _ cap frontier])
        (auto simp: less_max_iff_disj intro: order_less_le_trans)
  next
    case False
    with assms obtain r where r: "increase_bid p (s_current_bid_kopecks s)
        (effective_minimum_bid p s) = Inr r"
      and d: "d = traffic_frontier_change p sn (s_nm_id s) (s_current_bid_kopecks s)
        (min r cap) TrafficFrontierIncrease"
      by (auto simp: run Let_def result_elim)
    have "s_current_bid_kopecks s < r" "effective_minimum_bid p s \<le> r"
      using raised [OF r] s(2) \<open>cap \<le> p_max_bid_kopecks p\<close> by auto
    then show ?thesis
      using s le d by (intro that [OF s(1) _ cap frontier]) auto
  qed
qed

lemma traffic_frontier_cases:
  assumes "traffic_frontier_pacing_decision p sn prev = Inr (Some d)"
  obtains (hold) "d = traffic_frontier_hold p sn TrafficFeedbackPending"
    | (decrease) m drr over reason
      where "traffic_frontier_decrease_reason p m drr over = Inr (Some reason)"
      and "traffic_frontier_decrease p sn reason = Some d"
    | (increase) m feedback drr
      where "o_current_campaign_metrics (sn_observation sn) = Some m"
      and "traffic_frontier_feedback p sn m prev = Inr (Some feedback)"
      and "campaign_drr_basis_points (tf_metrics feedback) = Inr drr"
      and "uses_marginal_feedback (p_autonomous_pacing p) \<Longrightarrow>
        m_attributed_orders m < p_target_orders_per_day p"
      and "uses_marginal_feedback (p_autonomous_pacing p) \<Longrightarrow> tf_zero_cost_probe feedback \<or>
        m_attributed_orders (tf_metrics feedback) \<noteq> 0 \<and> m_clicks (tf_metrics feedback) \<noteq> 0 \<and>
        m_attributed_revenue_minor (tf_metrics feedback) \<noteq> 0 \<and>
        (\<exists>v. drr = Some v \<and> v \<le> p_target_drr_basis_points p)"
      and "traffic_frontier_increase_decision p sn (tf_metrics feedback) = Inr (Some d)"
proof (cases "o_current_campaign_metrics (sn_observation sn)")
  case None
  with assms hold show ?thesis
    by (auto simp: traffic_frontier_pacing_decision_def split: if_splits)
next
  case (Some m)
  with assms obtain found where found: "traffic_frontier_feedback p sn m prev = Inr found"
    by (auto simp: traffic_frontier_pacing_decision_def result_elim split: if_splits)
  show ?thesis
  proof (cases found)
    case None
    with assms Some found hold show ?thesis
      by (auto simp: traffic_frontier_pacing_decision_def result_elim split: if_splits)
  next
    case (Some feedback)
    note some = Some
    from paced_value_Ok obtain es where es: "(paced_value (p_daily_pause_threshold_minor p)
        (o_observed_at (sn_observation sn)) :: u64 paced) = Inr es" .
    from paced_value_Ok obtain ei where ei: "(paced_value (p_target_impressions_per_day p)
        (o_observed_at (sn_observation sn)) :: u64 paced) = Inr ei" .
    note unfolded = traffic_frontier_pacing_decision_def
      \<open>o_current_campaign_metrics (sn_observation sn) = Some m\<close> found some
    from assms obtain drr where drr: "campaign_drr_basis_points (tf_metrics feedback) = Inr drr"
      by (auto simp: unfolded result_elim split: if_splits)
    let ?over = "widen es * PACING_UPPER_BASIS_POINTS < widen (m_spend_minor m) * BASIS_POINTS"
    from assms obtain reason where reason:
      "traffic_frontier_decrease_reason p (tf_metrics feedback) drr ?over = Inr reason"
      by (auto simp: unfolded drr es ei Let_def result_elim split: if_splits)
    show ?thesis
    proof (cases reason)
      case None
      with assms reason found some drr hold increase
        \<open>o_current_campaign_metrics (sn_observation sn) = Some m\<close>
      show ?thesis
        by (auto simp: unfolded drr es ei Let_def result_elim not_le not_less
            split: if_splits option.splits)
    next
      case (Some r)
      with assms reason decrease show ?thesis
        by (auto simp: unfolded drr es ei Let_def result_elim split: if_splits)
    qed
  qed
qed

lemma decrease_reason_lowers:
  assumes "traffic_frontier_decrease_reason p m drr over = Inr (Some reason)"
  shows "reason_raises reason = Some False"
  using assms
  by (auto simp: traffic_frontier_decrease_reason_def Let_def result_elim
      split: if_splits option.splits)

lemma autonomous_pacingD:
  assumes "autonomous_exposure_pacing_decision p sn = Inr (Some d)"
  obtains s to where "s \<in> set (o_skus (sn_observation sn))"
    and "p_min_sellable_stock p < s_sellable_stock s"
    and "s_current_bid_kopecks s < p_max_bid_kopecks p"
    and "increase_bid p (s_current_bid_kopecks s) (effective_minimum_bid p s) = Inr to"
    and "d = traffic_frontier_change p sn (s_nm_id s) (s_current_bid_kopecks s) to
      AutonomousExposurePacing"
proof -
  let ?skus = "filter (\<lambda>s. p_min_sellable_stock p < s_sellable_stock s \<and>
      s_current_bid_kopecks s < p_max_bid_kopecks p)
    (filter_map (\<lambda>nm_id. find (\<lambda>s. s_nm_id s = nm_id) (o_skus (sn_observation sn))) (p_nm_ids p))"
  from assms obtain s to where sel: "min_by_key s_current_bid_kopecks ?skus = Some s"
    and to: "increase_bid p (s_current_bid_kopecks s) (effective_minimum_bid p s) = Inr to"
    and d: "d = traffic_frontier_change p sn (s_nm_id s) (s_current_bid_kopecks s) to
      AutonomousExposurePacing"
    by (auto simp: autonomous_exposure_pacing_decision_def Let_def result_elim
        split: if_splits option.splits)
  from min_by_key_Some [OF sel] have "s \<in> set (o_skus (sn_observation sn))"
    and "p_min_sellable_stock p < s_sellable_stock s"
    and "s_current_bid_kopecks s < p_max_bid_kopecks p"
    by (auto simp: set_filter_map dest: find_Some_mem)
  with to d that show ?thesis by blast
qed

end
