(* ===== verification/Wb_Explicit.thy ===== *)
theory Wb_Explicit
  imports Wb_Feedback_Facts
begin

text \<open>
  \<open>src/src/control/automation_executor/explicit_decisions.rs\<close>: decisions that only an
  explicit maintenance intent may produce. They bypass parts of the engine, so each states
  its own guards.
\<close>

datatype explicit_error =
    RepairNotAuthorized
  | RepairCampaignStatus
  | RepairSpendIncomplete
  | RepairNeedsPause
  | RepairQuota
  | OverrideNeedsMarginalFeedback
  | OverrideQuotaNotExhausted
  | OverrideCooldown
  | OverridePacing feedback_error
  | ResumeNotWritable
  | ResumeBlocked
  | ResumeNotOwned
  | ResumeBudget
  | ResumeSpend
  | ResumeNoStock
  | ResumeBidOutsideCorridor
  | ExposureTargetMismatch
  | ExposureBlocked
  | ExposureMetricsMissing
  | ExposureNotLow
  | ExposureNoCandidate
  | ExposureIncreaseInvalid
  | ExposureCannotIncrease

type_synonym 'a explicit = "(explicit_error, 'a) result"

definition decision_of :: "wb_policy \<Rightarrow> wb_snapshot \<Rightarrow> wb_action \<Rightarrow> wb_decision" where
  "decision_of p sn action = \<lparr>
     d_account_id = p_account_id p,
     d_campaign_id = p_campaign_id p,
     d_observed_at = o_observed_at (sn_observation sn),
     d_action = action,
     d_unresolved_stops = []\<rparr>"

definition reviewed_skus :: "wb_policy \<Rightarrow> wb_observation \<Rightarrow> wb_sku_observation list" where
  "reviewed_skus p ob =
     filter_map (\<lambda>nm_id. find (\<lambda>s. s_nm_id s = nm_id) (o_skus ob)) (p_nm_ids p)"

definition explicit_bid_cap_repair_decision ::
  "wb_policy \<Rightarrow> wb_snapshot \<Rightarrow> wb_decision explicit" where
  "explicit_bid_cap_repair_decision p sn =
     (let ob = sn_observation sn;
          authorization_active =
            p_authorized_at p \<le> o_observed_at ob \<and>
            p_observe_until p \<le> o_observed_at ob \<and>
            o_observed_at ob < p_authorization_expires_at p
      in ensure (p_write_enabled p \<and> p_bid_writes_enabled p \<and> authorization_active)
           RepairNotAuthorized (
         ensure (o_campaign_status ob = 9 \<or> o_campaign_status ob = 11) RepairCampaignStatus (
         ensure (o_daily_spend_complete ob) RepairSpendIncomplete (
         ensure (o_campaign_status ob = 11 \<or>
             o_daily_spend_minor ob < p_daily_pause_threshold_minor p) RepairNeedsPause (
         ensure (o_actions_today ob < p_max_actions_per_day p) RepairQuota (
         Ok (decision_of p sn
           (case find (\<lambda>s. p_max_bid_kopecks p < s_current_bid_kopecks s) (reviewed_skus p ob) of
              None \<Rightarrow> Hold NoMaterialChange
            | Some s \<Rightarrow> ChangeBids [\<lparr>c_nm_id = s_nm_id s,
                                    c_from_bid_kopecks = s_current_bid_kopecks s,
                                    c_to_bid_kopecks = p_max_bid_kopecks p,
                                    c_reason = PolicyMaximumExceeded\<rparr>]))))))))"

definition explicit_quota_override_decision ::
  "wb_policy \<Rightarrow> wb_snapshot \<Rightarrow> wb_snapshot option \<Rightarrow> wb_decision option explicit" where
  "explicit_quota_override_decision p sn last_applied =
     ensure (uses_marginal_feedback (p_autonomous_pacing p)) OverrideNeedsMarginalFeedback (
     ensure (d_action (sn_decision sn) = Hold ActionQuotaExhausted \<and>
         p_max_actions_per_day p \<le> o_actions_today (sn_observation sn))
       OverrideQuotaNotExhausted (
     ensure (case o_last_action_at (sn_observation sn) of
               None \<Rightarrow> True
             | Some last_action \<Rightarrow>
                 last_action + seconds (uint (p_cooldown_seconds p))
                   \<le> o_observed_at (sn_observation sn)) OverrideCooldown (
     let eligible = sn\<lparr>sn_decision :=
           (sn_decision sn)\<lparr>d_action := Hold AttributionIncomplete\<rparr>\<rparr>
     in wrap_err OverridePacing (traffic_frontier_pacing_decision p eligible last_applied))))"

definition explicit_resume_after_daily_cap_decision ::
  "wb_policy \<Rightarrow> wb_snapshot \<Rightarrow> wb_decision explicit" where
  "explicit_resume_after_daily_cap_decision p sn =
     (let ob = sn_observation sn
      in ensure (p_write_enabled p \<and> p_bid_writes_enabled p) ResumeNotWritable (
         ensure (d_action (sn_decision sn) = Hold ProtectivePauseRequiresApproval \<or>
             d_action (sn_decision sn) = Hold SpendDataIncomplete) ResumeBlocked (
         ensure (o_campaign_status ob = 11 \<and> o_paused_by_automation ob) ResumeNotOwned (
         ensure (0 < o_budget_remaining_minor ob) ResumeBudget (
         ensure (o_daily_spend_minor ob < p_daily_pause_threshold_minor p \<and>
             o_daily_spend_minor ob < p_daily_spend_cap_minor p) ResumeSpend (
         ensure (list_ex (\<lambda>s. p_min_sellable_stock p < s_sellable_stock s) (o_skus ob))
           ResumeNoStock (
         ensure (list_all (\<lambda>s. effective_minimum_bid p s \<le> s_current_bid_kopecks s \<and>
             s_current_bid_kopecks s \<le> p_max_bid_kopecks p) (o_skus ob))
           ResumeBidOutsideCorridor (
         Ok (decision_of p sn ResumeCampaignAfterDailyCap)))))))))"

definition explicit_exposure_increase_decision ::
  "wb_policy \<Rightarrow> wb_snapshot \<Rightarrow> u64 \<Rightarrow> wb_decision explicit" where
  "explicit_exposure_increase_decision p sn target_impressions =
     ensure (target_impressions = p_target_impressions_per_day p) ExposureTargetMismatch (
     ensure (d_action (sn_decision sn) = Hold AttributionIncomplete) ExposureBlocked (
     and_then (ok_or (o_campaign_level_metrics (sn_observation sn)) ExposureMetricsMissing) (\<lambda>m.
     ensure (m_impressions m < target_impressions \<and>
         m_impressions m < p_low_exposure_max_impressions p \<and>
         m_clicks m < p_low_exposure_max_clicks p) ExposureNotLow (
     and_then (ok_or (min_by_key s_current_bid_kopecks
         (filter (\<lambda>s. p_min_sellable_stock p < s_sellable_stock s \<and>
                      s_current_bid_kopecks s < p_max_bid_kopecks p)
           (reviewed_skus p (sn_observation sn)))) ExposureNoCandidate) (\<lambda>s.
     and_then (map_err ExposureIncreaseInvalid
         (increase_bid p (s_current_bid_kopecks s) (effective_minimum_bid p s))) (\<lambda>to_bid.
     ensure (s_current_bid_kopecks s < to_bid) ExposureCannotIncrease (
     Ok (decision_of p sn (ChangeBids [\<lparr>c_nm_id = s_nm_id s,
                                       c_from_bid_kopecks = s_current_bid_kopecks s,
                                       c_to_bid_kopecks = to_bid,
                                       c_reason = ExplicitExposureTarget\<rparr>])))))))))"

lemma reviewed_skus_subset: "set (reviewed_skus p ob) \<subseteq> set (o_skus ob)"
  by (auto simp: reviewed_skus_def set_filter_map dest: find_Some_mem)

lemma bid_cap_repairD:
  assumes "explicit_bid_cap_repair_decision p sn = Inr d"
  obtains (hold) "d = decision_of p sn (Hold NoMaterialChange)"
    | (cap) s where "s \<in> set (o_skus (sn_observation sn))"
      and "p_max_bid_kopecks p < s_current_bid_kopecks s"
      and "d = decision_of p sn (ChangeBids [\<lparr>c_nm_id = s_nm_id s,
        c_from_bid_kopecks = s_current_bid_kopecks s, c_to_bid_kopecks = p_max_bid_kopecks p,
        c_reason = PolicyMaximumExceeded\<rparr>])"
  using assms reviewed_skus_subset [of p "sn_observation sn"]
  by (auto simp: explicit_bid_cap_repair_decision_def Let_def result_elim
      split: option.splits dest!: find_Some_mem)

lemma exposure_increaseD:
  assumes "explicit_exposure_increase_decision p sn n = Inr d"
  obtains s to where "s \<in> set (o_skus (sn_observation sn))"
    and "p_min_sellable_stock p < s_sellable_stock s"
    and "s_current_bid_kopecks s < p_max_bid_kopecks p" and "s_current_bid_kopecks s < to"
    and "increase_bid p (s_current_bid_kopecks s) (effective_minimum_bid p s) = Inr to"
    and "d = decision_of p sn (ChangeBids [\<lparr>c_nm_id = s_nm_id s,
      c_from_bid_kopecks = s_current_bid_kopecks s, c_to_bid_kopecks = to,
      c_reason = ExplicitExposureTarget\<rparr>])"
  using assms reviewed_skus_subset [of p "sn_observation sn"]
  by (auto simp: explicit_exposure_increase_decision_def result_elim dest!: min_by_key_Some)

end
