(* ===== verification/Wb_Execution.thy ===== *)
theory Wb_Execution
  imports Wb_Explicit
begin

text \<open>
  The file-backed executor of \<open>src/src/control/automation_executor.rs\<close> (\<open>run_once\<close>) with
  its private state of \<open>automation_executor/state.rs\<close> and its guarded dispatch of
  \<open>automation_executor/dispatch.rs\<close>. One run reads the execution state file, observes the
  campaign, and then reconciles, locks, or reserves and sends at most one action.

  A run is a function of its world (the state file and the log of the writes that may have
  left the process) and of its environment: whether the lease is free, what the
  marketplace reads return, how each replacement of the state file ends, and how a write
  ends. Every environment is allowed.
\<close>


section \<open>Data\<close>

datatype pending_action_kind =
    PendingChangeBids "wb_bid_change list"
  | PendingPauseForDailyCap
  | PendingResumeAfterDailyCap

record pending_action =
  pa_reserved_at :: instant
  pa_kind :: pending_action_kind

record execution_state =
  x_schema_version :: u32
  x_policy_sha256 :: string
  x_account_id :: string
  x_campaign_id :: u64
  x_business_date :: naive_date
  x_actions_today :: u32
  x_last_action_at :: "instant option"
  x_paused_for_daily_cap_on :: "naive_date option"
  x_pending :: "pending_action option"
  x_incident_class :: "string option"

datatype execution_outcome =
    Observed
  | ReservationCancelled
  | WriteSentReconciliationRequired
  | AwaitingReadback
  | Reconciled
  | IncidentLocked

datatype execution_error =
    LeaseBusy
  | StateUnreadable
  | StateMismatch
  | MarketUnavailable
  | ObservationFailed observer_error
  | SnapshotNotSaved
  | StateNotSaved
  | ActionCounterOverflow
  | PermitRevoked
  | WriteNeedsReadback

datatype save_reply = Replaced | ReplaceFailed | ReplacedUnsynced

datatype write_reply = WriteAccepted | WriteDefiniteFailure | WriteAmbiguous

record market_facts =
  mk_campaign :: campaign_observation
  mk_minimum_bids :: "(u64 \<times> u64) list"
  mk_budget :: u64
  mk_advertising :: "advertising_fact list"
  mk_stocks :: "stock_fact list"

record run_env =
  e_lease_free :: bool
  e_state_readable :: bool
  e_market :: "market_facts option"
  e_snapshot_saved :: bool
  e_save :: "execution_state \<Rightarrow> save_reply"
  e_write :: "pending_action \<Rightarrow> write_reply"

text \<open>
  The log keeps, for each write that may have left the process, the action, the content of
  the state file at that moment and the observation that led to it.
\<close>

record sent_write =
  w_action :: pending_action
  w_file :: "execution_state option"
  w_observation :: wb_observation

record world =
  wd_file :: "execution_state option"
  wd_sent :: "sent_write list"

type_synonym 'a run = "(execution_error, 'a) result \<times> world"

definition STATE_SCHEMA_VERSION :: u32 where
  "STATE_SCHEMA_VERSION = 1"

definition READBACK_GRACE :: duration where
  "READBACK_GRACE = minutes 5"

definition run_then :: "'a run \<Rightarrow> ('a \<Rightarrow> world \<Rightarrow> 'b run) \<Rightarrow> 'b run" where
  "run_then r f = (case fst r of Inl e \<Rightarrow> (Inl e, snd r) | Inr x \<Rightarrow> f x (snd r))"


section \<open>Pending actions\<close>

fun stop_bid_reason :: "disable_reason \<Rightarrow> bid_reason" where
  "stop_bid_reason DisableLowStock = LowStockGuard"
| "stop_bid_reason DisableNoOrdersHardStop = NoOrdersHardStop"
| "stop_bid_reason DisableHardDrrExceeded = HardDrrExceeded"

fun pending_from_decision ::
  "wb_action \<Rightarrow> wb_observation \<Rightarrow> u64 \<Rightarrow> instant \<Rightarrow> pending_action option" where
  "pending_from_decision (Hold _) ob policy_min reserved_at = None"
| "pending_from_decision (ChangeBids changes) ob policy_min reserved_at =
     (if length changes \<noteq> 1 then None
      else Some \<lparr>pa_reserved_at = reserved_at, pa_kind = PendingChangeBids changes\<rparr>)"
| "pending_from_decision (DisableSku nm_id reason) ob policy_min reserved_at =
     (case find (\<lambda>s. s_nm_id s = nm_id) (o_skus ob) of
        None \<Rightarrow> None
      | Some s \<Rightarrow>
          (let current = s_current_bid_kopecks s;
               effective_minimum = max policy_min (s_minimum_bid_kopecks s)
           in if current \<le> effective_minimum then None
              else Some \<lparr>pa_reserved_at = reserved_at,
                pa_kind = PendingChangeBids [\<lparr>c_nm_id = nm_id,
                                             c_from_bid_kopecks = current,
                                             c_to_bid_kopecks = effective_minimum,
                                             c_reason = stop_bid_reason reason\<rparr>]\<rparr>))"
| "pending_from_decision PauseCampaignForDailyCap ob policy_min reserved_at =
     Some \<lparr>pa_reserved_at = reserved_at, pa_kind = PendingPauseForDailyCap\<rparr>"
| "pending_from_decision ResumeCampaignAfterDailyCap ob policy_min reserved_at =
     Some \<lparr>pa_reserved_at = reserved_at, pa_kind = PendingResumeAfterDailyCap\<rparr>"

definition bid_change_is_visible :: "wb_observation \<Rightarrow> wb_bid_change \<Rightarrow> bool" where
  "bid_change_is_visible ob c =
     (case find (\<lambda>s. s_nm_id s = c_nm_id c) (o_skus ob) of
        None \<Rightarrow> False
      | Some s \<Rightarrow> s_current_bid_kopecks s = c_to_bid_kopecks c)"

definition pending_is_visible :: "wb_observation \<Rightarrow> pending_action \<Rightarrow> bool" where
  "pending_is_visible ob pending =
     (case pa_kind pending of
        PendingChangeBids changes \<Rightarrow> list_all (bid_change_is_visible ob) changes
      | PendingPauseForDailyCap \<Rightarrow> o_campaign_status ob = 11
      | PendingResumeAfterDailyCap \<Rightarrow> o_campaign_status ob = 9)"

definition reconcile_pending ::
  "wb_observation \<Rightarrow> execution_state \<Rightarrow> pending_action \<Rightarrow> execution_outcome \<times> execution_state"
where
  "reconcile_pending ob st pending =
     (if pending_is_visible ob pending then
        (let paused = (case pa_kind pending of
               PendingPauseForDailyCap \<Rightarrow>
                 Some (wb_automation_business_date (pa_reserved_at pending))
             | PendingResumeAfterDailyCap \<Rightarrow> None
             | PendingChangeBids _ \<Rightarrow> x_paused_for_daily_cap_on st)
         in (Reconciled, st\<lparr>x_paused_for_daily_cap_on := paused, x_pending := None\<rparr>))
      else if o_observed_at ob < pa_reserved_at pending + READBACK_GRACE
      then (AwaitingReadback, st)
      else (IncidentLocked, st\<lparr>x_incident_class := Some ''write_not_reconciled''\<rparr>))"


section \<open>The state file\<close>

definition read_state_file :: "run_env \<Rightarrow> world \<Rightarrow> execution_state option run" where
  "read_state_file env w =
     (if e_state_readable env then (Ok (wd_file w), w) else (Error StateUnreadable, w))"

definition fresh_state :: "wb_policy \<Rightarrow> string \<Rightarrow> naive_date \<Rightarrow> execution_state" where
  "fresh_state p policy_sha256 business_date = \<lparr>
     x_schema_version = STATE_SCHEMA_VERSION,
     x_policy_sha256 = policy_sha256,
     x_account_id = p_account_id p,
     x_campaign_id = p_campaign_id p,
     x_business_date = business_date,
     x_actions_today = 0,
     x_last_action_at = None,
     x_paused_for_daily_cap_on = None,
     x_pending = None,
     x_incident_class = None\<rparr>"

definition load_execution_state ::
  "run_env \<Rightarrow> wb_policy \<Rightarrow> string \<Rightarrow> naive_date \<Rightarrow> bool \<Rightarrow> world \<Rightarrow> execution_state run" where
  "load_execution_state env p policy_sha256 business_date allow_shadow_policy_migration w =
     run_then (read_state_file env w) (\<lambda>found w.
     case found of
       None \<Rightarrow> (Ok (fresh_state p policy_sha256 business_date), w)
     | Some st \<Rightarrow>
         if \<not> (x_schema_version st = STATE_SCHEMA_VERSION \<and>
                x_account_id st = p_account_id p \<and>
                x_campaign_id st = p_campaign_id p)
         then (Error StateMismatch, w)
         else if x_policy_sha256 st \<noteq> policy_sha256
         then (if allow_shadow_policy_migration
               then (Ok (st\<lparr>x_policy_sha256 := policy_sha256\<rparr>), w)
               else (Error StateMismatch, w))
         else (Ok st, w))"

definition save_execution_state :: "run_env \<Rightarrow> execution_state \<Rightarrow> world \<Rightarrow> unit run" where
  "save_execution_state env st w =
     (case e_save env st of
        Replaced \<Rightarrow> (Ok (), w\<lparr>wd_file := Some st\<rparr>)
      | ReplaceFailed \<Rightarrow> (Error StateNotSaved, w)
      | ReplacedUnsynced \<Rightarrow> (Error StateNotSaved, w\<lparr>wd_file := Some st\<rparr>))"

definition verify_pending_permit :: "run_env \<Rightarrow> pending_action \<Rightarrow> world \<Rightarrow> unit run" where
  "verify_pending_permit env expected w =
     run_then (read_state_file env w) (\<lambda>found w.
     case found of
       None \<Rightarrow> (Error StateUnreadable, w)
     | Some st \<Rightarrow>
         if x_incident_class st = None \<and> x_pending st = Some expected
         then (Ok (), w) else (Error PermitRevoked, w))"


section \<open>Dispatch and the run\<close>

datatype write_result = Sent | NotSent | Ambiguous

text \<open>
  The writer asks for the permit right before the request departs; a definite failure
  means that the request did not depart.
\<close>

definition send_pending ::
  "run_env \<Rightarrow> wb_observation \<Rightarrow> pending_action \<Rightarrow> world \<Rightarrow> write_result run" where
  "send_pending env ob pending w =
     (if e_write env pending = WriteDefiniteFailure then (Ok NotSent, w)
      else
        run_then (verify_pending_permit env pending w) (\<lambda>_ w.
        let w' = w\<lparr>wd_sent := \<lparr>w_action = pending, w_file = wd_file w, w_observation = ob\<rparr>
                               # wd_sent w\<rparr>
        in if e_write env pending = WriteAccepted then (Ok Sent, w')
           else (Error WriteNeedsReadback, w')))"

definition daily_cap_breach_requires_lock ::
  "wb_policy \<Rightarrow> wb_observation \<Rightarrow> wb_decision \<Rightarrow> bool \<Rightarrow> bool" where
  "daily_cap_breach_requires_lock p ob d pause_can_be_reserved \<longleftrightarrow>
     p_daily_spend_cap_minor p \<le> o_daily_spend_minor ob \<and>
     \<not> (pause_can_be_reserved \<and> d_action d = PauseCampaignForDailyCap)"

definition roll_business_date :: "naive_date \<Rightarrow> execution_state \<Rightarrow> execution_state" where
  "roll_business_date business_date st =
     (if x_business_date st \<noteq> business_date
      then st\<lparr>x_business_date := business_date, x_actions_today := 0\<rparr> else st)"

definition state_view :: "naive_date \<Rightarrow> execution_state \<Rightarrow> wb_state_view" where
  "state_view business_date st = \<lparr>
     v_paused_by_automation =
       (case x_paused_for_daily_cap_on st of
          None \<Rightarrow> False
        | Some paused_on \<Rightarrow> paused_on < business_date),
     v_actions_today = x_actions_today st,
     v_last_action_at = x_last_action_at st\<rparr>"

definition observe_market ::
  "run_env \<Rightarrow> wb_policy \<Rightarrow> string \<Rightarrow> instant \<Rightarrow> wb_state_view \<Rightarrow> world \<Rightarrow> wb_snapshot run" where
  "observe_market env p policy_sha256 observed_at view w =
     (case e_market env of
        None \<Rightarrow> (Error MarketUnavailable, w)
      | Some mk \<Rightarrow>
          (wrap_err ObservationFailed
             (observe p policy_sha256 observed_at (mk_campaign mk) (mk_minimum_bids mk)
               (mk_budget mk) (mk_advertising mk) (mk_stocks mk) view), w))"

text \<open>The part of \<open>run_once\<close> after the snapshot is on disk.\<close>

definition act_on_snapshot ::
  "run_env \<Rightarrow> wb_policy \<Rightarrow> instant \<Rightarrow> execution_state \<Rightarrow> wb_snapshot \<Rightarrow> world \<Rightarrow>
     (wb_decision \<times> execution_outcome) run" where
  "act_on_snapshot env p observed_at st sn w =
     (let ob = sn_observation sn; decision = sn_decision sn in
      if x_incident_class st \<noteq> None then
        run_then (save_execution_state env st w) (\<lambda>_ w. (Ok (decision, IncidentLocked), w))
      else case x_pending st of
        Some pending \<Rightarrow>
          (let (outcome, st') = reconcile_pending ob st pending
           in run_then (save_execution_state env st' w) (\<lambda>_ w. (Ok (decision, outcome), w)))
      | None \<Rightarrow>
          if daily_cap_breach_requires_lock p ob decision True then
            run_then (save_execution_state env
                        (st\<lparr>x_incident_class := Some ''daily_spend_cap_breached''\<rparr>) w)
              (\<lambda>_ w. (Ok (decision, IncidentLocked), w))
          else case pending_from_decision (d_action decision) ob (p_min_bid_kopecks p)
                      observed_at of
            None \<Rightarrow>
              run_then (save_execution_state env st w) (\<lambda>_ w. (Ok (decision, Observed), w))
          | Some pending \<Rightarrow>
              (case checked_add (x_actions_today st) 1 of
                 None \<Rightarrow> (Error ActionCounterOverflow, w)
               | Some actions_today \<Rightarrow>
                   (let st' = st\<lparr>x_actions_today := actions_today,
                                 x_last_action_at := Some observed_at,
                                 x_pending := Some pending\<rparr>
                    in run_then (save_execution_state env st' w) (\<lambda>_ w.
                       run_then (send_pending env ob pending w) (\<lambda>result w.
                       if result = NotSent then
                         run_then (save_execution_state env (st'\<lparr>x_pending := None\<rparr>) w)
                           (\<lambda>_ w. (Ok (decision, ReservationCancelled), w))
                       else (Ok (decision, WriteSentReconciliationRequired), w))))))"

definition run_once ::
  "run_env \<Rightarrow> wb_policy \<Rightarrow> string \<Rightarrow> instant \<Rightarrow> world \<Rightarrow> (wb_decision \<times> execution_outcome) run"
where
  "run_once env p policy_sha256 observed_at w =
     (if \<not> e_lease_free env then (Error LeaseBusy, w)
      else
        let business_date = wb_automation_business_date observed_at in
        run_then (load_execution_state env p policy_sha256 business_date
                    (\<not> p_write_enabled p) w) (\<lambda>loaded w.
        let st = roll_business_date business_date loaded in
        run_then (observe_market env p policy_sha256 observed_at
                    (state_view business_date st) w) (\<lambda>sn w.
        if \<not> e_snapshot_saved env then (Error SnapshotNotSaved, w)
        else act_on_snapshot env p observed_at st sn w)))"

end
