(* ===== verification/Wb_Sources.thy ===== *)
theory Wb_Sources
  imports Wb_Execution
begin

text \<open>
  The contract between whatever decides and the executor that writes. The executor turns
  a decision into a pending action without looking at the policy again, so the safety of a
  write rests on its decision source. The interface \<open>decision_source\<close> states what a
  source promises; its client lemma shows that the pending action is safe; the engine, the
  pacing controllers and the explicit maintenance decisions are interpretations.
\<close>

definition pending_in_corridor :: "wb_policy \<Rightarrow> wb_observation \<Rightarrow> pending_action \<Rightarrow> bool" where
  "pending_in_corridor p ob pending \<longleftrightarrow>
     (case pa_kind pending of
        PendingChangeBids cs \<Rightarrow>
          length cs = 1 \<and> list_all (change_in_corridor p ob) cs \<and>
          list_all change_moves_as_announced cs
      | _ \<Rightarrow> True)"

text \<open>The snapshot carries the decision of the engine on its own observation.\<close>

definition engine_snapshot :: "wb_policy \<Rightarrow> wb_snapshot \<Rightarrow> bool" where
  "engine_snapshot p sn \<longleftrightarrow>
     evaluate_wb_automation p (sn_observation sn) = Ok (sn_decision sn)"

locale decision_source =
  fixes decides :: "wb_policy \<Rightarrow> wb_snapshot \<Rightarrow> wb_decision \<Rightarrow> bool"
  assumes corridor: "engine_snapshot p sn \<Longrightarrow> decides p sn d \<Longrightarrow>
      action_in_corridor p (sn_observation sn) (d_action d)"
    and direction: "engine_snapshot p sn \<Longrightarrow> decides p sn d \<Longrightarrow> d_action d = ChangeBids cs \<Longrightarrow>
      list_all change_moves_as_announced cs"
    and scope: "engine_snapshot p sn \<Longrightarrow> decides p sn d \<Longrightarrow> d_account_id d = p_account_id p \<and>
      d_campaign_id d = p_campaign_id p \<and> d_observed_at d = o_observed_at (sn_observation sn)"
begin

lemma pending_safe:
  assumes "engine_snapshot p sn" and "decides p sn d"
    and "pending_from_decision (d_action d) (sn_observation sn) (p_min_bid_kopecks p) t
      = Some pending"
  shows "pending_in_corridor p (sn_observation sn) pending"
proof (cases "d_action d")
  case (ChangeBids cs)
  with assms corridor [OF assms(1,2)] direction [OF assms(1,2)] show ?thesis
    by (auto simp: pending_in_corridor_def split: if_splits)
next
  case (DisableSku nm_id reason)
  from assms(1) obtain obs where ok: "policy_ok p"
    and obs: "validate_observation p (sn_observation sn) = Inr obs"
    unfolding engine_snapshot_def by (rule evaluate_wb_automationD)
  from assms(3) DisableSku obtain s where s: "s \<in> set (o_skus (sn_observation sn))"
      "s_nm_id s = nm_id" "effective_minimum_bid p s < s_current_bid_kopecks s"
    and pending: "pa_kind pending = PendingChangeBids [\<lparr>c_nm_id = s_nm_id s,
      c_from_bid_kopecks = s_current_bid_kopecks s,
      c_to_bid_kopecks = effective_minimum_bid p s, c_reason = stop_bid_reason reason\<rparr>]"
    by (auto simp: Let_def effective_minimum_bid_def not_le split: option.splits if_splits
        dest: find_Some_mem)
  have "effective_minimum_bid p s \<le> p_max_bid_kopecks p"
    by (rule effective_minimum_le_max [OF ok observed_sku_ok [OF obs s(1)]])
  with s pending show ?thesis
    by (cases reason) (auto simp: pending_in_corridor_def change_moves_as_announced_def
        intro!: change_in_corridorI)
qed (use assms(3) in \<open>auto simp: pending_in_corridor_def\<close>)

end


section \<open>What a source may rely on\<close>

lemma engine_snapshotD:
  assumes "engine_snapshot p sn"
  obtains obs where "policy_ok p" and "validate_observation p (sn_observation sn) = Inr obs"
    and "evaluate_action p (sn_observation sn) obs
      = Inr (d_action (sn_decision sn), d_unresolved_stops (sn_decision sn))"
  using assms unfolding engine_snapshot_def by (rule evaluate_wb_automationD)

lemma engine_snapshot_sku:
  assumes "engine_snapshot p sn" and "s \<in> set (o_skus (sn_observation sn))"
  shows "effective_minimum_bid p s \<le> p_max_bid_kopecks p"
  using assms(1)
proof (rule engine_snapshotD)
  fix obs assume ok: "policy_ok p" and obs: "validate_observation p (sn_observation sn) = Inr obs"
  show ?thesis
    by (rule effective_minimum_le_max [OF ok observed_sku_ok [OF obs assms(2)]])
qed

text \<open>An attribution hold means that every bid was already at or below the maximum.\<close>

lemma attribution_hold_bids:
  assumes "engine_snapshot p sn" and "d_action (sn_decision sn) = Hold AttributionIncomplete"
    and "s \<in> set (o_skus (sn_observation sn))"
  shows "s_current_bid_kopecks s \<le> p_max_bid_kopecks p"
  using assms(1)
proof (rule engine_snapshotD)
  fix obs assume obs: "validate_observation p (sn_observation sn) = Inr obs"
    and run: "evaluate_action p (sn_observation sn) obs
      = Inr (d_action (sn_decision sn), d_unresolved_stops (sn_decision sn))"
  from run show ?thesis
  proof (cases rule: evaluate_action_cases)
    case gate
    with assms(2) show ?thesis by (simp add: campaign_gate_def split: if_splits)
  qed (use assms(2,3) no_bid_above_max [OF obs] in auto)
qed

lemma decrease_bid_strict:
  assumes "m < c"
  shows "decrease_bid p c m \<noteq> c" and "\<not> c < decrease_bid p c m"
  using decrease_bid_range(2) [OF assms, of p] by auto


section \<open>The sources\<close>

interpretation engine: decision_source "\<lambda>p sn d. d = sn_decision sn"
proof
  fix p sn d cs
  assume "engine_snapshot p sn" and d: "d = sn_decision sn"
  then show "action_in_corridor p (sn_observation sn) (d_action d)"
    and "d_account_id d = p_account_id p \<and> d_campaign_id d = p_campaign_id p \<and>
      d_observed_at d = o_observed_at (sn_observation sn)"
    by (auto simp: engine_snapshot_def elim!: evaluate_wb_automationD
        intro: evaluate_action_safe)
  assume "d_action d = ChangeBids cs"
  with d \<open>engine_snapshot p sn\<close> show "list_all change_moves_as_announced cs"
    by (auto elim!: engine_snapshotD dest: evaluate_action_direction)
qed

text \<open>The frontier controller, given that no bid exceeds the maximum.\<close>

lemma frontier_corridor:
  assumes "engine_snapshot p sn"
    and "\<forall>s \<in> set (o_skus (sn_observation sn)). s_current_bid_kopecks s \<le> p_max_bid_kopecks p"
    and "traffic_frontier_pacing_decision p sn' prev = Inr (Some d)"
    and "sn_observation sn' = sn_observation sn"
  shows "action_in_corridor p (sn_observation sn) (d_action d)"
  using assms(3)
proof (cases rule: traffic_frontier_cases)
  case hold
  then show ?thesis by (simp add: traffic_frontier_hold_def)
next
  case (decrease m drr over reason)
  from decrease(2) obtain s where s: "s \<in> set (o_skus (sn_observation sn))"
      "effective_minimum_bid p s < s_current_bid_kopecks s"
    and d: "d = traffic_frontier_change p sn' (s_nm_id s) (s_current_bid_kopecks s)
      (decrease_bid p (s_current_bid_kopecks s) (effective_minimum_bid p s)) reason"
    by (rule traffic_frontier_decreaseD) (use assms(4) in auto)
  have "decrease_bid p (s_current_bid_kopecks s) (effective_minimum_bid p s)
      \<le> p_max_bid_kopecks p"
    using assms(2) s engine_snapshot_sku [OF assms(1) s(1)] by (intro decrease_bid_range(3)) auto
  then show ?thesis
    using s d decrease_bid_range(1) decrease_bid_strict(1) [OF s(2)]
    by (auto simp: traffic_frontier_change_def intro!: change_in_corridorI)
next
  case (increase m feedback drr)
  from increase(6) obtain s cap to reason where s: "s \<in> set (o_skus (sn_observation sn))"
      "effective_minimum_bid p s \<le> to" "s_current_bid_kopecks s < to" "to \<le> cap"
    and cap: "traffic_frontier_dynamic_cap p sn' (tf_metrics feedback) = Inr cap"
    and d: "d = traffic_frontier_change p sn' (s_nm_id s) (s_current_bid_kopecks s) to reason"
    by (rule traffic_frontier_increaseD) (use assms(4) in auto)
  have "to \<le> p_max_bid_kopecks p"
    using s(4) dynamic_cap_Ok(1) [OF cap] by simp
  then show ?thesis
    using s d by (auto simp: traffic_frontier_change_def intro!: change_in_corridorI)
qed

lemma frontier_direction:
  assumes "traffic_frontier_pacing_decision p sn prev = Inr (Some d)"
    and "d_action d = ChangeBids cs"
  shows "list_all change_moves_as_announced cs"
  using assms(1)
proof (cases rule: traffic_frontier_cases)
  case hold
  with assms(2) show ?thesis by (simp add: traffic_frontier_hold_def)
next
  case (decrease m drr over reason)
  from decrease(2) show ?thesis
    by (rule traffic_frontier_decreaseD) (use assms(2) decrease_reason_lowers [OF decrease(1)] in
        \<open>auto simp: traffic_frontier_change_def change_moves_as_announced_def
          decrease_bid_strict\<close>)
next
  case (increase m feedback drr)
  from increase(6) show ?thesis
    by (rule traffic_frontier_increaseD) (use assms(2) in
        \<open>auto simp: traffic_frontier_change_def change_moves_as_announced_def\<close>)
qed

lemma frontier_scope:
  assumes "traffic_frontier_pacing_decision p sn prev = Inr (Some d)"
  shows "d_account_id d = p_account_id p \<and> d_campaign_id d = p_campaign_id p \<and>
    d_observed_at d = o_observed_at (sn_observation sn)"
  using assms
  by (cases rule: traffic_frontier_cases)
    (auto simp: traffic_frontier_hold_def traffic_frontier_change_def
      elim!: traffic_frontier_decreaseD traffic_frontier_increaseD)

interpretation frontier: decision_source
  "\<lambda>p sn d. \<exists>prev. traffic_frontier_pacing_decision p sn prev = Ok (Some d)"
proof
  fix p sn d cs
  assume engine: "engine_snapshot p sn"
    and "\<exists>prev. traffic_frontier_pacing_decision p sn prev = Ok (Some d)"
  then obtain prev where run: "traffic_frontier_pacing_decision p sn prev = Inr (Some d)"
    by blast
  then have "d_action (sn_decision sn) = Hold AttributionIncomplete"
    by (auto simp: traffic_frontier_pacing_decision_def split: if_splits)
  then show "action_in_corridor p (sn_observation sn) (d_action d)"
    using frontier_corridor [OF engine _ run] attribution_hold_bids [OF engine] by simp
  show "d_account_id d = p_account_id p \<and> d_campaign_id d = p_campaign_id p \<and>
      d_observed_at d = o_observed_at (sn_observation sn)"
    by (rule frontier_scope [OF run])
  assume "d_action d = ChangeBids cs"
  then show "list_all change_moves_as_announced cs"
    by (rule frontier_direction [OF run])
qed

interpretation pacing: decision_source
  "\<lambda>p sn d. autonomous_exposure_pacing_decision p sn = Ok (Some d)"
proof
  fix p sn d cs
  assume engine: "engine_snapshot p sn"
    and run: "autonomous_exposure_pacing_decision p sn = Ok (Some d)"
  from run obtain s to where s: "s \<in> set (o_skus (sn_observation sn))"
      "s_current_bid_kopecks s < p_max_bid_kopecks p"
    and to: "increase_bid p (s_current_bid_kopecks s) (effective_minimum_bid p s) = Inr to"
    and d: "d = traffic_frontier_change p sn (s_nm_id s) (s_current_bid_kopecks s) to
      AutonomousExposurePacing"
    by (rule autonomous_pacingD)
  note range = increase_bid_range [OF to]
  show "action_in_corridor p (sn_observation sn) (d_action d)"
    using range s engine_snapshot_sku [OF engine s(1)] d
    by (auto simp: traffic_frontier_change_def intro!: change_in_corridorI)
  show "d_account_id d = p_account_id p \<and> d_campaign_id d = p_campaign_id p \<and>
      d_observed_at d = o_observed_at (sn_observation sn)"
    using d by (simp add: traffic_frontier_change_def)
  assume "d_action d = ChangeBids cs"
  then show "list_all change_moves_as_announced cs"
    using d range(3) s(2) by (auto simp: traffic_frontier_change_def change_moves_as_announced_def)
qed

interpretation exposure: decision_source
  "\<lambda>p sn d. \<exists>n. explicit_exposure_increase_decision p sn n = Ok d"
proof
  fix p sn d cs
  assume engine: "engine_snapshot p sn"
    and "\<exists>n. explicit_exposure_increase_decision p sn n = Ok d"
  then obtain n where run: "explicit_exposure_increase_decision p sn n = Inr d" by blast
  from run obtain s to where s: "s \<in> set (o_skus (sn_observation sn))"
      "s_current_bid_kopecks s < p_max_bid_kopecks p" "s_current_bid_kopecks s < to"
    and to: "increase_bid p (s_current_bid_kopecks s) (effective_minimum_bid p s) = Inr to"
    and d: "d = decision_of p sn (ChangeBids [\<lparr>c_nm_id = s_nm_id s,
      c_from_bid_kopecks = s_current_bid_kopecks s, c_to_bid_kopecks = to,
      c_reason = ExplicitExposureTarget\<rparr>])"
    by (rule exposure_increaseD)
  show "action_in_corridor p (sn_observation sn) (d_action d)"
    using increase_bid_range [OF to] s engine_snapshot_sku [OF engine s(1)] d
    by (auto simp: decision_of_def intro!: change_in_corridorI)
  show "d_account_id d = p_account_id p \<and> d_campaign_id d = p_campaign_id p \<and>
      d_observed_at d = o_observed_at (sn_observation sn)"
    using d by (simp add: decision_of_def)
  assume "d_action d = ChangeBids cs"
  then show "list_all change_moves_as_announced cs"
    using d s(3) by (auto simp: decision_of_def change_moves_as_announced_def)
qed

interpretation repair: decision_source
  "\<lambda>p sn d. explicit_bid_cap_repair_decision p sn = Ok d"
proof
  fix p sn d cs
  assume engine: "engine_snapshot p sn" and run: "explicit_bid_cap_repair_decision p sn = Ok d"
  from run show "action_in_corridor p (sn_observation sn) (d_action d)"
    by (cases rule: bid_cap_repairD)
      (auto simp: decision_of_def engine_snapshot_sku [OF engine] intro!: change_in_corridorI)
  from run show "d_account_id d = p_account_id p \<and> d_campaign_id d = p_campaign_id p \<and>
      d_observed_at d = o_observed_at (sn_observation sn)"
    by (cases rule: bid_cap_repairD) (auto simp: decision_of_def)
  assume "d_action d = ChangeBids cs"
  with run show "list_all change_moves_as_announced cs"
    by (cases rule: bid_cap_repairD)
      (auto simp: decision_of_def change_moves_as_announced_def dest: less_imp_not_less)
qed

interpretation resume: decision_source
  "\<lambda>p sn d. explicit_resume_after_daily_cap_decision p sn = Ok d"
  by unfold_locales
    (auto simp: explicit_resume_after_daily_cap_decision_def Let_def result_elim decision_of_def)

end
