(* ===== verification/Wb_Intent.thy ===== *)
theory Wb_Intent
  imports Wb_Sources
begin

text \<open>
  \<open>PostgresExecutionIntent\<close> and \<open>apply_postgres_execution_intent\<close> of
  \<open>src/src/control/automation_executor.rs\<close>: which decision source replaces the decision of
  the engine in a cycle. The properties say what every source guarantees of the write that
  follows.
\<close>

datatype postgres_execution_intent =
    Automatic
  | ExplicitExposureTargetIntent u64
  | ExplicitQuotaOverride
  | ExplicitResumeAfterDailyCap
  | ExplicitBidCapRepair

datatype intent_error =
    IntentExplicit explicit_error
  | IntentPacing feedback_error

definition apply_postgres_execution_intent ::
  "wb_policy \<Rightarrow> wb_snapshot \<Rightarrow> postgres_execution_intent \<Rightarrow> wb_snapshot option \<Rightarrow>
     (intent_error, wb_snapshot) result" where
  "apply_postgres_execution_intent p sn intent last_applied =
     and_then
       (case intent of
          ExplicitExposureTargetIntent target_impressions \<Rightarrow>
            and_then (wrap_err IntentExplicit
              (explicit_exposure_increase_decision p sn target_impressions)) (\<lambda>d. Ok (Some d))
        | ExplicitQuotaOverride \<Rightarrow>
            wrap_err IntentExplicit (explicit_quota_override_decision p sn last_applied)
        | ExplicitResumeAfterDailyCap \<Rightarrow>
            and_then (wrap_err IntentExplicit
              (explicit_resume_after_daily_cap_decision p sn)) (\<lambda>d. Ok (Some d))
        | ExplicitBidCapRepair \<Rightarrow>
            and_then (wrap_err IntentExplicit
              (explicit_bid_cap_repair_decision p sn)) (\<lambda>d. Ok (Some d))
        | Automatic \<Rightarrow>
            if uses_traffic_frontier (p_autonomous_pacing p)
            then wrap_err IntentPacing (traffic_frontier_pacing_decision p sn last_applied)
            else if is_enabled (p_autonomous_pacing p)
            then wrap_err IntentPacing (autonomous_exposure_pacing_decision p sn)
            else Ok None)
       (\<lambda>replacement.
     Ok (case replacement of None \<Rightarrow> sn | Some d \<Rightarrow> sn\<lparr>sn_decision := d\<rparr>))"


section \<open>Sample inputs\<close>

text \<open>A traffic-frontier policy of the fourth version, and its feedback.\<close>

definition frontier_policy :: wb_policy where
  "frontier_policy = sample_policy\<lparr>
     p_autonomous_pacing := TrafficFrontierV4,
     p_target_impressions_per_day := 1500,
     p_target_orders_per_day := 4,
     p_max_actions_per_day := 9,
     p_cooldown_seconds := 1800,
     p_traffic_frontier_bid_kopecks := Some 300,
     p_traffic_frontier_feedback_timeout_seconds := Some 3600,
     p_traffic_frontier_min_feedback_impressions := Some 100,
     p_traffic_frontier_min_feedback_clicks := Some 5\<rparr>"

definition frontier_metrics :: wb_campaign_metrics where
  "frontier_metrics = \<lparr>m_impressions = 300, m_clicks = 10, m_spend_minor = 2000,
     m_attributed_orders = 1, m_attributed_revenue_minor = 90000\<rparr>"

definition frontier_observation :: wb_observation where
  "frontier_observation = sample_observation\<lparr>
     o_daily_spend_minor := 2000,
     o_attribution_complete := False,
     o_campaign_level_metrics := Some frontier_metrics,
     o_current_campaign_metrics := Some frontier_metrics\<rparr>"

definition frontier_snapshot :: "wb_observation \<Rightarrow> wb_action \<Rightarrow> wb_snapshot" where
  "frontier_snapshot ob action = \<lparr>sn_schema_version = 6, sn_policy_sha256 = ''ab'',
     sn_previous_business_date = 20689, sn_observation = ob,
     sn_decision = sample_decision action []\<rparr>"

definition frontier_raise :: wb_bid_change where
  "frontier_raise = \<lparr>c_nm_id = 449627015, c_from_bid_kopecks = 200, c_to_bid_kopecks = 300,
     c_reason = TrafficFrontierBootstrap\<rparr>"

lemma frontier_policy_ok: "policy_ok frontier_policy"
  by code_simp

lemma frontier_sample_engine:
  "engine_snapshot frontier_policy
     (frontier_snapshot frontier_observation (Hold AttributionIncomplete))"
  unfolding engine_snapshot_def evaluate_valid_policy [OF frontier_policy_ok] by code_simp

lemma frontier_sample_raises:
  "traffic_frontier_pacing_decision frontier_policy
     (frontier_snapshot frontier_observation (Hold AttributionIncomplete)) None
     = Ok (Some (sample_decision (ChangeBids [frontier_raise]) []))"
  by code_simp

lemma frontier_sample_mode: "uses_traffic_frontier (p_autonomous_pacing frontier_policy)"
  by (simp add: frontier_policy_def pacing_mode_defs)

lemma frontier_sample_applies:
  "apply_postgres_execution_intent frontier_policy
     (frontier_snapshot frontier_observation (Hold AttributionIncomplete)) Automatic None
     = Ok (frontier_snapshot frontier_observation (ChangeBids [frontier_raise]))"
  by (simp add: apply_postgres_execution_intent_def frontier_sample_mode frontier_sample_raises,
      simp add: frontier_snapshot_def)


section \<open>Helper lemmas\<close>

lemma apply_intentD:
  assumes "apply_postgres_execution_intent p sn intent prev = Inr sn'"
  shows "sn_observation sn' = sn_observation sn"
    and "sn_decision sn' = sn_decision sn \<or>
      (\<exists>n. explicit_exposure_increase_decision p sn n = Inr (sn_decision sn')) \<or>
      intent = ExplicitQuotaOverride \<and>
        explicit_quota_override_decision p sn prev = Inr (Some (sn_decision sn')) \<or>
      intent = ExplicitResumeAfterDailyCap \<and>
        explicit_resume_after_daily_cap_decision p sn = Inr (sn_decision sn') \<or>
      explicit_bid_cap_repair_decision p sn = Inr (sn_decision sn') \<or>
      traffic_frontier_pacing_decision p sn prev = Inr (Some (sn_decision sn')) \<or>
      autonomous_exposure_pacing_decision p sn = Inr (Some (sn_decision sn'))"
  using assms
  by (auto simp: apply_postgres_execution_intent_def result_elim split: postgres_execution_intent.splits
      if_splits option.splits)

lemma quota_overrideD:
  assumes "explicit_quota_override_decision p sn prev = Inr (Some d)"
  shows "traffic_frontier_pacing_decision p (sn\<lparr>sn_decision :=
      (sn_decision sn)\<lparr>d_action := Hold AttributionIncomplete\<rparr>\<rparr>) prev = Inr (Some d)"
  using assms by (auto simp: explicit_quota_override_decision_def Let_def result_elim)

lemma quota_override_pending_safe:
  assumes engine: "engine_snapshot p sn"
    and run: "explicit_quota_override_decision p sn prev = Inr (Some d)"
    and bids: "\<forall>s \<in> set (o_skus (sn_observation sn)).
      s_current_bid_kopecks s \<le> p_max_bid_kopecks p"
    and pending: "pending_from_decision (d_action d) (sn_observation sn) (p_min_bid_kopecks p) t
      = Some pending"
  shows "pending_in_corridor p (sn_observation sn) pending"
proof -
  note frontier = quota_overrideD [OF run]
  have corridor: "action_in_corridor p (sn_observation sn) (d_action d)"
    by (rule frontier_corridor [OF engine bids frontier]) simp
  show ?thesis
  proof (cases "d_action d")
    case (ChangeBids cs)
    with corridor pending frontier_direction [OF frontier] show ?thesis
      by (auto simp: pending_in_corridor_def split: if_splits)
  next
    case (DisableSku nm_id reason)
    with frontier show ?thesis
      by (cases rule: traffic_frontier_cases)
        (auto simp: traffic_frontier_hold_def traffic_frontier_change_def
          elim!: traffic_frontier_decreaseD traffic_frontier_increaseD)
  qed (use pending in \<open>auto simp: pending_in_corridor_def\<close>)
qed

lemma zero_cost_probeD:
  assumes "traffic_frontier_feedback p sn m prev = Inr (Some feedback)"
    and "uses_marginal_feedback (p_autonomous_pacing p)"
  shows "traffic_feedback_delta sn m prev = Some (tf_metrics feedback)"
    and "tf_zero_cost_probe feedback \<Longrightarrow> allows_zero_cost_probe (p_autonomous_pacing p) \<and>
      m_clicks (tf_metrics feedback) = 0 \<and> m_spend_minor (tf_metrics feedback) = 0 \<and>
      m_attributed_orders (tf_metrics feedback) = 0 \<and>
      m_attributed_revenue_minor (tf_metrics feedback) = 0"
  using assms
  by (auto simp: traffic_frontier_feedback_def traffic_frontier_zero_cost_probe_is_actionable_def
      result_elim split: option.splits if_splits)


section \<open>Properties\<close>

text \<open>
  C24. Whatever the intent of a cycle, the write that follows stays in the reviewed
  corridor: on a snapshot of the engine, the pending action built from the replaced
  decision changes at most one bid, from its observed value to one between the effective
  minimum and the reviewed maximum, in the direction its reason announces. A quota override
  needs the additional condition that no observed bid exceeds the maximum.
\<close>

theorem intent_pending_in_corridor:
  assumes "engine_snapshot p sn"
    and "apply_postgres_execution_intent p sn intent prev = Ok sn'"
    and "intent = ExplicitQuotaOverride \<longrightarrow> (\<forall>s \<in> set (o_skus (sn_observation sn)).
      s_current_bid_kopecks s \<le> p_max_bid_kopecks p)"
    and "pending_from_decision (d_action (sn_decision sn')) (sn_observation sn')
      (p_min_bid_kopecks p) t = Some pending"
  shows "pending_in_corridor p (sn_observation sn) pending"
proof -
  note origin = apply_intentD [OF assms(2)]
  note pending = assms(4) [unfolded origin(1)]
  from origin(2) show ?thesis
    using engine.pending_safe [OF assms(1) _ pending] exposure.pending_safe [OF assms(1) _ pending]
      repair.pending_safe [OF assms(1) _ pending] resume.pending_safe [OF assms(1) _ pending]
      frontier.pending_safe [OF assms(1) _ pending] pacing.pending_safe [OF assms(1) _ pending]
      quota_override_pending_safe [OF assms(1) _ _ pending] assms(3)
    by blast
qed

theorem intent_pending_in_corridor_witness:
  "pending_in_corridor frontier_policy frontier_observation
     \<lparr>pa_reserved_at = 0, pa_kind = PendingChangeBids [frontier_raise]\<rparr>"
proof -
  have "pending_in_corridor frontier_policy (sn_observation
      (frontier_snapshot frontier_observation (Hold AttributionIncomplete)))
      \<lparr>pa_reserved_at = 0, pa_kind = PendingChangeBids [frontier_raise]\<rparr>"
    by (rule intent_pending_in_corridor [OF frontier_sample_engine frontier_sample_applies])
      (simp_all add: frontier_snapshot_def sample_decision_def)
  then show ?thesis
    by (simp add: frontier_snapshot_def)
qed

text \<open>
  The frontier controller buys traffic only when the feedback pays for it. A raise
  names a SKU in stock and stays below the spend that is left before the protective pause.
  Under marginal feedback it also needs, since the last applied action, at least one order
  and one click at a DRR within the target, and the new bid times the clicks stays within
  the target share of the revenue; the only other case is a probe of the fourth version
  after feedback that cost nothing.
\<close>

theorem frontier_increase_economics:
  assumes "traffic_frontier_pacing_decision p sn prev = Ok (Some d)"
    and "d_action d = ChangeBids [c]" and "c_from_bid_kopecks c < c_to_bid_kopecks c"
  shows "(\<exists>s \<in> set (o_skus (sn_observation sn)). s_nm_id s = c_nm_id c \<and>
      p_min_sellable_stock p < s_sellable_stock s) \<and>
    unat (c_to_bid_kopecks c) \<le> unat (p_daily_pause_threshold_minor p)
      - unat (o_daily_spend_minor (sn_observation sn)) \<and>
    (uses_marginal_feedback (p_autonomous_pacing p) \<longrightarrow> (\<exists>m delta.
      o_current_campaign_metrics (sn_observation sn) = Some m \<and>
      traffic_feedback_delta sn m prev = Some delta \<and>
      m_attributed_orders m < p_target_orders_per_day p \<and>
      (if m_attributed_orders delta = 0
       then allows_zero_cost_probe (p_autonomous_pacing p) \<and>
         m_clicks delta = 0 \<and> m_spend_minor delta = 0 \<and> m_attributed_revenue_minor delta = 0
       else m_clicks delta \<noteq> 0 \<and>
         unat (m_spend_minor delta) * 10000 div unat (m_attributed_revenue_minor delta)
           \<le> unat (p_target_drr_basis_points p) \<and>
         unat (c_to_bid_kopecks c) * unat (m_clicks delta) * 10000
           \<le> unat (m_attributed_revenue_minor delta) * unat (p_target_drr_basis_points p))))"
  using assms(1)
proof (cases rule: traffic_frontier_cases)
  case hold
  with assms(2) show ?thesis by (simp add: traffic_frontier_hold_def)
next
  case (decrease m drr over reason)
  from decrease(2) show ?thesis
    by (rule traffic_frontier_decreaseD)
      (use assms(2,3) in \<open>auto simp: traffic_frontier_change_def decrease_bid_strict\<close>)
next
  case (increase m feedback drr)
  let ?delta = "tf_metrics feedback"
  from increase(6) obtain s cap where s: "s \<in> set (o_skus (sn_observation sn))"
      "p_min_sellable_stock p < s_sellable_stock s" "s_nm_id s = c_nm_id c"
    and cap: "traffic_frontier_dynamic_cap p sn ?delta = Inr cap" "c_to_bid_kopecks c \<le> cap"
    by (rule traffic_frontier_increaseD) (use assms(2) in \<open>auto simp: traffic_frontier_change_def\<close>)
  have le: "unat (c_to_bid_kopecks c) \<le> unat cap"
    using cap(2) by (simp add: word_le_nat_alt)
  have spend: "unat (c_to_bid_kopecks c) \<le> unat (p_daily_pause_threshold_minor p)
      - unat (o_daily_spend_minor (sn_observation sn))"
    using le dynamic_cap_Ok(2) [OF cap(1)] by simp
  have "if m_attributed_orders ?delta = 0
       then allows_zero_cost_probe (p_autonomous_pacing p) \<and>
         m_clicks ?delta = 0 \<and> m_spend_minor ?delta = 0 \<and> m_attributed_revenue_minor ?delta = 0
       else m_clicks ?delta \<noteq> 0 \<and>
         unat (m_spend_minor ?delta) * 10000 div unat (m_attributed_revenue_minor ?delta)
           \<le> unat (p_target_drr_basis_points p) \<and>
         unat (c_to_bid_kopecks c) * unat (m_clicks ?delta) * 10000
           \<le> unat (m_attributed_revenue_minor ?delta) * unat (p_target_drr_basis_points p)"
    if marginal: "uses_marginal_feedback (p_autonomous_pacing p)"
  proof (cases "m_attributed_orders ?delta = 0")
    case True
    then show ?thesis
      using increase(5) [OF marginal] zero_cost_probeD(2) [OF increase(2) marginal] by simp
  next
    case False
    then obtain v where paid: "m_clicks ?delta \<noteq> 0" "drr = Some v"
        "v \<le> p_target_drr_basis_points p"
      using increase(5) [OF marginal] zero_cost_probeD(2) [OF increase(2) marginal] by auto
    have "unat (c_to_bid_kopecks c) * unat (m_clicks ?delta) * 10000
        \<le> unat cap * unat (m_clicks ?delta) * 10000"
      using le by (intro mult_le_mono1)
    also have "\<dots> \<le> unat (m_attributed_revenue_minor ?delta) * unat (p_target_drr_basis_points p)"
      by (rule dynamic_cap_Ok(4) [OF cap(1) False])
    finally show ?thesis
      using False paid campaign_drr_value(2) [of ?delta v] increase(3)
      by (simp add: word_le_nat_alt)
  qed
  with s spend increase(1,4) zero_cost_probeD(1) [OF increase(2)] show ?thesis
    by blast
qed

theorem frontier_increase_economics_witness:
  "unat (c_to_bid_kopecks frontier_raise) \<le> unat (p_daily_pause_threshold_minor frontier_policy)
     - unat (o_daily_spend_minor frontier_observation)"
  using frontier_increase_economics [OF frontier_sample_raises, of frontier_raise]
  by (simp add: sample_decision_def frontier_raise_def frontier_snapshot_def)

text \<open>
  The feedback of an action is counted exactly once: when the last applied snapshot is
  of the same business date, the delta and the baseline add up to the current totals, field
  by field and without wrap-around; otherwise the delta is the current total.
\<close>

theorem traffic_feedback_delta_exact:
  assumes "traffic_feedback_delta sn current (Some previous) = Some delta"
  shows "if wb_automation_business_date (o_observed_at (sn_observation previous))
        \<noteq> wb_automation_business_date (o_observed_at (sn_observation sn))
    then delta = current
    else \<exists>baseline. o_current_campaign_metrics (sn_observation previous) = Some baseline \<and>
      unat (m_impressions delta) + unat (m_impressions baseline) = unat (m_impressions current) \<and>
      unat (m_clicks delta) + unat (m_clicks baseline) = unat (m_clicks current) \<and>
      unat (m_spend_minor delta) + unat (m_spend_minor baseline) = unat (m_spend_minor current) \<and>
      unat (m_attributed_orders delta) + unat (m_attributed_orders baseline)
        = unat (m_attributed_orders current) \<and>
      unat (m_attributed_revenue_minor delta) + unat (m_attributed_revenue_minor baseline)
        = unat (m_attributed_revenue_minor current)"
  using assms
  by (auto simp: traffic_feedback_delta_def metrics_monotonic_def unat_sub word_le_nat_alt
      split: if_splits option.splits)

theorem traffic_feedback_delta_exact_witness:
  "\<exists>delta. traffic_feedback_delta
      (frontier_snapshot frontier_observation (Hold AttributionIncomplete))
      (frontier_metrics\<lparr>m_clicks := 17\<rparr>)
      (Some (frontier_snapshot frontier_observation (Hold AttributionIncomplete))) = Some delta \<and>
    unat (m_clicks delta) + 10 = 17"
proof -
  let ?sn = "frontier_snapshot frontier_observation (Hold AttributionIncomplete)"
  obtain delta where delta: "traffic_feedback_delta ?sn (frontier_metrics\<lparr>m_clicks := 17\<rparr>) (Some ?sn)
      = Some delta"
    by (auto simp: traffic_feedback_delta_def frontier_snapshot_def frontier_observation_def
        frontier_metrics_def metrics_monotonic_def)
  then show ?thesis
    using traffic_feedback_delta_exact [OF delta]
    by (auto simp: frontier_snapshot_def frontier_observation_def frontier_metrics_def)
qed

text \<open>
  Scheduled cycles never resume a campaign: a resume is decided only for the explicit
  resume intent, for a campaign that the automation itself paused, inside the authorization
  window of a policy with bid writes, with budget left, with spend below the pause
  threshold and with every bid inside the corridor.
\<close>

theorem resume_only_explicit:
  assumes "engine_snapshot p sn"
    and "apply_postgres_execution_intent p sn intent prev = Ok sn'"
    and "d_action (sn_decision sn') = ResumeCampaignAfterDailyCap"
  shows "intent = ExplicitResumeAfterDailyCap \<and> p_bid_writes_enabled p \<and>
    o_campaign_status (sn_observation sn) = PAUSED_CAMPAIGN_STATUS \<and>
    o_paused_by_automation (sn_observation sn) \<and>
    p_authorized_at p \<le> o_observed_at (sn_observation sn) \<and>
    o_observed_at (sn_observation sn) < p_authorization_expires_at p \<and>
    0 < o_budget_remaining_minor (sn_observation sn) \<and>
    o_daily_spend_minor (sn_observation sn) < p_daily_pause_threshold_minor p \<and>
    (\<forall>s \<in> set (o_skus (sn_observation sn)). effective_minimum_bid p s \<le> s_current_bid_kopecks s \<and>
      s_current_bid_kopecks s \<le> p_max_bid_kopecks p)"
proof -
  from assms(1) obtain obs where run: "evaluate_action p (sn_observation sn) obs
      = Inr (d_action (sn_decision sn), d_unresolved_stops (sn_decision sn))"
    by (rule engine_snapshotD)
  have engine: "d_action (sn_decision sn) \<noteq> ResumeCampaignAfterDailyCap"
    by (rule evaluate_action_kind(1) [OF run])
  have frontier: "d_action d \<noteq> ResumeCampaignAfterDailyCap"
    if "traffic_frontier_pacing_decision p sn0 prev = Inr (Some d)" for sn0 d
    using that by (cases rule: traffic_frontier_cases)
      (auto simp: traffic_frontier_hold_def traffic_frontier_change_def
        elim!: traffic_frontier_decreaseD traffic_frontier_increaseD)
  have exposure: "d_action d \<noteq> ResumeCampaignAfterDailyCap"
    if "explicit_exposure_increase_decision p sn n = Inr d" for n d
    using that by (rule exposure_increaseD) (simp add: decision_of_def)
  have repair: "d_action d \<noteq> ResumeCampaignAfterDailyCap"
    if "explicit_bid_cap_repair_decision p sn = Inr d" for d
    using that by (cases rule: bid_cap_repairD) (simp_all add: decision_of_def)
  have pacing: "d_action d \<noteq> ResumeCampaignAfterDailyCap"
    if "autonomous_exposure_pacing_decision p sn = Inr (Some d)" for d
    using that by (rule autonomous_pacingD) (simp add: traffic_frontier_change_def)
  have intent: "intent = ExplicitResumeAfterDailyCap"
    and resume: "explicit_resume_after_daily_cap_decision p sn = Inr (sn_decision sn')"
    using apply_intentD(2) [OF assms(2)] assms(3) engine frontier exposure repair pacing
      quota_overrideD by metis+
  have window: "p_authorized_at p \<le> o_observed_at (sn_observation sn) \<and>
      o_observed_at (sn_observation sn) < p_authorization_expires_at p"
    if hold: "d_action (sn_decision sn) = Hold ProtectivePauseRequiresApproval \<or>
      d_action (sn_decision sn) = Hold SpendDataIncomplete"
    using run
  proof (cases rule: evaluate_action_cases)
    case gate
    with hold show ?thesis by (auto simp: campaign_gate_def split: if_splits)
  qed (use campaign_gate_None(1,2) in auto)
  from resume intent window show ?thesis
    by (auto simp: explicit_resume_after_daily_cap_decision_def Let_def result_elim status_defs
        list_all_iff)
qed

definition paused_snapshot :: wb_snapshot where
  "paused_snapshot = frontier_snapshot
     (sample_observation\<lparr>o_campaign_status := 11, o_paused_by_automation := True\<rparr>)
     (Hold ProtectivePauseRequiresApproval)"

lemma paused_snapshot_engine: "engine_snapshot sample_policy paused_snapshot"
  unfolding engine_snapshot_def evaluate_sample by code_simp

lemma paused_snapshot_resumes:
  "apply_postgres_execution_intent sample_policy paused_snapshot ExplicitResumeAfterDailyCap None
     = Ok (paused_snapshot\<lparr>sn_decision := sample_decision ResumeCampaignAfterDailyCap []\<rparr>)"
  by code_simp

theorem resume_only_explicit_witness:
  "o_daily_spend_minor (sn_observation paused_snapshot)
     < p_daily_pause_threshold_minor sample_policy"
  using resume_only_explicit [OF paused_snapshot_engine paused_snapshot_resumes]
  by (simp add: sample_decision_def)

end
