(* ===== verification/Wb_Feedback_Correct.thy ===== *)
theory Wb_Feedback_Correct
  imports Wb_Intent
begin

text \<open>
  Totality of the campaign-feedback decisions: which failures a valid policy leaves
  possible, and the shape of the time curve.
\<close>

lemma dynamic_cap_total:
  assumes "policy_ok p" and "m_attributed_orders m = 0 \<or> m_clicks m \<noteq> 0"
  shows "\<exists>cap. traffic_frontier_dynamic_cap p sn m = Inr cap"
proof (cases "m_attributed_orders m = 0")
  case True
  then show ?thesis
    using policy_reduce_clicks_pos [OF assms(1)]
    by (simp add: traffic_frontier_dynamic_cap_def checked_div_def Let_def)
next
  case False
  let ?r = "widen (m_attributed_revenue_minor m)" and ?t = "ucast (p_target_drr_basis_points p) :: u128"
  have target: "unat (p_target_drr_basis_points p) \<le> 10000"
    using policy_okD(4) [OF assms(1)]
    by (auto simp: valid_policy_pacing_def Let_def word_le_nat_alt)
  have bound: "unat ?r * unat ?t \<le> unat (m_attributed_revenue_minor m) * 10000"
    using target by (simp add: unat_widen unat_ucast_u32_u128)
  also have "\<dots> < 2 ^ 128"
    using basis_points_product by simp
  finally have mul: "checked_mul ?r ?t = Some (?r * ?t)"
    by (simp add: checked_mul_def)
  have clicks: "widen (m_clicks m) \<noteq> 0"
    using assms(2) False unat_widen [of "m_clicks m"] by (metis unat_0 unat_eq_zero)
  have "unat (?r * ?t div BASIS_POINTS div widen (m_clicks m))
      \<le> unat (m_attributed_revenue_minor m) * 10000 div 10000"
    using unat_checked_mul [OF mul] bound
    by (auto simp: unat_div unat_BASIS_POINTS intro: div_le_dividend order_trans div_le_mono)
  then have "unat (?r * ?t div BASIS_POINTS div widen (m_clicks m)) < 2 ^ 64"
    using u64_bound [of "m_attributed_revenue_minor m"] by simp
  then show ?thesis
    using False clicks
    by (simp add: traffic_frontier_dynamic_cap_def mul checked_div_def try_from_def Let_def)
qed

lemma frontier_feedback_total:
  assumes "policy_ok p" and "uses_traffic_frontier (p_autonomous_pacing p)"
  shows "\<exists>r. traffic_frontier_feedback p sn m prev = Inr r"
    and "\<exists>r. traffic_frontier_decrease_reason p m' drr over = Inr r"
proof -
  obtain frontier timeout where timeout:
    "p_traffic_frontier_feedback_timeout_seconds p = Some timeout"
    using policy_frontier [OF assms] by metis
  show "\<exists>r. traffic_frontier_feedback p sn m prev = Inr r"
  proof (cases "uses_marginal_feedback (p_autonomous_pacing p)")
    case True
    then obtain impressions clicks where minimums:
      "p_traffic_frontier_min_feedback_impressions p = Some impressions"
      "p_traffic_frontier_min_feedback_clicks p = Some clicks"
      using policy_marginal [OF assms(1)] by metis
    have probe: "\<exists>b. (if allows_zero_cost_probe (p_autonomous_pacing p)
        then traffic_frontier_zero_cost_probe_is_actionable p sn delta else Ok False) = Inr b"
      for delta
      by (auto simp: traffic_frontier_zero_cost_probe_is_actionable_def timeout
          split: option.splits)
    show ?thesis
    proof (cases "traffic_feedback_delta sn m prev")
      case None
      with True show ?thesis by (simp add: traffic_frontier_feedback_def)
    next
      case (Some delta)
      obtain b where "(if allows_zero_cost_probe (p_autonomous_pacing p)
        then traffic_frontier_zero_cost_probe_is_actionable p sn delta else Ok False) = Inr b"
        using probe by blast
      with True Some minimums show ?thesis
        by (simp add: traffic_frontier_feedback_def)
    qed
  next
    case False
    have "\<exists>b. traffic_frontier_v2_feedback_is_actionable p sn m prev = Inr b"
      by (auto simp: traffic_frontier_v2_feedback_is_actionable_def timeout
          split: option.splits)
    with False show ?thesis
      by (auto simp: traffic_frontier_feedback_def)
  qed
  have "\<exists>r. (if uses_marginal_feedback (p_autonomous_pacing p)
      then ok_or (p_traffic_frontier_min_feedback_clicks p) FeedbackClicksUnavailable
      else Ok (p_no_order_reduce_clicks p)) = Inr r"
    using policy_marginal [OF assms(1)] by (metis ok_or_simps(2))
  then show "\<exists>r. traffic_frontier_decrease_reason p m' drr over = Inr r"
    by (auto simp: traffic_frontier_decrease_reason_def Let_def split: option.splits)
qed

lemma frontier_increase_error:
  assumes "policy_ok p" and "uses_traffic_frontier (p_autonomous_pacing p)"
    and "m_attributed_orders m = 0 \<or> m_clicks m \<noteq> 0"
    and "traffic_frontier_increase_decision p sn m = Inl e"
  shows "e = Err BidIncreaseInvalid"
proof -
  obtain frontier where "p_traffic_frontier_bid_kopecks p = Some frontier"
    using policy_frontier [OF assms(1,2)] by metis
  moreover obtain cap where "traffic_frontier_dynamic_cap p sn m = Inr cap"
    using dynamic_cap_total [OF assms(1,3)] by blast
  moreover have "map_err BidIncreaseInvalid (increase_bid p c k) = Inl e'
      \<Longrightarrow> e' = Err BidIncreaseInvalid" for c k e'
    by (cases "increase_bid p c k")
      (auto simp: map_err_def split: failure.splits)
  ultimately show ?thesis
    using assms(4)
    by (auto simp: traffic_frontier_increase_decision_def Let_def result_elim
        split: if_splits option.splits)
qed

lemma campaign_drr_error:
  assumes "campaign_drr_basis_points m = Inl e"
  shows "e = Err DrrOutOfRange"
  using assms
  by (auto simp: campaign_drr_eq ratio_basis_points_eq result_elim map_err_def
      split: if_splits sum.splits failure.splits)

text \<open>What the controller knows of its feedback when it reaches an increase.\<close>

lemma increase_has_clicks:
  assumes "traffic_frontier_feedback p sn m prev = Inr (Some feedback)"
    and "m_attributed_orders m \<le> m_clicks m"
    and "\<not> (uses_marginal_feedback (p_autonomous_pacing p) \<and> \<not> tf_zero_cost_probe feedback \<and>
      (m_attributed_orders (tf_metrics feedback) = 0 \<or> m_clicks (tf_metrics feedback) = 0 \<or> rest))"
  shows "m_attributed_orders (tf_metrics feedback) = 0 \<or> m_clicks (tf_metrics feedback) \<noteq> 0"
proof (cases "uses_marginal_feedback (p_autonomous_pacing p)")
  case True
  with assms(3) zero_cost_probeD(2) [OF assms(1)] show ?thesis by blast
next
  case False
  with assms(1) have "tf_metrics feedback = m"
    by (auto simp: traffic_frontier_feedback_def result_elim split: if_splits)
  with assms(2) show ?thesis
    by (auto simp: word_le_nat_alt unat_eq_0)
qed

text \<open>
  Under a valid frontier policy the controller never panics, and it fails only for
  campaign totals that contradict themselves, for a DRR that does not fit 32 bits, or for a
  bid increase that overflows. The other error paths of the source, among them orders
  without clicks, are unreachable.
\<close>

theorem frontier_failures:
  assumes "policy_ok p" and "uses_traffic_frontier (p_autonomous_pacing p)"
    and "traffic_frontier_pacing_decision p sn prev = Inl e"
  shows "e = Err InconsistentMetrics \<or> e = Err DrrOutOfRange \<or> e = Err BidIncreaseInvalid"
proof (rule ccontr)
  assume other: "\<not> ?thesis"
  from assms(3) obtain m where m: "o_current_campaign_metrics (sn_observation sn) = Some m"
    by (auto simp: traffic_frontier_pacing_decision_def split: if_splits option.splits)
  with assms(3) other have consistent: "m_attributed_orders m \<le> m_clicks m"
    by (auto simp: traffic_frontier_pacing_decision_def ensure_def split: if_splits)
  obtain found where found: "traffic_frontier_feedback p sn m prev = Inr found"
    using frontier_feedback_total(1) [OF assms(1,2)] by blast
  obtain feedback where feedback: "found = Some feedback"
    using assms(3) other m found
    by (cases found) (auto simp: traffic_frontier_pacing_decision_def ensure_def split: if_splits)
  obtain drr where drr: "campaign_drr_basis_points (tf_metrics feedback) = Inr drr"
    using assms(3) other m found feedback campaign_drr_error [of "tf_metrics feedback"]
    by (cases "campaign_drr_basis_points (tf_metrics feedback)")
      (auto simp: traffic_frontier_pacing_decision_def ensure_def split: if_splits)
  obtain es where es: "(paced_value (p_daily_pause_threshold_minor p)
      (o_observed_at (sn_observation sn)) :: u64 paced) = Inr es" by (rule paced_value_Ok)
  obtain ei where ei: "(paced_value (p_target_impressions_per_day p)
      (o_observed_at (sn_observation sn)) :: u64 paced) = Inr ei" by (rule paced_value_Ok)
  let ?over = "widen es * PACING_UPPER_BASIS_POINTS < widen (m_spend_minor m) * BASIS_POINTS"
  obtain reason where reason: "traffic_frontier_decrease_reason p (tf_metrics feedback) drr ?over
      = Inr reason"
    using frontier_feedback_total(2) [OF assms(1,2)] by blast
  let ?unpaid = "uses_marginal_feedback (p_autonomous_pacing p) \<and> \<not> tf_zero_cost_probe feedback \<and>
    (m_attributed_orders (tf_metrics feedback) = 0 \<or> m_clicks (tf_metrics feedback) = 0 \<or>
     m_attributed_revenue_minor (tf_metrics feedback) = 0 \<or>
     (case drr of None \<Rightarrow> True | Some v \<Rightarrow> p_target_drr_basis_points p < v))"
  have failed: "\<not> ?unpaid \<and> traffic_frontier_increase_decision p sn (tf_metrics feedback) = Inl e"
    using assms(3) other reason
    by (cases reason) (simp_all add: traffic_frontier_pacing_decision_def m found feedback drr es ei
        ensure_def Let_def split: if_splits)
  then have "m_attributed_orders (tf_metrics feedback) = 0 \<or> m_clicks (tf_metrics feedback) \<noteq> 0"
    using increase_has_clicks [OF found [unfolded feedback] consistent] by blast
  then have "e = Err BidIncreaseInvalid"
    using frontier_increase_error [OF assms(1,2)] failed by blast
  with other show False by blast
qed

theorem frontier_failures_witness:
  "\<exists>e. traffic_frontier_pacing_decision frontier_policy (frontier_snapshot
      (frontier_observation\<lparr>o_current_campaign_metrics := Some (frontier_metrics
        \<lparr>m_clicks := 0\<rparr>)\<rparr>) (Hold AttributionIncomplete)) None = Inl e \<and>
    (e = Err InconsistentMetrics \<or> e = Err DrrOutOfRange \<or> e = Err BidIncreaseInvalid)"
proof -
  let ?sn = "frontier_snapshot (frontier_observation\<lparr>o_current_campaign_metrics :=
    Some (frontier_metrics\<lparr>m_clicks := 0\<rparr>)\<rparr>) (Hold AttributionIncomplete)"
  have run: "traffic_frontier_pacing_decision frontier_policy ?sn None = Error InconsistentMetrics"
    by code_simp
  show ?thesis
    using run frontier_failures [OF frontier_policy_ok frontier_sample_mode run] by blast
qed

text \<open>
  The time curve is safe: the paced value never panics, whatever the daily total, is
  the exact share of the total that the elapsed part of the Moscow day allows (at least
  five minutes' worth and at least 1), and never exceeds the total, except that a zero total
  still gives 1.
\<close>

theorem paced_value_curve:
  "\<exists>v. paced_value n t = (Ok v :: u64 paced) \<and>
     unat v = max 1 (unat n * max 300 (unat (seconds_since_midnight moscow t)) div 86400) \<and>
     v \<le> max n 1"
proof -
  obtain v where v: "(paced_value n t :: u64 paced) = Inr v"
    "unat v = max 1 (unat n * elapsed_seconds t div 86400)" by (rule paced_value_Ok)
  have "unat n * elapsed_seconds t \<le> unat n * 86400"
    using elapsed_seconds_bounds(2) [of t] by (intro mult_le_mono2) simp
  then have "unat n * elapsed_seconds t div 86400 \<le> unat n"
    using div_le_mono [of "unat n * elapsed_seconds t" "unat n * 86400" 86400] by simp
  then have "v \<le> max n 1"
    using v(2) by (simp add: word_le_nat_alt unat_max)
  with v show ?thesis
    by (auto simp: elapsed_seconds_def)
qed



end
