(* ===== verification/Transition.thy ===== *)
theory Transition
  imports Main
begin

text \<open>
  Reachable states of a transition relation, and the interface \<open>inductive_invariant\<close>
  through which the components prove their invariants: an invariant of every initial state
  that every step keeps holds in every reachable state, and a stable property of one
  reachable state holds in all its successors.
\<close>

inductive reach :: "('s \<Rightarrow> bool) \<Rightarrow> ('s \<Rightarrow> 's \<Rightarrow> bool) \<Rightarrow> 's \<Rightarrow> bool"
  for init :: "'s \<Rightarrow> bool" and step :: "'s \<Rightarrow> 's \<Rightarrow> bool" where
  reach_init: "init s \<Longrightarrow> reach init step s"
| reach_step: "reach init step s \<Longrightarrow> step s t \<Longrightarrow> reach init step t"

inductive steps :: "('s \<Rightarrow> 's \<Rightarrow> bool) \<Rightarrow> 's \<Rightarrow> 's \<Rightarrow> bool"
  for step :: "'s \<Rightarrow> 's \<Rightarrow> bool" where
  steps_refl: "steps step s s"
| steps_step: "steps step s t \<Longrightarrow> step t u \<Longrightarrow> steps step s u"

inductive_cases steps_elim: "steps step s t"

lemma steps_trans: "steps step s t \<Longrightarrow> steps step t u \<Longrightarrow> steps step s u"
  by (rotate_tac, induction rule: steps.induct) (auto intro: steps_step)

lemma steps_single: "step s t \<Longrightarrow> steps step s t"
  by (rule steps_step [OF steps_refl])

lemma reach_steps: "reach init step s \<Longrightarrow> steps step s t \<Longrightarrow> reach init step t"
  by (rotate_tac, induction rule: steps.induct) (auto intro: reach_step)

locale inductive_invariant =
  fixes init :: "'s \<Rightarrow> bool" and step :: "'s \<Rightarrow> 's \<Rightarrow> bool" and inv :: "'s \<Rightarrow> bool"
  assumes init_inv: "init s \<Longrightarrow> inv s"
    and step_inv: "inv s \<Longrightarrow> step s t \<Longrightarrow> inv t"
begin

lemma reach_inv: "reach init step s \<Longrightarrow> inv s"
  by (induction rule: reach.induct) (auto intro: init_inv step_inv)

lemma stable_steps:
  assumes "steps step s t" and "inv s" and "P s"
    and "\<And>s t. inv s \<Longrightarrow> P s \<Longrightarrow> step s t \<Longrightarrow> P t"
  shows "P t"
proof -
  have "inv t \<and> P t"
    using assms(1-3) by (induction rule: steps.induct) (auto intro: step_inv assms(4))
  then show ?thesis ..
qed

lemma stable_reachable:
  assumes "reach init step s" and "steps step s t" and "P s"
    and "\<And>s t. inv s \<Longrightarrow> P s \<Longrightarrow> step s t \<Longrightarrow> P t"
  shows "P t"
  using assms(2) reach_inv [OF assms(1)] assms(3,4) by (rule stable_steps)

end

end
