(* ===== verification/Wb_Execution_Correct.thy ===== *)
theory Wb_Execution_Correct
  imports Wb_Sources Transition
begin

text \<open>
  The safety of the file-backed executor, over single runs in any environment and over
  every sequence of runs: a write leaves the process only after its reservation is on disk,
  never next to another open reservation or an incident, stays in the reviewed corridor,
  and the daily quota bounds the writes of a business date.
\<close>


section \<open>Inversion of a run\<close>

lemma run_then_cases:
  assumes "run_then r f = (res, w')"
  obtains (failed) e where "fst r = Inl e" and "res = Inl e" and "w' = snd r"
    | (ok) x where "fst r = Inr x" and "f x (snd r) = (res, w')"
  using assms by (cases "fst r") (auto simp: run_then_def)

text \<open>What a loaded state has in common with the file.\<close>

definition loads_from :: "execution_state \<Rightarrow> world \<Rightarrow> bool" where
  "loads_from st w \<longleftrightarrow>
     (case wd_file w of
        None \<Rightarrow> x_actions_today st = 0 \<and> x_pending st = None \<and> x_incident_class st = None
      | Some f \<Rightarrow> x_business_date st = x_business_date f \<and>
          x_actions_today st = x_actions_today f \<and> x_pending st = x_pending f \<and>
          x_incident_class st = x_incident_class f)"

lemma load_execution_stateD:
  assumes "load_execution_state env p sha d m w = (Inr st, w')"
  shows "w' = w" and "loads_from st w" and "wd_file w = None \<Longrightarrow> x_business_date st = d"
  using assms
  by (auto simp: load_execution_state_def read_state_file_def run_then_def loads_from_def
      fresh_state_def split: option.splits if_splits)

lemma load_execution_state_world: "snd (load_execution_state env p sha d m w) = w"
  by (auto simp: load_execution_state_def read_state_file_def run_then_def
      split: option.splits if_splits)

lemma observe_market_world: "snd (observe_market env p sha t v w) = w"
  by (simp add: observe_market_def split: option.splits)

lemma observeD:
  assumes "observe p sha t campaign minimums budget advertising stocks view = Inr sn"
  shows "engine_snapshot p sn" and "o_actions_today (sn_observation sn) = v_actions_today view"
    and "o_observed_at (sn_observation sn) = t"
  using assms
  by (auto simp: observe_def Let_def result_elim engine_snapshot_def build_observation_def)

lemma observe_marketD:
  assumes "fst (observe_market env p sha t view w) = Inr sn"
  shows "engine_snapshot p sn" and "o_actions_today (sn_observation sn) = v_actions_today view"
    and "o_observed_at (sn_observation sn) = t"
  using assms by (auto simp: observe_market_def result_elim split: option.splits dest: observeD)

lemma run_once_cases:
  assumes "run_once env p sha t w = (r, w')"
  obtains (unchanged) "w' = w"
    | (acted) st0 st sn where "loads_from st0 w"
      and "wd_file w = None \<Longrightarrow> x_business_date st0 = wb_automation_business_date t"
      and "st = roll_business_date (wb_automation_business_date t) st0"
      and "engine_snapshot p sn"
      and "o_actions_today (sn_observation sn) = x_actions_today st"
      and "act_on_snapshot env p t st sn w = (r, w')"
proof (cases "e_lease_free env")
  case False
  with assms unchanged show ?thesis by (simp add: run_once_def)
next
  case True
  let ?d = "wb_automation_business_date t"
  let ?load = "load_execution_state env p sha ?d (\<not> p_write_enabled p) w"
  from assms True have "run_then ?load (\<lambda>loaded w.
      let st = roll_business_date ?d loaded in
      run_then (observe_market env p sha t (state_view ?d st) w) (\<lambda>sn w.
      if \<not> e_snapshot_saved env then (Error SnapshotNotSaved, w)
      else act_on_snapshot env p t st sn w)) = (r, w')"
    by (simp add: run_once_def Let_def)
  then show ?thesis
  proof (cases rule: run_then_cases)
    case (failed e)
    with unchanged show ?thesis by (simp add: load_execution_state_world)
  next
    case (ok st0)
    have load: "?load = (Inr st0, w)"
      using ok(1) load_execution_state_world [of env p sha ?d "\<not> p_write_enabled p" w]
      by (metis prod.collapse)
    let ?st = "roll_business_date ?d st0"
    let ?observe = "observe_market env p sha t (state_view ?d ?st) w"
    from ok(2) have "run_then ?observe (\<lambda>sn w.
        if \<not> e_snapshot_saved env then (Error SnapshotNotSaved, w)
        else act_on_snapshot env p t ?st sn w) = (r, w')"
      by (simp add: Let_def load)
    then show ?thesis
    proof (cases rule: run_then_cases)
      case (failed e)
      with unchanged show ?thesis by (simp add: observe_market_world)
    next
      case (ok sn)
      show ?thesis
      proof (cases "e_snapshot_saved env")
        case False
        with ok(2) unchanged show ?thesis by (simp add: observe_market_world)
      next
        case True
        with ok(2) have act: "act_on_snapshot env p t ?st sn w = (r, w')"
          by (simp add: observe_market_world)
        show ?thesis
        proof (rule acted)
          show "loads_from st0 w"
            by (rule load_execution_stateD(2) [OF load])
          show "wd_file w = None \<Longrightarrow> x_business_date st0 = ?d"
            by (rule load_execution_stateD(3) [OF load])
          show "engine_snapshot p sn"
            "o_actions_today (sn_observation sn) = x_actions_today ?st"
            using observe_marketD [OF ok(1)] by (simp_all add: state_view_def)
        qed (rule refl, rule act)
      qed
    qed
  qed
qed

text \<open>How the state file and the log can differ after a run.\<close>

lemma save_execution_stateD:
  assumes "save_execution_state env st w = (r, w')"
  shows "w' = w \<or> w' = w\<lparr>wd_file := Some st\<rparr>" and "r = Inr u \<Longrightarrow> w' = w\<lparr>wd_file := Some st\<rparr>"
  using assms by (auto simp: save_execution_state_def split: save_reply.splits)

lemma save_then_return:
  assumes "run_then (save_execution_state env st w) (\<lambda>_ w. (Ok x, w)) = (r, w')"
  shows "w' = w \<or> w' = w\<lparr>wd_file := Some st\<rparr>"
  using assms by (auto simp: run_then_def save_execution_state_def split: save_reply.splits)

lemma send_pendingD:
  assumes "send_pending env ob pending w = (r, w')"
  obtains (kept) "w' = w"
    | (sent) f where "wd_file w = Some f" and "x_pending f = Some pending"
      and "x_incident_class f = None"
      and "w' = w\<lparr>wd_sent := \<lparr>w_action = pending, w_file = Some f, w_observation = ob\<rparr> # wd_sent w\<rparr>"
      and "r \<noteq> Inr NotSent"
proof (cases "e_write env pending = WriteDefiniteFailure \<or> \<not> e_state_readable env")
  case True
  with assms have "w' = w"
    by (auto simp: send_pending_def verify_pending_permit_def read_state_file_def run_then_def
        split: if_splits)
  then show ?thesis by (rule kept)
next
  case False
  note usable = this
  show ?thesis
  proof (cases "\<exists>f. wd_file w = Some f \<and> x_pending f = Some pending \<and> x_incident_class f = None")
    case True
    then obtain f where f: "wd_file w = Some f" "x_pending f = Some pending"
      "x_incident_class f = None" by blast
    show ?thesis
      by (rule sent [OF f]) (use assms usable f in \<open>auto simp: send_pending_def
          verify_pending_permit_def read_state_file_def run_then_def Let_def split: if_splits\<close>)
  next
    case False
    with assms usable have "w' = w"
      by (auto simp: send_pending_def verify_pending_permit_def read_state_file_def run_then_def
          split: if_splits option.splits)
    then show ?thesis by (rule kept)
  qed
qed

definition reserved_state :: "execution_state \<Rightarrow> u32 \<Rightarrow> instant \<Rightarrow> pending_action \<Rightarrow> execution_state"
where
  "reserved_state st actions t pending = st\<lparr>x_actions_today := actions,
     x_last_action_at := Some t, x_pending := Some pending\<rparr>"

lemma act_on_snapshot_cases:
  assumes "act_on_snapshot env p t st sn w = (r, w')"
  obtains (unchanged) "w' = w"
    | (saved) "w' = w\<lparr>wd_file := Some st\<rparr>"
    | (reconciled) pending where "x_incident_class st = None" and "x_pending st = Some pending"
      and "w' = w\<lparr>wd_file := Some (snd (reconcile_pending (sn_observation sn) st pending))\<rparr>"
    | (locked) "x_incident_class st = None" and "x_pending st = None"
      and "w' = w\<lparr>wd_file := Some (st\<lparr>x_incident_class := Some ''daily_spend_cap_breached''\<rparr>)\<rparr>"
    | (reserved) pending actions where "x_incident_class st = None" and "x_pending st = None"
      and "checked_add (x_actions_today st) 1 = Some actions"
      and "w' = w\<lparr>wd_file := Some (reserved_state st actions t pending)\<rparr>"
    | (cancelled) pending actions where "x_incident_class st = None" and "x_pending st = None"
      and "checked_add (x_actions_today st) 1 = Some actions"
      and "w' = w\<lparr>wd_file := Some ((reserved_state st actions t pending)\<lparr>x_pending := None\<rparr>)\<rparr>"
    | (sent) pending actions where "x_incident_class st = None" and "x_pending st = None"
      and "checked_add (x_actions_today st) 1 = Some actions"
      and "pending_from_decision (d_action (sn_decision sn)) (sn_observation sn)
        (p_min_bid_kopecks p) t = Some pending"
      and "w' = \<lparr>wd_file = Some (reserved_state st actions t pending),
        wd_sent = \<lparr>w_action = pending, w_file = Some (reserved_state st actions t pending),
          w_observation = sn_observation sn\<rparr> # wd_sent w\<rparr>"
proof (cases "x_incident_class st")
  case (Some c)
  with assms have "run_then (save_execution_state env st w)
      (\<lambda>_ w. (Ok (sn_decision sn, IncidentLocked), w)) = (r, w')"
    by (simp add: act_on_snapshot_def Let_def)
  then show ?thesis
    by (rule disjE [OF save_then_return]) (erule unchanged, erule saved)
next
  case None
  note incident = None
  show ?thesis
  proof (cases "x_pending st")
    case (Some pending)
    with assms incident have "run_then (save_execution_state env
        (snd (reconcile_pending (sn_observation sn) st pending)) w)
        (\<lambda>_ w. (Ok (sn_decision sn, fst (reconcile_pending (sn_observation sn) st pending)), w))
        = (r, w')"
      by (simp add: act_on_snapshot_def Let_def split: prod.splits)
    then show ?thesis
      by (rule disjE [OF save_then_return]) (erule unchanged, erule reconciled [OF incident Some])
  next
    case None
    note idle = incident None
    show ?thesis
    proof (cases "daily_cap_breach_requires_lock p (sn_observation sn) (sn_decision sn) True")
      case True
      with assms idle have "run_then (save_execution_state env
          (st\<lparr>x_incident_class := Some ''daily_spend_cap_breached''\<rparr>) w)
          (\<lambda>_ w. (Ok (sn_decision sn, IncidentLocked), w)) = (r, w')"
        by (simp add: act_on_snapshot_def Let_def)
      then show ?thesis
        by (rule disjE [OF save_then_return]) (erule unchanged, erule locked [OF idle])
    next
      case False
      note calm = assms [unfolded act_on_snapshot_def Let_def idle, simplified False]
      show ?thesis
      proof (cases "pending_from_decision (d_action (sn_decision sn)) (sn_observation sn)
          (p_min_bid_kopecks p) t")
        case None
        with calm idle have "run_then (save_execution_state env st w)
            (\<lambda>_ w. (Ok (sn_decision sn, Observed), w)) = (r, w')"
          by simp
        then show ?thesis
          by (rule disjE [OF save_then_return]) (erule unchanged, erule saved)
      next
        case (Some pending)
        note chosen = Some
        show ?thesis
        proof (cases "checked_add (x_actions_today st) 1")
          case None
          with calm chosen idle unchanged show ?thesis by simp
        next
          case (Some actions)
          let ?st = "reserved_state st actions t pending"
          have "run_then (save_execution_state env ?st w) (\<lambda>_ w.
              run_then (send_pending env (sn_observation sn) pending w) (\<lambda>result w.
              if result = NotSent then
                run_then (save_execution_state env (?st\<lparr>x_pending := None\<rparr>) w)
                  (\<lambda>_ w. (Ok (sn_decision sn, ReservationCancelled), w))
              else (Ok (sn_decision sn, WriteSentReconciliationRequired), w))) = (r, w')"
            unfolding reserved_state_def using calm chosen Some idle by simp
          then show ?thesis
          proof (cases rule: run_then_cases)
            case (failed e)
            have "w' = w \<or> w' = w\<lparr>wd_file := Some ?st\<rparr>"
              using save_execution_stateD(1) [of env ?st w "fst (save_execution_state env ?st w)" w']
                failed(3) by simp
            then show ?thesis
              by (rule disjE) (erule unchanged, erule reserved [OF idle Some])
          next
            case (ok u)
            have disk: "snd (save_execution_state env ?st w) = w\<lparr>wd_file := Some ?st\<rparr>"
              using save_execution_stateD(2) [of env ?st w _ _ u] ok(1) by (metis prod.collapse)
            let ?w = "w\<lparr>wd_file := Some ?st\<rparr>"
            obtain r1 w1 where send: "send_pending env (sn_observation sn) pending ?w = (r1, w1)"
              by (metis prod.collapse)
            note rest = ok(2) [unfolded disk send]
            from send show ?thesis
            proof (cases rule: send_pendingD)
              case kept
              show ?thesis
              proof (cases "r1 = Inr NotSent")
                case True
                with rest kept have "run_then (save_execution_state env
                    (?st\<lparr>x_pending := None\<rparr>) ?w)
                    (\<lambda>_ w. (Ok (sn_decision sn, ReservationCancelled), w)) = (r, w')"
                  by (simp add: run_then_def)
                then have "w' = ?w \<or> w' = w\<lparr>wd_file := Some (?st\<lparr>x_pending := None\<rparr>)\<rparr>"
                  by (auto dest!: save_then_return)
                then show ?thesis
                  by (rule disjE) (erule reserved [OF idle Some], erule cancelled [OF idle Some])
              next
                case False
                with rest kept have "w' = ?w"
                  by (cases r1) (auto simp: run_then_def)
                then show ?thesis
                  by (rule reserved [OF idle Some])
              qed
            next
              case (sent f)
              from rest sent(5) have "w' = w1"
                by (cases r1) (auto simp: run_then_def)
              show ?thesis
                by (rule that(7) [OF idle Some chosen])
                  (use \<open>w' = w1\<close> sent(1,4) in simp)
            qed
          qed
        qed
      qed
    qed
  qed
qed


section \<open>Single runs\<close>

lemma roll_business_date_simps [simp]:
  "x_pending (roll_business_date d st) = x_pending st"
  "x_incident_class (roll_business_date d st) = x_incident_class st"
  "x_business_date (roll_business_date d st) = d"
  by (simp_all add: roll_business_date_def)

lemma reserved_state_simps [simp]:
  "x_pending (reserved_state st n t pending) = Some pending"
  "x_incident_class (reserved_state st n t pending) = x_incident_class st"
  "x_business_date (reserved_state st n t pending) = x_business_date st"
  "x_actions_today (reserved_state st n t pending) = n"
  by (simp_all add: reserved_state_def)

lemma reconcile_pending_simps [simp]:
  "x_business_date (snd (reconcile_pending ob st pending)) = x_business_date st"
  "x_actions_today (snd (reconcile_pending ob st pending)) = x_actions_today st"
  by (simp_all add: reconcile_pending_def Let_def)

lemma pending_reserved_at:
  "pending_from_decision a ob m t = Some pending \<Longrightarrow> pa_reserved_at pending = t"
  by (cases a) (auto simp: Let_def split: if_splits option.splits)

text \<open>A pending action other than the pause comes from a decision with quota left.\<close>

lemma pending_quota:
  assumes "engine_snapshot p sn"
    and "pending_from_decision (d_action (sn_decision sn)) ob m t = Some pending"
    and "pa_kind pending \<noteq> PendingPauseForDailyCap"
  shows "o_actions_today (sn_observation sn) < p_max_actions_per_day p"
  using assms(1)
proof (rule engine_snapshotD)
  fix obs assume run: "evaluate_action p (sn_observation sn) obs
      = Inr (d_action (sn_decision sn), d_unresolved_stops (sn_decision sn))"
  have not_pause: "d_action (sn_decision sn) \<noteq> PauseCampaignForDailyCap"
    and not_hold: "\<forall>r. d_action (sn_decision sn) \<noteq> Hold r"
    using assms(2,3) by auto
  from run have "campaign_gate p (sn_observation sn) = None"
  proof (cases rule: evaluate_action_cases)
    case gate
    with campaign_gate_Some(1) [OF gate(1) not_hold] not_pause show ?thesis by blast
  qed auto
  then show ?thesis by (rule campaign_gate_None(9))
qed


section \<open>Sequences of runs\<close>

text \<open>
  The system is a world and the time of its last run; time does not run backwards. The
  environment of each run is arbitrary.
\<close>

definition exec_init :: "world \<times> instant \<Rightarrow> bool" where
  "exec_init s \<longleftrightarrow> fst s = \<lparr>wd_file = None, wd_sent = []\<rparr>"

inductive exec_step :: "wb_policy \<Rightarrow> string \<Rightarrow> world \<times> instant \<Rightarrow> world \<times> instant \<Rightarrow> bool"
  for p :: wb_policy and policy_sha256 :: string where
  exec_run: "t \<le> t' \<Longrightarrow> run_once env p policy_sha256 t' w = (r, w') \<Longrightarrow>
    exec_step p policy_sha256 (w, t) (w', t')"

inductive_cases exec_stepE: "exec_step p sha s s'"

text \<open>The writes of a business date that the quota counts: all but the protective pause.\<close>

definition quota_writes :: "naive_date \<Rightarrow> sent_write list \<Rightarrow> sent_write list" where
  "quota_writes d ws = filter (\<lambda>e. pa_kind (w_action e) \<noteq> PendingPauseForDailyCap \<and>
     wb_automation_business_date (pa_reserved_at (w_action e)) = d) ws"

definition write_permitted :: "wb_policy \<Rightarrow> sent_write \<Rightarrow> bool" where
  "write_permitted p e \<longleftrightarrow>
     (\<exists>f. w_file e = Some f \<and> x_pending f = Some (w_action e) \<and> x_incident_class f = None) \<and>
     pending_in_corridor p (w_observation e) (w_action e)"

definition exec_inv :: "wb_policy \<Rightarrow> world \<times> instant \<Rightarrow> bool" where
  "exec_inv p s \<longleftrightarrow>
     (case wd_file (fst s) of
        None \<Rightarrow> wd_sent (fst s) = []
      | Some f \<Rightarrow>
          x_business_date f \<le> wb_automation_business_date (snd s) \<and>
          length (quota_writes (x_business_date f) (wd_sent (fst s)))
            \<le> unat (x_actions_today f) \<and>
          (\<forall>e \<in> set (wd_sent (fst s)).
             wb_automation_business_date (pa_reserved_at (w_action e)) \<le> x_business_date f)) \<and>
     (\<forall>d. length (quota_writes d (wd_sent (fst s))) \<le> unat (p_max_actions_per_day p)) \<and>
     list_all (write_permitted p) (wd_sent (fst s))"

lemma exec_inv_init: "exec_init s \<Longrightarrow> exec_inv p s"
  by (cases s) (auto simp: exec_init_def exec_inv_def quota_writes_def)

lemma quota_writes_Nil:
  "\<forall>e \<in> set ws. wb_automation_business_date (pa_reserved_at (w_action e)) < d \<Longrightarrow>
     quota_writes d ws = []"
  by (auto simp: quota_writes_def filter_empty_conv)

text \<open>The state that a run starts from satisfies the same bounds for the date of the run.\<close>

lemma exec_inv_loaded:
  assumes "exec_inv p (w, t0)" and "t0 \<le> t" and "loads_from st0 w"
    and "wd_file w = None \<Longrightarrow> x_business_date st0 = wb_automation_business_date t"
    and "st = roll_business_date (wb_automation_business_date t) st0"
  shows "length (quota_writes (wb_automation_business_date t) (wd_sent w))
      \<le> unat (x_actions_today st)"
    and "\<forall>e \<in> set (wd_sent w). wb_automation_business_date (pa_reserved_at (w_action e))
      \<le> wb_automation_business_date t"
proof -
  let ?d = "wb_automation_business_date t"
  have mono: "wb_automation_business_date t0 \<le> ?d"
    using assms(2) by (simp add: wb_automation_business_date_def date_in_mono)
  have "length (quota_writes ?d (wd_sent w)) \<le> unat (x_actions_today st) \<and>
      (\<forall>e \<in> set (wd_sent w). wb_automation_business_date (pa_reserved_at (w_action e)) \<le> ?d)"
  proof (cases "wd_file w")
    case None
    with assms(1) show ?thesis by (simp add: exec_inv_def quota_writes_def)
  next
    case (Some f)
    with assms(1) have f: "x_business_date f \<le> ?d"
        "length (quota_writes (x_business_date f) (wd_sent w)) \<le> unat (x_actions_today f)"
      and old: "\<forall>e \<in> set (wd_sent w).
        wb_automation_business_date (pa_reserved_at (w_action e)) \<le> x_business_date f"
      using mono by (auto simp: exec_inv_def)
    show ?thesis
    proof (cases "x_business_date f = ?d")
      case True
      with f old Some assms(3,5) show ?thesis
        by (auto simp: loads_from_def roll_business_date_def)
    next
      case False
      with f(1) old have "\<forall>e \<in> set (wd_sent w).
          wb_automation_business_date (pa_reserved_at (w_action e)) < ?d" by fastforce
      then show ?thesis
        using quota_writes_Nil by fastforce
    qed
  qed
  then show "length (quota_writes ?d (wd_sent w)) \<le> unat (x_actions_today st)"
    and "\<forall>e \<in> set (wd_sent w). wb_automation_business_date (pa_reserved_at (w_action e)) \<le> ?d"
    by blast+
qed

lemma exec_inv_save:
  assumes "exec_inv p (w, t0)" and "x_business_date f = wb_automation_business_date t"
    and "length (quota_writes (wb_automation_business_date t) (wd_sent w))
      \<le> unat (x_actions_today f)"
    and "\<forall>e \<in> set (wd_sent w). wb_automation_business_date (pa_reserved_at (w_action e))
      \<le> wb_automation_business_date t"
  shows "exec_inv p (w\<lparr>wd_file := Some f\<rparr>, t)"
  using assms by (auto simp: exec_inv_def)

lemma exec_inv_send:
  assumes "exec_inv p (w, t0)"
    and "x_business_date st = wb_automation_business_date t"
    and "length (quota_writes (wb_automation_business_date t) (wd_sent w))
      \<le> unat (x_actions_today st)"
    and "\<forall>e \<in> set (wd_sent w). wb_automation_business_date (pa_reserved_at (w_action e))
      \<le> wb_automation_business_date t"
    and "unat actions = unat (x_actions_today st) + 1" and "x_incident_class st = None"
    and "pa_reserved_at pending = t" and "pending_in_corridor p ob pending"
    and "pa_kind pending \<noteq> PendingPauseForDailyCap \<Longrightarrow>
      x_actions_today st < p_max_actions_per_day p"
  shows "exec_inv p (\<lparr>wd_file = Some (reserved_state st actions t pending),
    wd_sent = \<lparr>w_action = pending, w_file = Some (reserved_state st actions t pending),
      w_observation = ob\<rparr> # wd_sent w\<rparr>, t)"
proof -
  let ?e = "\<lparr>w_action = pending, w_file = Some (reserved_state st actions t pending),
      w_observation = ob\<rparr>"
  have "length (quota_writes d (?e # wd_sent w)) \<le> unat (p_max_actions_per_day p)" for d
  proof (cases "pa_kind pending \<noteq> PendingPauseForDailyCap \<and> wb_automation_business_date t = d")
    case True
    then have "unat (x_actions_today st) < unat (p_max_actions_per_day p)"
      using assms(9) by (simp add: word_less_nat_alt)
    with True assms(3,7) show ?thesis
      by (auto simp: quota_writes_def)
  next
    case False
    then have "quota_writes d (?e # wd_sent w) = quota_writes d (wd_sent w)"
      using assms(7) by (auto simp: quota_writes_def)
    with assms(1) show ?thesis by (simp add: exec_inv_def)
  qed
  moreover have "length (quota_writes (wb_automation_business_date t) (?e # wd_sent w))
      \<le> unat actions"
    using assms(3,5) by (auto simp: quota_writes_def)
  moreover have "write_permitted p ?e"
    using assms(6,8) by (simp add: write_permitted_def)
  moreover have "list_all (write_permitted p) (wd_sent w)"
    using assms(1) by (simp add: exec_inv_def)
  ultimately show ?thesis
    using assms(2,4,7) by (simp add: exec_inv_def)
qed

lemma exec_inv_step:
  assumes "exec_inv p s" and "exec_step p sha s s'"
  shows "exec_inv p s'"
  using assms(2)
proof (cases rule: exec_step.cases)
  case (exec_run t0 t env w r w')
  note inv = assms(1) [unfolded exec_run(1)]
  have mono: "wb_automation_business_date t0 \<le> wb_automation_business_date t"
    using exec_run(3) by (simp add: wb_automation_business_date_def date_in_mono)
  from exec_run(4) have "exec_inv p (w', t)"
  proof (cases rule: run_once_cases)
    case unchanged
    with inv mono show ?thesis
      by (auto simp: exec_inv_def split: option.splits)
  next
    case (acted st0 st sn)
    note bounds = exec_inv_loaded [OF inv exec_run(3) acted(1,2,3)]
    have date: "x_business_date st = wb_automation_business_date t"
      using acted(3) by simp
    note save = exec_inv_save [OF inv _ _ bounds(2)]
    have grown: "unat actions = unat (x_actions_today st) + 1"
      if "checked_add (x_actions_today st) 1 = Some actions" for actions
      using unat_checked_add [OF that] by simp
    from acted(6) show ?thesis
    proof (cases rule: act_on_snapshot_cases)
      case unchanged
      with inv mono show ?thesis
        by (auto simp: exec_inv_def split: option.splits)
    next
      case (reserved pending actions)
      have "length (quota_writes (wb_automation_business_date t) (wd_sent w)) \<le> unat actions"
        using bounds(1) grown [OF reserved(3)] by simp
      then show ?thesis
        using save [of "reserved_state st actions t pending"] date reserved(4) by simp
    next
      case (cancelled pending actions)
      have "length (quota_writes (wb_automation_business_date t) (wd_sent w)) \<le> unat actions"
        using bounds(1) grown [OF cancelled(3)] by simp
      then show ?thesis
        using save [of "(reserved_state st actions t pending)\<lparr>x_pending := None\<rparr>"]
          date cancelled(4) by (simp add: reserved_state_def)
    next
      case (sent pending actions)
      have quota: "pa_kind pending \<noteq> PendingPauseForDailyCap \<Longrightarrow>
          x_actions_today st < p_max_actions_per_day p"
        using pending_quota [OF acted(4) sent(4)] acted(5) by simp
      show ?thesis
        unfolding sent(5)
        by (rule exec_inv_send [OF inv date bounds grown [OF sent(3)] sent(1)
              pending_reserved_at [OF sent(4)] engine.pending_safe [OF acted(4) refl sent(4)] quota])
    qed (use save bounds(1) date in auto)
  qed
  with exec_run(2) show ?thesis by simp
qed

interpretation executor: inductive_invariant exec_init "exec_step p sha" "exec_inv p"
  by unfold_locales (auto intro: exec_inv_init exec_inv_step)


section \<open>Sample runs\<close>

definition sample_env :: run_env where
  "sample_env = \<lparr>
     e_lease_free = True,
     e_state_readable = True,
     e_market = Some \<lparr>mk_campaign = \<lparr>b_status = 9, b_bids = sample_bids\<rparr>,
       mk_minimum_bids = map (\<lambda>k. (k, 102)) [449627015, 449627598, 497424314],
       mk_budget = 100000, mk_advertising = sample_facts, mk_stocks = sample_stocks\<rparr>,
     e_snapshot_saved = True,
     e_save = (\<lambda>_. Replaced),
     e_write = (\<lambda>_. WriteAmbiguous)\<rparr>"

definition empty_world :: world where
  "empty_world = \<lparr>wd_file = None, wd_sent = []\<rparr>"

definition sample_run :: "(wb_decision \<times> execution_outcome) run" where
  "sample_run = run_once sample_env sample_policy ''ab'' sample_now empty_world"

lemma sample_run_sends:
  "length (quota_writes 20690 (wd_sent (snd sample_run))) = 1 \<and>
   length (wd_sent (snd sample_run)) = 1"
  by code_simp

lemma sample_world_reached:
  "reach exec_init (exec_step sample_policy ''ab'') (snd sample_run, sample_now)"
proof (rule reach_step)
  show "reach exec_init (exec_step sample_policy ''ab'') (empty_world, sample_now)"
    by (rule reach_init) (simp add: exec_init_def empty_world_def)
  show "exec_step sample_policy ''ab'' (empty_world, sample_now) (snd sample_run, sample_now)"
    by (rule exec_run [of _ _ sample_env _ _ _ "fst sample_run"]) (simp_all add: sample_run_def)
qed


section \<open>Properties\<close>

text \<open>
  C8. Write-ahead: in any environment, one run lets at most one write leave the process.
  If it does, the state file held the reservation of exactly that action and no incident at
  that moment and still holds it after the run, however the run ended; the file had neither
  a reservation nor an incident before the run; and the action stays in the corridor of the
  policy.
\<close>

theorem run_once_write_ahead:
  "wd_sent (snd (run_once env p sha t w)) = wd_sent w \<or>
   (\<exists>e f. wd_sent (snd (run_once env p sha t w)) = e # wd_sent w \<and>
      w_file e = Some f \<and> wd_file (snd (run_once env p sha t w)) = Some f \<and>
      x_pending f = Some (w_action e) \<and> x_incident_class f = None \<and>
      (case wd_file w of
         None \<Rightarrow> True
       | Some g \<Rightarrow> x_pending g = None \<and> x_incident_class g = None) \<and>
      pending_in_corridor p (w_observation e) (w_action e))"
proof -
  obtain r w' where run: "run_once env p sha t w = (r, w')"
    by (metis prod.collapse)
  from run show ?thesis
  proof (cases rule: run_once_cases)
    case unchanged
    with run show ?thesis by simp
  next
    case (acted st0 st sn)
    from acted(6) show ?thesis
    proof (cases rule: act_on_snapshot_cases)
      case (sent pending actions)
      have "case wd_file w of None \<Rightarrow> True
          | Some g \<Rightarrow> x_pending g = None \<and> x_incident_class g = None"
        using acted(1,3) sent(1,2) by (auto simp: loads_from_def split: option.splits)
      moreover have "pending_in_corridor p (sn_observation sn) pending"
        by (rule engine.pending_safe [OF acted(4) refl sent(4)])
      ultimately show ?thesis
        using run sent(1,5) by auto
    qed (use run in auto)
  qed
qed

text \<open>
  C12. The daily quota and the permit hold in every reachable state: over any number of
  runs, in any environments, at most \<open>max_actions_per_day\<close> writes other than the protective
  pause are reserved for one business date, and every write that left the process had its
  reservation on disk and stays in the corridor.
\<close>

theorem daily_quota_bounds_writes:
  assumes "reach exec_init (exec_step p sha) (w, t)"
  shows "length (quota_writes d (wd_sent w)) \<le> unat (p_max_actions_per_day p) \<and>
    list_all (write_permitted p) (wd_sent w)"
  using executor.reach_inv [OF assms] by (simp add: exec_inv_def)

theorem daily_quota_bounds_writes_witness:
  "length (quota_writes 20690 (wd_sent (snd sample_run))) = 1 \<and>
   list_all (write_permitted sample_policy) (wd_sent (snd sample_run))"
  using daily_quota_bounds_writes [OF sample_world_reached] sample_run_sends by blast

lemma incident_kept:
  assumes "exec_step p sha (w, t) (w', t')" and "wd_file w = Some f"
    and "x_incident_class f = Some c"
  shows "wd_sent w' = wd_sent w \<and> (\<exists>f'. wd_file w' = Some f' \<and> x_incident_class f' = Some c \<and>
    x_pending f' = x_pending f)"
  using assms(1)
proof (cases rule: exec_step.cases)
  case (exec_run env r)
  from exec_run(2) show ?thesis
  proof (cases rule: run_once_cases)
    case unchanged
    with assms(2,3) show ?thesis by simp
  next
    case (acted st0 st sn)
    then have "x_incident_class st = Some c" "x_pending st = x_pending f"
      using assms(2,3) by (auto simp: loads_from_def)
    with acted(6) show ?thesis
      by (cases rule: act_on_snapshot_cases) (use assms(2,3) in auto)
  qed
qed

text \<open>
  C22. An incident is a lock: once the state file carries an incident, no later sequence of
  runs clears it, changes the open reservation, or lets a write leave the process.
\<close>

theorem incident_locks_forever:
  assumes "steps (exec_step p sha) (w, t) (w', t')" and "wd_file w = Some f"
    and "x_incident_class f = Some c"
  shows "wd_sent w' = wd_sent w \<and>
    (\<exists>f'. wd_file w' = Some f' \<and> x_incident_class f' = Some c \<and> x_pending f' = x_pending f)"
  using assms(1)
proof (induction "(w, t)" "(w', t')" arbitrary: w' t' rule: steps.induct)
  case steps_refl
  with assms(2,3) show ?case by simp
next
  case (steps_step s)
  obtain v u where s: "s = (v, u)" by (cases s)
  from steps_step(2) [OF s] obtain g where g: "wd_sent v = wd_sent w" "wd_file v = Some g"
    "x_incident_class g = Some c" "x_pending g = x_pending f" by blast
  from incident_kept [OF steps_step(3) [unfolded s] g(2,3)] g(1,4) show ?case by auto
qed

definition locked_world :: world where
  "locked_world = \<lparr>wd_file = Some ((fresh_state sample_policy ''ab'' 20690)
     \<lparr>x_incident_class := Some ''write_not_reconciled''\<rparr>), wd_sent = []\<rparr>"

theorem incident_locks_forever_witness:
  "wd_sent (snd (run_once sample_env sample_policy ''ab'' sample_now locked_world)) = []"
proof -
  let ?run = "run_once sample_env sample_policy ''ab'' sample_now locked_world"
  have "exec_step sample_policy ''ab'' (locked_world, sample_now) (snd ?run, sample_now)"
    by (rule exec_run [of _ _ sample_env _ _ _ "fst ?run"]) simp_all
  then have "steps (exec_step sample_policy ''ab'') (locked_world, sample_now) (snd ?run, sample_now)"
    by (rule steps_step [OF steps_refl])
  from incident_locks_forever [OF this, of _ "''write_not_reconciled''"] show ?thesis
    by (simp add: locked_world_def)
qed

text \<open>
  C23. An open reservation is resolved: once the readback grace has passed, a run in which
  the lease, the reads and the save succeed either finds the write applied and closes the
  reservation, or locks the campaign with an incident; it never waits and never writes.
\<close>

theorem reservation_resolved:
  assumes "e_lease_free env" and "e_state_readable env" and "e_snapshot_saved env"
    and "\<forall>st. e_save env st = Replaced"
    and "wd_file w = Some f" and "x_schema_version f = STATE_SCHEMA_VERSION"
    and "x_account_id f = p_account_id p" and "x_campaign_id f = p_campaign_id p"
    and "x_policy_sha256 f = sha"
    and "x_pending f = Some pending" and "x_incident_class f = None"
    and "pa_reserved_at pending + READBACK_GRACE \<le> t"
    and "fst (observe_market env p sha t (state_view (wb_automation_business_date t)
      (roll_business_date (wb_automation_business_date t) f)) w) = Ok sn"
  shows "\<exists>d outcome f'. fst (run_once env p sha t w) = Ok (d, outcome) \<and>
    wd_file (snd (run_once env p sha t w)) = Some f' \<and>
    wd_sent (snd (run_once env p sha t w)) = wd_sent w \<and>
    (outcome = Reconciled \<and> x_pending f' = None \<and> x_incident_class f' = None \<or>
     outcome = IncidentLocked \<and> x_pending f' = Some pending \<and>
       x_incident_class f' = Some ''write_not_reconciled'')"
proof -
  let ?d = "wb_automation_business_date t"
  let ?st = "roll_business_date ?d f"
  have load: "load_execution_state env p sha ?d m w = (Ok f, w)" for m
    using assms(2,5-9)
    by (simp add: load_execution_state_def read_state_file_def run_then_def)
  have market: "observe_market env p sha t (state_view ?d ?st) w = (Ok sn, w)"
    using observe_market_world [of env p sha t "state_view ?d ?st" w] assms(13)
    by (metis prod.collapse)
  have late: "\<not> o_observed_at (sn_observation sn) < pa_reserved_at pending + READBACK_GRACE"
    using observe_marketD(3) [OF assms(13)] assms(12) by simp
  have "run_once env p sha t w = act_on_snapshot env p t ?st sn w"
    using assms(1,3) by (simp add: run_once_def load market run_then_def Let_def)
  then show ?thesis
    using assms(4,10,11) late
    by (simp add: act_on_snapshot_def reconcile_pending_def run_then_def save_execution_state_def
        Let_def)
qed

definition waiting_state :: execution_state where
  "waiting_state = (fresh_state sample_policy ''ab'' 20690)\<lparr>x_pending :=
     Some \<lparr>pa_reserved_at = sample_now - minutes 10, pa_kind = PendingChangeBids [sample_raise]\<rparr>\<rparr>"

definition waiting_world :: world where
  "waiting_world = \<lparr>wd_file = Some waiting_state, wd_sent = []\<rparr>"

lemma waiting_market:
  "case fst (observe_market sample_env sample_policy ''ab'' sample_now (state_view
       (wb_automation_business_date sample_now) (roll_business_date
       (wb_automation_business_date sample_now) waiting_state)) waiting_world) of
     Inr sn \<Rightarrow> True | Inl _ \<Rightarrow> False"
  by code_simp

theorem reservation_resolved_witness:
  "\<exists>d outcome. fst (run_once sample_env sample_policy ''ab'' sample_now waiting_world)
     = Ok (d, outcome) \<and> (outcome = Reconciled \<or> outcome = IncidentLocked)"
proof -
  obtain sn where sn: "fst (observe_market sample_env sample_policy ''ab'' sample_now (state_view
       (wb_automation_business_date sample_now) (roll_business_date
       (wb_automation_business_date sample_now) waiting_state)) waiting_world) = Ok sn"
    using waiting_market by (auto split: sum.splits)
  have "\<exists>d outcome f'. fst (run_once sample_env sample_policy ''ab'' sample_now waiting_world)
        = Ok (d, outcome) \<and>
      wd_file (snd (run_once sample_env sample_policy ''ab'' sample_now waiting_world)) = Some f' \<and>
      wd_sent (snd (run_once sample_env sample_policy ''ab'' sample_now waiting_world))
        = wd_sent waiting_world \<and>
      (outcome = Reconciled \<and> x_pending f' = None \<and> x_incident_class f' = None \<or>
       outcome = IncidentLocked \<and> x_pending f' = Some \<lparr>pa_reserved_at = sample_now - minutes 10,
           pa_kind = PendingChangeBids [sample_raise]\<rparr> \<and>
         x_incident_class f' = Some ''write_not_reconciled'')"
    by (rule reservation_resolved [OF _ _ _ _ _ _ _ _ _ _ _ _ sn])
      (simp_all add: sample_env_def waiting_world_def waiting_state_def fresh_state_def
        READBACK_GRACE_def duration_defs)
  then show ?thesis by blast
qed

end
