(* ===== verification/Wb_Database.thy ===== *)
theory Wb_Database
  imports Ordered_Map Business_Calendar "HOL-Library.List_Lexorder" "HOL-Library.Char_ord"
begin

text \<open>
  The tables of the schema \<open>wb_automation\<close> (\<open>src/position-monitor/initdb/021\<close>, \<open>022\<close>,
  \<open>049\<close>, \<open>051\<close>) as the runtime role sees them: rows, CHECK constraints, unique indexes,
  foreign keys, and the two BEFORE triggers that guard an action and the campaign state.
  Each statement the store issues is a function of the database that fails when a
  constraint or a trigger refuses it. Columns that no Rust code reads back
  (\<open>created_at\<close>, \<open>updated_at\<close>, \<open>occurred_at\<close>) are left out; the exceptions the triggers
  make for the role \<open>position_admin\<close> do not apply to the runtime role.

  \<open>serde_json\<close>, the \<open>jsonb\<close> cast of the server and SHA-256 are parameters.
\<close>


section \<open>JSON values\<close>

text \<open>
  \<open>serde_json::Value\<close>; the entries of an object are kept in key order. A number that is
  not an integer is kept by a canonical text of its value, so that equal numbers are equal
  here.
\<close>

datatype json =
    JNull
  | JBool bool
  | JInt int
  | JFloat string
  | JString string
  | JArray "json list"
  | JObject "(string \<times> json) list"

record libraries =
  from_str :: "string \<Rightarrow> json option"
  to_json_string :: "json \<Rightarrow> string"
  jsonb :: "string \<Rightarrow> json option"
  sha256_hex :: "string \<Rightarrow> string"
  rfc3339 :: "instant \<Rightarrow> string"

fun json_get :: "json \<Rightarrow> string \<Rightarrow> json option" where
  "json_get (JObject entries) key = map_of entries key"
| "json_get _ key = None"

fun json_set :: "string \<Rightarrow> json \<Rightarrow> json \<Rightarrow> json" where
  "json_set key v (JObject entries) = JObject (btree_insert key v entries)"
| "json_set key v j = j"

fun is_object :: "json \<Rightarrow> bool" where
  "is_object (JObject entries) = True"
| "is_object _ = False"

fun json_as_str :: "json \<Rightarrow> string option" where
  "json_as_str (JString s) = Some s"
| "json_as_str _ = None"

fun json_as_array :: "json \<Rightarrow> json list option" where
  "json_as_array (JArray xs) = Some xs"
| "json_as_array _ = None"

definition json_object :: "(string \<times> json) list \<Rightarrow> json" where
  "json_object entries = fold (\<lambda>(k, v). json_set k v) entries (JObject [])"


text \<open>\<open>to_string\<close> and the text of an integer column: decimal digits without leading zeroes.\<close>

function decimal_digits :: "int \<Rightarrow> string" where
  "decimal_digits n =
     (if n < 10 then [char_of (48 + n)]
      else decimal_digits (n div 10) @ [char_of (48 + n mod 10)])"
  by pat_completeness auto

termination by (relation "measure nat") auto

definition decimal :: "int \<Rightarrow> string" where
  "decimal i = (if i < 0 then ''-'' @ decimal_digits (- i) else decimal_digits i)"

declare decimal_digits.simps [simp del]


section \<open>Rows\<close>

type_synonym campaign_key = "string \<times> int"

datatype durable_action_kind =
    Kind_ChangeBids
  | Kind_PauseCampaignForDailyCap
  | Kind_ResumeCampaignAfterDailyCap

datatype durable_action_status =
    Act_Reserved
  | Act_WriteStarted
  | Act_AwaitingReadback
  | Act_Applied
  | Act_ReconciliationRequired
  | Act_Cancelled

record durable_action =
  a_idempotency_key :: string
  a_cycle_id :: string
  a_policy_digest :: string
  a_request_digest :: string
  a_action_kind :: durable_action_kind
  a_request_json :: string
  a_status :: durable_action_status
  a_reserved_at :: instant
  a_write_started_at :: "instant option"
  a_resolved_at :: "instant option"
  a_readback_cycle_id :: "string option"
  a_last_error_class :: "string option"

record action_row =
  r_owner :: campaign_key
  r_action :: durable_action

record state_row =
  st_policy_digest :: string
  st_business_date :: naive_date
  st_actions_today :: int
  st_last_action_at :: "instant option"
  st_paused_for_daily_cap_on :: "naive_date option"
  st_pending_idempotency_key :: "string option"
  st_incident_class :: "string option"
  st_revision :: int
  st_imported_legacy_digest :: "string option"

record cycle_row =
  cy_cycle_id :: string
  cy_owner :: campaign_key
  cy_policy_digest :: string
  cy_observed_at :: instant
  cy_business_date :: naive_date
  cy_state_revision :: int
  cy_snapshot_json :: string
  cy_decision_json :: string

record audit_row =
  au_event_key :: string
  au_cycle_id :: string
  au_owner :: campaign_key
  au_event_type :: string
  au_idempotency_key :: "string option"
  au_payload_json :: string

record database =
  db_states :: "(campaign_key \<times> state_row) list"
  db_actions :: "action_row list"
  db_cycles :: "cycle_row list"
  db_audit :: "audit_row list"

definition kind_as_database :: "durable_action_kind \<Rightarrow> string" where
  "kind_as_database k =
     (case k of
        Kind_ChangeBids \<Rightarrow> ''change_bids''
      | Kind_PauseCampaignForDailyCap \<Rightarrow> ''pause_campaign_for_daily_cap''
      | Kind_ResumeCampaignAfterDailyCap \<Rightarrow> ''resume_campaign_after_daily_cap'')"

definition unresolved_status :: "durable_action_status \<Rightarrow> bool" where
  "unresolved_status s \<longleftrightarrow>
     s = Act_Reserved \<or> s = Act_WriteStarted \<or> s = Act_AwaitingReadback \<or>
     s = Act_ReconciliationRequired"

definition state_of :: "database \<Rightarrow> campaign_key \<Rightarrow> state_row option" where
  "state_of db c = map_of (db_states db) c"

definition action_of :: "database \<Rightarrow> campaign_key \<Rightarrow> string \<Rightarrow> durable_action option" where
  "action_of db c key =
     map_option r_action
       (find (\<lambda>r. a_idempotency_key (r_action r) = key \<and> r_owner r = c) (db_actions db))"

definition cycle_exists :: "database \<Rightarrow> campaign_key \<Rightarrow> string \<Rightarrow> bool" where
  "cycle_exists db c cycle_id \<longleftrightarrow>
     list_ex (\<lambda>r. cy_cycle_id r = cycle_id \<and> cy_owner r = c) (db_cycles db)"


section \<open>CHECK constraints\<close>

text \<open>\<open>str::len\<close> and \<open>octet_length\<close>.\<close>

definition str_len :: "string \<Rightarrow> int" where
  "str_len s = int (length s)"

lemma str_len_code [code]: "str_len [] = 0" "str_len (b # s) = 1 + str_len s"
  by (simp_all add: str_len_def)

definition hex_digest :: "string \<Rightarrow> bool" where
  "hex_digest s \<longleftrightarrow> str_len s = 64 \<and> list_all is_lower_hexdigit s"

definition class_name :: "string \<Rightarrow> bool" where
  "class_name s \<longleftrightarrow>
     s \<noteq> [] \<and> str_len s \<le> 64 \<and>
     list_all (\<lambda>b. is_ascii_lowercase b \<or> is_ascii_digit b \<or> b = CHR ''_'') s"

definition account_name :: "string \<Rightarrow> bool" where
  "account_name s \<longleftrightarrow>
     s \<noteq> [] \<and> str_len s \<le> 128 \<and>
     list_all (\<lambda>b. is_ascii_alphanumeric b \<or> b \<in> set ''_.-'') s"

definition owner_check :: "campaign_key \<Rightarrow> bool" where
  "owner_check c \<longleftrightarrow> account_name (fst c) \<and> 0 < snd c"

definition json_column_check :: "libraries \<Rightarrow> int \<Rightarrow> string \<Rightarrow> bool" where
  "json_column_check lib limit s \<longleftrightarrow>
     2 \<le> str_len s \<and> str_len s \<le> limit \<and>
     (case jsonb lib s of None \<Rightarrow> False | Some j \<Rightarrow> is_object j)"

text \<open>
  Three-valued SQL conditions: a CHECK refuses a row only when its condition is false, not
  when it is null (None).
\<close>

definition sql_and :: "bool option \<Rightarrow> bool option \<Rightarrow> bool option" where
  "sql_and a b =
     (if a = Some False \<or> b = Some False then Some False
      else if a = None \<or> b = None then None else Some True)"

definition kind_column_check :: "json \<Rightarrow> durable_action_kind \<Rightarrow> bool option" where
  "kind_column_check j kind =
     (case json_get j ''kind'' of
        None \<Rightarrow> None
      | Some JNull \<Rightarrow> None
      | Some v \<Rightarrow> Some (json_as_str v = Some (kind_as_database kind)))"

definition changes_column_check :: "json \<Rightarrow> durable_action_kind \<Rightarrow> bool option" where
  "changes_column_check j kind =
     (if kind = Kind_ChangeBids
      then (case json_get j ''changes'' of
              None \<Rightarrow> None
            | Some v \<Rightarrow>
                (case json_as_array v of
                   None \<Rightarrow> Some False
                 | Some changes \<Rightarrow> Some (length changes = 1)))
      else Some (json_get j ''changes'' = None))"

definition request_check :: "libraries \<Rightarrow> durable_action \<Rightarrow> bool" where
  "request_check lib a \<longleftrightarrow>
     json_column_check lib 131072 (a_request_json a) \<and>
     (case jsonb lib (a_request_json a) of
        None \<Rightarrow> False
      | Some j \<Rightarrow>
          sql_and (kind_column_check j (a_action_kind a))
                  (changes_column_check j (a_action_kind a)) \<noteq> Some False)"

definition action_state_shape :: "durable_action \<Rightarrow> bool" where
  "action_state_shape a \<longleftrightarrow>
     (case a_status a of
        Act_Reserved \<Rightarrow>
          a_write_started_at a = None \<and> a_resolved_at a = None \<and>
          a_readback_cycle_id a = None \<and> a_last_error_class a = None
      | Act_WriteStarted \<Rightarrow>
          a_write_started_at a \<noteq> None \<and> a_resolved_at a = None \<and>
          a_readback_cycle_id a = None \<and> a_last_error_class a = None
      | Act_AwaitingReadback \<Rightarrow>
          a_write_started_at a \<noteq> None \<and> a_resolved_at a = None \<and>
          a_readback_cycle_id a = None \<and> a_last_error_class a = None
      | Act_Applied \<Rightarrow>
          a_write_started_at a \<noteq> None \<and> a_resolved_at a \<noteq> None \<and>
          a_readback_cycle_id a \<noteq> None \<and> a_last_error_class a = None
      | Act_ReconciliationRequired \<Rightarrow>
          a_write_started_at a \<noteq> None \<and> a_resolved_at a = None \<and>
          a_last_error_class a \<noteq> None
      | Act_Cancelled \<Rightarrow>
          (a_write_started_at a = None \<or>
           (a_last_error_class a = Some ''operator_closed_unconfirmed'' \<and>
            a_readback_cycle_id a \<noteq> None) \<or>
           (a_last_error_class a = Some ''write_not_sent'' \<and> a_readback_cycle_id a = None)) \<and>
          a_resolved_at a \<noteq> None \<and> a_last_error_class a \<noteq> None)"

definition action_check :: "libraries \<Rightarrow> action_row \<Rightarrow> bool" where
  "action_check lib r \<longleftrightarrow>
     hex_digest (a_idempotency_key (r_action r)) \<and> owner_check (r_owner r) \<and>
     hex_digest (a_policy_digest (r_action r)) \<and> hex_digest (a_request_digest (r_action r)) \<and>
     request_check lib (r_action r) \<and>
     (case a_last_error_class (r_action r) of None \<Rightarrow> True | Some e \<Rightarrow> class_name e) \<and>
     action_state_shape (r_action r)"

definition state_check :: "campaign_key \<Rightarrow> state_row \<Rightarrow> bool" where
  "state_check c st \<longleftrightarrow>
     owner_check c \<and> hex_digest (st_policy_digest st) \<and>
     0 \<le> st_actions_today st \<and> st_actions_today st \<le> 500 \<and>
     (case st_paused_for_daily_cap_on st of
        None \<Rightarrow> True | Some d \<Rightarrow> d \<le> st_business_date st) \<and>
     (case st_incident_class st of None \<Rightarrow> True | Some e \<Rightarrow> class_name e) \<and>
     0 < st_revision st \<and>
     (case st_imported_legacy_digest st of None \<Rightarrow> True | Some d \<Rightarrow> hex_digest d)"

definition cycle_check :: "libraries \<Rightarrow> cycle_row \<Rightarrow> bool" where
  "cycle_check lib r \<longleftrightarrow>
     hex_digest (cy_cycle_id r) \<and> owner_check (cy_owner r) \<and> hex_digest (cy_policy_digest r) \<and>
     0 < cy_state_revision r \<and>
     json_column_check lib 1048576 (cy_snapshot_json r) \<and>
     json_column_check lib 262144 (cy_decision_json r) \<and>
     cy_business_date r = date_in moscow (cy_observed_at r)"

definition audit_check :: "libraries \<Rightarrow> audit_row \<Rightarrow> bool" where
  "audit_check lib r \<longleftrightarrow>
     hex_digest (au_event_key r) \<and> owner_check (au_owner r) \<and> class_name (au_event_type r) \<and>
     json_column_check lib 262144 (au_payload_json r)"


section \<open>Triggers\<close>

definition same_identity :: "libraries \<Rightarrow> durable_action \<Rightarrow> durable_action \<Rightarrow> bool" where
  "same_identity lib a b \<longleftrightarrow>
     a_idempotency_key a = a_idempotency_key b \<and> a_cycle_id a = a_cycle_id b \<and>
     a_policy_digest a = a_policy_digest b \<and> a_request_digest a = a_request_digest b \<and>
     a_action_kind a = a_action_kind b \<and>
     jsonb lib (a_request_json a) \<noteq> None \<and>
     jsonb lib (a_request_json a) = jsonb lib (a_request_json b) \<and>
     a_reserved_at a = a_reserved_at b"

text \<open>\<open>enforce_action_transition\<close> on UPDATE; None is a raised exception.\<close>

definition enforce_action_transition ::
  "libraries \<Rightarrow> instant \<Rightarrow> durable_action \<Rightarrow> durable_action \<Rightarrow> durable_action option" where
  "enforce_action_transition lib now old new =
     (if \<not> same_identity lib new old then None
      else case (a_status old, a_status new) of
        (Act_ReconciliationRequired, Act_Cancelled) \<Rightarrow> None
      | (Act_Reserved, Act_WriteStarted) \<Rightarrow>
          Some (new\<lparr>a_write_started_at := Some now, a_resolved_at := None,
                    a_readback_cycle_id := None, a_last_error_class := None\<rparr>)
      | (Act_Reserved, Act_Cancelled) \<Rightarrow>
          if a_last_error_class new = None then None
          else Some (new\<lparr>a_write_started_at := None, a_resolved_at := Some now\<rparr>)
      | (Act_WriteStarted, Act_Cancelled) \<Rightarrow>
          if a_last_error_class new \<noteq> Some ''write_not_sent'' \<or>
             a_readback_cycle_id new \<noteq> None then None
          else Some (new\<lparr>a_write_started_at := a_write_started_at old,
                         a_resolved_at := Some now\<rparr>)
      | (Act_WriteStarted, Act_AwaitingReadback) \<Rightarrow>
          Some (new\<lparr>a_write_started_at := a_write_started_at old, a_resolved_at := None,
                    a_readback_cycle_id := None, a_last_error_class := None\<rparr>)
      | (from, Act_ReconciliationRequired) \<Rightarrow>
          if from \<noteq> Act_WriteStarted \<and> from \<noteq> Act_AwaitingReadback then None
          else if a_last_error_class new = None then None
          else Some (new\<lparr>a_write_started_at := a_write_started_at old, a_resolved_at := None\<rparr>)
      | (from, Act_Applied) \<Rightarrow>
          if from \<noteq> Act_WriteStarted \<and> from \<noteq> Act_AwaitingReadback \<and>
             from \<noteq> Act_ReconciliationRequired then None
          else if a_readback_cycle_id new = None then None
          else Some (new\<lparr>a_write_started_at := a_write_started_at old,
                         a_resolved_at := Some now, a_last_error_class := None\<rparr>)
      | _ \<Rightarrow> None)"

text \<open>\<open>enforce_state_transition\<close> on UPDATE; False is a raised exception.\<close>

definition clears_pause_lawfully ::
  "database \<Rightarrow> campaign_key \<Rightarrow> state_row \<Rightarrow> state_row \<Rightarrow> bool" where
  "clears_pause_lawfully db c old new \<longleftrightarrow>
     (case st_pending_idempotency_key old of
        None \<Rightarrow> False
      | Some key \<Rightarrow>
          st_pending_idempotency_key new = None \<and>
          (case action_of db c key of
             None \<Rightarrow> False
           | Some a \<Rightarrow>
               a_status a = Act_Applied \<and>
               a_action_kind a = Kind_ResumeCampaignAfterDailyCap))"

definition expected_actions :: "state_row \<Rightarrow> state_row \<Rightarrow> int" where
  "expected_actions old new =
     (if st_business_date old < st_business_date new then 0 else st_actions_today old) +
     (if st_pending_idempotency_key old = None \<and> st_pending_idempotency_key new \<noteq> None
      then 1 else 0)"

definition pending_transition_ok ::
  "database \<Rightarrow> campaign_key \<Rightarrow> state_row \<Rightarrow> state_row \<Rightarrow> bool" where
  "pending_transition_ok db c old new \<longleftrightarrow>
     (case (st_pending_idempotency_key old, st_pending_idempotency_key new) of
        (None, None) \<Rightarrow> True
      | (None, Some key) \<Rightarrow>
          (case action_of db c key of
             None \<Rightarrow> st_last_action_at new = None
           | Some a \<Rightarrow>
               a_status a = Act_Reserved \<and> st_last_action_at new = Some (a_reserved_at a)) \<and>
          st_incident_class old = None \<and> st_incident_class new = None
      | (Some key, Some key') \<Rightarrow> key' = key
      | (Some key, None) \<Rightarrow>
          (case action_of db c key of
             None \<Rightarrow> True
           | Some a \<Rightarrow> a_status a = Act_Applied \<or> a_status a = Act_Cancelled))"

definition enforce_state_transition ::
  "database \<Rightarrow> campaign_key \<Rightarrow> state_row \<Rightarrow> state_row \<Rightarrow> bool" where
  "enforce_state_transition db c old new \<longleftrightarrow>
     (st_paused_for_daily_cap_on old \<noteq> None \<and> st_paused_for_daily_cap_on new = None \<longrightarrow>
        clears_pause_lawfully db c old new) \<and>
     st_imported_legacy_digest new = st_imported_legacy_digest old \<and>
     st_business_date old \<le> st_business_date new \<and>
     st_revision new = st_revision old + 1 \<and>
     (case st_last_action_at old of
        None \<Rightarrow> True
      | Some t \<Rightarrow> (case st_last_action_at new of None \<Rightarrow> False | Some t' \<Rightarrow> t \<le> t')) \<and>
     (st_incident_class old \<noteq> None \<longrightarrow> st_incident_class new = st_incident_class old) \<and>
     (st_policy_digest new \<noteq> st_policy_digest old \<longrightarrow>
        st_business_date new = st_business_date old \<and>
        st_actions_today new = st_actions_today old \<and>
        st_last_action_at new = st_last_action_at old \<and>
        st_paused_for_daily_cap_on new = st_paused_for_daily_cap_on old \<and>
        st_pending_idempotency_key new = st_pending_idempotency_key old \<and>
        st_incident_class new = st_incident_class old) \<and>
     pending_transition_ok db c old new \<and>
     st_actions_today new = expected_actions old new"


section \<open>Statements\<close>

datatype sql_error = UniqueViolation | OtherSqlError

definition pending_reference_ok :: "database \<Rightarrow> campaign_key \<Rightarrow> state_row \<Rightarrow> bool" where
  "pending_reference_ok db c st \<longleftrightarrow>
     (case st_pending_idempotency_key st of
        None \<Rightarrow> True | Some key \<Rightarrow> action_of db c key \<noteq> None)"

definition insert_state ::
  "campaign_key \<Rightarrow> state_row \<Rightarrow> database \<Rightarrow> (sql_error, bool \<times> database) result" where
  "insert_state c st db =
     (if st_revision st \<noteq> 1 \<or> \<not> state_check c st then Error OtherSqlError
      else if state_of db c \<noteq> None then Ok (False, db)
      else Ok (True, db\<lparr>db_states := (c, st) # db_states db\<rparr>))"

definition update_state ::
  "campaign_key \<Rightarrow> (state_row \<Rightarrow> bool) \<Rightarrow> (state_row \<Rightarrow> state_row) \<Rightarrow> database \<Rightarrow>
     (sql_error, nat \<times> database) result" where
  "update_state c guard change db =
     (case state_of db c of
        None \<Rightarrow> Ok (0, db)
      | Some st \<Rightarrow>
          if \<not> guard st then Ok (0, db)
          else if \<not> enforce_state_transition db c st (change st) \<or>
                  \<not> state_check c (change st) \<or> \<not> pending_reference_ok db c (change st)
          then Error OtherSqlError
          else Ok (1, db\<lparr>db_states := map (\<lambda>(k, s). (k, if k = c then change st else s))
                                       (db_states db)\<rparr>))"

definition insert_action ::
  "libraries \<Rightarrow> action_row \<Rightarrow> database \<Rightarrow> (sql_error, durable_action \<times> database) result" where
  "insert_action lib r db =
     (if \<not> action_check lib r then Error OtherSqlError
      else if list_ex (\<lambda>q. a_idempotency_key (r_action q) = a_idempotency_key (r_action r))
                (db_actions db)
      then Error UniqueViolation
      else if list_ex (\<lambda>q. r_owner q = r_owner r \<and> unresolved_status (a_status (r_action q)))
                (db_actions db)
      then Error UniqueViolation
      else if \<not> cycle_exists db (r_owner r) (a_cycle_id (r_action r)) then Error OtherSqlError
      else Ok (r_action r, db\<lparr>db_actions := r # db_actions db\<rparr>))"

definition replace_action :: "durable_action \<Rightarrow> action_row list \<Rightarrow> action_row list" where
  "replace_action a =
     map (\<lambda>r. if a_idempotency_key (r_action r) = a_idempotency_key a
              then r\<lparr>r_action := a\<rparr> else r)"

definition update_action ::
  "libraries \<Rightarrow> instant \<Rightarrow> campaign_key \<Rightarrow> string \<Rightarrow> durable_action_status \<Rightarrow>
     (durable_action \<Rightarrow> durable_action) \<Rightarrow> database \<Rightarrow> (sql_error, nat \<times> database) result" where
  "update_action lib now c key status change db =
     (case action_of db c key of
        None \<Rightarrow> Ok (0, db)
      | Some a \<Rightarrow>
          if a_status a \<noteq> status then Ok (0, db)
          else (case enforce_action_transition lib now a (change a) of
                  None \<Rightarrow> Error OtherSqlError
                | Some a' \<Rightarrow>
                    if \<not> action_check lib \<lparr>r_owner = c, r_action = a'\<rparr> \<or>
                       (case a_readback_cycle_id a' of
                          None \<Rightarrow> False | Some rb \<Rightarrow> \<not> cycle_exists db c rb)
                    then Error OtherSqlError
                    else Ok (1, db\<lparr>db_actions := replace_action a' (db_actions db)\<rparr>)))"

definition insert_cycle ::
  "libraries \<Rightarrow> cycle_row \<Rightarrow> database \<Rightarrow> (sql_error, bool \<times> database) result" where
  "insert_cycle lib r db =
     (if \<not> cycle_check lib r then Error OtherSqlError
      else if list_ex (\<lambda>q. cy_cycle_id q = cy_cycle_id r) (db_cycles db) then Ok (False, db)
      else if list_ex (\<lambda>q. cy_owner q = cy_owner r \<and> cy_observed_at q = cy_observed_at r)
                (db_cycles db)
      then Error UniqueViolation
      else Ok (True, db\<lparr>db_cycles := r # db_cycles db\<rparr>))"

definition insert_audit ::
  "libraries \<Rightarrow> audit_row \<Rightarrow> database \<Rightarrow> (sql_error, nat \<times> database) result" where
  "insert_audit lib r db =
     (if \<not> audit_check lib r then Error OtherSqlError
      else if list_ex (\<lambda>q. au_event_key q = au_event_key r) (db_audit db) then Ok (0, db)
      else if \<not> cycle_exists db (au_owner r) (au_cycle_id r) \<or>
              (case au_idempotency_key r of
                 None \<Rightarrow> False | Some key \<Rightarrow> action_of db (au_owner r) key = None)
      then Error OtherSqlError
      else Ok (1, db\<lparr>db_audit := r # db_audit db\<rparr>))"

end
