(* ===== verification/Wb_Store.thy ===== *)
theory Wb_Store
  imports Wb_Database
begin

text \<open>
  The durable store of the Wildberries automation,
  \<open>src/src/control/automation_postgres.rs\<close> with \<open>resolution.rs\<close> and \<open>state_read.rs\<close>: every
  operation of a campaign lease that reads or changes the tables, with its input
  validation, its guards on the locked rows, its statements in their order and its
  receipt. An operation is a function of the database, the server clock and the fate of
  the connection.
\<close>


section \<open>Results, transactions and the connection\<close>

datatype store_error = Unavailable | InvalidInput | StateChanged

text \<open>
  A connection may be lost before the commit reaches the server, or after it: then the
  caller sees \<open>Unavailable\<close> although the transaction took effect. A transaction that is
  dropped (an early return, a panic) is rolled back.
\<close>

datatype link = Connected | LostBeforeCommit | LostInCommit

type_synonym 'a outcome = "(store_error, 'a) result \<times> database"

definition transaction ::
  "link \<Rightarrow> (database \<Rightarrow> (store_error, 'a \<times> database) result) \<Rightarrow> database \<Rightarrow> 'a outcome" where
  "transaction link body db =
     (if link = LostBeforeCommit then (Error Unavailable, db)
      else case body db of
        Inl e \<Rightarrow> (Inl e, db)
      | Inr (x, db') \<Rightarrow>
          if link = LostInCommit then (Error Unavailable, db') else (Ok x, db'))"

definition after_commit ::
  "('a \<Rightarrow> (store_error, 'b) result) \<Rightarrow> 'a outcome \<Rightarrow> 'b outcome" where
  "after_commit f r = (and_then (fst r) f, snd r)"

definition validated ::
  "(store_error, 'v) result \<Rightarrow> ('v \<Rightarrow> database \<Rightarrow> 'a outcome) \<Rightarrow> database \<Rightarrow> 'a outcome" where
  "validated check run db = (case check of Inl e \<Rightarrow> (Inl e, db) | Inr v \<Rightarrow> run v db)"

definition map_insert_error :: "(sql_error, 'a) result \<Rightarrow> (store_error, 'a) result" where
  "map_insert_error =
     wrap_err (\<lambda>e. case e of UniqueViolation \<Rightarrow> StateChanged | OtherSqlError \<Rightarrow> Unavailable)"

definition ensure_one_row :: "nat \<Rightarrow> (store_error, unit) result" where
  "ensure_one_row updated = (if updated = 1 then Ok () else Error StateChanged)"

text \<open>\<open>execute(..).map_err(|_| Unavailable)?\<close> followed by \<open>ensure_one_row\<close>.\<close>

definition execute_one ::
  "(sql_error, nat \<times> database) result \<Rightarrow> (store_error, database) result" where
  "execute_one stmt =
     and_then (map_err Unavailable stmt) (\<lambda>(updated, db).
     and_then (ensure_one_row updated) (\<lambda>_. Ok db))"


section \<open>Validation of the inputs\<close>

definition MAX_JSON_BYTES :: int where
  "MAX_JSON_BYTES = 1048576"

definition validate_account :: "string \<Rightarrow> (store_error, unit) result" where
  "validate_account s =
     (if s \<noteq> [] \<and> str_len s \<le> 128 \<and>
         list_all (\<lambda>b. is_ascii_alphanumeric b \<or> b = CHR ''_'' \<or> b = CHR ''.'' \<or> b = CHR ''-'') s
      then Ok () else Error InvalidInput)"

definition validate_digest :: "string \<Rightarrow> (store_error, unit) result" where
  "validate_digest s =
     (if str_len s = 64 \<and> list_all is_lower_hexdigit s then Ok () else Error InvalidInput)"

definition validate_json :: "libraries \<Rightarrow> string \<Rightarrow> int \<Rightarrow> (store_error, json) result" where
  "validate_json lib s limit =
     (if str_len s < 2 \<or> limit < str_len s then Error InvalidInput
      else case from_str lib s of
        Some (JObject entries) \<Rightarrow> Ok (JObject entries)
      | _ \<Rightarrow> Error InvalidInput)"

definition validate_error_class :: "string \<Rightarrow> bool" where
  "validate_error_class s \<longleftrightarrow>
     s \<noteq> [] \<and> str_len s \<le> 64 \<and>
     list_all (\<lambda>b. is_ascii_lowercase b \<or> is_ascii_digit b \<or> b = CHR ''_'') s"

definition validate_authorization_reference :: "string \<Rightarrow> (store_error, unit) result" where
  "validate_authorization_reference s =
     (if s \<noteq> [] \<and> str_len s \<le> 128 \<and>
         list_all (\<lambda>b. is_ascii_alphanumeric b \<or> b = CHR ''_'' \<or> b = CHR ''-'' \<or>
                        b = CHR ''/'' \<or> b = CHR ''.'') s
      then Ok () else Error InvalidInput)"

definition to_i64 :: "u64 \<Rightarrow> (store_error, int) result" where
  "to_i64 v = (if uint v < 2 ^ 63 then Ok (uint v) else Error InvalidInput)"

definition to_u64 :: "int \<Rightarrow> u64 option" where
  "to_u64 r = (if 0 \<le> r \<and> r < 2 ^ 64 then Some (word_of_int r) else None)"

definition succ_i64 :: "int \<Rightarrow> int option" where
  "succ_i64 r = (if r < 2 ^ 63 - 1 then Some (r + 1) else None)"

definition succ_i32 :: "int \<Rightarrow> int option" where
  "succ_i32 n = (if n < 2 ^ 31 - 1 then Some (n + 1) else None)"


section \<open>Data of the operations\<close>

record database_state =
  ds_account_id :: string
  ds_campaign_id :: u64
  ds_policy_digest :: string
  ds_business_date :: naive_date
  ds_actions_today :: u32
  ds_last_action_at :: "instant option"
  ds_paused_for_daily_cap_on :: "naive_date option"
  ds_pending_idempotency_key :: "string option"
  ds_incident_class :: "string option"
  ds_revision :: u64
  ds_imported_legacy_digest :: "string option"

record legacy_state_seed =
  sd_policy_digest :: string
  sd_business_date :: naive_date
  sd_actions_today :: u32
  sd_last_action_at :: "instant option"
  sd_paused_for_daily_cap_on :: "naive_date option"
  sd_incident_class :: "string option"
  sd_legacy_digest :: string

record action_reservation =
  rs_idempotency_key :: string
  rs_cycle_id :: string
  rs_policy_digest :: string
  rs_request_digest :: string
  rs_action_kind :: durable_action_kind
  rs_request_json :: string
  rs_business_date :: naive_date
  rs_expected_state_revision :: u64
  rs_max_actions_per_day :: u32

record reservation_receipt =
  rr_inserted :: bool
  rr_state_revision :: u64
  rr_action :: durable_action

record state_transition_receipt =
  tr_changed :: bool
  tr_state_revision :: u64

datatype resolution_kind =
    Resolve_Cancelled
  | Resolve_NotSent
  | Resolve_ReconciliationRequired

definition resolution_status :: "resolution_kind \<Rightarrow> durable_action_status" where
  "resolution_status k =
     (case k of
        Resolve_ReconciliationRequired \<Rightarrow> Act_ReconciliationRequired
      | _ \<Rightarrow> Act_Cancelled)"

definition resolution_event_type :: "resolution_kind \<Rightarrow> string" where
  "resolution_event_type k =
     (case k of
        Resolve_ReconciliationRequired \<Rightarrow> ''reconciliation_required''
      | _ \<Rightarrow> ''action_cancelled'')"

definition status_database :: "durable_action_status \<Rightarrow> string" where
  "status_database s =
     (case s of
        Act_Reserved \<Rightarrow> ''reserved''
      | Act_WriteStarted \<Rightarrow> ''write_started''
      | Act_AwaitingReadback \<Rightarrow> ''awaiting_readback''
      | Act_Applied \<Rightarrow> ''applied''
      | Act_ReconciliationRequired \<Rightarrow> ''reconciliation_required''
      | Act_Cancelled \<Rightarrow> ''cancelled'')"

definition parse_action_status :: "string \<Rightarrow> (store_error, durable_action_status) result" where
  "parse_action_status s =
     (if s = ''reserved'' then Ok Act_Reserved
      else if s = ''write_started'' then Ok Act_WriteStarted
      else if s = ''awaiting_readback'' then Ok Act_AwaitingReadback
      else if s = ''applied'' then Ok Act_Applied
      else if s = ''reconciliation_required'' then Ok Act_ReconciliationRequired
      else if s = ''cancelled'' then Ok Act_Cancelled
      else Error Unavailable)"

definition parse_action_kind :: "string \<Rightarrow> (store_error, durable_action_kind) result" where
  "parse_action_kind s =
     (if s = ''change_bids'' then Ok Kind_ChangeBids
      else if s = ''pause_campaign_for_daily_cap'' then Ok Kind_PauseCampaignForDailyCap
      else if s = ''resume_campaign_after_daily_cap'' then Ok Kind_ResumeCampaignAfterDailyCap
      else Error Unavailable)"

definition parse_state :: "campaign_key \<Rightarrow> state_row \<Rightarrow> (store_error, database_state) result" where
  "parse_state c st =
     and_then (ok_or (to_u64 (snd c)) Unavailable) (\<lambda>campaign_id.
     and_then (if 0 \<le> st_actions_today st
               then Ok (word_of_int (st_actions_today st)) else Error Unavailable)
       (\<lambda>actions_today.
     and_then (ok_or (to_u64 (st_revision st)) Unavailable) (\<lambda>revision.
     Ok \<lparr>ds_account_id = fst c,
         ds_campaign_id = campaign_id,
         ds_policy_digest = st_policy_digest st,
         ds_business_date = st_business_date st,
         ds_actions_today = actions_today,
         ds_last_action_at = st_last_action_at st,
         ds_paused_for_daily_cap_on = st_paused_for_daily_cap_on st,
         ds_pending_idempotency_key = st_pending_idempotency_key st,
         ds_incident_class = st_incident_class st,
         ds_revision = revision,
         ds_imported_legacy_digest = st_imported_legacy_digest st\<rparr>)))"

definition validate_reservation ::
  "libraries \<Rightarrow> action_reservation \<Rightarrow> (store_error, unit) result" where
  "validate_reservation lib r =
     and_then (validate_digest (rs_idempotency_key r)) (\<lambda>_.
     and_then (validate_digest (rs_cycle_id r)) (\<lambda>_.
     and_then (validate_digest (rs_policy_digest r)) (\<lambda>_.
     and_then (validate_digest (rs_request_digest r)) (\<lambda>_.
     if rs_expected_state_revision r = 0 \<or> rs_max_actions_per_day r = 0 \<or>
        500 < rs_max_actions_per_day r
     then Error InvalidInput
     else
       and_then (validate_json lib (rs_request_json r) (128 * 1024)) (\<lambda>object.
       if Option.bind (json_get object ''kind'') json_as_str
            \<noteq> Some (kind_as_database (rs_action_kind r))
       then Error InvalidInput
       else if rs_action_kind r = Kind_ChangeBids
       then (case Option.bind (json_get object ''changes'') json_as_array of
               None \<Rightarrow> Error InvalidInput
             | Some changes \<Rightarrow> if length changes \<noteq> 1 then Error InvalidInput else Ok ())
       else if json_get object ''changes'' \<noteq> None then Error InvalidInput
       else Ok ())))))"

definition action_matches_reservation ::
  "libraries \<Rightarrow> durable_action \<Rightarrow> action_reservation \<Rightarrow> bool" where
  "action_matches_reservation lib a r \<longleftrightarrow>
     a_idempotency_key a = rs_idempotency_key r \<and>
     a_cycle_id a = rs_cycle_id r \<and>
     a_policy_digest a = rs_policy_digest r \<and>
     a_request_digest a = rs_request_digest r \<and>
     a_action_kind a = rs_action_kind r \<and>
     (case (from_str lib (a_request_json a), from_str lib (rs_request_json r)) of
        (Some stored, Some requested) \<Rightarrow> stored = requested
      | _ \<Rightarrow> False)"

definition applied_replay_pause_state_matches ::
  "durable_action_kind \<Rightarrow> naive_date option \<Rightarrow> naive_date option \<Rightarrow> bool" where
  "applied_replay_pause_state_matches kind requested persisted \<longleftrightarrow>
     (case kind of
        Kind_ChangeBids \<Rightarrow> True
      | Kind_PauseCampaignForDailyCap \<Rightarrow> persisted = requested
      | Kind_ResumeCampaignAfterDailyCap \<Rightarrow> persisted = None)"


section \<open>Parts of a transaction\<close>

definition load_action_in_transaction ::
  "database \<Rightarrow> campaign_key \<Rightarrow> string \<Rightarrow> (store_error, durable_action) result" where
  "load_action_in_transaction db c key = ok_or (action_of db c key) StateChanged"

definition load_locked_state_summary ::
  "database \<Rightarrow> campaign_key \<Rightarrow> (store_error, state_row) result" where
  "load_locked_state_summary db c = ok_or (state_of db c) StateChanged"

definition verify_pending_state ::
  "database \<Rightarrow> campaign_key \<Rightarrow> string \<Rightarrow> int \<Rightarrow> (store_error, unit) result" where
  "verify_pending_state db c key expected_revision =
     and_then (ok_or (state_of db c) StateChanged) (\<lambda>st.
     if st_revision st \<noteq> expected_revision \<or> st_pending_idempotency_key st \<noteq> Some key
     then Error StateChanged else Ok ())"

definition audit_event_key :: "libraries \<Rightarrow> string \<Rightarrow> string \<Rightarrow> string \<Rightarrow> string" where
  "audit_event_key lib idempotency_key event_type detail =
     sha256_hex lib (''wb-automation-audit-v1'' @ [CHR 0x00] @ idempotency_key @ [CHR 0x00] @
                     event_type @ [CHR 0x00] @ detail)"

definition validate_audit_event :: "libraries \<Rightarrow> audit_row \<Rightarrow> (store_error, unit) result" where
  "validate_audit_event lib ev =
     and_then (validate_digest (au_event_key ev)) (\<lambda>_.
     and_then (validate_digest (au_cycle_id ev)) (\<lambda>_.
     and_then (validate_json lib (au_payload_json ev) (256 * 1024)) (\<lambda>_. Ok ())))"

definition insert_audit_event ::
  "libraries \<Rightarrow> audit_row \<Rightarrow> database \<Rightarrow> (store_error, database) result" where
  "insert_audit_event lib ev db =
     and_then (validate_audit_event lib ev) (\<lambda>_.
     and_then (map_err Unavailable (insert_audit lib ev db)) (\<lambda>(_, db). Ok db))"

definition insert_one_time_quota_override_audit_event ::
  "libraries \<Rightarrow> audit_row \<Rightarrow> database \<Rightarrow> (store_error, database) result" where
  "insert_one_time_quota_override_audit_event lib ev db =
     and_then (validate_audit_event lib ev) (\<lambda>_. execute_one (insert_audit lib ev db))"

definition transition_receipt ::
  "bool \<times> int \<Rightarrow> (store_error, state_transition_receipt) result" where
  "transition_receipt r =
     and_then (ok_or (to_u64 (snd r)) Unavailable) (\<lambda>revision.
     Ok \<lparr>tr_changed = fst r, tr_state_revision = revision\<rparr>)"


section \<open>Import, reads and observations\<close>

definition seed_row :: "legacy_state_seed \<Rightarrow> state_row" where
  "seed_row seed = \<lparr>
     st_policy_digest = sd_policy_digest seed,
     st_business_date = sd_business_date seed,
     st_actions_today = uint (sd_actions_today seed),
     st_last_action_at = sd_last_action_at seed,
     st_paused_for_daily_cap_on = sd_paused_for_daily_cap_on seed,
     st_pending_idempotency_key = None,
     st_incident_class = sd_incident_class seed,
     st_revision = 1,
     st_imported_legacy_digest = Some (sd_legacy_digest seed)\<rparr>"

definition validate_seed :: "legacy_state_seed \<Rightarrow> (store_error, unit) result" where
  "validate_seed seed =
     and_then (validate_digest (sd_policy_digest seed)) (\<lambda>_.
     and_then (validate_digest (sd_legacy_digest seed)) (\<lambda>_.
     if 500 < sd_actions_today seed \<or>
        (case sd_paused_for_daily_cap_on seed of
           None \<Rightarrow> False | Some paused_on \<Rightarrow> sd_business_date seed < paused_on) \<or>
        (case sd_incident_class seed of
           None \<Rightarrow> False | Some e \<Rightarrow> \<not> validate_error_class e)
     then Error InvalidInput else Ok ()))"

definition seed_matches :: "legacy_state_seed \<Rightarrow> database_state \<Rightarrow> bool" where
  "seed_matches seed ds \<longleftrightarrow>
     ds_policy_digest ds = sd_policy_digest seed \<and>
     ds_business_date ds = sd_business_date seed \<and>
     ds_actions_today ds = sd_actions_today seed \<and>
     ds_last_action_at ds = sd_last_action_at seed \<and>
     ds_paused_for_daily_cap_on ds = sd_paused_for_daily_cap_on seed \<and>
     ds_pending_idempotency_key ds = None \<and>
     ds_incident_class ds = sd_incident_class seed \<and>
     ds_revision ds = 1 \<and>
     ds_imported_legacy_digest ds = Some (sd_legacy_digest seed)"

definition initialize_from_legacy ::
  "link \<Rightarrow> campaign_key \<Rightarrow> legacy_state_seed \<Rightarrow> database \<Rightarrow> bool outcome" where
  "initialize_from_legacy link c seed =
     validated (validate_seed seed) (\<lambda>_. transaction link (\<lambda>db.
     and_then (map_err Unavailable (insert_state c (seed_row seed) db)) (\<lambda>(inserted, db).
     if inserted then Ok (True, db)
     else
       and_then (ok_or (state_of db c) Unavailable) (\<lambda>st.
       and_then (parse_state c st) (\<lambda>existing.
       if seed_matches seed existing then Ok (False, db) else Error StateChanged)))))"

definition load_state ::
  "campaign_key \<Rightarrow> database \<Rightarrow> (store_error, database_state option) result" where
  "load_state c db =
     (case state_of db c of
        None \<Rightarrow> Ok None
      | Some st \<Rightarrow> and_then (parse_state c st) (\<lambda>ds. Ok (Some ds)))"

definition load_pending_action ::
  "campaign_key \<Rightarrow> string \<Rightarrow> u64 \<Rightarrow> database \<Rightarrow> (store_error, durable_action) result" where
  "load_pending_action c key expected_state_revision db =
     and_then (validate_digest key) (\<lambda>_.
     and_then (to_i64 expected_state_revision) (\<lambda>expected_revision.
     and_then (verify_pending_state db c key expected_revision) (\<lambda>_.
     load_action_in_transaction db c key)))"

text \<open>
  The join of the applied actions with their cycles, ordered by \<open>resolved_at DESC,
  reserved_at DESC\<close>: a null \<open>resolved_at\<close> sorts first.
\<close>

definition applied_order :: "durable_action \<Rightarrow> (nat \<times> instant) \<times> instant" where
  "applied_order a =
     ((case a_resolved_at a of None \<Rightarrow> (1, 0) | Some t \<Rightarrow> (0, t)), a_reserved_at a)"

definition load_last_applied_snapshot_json ::
  "campaign_key \<Rightarrow> database \<Rightarrow> string option" where
  "load_last_applied_snapshot_json c db =
     map_option (\<lambda>(_, cy). cy_snapshot_json cy)
       (max_by_key (\<lambda>(a, _). applied_order a)
         (filter_map (\<lambda>r.
            if r_owner r = c \<and> a_status (r_action r) = Act_Applied
            then map_option (Pair (r_action r))
                   (find (\<lambda>cy. cy_cycle_id cy = a_cycle_id (r_action r) \<and> cy_owner cy = c)
                     (db_cycles db))
            else None) (db_actions db)))"

definition persist_shadow_cycle ::
  "libraries \<Rightarrow> link \<Rightarrow> campaign_key \<Rightarrow> string \<Rightarrow> string \<Rightarrow> instant \<Rightarrow> naive_date \<Rightarrow> u64 \<Rightarrow>
     string \<Rightarrow> string \<Rightarrow> database \<Rightarrow> bool outcome" where
  "persist_shadow_cycle lib link c cycle_id policy_digest observed_at business_date
     expected_state_revision snapshot_json decision_json =
     validated
       (and_then (validate_digest cycle_id) (\<lambda>_.
        and_then (validate_digest policy_digest) (\<lambda>_.
        and_then (validate_json lib snapshot_json MAX_JSON_BYTES) (\<lambda>_.
        and_then (validate_json lib decision_json (256 * 1024)) (\<lambda>_.
        to_i64 expected_state_revision)))))
       (\<lambda>state_revision. transaction link (\<lambda>db.
        and_then (ok_or (state_of db c) StateChanged) (\<lambda>st.
        if st_revision st \<noteq> state_revision \<or> st_policy_digest st \<noteq> policy_digest
        then Error StateChanged
        else
          and_then (map_insert_error (insert_cycle lib
              \<lparr>cy_cycle_id = cycle_id, cy_owner = c, cy_policy_digest = policy_digest,
               cy_observed_at = observed_at, cy_business_date = business_date,
               cy_state_revision = state_revision, cy_snapshot_json = snapshot_json,
               cy_decision_json = decision_json\<rparr> db)) (\<lambda>(was_inserted, db).
          if was_inserted then Ok (True, db)
          else
            and_then (ok_or (find (\<lambda>cy. cy_cycle_id cy = cycle_id) (db_cycles db))
                        StateChanged) (\<lambda>existing.
            and_then (ok_or (from_str lib (cy_snapshot_json existing)) Unavailable)
              (\<lambda>stored_snapshot.
            and_then (ok_or (from_str lib (cy_decision_json existing)) Unavailable)
              (\<lambda>stored_decision.
            and_then (ok_or (from_str lib snapshot_json) InvalidInput) (\<lambda>expected_snapshot.
            and_then (ok_or (from_str lib decision_json) InvalidInput) (\<lambda>expected_decision.
            if cy_owner existing = c \<and> cy_policy_digest existing = policy_digest \<and>
               cy_observed_at existing = observed_at \<and>
               cy_business_date existing = business_date \<and>
               cy_state_revision existing = state_revision \<and>
               stored_snapshot = expected_snapshot \<and> stored_decision = expected_decision
            then Ok (False, db) else Error StateChanged)))))))))"


section \<open>Reservation\<close>

definition reserved_row ::
  "instant \<Rightarrow> campaign_key \<Rightarrow> action_reservation \<Rightarrow> action_row" where
  "reserved_row now c r = \<lparr>r_owner = c, r_action = \<lparr>
     a_idempotency_key = rs_idempotency_key r,
     a_cycle_id = rs_cycle_id r,
     a_policy_digest = rs_policy_digest r,
     a_request_digest = rs_request_digest r,
     a_action_kind = rs_action_kind r,
     a_request_json = rs_request_json r,
     a_status = Act_Reserved,
     a_reserved_at = now,
     a_write_started_at = None,
     a_resolved_at = None,
     a_readback_cycle_id = None,
     a_last_error_class = None\<rparr>\<rparr>"

definition actions_before :: "action_reservation \<Rightarrow> state_row \<Rightarrow> int" where
  "actions_before r st =
     (if st_business_date st < rs_business_date r then 0 else st_actions_today st)"

text \<open>The test of the quota, with or without an override authorization.\<close>

definition quota_refuses :: "string option \<Rightarrow> int \<Rightarrow> int \<Rightarrow> bool" where
  "quota_refuses authorization before max_actions \<longleftrightarrow>
     (case authorization of
        None \<Rightarrow> max_actions \<le> before
      | Some _ \<Rightarrow> \<not> max_actions \<le> before \<or> 500 \<le> before)"

definition override_event ::
  "libraries \<Rightarrow> campaign_key \<Rightarrow> action_reservation \<Rightarrow> string \<Rightarrow> int \<Rightarrow> int \<Rightarrow> audit_row" where
  "override_event lib c r reference before max_actions = \<lparr>
     au_event_key = audit_event_key lib reference ''explicit_quota_override_authorized''
                      (fst c @ '':'' @ decimal (snd c)),
     au_cycle_id = rs_cycle_id r,
     au_owner = c,
     au_event_type = ''explicit_quota_override_authorized'',
     au_idempotency_key = Some (rs_idempotency_key r),
     au_payload_json = to_json_string lib (json_object
       [(''authorization_reference'', JString reference),
        (''actions_before'', JInt before),
        (''policy_max_actions_per_day'', JInt max_actions)])\<rparr>"

definition reserve_new ::
  "libraries \<Rightarrow> instant \<Rightarrow> campaign_key \<Rightarrow> action_reservation \<Rightarrow> string option \<Rightarrow> int \<Rightarrow> int \<Rightarrow>
     int \<Rightarrow> database \<Rightarrow> (store_error, (bool \<times> int \<times> durable_action) \<times> database) result" where
  "reserve_new lib now c r authorization expected_revision max_actions before db =
     and_then (map_insert_error (insert_action lib (reserved_row now c r) db))
       (\<lambda>(action, db).
     and_then (ok_or (succ_i64 expected_revision) InvalidInput) (\<lambda>new_revision.
     and_then (or_panic (succ_i32 before)) (\<lambda>actions_today.
     and_then (execute_one (update_state c (\<lambda>st. st_revision st = expected_revision)
         (\<lambda>st. st\<lparr>st_business_date := rs_business_date r,
                  st_actions_today := actions_today,
                  st_last_action_at := Some (a_reserved_at action),
                  st_pending_idempotency_key := Some (rs_idempotency_key r),
                  st_revision := new_revision\<rparr>) db)) (\<lambda>db.
     and_then (insert_audit_event lib \<lparr>
         au_event_key = audit_event_key lib (rs_idempotency_key r) ''reserved'' [],
         au_cycle_id = rs_cycle_id r, au_owner = c, au_event_type = ''action_reserved'',
         au_idempotency_key = Some (rs_idempotency_key r), au_payload_json = ''{}''\<rparr> db)
       (\<lambda>db.
     case authorization of
       None \<Rightarrow> Ok ((True, new_revision, action), db)
     | Some reference \<Rightarrow>
         and_then (insert_one_time_quota_override_audit_event lib
           (override_event lib c r reference before max_actions) db) (\<lambda>db.
         Ok ((True, new_revision, action), db)))))))"

definition reserve_in_transaction ::
  "libraries \<Rightarrow> instant \<Rightarrow> campaign_key \<Rightarrow> action_reservation \<Rightarrow> string option \<Rightarrow> int \<Rightarrow> int \<Rightarrow>
     database \<Rightarrow> (store_error, (bool \<times> int \<times> durable_action) \<times> database) result" where
  "reserve_in_transaction lib now c r authorization expected_revision max_actions db =
     and_then (ok_or (state_of db c) StateChanged) (\<lambda>st.
     if st_pending_idempotency_key st = Some (rs_idempotency_key r) then
       and_then (load_action_in_transaction db c (rs_idempotency_key r)) (\<lambda>existing.
       if action_matches_reservation lib existing r
       then Ok ((False, st_revision st, existing), db) else Error StateChanged)
     else if st_revision st \<noteq> expected_revision \<or>
             st_policy_digest st \<noteq> rs_policy_digest r \<or>
             st_pending_idempotency_key st \<noteq> None \<or> st_incident_class st \<noteq> None
     then Error StateChanged
     else if rs_business_date r < st_business_date st then Error StateChanged
     else if quota_refuses authorization (actions_before r st) max_actions
     then Error StateChanged
     else if \<not> list_ex (\<lambda>cy. cy_cycle_id cy = rs_cycle_id r \<and> cy_owner cy = c \<and>
                             cy_policy_digest cy = rs_policy_digest r \<and>
                             cy_business_date cy = rs_business_date r \<and>
                             cy_state_revision cy = expected_revision) (db_cycles db)
     then Error StateChanged
     else reserve_new lib now c r authorization expected_revision max_actions
            (actions_before r st) db)"

definition reserve_action_with_quota_override ::
  "libraries \<Rightarrow> link \<Rightarrow> instant \<Rightarrow> campaign_key \<Rightarrow> action_reservation \<Rightarrow> string option \<Rightarrow>
     database \<Rightarrow> reservation_receipt outcome" where
  "reserve_action_with_quota_override lib link now c r authorization =
     validated
       (and_then (validate_reservation lib r) (\<lambda>_.
        and_then (to_i64 (rs_expected_state_revision r)) (\<lambda>expected_revision.
        if uint (rs_max_actions_per_day r) < 2 ^ 31
        then Ok (expected_revision, uint (rs_max_actions_per_day r)) else Error InvalidInput)))
       (\<lambda>(expected_revision, max_actions) db.
        after_commit (\<lambda>(inserted, revision, action).
          and_then (ok_or (to_u64 revision) Unavailable) (\<lambda>state_revision.
          Ok \<lparr>rr_inserted = inserted, rr_state_revision = state_revision,
              rr_action = action\<rparr>))
          (transaction link
            (reserve_in_transaction lib now c r authorization expected_revision max_actions)
            db))"

definition reserve_action ::
  "libraries \<Rightarrow> link \<Rightarrow> instant \<Rightarrow> campaign_key \<Rightarrow> action_reservation \<Rightarrow> database \<Rightarrow>
     reservation_receipt outcome" where
  "reserve_action lib link now c r =
     reserve_action_with_quota_override lib link now c r None"

definition reserve_explicit_quota_override_action ::
  "libraries \<Rightarrow> link \<Rightarrow> instant \<Rightarrow> campaign_key \<Rightarrow> action_reservation \<Rightarrow> string \<Rightarrow> database \<Rightarrow>
     reservation_receipt outcome" where
  "reserve_explicit_quota_override_action lib link now c r reference =
     validated (validate_authorization_reference reference) (\<lambda>_.
     reserve_action_with_quota_override lib link now c r (Some reference))"


section \<open>Transitions of a reserved action\<close>

definition transition_in_transaction ::
  "libraries \<Rightarrow> instant \<Rightarrow> campaign_key \<Rightarrow> string \<Rightarrow> int \<Rightarrow> durable_action_status \<Rightarrow>
     durable_action_status \<Rightarrow> string \<Rightarrow> database \<Rightarrow> (store_error, bool \<times> database) result" where
  "transition_in_transaction lib now c key expected_revision from to suffix db =
     and_then (verify_pending_state db c key expected_revision) (\<lambda>_.
     and_then (load_action_in_transaction db c key) (\<lambda>action.
     if a_status action = to then Ok (False, db)
     else if a_status action \<noteq> from then Error StateChanged
     else
       and_then (execute_one (update_action lib now c key from (\<lambda>a. a\<lparr>a_status := to\<rparr>) db)) (\<lambda>db.
       and_then (insert_audit_event lib \<lparr>
           au_event_key = audit_event_key lib key suffix [],
           au_cycle_id = a_cycle_id action, au_owner = c, au_event_type = suffix,
           au_idempotency_key = Some key, au_payload_json = ''{}''\<rparr> db) (\<lambda>db.
       Ok (True, db)))))"

definition transition_without_state_change ::
  "libraries \<Rightarrow> link \<Rightarrow> instant \<Rightarrow> campaign_key \<Rightarrow> string \<Rightarrow> u64 \<Rightarrow> durable_action_status \<Rightarrow>
     durable_action_status \<Rightarrow> string \<Rightarrow> database \<Rightarrow> bool outcome" where
  "transition_without_state_change lib link now c key expected_state_revision from to suffix =
     validated (and_then (validate_digest key) (\<lambda>_. to_i64 expected_state_revision))
       (\<lambda>expected_revision. transaction link
          (transition_in_transaction lib now c key expected_revision from to suffix))"

definition mark_write_started ::
  "libraries \<Rightarrow> link \<Rightarrow> instant \<Rightarrow> campaign_key \<Rightarrow> string \<Rightarrow> u64 \<Rightarrow> database \<Rightarrow> bool outcome" where
  "mark_write_started lib link now c key expected_state_revision =
     transition_without_state_change lib link now c key expected_state_revision
       Act_Reserved Act_WriteStarted ''write_started''"

definition mark_awaiting_readback ::
  "libraries \<Rightarrow> link \<Rightarrow> instant \<Rightarrow> campaign_key \<Rightarrow> string \<Rightarrow> u64 \<Rightarrow> database \<Rightarrow> bool outcome" where
  "mark_awaiting_readback lib link now c key expected_state_revision =
     transition_without_state_change lib link now c key expected_state_revision
       Act_WriteStarted Act_AwaitingReadback ''awaiting_readback''"

definition resolution_source :: "resolution_kind \<Rightarrow> durable_action_status \<Rightarrow> bool" where
  "resolution_source k status \<longleftrightarrow>
     (case k of
        Resolve_Cancelled \<Rightarrow> status = Act_Reserved
      | Resolve_NotSent \<Rightarrow> status = Act_Reserved \<or> status = Act_WriteStarted
      | Resolve_ReconciliationRequired \<Rightarrow>
          status = Act_WriteStarted \<or> status = Act_AwaitingReadback)"

definition resolution_replay_matches ::
  "resolution_kind \<Rightarrow> string \<Rightarrow> string \<Rightarrow> durable_action \<Rightarrow> state_row \<Rightarrow> int \<Rightarrow> bool" where
  "resolution_replay_matches k key error_class action st replay_revision \<longleftrightarrow>
     a_last_error_class action = Some error_class \<and> st_revision st = replay_revision \<and>
     (if k = Resolve_ReconciliationRequired
      then st_pending_idempotency_key st = Some key \<and> st_incident_class st = Some error_class
      else st_pending_idempotency_key st = None)"

definition resolve_state_change :: "resolution_kind \<Rightarrow> string \<Rightarrow> int \<Rightarrow> state_row \<Rightarrow> state_row" where
  "resolve_state_change k error_class new_revision st =
     (if k = Resolve_ReconciliationRequired
      then st\<lparr>st_incident_class := Some error_class, st_revision := new_revision\<rparr>
      else st\<lparr>st_pending_idempotency_key := None, st_revision := new_revision\<rparr>)"

definition resolve_in_transaction ::
  "libraries \<Rightarrow> instant \<Rightarrow> campaign_key \<Rightarrow> string \<Rightarrow> int \<Rightarrow> string \<Rightarrow> resolution_kind \<Rightarrow>
     database \<Rightarrow> (store_error, (bool \<times> int) \<times> database) result" where
  "resolve_in_transaction lib now c key expected_revision error_class k db =
     and_then (load_locked_state_summary db c) (\<lambda>st.
     and_then (load_action_in_transaction db c key) (\<lambda>action.
     if a_status action = resolution_status k then
       and_then (ok_or (succ_i64 expected_revision) InvalidInput) (\<lambda>replay_revision.
       if \<not> resolution_replay_matches k key error_class action st replay_revision
       then Error StateChanged
       else Ok ((False, replay_revision), db))
     else if st_revision st \<noteq> expected_revision \<or> st_pending_idempotency_key st \<noteq> Some key
     then Error StateChanged
     else if \<not> resolution_source k (a_status action) then Error StateChanged
     else
       and_then (execute_one (update_action lib now c key (a_status action)
           (\<lambda>a. a\<lparr>a_status := resolution_status k,
                  a_last_error_class := Some error_class\<rparr>) db)) (\<lambda>db.
       and_then (ok_or (succ_i64 expected_revision) InvalidInput) (\<lambda>new_revision.
       and_then (execute_one (update_state c (\<lambda>st. st_revision st = expected_revision)
           (resolve_state_change k error_class new_revision) db)) (\<lambda>db.
       and_then (insert_audit_event lib \<lparr>
           au_event_key = audit_event_key lib key (resolution_event_type k) error_class,
           au_cycle_id = a_cycle_id action, au_owner = c,
           au_event_type = resolution_event_type k, au_idempotency_key = Some key,
           au_payload_json =
             to_json_string lib (json_object [(''error_class'', JString error_class)])\<rparr> db)
         (\<lambda>db.
       Ok ((True, new_revision), db)))))))"

definition resolve_without_write ::
  "libraries \<Rightarrow> link \<Rightarrow> instant \<Rightarrow> campaign_key \<Rightarrow> string \<Rightarrow> u64 \<Rightarrow> string \<Rightarrow> resolution_kind \<Rightarrow>
     database \<Rightarrow> state_transition_receipt outcome" where
  "resolve_without_write lib link now c key expected_state_revision error_class k =
     validated
       (and_then (validate_digest key) (\<lambda>_.
        if \<not> validate_error_class error_class then Error InvalidInput
        else to_i64 expected_state_revision))
       (\<lambda>expected_revision db. after_commit transition_receipt (transaction link
          (resolve_in_transaction lib now c key expected_revision error_class k) db))"

definition cancel_reserved ::
  "libraries \<Rightarrow> link \<Rightarrow> instant \<Rightarrow> campaign_key \<Rightarrow> string \<Rightarrow> u64 \<Rightarrow> string \<Rightarrow> database \<Rightarrow>
     state_transition_receipt outcome" where
  "cancel_reserved lib link now c key expected_state_revision error_class =
     resolve_without_write lib link now c key expected_state_revision error_class
       Resolve_Cancelled"

definition cancel_not_sent ::
  "libraries \<Rightarrow> link \<Rightarrow> instant \<Rightarrow> campaign_key \<Rightarrow> string \<Rightarrow> u64 \<Rightarrow> database \<Rightarrow>
     state_transition_receipt outcome" where
  "cancel_not_sent lib link now c key expected_state_revision =
     resolve_without_write lib link now c key expected_state_revision ''write_not_sent''
       Resolve_NotSent"

definition mark_reconciliation_required ::
  "libraries \<Rightarrow> link \<Rightarrow> instant \<Rightarrow> campaign_key \<Rightarrow> string \<Rightarrow> u64 \<Rightarrow> string \<Rightarrow> database \<Rightarrow>
     state_transition_receipt outcome" where
  "mark_reconciliation_required lib link now c key expected_state_revision error_class =
     resolve_without_write lib link now c key expected_state_revision error_class
       Resolve_ReconciliationRequired"

definition incident_in_transaction ::
  "libraries \<Rightarrow> campaign_key \<Rightarrow> string \<Rightarrow> int \<Rightarrow> naive_date \<Rightarrow> string \<Rightarrow> database \<Rightarrow>
     (store_error, (bool \<times> int) \<times> database) result" where
  "incident_in_transaction lib c cycle_id expected_revision business_date incident_class db =
     and_then (load_locked_state_summary db c) (\<lambda>st.
     if st_revision st \<noteq> expected_revision \<or> st_pending_idempotency_key st \<noteq> None \<or>
        st_incident_class st \<noteq> None \<or> business_date < st_business_date st
     then Error StateChanged
     else if \<not> list_ex (\<lambda>cy. cy_cycle_id cy = cycle_id \<and> cy_owner cy = c \<and>
                             cy_business_date cy = business_date \<and>
                             cy_state_revision cy = expected_revision) (db_cycles db)
     then Error StateChanged
     else
       and_then (ok_or (succ_i64 expected_revision) InvalidInput) (\<lambda>new_revision.
       and_then (execute_one (update_state c (\<lambda>st. st_revision st = expected_revision)
           (\<lambda>st. st\<lparr>st_business_date := business_date,
                    st_actions_today := (if st_business_date st < business_date then 0
                                         else st_actions_today st),
                    st_incident_class := Some incident_class,
                    st_revision := new_revision\<rparr>) db)) (\<lambda>db.
       and_then (insert_audit_event lib \<lparr>
           au_event_key = audit_event_key lib cycle_id ''incident_locked'' incident_class,
           au_cycle_id = cycle_id, au_owner = c, au_event_type = ''incident_locked'',
           au_idempotency_key = None,
           au_payload_json =
             to_json_string lib (json_object [(''incident_class'', JString incident_class)])\<rparr>
           db) (\<lambda>db.
       Ok ((True, new_revision), db)))))"

definition mark_incident_without_action ::
  "libraries \<Rightarrow> link \<Rightarrow> campaign_key \<Rightarrow> string \<Rightarrow> u64 \<Rightarrow> naive_date \<Rightarrow> string \<Rightarrow> database \<Rightarrow>
     state_transition_receipt outcome" where
  "mark_incident_without_action lib link c cycle_id expected_state_revision business_date
     incident_class =
     validated
       (and_then (validate_digest cycle_id) (\<lambda>_.
        if \<not> validate_error_class incident_class then Error InvalidInput
        else to_i64 expected_state_revision))
       (\<lambda>expected_revision db. after_commit transition_receipt (transaction link
          (incident_in_transaction lib c cycle_id expected_revision business_date incident_class)
          db))"

definition pause_shape_matches ::
  "durable_action_kind \<Rightarrow> naive_date option \<Rightarrow> state_row \<Rightarrow> bool" where
  "pause_shape_matches kind paused_on st \<longleftrightarrow>
     (if kind = Kind_PauseCampaignForDailyCap
      then (case paused_on of None \<Rightarrow> False | Some d \<Rightarrow> d \<le> st_business_date st)
      else paused_on = None)"

definition applied_state_change ::
  "durable_action_kind \<Rightarrow> naive_date option \<Rightarrow> int \<Rightarrow> state_row \<Rightarrow> state_row" where
  "applied_state_change kind paused_on new_revision st =
     (case kind of
        Kind_ChangeBids \<Rightarrow>
          st\<lparr>st_pending_idempotency_key := None, st_revision := new_revision\<rparr>
      | Kind_PauseCampaignForDailyCap \<Rightarrow>
          st\<lparr>st_pending_idempotency_key := None, st_paused_for_daily_cap_on := paused_on,
             st_revision := new_revision\<rparr>
      | Kind_ResumeCampaignAfterDailyCap \<Rightarrow>
          st\<lparr>st_pending_idempotency_key := None, st_paused_for_daily_cap_on := None,
             st_revision := new_revision\<rparr>)"

definition applied_in_transaction ::
  "libraries \<Rightarrow> instant \<Rightarrow> campaign_key \<Rightarrow> string \<Rightarrow> int \<Rightarrow> string \<Rightarrow> naive_date option \<Rightarrow>
     database \<Rightarrow> (store_error, (bool \<times> int) \<times> database) result" where
  "applied_in_transaction lib now c key expected_revision readback_cycle_id paused_on db =
     and_then (load_locked_state_summary db c) (\<lambda>st.
     and_then (load_action_in_transaction db c key) (\<lambda>action.
     if \<not> pause_shape_matches (a_action_kind action) paused_on st then Error InvalidInput
     else if a_status action = Act_Applied then
       and_then (ok_or (succ_i64 expected_revision) InvalidInput) (\<lambda>replay_revision.
       if a_readback_cycle_id action \<noteq> Some readback_cycle_id \<or>
          st_revision st \<noteq> replay_revision \<or> st_pending_idempotency_key st \<noteq> None \<or>
          \<not> applied_replay_pause_state_matches (a_action_kind action) paused_on
              (st_paused_for_daily_cap_on st)
       then Error StateChanged
       else Ok ((False, replay_revision), db))
     else if st_revision st \<noteq> expected_revision \<or>
             st_pending_idempotency_key st \<noteq> Some key \<or>
             \<not> (a_status action = Act_WriteStarted \<or> a_status action = Act_AwaitingReadback \<or>
                a_status action = Act_ReconciliationRequired)
     then Error StateChanged
     else if \<not> list_ex (\<lambda>cy. cy_cycle_id cy = readback_cycle_id \<and> cy_owner cy = c \<and>
                             cy_policy_digest cy = a_policy_digest action \<and>
                             cy_cycle_id cy \<noteq> a_cycle_id action \<and>
                             cy_state_revision cy = expected_revision) (db_cycles db)
     then Error StateChanged
     else
       and_then (execute_one (update_action lib now c key (a_status action)
           (\<lambda>a. a\<lparr>a_status := Act_Applied, a_readback_cycle_id := Some readback_cycle_id,
                  a_last_error_class := None\<rparr>) db)) (\<lambda>db.
       and_then (ok_or (succ_i64 expected_revision) InvalidInput) (\<lambda>new_revision.
       and_then (execute_one (update_state c (\<lambda>st. st_revision st = expected_revision)
           (applied_state_change (a_action_kind action) paused_on new_revision) db)) (\<lambda>db.
       and_then (insert_audit_event lib \<lparr>
           au_event_key = audit_event_key lib key ''applied'' readback_cycle_id,
           au_cycle_id = readback_cycle_id, au_owner = c,
           au_event_type = ''action_applied'', au_idempotency_key = Some key,
           au_payload_json = to_json_string lib
             (json_object [(''readback_cycle_id'', JString readback_cycle_id)])\<rparr> db) (\<lambda>db.
       Ok ((True, new_revision), db)))))))"

definition mark_applied ::
  "libraries \<Rightarrow> link \<Rightarrow> instant \<Rightarrow> campaign_key \<Rightarrow> string \<Rightarrow> u64 \<Rightarrow> string \<Rightarrow> naive_date option \<Rightarrow>
     database \<Rightarrow> state_transition_receipt outcome" where
  "mark_applied lib link now c key expected_state_revision readback_cycle_id paused_on =
     validated
       (and_then (validate_digest key) (\<lambda>_.
        and_then (validate_digest readback_cycle_id) (\<lambda>_. to_i64 expected_state_revision)))
       (\<lambda>expected_revision db. after_commit transition_receipt (transaction link
          (applied_in_transaction lib now c key expected_revision readback_cycle_id paused_on)
          db))"

end
