(* ===== verification/Wb_Store_Policy.thy ===== *)
theory Wb_Store_Policy
  imports Wb_Store Wb_Policy
begin

text \<open>
  The audited policy transitions of the durable store:
  \<open>src/src/control/automation_postgres/policy_transition.rs\<close>, the \<open>activate_*\<close> operations of
  \<open>automation_postgres.rs\<close> and \<open>v4_corridor.rs\<close>, and the two renewals of \<open>corridor.rs\<close> and
  \<open>recommendations.rs\<close>. A transition replaces the policy digest of a campaign that has no
  pending write and no incident, and appends one audit event. The digest of a policy (its
  serialisation by \<open>serde_json\<close>, then SHA-256) is a parameter of the renewals.
\<close>

datatype policy_transition =
    RecommendationsAuthorized "u64 option" u64
  | ProtectiveLive
  | BidWrites
  | BoundedPacingActivated u64 u64 u64
  | TrafficFrontierV2Activated u64 u64 u64 u32 u32 u32
  | TrafficFrontierV3Activated u64 u64 u32 u32 u32 u64 u64
  | TrafficFrontierV4Activated u32 u32 u64 u8 u64 u64 u32 u32 u32 u64 u64
  | TrafficFrontierLimitsRaised u64 u64 u64 u64 u64 u64
  | TrafficFrontierCorridorTightened u64 u64 u64 u64
  | AuthorizedCorridorAdjusted u64 u64 u64 u64
  | TrafficFrontierV4CorridorAdjusted u64 u64 u64 u64

fun transition_event_type :: "policy_transition \<Rightarrow> string" where
  "transition_event_type (RecommendationsAuthorized _ _) = ''recommendations_authorized''"
| "transition_event_type ProtectiveLive = ''protective_live_activated''"
| "transition_event_type (AuthorizedCorridorAdjusted _ _ _ _) = ''authorized_corridor_adjusted''"
| "transition_event_type BidWrites = ''bid_writes_activated''"
| "transition_event_type (BoundedPacingActivated _ _ _) = ''bounded_pacing_activated''"
| "transition_event_type (TrafficFrontierV2Activated _ _ _ _ _ _) =
     ''traffic_frontier_v2_activated''"
| "transition_event_type (TrafficFrontierV3Activated _ _ _ _ _ _ _) =
     ''traffic_frontier_v3_activated''"
| "transition_event_type (TrafficFrontierV4Activated _ _ _ _ _ _ _ _ _ _ _) =
     ''traffic_frontier_v4_activated''"
| "transition_event_type (TrafficFrontierLimitsRaised _ _ _ _ _ _) =
     ''traffic_frontier_limits_raised''"
| "transition_event_type (TrafficFrontierCorridorTightened _ _ _ _) =
     ''traffic_frontier_corridor_tightened''"
| "transition_event_type (TrafficFrontierV4CorridorAdjusted _ _ _ _) =
     ''traffic_frontier_v4_corridor_adjusted''"

definition transition_mode :: "policy_transition \<Rightarrow> string" where
  "transition_mode t = (if t = ProtectiveLive then ''protective_live'' else ''bid_live'')"

definition transition_bid_writes_enabled :: "policy_transition \<Rightarrow> bool" where
  "transition_bid_writes_enabled t \<longleftrightarrow> t \<noteq> ProtectiveLive"

fun max_bid_change :: "policy_transition \<Rightarrow> (u64 \<times> u64) option" where
  "max_bid_change (AuthorizedCorridorAdjusted _ _ from to) = Some (from, to)"
| "max_bid_change (BoundedPacingActivated from to _) = Some (from, to)"
| "max_bid_change (TrafficFrontierV2Activated from to _ _ _ _) = Some (from, to)"
| "max_bid_change (TrafficFrontierCorridorTightened _ _ from to) = Some (from, to)"
| "max_bid_change (TrafficFrontierV4CorridorAdjusted _ _ from to) = Some (from, to)"
| "max_bid_change _ = None"

fun transition_target_impressions :: "policy_transition \<Rightarrow> u64 option" where
  "transition_target_impressions (BoundedPacingActivated _ _ target) = Some target"
| "transition_target_impressions (TrafficFrontierV3Activated target _ _ _ _ _ _) = Some target"
| "transition_target_impressions (TrafficFrontierV4Activated _ _ _ _ target _ _ _ _ _ _) =
     Some target"
| "transition_target_impressions _ = None"


section \<open>The audit payload\<close>

definition json_num :: "'a::len word \<Rightarrow> json" where
  "json_num v = JInt (uint v)"

definition json_set_all :: "(string \<times> json) list \<Rightarrow> json \<Rightarrow> json" where
  "json_set_all entries j = fold (\<lambda>(k, v). json_set k v) entries j"

definition base_payload :: "string \<Rightarrow> string \<Rightarrow> policy_transition \<Rightarrow> int \<Rightarrow> json" where
  "base_payload source target t next_revision = json_object
     [(''from_policy_sha256'', JString source),
      (''to_policy_sha256'', JString target),
      (''mode'', JString (transition_mode t)),
      (''bid_writes_enabled'', JBool (transition_bid_writes_enabled t)),
      (''state_revision'', JInt next_revision)]"

definition shared_entries :: "policy_transition \<Rightarrow> (string \<times> json) list" where
  "shared_entries t =
     (case max_bid_change t of
        None \<Rightarrow> []
      | Some (from, to) \<Rightarrow>
          [(''from_max_bid_kopecks'', json_num from), (''to_max_bid_kopecks'', json_num to)]) @
     (case transition_target_impressions t of
        None \<Rightarrow> []
      | Some target \<Rightarrow>
          [(''target_impressions_per_day'', json_num target),
           (''autonomous_pacing_enabled'', JBool True)])"

fun recommendation_entries :: "policy_transition \<Rightarrow> (string \<times> json) list" where
  "recommendation_entries (RecommendationsAuthorized from to) =
     [(''from_expected_recommendation_bid_kopecks'',
       case from of None \<Rightarrow> JNull | Some v \<Rightarrow> json_num v),
      (''to_expected_recommendation_bid_kopecks'', json_num to),
      (''managed_bid_placement'', JString ''search''),
      (''recommendation_bid_writes_enabled'', JBool False)]"
| "recommendation_entries _ = []"

fun specific_entries :: "policy_transition \<Rightarrow> (string \<times> json) list" where
  "specific_entries (TrafficFrontierV2Activated _ _ frontier actions cooldown timeout) =
     [(''autonomous_pacing'', JString ''traffic_frontier_v2''),
      (''traffic_frontier_bid_kopecks'', json_num frontier),
      (''max_actions_per_day'', json_num actions),
      (''cooldown_seconds'', json_num cooldown),
      (''feedback_timeout_seconds'', json_num timeout)]"
| "specific_entries (TrafficFrontierV3Activated impressions orders actions cooldown timeout
                       min_impressions min_clicks) =
     [(''autonomous_pacing'', JString ''traffic_frontier_v3''),
      (''target_impressions_per_day'', json_num impressions),
      (''target_orders_per_day'', json_num orders),
      (''max_actions_per_day'', json_num actions),
      (''cooldown_seconds'', json_num cooldown),
      (''feedback_timeout_seconds'', json_num timeout),
      (''min_feedback_impressions'', json_num min_impressions),
      (''min_feedback_clicks'', json_num min_clicks)]"
| "specific_entries (TrafficFrontierV4Activated target_drr hard_drr frontier bid_step impressions
                       orders actions cooldown timeout min_impressions min_clicks) =
     [(''autonomous_pacing'', JString ''traffic_frontier_v4''),
      (''target_drr_basis_points'', json_num target_drr),
      (''hard_drr_basis_points'', json_num hard_drr),
      (''traffic_frontier_bid_kopecks'', json_num frontier),
      (''bid_step_percent'', json_num bid_step),
      (''target_impressions_per_day'', json_num impressions),
      (''target_orders_per_day'', json_num orders),
      (''max_actions_per_day'', json_num actions),
      (''cooldown_seconds'', json_num cooldown),
      (''feedback_timeout_seconds'', json_num timeout),
      (''min_feedback_impressions'', json_num min_impressions),
      (''min_feedback_clicks'', json_num min_clicks),
      (''zero_cost_probe_enabled'', JBool True)]"
| "specific_entries (TrafficFrontierLimitsRaised from_frontier to_frontier from_pause to_pause
                       from_cap to_cap) =
     [(''autonomous_pacing'', JString ''traffic_frontier_v2''),
      (''from_traffic_frontier_bid_kopecks'', json_num from_frontier),
      (''to_traffic_frontier_bid_kopecks'', json_num to_frontier),
      (''from_daily_pause_threshold_minor'', json_num from_pause),
      (''to_daily_pause_threshold_minor'', json_num to_pause),
      (''from_daily_spend_cap_minor'', json_num from_cap),
      (''to_daily_spend_cap_minor'', json_num to_cap)]"
| "specific_entries (TrafficFrontierCorridorTightened from_frontier to_frontier _ _) =
     [(''autonomous_pacing'', JString ''traffic_frontier_v2''),
      (''from_traffic_frontier_bid_kopecks'', json_num from_frontier),
      (''to_traffic_frontier_bid_kopecks'', json_num to_frontier)]"
| "specific_entries (TrafficFrontierV4CorridorAdjusted from_min to_min _ _) =
     [(''autonomous_pacing'', JString ''traffic_frontier_v4''),
      (''from_min_bid_kopecks'', json_num from_min),
      (''to_min_bid_kopecks'', json_num to_min)]"
| "specific_entries (AuthorizedCorridorAdjusted from_min to_min _ _) =
     [(''from_min_bid_kopecks'', json_num from_min),
      (''to_min_bid_kopecks'', json_num to_min)]"
| "specific_entries _ = []"

definition authorization_entries ::
  "libraries \<Rightarrow> wb_policy option \<Rightarrow> (string \<times> json) list" where
  "authorization_entries lib authorization =
     (case authorization of
        None \<Rightarrow> []
      | Some p \<Rightarrow>
          [(''authorization_reference'', JString (p_authorization_reference p)),
           (''authorized_by_actor_id'', JString (p_authorized_by_actor_id p)),
           (''authorized_at'', JString (rfc3339 lib (p_authorized_at p))),
           (''authorization_expires_at'',
            JString (rfc3339 lib (p_authorization_expires_at p)))])"

definition transition_payload ::
  "libraries \<Rightarrow> string \<Rightarrow> string \<Rightarrow> policy_transition \<Rightarrow> wb_policy option \<Rightarrow> int \<Rightarrow> json" where
  "transition_payload lib source target t authorization next_revision =
     json_set_all
       (recommendation_entries t @ shared_entries t @ specific_entries t @
        authorization_entries lib authorization)
       (base_payload source target t next_revision)"


section \<open>The transition\<close>

definition ensure_protective_live_guard :: "bool \<Rightarrow> (store_error, unit) result" where
  "ensure_protective_live_guard allowed = (if allowed then Ok () else Error StateChanged)"

definition latest_cycle :: "database \<Rightarrow> campaign_key \<Rightarrow> string \<Rightarrow> cycle_row option" where
  "latest_cycle db c digest =
     max_by_key cy_observed_at
       (filter (\<lambda>cy. cy_owner cy = c \<and> cy_policy_digest cy = digest) (db_cycles db))"

definition policy_in_transaction ::
  "libraries \<Rightarrow> campaign_key \<Rightarrow> string \<Rightarrow> string \<Rightarrow> policy_transition \<Rightarrow> wb_policy option \<Rightarrow>
     database \<Rightarrow> (store_error, (bool \<times> int) \<times> database) result" where
  "policy_in_transaction lib c source target t authorization db =
     and_then (ok_or (state_of db c) StateChanged) (\<lambda>st.
     and_then (ensure_protective_live_guard
                 (st_pending_idempotency_key st = None \<and> st_incident_class st = None \<and>
                  0 < st_revision st)) (\<lambda>_.
     if st_policy_digest st = target then
       and_then (ok_or (to_u64 (st_revision st)) StateChanged) (\<lambda>_.
       Ok ((False, st_revision st), db))
     else if st_policy_digest st \<noteq> source then Error StateChanged
     else
       and_then (ensure_protective_live_guard
                   (\<not> list_ex (\<lambda>r. r_owner r = c \<and> unresolved_status (a_status (r_action r)))
                      (db_actions db))) (\<lambda>_.
       and_then (ok_or (latest_cycle db c source) StateChanged) (\<lambda>cy.
       and_then (ok_or (succ_i64 (st_revision st)) StateChanged) (\<lambda>next_revision.
       and_then (execute_one (update_state c
           (\<lambda>s. st_policy_digest s = source \<and> st_revision s = st_revision st \<and>
                st_pending_idempotency_key s = None \<and> st_incident_class s = None)
           (\<lambda>s. s\<lparr>st_policy_digest := target, st_revision := next_revision\<rparr>) db)) (\<lambda>db.
       and_then (insert_audit_event lib \<lparr>
           au_event_key = audit_event_key lib source (transition_event_type t) target,
           au_cycle_id = cy_cycle_id cy, au_owner = c,
           au_event_type = transition_event_type t, au_idempotency_key = None,
           au_payload_json = to_json_string lib
             (transition_payload lib source target t authorization next_revision)\<rparr> db)
         (\<lambda>db.
       Ok ((True, next_revision), db))))))))"

definition activate_policy_transition_with_authorization ::
  "libraries \<Rightarrow> link \<Rightarrow> campaign_key \<Rightarrow> string \<Rightarrow> string \<Rightarrow> policy_transition \<Rightarrow>
     wb_policy option \<Rightarrow> database \<Rightarrow> state_transition_receipt outcome" where
  "activate_policy_transition_with_authorization lib link c source target t authorization =
     validated
       (and_then (validate_digest source) (\<lambda>_.
        and_then (validate_digest target) (\<lambda>_.
        if source = target then Error InvalidInput else Ok ())))
       (\<lambda>_ db. after_commit (\<lambda>(changed, revision).
          and_then (ok_or (to_u64 revision) StateChanged) (\<lambda>state_revision.
          Ok \<lparr>tr_changed = changed, tr_state_revision = state_revision\<rparr>))
        (transaction link (policy_in_transaction lib c source target t authorization) db))"

definition activate_policy_transition ::
  "libraries \<Rightarrow> link \<Rightarrow> campaign_key \<Rightarrow> string \<Rightarrow> string \<Rightarrow> policy_transition \<Rightarrow> database \<Rightarrow>
     state_transition_receipt outcome" where
  "activate_policy_transition lib link c source target t =
     activate_policy_transition_with_authorization lib link c source target t None"


section \<open>The reviewed activations\<close>

definition in_range :: "'a::len word \<Rightarrow> 'a word \<Rightarrow> 'a word \<Rightarrow> bool" where
  "in_range lo hi v \<longleftrightarrow> lo \<le> v \<and> v \<le> hi"

definition require :: "bool \<Rightarrow> (store_error, unit) result" where
  "require c = (if c then Ok () else Error InvalidInput)"

definition activate_protective_live_policy ::
  "libraries \<Rightarrow> link \<Rightarrow> campaign_key \<Rightarrow> string \<Rightarrow> string \<Rightarrow> database \<Rightarrow>
     state_transition_receipt outcome" where
  "activate_protective_live_policy lib link c shadow live =
     activate_policy_transition lib link c shadow live ProtectiveLive"

definition activate_bid_writes_policy ::
  "libraries \<Rightarrow> link \<Rightarrow> campaign_key \<Rightarrow> string \<Rightarrow> string \<Rightarrow> database \<Rightarrow>
     state_transition_receipt outcome" where
  "activate_bid_writes_policy lib link c protective bid =
     activate_policy_transition lib link c protective bid BidWrites"

definition activate_bounded_pacing_policy ::
  "libraries \<Rightarrow> link \<Rightarrow> campaign_key \<Rightarrow> string \<Rightarrow> string \<Rightarrow> u64 \<Rightarrow> u64 \<Rightarrow> u64 \<Rightarrow> database \<Rightarrow>
     state_transition_receipt outcome" where
  "activate_bounded_pacing_policy lib link c source target from_max to_max impressions =
     validated (require (\<not> (to_max = 0 \<or> from_max \<le> to_max \<or> impressions = 0))) (\<lambda>_.
     activate_policy_transition lib link c source target
       (BoundedPacingActivated from_max to_max impressions))"

definition activate_traffic_frontier_v2_policy ::
  "libraries \<Rightarrow> link \<Rightarrow> campaign_key \<Rightarrow> string \<Rightarrow> string \<Rightarrow> u64 \<Rightarrow> u64 \<Rightarrow> u64 \<Rightarrow> u32 \<Rightarrow> u32 \<Rightarrow> u32 \<Rightarrow>
     database \<Rightarrow> state_transition_receipt outcome" where
  "activate_traffic_frontier_v2_policy lib link c source target from_max to_max frontier actions
     cooldown timeout =
     validated (require (\<not> (from_max = 0 \<or> to_max \<le> from_max \<or> \<not> in_range 1 50 actions \<or>
       cooldown < 300 \<or> timeout < cooldown \<or> frontier = 0 \<or> to_max < frontier))) (\<lambda>_.
     activate_policy_transition lib link c source target
       (TrafficFrontierV2Activated from_max to_max frontier actions cooldown timeout))"

definition activate_traffic_frontier_v3_policy ::
  "libraries \<Rightarrow> link \<Rightarrow> campaign_key \<Rightarrow> string \<Rightarrow> string \<Rightarrow> u64 \<Rightarrow> u64 \<Rightarrow> u32 \<Rightarrow> u32 \<Rightarrow> u32 \<Rightarrow> u64 \<Rightarrow>
     u64 \<Rightarrow> database \<Rightarrow> state_transition_receipt outcome" where
  "activate_traffic_frontier_v3_policy lib link c source target impressions orders actions
     cooldown timeout min_impressions min_clicks =
     validated (require (\<not> (\<not> in_range 1300 1600 impressions \<or> \<not> in_range 3 4 orders \<or>
       \<not> in_range 9 12 actions \<or> \<not> in_range 1800 3600 cooldown \<or> timeout < cooldown \<or>
       \<not> in_range 100 10000 min_impressions \<or> \<not> in_range 5 100 min_clicks \<or>
       min_impressions < min_clicks))) (\<lambda>_.
     activate_policy_transition lib link c source target
       (TrafficFrontierV3Activated impressions orders actions cooldown timeout min_impressions
         min_clicks))"

definition activate_traffic_frontier_v4_policy ::
  "libraries \<Rightarrow> link \<Rightarrow> campaign_key \<Rightarrow> string \<Rightarrow> string \<Rightarrow> u32 \<Rightarrow> u32 \<Rightarrow> u64 \<Rightarrow> u8 \<Rightarrow> u64 \<Rightarrow> u64 \<Rightarrow>
     u32 \<Rightarrow> u32 \<Rightarrow> u32 \<Rightarrow> u64 \<Rightarrow> u64 \<Rightarrow> database \<Rightarrow> state_transition_receipt outcome" where
  "activate_traffic_frontier_v4_policy lib link c source target target_drr hard_drr frontier
     bid_step impressions orders actions cooldown timeout min_impressions min_clicks =
     validated (require (\<not> (target_drr \<noteq> 1500 \<or> hard_drr \<noteq> target_drr \<or>
       \<not> in_range 500 1050 frontier \<or> \<not> in_range 5 10 bid_step \<or>
       \<not> in_range 1300 1600 impressions \<or> \<not> in_range 3 4 orders \<or> \<not> in_range 9 48 actions \<or>
       \<not> in_range 1800 3600 cooldown \<or> timeout < cooldown \<or>
       \<not> in_range 100 10000 min_impressions \<or> \<not> in_range 5 100 min_clicks \<or>
       min_impressions < min_clicks))) (\<lambda>_.
     activate_policy_transition lib link c source target
       (TrafficFrontierV4Activated target_drr hard_drr frontier bid_step impressions orders
         actions cooldown timeout min_impressions min_clicks))"

definition activate_traffic_frontier_limits_policy ::
  "libraries \<Rightarrow> link \<Rightarrow> campaign_key \<Rightarrow> string \<Rightarrow> string \<Rightarrow> u64 \<Rightarrow> u64 \<Rightarrow> u64 \<Rightarrow> u64 \<Rightarrow> u64 \<Rightarrow> u64 \<Rightarrow>
     database \<Rightarrow> state_transition_receipt outcome" where
  "activate_traffic_frontier_limits_policy lib link c source target from_frontier to_frontier
     from_pause to_pause from_cap to_cap =
     validated (require (\<not> (from_frontier = 0 \<or> to_frontier \<le> from_frontier \<or>
       from_cap \<le> from_pause \<or> to_pause \<le> from_pause \<or> to_cap \<le> to_pause \<or>
       to_cap \<le> from_cap))) (\<lambda>_.
     activate_policy_transition lib link c source target
       (TrafficFrontierLimitsRaised from_frontier to_frontier from_pause to_pause from_cap
         to_cap))"

definition activate_traffic_frontier_corridor_policy ::
  "libraries \<Rightarrow> link \<Rightarrow> campaign_key \<Rightarrow> string \<Rightarrow> string \<Rightarrow> u64 \<Rightarrow> u64 \<Rightarrow> u64 \<Rightarrow> u64 \<Rightarrow> database \<Rightarrow>
     state_transition_receipt outcome" where
  "activate_traffic_frontier_corridor_policy lib link c source target from_frontier to_frontier
     from_max to_max =
     validated (require (\<not> (to_frontier = 0 \<or> from_frontier \<le> to_frontier \<or> to_max = 0 \<or>
       from_max \<le> to_max \<or> to_max < to_frontier))) (\<lambda>_.
     activate_policy_transition lib link c source target
       (TrafficFrontierCorridorTightened from_frontier to_frontier from_max to_max))"

definition activate_traffic_frontier_v4_corridor_policy ::
  "libraries \<Rightarrow> link \<Rightarrow> campaign_key \<Rightarrow> string \<Rightarrow> string \<Rightarrow> u64 \<Rightarrow> u64 \<Rightarrow> u64 \<Rightarrow> u64 \<Rightarrow> database \<Rightarrow>
     state_transition_receipt outcome" where
  "activate_traffic_frontier_v4_corridor_policy lib link c source target from_min to_min from_max
     to_max =
     validated (require (\<not> (\<not> in_range 102 700 from_min \<or> to_min \<noteq> 700 \<or> from_max \<noteq> 1050 \<or>
       to_max \<noteq> 1200))) (\<lambda>_.
     activate_policy_transition lib link c source target
       (TrafficFrontierV4CorridorAdjusted from_min to_min from_max to_max))"

definition lease_covers :: "campaign_key \<Rightarrow> wb_policy \<Rightarrow> bool" where
  "lease_covers c p \<longleftrightarrow>
     p_account_id p = fst c \<and> uint (p_campaign_id p) < 2 ^ 63 \<and> uint (p_campaign_id p) = snd c"

definition authorize_corridor_policy ::
  "libraries \<Rightarrow> (wb_policy \<Rightarrow> string option) \<Rightarrow> link \<Rightarrow> campaign_key \<Rightarrow> wb_policy \<Rightarrow> wb_policy \<Rightarrow>
     instant \<Rightarrow> database \<Rightarrow> state_transition_receipt outcome" where
  "authorize_corridor_policy lib digest link c source target now =
     validated
       (and_then (map_err InvalidInput
                    (validate_wb_automation_corridor_update source target now)) (\<lambda>_.
        if \<not> lease_covers c source then Error InvalidInput
        else
          and_then (ok_or (digest source) InvalidInput) (\<lambda>source_digest.
          and_then (ok_or (digest target) InvalidInput) (\<lambda>target_digest.
          Ok (source_digest, target_digest)))))
       (\<lambda>(source_digest, target_digest).
        activate_policy_transition_with_authorization lib link c source_digest target_digest
          (AuthorizedCorridorAdjusted (p_min_bid_kopecks source) (p_min_bid_kopecks target)
             (p_max_bid_kopecks source) (p_max_bid_kopecks target))
          (Some target))"

definition authorize_recommendations_policy ::
  "libraries \<Rightarrow> (wb_policy \<Rightarrow> string option) \<Rightarrow> link \<Rightarrow> campaign_key \<Rightarrow> wb_policy \<Rightarrow> wb_policy \<Rightarrow>
     instant \<Rightarrow> database \<Rightarrow> state_transition_receipt outcome" where
  "authorize_recommendations_policy lib digest link c source target now =
     validated
       (and_then (map_err InvalidInput
                    (validate_wb_automation_recommendations_update source target now)) (\<lambda>_.
        if \<not> lease_covers c source then Error InvalidInput
        else
          and_then (ok_or (p_expected_recommendation_bid_kopecks target) InvalidInput)
            (\<lambda>to_bid.
          and_then (ok_or (digest source) InvalidInput) (\<lambda>source_digest.
          and_then (ok_or (digest target) InvalidInput) (\<lambda>target_digest.
          Ok (source_digest, target_digest, to_bid))))))
       (\<lambda>(source_digest, target_digest, to_bid).
        activate_policy_transition_with_authorization lib link c source_digest target_digest
          (RecommendationsAuthorized (p_expected_recommendation_bid_kopecks source) to_bid)
          (Some target))"

end
