(* ===== verification/Wb_Store_Facts.thy ===== *)
theory Wb_Store_Facts
  imports Wb_Store_Policy Transition
begin

text \<open>
  What the operations of the durable store do to the tables. A successful statement is
  inverted once; \<open>effect\<close> lists the ways one operation on one campaign may change the
  database, and every operation is shown to have one of them.
\<close>


section \<open>Reading the tables\<close>

definition put_state :: "campaign_key \<Rightarrow> state_row \<Rightarrow> database \<Rightarrow> database" where
  "put_state c st db =
     db\<lparr>db_states := map (\<lambda>(k, s). (k, if k = c then st else s)) (db_states db)\<rparr>"

definition put_action :: "durable_action \<Rightarrow> database \<Rightarrow> database" where
  "put_action a db = db\<lparr>db_actions := replace_action a (db_actions db)\<rparr>"

lemma map_of_overwrite:
  "map_of (map (\<lambda>(k, s). (k, if k = c then v else s)) xs) k =
     (if k = c then map_option (\<lambda>_. v) (map_of xs k) else map_of xs k)"
  by (induction xs) auto

lemma state_of_put_state [simp]:
  "state_of (put_state c st db) k =
     (if k = c then map_option (\<lambda>_. st) (state_of db k) else state_of db k)"
  by (simp add: state_of_def put_state_def map_of_overwrite)

lemma action_of_cong: "db_actions db = db_actions db' \<Longrightarrow> action_of db = action_of db'"
  by (simp add: action_of_def fun_eq_iff)

lemma put_state_other [simp]:
  "db_actions (put_state c st db) = db_actions db"
  "db_cycles (put_state c st db) = db_cycles db"
  "db_audit (put_state c st db) = db_audit db"
  "map fst (db_states (put_state c st db)) = map fst (db_states db)"
  by (simp_all add: put_state_def comp_def case_prod_beta)

lemma put_action_other [simp]:
  "db_states (put_action a db) = db_states db"
  "db_cycles (put_action a db) = db_cycles db"
  "db_audit (put_action a db) = db_audit db"
  "db_actions (put_action a db) = replace_action a (db_actions db)"
  by (simp_all add: put_action_def)

lemma state_of_cong [simp]:
  "state_of (db\<lparr>db_actions := as\<rparr>) = state_of db"
  "state_of (db\<lparr>db_audit := es\<rparr>) = state_of db"
  "state_of (db\<lparr>db_cycles := cs\<rparr>) = state_of db"
  "state_of (put_action a db) = state_of db"
  by (simp_all add: state_of_def fun_eq_iff)

lemma action_of_other [simp]:
  "action_of (db\<lparr>db_states := ss\<rparr>) = action_of db"
  "action_of (db\<lparr>db_audit := es\<rparr>) = action_of db"
  "action_of (db\<lparr>db_cycles := cs\<rparr>) = action_of db"
  "action_of (put_state c st db) = action_of db"
  by (simp_all add: action_of_def fun_eq_iff)

lemma action_of_Some:
  "action_of db c key = Some a \<longleftrightarrow>
     (\<exists>r. find (\<lambda>r. a_idempotency_key (r_action r) = key \<and> r_owner r = c) (db_actions db)
            = Some r \<and> r_action r = a)"
  by (auto simp: action_of_def)

lemma action_of_memD:
  assumes "action_of db c key = Some a"
  shows "a_idempotency_key a = key" "\<lparr>r_owner = c, r_action = a\<rparr> \<in> set (db_actions db)"
proof -
  obtain r where r: "find (\<lambda>r. a_idempotency_key (r_action r) = key \<and> r_owner r = c)
      (db_actions db) = Some r" "r_action r = a"
    using assms by (auto simp: action_of_Some)
  from find_Some_mem [OF this(1)] r(2)
  have "r \<in> set (db_actions db)" "a_idempotency_key a = key" "r = \<lparr>r_owner = c, r_action = a\<rparr>"
    by auto
  then show "a_idempotency_key a = key" "\<lparr>r_owner = c, r_action = a\<rparr> \<in> set (db_actions db)"
    by simp_all
qed

abbreviation action_keys :: "database \<Rightarrow> string list" where
  "action_keys db \<equiv> map (\<lambda>r. a_idempotency_key (r_action r)) (db_actions db)"

lemma action_of_mem:
  assumes "distinct (action_keys db)" and "\<lparr>r_owner = c, r_action = a\<rparr> \<in> set (db_actions db)"
  shows "action_of db c (a_idempotency_key a) = Some a"
proof (cases "find (\<lambda>r. a_idempotency_key (r_action r) = a_idempotency_key a \<and> r_owner r = c)
    (db_actions db)")
  case None
  then have "\<not> (a_idempotency_key (r_action q) = a_idempotency_key a \<and> r_owner q = c)"
    if "q \<in> set (db_actions db)" for q
    using that by (auto simp: find_None_iff)
  from this [OF assms(2)] show ?thesis
    by simp
next
  case (Some r)
  from find_Some_mem [OF Some] assms(2)
  have "r \<in> set (db_actions db)" "a_idempotency_key (r_action r) = a_idempotency_key a"
    by auto
  with assms have "r = \<lparr>r_owner = c, r_action = a\<rparr>"
    by (auto simp: distinct_map inj_on_def)
  with Some show ?thesis
    by (simp add: action_of_Some)
qed

lemma replace_action_mem:
  "r \<in> set (replace_action a rs) \<longleftrightarrow>
     (\<exists>q \<in> set rs. r = (if a_idempotency_key (r_action q) = a_idempotency_key a
                        then q\<lparr>r_action := a\<rparr> else q))"
  by (auto simp: replace_action_def)

lemma replace_action_keys [simp]:
  "map (\<lambda>r. a_idempotency_key (r_action r)) (replace_action a rs) =
     map (\<lambda>r. a_idempotency_key (r_action r)) rs"
  by (induction rs) (auto simp: replace_action_def)

lemma action_of_put_action:
  "action_of (put_action a db) c key =
     (if key = a_idempotency_key a then map_option (\<lambda>_. a) (action_of db c key)
      else action_of db c key)"
proof -
  have "find (\<lambda>r. a_idempotency_key (r_action r) = key \<and> r_owner r = c) (replace_action a rs) =
      map_option (\<lambda>r. if key = a_idempotency_key a then r\<lparr>r_action := a\<rparr> else r)
        (find (\<lambda>r. a_idempotency_key (r_action r) = key \<and> r_owner r = c) rs)" for rs
    by (induction rs) (auto simp: replace_action_def)
  then show ?thesis
    by (simp add: action_of_def option.map_comp comp_def)
qed


section \<open>Statements that succeed\<close>

lemma execute_one_Ok: "execute_one s = Inr db \<longleftrightarrow> s = Inr (1, db)"
  by (auto simp: execute_one_def ensure_one_row_def and_then_Ok map_err_Ok split: if_splits)

lemma execute_one_no_panic: "s \<noteq> Inl Panic \<Longrightarrow> execute_one s \<noteq> Inl Panic"
  by (auto simp: execute_one_def ensure_one_row_def and_then_Inl map_err_Panic split: if_splits)

lemma execute_update_state [result_elim]:
  "execute_one (update_state c guard change db) = Inr db' \<longleftrightarrow>
     (\<exists>st. state_of db c = Some st \<and> guard st \<and>
        enforce_state_transition db c st (change st) \<and> state_check c (change st) \<and>
        pending_reference_ok db c (change st) \<and> db' = put_state c (change st) db)"
  by (auto simp: execute_one_Ok update_state_def put_state_def split: option.splits)

lemma execute_update_action [result_elim]:
  "execute_one (update_action lib now c key status change db) = Inr db' \<longleftrightarrow>
     (\<exists>a a'. action_of db c key = Some a \<and> a_status a = status \<and>
        enforce_action_transition lib now a (change a) = Some a' \<and>
        action_check lib \<lparr>r_owner = c, r_action = a'\<rparr> \<and>
        (\<forall>rb. a_readback_cycle_id a' = Some rb \<longrightarrow> cycle_exists db c rb) \<and>
        db' = put_action a' db)"
proof (cases "action_of db c key")
  case (Some a)
  then show ?thesis
    by (cases "enforce_action_transition lib now a (change a)")
      (auto simp: execute_one_Ok update_action_def put_action_def split: option.splits)
qed (simp add: execute_one_Ok update_action_def)

lemma insert_action_Ok [result_elim]:
  "insert_action lib r db = Inr (a, db') \<longleftrightarrow>
     action_check lib r \<and>
     (\<forall>q \<in> set (db_actions db). a_idempotency_key (r_action q) \<noteq> a_idempotency_key (r_action r) \<and>
        (r_owner q = r_owner r \<longrightarrow> \<not> unresolved_status (a_status (r_action q)))) \<and>
     cycle_exists db (r_owner r) (a_cycle_id (r_action r)) \<and>
     a = r_action r \<and> db' = db\<lparr>db_actions := r # db_actions db\<rparr>"
  by (auto simp: insert_action_def list_ex_iff)

lemma map_insert_error_Ok [result_elim]: "map_insert_error s = Inr x \<longleftrightarrow> s = Inr x"
  by (simp add: map_insert_error_def wrap_err_Ok)

lemma insert_cycle_Ok [result_elim]:
  "insert_cycle lib cy db = Inr (inserted, db') \<longleftrightarrow>
     cycle_check lib cy \<and>
     (if inserted
      then (\<forall>q \<in> set (db_cycles db). cy_cycle_id q \<noteq> cy_cycle_id cy \<and>
              \<not> (cy_owner q = cy_owner cy \<and> cy_observed_at q = cy_observed_at cy)) \<and>
           db' = db\<lparr>db_cycles := cy # db_cycles db\<rparr>
      else (\<exists>q \<in> set (db_cycles db). cy_cycle_id q = cy_cycle_id cy) \<and> db' = db)"
  by (cases inserted) (auto simp: insert_cycle_def list_ex_iff)

lemma insert_audit_Ok:
  "insert_audit lib ev db = Inr (n, db') \<Longrightarrow>
     \<exists>evs. db' = db\<lparr>db_audit := evs @ db_audit db\<rparr> \<and> set evs \<subseteq> {ev}"
proof (cases "list_ex (\<lambda>q. au_event_key q = au_event_key ev) (db_audit db)")
  case True
  moreover assume "insert_audit lib ev db = Inr (n, db')"
  ultimately have "db' = db\<lparr>db_audit := [] @ db_audit db\<rparr>"
    by (auto simp: insert_audit_def split: if_splits)
  then show ?thesis
    by (intro exI [of _ "[]"]) simp
next
  case False
  moreover assume "insert_audit lib ev db = Inr (n, db')"
  ultimately have "db' = db\<lparr>db_audit := [ev] @ db_audit db\<rparr>"
    by (auto simp: insert_audit_def split: if_splits)
  then show ?thesis
    by (intro exI [of _ "[ev]"]) simp
qed

lemma insert_audit_event_Ok:
  "insert_audit_event lib ev db = Inr db' \<Longrightarrow>
     \<exists>evs. db' = db\<lparr>db_audit := evs @ db_audit db\<rparr> \<and> set evs \<subseteq> {ev}"
  by (auto simp: insert_audit_event_def and_then_Ok map_err_Ok dest!: insert_audit_Ok)

lemma insert_override_Ok:
  "insert_one_time_quota_override_audit_event lib ev db = Inr db' \<longleftrightarrow>
     validate_audit_event lib ev = Inr () \<and> audit_check lib ev \<and>
     (\<forall>q \<in> set (db_audit db). au_event_key q \<noteq> au_event_key ev) \<and>
     cycle_exists db (au_owner ev) (au_cycle_id ev) \<and>
     (\<forall>key. au_idempotency_key ev = Some key \<longrightarrow> action_of db (au_owner ev) key \<noteq> None) \<and>
     db' = db\<lparr>db_audit := ev # db_audit db\<rparr>"
  by (auto simp: insert_one_time_quota_override_audit_event_def insert_audit_def result_elim
      execute_one_Ok
      list_ex_iff split: option.splits)

lemma insert_state_Ok:
  "insert_state c st db = Inr (True, db') \<longleftrightarrow>
     st_revision st = 1 \<and> state_check c st \<and> state_of db c = None \<and>
     db' = db\<lparr>db_states := (c, st) # db_states db\<rparr>"
  by (auto simp: insert_state_def)

lemma insert_state_kept: "insert_state c st db = Inr (False, db') \<Longrightarrow> db' = db"
  by (auto simp: insert_state_def split: if_splits)


section \<open>Transactions\<close>

lemma after_commit_simps [simp]:
  "snd (after_commit f r) = snd r"
  "fst (after_commit f r) = and_then (fst r) f"
  by (simp_all add: after_commit_def)

lemma transaction_Ok:
  "transaction link body db = (Inr x, db') \<longleftrightarrow> link = Connected \<and> body db = Inr (x, db')"
  by (cases link) (auto simp: transaction_def split: sum.splits prod.splits)

lemma transaction_error:
  "fst (transaction Connected body db) = Inl e \<Longrightarrow> snd (transaction Connected body db) = db"
  by (auto simp: transaction_def split: sum.splits prod.splits)

lemma succ_i64_Some [result_elim]: "succ_i64 r = Some n \<longleftrightarrow> r < 2 ^ 63 - 1 \<and> n = r + 1"
  by (auto simp: succ_i64_def)

lemma to_i64_Ok [result_elim]: "to_i64 v = Inr i \<longleftrightarrow> uint v < 2 ^ 63 \<and> i = uint v"
  by (auto simp: to_i64_def)

lemma validate_digest_Ok [result_elim]: "validate_digest s = Inr u \<longleftrightarrow> hex_digest s"
  by (simp add: validate_digest_def hex_digest_def)

lemma validate_error_class_iff: "validate_error_class s \<longleftrightarrow> class_name s"
  by (simp add: validate_error_class_def class_name_def)


section \<open>Effects\<close>

definition moved_to :: "database \<Rightarrow> campaign_key \<Rightarrow> state_row \<Rightarrow> state_row \<Rightarrow> bool" where
  "moved_to db c st st' \<longleftrightarrow>
     enforce_state_transition db c st st' \<and> state_check c st' \<and> st_revision st' < 2 ^ 63"

definition settles :: "durable_action \<Rightarrow> state_row \<Rightarrow> state_row \<Rightarrow> bool" where
  "settles a st st' \<longleftrightarrow>
     st_last_action_at st' = st_last_action_at st \<and>
     ((a_status a = Act_Applied \<or> a_status a = Act_Cancelled) \<and>
       st_pending_idempotency_key st' = None \<and> st_incident_class st' = st_incident_class st \<or>
     a_status a = Act_ReconciliationRequired \<and>
       st_pending_idempotency_key st' = st_pending_idempotency_key st \<and>
       st_incident_class st' \<noteq> None)"

inductive effect :: "libraries \<Rightarrow> campaign_key \<Rightarrow> database \<Rightarrow> database \<Rightarrow> bool"
  for lib :: libraries and c :: campaign_key where
  unchanged: "effect lib c db db"
| imported:
    "state_of db c = None \<Longrightarrow> st_pending_idempotency_key st = None \<Longrightarrow> st_revision st = 1 \<Longrightarrow>
     state_check c st \<Longrightarrow> effect lib c db (db\<lparr>db_states := (c, st) # db_states db\<rparr>)"
| observed:
    "cy_owner cy = c \<Longrightarrow> cycle_check lib cy \<Longrightarrow>
     \<forall>q \<in> set (db_cycles db). cy_cycle_id q \<noteq> cy_cycle_id cy \<Longrightarrow>
     effect lib c db (db\<lparr>db_cycles := cy # db_cycles db\<rparr>)"
| reserved:
    "state_of db c = Some st \<Longrightarrow> st_pending_idempotency_key st = None \<Longrightarrow>
     st_incident_class st = None \<Longrightarrow> r_owner r = c \<Longrightarrow> action_check lib r \<Longrightarrow>
     a_status (r_action r) = Act_Reserved \<Longrightarrow>
     \<forall>q \<in> set (db_actions db). a_idempotency_key (r_action q) \<noteq> a_idempotency_key (r_action r) \<and>
       (r_owner q = c \<longrightarrow> \<not> unresolved_status (a_status (r_action q))) \<Longrightarrow>
     st_pending_idempotency_key st' = Some (a_idempotency_key (r_action r)) \<Longrightarrow>
     st_last_action_at st' = Some (a_reserved_at (r_action r)) \<Longrightarrow>
     cycle_exists db c (a_cycle_id (r_action r)) \<Longrightarrow>
     moved_to (db\<lparr>db_actions := r # db_actions db\<rparr>) c st st' \<Longrightarrow>
     effect lib c db ((put_state c st' (db\<lparr>db_actions := r # db_actions db\<rparr>))
       \<lparr>db_audit := evs @ db_audit db\<rparr>)"
| progressed:
    "state_of db c = Some st \<Longrightarrow> st_pending_idempotency_key st = Some (a_idempotency_key a) \<Longrightarrow>
     action_of db c (a_idempotency_key a) = Some a \<Longrightarrow>
     enforce_action_transition lib now a new = Some a' \<Longrightarrow>
     a_status a' = Act_WriteStarted \<or> a_status a' = Act_AwaitingReadback \<Longrightarrow>
     action_check lib \<lparr>r_owner = c, r_action = a'\<rparr> \<Longrightarrow>
     effect lib c db ((put_action a' db)\<lparr>db_audit := evs @ db_audit db\<rparr>)"
| settled:
    "state_of db c = Some st \<Longrightarrow> st_pending_idempotency_key st = Some (a_idempotency_key a) \<Longrightarrow>
     action_of db c (a_idempotency_key a) = Some a \<Longrightarrow>
     enforce_action_transition lib now a new = Some a' \<Longrightarrow> settles a' st st' \<Longrightarrow>
     action_check lib \<lparr>r_owner = c, r_action = a'\<rparr> \<Longrightarrow>
     moved_to (put_action a' db) c st st' \<Longrightarrow>
     effect lib c db ((put_state c st' (put_action a' db))\<lparr>db_audit := evs @ db_audit db\<rparr>)"
| updated:
    "state_of db c = Some st \<Longrightarrow> st_pending_idempotency_key st = None \<Longrightarrow>
     st_incident_class st = None \<Longrightarrow> st_pending_idempotency_key st' = None \<Longrightarrow>
     moved_to db c st st' \<Longrightarrow>
     effect lib c db ((put_state c st' db)\<lparr>db_audit := evs @ db_audit db\<rparr>)"

text \<open>The trigger keeps the identity of an action and the status the statement asked for.\<close>

lemma enforce_action_transition_Some:
  assumes "enforce_action_transition lib now old new = Some a"
  shows "a_idempotency_key a = a_idempotency_key old"
    "a_cycle_id a = a_cycle_id old" "a_policy_digest a = a_policy_digest old"
    "a_request_digest a = a_request_digest old" "a_action_kind a = a_action_kind old"
    "a_reserved_at a = a_reserved_at old" "a_status a = a_status new"
    "jsonb lib (a_request_json a) = jsonb lib (a_request_json old)"
  using assms
  by (auto simp: enforce_action_transition_def same_identity_def
      split: if_splits durable_action_status.splits)

definition status_edge :: "durable_action_status \<Rightarrow> durable_action_status \<Rightarrow> bool" where
  "status_edge s t \<longleftrightarrow>
     (s, t) \<in> {(Act_Reserved, Act_WriteStarted), (Act_Reserved, Act_Cancelled),
               (Act_WriteStarted, Act_AwaitingReadback), (Act_WriteStarted, Act_Cancelled),
               (Act_WriteStarted, Act_ReconciliationRequired), (Act_WriteStarted, Act_Applied),
               (Act_AwaitingReadback, Act_ReconciliationRequired),
               (Act_AwaitingReadback, Act_Applied),
               (Act_ReconciliationRequired, Act_Applied)}"

lemma enforce_action_transition_edge:
  assumes "enforce_action_transition lib now old new = Some a"
  shows "status_edge (a_status old) (a_status a)"
  using assms
  by (auto simp: enforce_action_transition_def status_edge_def
      split: if_splits durable_action_status.splits)


section \<open>Every operation has an effect\<close>

lemma moved_toI:
  assumes "enforce_state_transition db c st st'" and "state_check c st'"
    and "succ_i64 r = Some (st_revision st')"
  shows "moved_to db c st st'"
  using assms by (simp add: moved_to_def succ_i64_Some)

lemma transaction_effect:
  assumes "\<And>x db'. body db = Inr (x, db') \<Longrightarrow> effect lib c db db'"
  shows "effect lib c db (snd (transaction link body db))"
  using assms by (auto simp: transaction_def unchanged split: sum.splits prod.splits)

lemma validated_effect:
  assumes "\<And>v. check = Inr v \<Longrightarrow> effect lib c db (snd (run v db))"
  shows "effect lib c db (snd (validated check run db))"
  using assms by (cases check) (simp_all add: validated_def unchanged)

lemma initialize_effect: "effect lib c db (snd (initialize_from_legacy link c seed db))"
  unfolding initialize_from_legacy_def
proof (intro validated_effect transaction_effect)
  fix v x db'
  assume "and_then (map_err Unavailable (insert_state c (seed_row seed) db)) (\<lambda>(inserted, db).
     if inserted then Ok (True, db)
     else and_then (ok_or (state_of db c) Unavailable) (\<lambda>st.
       and_then (parse_state c st) (\<lambda>existing.
       if seed_matches seed existing then Ok (False, db) else Error StateChanged)))
     = Inr (x, db')"
  then consider "insert_state c (seed_row seed) db = Inr (True, db')"
    | "insert_state c (seed_row seed) db = Inr (False, db')"
    by (auto simp: result_elim split: if_splits)
  then show "effect lib c db db'"
  proof cases
    case 1
    then show ?thesis
      by (auto simp: insert_state_Ok seed_row_def intro!: imported)
  next
    case 2
    then show ?thesis
      by (auto dest: insert_state_kept intro: unchanged)
  qed
qed

lemma persist_effect:
  "effect lib c db (snd (persist_shadow_cycle lib link c cycle_id policy_digest observed_at
     business_date expected_state_revision snapshot_json decision_json db))"
  unfolding persist_shadow_cycle_def
  by (intro validated_effect transaction_effect)
    (auto simp: result_elim split: if_splits intro!: observed intro: unchanged)

definition reserved_state :: "instant \<Rightarrow> action_reservation \<Rightarrow> int \<Rightarrow> state_row \<Rightarrow> state_row" where
  "reserved_state now r before st =
     st\<lparr>st_business_date := rs_business_date r, st_actions_today := before + 1,
        st_last_action_at := Some now,
        st_pending_idempotency_key := Some (rs_idempotency_key r),
        st_revision := st_revision st + 1\<rparr>"

lemma reserve_new_Ok:
  assumes "reserve_new lib now c r authorization expected max_actions before db = Inr (x, db')"
  shows "\<exists>st evs. state_of db c = Some st \<and> st_revision st = expected \<and>
     insert_action lib (reserved_row now c r) db =
       Inr (r_action (reserved_row now c r),
            db\<lparr>db_actions := reserved_row now c r # db_actions db\<rparr>) \<and>
     succ_i64 expected = Some (expected + 1) \<and>
     enforce_state_transition (db\<lparr>db_actions := reserved_row now c r # db_actions db\<rparr>) c st
       (reserved_state now r before st) \<and>
     state_check c (reserved_state now r before st) \<and>
     x = (True, expected + 1, r_action (reserved_row now c r)) \<and>
     db' = (put_state c (reserved_state now r before st)
              (db\<lparr>db_actions := reserved_row now c r # db_actions db\<rparr>))
              \<lparr>db_audit := evs @ db_audit db\<rparr> \<and>
     (\<forall>reference. authorization = Some reference \<longrightarrow>
        override_event lib c r reference before max_actions \<in> set evs \<and>
        (\<forall>q \<in> set (db_audit db).
           au_event_key q \<noteq> au_event_key (override_event lib c r reference before max_actions)))"
proof -
  let ?row = "reserved_row now c r"
  let ?db = "db\<lparr>db_actions := ?row # db_actions db\<rparr>"
  let ?ev = "\<lparr>au_event_key = audit_event_key lib (rs_idempotency_key r) ''reserved'' [],
    au_cycle_id = rs_cycle_id r, au_owner = c, au_event_type = ''action_reserved'',
    au_idempotency_key = Some (rs_idempotency_key r), au_payload_json = ''{}''\<rparr>"
  have row: "a_reserved_at (r_action ?row) = now"
    by (simp add: reserved_row_def)
  obtain a db1 where ins: "insert_action lib ?row db = Inr (a, db1)"
    using assms by (auto simp: reserve_new_def and_then_Ok map_insert_error_Ok)
  then have "a = r_action ?row" "db1 = ?db"
    by (simp_all add: insert_action_Ok)
  note run = assms [unfolded reserve_new_def ins this, simplified map_insert_error_def, simplified,
      folded map_insert_error_def]
  from run have succ: "succ_i64 expected = Some (expected + 1)" "before < 2 ^ 31 - 1"
    by (auto simp: and_then_Ok ok_or_Ok or_panic_Ok succ_i64_Some succ_i32_def split: if_splits)
  with run obtain st db2 where st: "state_of db c = Some st" "st_revision st = expected"
      "enforce_state_transition ?db c st (reserved_state now r before st)"
      "state_check c (reserved_state now r before st)"
    and audit: "insert_audit_event lib ?ev (put_state c (reserved_state now r before st) ?db)
        = Inr db2"
    and rest: "(case authorization of
       None \<Rightarrow> Ok ((True, expected + 1, r_action ?row), db2)
     | Some reference \<Rightarrow>
         and_then (insert_one_time_quota_override_audit_event lib
           (override_event lib c r reference before max_actions) db2) (\<lambda>db.
         Ok ((True, expected + 1, r_action ?row), db))) = Inr (x, db')"
    by (auto simp: and_then_Ok execute_update_state succ_i32_def row
        reserved_state_def)
  from insert_audit_event_Ok [OF audit] obtain evs where
    db2: "db2 = (put_state c (reserved_state now r before st) ?db)\<lparr>db_audit := evs @ db_audit db\<rparr>"
    by auto
  show ?thesis
  proof (cases authorization)
    case None
    with ins succ st db2 rest \<open>a = r_action ?row\<close> \<open>db1 = ?db\<close> show ?thesis
      by (intro exI [of _ st] exI [of _ evs]) simp
  next
    case (Some reference)
    with rest db2 have "x = (True, expected + 1, r_action ?row)"
      "db' = (put_state c (reserved_state now r before st) ?db)
         \<lparr>db_audit := (override_event lib c r reference before max_actions # evs) @ db_audit db\<rparr>"
      "\<forall>q \<in> set (db_audit db).
         au_event_key q \<noteq> au_event_key (override_event lib c r reference before max_actions)"
      by (auto simp: and_then_Ok insert_override_Ok)
    with ins succ st Some \<open>a = r_action ?row\<close> \<open>db1 = ?db\<close> show ?thesis
      by (intro exI [of _ st]
          exI [of _ "override_event lib c r reference before max_actions # evs"]) simp
  qed
qed

lemma reserve_new_effect:
  assumes "reserve_new lib now c r authorization expected max_actions before db = Inr (x, db')"
    and "state_of db c = Some st"
    and "st_pending_idempotency_key st = None" and "st_incident_class st = None"
  shows "effect lib c db db'"
proof -
  let ?row = "reserved_row now c r"
  let ?db = "db\<lparr>db_actions := ?row # db_actions db\<rparr>"
  let ?st = "reserved_state now r before st"
  from reserve_new_Ok [OF assms(1)] assms(2) obtain evs where
    run: "st_revision st = expected"
      "insert_action lib ?row db = Inr (r_action ?row, ?db)"
      "succ_i64 expected = Some (expected + 1)"
      "enforce_state_transition ?db c st ?st" "state_check c ?st"
    and db': "db' = (put_state c ?st ?db)\<lparr>db_audit := evs @ db_audit db\<rparr>"
    by auto
  have "moved_to ?db c st ?st"
    using run by (auto intro!: moved_toI [of _ _ _ _ expected] simp: reserved_state_def)
  with run(2) assms(2-4) show ?thesis
    unfolding db' by (intro reserved) (auto simp: insert_action_Ok reserved_row_def reserved_state_def)
qed

lemma reserve_effect:
  "effect lib c db (snd (reserve_action_with_quota_override lib link now c r authorization db))"
  unfolding reserve_action_with_quota_override_def
proof (rule validated_effect)
  fix v :: "int \<times> int"
  obtain expected max_actions where v: "v = (expected, max_actions)"
    by (cases v)
  have "effect lib c db db'"
    if "reserve_in_transaction lib now c r authorization expected max_actions db = Inr (x, db')"
    for x db'
    using that
    by (auto simp: reserve_in_transaction_def result_elim split: if_splits
        intro: unchanged reserve_new_effect)
  then show "effect lib c db (snd ((\<lambda>(expected_revision, max_actions) db.
      after_commit (\<lambda>(inserted, revision, action).
        and_then (ok_or (to_u64 revision) Unavailable) (\<lambda>state_revision.
        Ok \<lparr>rr_inserted = inserted, rr_state_revision = state_revision, rr_action = action\<rparr>))
        (transaction link
          (reserve_in_transaction lib now c r authorization expected_revision max_actions)
          db)) v db))"
    by (simp add: v transaction_effect)
qed

lemma override_effect:
  "effect lib c db (snd (reserve_explicit_quota_override_action lib link now c r reference db))"
  unfolding reserve_explicit_quota_override_action_def
  by (intro validated_effect reserve_effect)

lemma transition_effect:
  assumes "to = Act_WriteStarted \<or> to = Act_AwaitingReadback"
  shows "effect lib c db (snd (transition_without_state_change lib link now c key revision
     from to suffix db))"
  unfolding transition_without_state_change_def
proof (intro validated_effect transaction_effect)
  fix expected x db'
  assume "transition_in_transaction lib now c key expected from to suffix db = Inr (x, db')"
  then have "db' = db \<or> (\<exists>st a a' evs. state_of db c = Some st \<and>
      st_pending_idempotency_key st = Some key \<and> action_of db c key = Some a \<and>
      enforce_action_transition lib now a (a\<lparr>a_status := to\<rparr>) = Some a' \<and>
      action_check lib \<lparr>r_owner = c, r_action = a'\<rparr> \<and>
      db' = (put_action a' db)\<lparr>db_audit := evs @ db_audit db\<rparr>)"
    by (fastforce simp: transition_in_transaction_def result_elim verify_pending_state_def
        load_action_in_transaction_def split: if_splits dest!: insert_audit_event_Ok)
  then show "effect lib c db db'"
    using assms
    by (auto dest: action_of_memD enforce_action_transition_Some(7)
        intro!: unchanged progressed)
qed

text \<open>The end of a transaction that settles an action, shared by both ways to settle.\<close>

lemma settle_Ok:
  assumes "and_then (execute_one (update_action lib now c key status change db)) (\<lambda>db.
     and_then (ok_or (succ_i64 expected) InvalidInput) (\<lambda>new_revision.
     and_then (execute_one (update_state c (\<lambda>st. st_revision st = expected)
         (state_change new_revision) db)) (\<lambda>db.
     and_then (insert_audit_event lib ev db) (\<lambda>db. Ok ((True, new_revision), db)))))
     = Inr (x, db')"
  shows "\<exists>st a a' evs. state_of db c = Some st \<and> st_revision st = expected \<and>
      action_of db c key = Some a \<and> a_status a = status \<and>
      enforce_action_transition lib now a (change a) = Some a' \<and>
      action_check lib \<lparr>r_owner = c, r_action = a'\<rparr> \<and>
      succ_i64 expected = Some (expected + 1) \<and> x = (True, expected + 1) \<and>
      enforce_state_transition (put_action a' db) c st (state_change (expected + 1) st) \<and>
      state_check c (state_change (expected + 1) st) \<and>
      db' = (put_state c (state_change (expected + 1) st) (put_action a' db))
              \<lparr>db_audit := evs @ db_audit db\<rparr>"
proof -
  obtain db1 db2 where act: "execute_one (update_action lib now c key status change db) = Inr db1"
    and succ: "succ_i64 expected = Some (expected + 1)"
    and upd: "execute_one (update_state c (\<lambda>st. st_revision st = expected)
         (state_change (expected + 1)) db1) = Inr db2"
    and audit: "insert_audit_event lib ev db2 = Inr db'" and x: "x = (True, expected + 1)"
    using assms by (auto simp: and_then_Ok ok_or_Ok succ_i64_Some)
  from act obtain a a' where a: "action_of db c key = Some a" "a_status a = status"
      "enforce_action_transition lib now a (change a) = Some a'"
      "action_check lib \<lparr>r_owner = c, r_action = a'\<rparr>" and db1: "db1 = put_action a' db"
    unfolding execute_update_action by blast
  from upd obtain st where st: "state_of db c = Some st" "st_revision st = expected"
      "enforce_state_transition db1 c st (state_change (expected + 1) st)"
      "state_check c (state_change (expected + 1) st)"
    and db2: "db2 = put_state c (state_change (expected + 1) st) db1"
    unfolding execute_update_state db1 by auto
  from insert_audit_event_Ok [OF audit] obtain evs
    where "db' = db2\<lparr>db_audit := evs @ db_audit db\<rparr>"
    by (auto simp: db2 db1)
  with a st succ x show ?thesis
    unfolding db2 db1 by blast
qed

lemma resolve_in_transaction_Ok:
  assumes "resolve_in_transaction lib now c key expected error_class k db = Inr (x, db')"
  shows "db' = db \<and> x = (False, expected + 1) \<or>
    (\<exists>st a a' evs. state_of db c = Some st \<and> st_revision st = expected \<and>
      st_pending_idempotency_key st = Some key \<and>
      action_of db c key = Some a \<and> resolution_source k (a_status a) \<and>
      enforce_action_transition lib now a (a\<lparr>a_status := resolution_status k,
         a_last_error_class := Some error_class\<rparr>) = Some a' \<and>
      action_check lib \<lparr>r_owner = c, r_action = a'\<rparr> \<and>
      succ_i64 expected = Some (expected + 1) \<and> x = (True, expected + 1) \<and>
      enforce_state_transition (put_action a' db) c st
         (resolve_state_change k error_class (expected + 1) st) \<and>
      state_check c (resolve_state_change k error_class (expected + 1) st) \<and>
      db' = (put_state c (resolve_state_change k error_class (expected + 1) st)
                (put_action a' db))\<lparr>db_audit := evs @ db_audit db\<rparr>)"
proof -
  obtain st a where st: "state_of db c = Some st" and a: "action_of db c key = Some a"
    using assms by (auto simp: resolve_in_transaction_def and_then_Ok ok_or_Ok
        load_locked_state_summary_def load_action_in_transaction_def)
  note run = assms [unfolded resolve_in_transaction_def load_locked_state_summary_def
      load_action_in_transaction_def st a ok_or_simps and_then_simps]
  show ?thesis
  proof (cases "a_status a = resolution_status k")
    case True
    with run show ?thesis
      by (auto simp: and_then_Ok ok_or_Ok succ_i64_Some split: if_splits)
  next
    case False
    with run have guards: "st_revision st = expected" "st_pending_idempotency_key st = Some key"
      "resolution_source k (a_status a)"
      by (simp_all split: if_splits)
    with run False have "and_then (execute_one (update_action lib now c key (a_status a)
           (\<lambda>a. a\<lparr>a_status := resolution_status k,
                  a_last_error_class := Some error_class\<rparr>) db)) (\<lambda>db.
       and_then (ok_or (succ_i64 expected) InvalidInput) (\<lambda>new_revision.
       and_then (execute_one (update_state c (\<lambda>st. st_revision st = expected)
           (resolve_state_change k error_class new_revision) db)) (\<lambda>db.
       and_then (insert_audit_event lib \<lparr>
           au_event_key = audit_event_key lib key (resolution_event_type k) error_class,
           au_cycle_id = a_cycle_id a, au_owner = c,
           au_event_type = resolution_event_type k, au_idempotency_key = Some key,
           au_payload_json =
             to_json_string lib (json_object [(''error_class'', JString error_class)])\<rparr> db)
         (\<lambda>db. Ok ((True, new_revision), db))))) = Inr (x, db')"
      by simp
    from settle_Ok [OF this] st a guards show ?thesis
      by force
  qed
qed

lemma settled_effect:
  assumes "state_of db c = Some st" "st_pending_idempotency_key st = Some key"
    "action_of db c key = Some a" "enforce_action_transition lib now a new = Some a'"
    "action_check lib \<lparr>r_owner = c, r_action = a'\<rparr>"
    "enforce_state_transition (put_action a' db) c st st'" "state_check c st'"
    "succ_i64 expected = Some (st_revision st')" "settles a' st st'"
    "db' = (put_state c st' (put_action a' db))\<lparr>db_audit := evs @ db_audit db\<rparr>"
  shows "effect lib c db db'"
proof -
  have "a_idempotency_key a = key"
    by (rule action_of_memD [OF assms(3)])
  moreover have "moved_to (put_action a' db) c st st'"
    using assms(6-8) by (rule moved_toI)
  ultimately show ?thesis
    unfolding assms(10) using assms(1-5,9) by (intro settled) simp_all
qed

lemma resolve_effect:
  "effect lib c db (snd (resolve_without_write lib link now c key revision error_class k db))"
  unfolding resolve_without_write_def
proof (rule validated_effect)
  fix expected
  have "effect lib c db db'"
    if "resolve_in_transaction lib now c key expected error_class k db = Inr (x, db')" for x db'
    using resolve_in_transaction_Ok [OF that]
  proof (elim disjE exE conjE)
    fix st :: state_row and a a' :: durable_action and evs
    let ?st = "resolve_state_change k error_class (expected + 1) st"
    assume run: "state_of db c = Some st" "st_pending_idempotency_key st = Some key"
      "action_of db c key = Some a"
      and trigger: "enforce_action_transition lib now a (a\<lparr>a_status := resolution_status k,
         a_last_error_class := Some error_class\<rparr>) = Some a'"
      and rest: "action_check lib \<lparr>r_owner = c, r_action = a'\<rparr>"
      "enforce_state_transition (put_action a' db) c st ?st" "state_check c ?st"
      and rev: "succ_i64 expected = Some (expected + 1)"
      and db': "db' = (put_state c ?st (put_action a' db))\<lparr>db_audit := evs @ db_audit db\<rparr>"
    have "settles a' st ?st"
      using enforce_action_transition_Some(7) [OF trigger]
      by (cases k) (auto simp: settles_def resolve_state_change_def resolution_status_def)
    moreover have "succ_i64 expected = Some (st_revision ?st)"
      using rev by (simp add: resolve_state_change_def)
    ultimately show ?thesis
      using db' by (intro settled_effect [OF run trigger rest])
  qed (simp add: unchanged)
  then show "effect lib c db (snd (after_commit transition_receipt (transaction link
      (resolve_in_transaction lib now c key expected error_class k) db)))"
    by (simp add: transaction_effect)
qed

lemma applied_in_transaction_Ok:
  assumes "applied_in_transaction lib now c key expected readback paused_on db = Inr (x, db')"
  shows "db' = db \<and> x = (False, expected + 1) \<or>
    (\<exists>st a a' evs. state_of db c = Some st \<and> st_revision st = expected \<and>
      st_pending_idempotency_key st = Some key \<and>
      action_of db c key = Some a \<and> pause_shape_matches (a_action_kind a) paused_on st \<and>
      (\<exists>cy \<in> set (db_cycles db). cy_cycle_id cy = readback \<and> cy_owner cy = c \<and>
         cy_policy_digest cy = a_policy_digest a \<and> cy_cycle_id cy \<noteq> a_cycle_id a \<and>
         cy_state_revision cy = expected) \<and>
      enforce_action_transition lib now a (a\<lparr>a_status := Act_Applied,
         a_readback_cycle_id := Some readback, a_last_error_class := None\<rparr>) = Some a' \<and>
      action_check lib \<lparr>r_owner = c, r_action = a'\<rparr> \<and>
      succ_i64 expected = Some (expected + 1) \<and> x = (True, expected + 1) \<and>
      enforce_state_transition (put_action a' db) c st
         (applied_state_change (a_action_kind a) paused_on (expected + 1) st) \<and>
      state_check c (applied_state_change (a_action_kind a) paused_on (expected + 1) st) \<and>
      db' = (put_state c (applied_state_change (a_action_kind a) paused_on (expected + 1) st)
                (put_action a' db))\<lparr>db_audit := evs @ db_audit db\<rparr>)"
proof -
  obtain st a where st: "state_of db c = Some st" and a: "action_of db c key = Some a"
    and shape: "pause_shape_matches (a_action_kind a) paused_on st"
    using assms by (auto simp: applied_in_transaction_def result_elim
        load_locked_state_summary_def load_action_in_transaction_def split: if_splits)
  note run = assms [unfolded applied_in_transaction_def load_locked_state_summary_def
      load_action_in_transaction_def st a ok_or_simps and_then_simps]
  show ?thesis
  proof (cases "a_status a = Act_Applied")
    case True
    with run shape show ?thesis
      by (auto simp: and_then_Ok ok_or_Ok succ_i64_Some split: if_splits)
  next
    case False
    with run shape have guards: "st_revision st = expected"
      "st_pending_idempotency_key st = Some key"
      "\<exists>cy \<in> set (db_cycles db). cy_cycle_id cy = readback \<and> cy_owner cy = c \<and>
         cy_policy_digest cy = a_policy_digest a \<and> cy_cycle_id cy \<noteq> a_cycle_id a \<and>
         cy_state_revision cy = expected"
      by (auto simp: list_ex_iff split: if_splits)
    have "and_then (execute_one (update_action lib now c key (a_status a)
           (\<lambda>a. a\<lparr>a_status := Act_Applied, a_readback_cycle_id := Some readback,
                  a_last_error_class := None\<rparr>) db)) (\<lambda>db.
       and_then (ok_or (succ_i64 expected) InvalidInput) (\<lambda>new_revision.
       and_then (execute_one (update_state c (\<lambda>st. st_revision st = expected)
           (applied_state_change (a_action_kind a) paused_on new_revision) db)) (\<lambda>db.
       and_then (insert_audit_event lib \<lparr>
           au_event_key = audit_event_key lib key ''applied'' readback,
           au_cycle_id = readback, au_owner = c,
           au_event_type = ''action_applied'', au_idempotency_key = Some key,
           au_payload_json = to_json_string lib
             (json_object [(''readback_cycle_id'', JString readback)])\<rparr> db) (\<lambda>db.
       Ok ((True, new_revision), db))))) = Inr (x, db')"
      using run shape False by (simp split: if_splits)
    from settle_Ok [OF this] st a shape guards show ?thesis
      by force
  qed
qed

lemma applied_state_change_fields [simp]:
  "st_revision (applied_state_change kind paused_on n st) = n"
  "st_pending_idempotency_key (applied_state_change kind paused_on n st) = None"
  "st_incident_class (applied_state_change kind paused_on n st) = st_incident_class st"
  "st_last_action_at (applied_state_change kind paused_on n st) = st_last_action_at st"
  by (simp_all add: applied_state_change_def split: durable_action_kind.splits)

lemma applied_effect:
  "effect lib c db (snd (mark_applied lib link now c key revision readback paused_on db))"
  unfolding mark_applied_def
proof (rule validated_effect)
  fix expected
  have "effect lib c db db'"
    if "applied_in_transaction lib now c key expected readback paused_on db = Inr (x, db')"
    for x db'
    using applied_in_transaction_Ok [OF that]
  proof (elim disjE exE conjE)
    fix st :: state_row and a a' :: durable_action and evs
    let ?st = "applied_state_change (a_action_kind a) paused_on (expected + 1) st"
    assume run: "state_of db c = Some st" "st_pending_idempotency_key st = Some key"
      "action_of db c key = Some a"
      and trigger: "enforce_action_transition lib now a (a\<lparr>a_status := Act_Applied,
         a_readback_cycle_id := Some readback, a_last_error_class := None\<rparr>) = Some a'"
      and rest: "action_check lib \<lparr>r_owner = c, r_action = a'\<rparr>"
      "enforce_state_transition (put_action a' db) c st ?st" "state_check c ?st"
      and rev: "succ_i64 expected = Some (expected + 1)"
      and db': "db' = (put_state c ?st (put_action a' db))\<lparr>db_audit := evs @ db_audit db\<rparr>"
    have "settles a' st ?st"
      using enforce_action_transition_Some(7) [OF trigger] by (simp add: settles_def)
    then show ?thesis
      using db' rev by (intro settled_effect [OF run trigger rest]) simp_all
  qed (simp add: unchanged)
  then show "effect lib c db (snd (after_commit transition_receipt (transaction link
      (applied_in_transaction lib now c key expected readback paused_on) db)))"
    by (simp add: transaction_effect)
qed

lemma updated_effect:
  assumes "state_of db c = Some st" "st_pending_idempotency_key st = None"
    "st_incident_class st = None" "st_pending_idempotency_key st' = None"
    "enforce_state_transition db c st st'" "state_check c st'"
    "succ_i64 expected = Some (st_revision st')"
    "db' = (put_state c st' db)\<lparr>db_audit := evs @ db_audit db\<rparr>"
  shows "effect lib c db db'"
proof -
  have "moved_to db c st st'"
    using assms(5-7) by (rule moved_toI)
  then show ?thesis
    unfolding assms(8) using assms(1-4) by (intro updated)
qed

lemma incident_in_transaction_Ok:
  assumes "incident_in_transaction lib c cycle_id expected business_date incident_class db
    = Inr (x, db')"
  shows "\<exists>st st' evs. state_of db c = Some st \<and> st_pending_idempotency_key st = None \<and>
      st_incident_class st = None \<and>
      st' = st\<lparr>st_business_date := business_date,
               st_actions_today := (if st_business_date st < business_date then 0
                                    else st_actions_today st),
               st_incident_class := Some incident_class, st_revision := expected + 1\<rparr> \<and>
      enforce_state_transition db c st st' \<and> state_check c st' \<and>
      succ_i64 expected = Some (expected + 1) \<and> x = (True, expected + 1) \<and>
      db' = (put_state c st' db)\<lparr>db_audit := evs @ db_audit db\<rparr>"
  using assms
  by (fastforce simp: incident_in_transaction_def result_elim load_locked_state_summary_def
      split: if_splits dest!: insert_audit_event_Ok)

lemma incident_effect:
  "effect lib c db (snd (mark_incident_without_action lib link c cycle_id revision
     business_date incident_class db))"
  unfolding mark_incident_without_action_def
proof (rule validated_effect)
  fix expected
  have "effect lib c db db'"
    if "incident_in_transaction lib c cycle_id expected business_date incident_class db
      = Inr (x, db')" for x db'
  proof -
    from incident_in_transaction_Ok [OF that] obtain st st' :: state_row and evs where
      "state_of db c = Some st" "st_pending_idempotency_key st = None"
      "st_incident_class st = None"
      and st': "st' = st\<lparr>st_business_date := business_date,
               st_actions_today := (if st_business_date st < business_date then 0
                                    else st_actions_today st),
               st_incident_class := Some incident_class, st_revision := expected + 1\<rparr>"
      and "enforce_state_transition db c st st'" "state_check c st'"
        "succ_i64 expected = Some (expected + 1)"
        "db' = (put_state c st' db)\<lparr>db_audit := evs @ db_audit db\<rparr>"
      by blast
    moreover from this have "st_pending_idempotency_key st' = None"
      "succ_i64 expected = Some (st_revision st')"
      by (simp_all add: st')
    ultimately show ?thesis
      by (rule_tac updated_effect) assumption+
  qed
  then show "effect lib c db (snd (after_commit transition_receipt (transaction link
      (incident_in_transaction lib c cycle_id expected business_date incident_class) db)))"
    by (simp add: transaction_effect)
qed

lemma policy_in_transaction_Ok:
  assumes "policy_in_transaction lib c source target t authorization db = Inr (x, db')"
  shows "\<exists>st. state_of db c = Some st \<and> st_pending_idempotency_key st = None \<and>
    st_incident_class st = None \<and>
    (st_policy_digest st = target \<and> db' = db \<and> x = (False, st_revision st) \<or>
     (\<exists>st' evs. st_policy_digest st = source \<and>
      (\<forall>r \<in> set (db_actions db). r_owner r = c \<longrightarrow> \<not> unresolved_status (a_status (r_action r))) \<and>
      st' = st\<lparr>st_policy_digest := target, st_revision := st_revision st + 1\<rparr> \<and>
      succ_i64 (st_revision st) = Some (st_revision st + 1) \<and> x = (True, st_revision st + 1) \<and>
      enforce_state_transition db c st st' \<and> state_check c st' \<and>
      db' = (put_state c st' db)\<lparr>db_audit := evs @ db_audit db\<rparr>))"
  using assms
  by (fastforce simp: policy_in_transaction_def ensure_protective_live_guard_def result_elim
      list_ex_iff split: if_splits dest!: insert_audit_event_Ok)

lemma policy_effect:
  "effect lib c db (snd (activate_policy_transition_with_authorization lib link c source target
     t authorization db))"
  unfolding activate_policy_transition_with_authorization_def
proof (rule validated_effect)
  have "effect lib c db db'"
    if "policy_in_transaction lib c source target t authorization db = Inr (x, db')" for x db'
  proof (cases "db' = db")
    case False
    with policy_in_transaction_Ok [OF that] obtain st st' :: state_row and evs where
      "state_of db c = Some st" "st_pending_idempotency_key st = None"
      "st_incident_class st = None"
      and st': "st' = st\<lparr>st_policy_digest := target, st_revision := st_revision st + 1\<rparr>"
      and "enforce_state_transition db c st st'" "state_check c st'"
        "succ_i64 (st_revision st) = Some (st_revision st + 1)"
        "db' = (put_state c st' db)\<lparr>db_audit := evs @ db_audit db\<rparr>"
      by blast
    moreover from this have "st_pending_idempotency_key st' = None"
      "succ_i64 (st_revision st) = Some (st_revision st')"
      by (simp_all add: st')
    ultimately show ?thesis
      by (rule_tac updated_effect) assumption+
  qed (simp add: unchanged)
  then show "effect lib c db (snd (after_commit (\<lambda>(changed, revision).
          and_then (ok_or (to_u64 revision) StateChanged) (\<lambda>state_revision.
          Ok \<lparr>tr_changed = changed, tr_state_revision = state_revision\<rparr>))
        (transaction link (policy_in_transaction lib c source target t authorization) db)))"
    by (simp add: transaction_effect)
qed

end
