(* ===== verification/Wb_Store_Inv.thy ===== *)
theory Wb_Store_Inv
  imports Wb_Store_Facts
begin

text \<open>
  The invariant of the automation tables: keys are unique, every row passes its CHECK
  constraints, and a campaign's pending key names its one unresolved action. Every
  \<open>effect\<close> keeps it.
\<close>

section \<open>The table invariant\<close>

definition pending_is_unresolved :: "database \<Rightarrow> campaign_key \<Rightarrow> state_row \<Rightarrow> bool" where
  "pending_is_unresolved db c st \<longleftrightarrow>
     (\<forall>key. st_pending_idempotency_key st = Some key \<longrightarrow>
        (\<exists>a. action_of db c key = Some a \<and> unresolved_status (a_status a) \<and>
             st_last_action_at st = Some (a_reserved_at a)))"

definition row_ok :: "libraries \<Rightarrow> database \<Rightarrow> action_row \<Rightarrow> bool" where
  "row_ok lib db r \<longleftrightarrow>
     action_check lib r \<and>
     (unresolved_status (a_status (r_action r)) \<longrightarrow>
        (\<exists>st. state_of db (r_owner r) = Some st \<and>
              st_pending_idempotency_key st = Some (a_idempotency_key (r_action r)) \<and>
              (a_status (r_action r) = Act_ReconciliationRequired \<longrightarrow>
                 st_incident_class st \<noteq> None)))"

definition state_ok :: "database \<Rightarrow> campaign_key \<Rightarrow> state_row \<Rightarrow> bool" where
  "state_ok db c st \<longleftrightarrow>
     state_check c st \<and> st_revision st < 2 ^ 63 \<and> pending_is_unresolved db c st"

definition store_inv :: "libraries \<Rightarrow> database \<Rightarrow> bool" where
  "store_inv lib db \<longleftrightarrow>
     distinct (map fst (db_states db)) \<and> distinct (action_keys db) \<and>
     (\<forall>c st. state_of db c = Some st \<longrightarrow> state_ok db c st) \<and>
     (\<forall>r \<in> set (db_actions db). row_ok lib db r)"

lemma store_invD:
  assumes "store_inv lib db"
  shows "distinct (map fst (db_states db))" "distinct (action_keys db)"
    "\<And>c st. state_of db c = Some st \<Longrightarrow> state_ok db c st"
    "\<And>r. r \<in> set (db_actions db) \<Longrightarrow> row_ok lib db r"
  using assms by (auto simp: store_inv_def)

lemma store_inv_audit: "store_inv lib (db\<lparr>db_audit := es\<rparr>) = store_inv lib db"
  by (simp add: store_inv_def state_ok_def pending_is_unresolved_def row_ok_def)

lemma store_inv_empty: "store_inv lib \<lparr>db_states = [], db_actions = [], db_cycles = [], db_audit = []\<rparr>"
  by (simp add: store_inv_def state_of_def)

text \<open>
  A change of one campaign's state row and of its action rows keeps the invariant when the
  new rows agree with each other.
\<close>

lemma store_inv_change:
  assumes inv: "store_inv lib db"
    and names: "map fst (db_states db') = map fst (db_states db)" "distinct (action_keys db')"
    and other: "\<And>c'. c' \<noteq> c \<Longrightarrow> state_of db' c' = state_of db c'"
    and rows: "\<And>c' key. c' \<noteq> c \<Longrightarrow> action_of db' c' key = action_of db c' key"
    and mine: "\<And>st. state_of db' c = Some st \<Longrightarrow> state_ok db' c st"
    and acts: "\<And>r. r \<in> set (db_actions db') \<Longrightarrow> r_owner r = c \<Longrightarrow> row_ok lib db' r"
    and acts': "\<And>r. r \<in> set (db_actions db') \<Longrightarrow> r_owner r \<noteq> c \<Longrightarrow> r \<in> set (db_actions db)"
  shows "store_inv lib db'"
  unfolding store_inv_def
proof (intro conjI allI ballI impI)
  show "distinct (map fst (db_states db'))" "distinct (action_keys db')"
    using names store_invD(1) [OF inv] by simp_all
next
  fix k st
  assume st: "state_of db' k = Some st"
  show "state_ok db' k st"
  proof (cases "k = c")
    case True
    with st mine show ?thesis by simp
  next
    case False
    with st other have "state_ok db k st"
      by (auto intro: store_invD(3) [OF inv])
    with False rows show ?thesis
      by (simp add: state_ok_def pending_is_unresolved_def)
  qed
next
  fix r
  assume r: "r \<in> set (db_actions db')"
  show "row_ok lib db' r"
  proof (cases "r_owner r = c")
    case True
    with r acts show ?thesis by simp
  next
    case False
    with r acts' have "row_ok lib db r"
      by (auto intro: store_invD(4) [OF inv])
    with False other show ?thesis
      by (simp add: row_ok_def)
  qed
qed

lemma action_of_row:
  assumes "store_inv lib db" and "r \<in> set (db_actions db)"
  shows "action_of db (r_owner r) (a_idempotency_key (r_action r)) = Some (r_action r)"
proof (rule action_of_mem [OF store_invD(2) [OF assms(1)]])
  have row: "\<lparr>r_owner = r_owner r, r_action = r_action r\<rparr> = r"
    by (cases r) simp
  show "\<lparr>r_owner = r_owner r, r_action = r_action r\<rparr> \<in> set (db_actions db)"
    unfolding row by (rule assms(2))
qed

text \<open>In an invariant database a campaign without a pending key has no unresolved action,
  and one with a pending key has no other.\<close>

lemma unresolved_is_pending:
  assumes "store_inv lib db" and "r \<in> set (db_actions db)" and "r_owner r = c"
    and "unresolved_status (a_status (r_action r))"
  obtains st where "state_of db c = Some st"
    "st_pending_idempotency_key st = Some (a_idempotency_key (r_action r))"
  using store_invD(4) [OF assms(1,2)] assms(3,4) by (auto simp: row_ok_def)

lemma moved_to_state_ok:
  assumes "moved_to db0 c st st'" and "pending_is_unresolved db c st'"
  shows "state_ok db c st'"
  using assms by (simp add: moved_to_def state_ok_def)

lemma effect_reserved_inv:
  assumes inv: "store_inv lib db" and st: "state_of db c = Some st"
    and row: "r_owner r = c" "action_check lib r" "a_status (r_action r) = Act_Reserved"
    and fresh: "\<forall>q \<in> set (db_actions db).
      a_idempotency_key (r_action q) \<noteq> a_idempotency_key (r_action r) \<and>
      (r_owner q = c \<longrightarrow> \<not> unresolved_status (a_status (r_action q)))"
    and st': "st_pending_idempotency_key st' = Some (a_idempotency_key (r_action r))"
      "st_last_action_at st' = Some (a_reserved_at (r_action r))"
      "moved_to (db\<lparr>db_actions := r # db_actions db\<rparr>) c st st'"
  shows "store_inv lib (put_state c st' (db\<lparr>db_actions := r # db_actions db\<rparr>))"
    (is "store_inv lib ?db'")
proof (rule store_inv_change [OF inv, of _ c])
  show "distinct (action_keys ?db')"
    using fresh store_invD(2) [OF inv] by auto
  show "action_of ?db' c' key = action_of db c' key" if "c' \<noteq> c" for c' key
    using that row by (auto simp: action_of_def)
  have mine: "action_of ?db' c (a_idempotency_key (r_action r)) = Some (r_action r)"
    using row by (simp add: action_of_def)
  show "state_ok ?db' c s" if "state_of ?db' c = Some s" for s
  proof -
    from that have s: "s = st'"
      by (auto split: if_splits)
    show ?thesis
      unfolding s using mine st' row
      by (intro moved_to_state_ok [OF st'(3)])
        (simp add: pending_is_unresolved_def unresolved_status_def)
  qed
  show "row_ok lib ?db' q" if q: "q \<in> set (db_actions ?db')" "r_owner q = c" for q
  proof (cases "q = r")
    case True
    with row st st' show ?thesis
      by (simp add: row_ok_def state_of_put_state)
  next
    case False
    with q fresh have "\<not> unresolved_status (a_status (r_action q))" "q \<in> set (db_actions db)"
      by auto
    with store_invD(4) [OF inv this(2)] show ?thesis
      by (simp add: row_ok_def)
  qed
qed (use row in auto)

text \<open>Replacing the pending action of the campaign by its next version.\<close>

lemma replace_pending_inv:
  assumes inv: "store_inv lib db" and st: "state_of db c = Some st"
    and a: "action_of db c (a_idempotency_key a) = Some a"
    and pending: "st_pending_idempotency_key st = Some (a_idempotency_key a)"
    and a': "a_idempotency_key a' = a_idempotency_key a" "action_check lib \<lparr>r_owner = c, r_action = a'\<rparr>"
    and db': "db_actions db' = replace_action a' (db_actions db)"
      "map fst (db_states db') = map fst (db_states db)"
      "\<And>c'. state_of db' c' = (if c' = c then Some st' else state_of db c')"
    and ok: "state_ok db' c st'"
    and agree: "unresolved_status (a_status a') \<Longrightarrow>
      st_pending_idempotency_key st' = Some (a_idempotency_key a) \<and>
      (a_status a' = Act_ReconciliationRequired \<longrightarrow> st_incident_class st' \<noteq> None)"
  shows "store_inv lib db'"
proof (rule store_inv_change [OF inv, of _ c])
  note mem = action_of_memD(2) [OF a]
  have owner: "r_owner q = c"
    if "q \<in> set (db_actions db)" "a_idempotency_key (r_action q) = a_idempotency_key a" for q
    using that mem store_invD(2) [OF inv] by (auto simp: distinct_map inj_on_def)
  show "distinct (action_keys db')"
    using store_invD(2) [OF inv] by (simp add: db')
  have put: "action_of db' = action_of (put_action a' db)"
    by (rule action_of_cong) (simp add: db')
  show "action_of db' c' key = action_of db c' key" if "c' \<noteq> c" for c' key
  proof (cases "action_of db c' key")
    case (Some b)
    from owner [OF action_of_memD(2) [OF this]] action_of_memD(1) [OF this] that a'
    have "key \<noteq> a_idempotency_key a'"
      by auto
    then show ?thesis
      by (simp add: put action_of_put_action)
  qed (auto simp: put action_of_put_action)
  show "state_ok db' c s" if "state_of db' c = Some s" for s
    using that ok by (simp add: db')
  show "r \<in> set (db_actions db)" if "r \<in> set (db_actions db')" "r_owner r \<noteq> c" for r
    using that owner a' by (auto simp: db' replace_action_mem)
  show "row_ok lib db' r" if r: "r \<in> set (db_actions db')" "r_owner r = c" for r
  proof (cases "a_idempotency_key (r_action r) = a_idempotency_key a")
    case True
    with r a' obtain q where "r = q\<lparr>r_action := a'\<rparr>"
      by (auto simp: db' replace_action_mem split: if_splits)
    with r(2) have "r = \<lparr>r_owner = c, r_action = a'\<rparr>"
      by (cases q) auto
    with a' agree show ?thesis
      by (auto simp: row_ok_def db')
  next
    case False
    with r a' have old: "r \<in> set (db_actions db)"
      by (auto simp: db' replace_action_mem split: if_splits)
    have "\<not> unresolved_status (a_status (r_action r))"
      using unresolved_is_pending [OF inv old r(2)] st pending False by auto
    with store_invD(4) [OF inv old] show ?thesis
      by (simp add: row_ok_def)
  qed
qed (use db' in auto)

lemma effect_imported_inv:
  assumes inv: "store_inv lib db" and new: "state_of db c = None"
    and st: "st_pending_idempotency_key st = None" "st_revision st = 1" "state_check c st"
  shows "store_inv lib (db\<lparr>db_states := (c, st) # db_states db\<rparr>)" (is "store_inv lib ?db")
proof -
  have look: "state_of ?db k = (if k = c then Some st else state_of db k)" for k
    by (simp add: state_of_def)
  have "row_ok lib ?db r" if "r \<in> set (db_actions db)" for r
    using store_invD(4) [OF inv that] new look by (auto simp: row_ok_def)
  moreover have "state_ok ?db c st"
    using st by (simp add: state_ok_def pending_is_unresolved_def)
  moreover have "c \<notin> fst ` set (db_states db)"
    using new by (simp add: state_of_def map_of_eq_None_iff)
  ultimately show ?thesis
    using store_invD [OF inv] look
    by (auto simp: store_inv_def state_ok_def pending_is_unresolved_def)
qed

lemma pending_last_action:
  assumes "store_inv lib db" and "state_of db c = Some st"
    and "st_pending_idempotency_key st = Some key" and "action_of db c key = Some a"
  shows "st_last_action_at st = Some (a_reserved_at a)" "unresolved_status (a_status a)"
  using store_invD(3) [OF assms(1,2)] assms(3,4)
  by (auto simp: state_ok_def pending_is_unresolved_def)

lemma effect_progressed_inv:
  assumes inv: "store_inv lib db" and st: "state_of db c = Some st"
    and pending: "st_pending_idempotency_key st = Some (a_idempotency_key a)"
    and a: "action_of db c (a_idempotency_key a) = Some a"
    and trigger: "enforce_action_transition lib now a new = Some a'"
    and status: "a_status a' = Act_WriteStarted \<or> a_status a' = Act_AwaitingReadback"
    and check: "action_check lib \<lparr>r_owner = c, r_action = a'\<rparr>"
  shows "store_inv lib (put_action a' db)"
proof (rule replace_pending_inv [OF inv st a pending _ check])
  note a' = enforce_action_transition_Some [OF trigger]
  show "a_idempotency_key a' = a_idempotency_key a"
    by (rule a')
  have "unresolved_status (a_status a')"
    using status by (auto simp: unresolved_status_def)
  with pending a a' pending_last_action [OF inv st pending a]
  have "pending_is_unresolved (put_action a' db) c st"
    by (simp add: pending_is_unresolved_def action_of_put_action)
  with store_invD(3) [OF inv st] show "state_ok (put_action a' db) c st"
    by (simp add: state_ok_def)
qed (use st status pending in auto)

lemma effect_settled_inv:
  assumes inv: "store_inv lib db" and st: "state_of db c = Some st"
    and pending: "st_pending_idempotency_key st = Some (a_idempotency_key a)"
    and a: "action_of db c (a_idempotency_key a) = Some a"
    and trigger: "enforce_action_transition lib now a new = Some a'" and "settles a' st st'"
    and check: "action_check lib \<lparr>r_owner = c, r_action = a'\<rparr>"
    and moved: "moved_to (put_action a' db) c st st'"
  shows "store_inv lib (put_state c st' (put_action a' db))"
proof (rule replace_pending_inv [OF inv st a pending _ check])
  note a' = enforce_action_transition_Some [OF trigger]
  show "a_idempotency_key a' = a_idempotency_key a"
    by (rule a')
  have "pending_is_unresolved (put_state c st' (put_action a' db)) c st'"
    using pending a a' \<open>settles a' st st'\<close> pending_last_action [OF inv st pending a]
    by (auto simp: pending_is_unresolved_def action_of_put_action settles_def
        unresolved_status_def)
  with moved show "state_ok (put_state c st' (put_action a' db)) c st'"
    by (rule moved_to_state_ok)
  show "st_pending_idempotency_key st' = Some (a_idempotency_key a) \<and>
    (a_status a' = Act_ReconciliationRequired \<longrightarrow> st_incident_class st' \<noteq> None)"
    if "unresolved_status (a_status a')"
    using pending \<open>settles a' st st'\<close> that by (auto simp: settles_def unresolved_status_def)
qed (use st in auto)

lemma effect_updated_inv:
  assumes inv: "store_inv lib db" and st: "state_of db c = Some st"
    and pending: "st_pending_idempotency_key st = None" "st_pending_idempotency_key st' = None"
    and moved: "moved_to db c st st'"
  shows "store_inv lib (put_state c st' db)"
proof (rule store_inv_change [OF inv, of _ c])
  show "distinct (action_keys (put_state c st' db))"
    using store_invD(2) [OF inv] by simp
  show "state_ok (put_state c st' db) c s" if "state_of (put_state c st' db) c = Some s" for s
    using that pending moved_to_state_ok [OF moved] by (auto simp: pending_is_unresolved_def)
  show "row_ok lib (put_state c st' db) r"
    if "r \<in> set (db_actions (put_state c st' db))" "r_owner r = c" for r
    using store_invD(4) [OF inv, of r] that st pending by (auto simp: row_ok_def)
qed auto

lemma effect_inv:
  assumes "effect lib c db db'" and inv: "store_inv lib db"
  shows "store_inv lib db'"
  using assms(1)
proof (cases rule: effect.cases)
  case (observed cy)
  with inv show ?thesis
    by (simp add: store_inv_def state_ok_def pending_is_unresolved_def row_ok_def)
next
  case (reserved st r st' evs)
  then show ?thesis
    using effect_reserved_inv [OF inv reserved(2,5-7), of st'] by (simp add: store_inv_audit)
next
  case (progressed st a now new a' evs)
  then show ?thesis
    using effect_progressed_inv [OF inv progressed(2-7)] by (simp add: store_inv_audit)
next
  case (settled st a now new a' st' evs)
  then show ?thesis
    using effect_settled_inv [OF inv settled(2-8)] by (simp add: store_inv_audit)
next
  case (updated st st' evs)
  then show ?thesis
    using effect_updated_inv [OF inv updated(2,3,5,6)] by (simp add: store_inv_audit)
qed (use inv effect_imported_inv in simp_all)

end
