(* ===== verification/Wb_Store_Steps.thy ===== *)
theory Wb_Store_Steps
  imports Wb_Store_Inv
begin

text \<open>
  The runs of the durable store. \<open>store_operation\<close> is the contract every operation of the
  store meets: whatever its arguments, the clock and the fate of the connection, one call
  has one \<open>effect\<close> on one campaign. What follows from the contract is proved once, inside
  it, and each operation is an instance. \<open>store_step\<close> is one call of any operation by any
  process on any campaign.
\<close>


section \<open>What an effect leaves alone and how it moves a row\<close>

lemma enforce_state_cong:
  assumes "db_actions db = db_actions db'"
  shows "enforce_state_transition db = enforce_state_transition db'"
  unfolding enforce_state_transition_def clears_pause_lawfully_def pending_transition_ok_def
    action_of_cong [OF assms] ..

lemma effect_states:
  assumes "effect lib c db db'" and "state_of db k = Some st"
  shows "\<exists>st'. state_of db' k = Some st' \<and>
    (st' = st \<or> k = c \<and> enforce_state_transition db' c st st')"
  using assms(1)
proof (cases rule: effect.cases)
  case (reserved st0 r st' evs)
  then have "enforce_state_transition db' c st0 st'"
    using enforce_state_cong [of db' "db\<lparr>db_actions := r # db_actions db\<rparr>"]
    by (simp add: moved_to_def)
  with reserved assms(2) show ?thesis
    by auto
next
  case (settled st0 a now new a' st' evs)
  then have "enforce_state_transition db' c st0 st'"
    using enforce_state_cong [of db' "put_action a' db"] by (simp add: moved_to_def)
  with settled assms(2) show ?thesis
    by auto
next
  case (updated st0 st' evs)
  then have "enforce_state_transition db' c st0 st'"
    using enforce_state_cong [of db' db] by (simp add: moved_to_def)
  with updated assms(2) show ?thesis
    by auto
next
  case (imported st0)
  with assms(2) show ?thesis
    by (auto simp: state_of_def)
qed (use assms(2) in auto)

lemma action_of_unique:
  assumes "store_inv lib db" and "action_of db c key = Some a" and "action_of db k key = Some b"
  shows "k = c" "b = a"
proof -
  note mem = action_of_memD [OF assms(2)] action_of_memD [OF assms(3)]
  with store_invD(2) [OF assms(1)]
  have "\<lparr>r_owner = c, r_action = a\<rparr> = \<lparr>r_owner = k, r_action = b\<rparr>"
    by (intro inj_onD [where f = "\<lambda>r. a_idempotency_key (r_action r)"])
      (auto simp: distinct_map)
  then show "k = c" "b = a"
    by simp_all
qed

lemma enforce_same_identity:
  "enforce_action_transition lib now a new = Some a' \<Longrightarrow> same_identity lib a' a"
  by (auto simp: enforce_action_transition_def same_identity_def
      split: if_splits durable_action_status.splits)

lemma action_of_replaced:
  assumes "store_inv lib db" and "action_of db c (a_idempotency_key b) = Some b"
    and "enforce_action_transition lib now b new = Some b'" and "action_of db k key = Some a"
    and "db_actions db' = replace_action b' (db_actions db)"
  shows "\<exists>a'. action_of db' k key = Some a' \<and>
    (a' = a \<or> status_edge (a_status a) (a_status a') \<and> same_identity lib a' a)"
proof -
  have put: "action_of db' = action_of (put_action b' db)"
    by (rule action_of_cong) (simp add: assms)
  note b' = enforce_action_transition_Some(1) [OF assms(3)]
  show ?thesis
  proof (cases "key = a_idempotency_key b")
    case True
    with action_of_unique [OF assms(1,2)] assms(4) have "a = b"
      by simp
    with True assms(4) b' show ?thesis
      using enforce_action_transition_edge [OF assms(3)] enforce_same_identity [OF assms(3)]
      by (simp add: put action_of_put_action)
  next
    case False
    with assms(4) b' show ?thesis
      by (simp add: put action_of_put_action)
  qed
qed

lemma effect_actions:
  assumes "effect lib c db db'" and "store_inv lib db" and "action_of db k key = Some a"
  shows "\<exists>a'. action_of db' k key = Some a' \<and>
    (a' = a \<or> status_edge (a_status a) (a_status a') \<and> same_identity lib a' a)"
  using assms(1)
proof (cases rule: effect.cases)
  case (reserved st r st' evs)
  have "a_idempotency_key (r_action r) \<noteq> key"
    using reserved(8) action_of_memD [OF assms(3)] by force
  then have "action_of db' k key = action_of db k key"
    by (simp add: reserved action_of_def)
  with assms(3) show ?thesis
    by simp
next
  case (progressed st b now new b' evs)
  then show ?thesis
    by (intro action_of_replaced [OF assms(2) progressed(4,5) assms(3)]) simp
next
  case (settled st b now new b' st' evs)
  then show ?thesis
    by (intro action_of_replaced [OF assms(2) settled(4,5) assms(3)]) simp
qed (use assms(3) in auto)

lemma effect_history:
  assumes "effect lib c db db'"
  shows "set (db_audit db) \<subseteq> set (db_audit db')" "set (db_cycles db) \<subseteq> set (db_cycles db')"
  using assms by (cases rule: effect.cases; force)+


section \<open>The contract of an operation\<close>

definition forward :: "state_row \<Rightarrow> state_row \<Rightarrow> bool" where
  "forward st st' \<longleftrightarrow>
     st_revision st \<le> st_revision st' \<and>
     (st_revision st' = st_revision st \<longrightarrow> st' = st) \<and>
     st_business_date st \<le> st_business_date st' \<and>
     st_imported_legacy_digest st' = st_imported_legacy_digest st \<and>
     (\<forall>e. st_incident_class st = Some e \<longrightarrow> st_incident_class st' = Some e) \<and>
     (\<forall>t. st_last_action_at st = Some t \<longrightarrow> (\<exists>t'. st_last_action_at st' = Some t' \<and> t \<le> t'))"

lemma forward_refl [simp]: "forward st st"
  by (simp add: forward_def)

lemma forward_trans [trans]: "forward st st' \<Longrightarrow> forward st' st'' \<Longrightarrow> forward st st''"
  unfolding forward_def by (intro conjI; (force dest: order.trans)?)

lemma enforce_forward: "enforce_state_transition db c st st' \<Longrightarrow> forward st st'"
  by (auto simp: enforce_state_transition_def forward_def split: option.splits)

locale store_operation =
  fixes lib :: libraries and c :: campaign_key and run :: "database \<Rightarrow> database"
  assumes has_effect: "effect lib c db (run db)"
begin

lemma keeps_inv: "store_inv lib db \<Longrightarrow> store_inv lib (run db)"
  by (rule effect_inv [OF has_effect])

lemma moves_forward:
  assumes "state_of db k = Some st"
  obtains st' where "state_of (run db) k = Some st'" "forward st st'"
  using effect_states [OF has_effect assms] by (auto dest: enforce_forward)

lemma isolates: "k \<noteq> c \<Longrightarrow> state_of db k = Some st \<Longrightarrow> state_of (run db) k = Some st"
  using effect_states [OF has_effect] by blast

lemma history_grows:
  "set (db_audit db) \<subseteq> set (db_audit (run db))" "set (db_cycles db) \<subseteq> set (db_cycles (run db))"
  using effect_history [OF has_effect] by simp_all

end

interpretation initialize: store_operation lib c "\<lambda>db. snd (initialize_from_legacy link c seed db)"
  for lib c link seed
  by unfold_locales (rule initialize_effect)

interpretation persist: store_operation lib c
  "\<lambda>db. snd (persist_shadow_cycle lib link c cycle_id policy_digest observed_at business_date
     revision snapshot_json decision_json db)"
  for lib c link cycle_id policy_digest observed_at business_date revision snapshot_json
    decision_json
  by unfold_locales (rule persist_effect)

interpretation reserve: store_operation lib c
  "\<lambda>db. snd (reserve_action_with_quota_override lib link now c r authorization db)"
  for lib c link now r authorization
  by unfold_locales (rule reserve_effect)

interpretation write_started: store_operation lib c
  "\<lambda>db. snd (mark_write_started lib link now c key revision db)"
  for lib c link now key revision
  by unfold_locales (simp add: mark_write_started_def transition_effect)

interpretation awaiting: store_operation lib c
  "\<lambda>db. snd (mark_awaiting_readback lib link now c key revision db)"
  for lib c link now key revision
  by unfold_locales (simp add: mark_awaiting_readback_def transition_effect)

interpretation resolve: store_operation lib c
  "\<lambda>db. snd (resolve_without_write lib link now c key revision error_class k db)"
  for lib c link now key revision error_class k
  by unfold_locales (rule resolve_effect)

interpretation incident: store_operation lib c
  "\<lambda>db. snd (mark_incident_without_action lib link c cycle_id revision business_date
     incident_class db)"
  for lib c link cycle_id revision business_date incident_class
  by unfold_locales (rule incident_effect)

interpretation applied: store_operation lib c
  "\<lambda>db. snd (mark_applied lib link now c key revision readback paused_on db)"
  for lib c link now key revision readback paused_on
  by unfold_locales (rule applied_effect)

interpretation policy: store_operation lib c
  "\<lambda>db. snd (activate_policy_transition_with_authorization lib link c source target t
     authorization db)"
  for lib c link source target t authorization
  by unfold_locales (rule policy_effect)


section \<open>Runs\<close>

inductive store_step :: "libraries \<Rightarrow> database \<Rightarrow> database \<Rightarrow> bool" for lib :: libraries where
  step_initialize: "store_step lib db (snd (initialize_from_legacy link c seed db))"
| step_persist:
    "store_step lib db (snd (persist_shadow_cycle lib link c cycle_id policy_digest observed_at
       business_date revision snapshot_json decision_json db))"
| step_reserve: "store_step lib db (snd (reserve_action lib link now c r db))"
| step_override:
    "store_step lib db
       (snd (reserve_explicit_quota_override_action lib link now c r reference db))"
| step_write_started: "store_step lib db (snd (mark_write_started lib link now c key revision db))"
| step_awaiting: "store_step lib db (snd (mark_awaiting_readback lib link now c key revision db))"
| step_cancel:
    "store_step lib db (snd (cancel_reserved lib link now c key revision error_class db))"
| step_not_sent: "store_step lib db (snd (cancel_not_sent lib link now c key revision db))"
| step_reconciliation:
    "store_step lib db
       (snd (mark_reconciliation_required lib link now c key revision error_class db))"
| step_incident:
    "store_step lib db (snd (mark_incident_without_action lib link c cycle_id revision
       business_date incident_class db))"
| step_applied:
    "store_step lib db (snd (mark_applied lib link now c key revision readback paused_on db))"
| step_policy:
    "store_step lib db (snd (activate_policy_transition_with_authorization lib link c source
       target t authorization db))"

lemma store_step_effect: "store_step lib db db' \<Longrightarrow> \<exists>c. effect lib c db db'"
proof (induction rule: store_step.induct)
  case (step_reserve db link now c r)
  then show ?case
    unfolding reserve_action_def using reserve.has_effect by blast
next
  case (step_override db link now c r reference)
  then show ?case
    using override_effect by blast
next
  case (step_cancel db link now c key revision error_class)
  then show ?case
    unfolding cancel_reserved_def using resolve.has_effect by blast
next
  case (step_not_sent db link now c key revision)
  then show ?case
    unfolding cancel_not_sent_def using resolve.has_effect by blast
next
  case (step_reconciliation db link now c key revision error_class)
  then show ?case
    unfolding mark_reconciliation_required_def using resolve.has_effect by blast
qed (blast intro: initialize.has_effect persist.has_effect write_started.has_effect
    awaiting.has_effect incident.has_effect applied.has_effect policy.has_effect)+

definition empty_database :: database where
  "empty_database = \<lparr>db_states = [], db_actions = [], db_cycles = [], db_audit = []\<rparr>"

definition initial_database :: "database \<Rightarrow> bool" where
  "initial_database db \<longleftrightarrow> db = empty_database"

interpretation tables: inductive_invariant initial_database "store_step lib" "store_inv lib"
  for lib
proof unfold_locales
  show "store_inv lib db" if "initial_database db" for db
    using that store_inv_empty by (simp add: initial_database_def empty_database_def)
  show "store_inv lib db'" if "store_inv lib db" and "store_step lib db db'" for db db'
    using effect_inv that store_step_effect by blast
qed

end
