(* ===== verification/Wb_Store_Samples.thy ===== *)
theory Wb_Store_Samples
  imports Wb_Store_Steps
begin

text \<open>
  A concrete instance of the library parameters and a short run of the store on one
  campaign, at which the properties of the store are witnessed.
\<close>

definition digest_of_digit :: "char \<Rightarrow> string" where
  "digest_of_digit d = replicate 64 d"

definition sample_request :: string where
  "sample_request = ''{change}''"

definition sample_from_str :: "string \<Rightarrow> json option" where
  "sample_from_str s =
     (if s = ''{}'' then Some (JObject [])
      else if s = sample_request
      then Some (JObject [(''changes'', JArray [JNull]), (''kind'', JString ''change_bids'')])
      else None)"

text \<open>A digest for examples: the number of bytes in two hexadecimal digits.\<close>

definition hex_digit_of :: "int \<Rightarrow> char" where
  "hex_digit_of n = (if n < 10 then char_of (48 + n) else char_of (87 + n))"

definition sample_sha256_hex :: "string \<Rightarrow> string" where
  "sample_sha256_hex s = replicate 62 (CHR ''0'') @
     [hex_digit_of (str_len s div 16 mod 16), hex_digit_of (str_len s mod 16)]"

definition sample_lib :: libraries where
  "sample_lib = \<lparr>from_str = sample_from_str, to_json_string = (\<lambda>_. ''{}''),
     jsonb = sample_from_str, sha256_hex = sample_sha256_hex, rfc3339 = (\<lambda>_. [])\<rparr>"

definition sample_campaign :: campaign_key where
  "sample_campaign = (''acct'', 7)"

definition sample_seed :: legacy_state_seed where
  "sample_seed = \<lparr>sd_policy_digest = digest_of_digit (CHR ''a''), sd_business_date = 0,
     sd_actions_today = 0, sd_last_action_at = None, sd_paused_for_daily_cap_on = None,
     sd_incident_class = None, sd_legacy_digest = digest_of_digit (CHR ''b'')\<rparr>"

definition sample_reservation :: action_reservation where
  "sample_reservation = \<lparr>rs_idempotency_key = digest_of_digit (CHR ''c''),
     rs_cycle_id = digest_of_digit (CHR ''1''),
     rs_policy_digest = digest_of_digit (CHR ''a''),
     rs_request_digest = digest_of_digit (CHR ''e''), rs_action_kind = Kind_ChangeBids,
     rs_request_json = sample_request, rs_business_date = 0,
     rs_expected_state_revision = 1, rs_max_actions_per_day = 1\<rparr>"

definition db_imported :: database where
  "db_imported = snd (initialize_from_legacy Connected sample_campaign sample_seed empty_database)"

definition db_observed :: database where
  "db_observed = snd (persist_shadow_cycle sample_lib Connected sample_campaign
     (digest_of_digit (CHR ''1'')) (digest_of_digit (CHR ''a'')) 0 0 1 ''{}'' ''{}'' db_imported)"

definition db_reserved :: database where
  "db_reserved = snd (reserve_action sample_lib Connected 10 sample_campaign sample_reservation
     db_observed)"

definition db_started :: database where
  "db_started = snd (mark_write_started sample_lib Connected 20 sample_campaign
     (digest_of_digit (CHR ''c'')) 2 db_reserved)"

text \<open>The tables along the run, evaluated once.\<close>

definition sample_cycle :: "char \<Rightarrow> instant \<Rightarrow> int \<Rightarrow> cycle_row" where
  "sample_cycle d observed_at revision = \<lparr>cy_cycle_id = digest_of_digit d,
     cy_owner = sample_campaign, cy_policy_digest = digest_of_digit (CHR ''a''),
     cy_observed_at = observed_at, cy_business_date = 0, cy_state_revision = revision,
     cy_snapshot_json = ''{}'', cy_decision_json = ''{}''\<rparr>"

definition sample_audit :: "string \<Rightarrow> string \<Rightarrow> audit_row" where
  "sample_audit suffix event_type = \<lparr>
     au_event_key = audit_event_key sample_lib (digest_of_digit (CHR ''c'')) suffix [],
     au_cycle_id = digest_of_digit (CHR ''1''), au_owner = sample_campaign,
     au_event_type = event_type, au_idempotency_key = Some (digest_of_digit (CHR ''c'')),
     au_payload_json = ''{}''\<rparr>"

definition reserved_sample_state :: state_row where
  "reserved_sample_state = (seed_row sample_seed)\<lparr>st_actions_today := 1,
     st_last_action_at := Some 10,
     st_pending_idempotency_key := Some (digest_of_digit (CHR ''c'')), st_revision := 2\<rparr>"

definition started_action :: durable_action where
  "started_action = (r_action (reserved_row 10 sample_campaign sample_reservation))
     \<lparr>a_status := Act_WriteStarted, a_write_started_at := Some 20\<rparr>"

lemma db_imported_code [code]:
  "db_imported = \<lparr>db_states = [(sample_campaign, seed_row sample_seed)], db_actions = [],
     db_cycles = [], db_audit = []\<rparr>"
  by code_simp

lemma db_observed_code [code]:
  "db_observed = \<lparr>db_states = [(sample_campaign, seed_row sample_seed)], db_actions = [],
     db_cycles = [sample_cycle (CHR ''1'') 0 1], db_audit = []\<rparr>"
  by code_simp

lemma db_reserved_code [code]:
  "db_reserved = \<lparr>db_states = [(sample_campaign, reserved_sample_state)],
     db_actions = [reserved_row 10 sample_campaign sample_reservation],
     db_cycles = [sample_cycle (CHR ''1'') 0 1],
     db_audit = [sample_audit ''reserved'' ''action_reserved'']\<rparr>"
  by code_simp

lemma db_started_code [code]:
  "db_started = \<lparr>db_states = [(sample_campaign, reserved_sample_state)],
     db_actions = [\<lparr>r_owner = sample_campaign, r_action = started_action\<rparr>],
     db_cycles = [sample_cycle (CHR ''1'') 0 1],
     db_audit = [sample_audit ''write_started'' ''write_started'',
                 sample_audit ''reserved'' ''action_reserved'']\<rparr>"
  by code_simp

lemma reach_imported: "reach initial_database (store_step lib) db_imported"
  unfolding db_imported_def
  by (rule reach_step [OF reach_init [of initial_database empty_database]])
    (simp_all add: initial_database_def step_initialize)

lemma reach_observed: "reach initial_database (store_step sample_lib) db_observed"
  unfolding db_observed_def by (rule reach_step [OF reach_imported step_persist])

lemma reach_reserved: "reach initial_database (store_step sample_lib) db_reserved"
  unfolding db_reserved_def by (rule reach_step [OF reach_observed step_reserve])

lemma reach_started: "reach initial_database (store_step sample_lib) db_started"
  unfolding db_started_def by (rule reach_step [OF reach_reserved step_write_started])

lemma steps_started: "steps (store_step sample_lib) db_reserved db_started"
  unfolding db_started_def
  by (rule steps_step [OF steps_refl [of "store_step sample_lib" db_reserved]])
    (rule step_write_started)

lemma started_actions:
  "db_actions db_started = [\<lparr>r_owner = sample_campaign, r_action = started_action\<rparr>]"
  by (simp add: db_started_code)

definition db_readback :: database where
  "db_readback = snd (persist_shadow_cycle sample_lib Connected sample_campaign
     (digest_of_digit (CHR ''2'')) (digest_of_digit (CHR ''a'')) 100 0 2 ''{}'' ''{}'' db_started)"

lemma db_readback_code [code]:
  "db_readback = db_started\<lparr>db_cycles :=
     [sample_cycle (CHR ''2'') 100 2, sample_cycle (CHR ''1'') 0 1]\<rparr>"
  by code_simp

text \<open>The same campaign imported with its daily quota of one action used up.\<close>

definition db_exhausted :: database where
  "db_exhausted = snd (persist_shadow_cycle sample_lib Connected sample_campaign
     (digest_of_digit (CHR ''1'')) (digest_of_digit (CHR ''a'')) 0 0 1 ''{}'' ''{}''
     (snd (initialize_from_legacy Connected sample_campaign
        (sample_seed\<lparr>sd_actions_today := 1\<rparr>) empty_database)))"

lemma db_exhausted_code [code]:
  "db_exhausted = db_observed\<lparr>db_states :=
     [(sample_campaign, (seed_row sample_seed)\<lparr>st_actions_today := 1\<rparr>)]\<rparr>"
  by code_simp

lemma ran:
  assumes "case fst out of Inl _ \<Rightarrow> False | Inr x \<Rightarrow> P x"
  obtains x where "out = (Inr x, snd out)" "P x"
  using assms by (cases out) (auto split: sum.splits)

end
