(* ===== verification/Wb_Store_Correct.thy ===== *)
theory Wb_Store_Correct
  imports Wb_Store_Samples
begin

text \<open>
  The properties of the durable store: what holds of the tables in every reachable state,
  how a campaign and an action may move, and what each operation promises its caller.
\<close>


section \<open>Reachable tables\<close>

text \<open>
  C4. In every reachable state of the tables, whatever operations ran on whatever
  campaigns and however their connections ended, a campaign has at most one unresolved
  action; its state row names that action as pending, with the instant of its reservation
  as the last action; a campaign whose row names no pending action has none; and an action
  that needs reconciliation has its campaign locked by an incident.
\<close>

theorem one_unresolved_action:
  assumes "reach initial_database (store_step lib) db"
  shows "(\<forall>q \<in> set (db_actions db). \<forall>r \<in> set (db_actions db).
            r_owner q = r_owner r \<and> unresolved_status (a_status (r_action q)) \<and>
            unresolved_status (a_status (r_action r)) \<longrightarrow> q = r) \<and>
    (\<forall>r \<in> set (db_actions db). unresolved_status (a_status (r_action r)) \<longrightarrow>
       (\<exists>st. state_of db (r_owner r) = Some st \<and>
          st_pending_idempotency_key st = Some (a_idempotency_key (r_action r)) \<and>
          st_last_action_at st = Some (a_reserved_at (r_action r)) \<and>
          (a_status (r_action r) = Act_ReconciliationRequired \<longrightarrow> st_incident_class st \<noteq> None))) \<and>
    (\<forall>c st key. state_of db c = Some st \<and> st_pending_idempotency_key st = Some key \<longrightarrow>
       (\<exists>a. action_of db c key = Some a \<and> unresolved_status (a_status a)))"
proof (intro conjI)
  note inv = tables.reach_inv [OF assms]
  show "\<forall>q \<in> set (db_actions db). \<forall>r \<in> set (db_actions db).
      r_owner q = r_owner r \<and> unresolved_status (a_status (r_action q)) \<and>
      unresolved_status (a_status (r_action r)) \<longrightarrow> q = r"
  proof (intro ballI impI, elim conjE)
    fix q r
    assume rows: "q \<in> set (db_actions db)" "r \<in> set (db_actions db)" "r_owner q = r_owner r"
      and open_rows: "unresolved_status (a_status (r_action q))"
        "unresolved_status (a_status (r_action r))"
    with unresolved_is_pending [OF inv rows(1,3)] unresolved_is_pending [OF inv rows(2) refl]
    have "a_idempotency_key (r_action q) = a_idempotency_key (r_action r)"
      by (metis option.sel)
    with rows store_invD(2) [OF inv] show "q = r"
      by (simp add: distinct_map inj_on_def)
  qed
  show "\<forall>r \<in> set (db_actions db). unresolved_status (a_status (r_action r)) \<longrightarrow>
      (\<exists>st. state_of db (r_owner r) = Some st \<and>
         st_pending_idempotency_key st = Some (a_idempotency_key (r_action r)) \<and>
         st_last_action_at st = Some (a_reserved_at (r_action r)) \<and>
         (a_status (r_action r) = Act_ReconciliationRequired \<longrightarrow> st_incident_class st \<noteq> None))"
  proof (intro ballI impI)
    fix r
    assume r: "r \<in> set (db_actions db)" "unresolved_status (a_status (r_action r))"
    then obtain st where "state_of db (r_owner r) = Some st"
        "st_pending_idempotency_key st = Some (a_idempotency_key (r_action r))"
        "a_status (r_action r) = Act_ReconciliationRequired \<longrightarrow> st_incident_class st \<noteq> None"
      using store_invD(4) [OF inv r(1)] by (auto simp: row_ok_def)
    with pending_last_action(1) [OF inv this(1,2) action_of_row [OF inv r(1)]]
    show "\<exists>st. state_of db (r_owner r) = Some st \<and>
         st_pending_idempotency_key st = Some (a_idempotency_key (r_action r)) \<and>
         st_last_action_at st = Some (a_reserved_at (r_action r)) \<and>
         (a_status (r_action r) = Act_ReconciliationRequired \<longrightarrow> st_incident_class st \<noteq> None)"
      by blast
  qed
  show "\<forall>c st key. state_of db c = Some st \<and> st_pending_idempotency_key st = Some key \<longrightarrow>
      (\<exists>a. action_of db c key = Some a \<and> unresolved_status (a_status a))"
    using store_invD(3) [OF inv] unfolding state_ok_def pending_is_unresolved_def by blast
qed

theorem one_unresolved_action_witness:
  "\<exists>st. state_of db_started sample_campaign = Some st \<and>
     st_pending_idempotency_key st = Some (digest_of_digit (CHR ''c'')) \<and>
     st_last_action_at st = Some 10"
  using one_unresolved_action [OF reach_started] started_actions
  by (simp add: unresolved_status_def started_action_def reserved_row_def sample_reservation_def)

text \<open>
  Along every run, a campaign row is never removed and only moves forward: its revision
  grows with every change, its business date and its last action never go back, an
  incident once recorded stays for ever, and the digest of the imported legacy state is
  never changed.
\<close>

theorem campaign_moves_forward:
  assumes "reach initial_database (store_step lib) db" and "steps (store_step lib) db db'"
    and "state_of db c = Some st"
  shows "\<exists>st'. state_of db' c = Some st' \<and> forward st st'"
proof (rule tables.stable_reachable [OF assms(1,2), where P = "\<lambda>db. \<exists>st'. state_of db c = Some st' \<and> forward st st'"])
  fix s t
  assume "\<exists>st'. state_of s c = Some st' \<and> forward st st'" and "store_step lib s t"
  then obtain k st' where "effect lib k s t" "state_of s c = Some st'" "forward st st'"
    using store_step_effect by blast
  with effect_states [OF this(1,2)] show "\<exists>st'. state_of t c = Some st' \<and> forward st st'"
    by (auto dest: enforce_forward forward_trans)
qed (use assms(3) in simp)

theorem campaign_moves_forward_witness:
  "\<exists>st st'. state_of db_reserved sample_campaign = Some st \<and>
     state_of db_started sample_campaign = Some st' \<and> forward st st'"
proof -
  note steps_started
  moreover have "state_of db_reserved sample_campaign \<noteq> None"
    by code_simp
  ultimately show ?thesis
    using campaign_moves_forward [OF reach_reserved] by blast
qed

text \<open>
  C26. Along every run, a recorded action is never removed and keeps its identity (key,
  cycle, policy, request and reservation time); its status moves only along the edges of
  the reviewed state machine, so an action that is applied or cancelled is final and an
  action whose write has started never returns to the reserved state.
\<close>

theorem action_lifecycle:
  assumes "reach initial_database (store_step lib) db" and "steps (store_step lib) db db'"
    and "action_of db c key = Some a"
  shows "\<exists>a'. action_of db' c key = Some a' \<and> status_edge\<^sup>*\<^sup>* (a_status a) (a_status a') \<and>
    a_cycle_id a' = a_cycle_id a \<and> a_policy_digest a' = a_policy_digest a \<and>
    a_request_digest a' = a_request_digest a \<and> a_action_kind a' = a_action_kind a \<and>
    a_reserved_at a' = a_reserved_at a \<and>
    (\<not> unresolved_status (a_status a) \<longrightarrow> a' = a)"
    (is "?P db'")
proof (rule tables.stable_reachable [OF assms(1,2), where P = ?P])
  fix s t
  assume inv: "store_inv lib s" and "?P s" and "store_step lib s t"
  then obtain k b where eff: "effect lib k s t" and b: "action_of s c key = Some b"
      "status_edge\<^sup>*\<^sup>* (a_status a) (a_status b)"
      "a_cycle_id b = a_cycle_id a" "a_policy_digest b = a_policy_digest a"
      "a_request_digest b = a_request_digest a" "a_action_kind b = a_action_kind a"
      "a_reserved_at b = a_reserved_at a" "\<not> unresolved_status (a_status a) \<longrightarrow> b = a"
    using store_step_effect by blast
  obtain b' where b': "action_of t c key = Some b'"
      "b' = b \<or> status_edge (a_status b) (a_status b') \<and> same_identity lib b' b"
    using effect_actions [OF eff inv b(1)] by blast
  have final: "unresolved_status s" if "status_edge s s'" for s s'
    using that by (auto simp: status_edge_def unresolved_status_def)
  show "?P t"
  proof (cases "b' = b")
    case True
    with b b' show ?thesis by blast
  next
    case False
    with b' b final have "status_edge\<^sup>*\<^sup>* (a_status a) (a_status b')" "unresolved_status (a_status a)"
      by (auto intro: rtranclp.rtrancl_into_rtrancl)
    with b b' False show ?thesis
      by (auto simp: same_identity_def)
  qed
qed (use assms(3) in simp)

theorem action_lifecycle_witness:
  "\<exists>a a'. action_of db_reserved sample_campaign (digest_of_digit (CHR ''c'')) = Some a \<and>
     action_of db_started sample_campaign (digest_of_digit (CHR ''c'')) = Some a' \<and>
     status_edge\<^sup>*\<^sup>* (a_status a) (a_status a')"
proof -
  note steps_started
  moreover have "action_of db_reserved sample_campaign (digest_of_digit (CHR ''c'')) \<noteq> None"
    by code_simp
  ultimately show ?thesis
    using action_lifecycle [OF reach_reserved] by blast
qed

end
