(* ===== verification/Wb_Store_Ops.thy ===== *)
theory Wb_Store_Ops
  imports Wb_Store_Samples
begin

text \<open>
  What each operation of the durable store promises its caller: the guards a reservation
  has passed, the quota, the single use of an override authorization, and that a call whose
  reply was lost can be repeated.
\<close>


section \<open>Successful calls\<close>

lemma to_u64_Some [result_elim]: "to_u64 r = Some w \<longleftrightarrow> 0 \<le> r \<and> r < 2 ^ 64 \<and> w = word_of_int r"
  by (auto simp: to_u64_def)

lemma uint_to_u64: "to_u64 r = Some w \<Longrightarrow> uint w = r"
  by (simp add: to_u64_Some unsigned_of_int take_bit_int_eq_self)

lemma to_u64_uint [simp]: "to_u64 (uint w) = Some w"
  using unsigned_less [of w, where ?'a = int] by (simp add: to_u64_def)

lemma validate_digest_valid: "hex_digest s \<Longrightarrow> validate_digest s = Ok ()"
  by (simp add: validate_digest_Ok)

lemma validated_Ok [result_elim]:
  "validated check run db = (Inr x, db') \<longleftrightarrow> (\<exists>v. check = Inr v \<and> run v db = (Inr x, db'))"
  by (cases check) (simp_all add: validated_def)

lemma after_commit_Ok [result_elim]:
  "after_commit f out = (Inr y, db') \<longleftrightarrow> (\<exists>x. out = (Inr x, db') \<and> f x = Inr y)"
  by (cases out) (auto simp: after_commit_def and_then_Ok)

lemma reserve_Ok:
  assumes "reserve_action_with_quota_override lib link now c r authorization db = (Inr rec, db')"
  shows "link = Connected" "validate_reservation lib r = Inr ()"
    "reserve_in_transaction lib now c r authorization (uint (rs_expected_state_revision r))
       (uint (rs_max_actions_per_day r)) db =
       Inr ((rr_inserted rec, uint (rr_state_revision rec), rr_action rec), db')"
    "uint (rs_expected_state_revision r) < 2 ^ 63"
    "uint (rs_max_actions_per_day r) < 2 ^ 31"
  using assms
  by (auto simp: reserve_action_with_quota_override_def result_elim transaction_Ok uint_to_u64
      unsigned_of_int take_bit_int_eq_self split: if_splits)

lemma reserve_in_transaction_Ok:
  assumes "reserve_in_transaction lib now c r authorization expected max_actions db =
    Inr ((inserted, revision, a), db')"
  obtains (replay) st where "\<not> inserted" "db' = db" "state_of db c = Some st"
      "st_pending_idempotency_key st = Some (rs_idempotency_key r)" "revision = st_revision st"
      "action_of db c (rs_idempotency_key r) = Some a" "action_matches_reservation lib a r"
  | (fresh) st where "state_of db c = Some st" "st_revision st = expected"
      "st_policy_digest st = rs_policy_digest r" "st_pending_idempotency_key st = None"
      "st_incident_class st = None" "st_business_date st \<le> rs_business_date r"
      "\<not> quota_refuses authorization (actions_before r st) max_actions"
      "\<exists>cy \<in> set (db_cycles db). cy_cycle_id cy = rs_cycle_id r \<and> cy_owner cy = c \<and>
         cy_policy_digest cy = rs_policy_digest r \<and> cy_business_date cy = rs_business_date r \<and>
         cy_state_revision cy = expected"
      "reserve_new lib now c r authorization expected max_actions (actions_before r st) db =
         Inr ((inserted, revision, a), db')"
proof -
  obtain st where st: "state_of db c = Some st"
    using assms by (auto simp: reserve_in_transaction_def and_then_Ok ok_or_Ok)
  note run = assms [unfolded reserve_in_transaction_def st ok_or_simps and_then_simps]
  show thesis
  proof (cases "st_pending_idempotency_key st = Some (rs_idempotency_key r)")
    case True
    with run st show thesis
      by (intro replay [of st])
        (auto simp: and_then_Ok ok_or_Ok load_action_in_transaction_def split: if_splits)
  next
    case False
    with run st show thesis
      by (intro fresh [of st]) (auto simp: list_ex_iff split: if_splits)
  qed
qed

lemma reserved_lookup:
  "action_of (db\<lparr>db_actions := reserved_row now c r # db_actions db\<rparr>) c (rs_idempotency_key r) =
     Some (r_action (reserved_row now c r))"
  by (simp add: action_of_def reserved_row_def)


section \<open>Reservation\<close>

text \<open>
  A reservation that is inserted found its campaign at exactly the expected revision and
  policy, with no pending action, no incident and an observation cycle of the same revision
  and business date. It leaves the action reserved and pending, the revision one higher and
  the action counter one higher on that date. Without an override the counter stays within
  the reservation's daily maximum; with an override the maximum was exhausted; it is never
  above 500.
\<close>

theorem reserve_inserted:
  assumes "reserve_action_with_quota_override lib link now c r authorization db = (Inr rec, db')"
    and "rr_inserted rec"
  shows "\<exists>st st'. state_of db c = Some st \<and> state_of db' c = Some st' \<and>
    st_revision st = uint (rs_expected_state_revision r) \<and>
    st_policy_digest st = rs_policy_digest r \<and>
    st_pending_idempotency_key st = None \<and> st_incident_class st = None \<and>
    (\<exists>cy \<in> set (db_cycles db). cy_cycle_id cy = rs_cycle_id r \<and> cy_owner cy = c \<and>
       cy_business_date cy = rs_business_date r \<and> cy_state_revision cy = st_revision st) \<and>
    action_of db' c (rs_idempotency_key r) = Some (rr_action rec) \<and>
    a_status (rr_action rec) = Act_Reserved \<and> a_reserved_at (rr_action rec) = now \<and>
    st_pending_idempotency_key st' = Some (rs_idempotency_key r) \<and>
    st_revision st' = st_revision st + 1 \<and> uint (rr_state_revision rec) = st_revision st' \<and>
    st_actions_today st' = actions_before r st + 1 \<and> st_actions_today st' \<le> 500 \<and>
    (authorization = None \<longrightarrow> st_actions_today st' \<le> uint (rs_max_actions_per_day r)) \<and>
    (authorization \<noteq> None \<longrightarrow> uint (rs_max_actions_per_day r) \<le> actions_before r st)"
  using reserve_Ok(3) [OF assms(1)]
proof (cases rule: reserve_in_transaction_Ok)
  case (replay st)
  with assms(2) show ?thesis by simp
next
  case (fresh st)
  let ?st = "reserved_state now r (actions_before r st) st"
  let ?db = "db\<lparr>db_actions := reserved_row now c r # db_actions db\<rparr>"
  from reserve_new_Ok [OF fresh(9)] fresh(1) obtain evs where
    check: "state_check c ?st"
    and rec: "rr_action rec = r_action (reserved_row now c r)"
      "uint (rr_state_revision rec) = uint (rs_expected_state_revision r) + 1"
    and db': "db' = (put_state c ?st ?db)\<lparr>db_audit := evs @ db_audit db\<rparr>"
    by auto
  have "state_of db' c = Some ?st" "action_of db' c (rs_idempotency_key r) = Some (rr_action rec)"
    using fresh(1) by (simp_all add: db' rec reserved_lookup)
  moreover have "st_actions_today ?st \<le> 500"
    using check by (simp add: state_check_def)
  ultimately show ?thesis
    using fresh rec
    by (intro exI [of _ st] exI [of _ ?st])
      (auto simp: reserved_state_def reserved_row_def quota_refuses_def split: option.splits)
qed

theorem reserve_inserted_witness:
  "\<exists>rec. reserve_action_with_quota_override sample_lib Connected 10 sample_campaign
       sample_reservation None db_observed = (Inr rec, db_reserved) \<and>
     uint (rr_state_revision rec) = 2 \<and> a_status (rr_action rec) = Act_Reserved"
proof -
  have "case fst (reserve_action_with_quota_override sample_lib Connected 10 sample_campaign
      sample_reservation None db_observed) of Inl _ \<Rightarrow> False | Inr rec \<Rightarrow> rr_inserted rec"
    by code_simp
  then obtain rec where run: "reserve_action_with_quota_override sample_lib Connected 10
      sample_campaign sample_reservation None db_observed = (Inr rec, db_reserved)"
    and ins: "rr_inserted rec"
    unfolding db_reserved_def reserve_action_def by (rule ran)
  from reserve_inserted [OF this] run show ?thesis
    by (auto simp: sample_reservation_def)
qed

lemma audit_grows_along:
  assumes "steps (store_step lib) db db'"
  shows "set (db_audit db) \<subseteq> set (db_audit db')"
  using assms
  by (induction rule: steps.induct) (use store_step_effect effect_history in blast)+

lemma override_key:
  "au_event_key (override_event lib c r reference before max_actions) =
     au_event_key (override_event lib c r' reference before' max_actions')"
  by (simp add: override_event_def)

lemma override_inserted_Ok:
  assumes "reserve_explicit_quota_override_action lib link now c r reference db = (Inr rec, db')"
    and "rr_inserted rec"
  shows "\<exists>before max_actions.
    override_event lib c r reference before max_actions \<in> set (db_audit db') \<and>
    (\<forall>q \<in> set (db_audit db).
       au_event_key q \<noteq> au_event_key (override_event lib c r reference before max_actions))"
proof -
  have "reserve_action_with_quota_override lib link now c r (Some reference) db = (Inr rec, db')"
    using assms(1) by (simp add: reserve_explicit_quota_override_action_def validated_Ok)
  from reserve_Ok(3) [OF this] show ?thesis
  proof (cases rule: reserve_in_transaction_Ok)
    case (replay st)
    with assms(2) show ?thesis by simp
  next
    case (fresh st)
    from reserve_new_Ok [OF fresh(9)] show ?thesis
      by (intro exI [of _ "actions_before r st"] exI [of _ "uint (rs_max_actions_per_day r)"])
        auto
  qed
qed

text \<open>
  An override authorization is used at most once: after a reservation was inserted under
  a reference, no later call under the same reference inserts a reservation for that
  campaign, in any state the store can reach from there, whatever the other arguments.
\<close>

theorem override_used_once:
  assumes "reserve_explicit_quota_override_action lib link now c r reference db = (Inr rec, db1)"
    and "rr_inserted rec"
    and "steps (store_step lib) db1 db2"
    and "reserve_explicit_quota_override_action lib link' now' c r' reference db2 =
      (Inr rec', db3)"
  shows "\<not> rr_inserted rec'"
proof
  assume again: "rr_inserted rec'"
  obtain before max_actions where "override_event lib c r reference before max_actions
      \<in> set (db_audit db1)"
    using override_inserted_Ok [OF assms(1,2)] by blast
  with audit_grows_along [OF assms(3)]
  have "override_event lib c r reference before max_actions \<in> set (db_audit db2)"
    by blast
  with override_inserted_Ok [OF assms(4) again] override_key show False
    by blast
qed

theorem override_used_once_witness:
  "\<exists>rec rec' db1. reserve_explicit_quota_override_action sample_lib Connected 10 sample_campaign
       sample_reservation ''ref'' db_exhausted = (Inr rec, db1) \<and> rr_inserted rec \<and>
     reserve_explicit_quota_override_action sample_lib Connected 11 sample_campaign
       sample_reservation ''ref'' db1 = (Inr rec', db1) \<and> \<not> rr_inserted rec'"
proof -
  let ?run = "\<lambda>now. reserve_explicit_quota_override_action sample_lib Connected now
    sample_campaign sample_reservation ''ref''"
  have "case fst (?run 10 db_exhausted) of Inl _ \<Rightarrow> False | Inr rec \<Rightarrow> rr_inserted rec"
    by code_simp
  then obtain rec where rec: "?run 10 db_exhausted = (Inr rec, snd (?run 10 db_exhausted))"
      "rr_inserted rec"
    by (rule ran)
  have "case fst (?run 11 (snd (?run 10 db_exhausted))) of Inl _ \<Rightarrow> False | Inr rec' \<Rightarrow> True"
    by code_simp
  then obtain rec' where rec': "?run 11 (snd (?run 10 db_exhausted)) =
      (Inr rec', snd (?run 11 (snd (?run 10 db_exhausted))))"
    by (rule ran)
  have "snd (?run 11 (snd (?run 10 db_exhausted))) = snd (?run 10 db_exhausted)"
    by code_simp
  with rec rec' override_used_once [OF rec steps_refl rec'] show ?thesis
    by metis
qed


section \<open>Repeating a call whose reply was lost\<close>

lemma action_matches_reserved:
  assumes "validate_reservation lib r = Inr ()"
  shows "action_matches_reservation lib (r_action (reserved_row now c r)) r"
proof -
  obtain j where "validate_json lib (rs_request_json r) (128 * 1024) = Inr j"
    using assms by (auto simp: validate_reservation_def and_then_Ok split: if_splits)
  then have "from_str lib (rs_request_json r) \<noteq> None"
    by (auto simp: validate_json_def split: if_splits option.splits)
  then show ?thesis
    by (auto simp: action_matches_reservation_def reserved_row_def)
qed

lemma reserve_replay:
  assumes "state_of db c = Some st" "st_pending_idempotency_key st = Some (rs_idempotency_key r)"
    "action_of db c (rs_idempotency_key r) = Some a" "action_matches_reservation lib a r"
  shows "reserve_in_transaction lib now c r authorization expected max_actions db =
    Inr ((False, st_revision st, a), db)"
  using assms by (simp add: reserve_in_transaction_def load_action_in_transaction_def)

text \<open>
  A reservation is exactly-once under retries. When the reply of a successful
  reservation is lost after the commit, the tables hold the reservation; and repeating the
  call, at any later instant and before any other operation, returns the same action and
  revision with \<open>inserted\<close> false and changes nothing.
\<close>

theorem reserve_retry:
  assumes "reserve_action_with_quota_override lib Connected now c r authorization db =
    (Inr rec, db')"
  shows "reserve_action_with_quota_override lib LostInCommit now c r authorization db =
      (Error Unavailable, db') \<and>
    reserve_action_with_quota_override lib Connected now' c r authorization db' =
      (Inr (rec\<lparr>rr_inserted := False\<rparr>), db')"
proof
  note ok = reserve_Ok [OF assms]
  show "reserve_action_with_quota_override lib LostInCommit now c r authorization db =
      (Error Unavailable, db')"
    using ok by (simp add: reserve_action_with_quota_override_def validated_def to_i64_def
        transaction_def after_commit_def)
  have "\<exists>st. state_of db' c = Some st \<and>
      st_pending_idempotency_key st = Some (rs_idempotency_key r) \<and>
      st_revision st = uint (rr_state_revision rec) \<and>
      action_of db' c (rs_idempotency_key r) = Some (rr_action rec) \<and>
      action_matches_reservation lib (rr_action rec) r"
    using ok(3)
  proof (cases rule: reserve_in_transaction_Ok)
    case (replay st)
    then show ?thesis by auto
  next
    case (fresh st)
    from reserve_new_Ok [OF fresh(9)] fresh(1,2) show ?thesis
      using action_matches_reserved [OF ok(2), of now c]
      by (auto simp: reserved_lookup reserved_state_def)
  qed
  then obtain st where "state_of db' c = Some st"
      "st_pending_idempotency_key st = Some (rs_idempotency_key r)"
      "st_revision st = uint (rr_state_revision rec)"
      "action_of db' c (rs_idempotency_key r) = Some (rr_action rec)"
      "action_matches_reservation lib (rr_action rec) r"
    by blast
  then show "reserve_action_with_quota_override lib Connected now' c r authorization db' =
      (Inr (rec\<lparr>rr_inserted := False\<rparr>), db')"
    using ok(2,4,5)
    by (simp add: reserve_action_with_quota_override_def validated_def to_i64_def
        transaction_def after_commit_def reserve_replay)
qed

theorem reserve_retry_witness:
  "\<exists>rec. reserve_action_with_quota_override sample_lib Connected 10 sample_campaign
       sample_reservation None db_observed = (Inr rec, db_reserved) \<and>
     reserve_action_with_quota_override sample_lib Connected 11 sample_campaign
       sample_reservation None db_reserved = (Inr (rec\<lparr>rr_inserted := False\<rparr>), db_reserved)"
proof -
  have "case fst (reserve_action_with_quota_override sample_lib Connected 10 sample_campaign
      sample_reservation None db_observed) of Inl _ \<Rightarrow> False | Inr rec \<Rightarrow> True"
    by code_simp
  then obtain rec where "reserve_action_with_quota_override sample_lib Connected 10
      sample_campaign sample_reservation None db_observed = (Inr rec, db_reserved)"
    unfolding db_reserved_def reserve_action_def by (rule ran)
  with reserve_retry [OF this, of 11] show ?thesis
    by blast
qed

lemma enforce_reason_kept:
  assumes "enforce_action_transition lib now a new = Some a'"
  shows "a_status new = Act_Cancelled \<or> a_status new = Act_ReconciliationRequired \<Longrightarrow>
      a_last_error_class a' = a_last_error_class new"
    and "a_status new = Act_Applied \<Longrightarrow> a_readback_cycle_id a' = a_readback_cycle_id new"
  using assms
  by (auto simp: enforce_action_transition_def split: if_splits durable_action_status.splits)

lemma transition_receipt_Ok:
  "transition_receipt x = Inr rec \<longleftrightarrow> fst x = tr_changed rec \<and> to_u64 (snd x) = Some (tr_state_revision rec)"
  by (cases rec) (auto simp: transition_receipt_def and_then_Ok ok_or_Ok)

lemma resolve_Ok:
  assumes "resolve_without_write lib link now c key revision error_class k db = (Inr rec, db')"
  shows "link = Connected" "hex_digest key" "validate_error_class error_class"
    "uint revision < 2 ^ 63"
    "resolve_in_transaction lib now c key (uint revision) error_class k db =
       Inr ((tr_changed rec, uint (tr_state_revision rec)), db')"
  using assms
  by (auto simp: resolve_without_write_def result_elim transaction_Ok transition_receipt_Ok
      unsigned_of_int take_bit_int_eq_self split: if_splits)

lemma resolve_settled_replays:
  assumes "resolve_in_transaction lib now c key expected error_class k db = Inr ((ch, n), db')"
  shows "resolve_in_transaction lib now' c key expected error_class k db' = Inr ((False, n), db')"
proof -
  obtain st a where st: "state_of db c = Some st" and a: "action_of db c key = Some a"
    using assms by (auto simp: resolve_in_transaction_def and_then_Ok ok_or_Ok
        load_locked_state_summary_def load_action_in_transaction_def)
  note defs = resolve_in_transaction_def load_locked_state_summary_def
    load_action_in_transaction_def
  from resolve_in_transaction_Ok [OF assms] show ?thesis
  proof (elim disjE exE conjE)
    assume "db' = db" "(ch, n) = (False, expected + 1)"
    with assms st a show ?thesis
      by (cases "a_status a = resolution_status k")
        (auto simp: defs dest!: settle_Ok split: if_splits)
  next
    fix st :: state_row and a a' :: durable_action and evs
    let ?st = "resolve_state_change k error_class (expected + 1) st"
    assume run: "state_of db c = Some st" "st_pending_idempotency_key st = Some key"
        "action_of db c key = Some a" "succ_i64 expected = Some (expected + 1)"
        "(ch, n) = (True, expected + 1)"
      and trigger: "enforce_action_transition lib now a (a\<lparr>a_status := resolution_status k,
         a_last_error_class := Some error_class\<rparr>) = Some a'"
      and db': "db' = (put_state c ?st (put_action a' db))\<lparr>db_audit := evs @ db_audit db\<rparr>"
    note a' = enforce_action_transition_Some [OF trigger] enforce_reason_kept(1) [OF trigger]
    have "state_of db' c = Some ?st" "action_of db' c key = Some a'"
      using run a' action_of_memD(1) [OF run(3)]
      by (simp_all add: db' action_of_put_action)
    moreover have "a_last_error_class a' = Some error_class" "a_status a' = resolution_status k"
      using a' by (cases k; simp add: resolution_status_def)+
    moreover have "resolution_replay_matches k key error_class a' ?st (expected + 1)"
      using run(2) calculation(3)
      by (simp add: resolution_replay_matches_def resolve_state_change_def)
    ultimately show ?thesis
      using run by (simp add: defs)
  qed
qed

text \<open>
  Cancelling an action, and locking it for reconciliation, is exactly-once under
  retries: a lost reply leaves the change in the tables, and repeating the call with the
  same arguments reports success with \<open>changed\<close> false, the same revision, and no change.
\<close>

theorem resolve_retry:
  assumes "resolve_without_write lib Connected now c key revision error_class k db =
    (Inr rec, db')"
  shows "resolve_without_write lib LostInCommit now c key revision error_class k db =
      (Error Unavailable, db') \<and>
    resolve_without_write lib Connected now' c key revision error_class k db' =
      (Inr (rec\<lparr>tr_changed := False\<rparr>), db')"
proof -
  note ok = resolve_Ok [OF assms]
  then show ?thesis
    using resolve_settled_replays [OF ok(5), of now']
    by (simp add: resolve_without_write_def validated_def validate_digest_valid
        to_i64_def transaction_def after_commit_def transition_receipt_def)
qed

theorem resolve_retry_witness:
  "\<exists>rec db'. resolve_without_write sample_lib Connected 30 sample_campaign
       (digest_of_digit (CHR ''c'')) 2 ''write_not_sent'' Resolve_NotSent db_started =
         (Inr rec, db') \<and>
     resolve_without_write sample_lib Connected 31 sample_campaign
       (digest_of_digit (CHR ''c'')) 2 ''write_not_sent'' Resolve_NotSent db' =
         (Inr (rec\<lparr>tr_changed := False\<rparr>), db')"
proof -
  have "case fst (resolve_without_write sample_lib Connected 30 sample_campaign
      (digest_of_digit (CHR ''c'')) 2 ''write_not_sent'' Resolve_NotSent db_started)
    of Inl _ \<Rightarrow> False | Inr rec \<Rightarrow> True"
    by code_simp
  then obtain rec db' where "resolve_without_write sample_lib Connected 30 sample_campaign
      (digest_of_digit (CHR ''c'')) 2 ''write_not_sent'' Resolve_NotSent db_started =
        (Inr rec, db')"
    by (rule ran)
  with resolve_retry [OF this, of 31] show ?thesis
    by blast
qed

lemma applied_Ok:
  assumes "mark_applied lib link now c key revision readback paused_on db = (Inr rec, db')"
  shows "link = Connected" "hex_digest key" "hex_digest readback" "uint revision < 2 ^ 63"
    "applied_in_transaction lib now c key (uint revision) readback paused_on db =
       Inr ((tr_changed rec, uint (tr_state_revision rec)), db')"
  using assms
  by (auto simp: mark_applied_def result_elim transaction_Ok transition_receipt_Ok
      unsigned_of_int take_bit_int_eq_self split: if_splits)

lemma applied_settled_replays:
  assumes "applied_in_transaction lib now c key expected readback paused_on db =
    Inr ((ch, n), db')"
  shows "applied_in_transaction lib now' c key expected readback paused_on db' =
    Inr ((False, n), db')"
proof -
  obtain st a where st: "state_of db c = Some st" and a: "action_of db c key = Some a"
    using assms by (auto simp: applied_in_transaction_def and_then_Ok ok_or_Ok
        load_locked_state_summary_def load_action_in_transaction_def)
  note defs = applied_in_transaction_def load_locked_state_summary_def
    load_action_in_transaction_def
  from applied_in_transaction_Ok [OF assms] show ?thesis
  proof (elim disjE exE conjE)
    assume "db' = db" "(ch, n) = (False, expected + 1)"
    with assms st a show ?thesis
      by (cases "a_status a = Act_Applied")
        (auto simp: defs dest!: settle_Ok split: if_splits)
  next
    fix st :: state_row and a a' :: durable_action and evs
    let ?st = "applied_state_change (a_action_kind a) paused_on (expected + 1) st"
    assume run: "state_of db c = Some st" "action_of db c key = Some a"
        "pause_shape_matches (a_action_kind a) paused_on st"
        "succ_i64 expected = Some (expected + 1)" "(ch, n) = (True, expected + 1)"
      and trigger: "enforce_action_transition lib now a (a\<lparr>a_status := Act_Applied,
         a_readback_cycle_id := Some readback, a_last_error_class := None\<rparr>) = Some a'"
      and db': "db' = (put_state c ?st (put_action a' db))\<lparr>db_audit := evs @ db_audit db\<rparr>"
    note a' = enforce_action_transition_Some [OF trigger] enforce_reason_kept(2) [OF trigger]
    have "state_of db' c = Some ?st" "action_of db' c key = Some a'"
      using run a' action_of_memD(1) [OF run(2)]
      by (simp_all add: db' action_of_put_action)
    moreover have "a_readback_cycle_id a' = Some readback" "a_status a' = Act_Applied"
      using a' by simp_all
    moreover have "pause_shape_matches (a_action_kind a') paused_on ?st"
      "applied_replay_pause_state_matches (a_action_kind a') paused_on
         (st_paused_for_daily_cap_on ?st)"
      using run(3) a'(5)
      by (auto simp: pause_shape_matches_def applied_state_change_def
          applied_replay_pause_state_matches_def
          split: durable_action_kind.splits option.splits)
    ultimately show ?thesis
      using run by (simp add: defs)
  qed
qed

text \<open>
  Confirming an action as applied is exactly-once under retries, with the same readback
  cycle and the same pause date.
\<close>

theorem applied_retry:
  assumes "mark_applied lib Connected now c key revision readback paused_on db = (Inr rec, db')"
  shows "mark_applied lib LostInCommit now c key revision readback paused_on db =
      (Error Unavailable, db') \<and>
    mark_applied lib Connected now' c key revision readback paused_on db' =
      (Inr (rec\<lparr>tr_changed := False\<rparr>), db')"
proof -
  note ok = applied_Ok [OF assms]
  then show ?thesis
    using applied_settled_replays [OF ok(5), of now']
    by (simp add: mark_applied_def validated_def validate_digest_valid
        to_i64_def transaction_def after_commit_def transition_receipt_def)
qed

theorem applied_retry_witness:
  "\<exists>rec db'. mark_applied sample_lib Connected 200 sample_campaign (digest_of_digit (CHR ''c'')) 2
       (digest_of_digit (CHR ''2'')) None db_readback = (Inr rec, db') \<and>
     mark_applied sample_lib Connected 300 sample_campaign (digest_of_digit (CHR ''c'')) 2
       (digest_of_digit (CHR ''2'')) None db' = (Inr (rec\<lparr>tr_changed := False\<rparr>), db')"
proof -
  have "case fst (mark_applied sample_lib Connected 200 sample_campaign
      (digest_of_digit (CHR ''c'')) 2 (digest_of_digit (CHR ''2'')) None db_readback)
    of Inl _ \<Rightarrow> False | Inr rec \<Rightarrow> True"
    by code_simp
  then obtain rec db' where "mark_applied sample_lib Connected 200 sample_campaign
      (digest_of_digit (CHR ''c'')) 2 (digest_of_digit (CHR ''2'')) None db_readback =
        (Inr rec, db')"
    by (rule ran)
  with applied_retry [OF this, of 300] show ?thesis
    by blast
qed

text \<open>
  C13. An action is confirmed as applied only on evidence: when \<open>mark_applied\<close> reports a
  change, the action was pending with its write started (or awaiting its readback, or under
  reconciliation), and the readback is another recorded cycle of the same campaign and
  policy, observed at the very revision the reservation left. The pending mark is cleared,
  the revision grows by one, an incident stays, and the daily-cap pause is set exactly by a
  pause and cleared exactly by a resume.
\<close>

theorem applied_on_evidence:
  assumes "mark_applied lib link now c key revision readback paused_on db = (Inr rec, db')"
    and "tr_changed rec"
  shows "\<exists>st st' a a'. state_of db c = Some st \<and> state_of db' c = Some st' \<and>
    action_of db c key = Some a \<and> action_of db' c key = Some a' \<and>
    st_pending_idempotency_key st = Some key \<and>
    status_edge (a_status a) Act_Applied \<and> a_status a' = Act_Applied \<and>
    a_readback_cycle_id a' = Some readback \<and>
    (\<exists>cy \<in> set (db_cycles db). cy_cycle_id cy = readback \<and> cy_owner cy = c \<and>
       cy_policy_digest cy = a_policy_digest a \<and> cy_cycle_id cy \<noteq> a_cycle_id a \<and>
       cy_state_revision cy = st_revision st) \<and>
    st_pending_idempotency_key st' = None \<and> st_revision st' = st_revision st + 1 \<and>
    st_incident_class st' = st_incident_class st \<and>
    st_paused_for_daily_cap_on st' =
      (case a_action_kind a of
         Kind_ChangeBids \<Rightarrow> st_paused_for_daily_cap_on st
       | Kind_PauseCampaignForDailyCap \<Rightarrow> paused_on
       | Kind_ResumeCampaignAfterDailyCap \<Rightarrow> None)"
proof -
  from applied_in_transaction_Ok [OF applied_Ok(5) [OF assms(1)]] assms(2)
  obtain st a a' evs where run: "state_of db c = Some st" "st_revision st = uint revision"
      "st_pending_idempotency_key st = Some key" "action_of db c key = Some a"
    and cycle: "\<exists>cy \<in> set (db_cycles db). cy_cycle_id cy = readback \<and> cy_owner cy = c \<and>
         cy_policy_digest cy = a_policy_digest a \<and> cy_cycle_id cy \<noteq> a_cycle_id a \<and>
         cy_state_revision cy = uint revision"
    and trigger: "enforce_action_transition lib now a (a\<lparr>a_status := Act_Applied,
         a_readback_cycle_id := Some readback, a_last_error_class := None\<rparr>) = Some a'"
    and db': "db' = (put_state c (applied_state_change (a_action_kind a) paused_on
        (uint revision + 1) st) (put_action a' db))\<lparr>db_audit := evs @ db_audit db\<rparr>"
    by (elim disjE exE conjE) (simp, blast)
  note a' = enforce_action_transition_Some [OF trigger] enforce_reason_kept(2) [OF trigger]
    enforce_action_transition_edge [OF trigger]
  show ?thesis
    using run cycle a' action_of_memD(1) [OF run(4)]
    by (intro exI [of _ st] exI [of _ a] exI [of _ a']
        exI [of _ "applied_state_change (a_action_kind a) paused_on (uint revision + 1) st"])
      (auto simp: db' action_of_put_action applied_state_change_def
        split: durable_action_kind.splits)
qed

theorem applied_on_evidence_witness:
  "\<exists>rec db' a'. mark_applied sample_lib Connected 200 sample_campaign
       (digest_of_digit (CHR ''c'')) 2 (digest_of_digit (CHR ''2'')) None db_readback =
         (Inr rec, db') \<and>
     action_of db' sample_campaign (digest_of_digit (CHR ''c'')) = Some a' \<and>
     a_status a' = Act_Applied"
proof -
  have "case fst (mark_applied sample_lib Connected 200 sample_campaign
      (digest_of_digit (CHR ''c'')) 2 (digest_of_digit (CHR ''2'')) None db_readback)
    of Inl _ \<Rightarrow> False | Inr rec \<Rightarrow> tr_changed rec"
    by code_simp
  then obtain rec db' where "mark_applied sample_lib Connected 200 sample_campaign
      (digest_of_digit (CHR ''c'')) 2 (digest_of_digit (CHR ''2'')) None db_readback =
        (Inr rec, db')" "tr_changed rec"
    by (rule ran)
  with applied_on_evidence [OF this] show ?thesis
    by blast
qed


section \<open>Policy transitions\<close>

text \<open>
  A policy transition that reports a change replaces nothing but the policy digest: it
  found the campaign at the source digest with no pending action, no incident and no
  unresolved action; the counters, the pause, the last action and every action row stay as
  they were, the revision grows by one, and repeating the transition changes nothing.
\<close>

theorem policy_transition_frame:
  assumes "activate_policy_transition_with_authorization lib link c source target t
      authorization db = (Inr rec, db')"
    and "tr_changed rec"
  shows "\<exists>st. state_of db c = Some st \<and> st_policy_digest st = source \<and>
    st_pending_idempotency_key st = None \<and> st_incident_class st = None \<and>
    (\<forall>r \<in> set (db_actions db). r_owner r = c \<longrightarrow> \<not> unresolved_status (a_status (r_action r))) \<and>
    state_of db' c = Some (st\<lparr>st_policy_digest := target, st_revision := st_revision st + 1\<rparr>) \<and>
    (\<forall>k. k \<noteq> c \<longrightarrow> state_of db' k = state_of db k) \<and>
    db_actions db' = db_actions db \<and> db_cycles db' = db_cycles db \<and>
    set (db_audit db) \<subseteq> set (db_audit db') \<and>
    activate_policy_transition_with_authorization lib Connected c source target t
      authorization db' = (Inr (rec\<lparr>tr_changed := False\<rparr>), db')"
proof -
  from assms(1) have ok: "hex_digest source" "hex_digest target" "source \<noteq> target"
    and run: "policy_in_transaction lib c source target t authorization db =
      Inr ((tr_changed rec, uint (tr_state_revision rec)), db')"
    by (auto simp: activate_policy_transition_with_authorization_def result_elim transaction_Ok
        unsigned_of_int take_bit_int_eq_self split: if_splits)
  from policy_in_transaction_Ok [OF run] assms(2) obtain st evs where
    st: "state_of db c = Some st" "st_pending_idempotency_key st = None"
      "st_incident_class st = None" "st_policy_digest st = source"
      "uint (tr_state_revision rec) = st_revision st + 1"
      "\<forall>r \<in> set (db_actions db). r_owner r = c \<longrightarrow> \<not> unresolved_status (a_status (r_action r))"
      "state_check c (st\<lparr>st_policy_digest := target, st_revision := st_revision st + 1\<rparr>)"
    and db': "db' = (put_state c (st\<lparr>st_policy_digest := target,
        st_revision := st_revision st + 1\<rparr>) db)\<lparr>db_audit := evs @ db_audit db\<rparr>"
    by auto
  have "policy_in_transaction lib c source target t authorization db' =
      Inr ((False, uint (tr_state_revision rec)), db')"
    using st by (simp add: policy_in_transaction_def ensure_protective_live_guard_def db'
        state_check_def flip: st(5))
  then have "activate_policy_transition_with_authorization lib Connected c source target t
      authorization db' = (Inr (rec\<lparr>tr_changed := False\<rparr>), db')"
    using ok by (simp add: activate_policy_transition_with_authorization_def validated_def
        validate_digest_valid transaction_def after_commit_def)
  with st show ?thesis
    by (intro exI [of _ st]) (simp add: db')
qed

theorem policy_transition_frame_witness:
  "\<exists>rec db' st. activate_policy_transition_with_authorization sample_lib Connected
       sample_campaign (digest_of_digit (CHR ''a'')) (digest_of_digit (CHR ''d'')) ProtectiveLive
       None db_observed = (Inr rec, db') \<and>
     state_of db_observed sample_campaign = Some st \<and>
     state_of db' sample_campaign =
       Some (st\<lparr>st_policy_digest := digest_of_digit (CHR ''d''),
                st_revision := st_revision st + 1\<rparr>)"
proof -
  have "case fst (activate_policy_transition_with_authorization sample_lib Connected
      sample_campaign (digest_of_digit (CHR ''a'')) (digest_of_digit (CHR ''d'')) ProtectiveLive
      None db_observed) of Inl _ \<Rightarrow> False | Inr rec \<Rightarrow> tr_changed rec"
    by code_simp
  then obtain rec db' where "activate_policy_transition_with_authorization sample_lib Connected
      sample_campaign (digest_of_digit (CHR ''a'')) (digest_of_digit (CHR ''d'')) ProtectiveLive
      None db_observed = (Inr rec, db')" "tr_changed rec"
    by (rule ran)
  with policy_transition_frame [OF this] show ?thesis
    by blast
qed


section \<open>Stored values\<close>

text \<open>
  The text stored for a status or a kind is read back as itself, and nothing else is
  accepted for it.
\<close>

theorem stored_text_round_trip:
  "(parse_action_status text = Inr status \<longleftrightarrow> text = status_database status) \<and>
   (parse_action_kind name = Inr kind \<longleftrightarrow> name = kind_as_database kind)"
proof
  show "parse_action_status text = Inr status \<longleftrightarrow> text = status_database status"
    by (cases status) (auto simp: parse_action_status_def status_database_def split: if_splits)
  show "parse_action_kind name = Inr kind \<longleftrightarrow> name = kind_as_database kind"
    by (cases kind) (auto simp: parse_action_kind_def kind_as_database_def split: if_splits)
qed

end
