(* ===== verification/Marketplace_Quota.thy ===== *)
theory Marketplace_Quota
  imports Wb_Database Transition
begin

text \<open>
  The shared departure table of \<open>src/src/marketplace_quota.rs\<close>: every process that uses one
  marketplace credential asks the table for a departure slot before a request leaves, and
  publishes the cooldowns the marketplace demands. The two server functions of
  \<open>src/position-monitor/initdb/032_marketplace_shared_quotas.sql\<close> are part of the model.
  SHA-256 and the decoding of the token's claims are parameters.
\<close>


section \<open>Keys\<close>

datatype quota_error =
    QuotaUnavailable
  | QuotaLimited duration
  | QuotaInvalidIdentity

definition split_dots :: "string \<Rightarrow> string list" where
  "split_dots s = foldr (\<lambda>ch acc. if ch = CHR ''.'' then [] # acc
                                  else (ch # hd acc) # tl acc) s [[]]"

fun all_indexed :: "(int \<Rightarrow> char \<Rightarrow> bool) \<Rightarrow> int \<Rightarrow> string \<Rightarrow> bool" where
  "all_indexed P i [] = True"
| "all_indexed P i (ch # s) = (P i ch \<and> all_indexed P (i + 1) s)"

definition canonical_sid :: "string \<Rightarrow> bool" where
  "canonical_sid sid \<longleftrightarrow>
     str_len sid = 36 \<and> sid \<noteq> ''00000000-0000-0000-0000-000000000000'' \<and>
     all_indexed (\<lambda>i b. if i = 8 \<or> i = 13 \<or> i = 18 \<or> i = 23 then b = CHR ''-''
                        else is_lower_hexdigit b) 0 sid"

definition quota_key_new ::
  "libraries \<Rightarrow> string \<Rightarrow> string \<Rightarrow> string \<Rightarrow> (quota_error, string) result" where
  "quota_key_new lib vendor identity bucket =
     (if identity = [] \<or> 256 < str_len identity \<or>
         \<not> list_all (\<lambda>b. is_ascii_alphanumeric b \<or> b = CHR ''-'' \<or> b = CHR ''_'' \<or>
                          b = CHR ''.'' \<or> b = CHR ''@'') identity \<or>
         bucket = [] \<or> 64 < str_len bucket \<or>
         \<not> list_all (\<lambda>b. is_ascii_lowercase b \<or> is_ascii_digit b \<or> b = CHR ''_'' \<or>
                          b = CHR ''-'') bucket
      then Error QuotaInvalidIdentity
      else Ok (sha256_hex lib (vendor @ [CHR 0x00] @ identity @ [CHR 0x00] @ bucket @
                               [CHR 0x00])))"

text \<open>\<open>sid_of\<close> is the unpadded URL-safe base64 decoding of the payload with the claim \<open>sid\<close>.\<close>

definition quota_key_wb ::
  "libraries \<Rightarrow> (string \<Rightarrow> string option) \<Rightarrow> string \<Rightarrow> string \<Rightarrow> (quota_error, string) result" where
  "quota_key_wb lib sid_of token bucket =
     (if 16384 < str_len token then Error QuotaInvalidIdentity
      else case split_dots token of
        [header, payload, signature] \<Rightarrow>
          if header = [] \<or> signature = [] then Error QuotaInvalidIdentity
          else (case sid_of payload of
                  None \<Rightarrow> Error QuotaInvalidIdentity
                | Some sid \<Rightarrow>
                    if canonical_sid sid then quota_key_new lib ''wildberries'' sid bucket
                    else Error QuotaInvalidIdentity)
      | _ \<Rightarrow> Error QuotaInvalidIdentity)"


section \<open>The departure table\<close>

datatype deadline = Minus_Infinity | At instant | Plus_Infinity

type_synonym departures = "string \<rightharpoonup> deadline"

definition milliseconds :: "int \<Rightarrow> duration" where
  "milliseconds n = n * 1000000"

definition ceil_millis :: "duration \<Rightarrow> int" where
  "ceil_millis d = (d + 999999) div 1000000"

definition quota_key_check :: "string \<Rightarrow> bool" where
  "quota_key_check key \<longleftrightarrow> str_len key = 64 \<and> list_all is_lower_hexdigit key"

definition deadline_of :: "departures \<Rightarrow> string \<Rightarrow> deadline" where
  "deadline_of t key = (case t key of None \<Rightarrow> Minus_Infinity | Some d \<Rightarrow> d)"

fun later_deadline :: "deadline \<Rightarrow> deadline \<Rightarrow> deadline" where
  "later_deadline Minus_Infinity d = d"
| "later_deadline d Minus_Infinity = d"
| "later_deadline Plus_Infinity d = Plus_Infinity"
| "later_deadline d Plus_Infinity = Plus_Infinity"
| "later_deadline (At a) (At b) = At (max a b)"

text \<open>The server functions: \<open>None\<close> is a raised exception, which changes nothing.\<close>

definition try_acquire ::
  "string \<Rightarrow> int \<Rightarrow> instant \<Rightarrow> departures \<Rightarrow> (int \<times> departures) option" where
  "try_acquire key interval_millis now t =
     (if \<not> quota_key_check key \<or> interval_millis < 1 \<or> 86400000 < interval_millis then None
      else let deadline = deadline_of t key; t = t(key \<mapsto> deadline) in
        case deadline of
          Plus_Infinity \<Rightarrow> Some (86400000, t)
        | At d \<Rightarrow>
            if now < d then Some (ceil_millis (d - now), t)
            else Some (0, t(key \<mapsto> At (now + milliseconds interval_millis)))
        | Minus_Infinity \<Rightarrow> Some (0, t(key \<mapsto> At (now + milliseconds interval_millis))))"

definition extend_cooldown ::
  "string \<Rightarrow> int \<Rightarrow> instant \<Rightarrow> departures \<Rightarrow> departures option" where
  "extend_cooldown key delay_millis now t =
     (if \<not> quota_key_check key \<or> delay_millis < 1 then None
      else Some (t(key \<mapsto> later_deadline (deadline_of t key)
             (if 31622400000 < delay_millis then Plus_Infinity
              else At (now + milliseconds delay_millis)))))"


section \<open>Admission and cooldown\<close>

datatype backend = QuotaDisabled | QuotaInvalid | QuotaPostgres

text \<open>
  How one call to the server ends: it is answered, it never reaches the server, or it takes
  effect while the answer is lost (a timeout, a broken session).
\<close>

datatype session = Answered | Unreached | AnswerLost

definition MAX_DELAY_MILLIS :: int where
  "MAX_DELAY_MILLIS = 86400000"

definition MAX_SHARED_COOLDOWN :: duration where
  "MAX_SHARED_COOLDOWN = hours 24"

definition bounded_millis :: "duration \<Rightarrow> (quota_error, int) result" where
  "bounded_millis d =
     (let millis = ceil_millis d
      in if 1 \<le> millis \<and> millis \<le> MAX_DELAY_MILLIS then Ok millis else Error QuotaUnavailable)"

definition cooldown_millis :: "duration \<Rightarrow> int" where
  "cooldown_millis d = max (ceil_millis (min d MAX_SHARED_COOLDOWN)) 1"

definition quota_is_enabled :: "backend \<Rightarrow> bool" where
  "quota_is_enabled b \<longleftrightarrow> b \<noteq> QuotaDisabled"

definition admit ::
  "backend \<Rightarrow> session \<Rightarrow> instant \<Rightarrow> string \<Rightarrow> duration \<Rightarrow> departures \<Rightarrow>
     (quota_error, unit) result \<times> departures" where
  "admit b s now key interval t =
     (case b of
        QuotaDisabled \<Rightarrow> (Ok (), t)
      | QuotaInvalid \<Rightarrow> (Error QuotaUnavailable, t)
      | QuotaPostgres \<Rightarrow>
          (case bounded_millis interval of
             Inl e \<Rightarrow> (Inl e, t)
           | Inr millis \<Rightarrow>
               if s = Unreached then (Error QuotaUnavailable, t)
               else case try_acquire key millis now t of
                 None \<Rightarrow> (Error QuotaUnavailable, t)
               | Some (wait, t') \<Rightarrow>
                   (if s = AnswerLost then Error QuotaUnavailable
                    else if wait = 0 then Ok ()
                    else if 0 < wait then Error (QuotaLimited (milliseconds wait))
                    else Error QuotaUnavailable, t')))"

definition defer_cooldown ::
  "backend \<Rightarrow> session \<Rightarrow> instant \<Rightarrow> string \<Rightarrow> duration \<Rightarrow> departures \<Rightarrow>
     (quota_error, unit) result \<times> departures" where
  "defer_cooldown b s now key delay t =
     (case b of
        QuotaDisabled \<Rightarrow> (Ok (), t)
      | QuotaInvalid \<Rightarrow> (Error QuotaUnavailable, t)
      | QuotaPostgres \<Rightarrow>
          if s = Unreached then (Error QuotaUnavailable, t)
          else case extend_cooldown key (cooldown_millis delay) now t of
            None \<Rightarrow> (Error QuotaUnavailable, t)
          | Some t' \<Rightarrow> (if s = AnswerLost then Error QuotaUnavailable else Ok (), t'))"


section \<open>Runs of all processes\<close>

text \<open>
  The log keeps what the table promised: an admission at \<open>ev_at\<close> or a published cooldown
  closes the key until \<open>ev_until\<close>. The clock is the one of the database server and does not
  go back.
\<close>

record quota_event =
  ev_key :: string
  ev_admitted :: bool
  ev_at :: instant
  ev_until :: instant

record quota_world =
  q_table :: departures
  q_clock :: instant
  q_log :: "quota_event list"

definition run_admit ::
  "session \<Rightarrow> instant \<Rightarrow> string \<Rightarrow> duration \<Rightarrow> quota_world \<Rightarrow> quota_world" where
  "run_admit s now key interval q =
     (let (r, t) = admit QuotaPostgres s now key interval (q_table q)
      in \<lparr>q_table = t, q_clock = now,
          q_log = (if r = Ok ()
                   then \<lparr>ev_key = key, ev_admitted = True, ev_at = now,
                         ev_until = now + interval\<rparr> # q_log q
                   else q_log q)\<rparr>)"

definition run_defer ::
  "session \<Rightarrow> instant \<Rightarrow> string \<Rightarrow> duration \<Rightarrow> quota_world \<Rightarrow> quota_world" where
  "run_defer s now key delay q =
     (let (r, t) = defer_cooldown QuotaPostgres s now key delay (q_table q)
      in \<lparr>q_table = t, q_clock = now,
          q_log = (if r = Ok ()
                   then \<lparr>ev_key = key, ev_admitted = False, ev_at = now,
                         ev_until = now + min delay MAX_SHARED_COOLDOWN\<rparr> # q_log q
                   else q_log q)\<rparr>)"

inductive quota_step :: "quota_world \<Rightarrow> quota_world \<Rightarrow> bool" where
  step_admit: "q_clock q \<le> now \<Longrightarrow> quota_step q (run_admit s now key interval q)"
| step_defer: "q_clock q \<le> now \<Longrightarrow> quota_step q (run_defer s now key delay q)"

definition quota_init :: "quota_world \<Rightarrow> bool" where
  "quota_init q \<longleftrightarrow> q_table q = Map.empty \<and> q_log q = []"

text \<open>Every promise is covered by the table, and every admission kept the older promises.\<close>

definition covered :: "departures \<Rightarrow> quota_event \<Rightarrow> bool" where
  "covered t e \<longleftrightarrow> (\<exists>d. t (ev_key e) = Some (At d) \<and> ev_until e \<le> d)"

fun spaced :: "quota_event list \<Rightarrow> bool" where
  "spaced [] = True"
| "spaced (e # es) = ((ev_admitted e \<longrightarrow>
      (\<forall>f \<in> set es. ev_key f = ev_key e \<longrightarrow> ev_until f \<le> ev_at e)) \<and> spaced es)"

definition within_a_day :: "instant \<Rightarrow> deadline \<Rightarrow> bool" where
  "within_a_day now d \<longleftrightarrow>
     (case d of
        Minus_Infinity \<Rightarrow> True | At a \<Rightarrow> a \<le> now + MAX_SHARED_COOLDOWN | Plus_Infinity \<Rightarrow> False)"

definition quota_inv :: "quota_world \<Rightarrow> bool" where
  "quota_inv q \<longleftrightarrow>
     (\<forall>e \<in> set (q_log q). covered (q_table q) e) \<and> spaced (q_log q) \<and>
     (\<forall>key. within_a_day (q_clock q) (deadline_of (q_table q) key))"

lemma ceil_millis_le: "d \<le> milliseconds (ceil_millis d)"
  by (simp add: milliseconds_def ceil_millis_def)

lemma ceil_millis_mono: "a \<le> b \<Longrightarrow> ceil_millis a \<le> ceil_millis b"
  by (simp add: ceil_millis_def zdiv_mono1)

lemma bounded_millis_Ok:
  "bounded_millis d = Inr m \<longleftrightarrow> m = ceil_millis d \<and> 1 \<le> m \<and> m \<le> MAX_DELAY_MILLIS"
  by (auto simp: bounded_millis_def Let_def)

lemma cooldown_millis_bounds:
  "min d MAX_SHARED_COOLDOWN \<le> milliseconds (cooldown_millis d)"
  "1 \<le> cooldown_millis d" "cooldown_millis d \<le> MAX_DELAY_MILLIS"
proof -
  show "min d MAX_SHARED_COOLDOWN \<le> milliseconds (cooldown_millis d)"
    using ceil_millis_le [of "min d MAX_SHARED_COOLDOWN"]
    by (simp add: cooldown_millis_def milliseconds_def max_def)
  have "ceil_millis (min d MAX_SHARED_COOLDOWN) \<le> ceil_millis MAX_SHARED_COOLDOWN"
    by (rule ceil_millis_mono) simp
  then show "cooldown_millis d \<le> MAX_DELAY_MILLIS"
    by (simp add: cooldown_millis_def ceil_millis_def MAX_SHARED_COOLDOWN_def MAX_DELAY_MILLIS_def
        duration_defs)
qed (simp add: cooldown_millis_def)

text \<open>What one call does to the entry of its key, whatever the session.\<close>

lemma admit_cases:
  assumes "admit QuotaPostgres s now key interval t = (r, t')"
  obtains (same) "t' = t" and "r \<noteq> Inr ()"
    | (kept) "t' = t(key \<mapsto> deadline_of t key)" and "r \<noteq> Inr ()"
    | (moved) m where "t' = t(key \<mapsto> At (now + milliseconds m))"
      and "interval \<le> milliseconds m" and "0 \<le> m" and "m \<le> MAX_DELAY_MILLIS"
      and "case deadline_of t key of At d \<Rightarrow> d \<le> now | Minus_Infinity \<Rightarrow> True
             | Plus_Infinity \<Rightarrow> False"
proof -
  have pos: "0 < ceil_millis (d - now)" if "now < d" for d
    using that by (simp add: ceil_millis_def)
  have pos': "ceil_millis (d - now) \<noteq> 0" if "now < d" for d
    using pos [OF that] by simp
  consider "t' = t \<and> r \<noteq> Inr ()" | "t' = t(key \<mapsto> deadline_of t key) \<and> r \<noteq> Inr ()"
    | "\<exists>m. bounded_millis interval = Inr m \<and> t' = t(key \<mapsto> At (now + milliseconds m)) \<and>
       (case deadline_of t key of At d \<Rightarrow> d \<le> now | Minus_Infinity \<Rightarrow> True
          | Plus_Infinity \<Rightarrow> False)"
    using assms pos'
    by (auto simp: admit_def try_acquire_def Let_def split: sum.splits if_splits option.splits
        deadline.splits)
  then show ?thesis
  proof cases
    case 3
    then obtain m where "bounded_millis interval = Inr m"
      "t' = t(key \<mapsto> At (now + milliseconds m))" "case deadline_of t key of At d \<Rightarrow> d \<le> now
         | Minus_Infinity \<Rightarrow> True | Plus_Infinity \<Rightarrow> False"
      by blast
    then show ?thesis
      using moved ceil_millis_le by (simp add: bounded_millis_Ok)
  qed (use same kept in auto)
qed

lemma defer_cases:
  assumes "defer_cooldown QuotaPostgres s now key delay t = (r, t')"
  obtains (same) "t' = t" and "r \<noteq> Inr ()"
    | (extended) "t' = t(key \<mapsto> later_deadline (deadline_of t key)
         (At (now + milliseconds (cooldown_millis delay))))"
  using assms cooldown_millis_bounds(3) [of delay]
  by (auto simp: defer_cooldown_def extend_cooldown_def MAX_DELAY_MILLIS_def
      split: if_splits option.splits)

lemma deadline_of_At: "deadline_of t key = At d \<longleftrightarrow> t key = Some (At d)"
  by (auto simp: deadline_of_def split: option.splits)

lemma deadline_of_Plus: "deadline_of t key = Plus_Infinity \<longleftrightarrow> t key = Some Plus_Infinity"
  by (auto simp: deadline_of_def split: option.splits)

lemma within_a_day_mono: "within_a_day now d \<Longrightarrow> now \<le> now' \<Longrightarrow> within_a_day now' d"
  by (simp add: within_a_day_def split: deadline.splits)

lemma milliseconds_day: "m \<le> MAX_DELAY_MILLIS \<Longrightarrow> milliseconds m \<le> MAX_SHARED_COOLDOWN"
  by (simp add: milliseconds_def MAX_DELAY_MILLIS_def MAX_SHARED_COOLDOWN_def duration_defs)

lemma later_deadline_bounds:
  "within_a_day now d \<Longrightarrow> within_a_day now (At b) \<Longrightarrow> within_a_day now (later_deadline d (At b))"
  "within_a_day now d \<Longrightarrow> \<exists>c. later_deadline d (At b) = At c \<and> b \<le> c"
  "later_deadline (At a) (At b) = At (max a b)"
  by (cases d; auto simp: within_a_day_def)+

text \<open>One entry is replaced by a later one: the promises stay covered.\<close>

lemma covered_update:
  assumes "covered t e" and "\<And>d. t key = Some (At d) \<Longrightarrow> \<exists>d'. new = At d' \<and> d \<le> d'"
  shows "covered (t(key \<mapsto> new)) e"
  using assms by (fastforce simp: covered_def)

lemma run_admit_inv:
  assumes "quota_inv q" and "q_clock q \<le> now"
  shows "quota_inv (run_admit s now key interval q)"
proof -
  obtain r t where run: "admit QuotaPostgres s now key interval (q_table q) = (r, t)"
    by (metis prod.collapse)
  let ?e = "\<lparr>ev_key = key, ev_admitted = True, ev_at = now, ev_until = now + interval\<rparr>"
  have day: "within_a_day now (deadline_of (q_table q) k)" for k
    using assms by (auto simp: quota_inv_def intro: within_a_day_mono)
  show ?thesis
    using run
  proof (cases rule: admit_cases)
    case same
    with assms(1) day run show ?thesis
      by (simp add: quota_inv_def run_admit_def)
  next
    case kept
    have "covered t e" if "covered (q_table q) e" for e
      unfolding kept using that by (rule covered_update) (simp add: deadline_of_def)
    with kept assms(1) day run show ?thesis
      by (auto simp: quota_inv_def run_admit_def deadline_of_def)
  next
    case (moved m)
    have cover: "covered t e" if "covered (q_table q) e" for e
      unfolding moved using that
      by (rule covered_update) (use moved(3,5) in \<open>auto simp: deadline_of_def milliseconds_def\<close>)
    have old: "ev_until f \<le> now" if "f \<in> set (q_log q)" and "ev_key f = key" for f
      using assms(1) that moved(5) by (auto simp: quota_inv_def covered_def deadline_of_def)
    have new: "covered t ?e"
      using moved(1,2) by (simp add: covered_def)
    have "within_a_day now (deadline_of t k)" for k
      using day [of k] moved(1) milliseconds_day [OF moved(4)]
      by (auto simp: deadline_of_def within_a_day_def)
    with cover old new assms(1) run show ?thesis
      by (auto simp: quota_inv_def run_admit_def)
  qed
qed

lemma run_defer_inv:
  assumes "quota_inv q" and "q_clock q \<le> now"
  shows "quota_inv (run_defer s now key delay q)"
proof -
  obtain r t where run: "defer_cooldown QuotaPostgres s now key delay (q_table q) = (r, t)"
    by (metis prod.collapse)
  let ?until = "now + milliseconds (cooldown_millis delay)"
  let ?e = "\<lparr>ev_key = key, ev_admitted = False, ev_at = now,
    ev_until = now + min delay MAX_SHARED_COOLDOWN\<rparr>"
  have day: "within_a_day now (deadline_of (q_table q) k)" for k
    using assms by (auto simp: quota_inv_def intro: within_a_day_mono)
  show ?thesis
    using run
  proof (cases rule: defer_cases)
    case same
    with assms(1) day run show ?thesis
      by (simp add: quota_inv_def run_defer_def)
  next
    case extended
    have cover: "covered t e" if "covered (q_table q) e" for e
      unfolding extended using that
      by (rule covered_update) (auto simp: deadline_of_def)
    have new: "covered t ?e"
      using later_deadline_bounds(2) [OF day, of key ?until] cooldown_millis_bounds(1) [of delay]
      by (auto simp: extended covered_def)
    have "within_a_day now (deadline_of t k)" for k
    proof (cases "k = key")
      case True
      have "within_a_day now (At ?until)"
        using milliseconds_day [OF cooldown_millis_bounds(3)] by (simp add: within_a_day_def)
      with True show ?thesis
        using later_deadline_bounds(1) [OF day] by (simp add: extended deadline_of_def)
    next
      case False
      with day [of k] show ?thesis
        by (simp add: extended deadline_of_def)
    qed
    with cover new assms(1) run show ?thesis
      by (auto simp: quota_inv_def run_defer_def)
  qed
qed

interpretation quota: inductive_invariant quota_init quota_step quota_inv
proof unfold_locales
  show "quota_inv q" if "quota_init q" for q
    using that by (simp add: quota_inv_def quota_init_def within_a_day_def deadline_of_def)
  show "quota_inv q'" if "quota_inv q" and "quota_step q q'" for q q'
    using that(2,1) by (cases rule: quota_step.cases) (simp_all add: run_admit_inv run_defer_inv)
qed

lemma spaced_append:
  "spaced (newer @ e # older) \<Longrightarrow> ev_admitted e \<Longrightarrow> f \<in> set older \<Longrightarrow> ev_key f = ev_key e \<Longrightarrow>
     ev_until f \<le> ev_at e"
  by (induction newer) auto


section \<open>A sample run\<close>

definition quota_key_a :: string where
  "quota_key_a = replicate 64 (CHR ''a'')"

definition quota_start :: quota_world where
  "quota_start = \<lparr>q_table = Map.empty, q_clock = 0, q_log = []\<rparr>"

definition quota_run :: quota_world where
  "quota_run = run_defer Answered (seconds 100) quota_key_a (hours 48)
     (run_admit Answered (seconds 90) quota_key_a (milliseconds 250)
       (run_admit AnswerLost (seconds 60) quota_key_a (milliseconds 250)
         (run_admit Answered (seconds 30) quota_key_a (milliseconds 250)
           (run_defer Answered 0 quota_key_a (seconds 60) quota_start))))"

lemma run_admit_reachable:
  "reach quota_init quota_step q \<Longrightarrow> q_clock q \<le> now \<Longrightarrow>
     reach quota_init quota_step (run_admit s now key interval q)"
  by (erule reach_step) (rule step_admit)

lemma run_defer_reachable:
  "reach quota_init quota_step q \<Longrightarrow> q_clock q \<le> now \<Longrightarrow>
     reach quota_init quota_step (run_defer s now key delay q)"
  by (erule reach_step) (rule step_defer)

lemma run_clock [simp]:
  "q_clock (run_admit s now key interval q) = now" "q_clock (run_defer s now key delay q) = now"
  by (simp_all add: run_admit_def run_defer_def case_prod_beta Let_def)

lemma quota_run_reachable: "reach quota_init quota_step quota_run"
  unfolding quota_run_def
  by (intro run_admit_reachable run_defer_reachable reach_init)
    (simp_all add: quota_init_def quota_start_def duration_defs)

lemma quota_run_log:
  "q_log quota_run =
     [\<lparr>ev_key = quota_key_a, ev_admitted = False, ev_at = seconds 100,
       ev_until = seconds 100 + hours 24\<rparr>,
      \<lparr>ev_key = quota_key_a, ev_admitted = True, ev_at = seconds 90,
       ev_until = seconds 90 + milliseconds 250\<rparr>,
      \<lparr>ev_key = quota_key_a, ev_admitted = False, ev_at = 0, ev_until = seconds 60\<rparr>]"
  by code_simp

lemma quota_run_deadline: "q_table quota_run quota_key_a = Some (At (seconds 100 + hours 24))"
  by code_simp


section \<open>Properties\<close>

text \<open>
  C30. Across all processes and any loss of answers, a departure of one key never comes
  before what an earlier call promised: two admissions are at least the interval of the
  first apart, and none falls into a published cooldown (up to its ceiling of one day).
\<close>

theorem departures_spaced:
  assumes "reach quota_init quota_step q" and "q_log q = newer @ e # older"
    and "ev_admitted e" and "f \<in> set older" and "ev_key f = ev_key e"
  shows "ev_until f \<le> ev_at e"
  using quota.reach_inv [OF assms(1)] assms(2-5)
  by (auto simp: quota_inv_def intro: spaced_append)

theorem departures_spaced_witness:
  "\<exists>c e f. q_log quota_run = [c, e, f] \<and> ev_admitted e \<and> ev_until f \<le> ev_at e"
  using departures_spaced [OF quota_run_reachable, of
      "[\<lparr>ev_key = quota_key_a, ev_admitted = False, ev_at = seconds 100,
         ev_until = seconds 100 + hours 24\<rparr>]"
      "\<lparr>ev_key = quota_key_a, ev_admitted = True, ev_at = seconds 90,
        ev_until = seconds 90 + milliseconds 250\<rparr>"
      "[\<lparr>ev_key = quota_key_a, ev_admitted = False, ev_at = 0, ev_until = seconds 60\<rparr>]"
      "\<lparr>ev_key = quota_key_a, ev_admitted = False, ev_at = 0, ev_until = seconds 60\<rparr>"]
    quota_run_log
  by simp

text \<open>
  No deadline is ever more than a day ahead of the server's clock and none is infinite,
  so no response of a marketplace can close a key for good.
\<close>

theorem deadline_within_a_day:
  assumes "reach quota_init quota_step q" and "q_table q key = Some d"
  shows "d \<noteq> Plus_Infinity \<and> (\<forall>a. d = At a \<longrightarrow> a \<le> q_clock q + MAX_SHARED_COOLDOWN)"
  using quota.reach_inv [OF assms(1)] assms(2)
  by (auto simp: quota_inv_def within_a_day_def deadline_of_def split: deadline.splits
      dest: spec [of _ key])

theorem deadline_within_a_day_witness:
  "\<exists>a. q_table quota_run quota_key_a = Some (At a) \<and> a \<le> seconds 100 + hours 24"
  using deadline_within_a_day [OF quota_run_reachable quota_run_deadline] quota_run_deadline
  by (simp add: quota_run_def MAX_SHARED_COOLDOWN_def)

end
