(* ===== verification/Wb_Client.thy ===== *)
theory Wb_Client
  imports Marketplace_Quota
begin

text \<open>
  The isolated write client of \<open>src/src/control/wb/client.rs\<close> with the error classes of
  \<open>src/src/control/wb.rs\<close>, the bounded body reader of \<open>src/src/bounded_body.rs\<close> and the
  vendor cooldown of \<open>src/src/wb/quota.rs\<close> and \<open>src/src/wb/response.rs\<close>. A guarded write
  takes the pacing slot, asks the quota table, the authorization window and the caller's
  permit, asks for a departure, and then sends one request. The client records every request
  that leaves together with the state of the caller at that moment.

  The transport, the clocks and the sessions of the quota table are the environment of a
  call; the claims of the token and the e-mail date format are parameters.
\<close>


section \<open>Responses\<close>

datatype body_chunk = Chunk string | Broken

record http_response =
  hr_status :: u16
  hr_headers :: "(string \<times> string) list"
  hr_content_length :: "u64 option"
  hr_chunks :: "body_chunk list"

datatype http_reply = TimedOut | NetworkFailed | Responded http_response

datatype bounded_body_error =
    DeclaredTooLarge u64
  | ReceivedTooLarge int
  | BodyTransport

text \<open>The loop over the chunks; \<open>ReceivedTooLarge\<close> counts the chunk that crossed the limit.\<close>

fun read_chunks ::
  "int \<Rightarrow> string \<Rightarrow> body_chunk list \<Rightarrow> (bounded_body_error, string) result" where
  "read_chunks limit body [] = Ok body"
| "read_chunks limit body (Broken # cs) = Error BodyTransport"
| "read_chunks limit body (Chunk c # cs) =
     (let received = str_len body + str_len c
      in if limit < received then Error (ReceivedTooLarge received)
         else read_chunks limit (body @ c) cs)"

definition read_bounded_body ::
  "http_response \<Rightarrow> int \<Rightarrow> (bounded_body_error, string) result" where
  "read_bounded_body r limit =
     (case hr_content_length r of
        Some declared \<Rightarrow>
          if limit < uint declared then Error (DeclaredTooLarge declared)
          else read_chunks limit [] (hr_chunks r)
      | None \<Rightarrow> read_chunks limit [] (hr_chunks r))"

definition read_bounded :: "http_response \<Rightarrow> int \<Rightarrow> (string, string) result" where
  "read_bounded r maximum =
     wrap_err (\<lambda>e. case e of
        BodyTransport \<Rightarrow> ''response_body_error''
      | DeclaredTooLarge _ \<Rightarrow> ''response_too_large''
      | ReceivedTooLarge _ \<Rightarrow> ''response_too_large'') (read_bounded_body r maximum)"

text \<open>\<open>HeaderValue::to_str\<close> accepts visible ASCII, the space and the tab.\<close>

definition header_to_str :: "string \<Rightarrow> string option" where
  "header_to_str v = (if list_all (\<lambda>b. 32 \<le> byte b \<and> byte b < 127 \<or> byte b = 9) v
                      then Some v else None)"

definition is_ascii_control :: "char \<Rightarrow> bool" where
  "is_ascii_control b \<longleftrightarrow> byte b < 32 \<or> byte b = 127"

text \<open>\<open>HeaderValue::from_str\<close> refuses control characters other than the tab.\<close>

definition header_value_ok :: "string \<Rightarrow> bool" where
  "header_value_ok v \<longleftrightarrow> list_all (\<lambda>b. \<not> is_ascii_control b \<or> byte b = 9) v"

definition MAX_REQUEST_ID_BYTES :: int where
  "MAX_REQUEST_ID_BYTES = 128"

definition response_request_id :: "http_response \<Rightarrow> string option" where
  "response_request_id r =
     Option.bind (find_map (map_of (hr_headers r))
                    [''x-request-id'', ''request-id'', ''x-wb-request-id''])
       (\<lambda>raw. Option.bind (header_to_str raw)
          (\<lambda>v. if v \<noteq> [] \<and> str_len v \<le> MAX_REQUEST_ID_BYTES \<and>
                 \<not> list_ex is_control (str_chars v) then Some v else None))"


section \<open>Vendor cooldowns\<close>

record web_libraries =
  wl_core :: libraries
  wl_sid_of :: "string \<Rightarrow> string option"
  wl_rfc2822 :: "string \<Rightarrow> instant option"

text \<open>\<open>str::trim\<close> on the text of a header, and \<open>str::parse::<u64>\<close>.\<close>

definition trim_header :: "string \<Rightarrow> string" where
  "trim_header s = (let blank = (\<lambda>b. byte b = 32 \<or> byte b = 9)
                    in rev (dropWhile blank (rev (dropWhile blank s))))"

definition digits_value :: "string \<Rightarrow> int" where
  "digits_value = foldl (\<lambda>n b. n * 10 + (byte b - 48)) 0"

definition parse_u64 :: "string \<Rightarrow> int option" where
  "parse_u64 s =
     (let digits = (case s of CHR ''+'' # ds \<Rightarrow> ds | _ \<Rightarrow> s)
      in if digits \<noteq> [] \<and> list_all is_ascii_digit digits \<and> digits_value digits < 2 ^ 64
         then Some (digits_value digits) else None)"

datatype parsed_retry_delay = DelayAbsent | DelayValid duration | DelayInvalid

fun parse_retry_delay_from ::
  "web_libraries \<Rightarrow> (string \<times> string) list \<Rightarrow> instant \<Rightarrow> string list \<Rightarrow> parsed_retry_delay" where
  "parse_retry_delay_from wl headers now [] = DelayAbsent"
| "parse_retry_delay_from wl headers now (name # names) =
     (case map_of headers name of
        None \<Rightarrow> parse_retry_delay_from wl headers now names
      | Some raw \<Rightarrow>
          (case header_to_str raw of
             None \<Rightarrow> DelayInvalid
           | Some text \<Rightarrow>
               (case parse_u64 (trim_header text) of
                  Some n \<Rightarrow> DelayValid (seconds n)
                | None \<Rightarrow>
                    if name = ''retry-after''
                    then (case wl_rfc2822 wl (trim_header text) of
                            None \<Rightarrow> DelayInvalid
                          | Some retry_at \<Rightarrow> DelayValid (max 0 (retry_at - now)))
                    else DelayInvalid)))"

definition parse_retry_delay ::
  "web_libraries \<Rightarrow> (string \<times> string) list \<Rightarrow> instant \<Rightarrow> parsed_retry_delay" where
  "parse_retry_delay wl headers now =
     parse_retry_delay_from wl headers now
       [''retry-after'', ''x-ratelimit-retry'', ''x-ratelimit-reset'']"

definition is_retriable :: "u16 \<Rightarrow> bool" where
  "is_retriable status \<longleftrightarrow> status = 429 \<or> status = 502 \<or> status = 503 \<or> status = 504"

definition vendor_quota_cooldown ::
  "web_libraries \<Rightarrow> (string \<times> string) list \<Rightarrow> u16 \<Rightarrow> instant \<Rightarrow> duration option" where
  "vendor_quota_cooldown wl headers status now =
     (let exhausted =
        (case Option.bind (map_of headers ''x-ratelimit-remaining'') header_to_str of
           None \<Rightarrow> False
         | Some v \<Rightarrow> trim_header v = ''0'')
      in if \<not> is_retriable status \<and> \<not> exhausted then None
         else case parse_retry_delay wl headers now of
           DelayValid d \<Rightarrow> Some d
         | _ \<Rightarrow> if status = 429 then Some (seconds 60) else None)"


section \<open>Requests\<close>

datatype bid_placement = Combined | Search | Recommendations
datatype bid_type = Manual | Unified
datatype payment_type = Cpm | Cpc

record prepared_bid_change =
  pb_nm_id :: u64
  pb_placement :: bid_placement
  pb_before_bid_kopecks :: u64
  pb_bid_kopecks :: u64

record create_campaign_request =
  cc_name :: string
  cc_nm_ids :: "u64 list"
  cc_bid_type :: bid_type
  cc_payment_type :: payment_type
  cc_placement_types :: "bid_placement list"

datatype endpoint =
    CHANGE_BIDS_PATH
  | CREATE_CAMPAIGN_PATH
  | PAUSE_CAMPAIGN_PATH
  | START_CAMPAIGN_PATH
  | DEPOSIT_BUDGET_PATH

datatype wb_request =
    ChangeBidsRequest u64 "prepared_bid_change list"
  | PauseRequest u64
  | StartRequest u64
  | CreateRequest create_campaign_request
  | DepositRequest u64 u64

datatype wb_write_error =
    AuthorizationUnavailable
  | SharedQuota quota_error
  | InvalidRequest string
  | HttpStatus u16 "string option"
  | AmbiguousWrite string "string option"

datatype 'e guarded_write_error = Permit 'e | Write wb_write_error

datatype write_outcome_kind = DefiniteFailure | AmbiguousOutcome

fun outcome_kind :: "wb_write_error \<Rightarrow> write_outcome_kind" where
  "outcome_kind (InvalidRequest _) = DefiniteFailure"
| "outcome_kind (SharedQuota _) = DefiniteFailure"
| "outcome_kind AuthorizationUnavailable = DefiniteFailure"
| "outcome_kind (HttpStatus _ _) = AmbiguousOutcome"
| "outcome_kind (AmbiguousWrite _ _) = AmbiguousOutcome"

definition placement_api_str :: "bid_placement \<Rightarrow> string" where
  "placement_api_str p =
     (case p of
        Combined \<Rightarrow> ''combined'' | Search \<Rightarrow> ''search'' | Recommendations \<Rightarrow> ''recommendations'')"

definition bid_type_api_str :: "bid_type \<Rightarrow> string" where
  "bid_type_api_str t = (case t of Manual \<Rightarrow> ''manual'' | Unified \<Rightarrow> ''unified'')"

definition payment_type_api_str :: "payment_type \<Rightarrow> string" where
  "payment_type_api_str t = (case t of Cpm \<Rightarrow> ''cpm'' | Cpc \<Rightarrow> ''cpc'')"

definition MAX_CHANGES :: nat where
  "MAX_CHANGES = 50"

definition exceeds_i64 :: "u64 \<Rightarrow> bool" where
  "exceeds_i64 v \<longleftrightarrow> 9223372036854775807 < v"

definition validate_advert_id :: "u64 \<Rightarrow> (wb_write_error, unit) result" where
  "validate_advert_id advert_id =
     (if advert_id = 0 \<or> exceeds_i64 advert_id then Error (InvalidRequest ''advert_id'')
      else Ok ())"

definition validate_write_request ::
  "u64 \<Rightarrow> prepared_bid_change list \<Rightarrow> (wb_write_error, unit) result" where
  "validate_write_request advert_id changes =
     and_then (validate_advert_id advert_id) (\<lambda>_.
     if changes = [] \<or> MAX_CHANGES < length changes then Error (InvalidRequest ''changes'')
     else if \<not> distinct (map (\<lambda>c. (pb_nm_id c, pb_placement c)) changes) \<or>
             list_ex (\<lambda>c. pb_nm_id c = 0 \<or> exceeds_i64 (pb_nm_id c) \<or>
                          exceeds_i64 (pb_before_bid_kopecks c) \<or>
                          pb_bid_kopecks c = 0 \<or> exceeds_i64 (pb_bid_kopecks c)) changes
     then Error (InvalidRequest ''changes'')
     else Ok ())"

definition placements_valid :: "bid_type \<Rightarrow> bid_placement list \<Rightarrow> bool" where
  "placements_valid t placements \<longleftrightarrow>
     (case t of
        Manual \<Rightarrow> placements \<noteq> [] \<and> length placements \<le> 2 \<and> distinct placements \<and>
                  Combined \<notin> set placements
      | Unified \<Rightarrow> placements = [])"

definition validate_create_campaign_request ::
  "create_campaign_request \<Rightarrow> (wb_write_error, unit) result" where
  "validate_create_campaign_request r =
     (if cc_name r = [] \<or> \<not> is_trimmed (cc_name r) \<or> 100 < str_len (cc_name r) \<or>
         list_ex is_control (str_chars (cc_name r))
      then Error (InvalidRequest ''name'')
      else if cc_nm_ids r = [] \<or> MAX_CHANGES < length (cc_nm_ids r)
      then Error (InvalidRequest ''nm_ids'')
      else if \<not> distinct (cc_nm_ids r) \<or>
              list_ex (\<lambda>nm_id. nm_id = 0 \<or> exceeds_i64 nm_id) (cc_nm_ids r)
      then Error (InvalidRequest ''nm_ids'')
      else if \<not> placements_valid (cc_bid_type r) (cc_placement_types r)
      then Error (InvalidRequest ''placement_types'')
      else Ok ())"

fun validate_request :: "wb_request \<Rightarrow> (wb_write_error, unit) result" where
  "validate_request (ChangeBidsRequest advert_id changes) = validate_write_request advert_id changes"
| "validate_request (PauseRequest advert_id) = validate_advert_id advert_id"
| "validate_request (StartRequest advert_id) = validate_advert_id advert_id"
| "validate_request (CreateRequest r) = validate_create_campaign_request r"
| "validate_request (DepositRequest advert_id amount_rubles) =
     (if \<not> (1 \<le> amount_rubles \<and> amount_rubles \<le> 1000000)
      then Error (InvalidRequest ''funding must be 1..=1000000 RUB'')
      else validate_advert_id advert_id)"

fun request_endpoint :: "wb_request \<Rightarrow> endpoint" where
  "request_endpoint (ChangeBidsRequest _ _) = CHANGE_BIDS_PATH"
| "request_endpoint (PauseRequest _) = PAUSE_CAMPAIGN_PATH"
| "request_endpoint (StartRequest _) = START_CAMPAIGN_PATH"
| "request_endpoint (CreateRequest _) = CREATE_CAMPAIGN_PATH"
| "request_endpoint (DepositRequest _ _) = DEPOSIT_BUDGET_PATH"

text \<open>The body of the request; the status changes are plain \<open>GET\<close>s.\<close>

fun request_payload :: "wb_request \<Rightarrow> json" where
  "request_payload (ChangeBidsRequest advert_id changes) =
     json_object [(''bids'', JArray [json_object
       [(''advert_id'', JInt (uint advert_id)),
        (''nm_bids'', JArray (map (\<lambda>c. json_object
           [(''nm_id'', JInt (uint (pb_nm_id c))),
            (''bid_kopecks'', JInt (uint (pb_bid_kopecks c))),
            (''placement'', JString (placement_api_str (pb_placement c)))]) changes))]])]"
| "request_payload (PauseRequest _) = JNull"
| "request_payload (StartRequest _) = JNull"
| "request_payload (CreateRequest r) =
     json_object ([(''name'', JString (cc_name r)),
        (''nms'', JArray (map (\<lambda>n. JInt (uint n)) (cc_nm_ids r))),
        (''bid_type'', JString (bid_type_api_str (cc_bid_type r))),
        (''payment_type'', JString (payment_type_api_str (cc_payment_type r)))] @
        (if cc_bid_type r = Manual
         then [(''placement_types'',
                JArray (map (\<lambda>p. JString (placement_api_str p)) (cc_placement_types r)))]
         else []))"
| "request_payload (DepositRequest _ amount_rubles) =
     json_object [(''sum'', JInt (uint amount_rubles)), (''type'', JInt 1),
                  (''return'', JBool True)]"


section \<open>The answer of the marketplace\<close>

definition MAX_WRITE_RESPONSE_BYTES :: int where
  "MAX_WRITE_RESPONSE_BYTES = 1048576"

definition MAX_ERROR_RESPONSE_BYTES :: int where
  "MAX_ERROR_RESPONSE_BYTES = 4096"

definition status_is_success :: "u16 \<Rightarrow> bool" where
  "status_is_success s \<longleftrightarrow> 200 \<le> s \<and> s < 300"

fun json_as_u64 :: "json \<Rightarrow> u64 option" where
  "json_as_u64 (JInt n) = (if 0 \<le> n \<and> n < 2 ^ 64 then Some (word_of_int n) else None)"
| "json_as_u64 _ = None"

definition response_limit :: "wb_request \<Rightarrow> u16 \<Rightarrow> int" where
  "response_limit request status =
     (if request_endpoint request \<noteq> DEPOSIT_BUDGET_PATH \<and> status_is_success status
      then MAX_WRITE_RESPONSE_BYTES else MAX_ERROR_RESPONSE_BYTES)"

text \<open>What the body of a \<open>200\<close> means for each request.\<close>

fun read_success ::
  "web_libraries \<Rightarrow> wb_request \<Rightarrow> string option \<Rightarrow> string \<Rightarrow> (wb_write_error, json) result" where
  "read_success wl (DepositRequest _ _) request_id bytes =
     (case Option.bind (Option.bind (from_str (wl_core wl) bytes) (\<lambda>v. json_get v ''total''))
             json_as_u64 of
        None \<Rightarrow> Error (AmbiguousWrite ''invalid_deposit_total'' request_id)
      | Some v \<Rightarrow> Ok (JInt (uint v)))"
| "read_success wl (CreateRequest _) request_id bytes =
     (case Option.bind (from_str (wl_core wl) bytes) json_as_u64 of
        None \<Rightarrow> Error (AmbiguousWrite ''invalid_success_advert_id'' request_id)
      | Some advert_id \<Rightarrow>
          map_err (AmbiguousWrite ''invalid_success_advert_id'' request_id)
            (and_then (validate_advert_id advert_id) (\<lambda>_. Ok (JInt (uint advert_id)))))"
| "read_success wl _ request_id bytes =
     (if bytes = [] then Ok JNull
      else case from_str (wl_core wl) bytes of
        None \<Rightarrow> Error (AmbiguousWrite ''invalid_success_json'' request_id)
      | Some v \<Rightarrow> Ok v)"

definition read_response ::
  "web_libraries \<Rightarrow> wb_request \<Rightarrow> http_response \<Rightarrow> (wb_write_error, json) result" where
  "read_response wl request r =
     (let status = hr_status r; request_id = response_request_id r in
      and_then (wrap_err (\<lambda>reason. AmbiguousWrite reason request_id)
                 (read_bounded r (response_limit request status))) (\<lambda>bytes.
      if status = 200 then read_success wl request request_id bytes
      else Error (HttpStatus status request_id)))"


section \<open>The client\<close>

record wb_client =
  wc_token :: string
  wc_backend :: backend
  wc_minimum_interval :: duration
  wc_window :: "(instant \<times> instant) option"

definition MIN_WRITE_INTERVAL :: duration where
  "MIN_WRITE_INTERVAL = milliseconds 250"

definition MIN_CREATE_INTERVAL :: duration where
  "MIN_CREATE_INTERVAL = seconds 12"

datatype pacer = Write_Pacer | Create_Pacer | Deposit_Pacer

definition request_pacer :: "wb_request \<Rightarrow> pacer" where
  "request_pacer request =
     (case request of
        CreateRequest _ \<Rightarrow> Create_Pacer
      | DepositRequest _ _ \<Rightarrow> Deposit_Pacer
      | _ \<Rightarrow> Write_Pacer)"

definition pacer_interval :: "wb_client \<Rightarrow> pacer \<Rightarrow> duration" where
  "pacer_interval c p =
     (case p of
        Write_Pacer \<Rightarrow> wc_minimum_interval c
      | Create_Pacer \<Rightarrow> if wc_minimum_interval c = 0 then 0 else MIN_CREATE_INTERVAL
      | Deposit_Pacer \<Rightarrow> if wc_minimum_interval c = 0 then 0 else seconds 1)"

text \<open>
  One call: when the mutex of the pacer was taken, by how much the sleep and the permit took
  longer, the answer of the privilege probe, the process clock before the permit and at
  departure, the session and clock of the quota table, and the reply of the marketplace.
\<close>

record client_env =
  ce_locked_at :: instant
  ce_overslept :: nat
  ce_permit_took :: nat
  ce_preflight :: bool
  ce_permit_clock :: instant
  ce_admit_session :: session
  ce_admit_clock :: instant
  ce_departure_clock :: instant
  ce_reply :: http_reply
  ce_response_clock :: instant
  ce_defer_session :: session
  ce_defer_clock :: instant

record 'w departure =
  dp_request :: wb_request
  dp_at :: instant
  dp_slot :: instant
  dp_caller :: 'w

record 'w client_world =
  cw_caller :: 'w
  cw_quota :: departures
  cw_next_start :: "pacer \<Rightarrow> instant"
  cw_departed :: "'w departure list"

definition verify_authorization :: "wb_client \<Rightarrow> instant \<Rightarrow> (wb_write_error, unit) result" where
  "verify_authorization c now =
     (case wc_window c of
        None \<Rightarrow> Ok ()
      | Some (starts_at, expires_at) \<Rightarrow>
          if now < starts_at \<or> expires_at \<le> now then Error AuthorizationUnavailable else Ok ())"

definition quota_bucket :: "endpoint \<Rightarrow> string" where
  "quota_bucket path =
     (case path of
        CHANGE_BIDS_PATH \<Rightarrow> ''promotion_bids_write''
      | START_CAMPAIGN_PATH \<Rightarrow> ''promotion_start''
      | PAUSE_CAMPAIGN_PATH \<Rightarrow> ''promotion_pause''
      | CREATE_CAMPAIGN_PATH \<Rightarrow> ''promotion_create''
      | DEPOSIT_BUDGET_PATH \<Rightarrow> ''promotion_deposit'')"

definition shared_quota_key ::
  "web_libraries \<Rightarrow> wb_client \<Rightarrow> endpoint \<Rightarrow> (quota_error, string option) result" where
  "shared_quota_key wl c path =
     (if \<not> quota_is_enabled (wc_backend c) then Ok None
      else and_then (quota_key_wb (wl_core wl) (wl_sid_of wl) (wc_token c) (quota_bucket path))
             (\<lambda>key. Ok (Some key)))"

definition quota_preflight :: "backend \<Rightarrow> bool \<Rightarrow> (quota_error, unit) result" where
  "quota_preflight b granted =
     (case b of
        QuotaDisabled \<Rightarrow> Ok ()
      | QuotaInvalid \<Rightarrow> Error QuotaUnavailable
      | QuotaPostgres \<Rightarrow> if granted then Ok () else Error QuotaUnavailable)"

definition preflight_shared_quota ::
  "web_libraries \<Rightarrow> wb_client \<Rightarrow> client_env \<Rightarrow> endpoint \<Rightarrow> (wb_write_error, unit) result" where
  "preflight_shared_quota wl c env path =
     and_then (wrap_err SharedQuota (shared_quota_key wl c path)) (\<lambda>_.
     wrap_err SharedQuota (quota_preflight (wc_backend c) (ce_preflight env)))"

definition quota_interval :: "endpoint \<Rightarrow> duration" where
  "quota_interval path =
     (case path of
        CREATE_CAMPAIGN_PATH \<Rightarrow> MIN_CREATE_INTERVAL
      | DEPOSIT_BUDGET_PATH \<Rightarrow> seconds 1
      | _ \<Rightarrow> MIN_WRITE_INTERVAL)"

definition admit_shared_quota ::
  "web_libraries \<Rightarrow> wb_client \<Rightarrow> client_env \<Rightarrow> endpoint \<Rightarrow> departures \<Rightarrow>
     (wb_write_error, unit) result \<times> departures" where
  "admit_shared_quota wl c env path t =
     (case wrap_err SharedQuota (shared_quota_key wl c path) of
        Inl e \<Rightarrow> (Inl e, t)
      | Inr None \<Rightarrow> (Ok (), t)
      | Inr (Some key) \<Rightarrow>
          (let (r, t) = admit (wc_backend c) (ce_admit_session env) (ce_admit_clock env) key
                          (quota_interval path) t
           in (wrap_err SharedQuota r, t)))"

definition publish_shared_cooldown ::
  "web_libraries \<Rightarrow> wb_client \<Rightarrow> client_env \<Rightarrow> endpoint \<Rightarrow> http_response \<Rightarrow> departures \<Rightarrow>
     departures" where
  "publish_shared_cooldown wl c env path r t =
     (case vendor_quota_cooldown wl (hr_headers r) (hr_status r) (ce_response_clock env) of
        None \<Rightarrow> t
      | Some delay \<Rightarrow>
          (case shared_quota_key wl c path of
             Inr (Some key) \<Rightarrow>
               snd (defer_cooldown (wc_backend c) (ce_defer_session env) (ce_defer_clock env) key
                      delay t)
           | _ \<Rightarrow> t))"


section \<open>Guarded writes\<close>

definition write_slot :: "client_env \<Rightarrow> instant \<Rightarrow> instant" where
  "write_slot env next_start =
     max (ce_locked_at env) next_start + int (ce_overslept env) + int (ce_permit_took env)"

text \<open>The checks that \<open>run_guarded\<close> makes inside the slot: quota probe, window, permit.\<close>

definition final_permit ::
  "web_libraries \<Rightarrow> wb_client \<Rightarrow> client_env \<Rightarrow> endpoint \<Rightarrow> ('w \<Rightarrow> ('e, unit) result \<times> 'w) \<Rightarrow>
     'w client_world \<Rightarrow> ('e guarded_write_error, unit) result \<times> 'w client_world" where
  "final_permit wl c env path permit w =
     (case preflight_shared_quota wl c env path of
        Inl e \<Rightarrow> (wrap_err Write (Inl e), w)
      | Inr _ \<Rightarrow>
          (case verify_authorization c (ce_permit_clock env) of
             Inl e \<Rightarrow> (wrap_err Write (Inl e), w)
           | Inr _ \<Rightarrow>
               (let (r, caller) = permit (cw_caller w)
                in (wrap_err Permit r, w\<lparr>cw_caller := caller\<rparr>))))"

text \<open>\<open>change_bids_once\<close>, \<open>change_campaign_status_once\<close>, \<open>create_campaign_once\<close>, \<open>deposit_once\<close>.\<close>

definition send_once ::
  "web_libraries \<Rightarrow> wb_client \<Rightarrow> client_env \<Rightarrow> wb_request \<Rightarrow> instant \<Rightarrow> 'w client_world \<Rightarrow>
     (wb_write_error, json) result \<times> 'w client_world" where
  "send_once wl c env request slot w =
     (let path = request_endpoint request;
          (admitted, t) = admit_shared_quota wl c env path (cw_quota w);
          w = w\<lparr>cw_quota := t\<rparr>
      in case admitted of
        Inl e \<Rightarrow> (Inl e, w)
      | Inr _ \<Rightarrow>
          (case verify_authorization c (ce_departure_clock env) of
             Inl e \<Rightarrow> (Inl e, w)
           | Inr _ \<Rightarrow>
               (let w = w\<lparr>cw_departed := \<lparr>dp_request = request, dp_at = ce_departure_clock env,
                                          dp_slot = slot, dp_caller = cw_caller w\<rparr>
                                         # cw_departed w\<rparr>
                in case ce_reply env of
                  TimedOut \<Rightarrow> (Error (AmbiguousWrite ''timeout'' None), w)
                | NetworkFailed \<Rightarrow> (Error (AmbiguousWrite ''network_error'' None), w)
                | Responded r \<Rightarrow>
                    (read_response wl request r,
                     w\<lparr>cw_quota := publish_shared_cooldown wl c env path r (cw_quota w)\<rparr>))))"

definition guarded_write ::
  "web_libraries \<Rightarrow> wb_client \<Rightarrow> client_env \<Rightarrow> wb_request \<Rightarrow> ('w \<Rightarrow> ('e, unit) result \<times> 'w) \<Rightarrow>
     'w client_world \<Rightarrow> ('e guarded_write_error, json) result \<times> 'w client_world" where
  "guarded_write wl c env request permit w =
     (case validate_request request of
        Inl e \<Rightarrow> (wrap_err Write (Inl e), w)
      | Inr _ \<Rightarrow>
          (let p = request_pacer request;
               slot = write_slot env (cw_next_start w p);
               (permitted, w) = final_permit wl c env (request_endpoint request) permit w
           in case permitted of
             Inl e \<Rightarrow> (Inl e, w)
           | Inr _ \<Rightarrow>
               (let w = w\<lparr>cw_next_start := (cw_next_start w)(p := slot + pacer_interval c p)\<rparr>;
                    (r, w) = send_once wl c env request slot w
                in (wrap_err Write r, w))))"

end
