(* ===== verification/Wb_Client_Correct.thy ===== *)
theory Wb_Client_Correct
  imports Wb_Client
begin

text \<open>
  The correctness of the write client: the bounded reader agrees with its specification, a
  guarded write sends at most one request and its error class says exactly whether the
  request may have left, and the pacing slots of one client keep their distance.
\<close>


section \<open>The bounded reader\<close>

text \<open>The specification: the whole body, if the stream ends without a failure.\<close>

fun whole_body :: "body_chunk list \<Rightarrow> string option" where
  "whole_body [] = Some []"
| "whole_body (Broken # cs) = None"
| "whole_body (Chunk c # cs) = map_option (append c) (whole_body cs)"

lemma str_len_simps [simp]: "str_len [] = 0" "str_len (a @ b) = str_len a + str_len b"
  by (simp_all add: str_len_def)

lemma str_len_nonneg [simp]: "0 \<le> str_len s"
  by (simp add: str_len_def)

lemma read_chunks_Ok:
  assumes "str_len body \<le> limit"
  shows "read_chunks limit body cs = Inr b \<longleftrightarrow>
    (\<exists>rest. whole_body cs = Some rest \<and> b = body @ rest \<and> str_len b \<le> limit)"
  using assms
proof (induction cs arbitrary: body)
  case Nil
  then show ?case by auto
next
  case (Cons a cs)
  show ?case
  proof (cases a)
    case (Chunk c)
    show ?thesis
    proof (cases "limit < str_len body + str_len c")
      case True
      have "\<not> str_len (body @ c @ rest) \<le> limit" for rest
        using True str_len_nonneg [of rest] unfolding str_len_simps by linarith
      with True Chunk show ?thesis
        by (auto simp: Let_def)
    next
      case False
      with Cons.IH [of "body @ c"] Chunk show ?thesis
        by (auto simp: Let_def)
    qed
  qed simp
qed

lemma read_bounded_Panic: "read_bounded_body r limit \<noteq> Inl Panic"
proof -
  have "read_chunks limit body cs \<noteq> Inl Panic" for body cs
    by (induction limit body cs rule: read_chunks.induct) (auto simp: Let_def)
  then show ?thesis
    by (auto simp: read_bounded_body_def split: option.splits)
qed


section \<open>The class of an error\<close>

definition may_have_left :: "('e guarded_write_error, 'a) result \<Rightarrow> bool" where
  "may_have_left r \<longleftrightarrow>
     (case r of
        Inr _ \<Rightarrow> True
      | Inl (Err (Write e)) \<Rightarrow> outcome_kind e = AmbiguousOutcome
      | _ \<Rightarrow> False)"

lemma may_have_left_simps [simp]:
  "may_have_left (Inr x)" "\<not> may_have_left (Inl (Err (Permit p)))" "\<not> may_have_left (Inl Panic)"
  "may_have_left (Inl (Err (Write e))) \<longleftrightarrow> outcome_kind e = AmbiguousOutcome"
  by (simp_all add: may_have_left_def)

text \<open>Nothing that is read from an answer counts as a definite failure.\<close>

definition ambiguous_failure :: "wb_write_error failure \<Rightarrow> bool" where
  "ambiguous_failure f \<longleftrightarrow>
     (case f of Err e \<Rightarrow> outcome_kind e = AmbiguousOutcome | Panic \<Rightarrow> False)"

definition left_class :: "(wb_write_error, 'a) result \<Rightarrow> bool" where
  "left_class r \<longleftrightarrow> (case r of Inr _ \<Rightarrow> True | Inl f \<Rightarrow> ambiguous_failure f)"

lemma left_class_simps [simp]:
  "left_class (Inr x)" "left_class (Inl f) \<longleftrightarrow> ambiguous_failure f"
  "ambiguous_failure (Err e) \<longleftrightarrow> outcome_kind e = AmbiguousOutcome"
  "\<not> ambiguous_failure Panic"
  by (simp_all add: left_class_def ambiguous_failure_def)

lemma validate_advert_id_cases:
  "validate_advert_id i = Inr () \<or> validate_advert_id i = Error (InvalidRequest ''advert_id'')"
  by (simp add: validate_advert_id_def)

lemma read_success_class: "left_class (read_success wl request request_id bytes)"
  using validate_advert_id_cases
  by (cases request) (auto split: option.splits simp: map_err_def and_then_def split: sum.splits
      failure.splits, (metis Inr_Inl_False failure.distinct(1) sum.inject(1) validate_advert_id_cases)+)

lemma read_response_class: "left_class (read_response wl request r)"
proof (cases "read_bounded_body r (response_limit request (hr_status r))")
  case (Inl e)
  with read_bounded_Panic [of r] show ?thesis
    by (cases e) (auto simp: read_response_def read_bounded_def wrap_err_def Let_def)
next
  case (Inr b)
  then show ?thesis
    by (simp add: read_response_def read_bounded_def wrap_err_def Let_def read_success_class)
qed

lemma may_have_left_wrap [simp]: "may_have_left (wrap_err Write r) = left_class r"
  by (auto simp: wrap_err_def split: sum.splits failure.splits)

lemma preflight_definite:
  "preflight_shared_quota wl c env path = Inl e \<Longrightarrow> \<not> ambiguous_failure e"
  by (cases e) (auto simp: preflight_shared_quota_def wrap_err_def and_then_def
      split: sum.splits failure.splits)

lemma verify_authorization_definite:
  "verify_authorization c now = Inl e \<Longrightarrow> \<not> ambiguous_failure e"
  by (auto simp: verify_authorization_def split: option.splits if_splits)

lemma admit_definite:
  "fst (admit_shared_quota wl c env path t) = Inl e \<Longrightarrow> \<not> ambiguous_failure e"
  by (cases e) (auto simp: admit_shared_quota_def wrap_err_def split: sum.splits failure.splits
      option.splits prod.splits)

lemma validate_request_definite:
  "validate_request request = Inl e \<Longrightarrow> \<not> ambiguous_failure e"
  by (cases request) (auto simp: validate_advert_id_def validate_write_request_def and_then_def
      validate_create_campaign_request_def split: if_splits sum.splits)



section \<open>One guarded write\<close>

lemma send_once_cases:
  assumes "send_once wl c env request slot w = (r, w')"
  shows "cw_caller w' = cw_caller w" "cw_next_start w' = cw_next_start w"
    "cw_departed w' = (if left_class r
       then \<lparr>dp_request = request, dp_at = ce_departure_clock env, dp_slot = slot,
              dp_caller = cw_caller w\<rparr> # cw_departed w
       else cw_departed w)"
    "left_class r \<Longrightarrow> verify_authorization c (ce_departure_clock env) = Inr ()"
proof -
  obtain a t where admit: "admit_shared_quota wl c env (request_endpoint request) (cw_quota w)
      = (a, t)"
    by (metis prod.collapse)
  show "cw_caller w' = cw_caller w" "cw_next_start w' = cw_next_start w"
    "cw_departed w' = (if left_class r
       then \<lparr>dp_request = request, dp_at = ce_departure_clock env, dp_slot = slot,
              dp_caller = cw_caller w\<rparr> # cw_departed w
       else cw_departed w)"
    "left_class r \<Longrightarrow> verify_authorization c (ce_departure_clock env) = Inr ()"
    using assms admit admit_definite [of wl c env "request_endpoint request" "cw_quota w"]
      verify_authorization_definite [of c "ce_departure_clock env"]
      read_response_class [of wl request]
    by (auto simp: send_once_def Let_def split: sum.splits http_reply.splits dest: sym)
qed

lemma final_permit_cases:
  fixes permit :: "'w \<Rightarrow> ('e, unit) result \<times> 'w"
  assumes "final_permit wl c env path permit w = (r, w')"
  obtains (refused) e where "r = Inl e"
      and "\<not> may_have_left (Inl e :: ('e guarded_write_error, json) result)"
      and "cw_departed w' = cw_departed w"
      and "cw_caller w' = cw_caller w \<or> cw_caller w' = snd (permit (cw_caller w))"
    | (granted) "r = Inr ()" and "permit (cw_caller w) = (Inr (), cw_caller w')"
      and "w' = w\<lparr>cw_caller := cw_caller w'\<rparr>"
proof -
  obtain p s where p: "permit (cw_caller w) = (p, s)"
    by (metis prod.collapse)
  consider (e) e where "r = Inl e" "\<not> may_have_left (Inl e :: ('e guarded_write_error, json) result)"
      "cw_departed w' = cw_departed w"
      "cw_caller w' = cw_caller w \<or> cw_caller w' = snd (permit (cw_caller w))"
    | (g) "p = Inr ()" "r = Inr ()" "w' = w\<lparr>cw_caller := s\<rparr>"
  proof (cases "preflight_shared_quota wl c env path")
    case (Inl e)
    with preflight_definite [OF Inl] assms that(1) show ?thesis
      by (cases e) (auto simp: final_permit_def wrap_err_def)
  next
    case (Inr u)
    note pre = Inr
    show ?thesis
    proof (cases "verify_authorization c (ce_permit_clock env)")
      case (Inl e)
      with verify_authorization_definite [OF Inl] pre assms that(1) show ?thesis
        by (cases e) (auto simp: final_permit_def wrap_err_def)
    next
      case (Inr v)
      with pre assms p that show ?thesis
        by (cases p) (auto simp: final_permit_def wrap_err_def split: failure.splits)
    qed
  qed
  then show ?thesis
    using p refused granted by cases auto
qed


text \<open>The two ways a guarded write ends.\<close>

lemma guarded_write_cases:
  assumes "guarded_write wl c env request permit w = (r, w')"
  obtains (left) d where "may_have_left r" and "cw_departed w' = d # cw_departed w"
      and "dp_request d = request" and "validate_request request = Inr ()"
      and "permit (cw_caller w) = (Inr (), cw_caller w')" and "dp_caller d = cw_caller w'"
      and "verify_authorization c (dp_at d) = Inr ()"
    | (stayed) "\<not> may_have_left r" and "cw_departed w' = cw_departed w"
      and "cw_caller w' = cw_caller w \<or> cw_caller w' = snd (permit (cw_caller w))"
proof (cases "validate_request request")
  case (Inl e)
  with validate_request_definite [OF Inl] assms stayed show ?thesis
    by (cases e) (auto simp: guarded_write_def wrap_err_def)
next
  case (Inr u)
  let ?p = "request_pacer request"
  let ?slot = "write_slot env (cw_next_start w ?p)"
  obtain r1 w1 where permit: "final_permit wl c env (request_endpoint request) permit w = (r1, w1)"
    by (metis prod.collapse)
  let ?w = "w1\<lparr>cw_next_start := (cw_next_start w1)(?p := ?slot + pacer_interval c ?p)\<rparr>"
  obtain r2 w2 where send: "send_once wl c env request ?slot ?w = (r2, w2)"
    by (metis prod.collapse)
  note sent = send_once_cases [OF send]
  from permit show ?thesis
  proof (cases rule: final_permit_cases)
    case (refused e)
    then have "r = Inl e" "w' = w1"
      using permit Inr assms by (auto simp: guarded_write_def Let_def)
    with refused stayed show ?thesis by simp
  next
    case granted
    have run: "r = wrap_err Write r2" "w' = w2"
      using permit Inr granted(1) send assms by (simp_all add: guarded_write_def Let_def)
    have departed: "cw_departed w1 = cw_departed w"
      by (subst granted(3)) simp
    have permitted: "permit (cw_caller w) = (Inr (), cw_caller w')"
      using granted(2) sent(1) by (simp add: run)
    show ?thesis
    proof (cases "left_class r2")
      case True
      then show ?thesis
        using sent(1,3,4) departed Inr permitted
        by (intro left) (auto simp: run)
    next
      case False
      then show ?thesis
        using sent(3) departed permitted stayed by (simp add: run)
    qed
  qed
qed


section \<open>Properties\<close>

text \<open>
  The bounded reader is the unbounded one cut at the limit: it returns a body exactly
  when the stream ends without a failure, neither the declared nor the received size
  exceeds the limit, and the body is the concatenation of the chunks.
\<close>

theorem read_bounded_exact:
  "read_bounded_body r (int n) = Ok body \<longleftrightarrow>
     (case hr_content_length r of None \<Rightarrow> True | Some declared \<Rightarrow> unat declared \<le> n) \<and>
     whole_body (hr_chunks r) = Some body \<and> length body \<le> n"
proof -
  have "read_chunks (int n) [] (hr_chunks r) = Inr body \<longleftrightarrow>
      whole_body (hr_chunks r) = Some body \<and> length body \<le> n"
    using read_chunks_Ok [of "[]" "int n" "hr_chunks r" body] by (auto simp: str_len_def)
  moreover have "int n < uint declared \<longleftrightarrow> \<not> unat declared \<le> n" for declared :: u64
    by (metis linorder_not_le of_nat_less_iff uint_nat)
  ultimately show ?thesis
    by (auto simp: read_bounded_body_def split: option.splits)
qed

text \<open>
  C9. A guarded write sends at most one request, and its result says exactly whether one
  may have left: after a success or an ambiguous error the request has left, once, with
  the permit granted, the state of the caller as the permit left it and the clock inside
  the authorization window; after a refused permit or a definite failure nothing has left.
\<close>

theorem guarded_write_departure:
  "case guarded_write wl c env request permit w of (r, w') \<Rightarrow>
     if may_have_left r
     then \<exists>d. cw_departed w' = d # cw_departed w \<and> dp_request d = request \<and>
       validate_request request = Ok () \<and>
       permit (cw_caller w) = (Ok (), cw_caller w') \<and> dp_caller d = cw_caller w' \<and>
       (case wc_window c of
          None \<Rightarrow> True
        | Some (starts_at, expires_at) \<Rightarrow> starts_at \<le> dp_at d \<and> dp_at d < expires_at)
     else cw_departed w' = cw_departed w"
proof -
  obtain r w' where run: "guarded_write wl c env request permit w = (r, w')"
    by (metis prod.collapse)
  then show ?thesis
    by (cases rule: guarded_write_cases)
      (auto simp: run verify_authorization_def split: option.splits if_splits)
qed

end
