(* ===== verification/Wb_Durable.thy ===== *)
theory Wb_Durable
  imports Wb_Intent Wb_Client Wb_Store
begin

text \<open>
  The executor on PostgreSQL, \<open>run_once_postgres_with_intent\<close> and its helpers in
  \<open>src/src/control/automation_executor.rs\<close>, with \<open>automation_executor/dispatch.rs\<close>
  (\<open>send_pending_postgres\<close>), \<open>automation_executor/write.rs\<close> (\<open>classify_postgres_write\<close>) and
  \<open>automation_postgres/acquire.rs\<close>. A run composes the durable store, the observer, the
  decision sources and the guarded write client: the world of a run is the client with the
  database as its caller, so that every departure is recorded with the database at that
  moment.

  The environment of a run decides whether the advisory lock is free, how each connection
  ends, what the server's clock shows at each call, what the marketplace reads return and
  how the write ends. The JSON texts of a snapshot, a decision and a request are parameters
  (\<open>serde_json\<close>).
\<close>


section \<open>Data\<close>

datatype store_call =
    Call_Acquire
  | Call_LoadState
  | Call_Initialize
  | Call_ReloadState
  | Call_LoadBaseline
  | Call_PersistCycle
  | Call_LoadPending
  | Call_Reserve
  | Call_Permit
  | Call_Settle
  | Call_Release

record codecs =
  snapshot_text :: "wb_snapshot \<Rightarrow> string"
  snapshot_of_text :: "string \<Rightarrow> wb_snapshot option"
  decision_text :: "wb_decision \<Rightarrow> string"
  request_text :: "pending_action_kind \<Rightarrow> string"
  request_of_text :: "string \<Rightarrow> pending_action_kind option"

record durable_env =
  de_lock_free :: bool
  de_link :: "store_call \<Rightarrow> link"
  de_now :: "store_call \<Rightarrow> instant"
  de_market :: "market_facts option"
  de_client :: client_env

record executor =
  ex_policy :: wb_policy
  ex_policy_sha256 :: string
  ex_writer :: wb_client

datatype durable_error =
    ShadowOnlyPolicy
  | StoreFailed store_error
  | StateDoesNotMatch
  | StateMissing
  | NotClean
  | NoPriorDayPause
  | BaselineInvalid
  | DurableMarketUnavailable
  | DurableObservationFailed observer_error
  | IntentFailed intent_error
  | PayloadInvalid
  | PayloadKindMismatch
  | AlreadyResolved
  | WriteTimestampMissing
  | PermitUnavailable store_error

record postgres_receipt =
  pr_decision :: wb_decision
  pr_outcome :: execution_outcome
  pr_cycle_id :: string
  pr_cycle_inserted :: bool
  pr_legacy_imported :: bool
  pr_state_revision :: u64

type_synonym durable_world = "database client_world"
type_synonym 'a durable_run = "(durable_error, 'a) result \<times> durable_world"

definition and_run ::
  "'a durable_run \<Rightarrow> ('a \<Rightarrow> durable_world \<Rightarrow> 'b durable_run) \<Rightarrow> 'b durable_run" where
  "and_run r f = (case fst r of Inl e \<Rightarrow> (Inl e, snd r) | Inr x \<Rightarrow> f x (snd r))"

text \<open>The question-mark operator on a store call that may change the tables, and on a read.\<close>

definition on_store :: "(database \<Rightarrow> 'a outcome) \<Rightarrow> durable_world \<Rightarrow> 'a durable_run" where
  "on_store f w =
     (let (r, db) = f (cw_caller w) in (wrap_err StoreFailed r, w\<lparr>cw_caller := db\<rparr>))"

definition read_store ::
  "link \<Rightarrow> (database \<Rightarrow> (store_error, 'a) result) \<Rightarrow> durable_world \<Rightarrow> 'a durable_run" where
  "read_store l f w =
     (if l = Connected then (wrap_err StoreFailed (f (cw_caller w)), w)
      else (Error (StoreFailed Unavailable), w))"

definition sha256_domain :: "libraries \<Rightarrow> string \<Rightarrow> string \<Rightarrow> string" where
  "sha256_domain lib domain bytes = sha256_hex lib (domain @ [CHR 0x00] @ bytes)"

text \<open>The writer that \<open>from_files\<close> builds: its window is the authorization of the policy.\<close>

definition executor_writer :: "string \<Rightarrow> backend \<Rightarrow> wb_policy \<Rightarrow> wb_client" where
  "executor_writer token b p = \<lparr>
     wc_token = token,
     wc_backend = b,
     wc_minimum_interval = MIN_WRITE_INTERVAL,
     wc_window = Some (p_authorized_at p, p_authorization_expires_at p)\<rparr>"


section \<open>The pending action\<close>

fun durable_action_kind_of :: "pending_action_kind \<Rightarrow> durable_action_kind" where
  "durable_action_kind_of (PendingChangeBids _) = Kind_ChangeBids"
| "durable_action_kind_of PendingPauseForDailyCap = Kind_PauseCampaignForDailyCap"
| "durable_action_kind_of PendingResumeAfterDailyCap = Kind_ResumeCampaignAfterDailyCap"

definition pending_from_durable_action ::
  "codecs \<Rightarrow> durable_action \<Rightarrow> (durable_error, pending_action) result" where
  "pending_from_durable_action cod action =
     and_then (ok_or (request_of_text cod (a_request_json action)) PayloadInvalid) (\<lambda>kind.
     ensure (durable_action_kind_of kind = a_action_kind action) PayloadKindMismatch
       (Ok \<lparr>pa_reserved_at = a_reserved_at action, pa_kind = kind\<rparr>))"

definition durable_pause_date :: "pending_action \<Rightarrow> naive_date option" where
  "durable_pause_date pending =
     (case pa_kind pending of
        PendingPauseForDailyCap \<Rightarrow> Some (wb_automation_business_date (pa_reserved_at pending))
      | _ \<Rightarrow> None)"

definition reconcile_postgres_pending ::
  "libraries \<Rightarrow> codecs \<Rightarrow> durable_env \<Rightarrow> campaign_key \<Rightarrow> wb_observation \<Rightarrow> durable_action \<Rightarrow>
     u64 \<Rightarrow> string \<Rightarrow> durable_world \<Rightarrow> (execution_outcome \<times> u64) durable_run" where
  "reconcile_postgres_pending lib cod env c ob action state_revision readback_cycle_id w =
     (let l = de_link env Call_Settle; now = de_now env Call_Settle;
          key = a_idempotency_key action
      in and_run (pending_from_durable_action cod action, w) (\<lambda>pending w.
      if a_status action = Act_Reserved then
        and_run (on_store (cancel_reserved lib l now c key state_revision ''write_not_started'') w)
          (\<lambda>transition w. (Ok (ReservationCancelled, tr_state_revision transition), w))
      else if a_status action = Act_Applied \<or> a_status action = Act_Cancelled
      then (Error AlreadyResolved, w)
      else if pending_is_visible ob pending then
        and_run (on_store (mark_applied lib l now c key state_revision readback_cycle_id
                   (durable_pause_date pending)) w)
          (\<lambda>transition w. (Ok (Reconciled, tr_state_revision transition), w))
      else if a_status action = Act_ReconciliationRequired
      then (Ok (IncidentLocked, state_revision), w)
      else case a_write_started_at action of
        None \<Rightarrow> (Error WriteTimestampMissing, w)
      | Some write_started_at \<Rightarrow>
          if o_observed_at ob < write_started_at + READBACK_GRACE then
            (if a_status action = Act_WriteStarted then
               and_run (on_store (mark_awaiting_readback lib l now c key state_revision) w)
                 (\<lambda>_ w. (Ok (AwaitingReadback, state_revision), w))
             else (Ok (AwaitingReadback, state_revision), w))
          else
            and_run (on_store (mark_reconciliation_required lib l now c key state_revision
                       ''write_not_reconciled'') w)
              (\<lambda>transition w. (Ok (IncidentLocked, tr_state_revision transition), w))))"


section \<open>Dispatch\<close>

definition prepared_change :: "wb_bid_change \<Rightarrow> prepared_bid_change" where
  "prepared_change c = \<lparr>pb_nm_id = c_nm_id c, pb_placement = Search,
     pb_before_bid_kopecks = c_from_bid_kopecks c, pb_bid_kopecks = c_to_bid_kopecks c\<rparr>"

definition pending_request :: "u64 \<Rightarrow> pending_action_kind \<Rightarrow> wb_request" where
  "pending_request campaign_id kind =
     (case kind of
        PendingChangeBids changes \<Rightarrow> ChangeBidsRequest campaign_id (map prepared_change changes)
      | PendingPauseForDailyCap \<Rightarrow> PauseRequest campaign_id
      | PendingResumeAfterDailyCap \<Rightarrow> StartRequest campaign_id)"

definition write_permit ::
  "libraries \<Rightarrow> durable_env \<Rightarrow> campaign_key \<Rightarrow> string \<Rightarrow> u64 \<Rightarrow> database \<Rightarrow> unit outcome" where
  "write_permit lib env c key state_revision db =
     (let (r, db) = mark_write_started lib (de_link env Call_Permit) (de_now env Call_Permit) c key
                      state_revision db
      in (and_then r (\<lambda>_. Ok ()), db))"

definition send_pending_postgres ::
  "web_libraries \<Rightarrow> executor \<Rightarrow> durable_env \<Rightarrow> campaign_key \<Rightarrow> pending_action \<Rightarrow> string \<Rightarrow> u64 \<Rightarrow>
     durable_world \<Rightarrow> (store_error guarded_write_error, unit) result \<times> durable_world" where
  "send_pending_postgres wl ex env c pending key state_revision w =
     (let (r, w) = guarded_write wl (ex_writer ex) (de_client env)
                     (pending_request (p_campaign_id (ex_policy ex)) (pa_kind pending))
                     (write_permit (wl_core wl) env c key state_revision) w
      in (and_then r (\<lambda>_. Ok ()), w))"

fun classify_postgres_write ::
  "(store_error guarded_write_error, unit) result \<Rightarrow> (durable_error, write_result) result" where
  "classify_postgres_write (Inr _) = Ok Sent"
| "classify_postgres_write (Inl Panic) = Panics"
| "classify_postgres_write (Inl (Err (Permit e))) = Error (PermitUnavailable e)"
| "classify_postgres_write (Inl (Err (Write e))) =
     (case outcome_kind e of DefiniteFailure \<Rightarrow> Ok NotSent | AmbiguousOutcome \<Rightarrow> Ok Ambiguous)"

text \<open>The transaction that follows the write.\<close>

definition settle_write ::
  "libraries \<Rightarrow> durable_env \<Rightarrow> campaign_key \<Rightarrow> string \<Rightarrow> u64 \<Rightarrow> write_result \<Rightarrow> durable_world \<Rightarrow>
     (execution_outcome \<times> u64) durable_run" where
  "settle_write lib env c key state_revision result w =
     (let l = de_link env Call_Settle; now = de_now env Call_Settle in
      case result of
        Sent \<Rightarrow>
          and_run (on_store (mark_awaiting_readback lib l now c key state_revision) w)
            (\<lambda>_ w. (Ok (WriteSentReconciliationRequired, state_revision), w))
      | NotSent \<Rightarrow>
          and_run (on_store (cancel_not_sent lib l now c key state_revision) w)
            (\<lambda>transition w. (Ok (ReservationCancelled, tr_state_revision transition), w))
      | Ambiguous \<Rightarrow>
          and_run (on_store (mark_reconciliation_required lib l now c key state_revision
                     ''write_result_ambiguous'') w)
            (\<lambda>transition w.
              (Ok (WriteSentReconciliationRequired, tr_state_revision transition), w)))"


section \<open>The run\<close>

definition try_acquire_campaign ::
  "durable_env \<Rightarrow> wb_policy \<Rightarrow> durable_world \<Rightarrow> campaign_key option durable_run" where
  "try_acquire_campaign env p w =
     (wrap_err StoreFailed
        (and_then (validate_account (p_account_id p)) (\<lambda>_.
         and_then (to_i64 (p_campaign_id p)) (\<lambda>campaign_id.
         if de_link env Call_Acquire \<noteq> Connected then Error Unavailable
         else if de_lock_free env then Ok (Some (p_account_id p, campaign_id))
         else Ok None))), w)"

definition release_campaign :: "durable_env \<Rightarrow> durable_world \<Rightarrow> unit durable_run" where
  "release_campaign env w = read_store (de_link env Call_Release) (\<lambda>_. Ok ()) w"

text \<open>The state of the campaign, imported from the legacy file on the first run.\<close>

definition load_or_import ::
  "durable_env \<Rightarrow> string \<Rightarrow> legacy_state_seed \<Rightarrow> campaign_key \<Rightarrow> durable_world \<Rightarrow>
     (bool \<times> database_state) durable_run" where
  "load_or_import env policy_sha256 legacy c w =
     and_run (read_store (de_link env Call_LoadState) (load_state c) w) (\<lambda>existing w.
     case existing of
       Some ds \<Rightarrow>
         (ensure (ds_policy_digest ds = policy_sha256 \<and>
                  ds_imported_legacy_digest ds = Some (sd_legacy_digest legacy))
            StateDoesNotMatch (Ok (False, ds)), w)
     | None \<Rightarrow>
         and_run (on_store (initialize_from_legacy (de_link env Call_Initialize) c legacy) w)
           (\<lambda>imported w.
         and_run (read_store (de_link env Call_ReloadState) (load_state c) w) (\<lambda>found w.
         (and_then (ok_or found StateMissing) (\<lambda>ds. Ok (imported, ds)), w))))"

definition paused_before :: "naive_date option \<Rightarrow> naive_date \<Rightarrow> bool" where
  "paused_before paused_on business_date =
     (case paused_on of None \<Rightarrow> False | Some d \<Rightarrow> d < business_date)"

definition intent_admitted ::
  "postgres_execution_intent \<Rightarrow> naive_date \<Rightarrow> database_state \<Rightarrow> (durable_error, unit) result" where
  "intent_admitted intent business_date ds =
     ensure (intent = Automatic \<or>
             ds_pending_idempotency_key ds = None \<and> ds_incident_class ds = None) NotClean
     (ensure (intent \<noteq> ExplicitResumeAfterDailyCap \<or>
              paused_before (ds_paused_for_daily_cap_on ds) business_date) NoPriorDayPause
     (Ok ()))"

definition durable_actions_today :: "naive_date \<Rightarrow> database_state \<Rightarrow> u32" where
  "durable_actions_today business_date ds =
     (if ds_business_date ds = business_date then ds_actions_today ds else 0)"

definition durable_state_view :: "naive_date \<Rightarrow> database_state \<Rightarrow> wb_state_view" where
  "durable_state_view business_date ds = \<lparr>
     v_paused_by_automation = paused_before (ds_paused_for_daily_cap_on ds) business_date,
     v_actions_today = durable_actions_today business_date ds,
     v_last_action_at = ds_last_action_at ds\<rparr>"

definition load_traffic_feedback_baseline ::
  "codecs \<Rightarrow> durable_env \<Rightarrow> wb_policy \<Rightarrow> campaign_key \<Rightarrow> durable_world \<Rightarrow>
     wb_snapshot option durable_run" where
  "load_traffic_feedback_baseline cod env p c w =
     (if \<not> uses_traffic_frontier (p_autonomous_pacing p) then (Ok None, w)
      else
        and_run (read_store (de_link env Call_LoadBaseline)
                   (\<lambda>db. Ok (load_last_applied_snapshot_json c db)) w) (\<lambda>text w.
        case text of
          None \<Rightarrow> (Ok None, w)
        | Some t \<Rightarrow>
            (and_then (ok_or (snapshot_of_text cod t) BaselineInvalid) (\<lambda>sn. Ok (Some sn)), w)))"

definition observe_durable ::
  "durable_env \<Rightarrow> wb_policy \<Rightarrow> string \<Rightarrow> instant \<Rightarrow> wb_state_view \<Rightarrow>
     (durable_error, wb_snapshot) result" where
  "observe_durable env p policy_sha256 observed_at view =
     (case de_market env of
        None \<Rightarrow> Error DurableMarketUnavailable
      | Some mk \<Rightarrow>
          wrap_err DurableObservationFailed
            (observe p policy_sha256 observed_at (mk_campaign mk) (mk_minimum_bids mk)
              (mk_budget mk) (mk_advertising mk) (mk_stocks mk) view))"

text \<open>Observe, replace the decision for the intent, and make the cycle durable.\<close>

definition observe_cycle ::
  "web_libraries \<Rightarrow> codecs \<Rightarrow> executor \<Rightarrow> durable_env \<Rightarrow> instant \<Rightarrow> postgres_execution_intent \<Rightarrow>
     campaign_key \<Rightarrow> database_state \<Rightarrow> durable_world \<Rightarrow>
     (wb_snapshot \<times> string \<times> bool) durable_run" where
  "observe_cycle wl cod ex env observed_at intent c ds w =
     (let p = ex_policy ex; business_date = wb_automation_business_date observed_at in
      and_run (intent_admitted intent business_date ds, w) (\<lambda>_ w.
      and_run (load_traffic_feedback_baseline cod env p c w) (\<lambda>last_applied w.
      and_run (observe_durable env p (ex_policy_sha256 ex) observed_at
                 (durable_state_view business_date ds), w) (\<lambda>observed w.
      and_run (wrap_err IntentFailed
                 (apply_postgres_execution_intent p observed intent last_applied), w) (\<lambda>sn w.
      let snapshot_json = snapshot_text cod sn;
          cycle_id = sha256_domain (wl_core wl) ''wb-automation-cycle-v1'' snapshot_json
      in and_run (on_store (persist_shadow_cycle (wl_core wl) (de_link env Call_PersistCycle) c
                     cycle_id (ex_policy_sha256 ex) (o_observed_at (sn_observation sn))
                     business_date (ds_revision ds) snapshot_json
                     (decision_text cod (sn_decision sn))) w) (\<lambda>inserted w.
      (Ok (sn, cycle_id, inserted), w)))))))"

definition build_reservation ::
  "libraries \<Rightarrow> codecs \<Rightarrow> executor \<Rightarrow> string \<Rightarrow> naive_date \<Rightarrow> u64 \<Rightarrow> string option \<Rightarrow>
     pending_action \<Rightarrow> action_reservation" where
  "build_reservation lib cod ex cycle_id business_date state_revision authorization pending =
     (let request_json = request_text cod (pa_kind pending);
          request_digest = sha256_domain lib ''wb-automation-request-v1'' request_json;
          idempotency_material = cycle_id @ '':'' @ request_digest @
            (case authorization of None \<Rightarrow> [] | Some a \<Rightarrow> '':'' @ a)
      in \<lparr>rs_idempotency_key = sha256_domain lib ''wb-automation-action-v1'' idempotency_material,
          rs_cycle_id = cycle_id,
          rs_policy_digest = ex_policy_sha256 ex,
          rs_request_digest = request_digest,
          rs_action_kind = durable_action_kind_of (pa_kind pending),
          rs_request_json = request_json,
          rs_business_date = business_date,
          rs_expected_state_revision = state_revision,
          rs_max_actions_per_day = p_max_actions_per_day (ex_policy ex)\<rparr>)"

text \<open>Reserve, send with the permit, and settle.\<close>

definition reserve_and_send ::
  "web_libraries \<Rightarrow> executor \<Rightarrow> durable_env \<Rightarrow> campaign_key \<Rightarrow> action_reservation \<Rightarrow>
     string option \<Rightarrow> pending_action \<Rightarrow> durable_world \<Rightarrow> (execution_outcome \<times> u64) durable_run" where
  "reserve_and_send wl ex env c r authorization pending w =
     (let lib = wl_core wl; l = de_link env Call_Reserve; now = de_now env Call_Reserve in
      and_run (on_store (case authorization of
                 None \<Rightarrow> reserve_action lib l now c r
               | Some reference \<Rightarrow>
                   reserve_explicit_quota_override_action lib l now c r reference) w)
        (\<lambda>reservation w.
      let (written, w) = send_pending_postgres wl ex env c pending (rs_idempotency_key r)
                           (rr_state_revision reservation) w
      in and_run (classify_postgres_write written, w) (\<lambda>result w.
         settle_write lib env c (rs_idempotency_key r) (rr_state_revision reservation) result w)))"

text \<open>What the run does once the cycle is durable.\<close>

definition act_on_cycle ::
  "web_libraries \<Rightarrow> codecs \<Rightarrow> executor \<Rightarrow> durable_env \<Rightarrow> instant \<Rightarrow> postgres_execution_intent \<Rightarrow>
     string option \<Rightarrow> campaign_key \<Rightarrow> database_state \<Rightarrow> wb_snapshot \<Rightarrow> string \<Rightarrow> durable_world \<Rightarrow>
     (execution_outcome \<times> u64) durable_run" where
  "act_on_cycle wl cod ex env observed_at intent authorization c ds sn cycle_id w =
     (let p = ex_policy ex; lib = wl_core wl; ob = sn_observation sn; decision = sn_decision sn;
          business_date = wb_automation_business_date observed_at
      in case ds_pending_idempotency_key ds of
        Some idempotency_key \<Rightarrow>
          and_run (read_store (de_link env Call_LoadPending)
                     (load_pending_action c idempotency_key (ds_revision ds)) w) (\<lambda>action w.
          reconcile_postgres_pending lib cod env c ob action (ds_revision ds) cycle_id w)
      | None \<Rightarrow>
          if ds_incident_class ds \<noteq> None then (Ok (IncidentLocked, ds_revision ds), w)
          else if intent \<noteq> ExplicitBidCapRepair \<and>
                  daily_cap_breach_requires_lock p ob decision
                    (durable_actions_today business_date ds < p_max_actions_per_day p)
          then
            and_run (on_store (mark_incident_without_action lib (de_link env Call_Settle) c cycle_id
                       (ds_revision ds) business_date ''daily_spend_cap_breached'') w)
              (\<lambda>transition w. (Ok (IncidentLocked, tr_state_revision transition), w))
          else case pending_from_decision (d_action decision) ob (p_min_bid_kopecks p)
                      observed_at of
            None \<Rightarrow> (Ok (Observed, ds_revision ds), w)
          | Some pending \<Rightarrow>
              reserve_and_send wl ex env c
                (build_reservation lib cod ex cycle_id business_date (ds_revision ds)
                  authorization pending) authorization pending w)"

definition run_once_postgres_with_intent ::
  "web_libraries \<Rightarrow> codecs \<Rightarrow> executor \<Rightarrow> durable_env \<Rightarrow> legacy_state_seed \<Rightarrow> instant \<Rightarrow>
     postgres_execution_intent \<Rightarrow> string option \<Rightarrow> durable_world \<Rightarrow>
     postgres_receipt option durable_run" where
  "run_once_postgres_with_intent wl cod ex env legacy observed_at intent authorization w =
     (if \<not> p_write_enabled (ex_policy ex) then (Error ShadowOnlyPolicy, w)
      else
        and_run (try_acquire_campaign env (ex_policy ex) w) (\<lambda>lease w.
        case lease of
          None \<Rightarrow> (Ok None, w)
        | Some c \<Rightarrow>
            and_run (load_or_import env (ex_policy_sha256 ex) legacy c w) (\<lambda>(imported, ds) w.
            and_run (observe_cycle wl cod ex env observed_at intent c ds w)
              (\<lambda>(sn, cycle_id, inserted) w.
            and_run (act_on_cycle wl cod ex env observed_at intent authorization c ds sn cycle_id w)
              (\<lambda>(outcome, state_revision) w.
            and_run (release_campaign env w) (\<lambda>_ w.
            (Ok (Some \<lparr>pr_decision = sn_decision sn, pr_outcome = outcome,
                       pr_cycle_id = cycle_id, pr_cycle_inserted = inserted,
                       pr_legacy_imported = imported,
                       pr_state_revision = state_revision\<rparr>), w)))))))"


section \<open>The public entry points\<close>

definition run_once_postgres where
  "run_once_postgres wl cod ex env legacy observed_at =
     run_once_postgres_with_intent wl cod ex env legacy observed_at Automatic None"

definition run_explicit_exposure_increase_once_postgres where
  "run_explicit_exposure_increase_once_postgres wl cod ex env legacy observed_at target =
     run_once_postgres_with_intent wl cod ex env legacy observed_at
       (ExplicitExposureTargetIntent target) None"

definition run_explicit_quota_override_once_postgres where
  "run_explicit_quota_override_once_postgres wl cod ex env legacy observed_at reference =
     run_once_postgres_with_intent wl cod ex env legacy observed_at ExplicitQuotaOverride
       (Some reference)"

definition run_explicit_resume_after_daily_cap_once_postgres where
  "run_explicit_resume_after_daily_cap_once_postgres wl cod ex env legacy observed_at =
     run_once_postgres_with_intent wl cod ex env legacy observed_at ExplicitResumeAfterDailyCap
       None"

definition run_explicit_bid_cap_repair_once_postgres where
  "run_explicit_bid_cap_repair_once_postgres wl cod ex env legacy observed_at =
     run_once_postgres_with_intent wl cod ex env legacy observed_at ExplicitBidCapRepair None"

end
