(* ===== verification/Wb_Durable_Facts.thy ===== *)
theory Wb_Durable_Facts
  imports Wb_Durable Wb_Store_Ops Wb_Client_Correct
begin

text \<open>
  How a run of the PostgreSQL executor changes its world. A quiet part of a run is a
  sequence of store operations with no departure; the only part that is not quiet is the
  write, which leaves between the permit and the transaction that settles it.
\<close>


section \<open>Quiet parts of a run\<close>

definition quiet :: "libraries \<Rightarrow> durable_world \<Rightarrow> durable_world \<Rightarrow> bool" where
  "quiet lib w w' \<longleftrightarrow>
     steps (store_step lib) (cw_caller w) (cw_caller w') \<and> cw_departed w' = cw_departed w"

lemma quiet_refl [simp]: "quiet lib w w"
  by (simp add: quiet_def steps_refl)

lemma quiet_trans: "quiet lib w w' \<Longrightarrow> quiet lib w' w'' \<Longrightarrow> quiet lib w w''"
  by (auto simp: quiet_def intro: steps_trans)

lemma and_run_cases:
  assumes "and_run r f = (res, w')"
  obtains (failed) e where "fst r = Inl e" and "res = Inl e" and "w' = snd r"
    | (ok) x where "fst r = Inr x" and "f x (snd r) = (res, w')"
  using assms by (cases "fst r") (auto simp: and_run_def)

lemma and_run_quiet:
  assumes "quiet lib w (snd r)"
    and "\<And>x. fst r = Inr x \<Longrightarrow> quiet lib (snd r) (snd (f x (snd r)))"
  shows "quiet lib w (snd (and_run r f))"
  using assms by (auto simp: and_run_def split: sum.splits intro: quiet_trans)

lemma and_run_Ok [result_elim]:
  "and_run r f = (Inr y, w') \<longleftrightarrow> (\<exists>x w. r = (Inr x, w) \<and> f x w = (Inr y, w'))"
  by (cases r; cases "fst r") (auto simp: and_run_def)

lemma and_run_pure [simp]: "and_run (Inr x, w) f = f x w" "and_run (Inl e, w) f = (Inl e, w)"
  by (simp_all add: and_run_def)

lemma on_store_quiet:
  assumes "store_step lib (cw_caller w) (snd (f (cw_caller w)))"
  shows "quiet lib w (snd (on_store f w))"
  using assms by (simp add: quiet_def on_store_def case_prod_beta Let_def steps_single)

lemma on_store_Ok [result_elim]:
  "on_store f w = (Inr x, w') \<longleftrightarrow>
     (\<exists>db. f (cw_caller w) = (Inr x, db) \<and> w' = w\<lparr>cw_caller := db\<rparr>)"
  by (auto simp: on_store_def Let_def wrap_err_Ok split: prod.splits)

lemma read_store_world [simp]: "snd (read_store l f w) = w"
  by (simp add: read_store_def)

lemma read_store_Ok [result_elim]:
  "read_store l f w = (Inr x, w') \<longleftrightarrow> l = Connected \<and> f (cw_caller w) = Inr x \<and> w' = w"
  by (auto simp: read_store_def wrap_err_Ok)

lemmas quiet_intros = and_run_quiet on_store_quiet quiet_refl
  store_step.intros

lemma try_acquire_world [simp]: "snd (try_acquire_campaign env p w) = w"
  by (simp add: try_acquire_campaign_def)

lemma release_world [simp]: "snd (release_campaign env w) = w"
  by (simp add: release_campaign_def)

lemma baseline_world [simp]: "snd (load_traffic_feedback_baseline cod env p c w) = w"
  by (auto simp: load_traffic_feedback_baseline_def and_run_def split: option.splits sum.splits)

lemma load_or_import_quiet: "quiet lib w (snd (load_or_import env sha legacy c w))"
  unfolding load_or_import_def
  by (intro and_run_quiet) (auto split: option.splits intro!: quiet_intros)

lemma observe_cycle_quiet:
  "quiet (wl_core wl) w (snd (observe_cycle wl cod ex env t intent c ds w))"
  unfolding observe_cycle_def Let_def
  by (intro and_run_quiet on_store_quiet step_persist) simp_all

lemma reconcile_quiet:
  "quiet lib w (snd (reconcile_postgres_pending lib cod env c ob action revision cycle_id w))"
  unfolding reconcile_postgres_pending_def Let_def
  by (intro and_run_quiet) (auto split: option.splits intro!: quiet_intros)

lemma settle_quiet: "quiet lib w (snd (settle_write lib env c key revision result w))"
  unfolding settle_write_def Let_def
  by (cases result) (auto intro!: quiet_intros)


section \<open>Reserve, permit, send\<close>

text \<open>Both ways to reserve are one operation; a reservation on an idle campaign is new.\<close>

lemma reserve_call_Ok:
  assumes "(case authorization of
        None \<Rightarrow> reserve_action lib l now c r
      | Some reference \<Rightarrow> reserve_explicit_quota_override_action lib l now c r reference) db
      = (Inr rec, db')"
  shows "reserve_action_with_quota_override lib l now c r authorization db = (Inr rec, db')"
  using assms
  by (auto simp: reserve_action_def reserve_explicit_quota_override_action_def validated_Ok
      split: option.splits)

lemma reserve_call_step:
  "store_step lib db (snd ((case authorization of
        None \<Rightarrow> reserve_action lib l now c r
      | Some reference \<Rightarrow> reserve_explicit_quota_override_action lib l now c r reference) db))"
  by (auto split: option.splits intro: store_step.intros)

lemma reserve_idle:
  assumes "reserve_action_with_quota_override lib l now c r authorization db = (Inr rec, db')"
    and "state_of db c = Some st" and "st_pending_idempotency_key st = None"
  shows "st_incident_class st = None"
    and "\<exists>st'. state_of db' c = Some st' \<and> st_incident_class st' = None \<and>
      st_pending_idempotency_key st' = Some (rs_idempotency_key r) \<and>
      st_revision st' = uint (rr_state_revision rec)"
    and "action_of db' c (rs_idempotency_key r) = Some (r_action (reserved_row now c r))"
    and "\<forall>q \<in> set (db_actions db). a_idempotency_key (r_action q) \<noteq> rs_idempotency_key r"
proof -
  let ?st = "reserved_state now r (actions_before r st) st"
  let ?db = "db\<lparr>db_actions := reserved_row now c r # db_actions db\<rparr>"
  obtain evs where guard: "st_incident_class st = None"
    and ins: "insert_action lib (reserved_row now c r) db = Inr (r_action (reserved_row now c r), ?db)"
    and rec: "uint (rr_state_revision rec) = st_revision st + 1"
    and db': "db' = (put_state c ?st ?db)\<lparr>db_audit := evs @ db_audit db\<rparr>"
    using reserve_Ok(3) [OF assms(1)]
  proof (cases rule: reserve_in_transaction_Ok)
    case (replay st0)
    with assms(2,3) show ?thesis by simp
  next
    case (fresh st0)
    with reserve_new_Ok [OF fresh(9)] assms(2) that show ?thesis
      by auto
  qed
  show "st_incident_class st = None"
    by (fact guard)
  have "state_of db' c = Some ?st"
    using assms(2) by (simp add: db')
  then show "\<exists>st'. state_of db' c = Some st' \<and> st_incident_class st' = None \<and>
      st_pending_idempotency_key st' = Some (rs_idempotency_key r) \<and>
      st_revision st' = uint (rr_state_revision rec)"
    using guard rec by (simp add: reserved_state_def)
  show "action_of db' c (rs_idempotency_key r) = Some (r_action (reserved_row now c r))"
    by (simp add: db' reserved_lookup)
  show "\<forall>q \<in> set (db_actions db). a_idempotency_key (r_action q) \<noteq> rs_idempotency_key r"
    using ins by (auto simp: insert_action_Ok reserved_row_def)
qed

text \<open>A granted permit finds the action reserved (or started) and leaves it started.\<close>

lemma transition_in_transaction_Ok:
  assumes "transition_in_transaction lib now c key expected from to suffix db = Inr (changed, db')"
  shows "\<exists>st a a'. state_of db c = Some st \<and> state_of db' c = Some st \<and>
    st_revision st = expected \<and> st_pending_idempotency_key st = Some key \<and>
    action_of db c key = Some a \<and> action_of db' c key = Some a' \<and>
    (a' = a \<or> a_status a = from) \<and> a_status a' = to \<and> a_action_kind a' = a_action_kind a \<and>
    jsonb lib (a_request_json a') = jsonb lib (a_request_json a) \<and>
    a_reserved_at a' = a_reserved_at a"
proof -
  obtain st a where st: "state_of db c = Some st" "st_revision st = expected"
      "st_pending_idempotency_key st = Some key" and a: "action_of db c key = Some a"
    using assms by (auto simp: transition_in_transaction_def verify_pending_state_def
        load_action_in_transaction_def result_elim split: if_splits)
  note run = assms [unfolded transition_in_transaction_def verify_pending_state_def
      load_action_in_transaction_def st(1) a ok_or_simps and_then_simps, simplified st, simplified]
  show ?thesis
  proof (cases "a_status a = to")
    case True
    with run st a show ?thesis
      by auto
  next
    case False
    with run have guard: "a_status a = from"
      by (simp split: if_splits)
    with False run obtain b a' evs where "action_of db c key = Some b"
        "enforce_action_transition lib now b (b\<lparr>a_status := to\<rparr>) = Some a'"
        "db' = (put_action a' db)\<lparr>db_audit := evs @ db_audit db\<rparr>"
      by (auto simp: result_elim dest!: insert_audit_event_Ok)
    with a have a': "enforce_action_transition lib now a (a\<lparr>a_status := to\<rparr>) = Some a'"
        "db' = (put_action a' db)\<lparr>db_audit := evs @ db_audit db\<rparr>"
      by simp_all
    note keep = enforce_action_transition_Some [OF a'(1)]
    have "action_of db' c key = Some a'"
      using a action_of_memD(1) [OF a] keep(1) by (simp add: a'(2) action_of_put_action)
    with st a keep guard show ?thesis
      by (auto simp: a'(2))
  qed
qed

lemma transition_Ok:
  assumes "transition_without_state_change lib l now c key revision from to suffix db
      = (Inr changed, db')"
  shows "\<exists>st a a'. state_of db c = Some st \<and> state_of db' c = Some st \<and>
    st_revision st = uint revision \<and> st_pending_idempotency_key st = Some key \<and>
    action_of db c key = Some a \<and> action_of db' c key = Some a' \<and>
    (a' = a \<or> a_status a = from) \<and> a_status a' = to \<and> a_action_kind a' = a_action_kind a \<and>
    jsonb lib (a_request_json a') = jsonb lib (a_request_json a) \<and>
    a_reserved_at a' = a_reserved_at a"
proof -
  have "transition_in_transaction lib now c key (uint revision) from to suffix db
      = Inr (changed, db')"
    using assms
    by (auto simp: transition_without_state_change_def validated_Ok transaction_Ok result_elim)
  then show ?thesis
    by (rule transition_in_transaction_Ok)
qed

text \<open>
  A departure whose action the database already holds as started and pending, on a campaign
  without an incident, with the request that was reserved.
\<close>

definition departs_reserved ::
  "libraries \<Rightarrow> codecs \<Rightarrow> u64 \<Rightarrow> campaign_key \<Rightarrow> string \<Rightarrow> database departure \<Rightarrow> bool" where
  "departs_reserved lib cod campaign_id c key d \<longleftrightarrow>
     (\<exists>st a kind. state_of (dp_caller d) c = Some st \<and>
        st_pending_idempotency_key st = Some key \<and> st_incident_class st = None \<and>
        action_of (dp_caller d) c key = Some a \<and> a_status a = Act_WriteStarted \<and>
        a_action_kind a = durable_action_kind_of kind \<and>
        jsonb lib (a_request_json a) = jsonb lib (request_text cod kind) \<and>
        dp_request d = pending_request campaign_id kind)"

lemma write_permit_step: "store_step lib db (snd (write_permit lib env c key revision db))"
  unfolding write_permit_def by (simp add: case_prod_beta Let_def step_write_started)

lemma write_permit_Ok:
  assumes "write_permit lib env c key revision db = (Inr (), db')"
  shows "mark_write_started lib (de_link env Call_Permit) (de_now env Call_Permit) c key revision db
      = (Inr True, db') \<or>
    mark_write_started lib (de_link env Call_Permit) (de_now env Call_Permit) c key revision db
      = (Inr False, db')"
  using assms by (auto simp: write_permit_def Let_def and_then_Ok split: prod.splits)

lemma permit_after_reserve:
  assumes "reserve_action_with_quota_override lib l now c r authorization db = (Inr rec, db1)"
    and "state_of db c = Some st" and "st_pending_idempotency_key st = None"
    and "write_permit lib env c (rs_idempotency_key r) revision db1 = (Inr (), dp_caller d)"
    and "rs_request_json r = request_text cod kind"
    and "rs_action_kind r = durable_action_kind_of kind"
    and "dp_request d = pending_request campaign_id kind"
  shows "departs_reserved lib cod campaign_id c (rs_idempotency_key r) d"
proof -
  note idle = reserve_idle [OF assms(1-3)]
  from write_permit_Ok [OF assms(4)] obtain changed where
    "transition_without_state_change lib (de_link env Call_Permit) (de_now env Call_Permit) c
       (rs_idempotency_key r) revision Act_Reserved Act_WriteStarted ''write_started'' db1
     = (Inr changed, dp_caller d)"
    unfolding mark_write_started_def by blast
  from transition_Ok [OF this] obtain st1 a a' where
    "state_of db1 c = Some st1" "state_of (dp_caller d) c = Some st1"
    "st_pending_idempotency_key st1 = Some (rs_idempotency_key r)"
    "action_of db1 c (rs_idempotency_key r) = Some a"
    "action_of (dp_caller d) c (rs_idempotency_key r) = Some a'"
    "a_status a' = Act_WriteStarted" "a_action_kind a' = a_action_kind a"
    "jsonb lib (a_request_json a') = jsonb lib (a_request_json a)"
    by auto
  with idle(2,3) assms(5-7) show ?thesis
    unfolding departs_reserved_def
    by (intro exI [of _ st1] exI [of _ a'] exI [of _ kind]) (auto simp: reserved_row_def)
qed

lemma reserve_and_send_cases:
  assumes "reserve_and_send wl ex env c r authorization pending w = (res, w')"
    and "state_of (cw_caller w) c = Some st" and "st_pending_idempotency_key st = None"
    and "rs_request_json r = request_text cod (pa_kind pending)"
    and "rs_action_kind r = durable_action_kind_of (pa_kind pending)"
  obtains (silent) "quiet (wl_core wl) w w'"
    | (sent) d where "cw_departed w' = d # cw_departed w"
      and "departs_reserved (wl_core wl) cod (p_campaign_id (ex_policy ex)) c
             (rs_idempotency_key r) d"
      and "steps (store_step (wl_core wl)) (cw_caller w) (dp_caller d)"
      and "steps (store_step (wl_core wl)) (dp_caller d) (cw_caller w')"
      and "st_incident_class st = None"
      and "\<forall>q \<in> set (db_actions (cw_caller w)).
             a_idempotency_key (r_action q) \<noteq> rs_idempotency_key r"
      and "verify_authorization (ex_writer ex) (dp_at d) = Inr ()"
proof -
  let ?lib = "wl_core wl" and ?key = "rs_idempotency_key r"
  let ?call = "case authorization of
        None \<Rightarrow> reserve_action ?lib (de_link env Call_Reserve) (de_now env Call_Reserve) c r
      | Some reference \<Rightarrow> reserve_explicit_quota_override_action ?lib (de_link env Call_Reserve)
          (de_now env Call_Reserve) c r reference"
  let ?send = "\<lambda>rec. send_pending_postgres wl ex env c pending ?key (rr_state_revision rec)"
  have reserve_quiet: "quiet ?lib w (snd (on_store ?call w))"
    by (intro on_store_quiet reserve_call_step)
  from assms(1) have "and_run (on_store ?call w) (\<lambda>rec w1.
      and_run (classify_postgres_write (fst (?send rec w1)), snd (?send rec w1))
        (\<lambda>result w. settle_write ?lib env c ?key (rr_state_revision rec) result w)) = (res, w')"
    by (simp add: reserve_and_send_def Let_def case_prod_beta)
  then show ?thesis
  proof (cases rule: and_run_cases)
    case (failed e)
    with reserve_quiet silent show ?thesis by simp
  next
    case (ok rec)
    let ?w1 = "snd (on_store ?call w)"
    obtain r1 w2 where guarded: "guarded_write wl (ex_writer ex) (de_client env)
        (pending_request (p_campaign_id (ex_policy ex)) (pa_kind pending))
        (write_permit ?lib env c ?key (rr_state_revision rec)) ?w1 = (r1, w2)"
      by (metis prod.collapse)
    have send: "snd (?send rec ?w1) = w2"
      by (simp add: send_pending_postgres_def guarded)
    have last: "quiet ?lib w2 w'"
      using ok(2) [unfolded send]
      by (cases rule: and_run_cases) (auto, metis settle_quiet snd_conv)
    have call: "?call (cw_caller w) = (Inr rec, cw_caller ?w1)"
      using ok(1) by (auto simp: on_store_def Let_def wrap_err_Ok case_prod_beta prod_eq_iff)
    note reserve = reserve_call_Ok [OF call]
    have first: "steps (store_step ?lib) (cw_caller w) (cw_caller ?w1)"
        "cw_departed ?w1 = cw_departed w"
      using reserve_quiet by (simp_all add: quiet_def)
    have permit: "steps (store_step ?lib) (cw_caller ?w1)
        (snd (write_permit ?lib env c ?key (rr_state_revision rec) (cw_caller ?w1)))"
      by (rule steps_single) (rule write_permit_step)
    show ?thesis
      using guarded
    proof (cases rule: guarded_write_cases)
      case (left d)
      have permit_db: "dp_caller d = snd (write_permit ?lib env c ?key (rr_state_revision rec)
          (cw_caller ?w1))"
        using left(5,6) by simp
      show ?thesis
      proof (rule sent)
        show "cw_departed w' = d # cw_departed w"
          using left(2) first(2) last by (simp add: quiet_def)
        show "departs_reserved ?lib cod (p_campaign_id (ex_policy ex)) c ?key d"
          by (rule permit_after_reserve [OF reserve assms(2,3) _ assms(4,5) left(3)])
            (use left(5,6) in simp)
        show "steps (store_step ?lib) (cw_caller w) (dp_caller d)"
          using steps_trans [OF first(1) permit] by (simp add: permit_db)
        show "steps (store_step ?lib) (dp_caller d) (cw_caller w')"
          using last left(6) by (simp add: quiet_def)
        show "st_incident_class st = None"
          "\<forall>q \<in> set (db_actions (cw_caller w)). a_idempotency_key (r_action q) \<noteq> ?key"
          using reserve_idle [OF reserve assms(2,3)] by simp_all
        show "verify_authorization (ex_writer ex) (dp_at d) = Inr ()"
          by (fact left(7))
      qed
    next
      case stayed
      then have "quiet ?lib ?w1 w2"
        using permit by (auto simp: quiet_def steps_refl)
      then show ?thesis
        using quiet_trans [OF reserve_quiet] quiet_trans [OF _ last] silent by blast
    qed
  qed
qed


section \<open>What a settling call leaves\<close>

lemma resolve_post:
  assumes "resolve_without_write lib l now c key revision error_class k db = (Inr rec, db')"
  shows "\<exists>st'. state_of db' c = Some st' \<and> st_revision st' = uint (tr_state_revision rec) \<and>
    (if k = Resolve_ReconciliationRequired
     then st_pending_idempotency_key st' = Some key \<and> st_incident_class st' = Some error_class
     else st_pending_idempotency_key st' = None)"
proof -
  note run = resolve_Ok(5) [OF assms]
  obtain st a where st: "state_of db c = Some st" and a: "action_of db c key = Some a"
    using run by (auto simp: resolve_in_transaction_def and_then_Ok ok_or_Ok
        load_locked_state_summary_def load_action_in_transaction_def)
  note body = run [unfolded resolve_in_transaction_def load_locked_state_summary_def
      load_action_in_transaction_def st a ok_or_simps and_then_simps]
  show ?thesis
  proof (cases "a_status a = resolution_status k")
    case True
    with body st show ?thesis
      by (auto simp: and_then_Ok ok_or_Ok succ_i64_Some resolution_replay_matches_def
          split: if_splits)
  next
    case False
    with body have "tr_changed rec"
      by (auto simp: and_then_Ok split: if_splits)
    with resolve_in_transaction_Ok [OF run] show ?thesis
      by (cases "k = Resolve_ReconciliationRequired") (auto simp: resolve_state_change_def)
  qed
qed

lemma applied_post:
  assumes "mark_applied lib l now c key revision readback paused_on db = (Inr rec, db')"
  shows "\<exists>st'. state_of db' c = Some st' \<and> st_revision st' = uint (tr_state_revision rec) \<and>
    st_pending_idempotency_key st' = None"
proof -
  note run = applied_Ok(5) [OF assms]
  obtain st a where st: "state_of db c = Some st" and a: "action_of db c key = Some a"
    using run by (auto simp: applied_in_transaction_def and_then_Ok ok_or_Ok
        load_locked_state_summary_def load_action_in_transaction_def)
  note body = run [unfolded applied_in_transaction_def load_locked_state_summary_def
      load_action_in_transaction_def st a ok_or_simps and_then_simps]
  show ?thesis
  proof (cases "a_status a = Act_Applied")
    case True
    with body st show ?thesis
      by (auto simp: and_then_Ok ok_or_Ok succ_i64_Some split: if_splits)
  next
    case False
    with body have "tr_changed rec"
      by (auto simp: and_then_Ok split: if_splits)
    with applied_in_transaction_Ok [OF run] show ?thesis
      by auto
  qed
qed

lemma incident_post:
  assumes "mark_incident_without_action lib l c cycle_id revision d incident db = (Inr rec, db')"
  shows "\<exists>st'. state_of db' c = Some st' \<and> st_revision st' = uint (tr_state_revision rec) \<and>
    st_incident_class st' = Some incident"
proof -
  have "incident_in_transaction lib c cycle_id (uint revision) d incident db
      = Inr ((tr_changed rec, uint (tr_state_revision rec)), db')"
    using assms
    by (auto simp: mark_incident_without_action_def result_elim transaction_Ok
        transition_receipt_Ok unsigned_of_int take_bit_int_eq_self split: if_splits)
  from incident_in_transaction_Ok [OF this] show ?thesis
    by auto
qed


section \<open>The whole run\<close>

lemma parse_state_Ok:
  assumes "parse_state c st = Inr ds"
  shows "ds_pending_idempotency_key ds = st_pending_idempotency_key st"
    "ds_incident_class ds = st_incident_class st" "uint (ds_revision ds) = st_revision st"
    "ds_business_date ds = st_business_date st"
    "ds_paused_for_daily_cap_on ds = st_paused_for_daily_cap_on st"
  using assms by (auto simp: parse_state_def and_then_Ok ok_or_Ok uint_to_u64 split: if_splits)

lemma load_state_Ok:
  "load_state c db = Inr (Some ds) \<longleftrightarrow> (\<exists>st. state_of db c = Some st \<and> parse_state c st = Inr ds)"
  "load_state c db = Inr None \<longleftrightarrow> state_of db c = None"
  by (auto simp: load_state_def and_then_Ok split: option.splits)

lemma initialize_actions:
  assumes "initialize_from_legacy l c seed db = (Inr imported, db')"
  shows "db_actions db' = db_actions db"
  using assms
  by (auto simp: initialize_from_legacy_def validated_Ok transaction_Ok insert_state_Ok result_elim
      dest: insert_state_kept split: if_splits prod.splits)

lemma load_or_import_Ok:
  assumes "load_or_import env sha legacy c w = (Inr (imported, ds), w')"
  shows "\<exists>st. state_of (cw_caller w') c = Some st \<and> parse_state c st = Inr ds \<and>
      (\<forall>st0. state_of (cw_caller w) c = Some st0 \<longrightarrow> st0 = st)"
    and "db_actions (cw_caller w') = db_actions (cw_caller w)"
proof -
  obtain existing where existing: "load_state c (cw_caller w) = Inr existing"
    using assms by (auto simp: load_or_import_def result_elim)
  have "(\<exists>st. state_of (cw_caller w') c = Some st \<and> parse_state c st = Inr ds \<and>
      (\<forall>st0. state_of (cw_caller w) c = Some st0 \<longrightarrow> st0 = st)) \<and>
      db_actions (cw_caller w') = db_actions (cw_caller w)"
  proof (cases existing)
    case (Some ds0)
    with assms existing show ?thesis
      by (auto simp: load_or_import_def result_elim load_state_Ok)
  next
    case None
    with existing have "state_of (cw_caller w) c = None"
      by (simp add: load_state_Ok)
    with assms existing None show ?thesis
      by (auto simp: load_or_import_def result_elim load_state_Ok dest: initialize_actions)
  qed
  then show "\<exists>st. state_of (cw_caller w') c = Some st \<and> parse_state c st = Inr ds \<and>
      (\<forall>st0. state_of (cw_caller w) c = Some st0 \<longrightarrow> st0 = st)"
    and "db_actions (cw_caller w') = db_actions (cw_caller w)"
    by simp_all
qed

lemma persist_Ok:
  assumes "persist_shadow_cycle lib l c cycle_id sha t d revision sj dj db = (Inr inserted, db')"
  shows "state_of db' = state_of db" "db_actions db' = db_actions db"
  using assms
  by (auto simp: persist_shadow_cycle_def validated_Ok transaction_Ok result_elim split: if_splits)

lemma observe_cycle_Ok:
  assumes "observe_cycle wl cod ex env t intent c ds w = (Inr (sn, cycle_id, inserted), w')"
  shows "state_of (cw_caller w') = state_of (cw_caller w)"
    "db_actions (cw_caller w') = db_actions (cw_caller w)"
    "intent_admitted intent (wb_automation_business_date t) ds = Inr ()"
proof -
  have base: "w1 = w" if "load_traffic_feedback_baseline cod env (ex_policy ex) c w = (x, w1)"
    for x w1
    using that baseline_world [of cod env "ex_policy ex" c w] by simp
  from assms obtain w1 sj dj where run: "on_store (persist_shadow_cycle (wl_core wl)
        (de_link env Call_PersistCycle) c cycle_id (ex_policy_sha256 ex)
        (o_observed_at (sn_observation sn)) (wb_automation_business_date t) (ds_revision ds)
        sj dj) w1 = (Inr inserted, w')" "w1 = w"
    "intent_admitted intent (wb_automation_business_date t) ds = Inr ()"
    by (auto simp: observe_cycle_def Let_def and_run_Ok dest: base)
  then obtain db where "persist_shadow_cycle (wl_core wl) (de_link env Call_PersistCycle) c cycle_id
      (ex_policy_sha256 ex) (o_observed_at (sn_observation sn)) (wb_automation_business_date t)
      (ds_revision ds) sj dj (cw_caller w) = (Inr inserted, db)" "w' = w\<lparr>cw_caller := db\<rparr>"
    by (auto simp: on_store_Ok)
  from persist_Ok [OF this(1)] this(2) run(3) show
    "state_of (cw_caller w') = state_of (cw_caller w)"
    "db_actions (cw_caller w') = db_actions (cw_caller w)"
    "intent_admitted intent (wb_automation_business_date t) ds = Inr ()"
    by simp_all
qed

lemma build_reservation_request:
  "rs_request_json (build_reservation lib cod ex cycle d revision authorization pending)
     = request_text cod (pa_kind pending)"
  "rs_action_kind (build_reservation lib cod ex cycle d revision authorization pending)
     = durable_action_kind_of (pa_kind pending)"
  by (simp_all add: build_reservation_def Let_def)

definition executor_campaign :: "executor \<Rightarrow> campaign_key" where
  "executor_campaign ex = (p_account_id (ex_policy ex), uint (p_campaign_id (ex_policy ex)))"

lemma try_acquire_Ok:
  "try_acquire_campaign env (ex_policy ex) w = (Inr (Some c), w') \<Longrightarrow>
     c = executor_campaign ex \<and> w' = w"
  by (auto simp: try_acquire_campaign_def executor_campaign_def wrap_err_Ok result_elim
      split: if_splits)

lemma act_on_cycle_cases:
  assumes "act_on_cycle wl cod ex env t intent authorization c ds sn cycle_id w = (res, w')"
    and "state_of (cw_caller w) c = Some st" and "parse_state c st = Inr ds"
  obtains (silent) "quiet (wl_core wl) w w'"
    | (sent) d key where "cw_departed w' = d # cw_departed w"
      and "departs_reserved (wl_core wl) cod (p_campaign_id (ex_policy ex)) c key d"
      and "steps (store_step (wl_core wl)) (cw_caller w) (dp_caller d)"
      and "steps (store_step (wl_core wl)) (dp_caller d) (cw_caller w')"
      and "st_incident_class st = None" and "st_pending_idempotency_key st = None"
      and "\<forall>q \<in> set (db_actions (cw_caller w)). a_idempotency_key (r_action q) \<noteq> key"
      and "verify_authorization (ex_writer ex) (dp_at d) = Inr ()"
proof (cases "ds_pending_idempotency_key ds")
  case (Some key)
  have "quiet (wl_core wl) w
      (snd (act_on_cycle wl cod ex env t intent authorization c ds sn cycle_id w))"
    by (auto simp: act_on_cycle_def Let_def Some intro!: and_run_quiet reconcile_quiet)
  with assms(1) silent show ?thesis by simp
next
  case None
  note idle = None
  let ?p = "ex_policy ex" and ?d = "wb_automation_business_date t"
  let ?pending = "pending_from_decision (d_action (sn_decision sn)) (sn_observation sn)
    (p_min_bid_kopecks ?p) t"
  show ?thesis
  proof (cases "ds_incident_class ds \<noteq> None \<or> intent \<noteq> ExplicitBidCapRepair \<and>
      daily_cap_breach_requires_lock ?p (sn_observation sn) (sn_decision sn)
        (durable_actions_today ?d ds < p_max_actions_per_day ?p) \<or> ?pending = None")
    case True
    then have "quiet (wl_core wl) w
        (snd (act_on_cycle wl cod ex env t intent authorization c ds sn cycle_id w))"
      by (auto simp: act_on_cycle_def Let_def idle intro!: and_run_quiet on_store_quiet
          step_incident)
    with assms(1) silent show ?thesis by simp
  next
    case False
    then obtain pending where pending: "?pending = Some pending"
      by auto
    let ?r = "build_reservation (wl_core wl) cod ex cycle_id ?d (ds_revision ds) authorization pending"
    have run: "reserve_and_send wl ex env c ?r authorization pending w = (res, w')"
      using assms(1) False pending by (auto simp: act_on_cycle_def Let_def idle split: if_splits)
    have none: "st_pending_idempotency_key st = None"
      using idle parse_state_Ok(1) [OF assms(3)] by simp
    from run assms(2) none build_reservation_request show ?thesis
      by (cases rule: reserve_and_send_cases) (use silent sent none in blast)+
  qed
qed

text \<open>The part of a run under the lock, once the state is loaded.\<close>

definition run_loaded where
  "run_loaded wl cod ex env t intent authorization c imported ds w =
     and_run (observe_cycle wl cod ex env t intent c ds w) (\<lambda>(sn, cycle_id, inserted) w.
     and_run (act_on_cycle wl cod ex env t intent authorization c ds sn cycle_id w)
       (\<lambda>(outcome, state_revision) w.
     and_run (release_campaign env w) (\<lambda>_ w.
     (Ok (Some \<lparr>pr_decision = sn_decision sn, pr_outcome = outcome, pr_cycle_id = cycle_id,
        pr_cycle_inserted = inserted, pr_legacy_imported = imported,
        pr_state_revision = state_revision\<rparr>), w))))"

lemma run_loaded_cases:
  assumes "run_loaded wl cod ex env t intent authorization c imported ds w = (res, w')"
  obtains (unobserved) "quiet (wl_core wl) w w'" and "\<And>x. res \<noteq> Inr x"
    | (acted) sn cycle_id inserted w1 r where
      "observe_cycle wl cod ex env t intent c ds w = (Inr (sn, cycle_id, inserted), w1)"
      and "act_on_cycle wl cod ex env t intent authorization c ds sn cycle_id w1 = (r, w')"
      and "\<And>rc. res = Inr rc \<Longrightarrow> \<exists>outcome revision. r = Inr (outcome, revision) \<and>
        rc = Some \<lparr>pr_decision = sn_decision sn, pr_outcome = outcome, pr_cycle_id = cycle_id,
          pr_cycle_inserted = inserted, pr_legacy_imported = imported,
          pr_state_revision = revision\<rparr>"
proof -
  let ?observe = "observe_cycle wl cod ex env t intent c ds w"
  from assms show ?thesis
    unfolding run_loaded_def
  proof (cases rule: and_run_cases)
    case (failed e)
    with observe_cycle_quiet [of wl w cod ex env t intent c ds] unobserved show ?thesis
      by simp
  next
    case (ok y)
    obtain sn cycle_id inserted w1 where observed: "?observe = (Inr (sn, cycle_id, inserted), w1)"
      using ok(1) by (cases y, cases ?observe) auto
    obtain r w2 where act: "act_on_cycle wl cod ex env t intent authorization c ds sn cycle_id w1
        = (r, w2)"
      by (metis prod.collapse)
    have "w' = w2" "\<And>rc. res = Inr rc \<Longrightarrow> \<exists>outcome revision. r = Inr (outcome, revision) \<and>
        rc = Some \<lparr>pr_decision = sn_decision sn, pr_outcome = outcome, pr_cycle_id = cycle_id,
          pr_cycle_inserted = inserted, pr_legacy_imported = imported,
          pr_state_revision = revision\<rparr>"
      using ok by (auto simp: observed act and_run_def split: sum.splits)
    then show ?thesis
      using observed act by (intro acted [of sn cycle_id inserted w1 r]) simp_all
  qed
qed

lemma run_lock_cases:
  assumes "run_once_postgres_with_intent wl cod ex env legacy t intent authorization w = (res, w')"
  obtains (unloaded) "quiet (wl_core wl) w w'" and "\<And>rc. res \<noteq> Inr (Some rc)"
    | (loaded) imported ds st w1 where "quiet (wl_core wl) w w1"
      and "state_of (cw_caller w1) (executor_campaign ex) = Some st"
      and "parse_state (executor_campaign ex) st = Inr ds"
      and "\<forall>st0. state_of (cw_caller w) (executor_campaign ex) = Some st0 \<longrightarrow> st0 = st"
      and "db_actions (cw_caller w1) = db_actions (cw_caller w)"
      and "run_loaded wl cod ex env t intent authorization (executor_campaign ex) imported ds w1
        = (res, w')"
proof (cases "p_write_enabled (ex_policy ex)")
  case False
  show ?thesis
    by (rule unloaded) (use False assms in \<open>auto simp: run_once_postgres_with_intent_def\<close>)
next
  case True
  note run = assms [unfolded run_once_postgres_with_intent_def run_loaded_def [symmetric],
      simplified True, simplified]
  let ?c = "executor_campaign ex"
  let ?load = "load_or_import env (ex_policy_sha256 ex) legacy ?c w"
  from run show ?thesis
  proof (cases rule: and_run_cases)
    case (failed e)
    with unloaded show ?thesis by simp
  next
    case (ok lease)
    have lease: "lease = None \<or> lease = Some ?c"
      using try_acquire_Ok [of env ex w] ok(1)
      by (cases lease) (auto, metis fst_conv prod.collapse snd_conv)
    show ?thesis
    proof (cases lease)
      case None
      show ?thesis
        by (rule unloaded) (use None ok(2) in auto)
    next
      case (Some c)
      with lease ok(2) have "and_run ?load (\<lambda>(imported, ds).
          run_loaded wl cod ex env t intent authorization ?c imported ds) = (res, w')"
        by simp
      then show ?thesis
      proof (cases rule: and_run_cases)
        case (failed e)
        with load_or_import_quiet [of "wl_core wl" w env "ex_policy_sha256 ex" legacy ?c] unloaded
        show ?thesis by simp
      next
        case (ok x)
        obtain imported ds w1 where load: "?load = (Inr (imported, ds), w1)"
          using ok(1) by (cases x, cases ?load) auto
        from load_or_import_Ok [OF load] obtain st where st: "state_of (cw_caller w1) ?c = Some st"
            "parse_state ?c st = Inr ds" "\<forall>st0. state_of (cw_caller w) ?c = Some st0 \<longrightarrow> st0 = st"
            "db_actions (cw_caller w1) = db_actions (cw_caller w)"
          by blast
        have "quiet (wl_core wl) w w1"
          using load_or_import_quiet [of "wl_core wl" w env "ex_policy_sha256 ex" legacy ?c] load
          by simp
        then show ?thesis
          using st ok by (intro loaded [of w1 st ds imported]) (auto simp: load)
      qed
    qed
  qed
qed

lemma run_cases:
  assumes "run_once_postgres_with_intent wl cod ex env legacy t intent authorization w = (res, w')"
  obtains (silent) "quiet (wl_core wl) w w'"
    | (sent) d key where "cw_departed w' = d # cw_departed w"
      and "departs_reserved (wl_core wl) cod (p_campaign_id (ex_policy ex))
             (executor_campaign ex) key d"
      and "steps (store_step (wl_core wl)) (cw_caller w) (dp_caller d)"
      and "steps (store_step (wl_core wl)) (dp_caller d) (cw_caller w')"
      and "\<forall>st. state_of (cw_caller w) (executor_campaign ex) = Some st \<longrightarrow>
             st_incident_class st = None \<and> st_pending_idempotency_key st = None"
      and "\<forall>q \<in> set (db_actions (cw_caller w)). a_idempotency_key (r_action q) \<noteq> key"
      and "verify_authorization (ex_writer ex) (dp_at d) = Inr ()"
  using assms
proof (cases rule: run_lock_cases)
  case (loaded imported ds st w1)
  from loaded(6) show ?thesis
  proof (cases rule: run_loaded_cases)
    case unobserved
    with loaded(1) quiet_trans that(1) show ?thesis by blast
  next
    case (acted sn cycle_id inserted w2 r)
    note same = observe_cycle_Ok [OF acted(1)]
    have before: "quiet (wl_core wl) w w2"
      using quiet_trans [OF loaded(1), of w2]
        observe_cycle_quiet [of wl w1 cod ex env t intent "executor_campaign ex" ds] acted(1)
      by simp
    have "state_of (cw_caller w2) (executor_campaign ex) = Some st"
      using loaded(2) same(1) by simp
    from acted(2) this loaded(3) show ?thesis
    proof (cases rule: act_on_cycle_cases)
      case silent
      show ?thesis
        by (rule that(1)) (rule quiet_trans [OF before silent])
    next
      case (sent d key)
      then show ?thesis
        using before loaded same
        by (intro that(2) [of d key]) (auto simp: quiet_def intro: steps_trans)
    qed
  qed
qed (use that(1) in simp)

end
