(* ===== verification/Wb_Durable_Samples.thy ===== *)
theory Wb_Durable_Samples
  imports Wb_Durable Wb_Store_Samples
begin

text \<open>
  A concrete instance of the parameters and two runs of the PostgreSQL executor around a
  Moscow midnight: the first observes the campaign at its pause threshold one second before
  midnight, and the server reserves the pause one second after it; the second reads the
  paused campaign back on the next business date.
\<close>

definition quoted :: "string \<Rightarrow> string" where
  "quoted s = CHR 0x22 # s @ [CHR 0x22]"

definition pause_text :: string where
  "pause_text = ''{'' @ quoted ''kind'' @ '':'' @ quoted ''pause_campaign_for_daily_cap'' @ ''}''"

definition durable_from_str :: "string \<Rightarrow> json option" where
  "durable_from_str s =
     (if s = pause_text
      then Some (JObject [(''kind'', JString ''pause_campaign_for_daily_cap'')])
      else if take 2 s = ''{}'' \<and> list_all (\<lambda>b. b = CHR '' '') (drop 2 s) then Some (JObject [])
      else None)"

definition durable_lib :: web_libraries where
  "durable_lib = \<lparr>wl_core = sample_lib\<lparr>from_str := durable_from_str, jsonb := durable_from_str\<rparr>,
     wl_sid_of = (\<lambda>_. None), wl_rfc2822 = (\<lambda>_. None)\<rparr>"

definition moscow_midnight :: instant where
  "moscow_midnight = seconds (20691 * 86400 - 3 * 3600)"

definition durable_codecs :: codecs where
  "durable_codecs = \<lparr>
     snapshot_text = (\<lambda>sn. if o_observed_at (sn_observation sn) < moscow_midnight then ''{}''
                          else ''{} ''),
     snapshot_of_text = (\<lambda>_. None),
     decision_text = (\<lambda>_. ''{}''),
     request_text = (\<lambda>kind. if kind = PendingPauseForDailyCap then pause_text else ''{}''),
     request_of_text = (\<lambda>s. if s = pause_text then Some PendingPauseForDailyCap else None)\<rparr>"

definition durable_seed :: legacy_state_seed where
  "durable_seed = sample_seed\<lparr>sd_business_date := 20690\<rparr>"

definition durable_executor :: executor where
  "durable_executor = \<lparr>ex_policy = sample_policy, ex_policy_sha256 = digest_of_digit (CHR ''a''),
     ex_writer = executor_writer ''token'' QuotaDisabled sample_policy\<rparr>"

definition success_response :: http_response where
  "success_response = \<lparr>hr_status = 200, hr_headers = [], hr_content_length = Some 0, hr_chunks = []\<rparr>"

definition client_at :: "instant \<Rightarrow> client_env" where
  "client_at t = \<lparr>ce_locked_at = 0, ce_overslept = 0, ce_permit_took = 0, ce_preflight = True,
     ce_permit_clock = t, ce_admit_session = Answered, ce_admit_clock = t,
     ce_departure_clock = t, ce_reply = Responded success_response, ce_response_clock = t,
     ce_defer_session = Answered, ce_defer_clock = t\<rparr>"

definition campaign_facts :: "naive_date \<Rightarrow> u64 \<Rightarrow> advertising_fact list" where
  "campaign_facts d spend = [\<lparr>f_business_date = d, f_campaign_id = 39682633, f_sku = 0,
      f_impressions = 100, f_clicks = 5, f_spend_minor = spend, f_attributed_orders = 1,
      f_attributed_revenue_minor = 90000\<rparr>]"

definition durable_market :: "int \<Rightarrow> naive_date \<Rightarrow> u64 \<Rightarrow> market_facts" where
  "durable_market status d spend = \<lparr>
     mk_campaign = \<lparr>b_status = status, b_bids = sample_bids\<rparr>,
     mk_minimum_bids = map (\<lambda>k. (k, 102)) [449627015, 449627598, 497424314],
     mk_budget = 100000, mk_advertising = campaign_facts d spend, mk_stocks = sample_stocks\<rparr>"

text \<open>The server reserves and starts the pause one second after midnight.\<close>

definition midnight_env :: durable_env where
  "midnight_env = \<lparr>de_lock_free = True, de_link = (\<lambda>_. Connected),
     de_now = (\<lambda>_. moscow_midnight + seconds 1),
     de_market = Some (durable_market 9 20690 26000),
     de_client = client_at (moscow_midnight + seconds 1)\<rparr>"

definition morning_env :: durable_env where
  "morning_env = \<lparr>de_lock_free = True, de_link = (\<lambda>_. Connected),
     de_now = (\<lambda>_. moscow_midnight + seconds 120),
     de_market = Some (durable_market 11 20691 0),
     de_client = client_at (moscow_midnight + seconds 120)\<rparr>"

definition durable_world_start :: durable_world where
  "durable_world_start = \<lparr>cw_caller = empty_database, cw_quota = Map.empty,
     cw_next_start = (\<lambda>_. 0), cw_departed = []\<rparr>"

definition midnight_run :: "postgres_receipt option durable_run" where
  "midnight_run = run_once_postgres durable_lib durable_codecs durable_executor midnight_env
     durable_seed (moscow_midnight - seconds 1) durable_world_start"


section \<open>The first run, stage by stage\<close>

definition durable_campaign :: campaign_key where
  "durable_campaign = (''ip_domnyshev_wb'', 39682633)"

definition midnight_snapshot :: wb_snapshot where
  "midnight_snapshot = projr (observe_durable midnight_env sample_policy
     (digest_of_digit (CHR ''a'')) (moscow_midnight - seconds 1)
     \<lparr>v_paused_by_automation = False, v_actions_today = 0, v_last_action_at = None\<rparr>)"

definition midnight_cycle :: string where
  "midnight_cycle = sha256_domain (wl_core durable_lib) ''wb-automation-cycle-v1'' ''{}''"

definition db_midnight_imported :: database where
  "db_midnight_imported = snd (initialize_from_legacy Connected durable_campaign durable_seed
     empty_database)"

definition db_midnight_observed :: database where
  "db_midnight_observed = snd (persist_shadow_cycle (wl_core durable_lib) Connected durable_campaign
     midnight_cycle (digest_of_digit (CHR ''a'')) (moscow_midnight - seconds 1) 20690 1 ''{}'' ''{}''
     db_midnight_imported)"

definition midnight_reservation :: action_reservation where
  "midnight_reservation = build_reservation (wl_core durable_lib) durable_codecs durable_executor
     midnight_cycle 20690 1 None
     \<lparr>pa_reserved_at = moscow_midnight - seconds 1, pa_kind = PendingPauseForDailyCap\<rparr>"

definition midnight_key :: string where
  "midnight_key = rs_idempotency_key midnight_reservation"

definition db_midnight_reserved :: database where
  "db_midnight_reserved = snd (reserve_action (wl_core durable_lib) Connected
     (moscow_midnight + seconds 1) durable_campaign midnight_reservation db_midnight_observed)"

definition db_midnight_started :: database where
  "db_midnight_started = snd (mark_write_started (wl_core durable_lib) Connected
     (moscow_midnight + seconds 1) durable_campaign midnight_key 2 db_midnight_reserved)"

definition db_midnight_waiting :: database where
  "db_midnight_waiting = snd (mark_awaiting_readback (wl_core durable_lib) Connected
     (moscow_midnight + seconds 1) durable_campaign midnight_key 2 db_midnight_started)"

lemma midnight_key_code [code]: "midnight_key = replicate 62 (CHR ''0'') @ ''99''"
  by code_simp

lemma midnight_cycle_code [code]: "midnight_cycle = replicate 62 (CHR ''0'') @ ''19''"
  by code_simp

lemma midnight_reservation_code [code]:
  "midnight_reservation = \<lparr>rs_idempotency_key = midnight_key, rs_cycle_id = midnight_cycle,
     rs_policy_digest = digest_of_digit (CHR ''a''),
     rs_request_digest = replicate 62 (CHR ''0'') @ ''40'',
     rs_action_kind = Kind_PauseCampaignForDailyCap, rs_request_json = pause_text,
     rs_business_date = 20690, rs_expected_state_revision = 1, rs_max_actions_per_day = 2\<rparr>"
  by code_simp

definition midnight_state :: state_row where
  "midnight_state = (seed_row durable_seed)\<lparr>st_actions_today := 1,
     st_last_action_at := Some (moscow_midnight + seconds 1),
     st_pending_idempotency_key := Some midnight_key, st_revision := 2\<rparr>"

definition midnight_cycle_row :: cycle_row where
  "midnight_cycle_row = \<lparr>cy_cycle_id = midnight_cycle, cy_owner = durable_campaign,
     cy_policy_digest = digest_of_digit (CHR ''a''),
     cy_observed_at = moscow_midnight - seconds 1, cy_business_date = 20690,
     cy_state_revision = 1, cy_snapshot_json = ''{}'', cy_decision_json = ''{}''\<rparr>"

definition midnight_action :: "durable_action_status \<Rightarrow> durable_action" where
  "midnight_action status = (r_action (reserved_row (moscow_midnight + seconds 1) durable_campaign
       midnight_reservation))\<lparr>a_status := status,
     a_write_started_at := (if status = Act_Reserved then None
                            else Some (moscow_midnight + seconds 1))\<rparr>"

definition midnight_audit :: "string \<Rightarrow> string \<Rightarrow> audit_row" where
  "midnight_audit suffix event_type = \<lparr>
     au_event_key = audit_event_key (wl_core durable_lib) midnight_key suffix [],
     au_cycle_id = midnight_cycle, au_owner = durable_campaign,
     au_event_type = event_type, au_idempotency_key = Some midnight_key,
     au_payload_json = ''{}''\<rparr>"

definition midnight_tables :: "durable_action_status \<Rightarrow> audit_row list \<Rightarrow> database" where
  "midnight_tables status audit = \<lparr>db_states = [(durable_campaign, midnight_state)],
     db_actions = [\<lparr>r_owner = durable_campaign, r_action = midnight_action status\<rparr>],
     db_cycles = [midnight_cycle_row], db_audit = audit\<rparr>"

lemma db_midnight_imported_code [code]:
  "db_midnight_imported = \<lparr>db_states = [(durable_campaign, seed_row durable_seed)],
     db_actions = [], db_cycles = [], db_audit = []\<rparr>"
  by code_simp

lemma db_midnight_observed_code [code]:
  "db_midnight_observed = \<lparr>db_states = [(durable_campaign, seed_row durable_seed)],
     db_actions = [], db_cycles = [midnight_cycle_row], db_audit = []\<rparr>"
  by code_simp

lemma db_midnight_reserved_code [code]:
  "db_midnight_reserved = midnight_tables Act_Reserved
     [midnight_audit ''reserved'' ''action_reserved'']"
  by code_simp

lemma db_midnight_started_code [code]:
  "db_midnight_started = midnight_tables Act_WriteStarted
     [midnight_audit ''write_started'' ''write_started'',
      midnight_audit ''reserved'' ''action_reserved'']"
  by code_simp

lemma db_midnight_waiting_code [code]:
  "db_midnight_waiting = midnight_tables Act_AwaitingReadback
     [midnight_audit ''awaiting_readback'' ''awaiting_readback'',
      midnight_audit ''write_started'' ''write_started'',
      midnight_audit ''reserved'' ''action_reserved'']"
  by code_simp

definition midnight_loaded :: database_state where
  "midnight_loaded = \<lparr>ds_account_id = ''ip_domnyshev_wb'', ds_campaign_id = 39682633,
     ds_policy_digest = digest_of_digit (CHR ''a''), ds_business_date = 20690,
     ds_actions_today = 0, ds_last_action_at = None, ds_paused_for_daily_cap_on = None,
     ds_pending_idempotency_key = None, ds_incident_class = None, ds_revision = 1,
     ds_imported_legacy_digest = Some (digest_of_digit (CHR ''b''))\<rparr>"

lemma midnight_loaded_simps [simp]:
  "ds_revision midnight_loaded = 1" "ds_pending_idempotency_key midnight_loaded = None"
  "ds_incident_class midnight_loaded = None"
  by (simp_all add: midnight_loaded_def)

lemma pair_of_fst: "fst p = x \<Longrightarrow> p = (x, snd p)"
  by auto

lemma midnight_env_simps [simp]:
  "de_link midnight_env call = Connected" "de_now midnight_env call = moscow_midnight + seconds 1"
  "de_client midnight_env = client_at (moscow_midnight + seconds 1)"
  by (simp_all add: midnight_env_def)

lemma durable_executor_simps [simp]:
  "ex_policy durable_executor = sample_policy"
  "ex_policy_sha256 durable_executor = digest_of_digit (CHR ''a'')"
  "ex_writer durable_executor = executor_writer ''token'' QuotaDisabled sample_policy"
  by (simp_all add: durable_executor_def)

lemma midnight_acquire:
  "try_acquire_campaign midnight_env sample_policy w = (Ok (Some durable_campaign), w)"
proof -
  have "validate_account (p_account_id sample_policy) = Ok ()"
    "to_i64 (p_campaign_id sample_policy) = Ok 39682633"
    by code_simp+
  then show ?thesis
    by (simp add: try_acquire_campaign_def wrap_err_def midnight_env_def durable_campaign_def
        sample_policy_def)
qed

lemma midnight_load_empty: "load_state durable_campaign empty_database = Ok None"
  by code_simp

lemma midnight_import:
  "initialize_from_legacy Connected durable_campaign durable_seed empty_database
     = (Ok True, db_midnight_imported)"
  unfolding db_midnight_imported_def by (rule pair_of_fst) code_simp

lemma midnight_load: "load_state durable_campaign db_midnight_imported = Ok (Some midnight_loaded)"
  by code_simp

lemma midnight_persist:
  "persist_shadow_cycle (wl_core durable_lib) Connected durable_campaign midnight_cycle
     (digest_of_digit (CHR ''a'')) (moscow_midnight - seconds 1) 20690 1 ''{}'' ''{}''
     db_midnight_imported = (Ok True, db_midnight_observed)"
  unfolding db_midnight_observed_def by (rule pair_of_fst) code_simp

lemma midnight_reserve:
  "reserve_action (wl_core durable_lib) Connected (moscow_midnight + seconds 1) durable_campaign
     midnight_reservation db_midnight_observed =
     (Ok \<lparr>rr_inserted = True, rr_state_revision = 2, rr_action = midnight_action Act_Reserved\<rparr>,
      db_midnight_reserved)"
  unfolding db_midnight_reserved_def by (rule pair_of_fst) code_simp

lemma midnight_start:
  "mark_write_started (wl_core durable_lib) Connected (moscow_midnight + seconds 1)
     durable_campaign midnight_key 2 db_midnight_reserved = (Ok True, db_midnight_started)"
  unfolding db_midnight_started_def by (rule pair_of_fst) code_simp

lemma midnight_wait:
  "mark_awaiting_readback (wl_core durable_lib) Connected (moscow_midnight + seconds 1)
     durable_campaign midnight_key 2 db_midnight_started = (Ok True, db_midnight_waiting)"
  unfolding db_midnight_waiting_def by (rule pair_of_fst) code_simp

lemma midnight_observe:
  "observe_durable midnight_env sample_policy (digest_of_digit (CHR ''a''))
     (moscow_midnight - seconds 1)
     \<lparr>v_paused_by_automation = False, v_actions_today = 0, v_last_action_at = None\<rparr>
     = Ok midnight_snapshot"
proof -
  have "\<not> isl (observe_durable midnight_env sample_policy (digest_of_digit (CHR ''a''))
     (moscow_midnight - seconds 1)
     \<lparr>v_paused_by_automation = False, v_actions_today = 0, v_last_action_at = None\<rparr>)"
    by code_simp
  then show ?thesis
    by (simp add: midnight_snapshot_def)
qed

lemma midnight_decision:
  "d_action (sn_decision midnight_snapshot) = PauseCampaignForDailyCap"
  "o_observed_at (sn_observation midnight_snapshot) = moscow_midnight - seconds 1"
  "o_daily_spend_minor (sn_observation midnight_snapshot) = 26000"
  by code_simp+

lemma midnight_intent:
  "apply_postgres_execution_intent sample_policy midnight_snapshot Automatic None
     = Ok midnight_snapshot"
  by code_simp

text \<open>The checks of the writer pass, and the marketplace accepts the request.\<close>

lemma midnight_writer:
  "validate_advert_id (p_campaign_id sample_policy) = Ok ()"
  "preflight_shared_quota durable_lib (executor_writer ''token'' QuotaDisabled sample_policy)
     (client_at (moscow_midnight + seconds 1)) PAUSE_CAMPAIGN_PATH = Ok ()"
  "verify_authorization (executor_writer ''token'' QuotaDisabled sample_policy)
     (moscow_midnight + seconds 1) = Ok ()"
  "shared_quota_key durable_lib (executor_writer ''token'' QuotaDisabled sample_policy)
     PAUSE_CAMPAIGN_PATH = Ok None"
  "read_response durable_lib (PauseRequest (p_campaign_id sample_policy)) success_response = Ok JNull"
  "vendor_quota_cooldown durable_lib (hr_headers success_response) (hr_status success_response)
     (moscow_midnight + seconds 1) = None"
  by code_simp+

lemma client_at_simps [simp]:
  "ce_permit_clock (client_at t) = t" "ce_departure_clock (client_at t) = t"
  "ce_reply (client_at t) = Responded success_response" "ce_response_clock (client_at t) = t"
  by (simp_all add: client_at_def)

definition midnight_departure :: "instant \<Rightarrow> database departure" where
  "midnight_departure slot = \<lparr>dp_request = PauseRequest (p_campaign_id sample_policy),
     dp_at = moscow_midnight + seconds 1, dp_slot = slot, dp_caller = db_midnight_started\<rparr>"

lemma midnight_send:
  assumes "cw_caller w = db_midnight_reserved"
  shows "\<exists>slot w'. send_pending_postgres durable_lib durable_executor midnight_env durable_campaign
      \<lparr>pa_reserved_at = t, pa_kind = PendingPauseForDailyCap\<rparr> midnight_key 2 w = (Ok (), w') \<and>
    cw_caller w' = db_midnight_started \<and> cw_departed w' = midnight_departure slot # cw_departed w"
proof -
  let ?c = "executor_writer ''token'' QuotaDisabled sample_policy"
  let ?slot = "write_slot (client_at (moscow_midnight + seconds 1)) (cw_next_start w Write_Pacer)"
  let ?w = "w\<lparr>cw_caller := db_midnight_started,
    cw_next_start := (cw_next_start w)(Write_Pacer := ?slot + pacer_interval ?c Write_Pacer),
    cw_departed := midnight_departure ?slot # cw_departed w\<rparr>"
  have permit: "write_permit (wl_core durable_lib) midnight_env durable_campaign midnight_key 2
      db_midnight_reserved = (Ok (), db_midnight_started)"
    by (simp add: write_permit_def midnight_start)
  have "send_pending_postgres durable_lib durable_executor midnight_env durable_campaign
      \<lparr>pa_reserved_at = t, pa_kind = PendingPauseForDailyCap\<rparr> midnight_key 2 w = (Ok (), ?w)"
    using assms
    by (simp add: send_pending_postgres_def pending_request_def guarded_write_def final_permit_def
        send_once_def admit_shared_quota_def publish_shared_cooldown_def midnight_writer permit
        request_pacer_def wrap_err_def midnight_departure_def Let_def)
  then show ?thesis
    by (intro exI [of _ ?slot] exI [of _ ?w]) simp
qed

lemma midnight_enabled: "p_write_enabled sample_policy"
  by (simp add: sample_policy_def)

lemma midnight_baseline:
  "load_traffic_feedback_baseline durable_codecs midnight_env sample_policy durable_campaign w
     = (Ok None, w)"
  by (simp add: load_traffic_feedback_baseline_def sample_policy_def pacing_mode_defs)

lemma midnight_view:
  "durable_state_view 20690 midnight_loaded
     = \<lparr>v_paused_by_automation = False, v_actions_today = 0, v_last_action_at = None\<rparr>"
  by code_simp

lemma midnight_text:
  "snapshot_text durable_codecs midnight_snapshot = ''{}''"
  "decision_text durable_codecs d = ''{}''"
  by (simp_all add: durable_codecs_def midnight_decision duration_defs)

lemma midnight_calm:
  "\<not> daily_cap_breach_requires_lock sample_policy (sn_observation midnight_snapshot)
     (sn_decision midnight_snapshot) b"
  by (simp add: daily_cap_breach_requires_lock_def midnight_decision sample_policy_def)

definition midnight_receipt :: postgres_receipt where
  "midnight_receipt = \<lparr>pr_decision = sn_decision midnight_snapshot,
     pr_outcome = WriteSentReconciliationRequired, pr_cycle_id = midnight_cycle,
     pr_cycle_inserted = True, pr_legacy_imported = True, pr_state_revision = 2\<rparr>"

lemma midnight_run_sends:
  "fst midnight_run = Ok (Some midnight_receipt)"
  "cw_caller (snd midnight_run) = db_midnight_waiting"
  "\<exists>slot. cw_departed (snd midnight_run) = [midnight_departure slot]"
proof -
  let ?w = "durable_world_start\<lparr>cw_caller := db_midnight_reserved\<rparr>"
  obtain slot w' where sent: "send_pending_postgres durable_lib durable_executor midnight_env
      durable_campaign
      \<lparr>pa_reserved_at = moscow_midnight - seconds 1, pa_kind = PendingPauseForDailyCap\<rparr>
      midnight_key 2 ?w = (Ok (), w')" "cw_caller w' = db_midnight_started"
      "cw_departed w' = [midnight_departure slot]"
    using midnight_send [of ?w "moscow_midnight - seconds 1"] by (auto simp: durable_world_start_def)
  have date: "wb_automation_business_date (moscow_midnight - seconds 1) = 20690"
    by code_simp
  have load: "load_or_import midnight_env (digest_of_digit (CHR ''a'')) durable_seed durable_campaign
      durable_world_start
      = (Ok (True, midnight_loaded), durable_world_start\<lparr>cw_caller := db_midnight_imported\<rparr>)"
    by (simp add: load_or_import_def and_run_def read_store_def on_store_def wrap_err_def
        midnight_load_empty midnight_import midnight_load durable_world_start_def)
  have cycle: "observe_cycle durable_lib durable_codecs durable_executor midnight_env
      (moscow_midnight - seconds 1) Automatic durable_campaign midnight_loaded
      (durable_world_start\<lparr>cw_caller := db_midnight_imported\<rparr>)
      = (Ok (midnight_snapshot, midnight_cycle, True),
         durable_world_start\<lparr>cw_caller := db_midnight_observed\<rparr>)"
    using midnight_persist
    by (simp add: observe_cycle_def and_run_def Let_def intent_admitted_def midnight_baseline date
        midnight_view midnight_observe midnight_intent on_store_def wrap_err_def
        midnight_decision(2) midnight_text midnight_cycle_def [symmetric])
  have act: "act_on_cycle durable_lib durable_codecs durable_executor midnight_env
      (moscow_midnight - seconds 1) Automatic None durable_campaign midnight_loaded
      midnight_snapshot midnight_cycle (durable_world_start\<lparr>cw_caller := db_midnight_observed\<rparr>)
      = (Ok (WriteSentReconciliationRequired, 2), w'\<lparr>cw_caller := db_midnight_waiting\<rparr>)"
    using sent(2) midnight_wait
    by (simp add: act_on_cycle_def Let_def date midnight_decision midnight_calm
        midnight_reservation_def [symmetric] reserve_and_send_def and_run_def
        on_store_def midnight_reserve wrap_err_def midnight_key_def [symmetric] sent(1)
        settle_write_def)
  have run: "midnight_run = (Ok (Some midnight_receipt), w'\<lparr>cw_caller := db_midnight_waiting\<rparr>)"
    unfolding midnight_receipt_def
    by (simp add: midnight_run_def run_once_postgres_def run_once_postgres_with_intent_def
        midnight_enabled midnight_acquire load cycle act and_run_def release_campaign_def
        read_store_def wrap_err_def)
  show "fst midnight_run = Ok (Some midnight_receipt)"
    "cw_caller (snd midnight_run) = db_midnight_waiting"
    "\<exists>slot. cw_departed (snd midnight_run) = [midnight_departure slot]"
    using sent(3) by (auto simp: run)
qed

end
