(* ===== verification/Wb_Durable_Correct.thy ===== *)
theory Wb_Durable_Correct
  imports Wb_Durable_Facts Wb_Durable_Samples
begin

text \<open>
  The correctness of the PostgreSQL executor over single runs in any environment and over
  every interleaving of its runs with the operations of other processes on the same
  database.
\<close>


section \<open>Runs of the executor among other processes\<close>

definition departed_key :: "campaign_key \<Rightarrow> database departure \<Rightarrow> string option" where
  "departed_key c d = Option.bind (state_of (dp_caller d) c) st_pending_idempotency_key"

inductive durable_step ::
  "web_libraries \<Rightarrow> codecs \<Rightarrow> executor \<Rightarrow> durable_world \<Rightarrow> durable_world \<Rightarrow> bool"
  for wl :: web_libraries and cod :: codecs and ex :: executor where
  step_run:
    "durable_step wl cod ex w
       (snd (run_once_postgres_with_intent wl cod ex env legacy t intent authorization w))"
| step_other:
    "store_step (wl_core wl) (cw_caller w) db \<Longrightarrow> durable_step wl cod ex w (w\<lparr>cw_caller := db\<rparr>)"

definition durable_init :: "durable_world \<Rightarrow> bool" where
  "durable_init w \<longleftrightarrow> initial_database (cw_caller w) \<and> cw_departed w = []"

text \<open>The action of a departure has left the reserved state for good.\<close>

definition started :: "database \<Rightarrow> campaign_key \<Rightarrow> string \<Rightarrow> bool" where
  "started db c key \<longleftrightarrow> (\<exists>a. action_of db c key = Some a \<and> a_status a \<noteq> Act_Reserved)"

definition durable_inv :: "web_libraries \<Rightarrow> executor \<Rightarrow> durable_world \<Rightarrow> bool" where
  "durable_inv wl ex w \<longleftrightarrow>
     store_inv (wl_core wl) (cw_caller w) \<and>
     distinct (map (departed_key (executor_campaign ex)) (cw_departed w)) \<and>
     (\<forall>d \<in> set (cw_departed w). \<exists>key. departed_key (executor_campaign ex) d = Some key \<and>
        started (cw_caller w) (executor_campaign ex) key)"

lemma steps_inv: "steps (store_step lib) db db' \<Longrightarrow> store_inv lib db \<Longrightarrow> store_inv lib db'"
  by (rule tables.stable_steps [where P = "store_inv lib"]) (auto intro: tables.step_inv)

lemma stays_started:
  assumes "steps (store_step lib) db db'" and "store_inv lib db" and "started db c key"
  shows "started db' c key"
proof (rule tables.stable_steps [OF assms(1,2), of "\<lambda>db. started db c key"])
  fix s t
  assume "store_inv lib s" and "started s c key" and "store_step lib s t"
  obtain a where a: "action_of s c key = Some a" "a_status a \<noteq> Act_Reserved"
    using \<open>started s c key\<close> by (auto simp: started_def)
  obtain k where effect: "effect lib k s t"
    using store_step_effect [OF \<open>store_step lib s t\<close>] by blast
  from effect_actions [OF effect \<open>store_inv lib s\<close> a(1)] a(2) show "started t c key"
    by (auto simp: started_def status_edge_def)
qed (use assms(3) in simp)

lemma departs_reserved_key:
  assumes "departs_reserved lib cod campaign_id c key d"
  shows "departed_key c d = Some key" "started (dp_caller d) c key"
  using assms by (auto simp: departs_reserved_def departed_key_def started_def)

lemma durable_inv_quiet:
  assumes "durable_inv wl ex w" and "quiet (wl_core wl) w w'"
  shows "durable_inv wl ex w'"
  unfolding durable_inv_def
proof (intro conjI ballI)
  have moved: "steps (store_step (wl_core wl)) (cw_caller w) (cw_caller w')"
      "cw_departed w' = cw_departed w" and inv: "store_inv (wl_core wl) (cw_caller w)"
    using assms by (simp_all add: quiet_def durable_inv_def)
  show "store_inv (wl_core wl) (cw_caller w')"
    by (rule steps_inv [OF moved(1) inv])
  show "distinct (map (departed_key (executor_campaign ex)) (cw_departed w'))"
    using assms(1) moved(2) by (simp add: durable_inv_def)
  fix d
  assume "d \<in> set (cw_departed w')"
  then obtain key where "departed_key (executor_campaign ex) d = Some key"
      "started (cw_caller w) (executor_campaign ex) key"
    using assms(1) moved(2) by (auto simp: durable_inv_def)
  then show "\<exists>key. departed_key (executor_campaign ex) d = Some key \<and>
      started (cw_caller w') (executor_campaign ex) key"
    using stays_started [OF moved(1) inv] by blast
qed

lemma step_run_inv:
  assumes "durable_inv wl ex w"
  shows "durable_inv wl ex
    (snd (run_once_postgres_with_intent wl cod ex env legacy t intent authorization w))"
proof -
  let ?c = "executor_campaign ex" and ?lib = "wl_core wl"
  obtain res w' where run: "run_once_postgres_with_intent wl cod ex env legacy t intent
      authorization w = (res, w')"
    by (metis prod.collapse)
  from run have "durable_inv wl ex w'"
  proof (cases rule: run_cases)
    case silent
    then show ?thesis
      by (rule durable_inv_quiet [OF assms])
  next
    case (sent d key)
    have inv: "store_inv ?lib (cw_caller w)"
      using assms by (simp add: durable_inv_def)
    have "steps (store_step ?lib) (cw_caller w) (cw_caller w')"
      using sent(3,4) by (rule steps_trans)
    then have rest: "durable_inv wl ex (w'\<lparr>cw_departed := cw_departed w\<rparr>)"
      by (intro durable_inv_quiet [OF assms]) (simp add: quiet_def)
    have key: "departed_key ?c d = Some key" "started (cw_caller w') ?c key"
      using departs_reserved_key [OF sent(2)] stays_started [OF sent(4) steps_inv [OF sent(3) inv]]
      by simp_all
    have "Some key \<notin> departed_key ?c ` set (cw_departed w)"
    proof
      assume "Some key \<in> departed_key ?c ` set (cw_departed w)"
      then obtain e where e: "e \<in> set (cw_departed w)" "departed_key ?c e = Some key"
        by (metis imageE)
      with assms obtain a where "action_of (cw_caller w) ?c key = Some a"
        by (auto simp: durable_inv_def started_def)
      from action_of_memD [OF this] sent(6) show False
        by fastforce
    qed
    with rest key sent(1) show ?thesis
      by (simp add: durable_inv_def)
  qed
  with run show ?thesis by simp
qed

interpretation durable: inductive_invariant durable_init "durable_step wl cod ex" "durable_inv wl ex"
  for wl cod ex
proof unfold_locales
  show "durable_inv wl ex w" if "durable_init w" for w
    using that tables.init_inv by (auto simp: durable_init_def durable_inv_def)
  show "durable_inv wl ex w'" if "durable_inv wl ex w" and "durable_step wl cod ex w w'" for w w'
    using that(2,1)
  proof (cases rule: durable_step.cases)
    case (step_other db)
    from this(2) have "steps (store_step (wl_core wl)) (cw_caller w) db"
      by (rule steps_single)
    with step_other(1) show ?thesis
      by (intro durable_inv_quiet [OF that(1)]) (simp add: quiet_def)
  qed (use that(1) step_run_inv in simp)
qed


lemma executor_campaign_midnight: "executor_campaign durable_executor = durable_campaign"
  by (simp add: executor_campaign_def durable_campaign_def sample_policy_def)

lemma midnight_reachable:
  "reach durable_init (durable_step durable_lib durable_codecs durable_executor) (snd midnight_run)"
proof (rule reach_step)
  show "reach durable_init (durable_step durable_lib durable_codecs durable_executor)
      durable_world_start"
    by (rule reach_init) (simp add: durable_init_def durable_world_start_def initial_database_def)
  show "durable_step durable_lib durable_codecs durable_executor durable_world_start
      (snd midnight_run)"
    unfolding midnight_run_def run_once_postgres_def by (rule step_run)
qed


section \<open>Properties\<close>

text \<open>
  C1. One run of the durable executor, in any environment (lost connections, any server
  clock, any answer of the marketplace), sends at most one write. When it sends one, the
  database already holds the action as started and pending under a new key, with the
  request that leaves, on a campaign that had neither a pending action nor an incident
  before the run, and the clock at departure lies in the authorization window.
\<close>

theorem durable_write_ahead:
  "case run_once_postgres_with_intent wl cod ex env legacy t intent authorization w of (res, w') \<Rightarrow>
     cw_departed w' = cw_departed w \<or>
     (\<exists>d key. cw_departed w' = d # cw_departed w \<and>
        departs_reserved (wl_core wl) cod (p_campaign_id (ex_policy ex)) (executor_campaign ex)
          key d \<and>
        key \<notin> set (action_keys (cw_caller w)) \<and>
        (case state_of (cw_caller w) (executor_campaign ex) of
           None \<Rightarrow> True
         | Some st \<Rightarrow> st_pending_idempotency_key st = None \<and> st_incident_class st = None) \<and>
        (case wc_window (ex_writer ex) of
           None \<Rightarrow> True
         | Some (starts_at, expires_at) \<Rightarrow> starts_at \<le> dp_at d \<and> dp_at d < expires_at))"
proof -
  obtain res w' where run: "run_once_postgres_with_intent wl cod ex env legacy t intent
      authorization w = (res, w')"
    by (metis prod.collapse)
  then show ?thesis
  proof (cases rule: run_cases)
    case silent
    then show ?thesis
      by (simp add: run quiet_def)
  next
    case (sent d key)
    have window: "case wc_window (ex_writer ex) of
        None \<Rightarrow> True
      | Some (starts_at, expires_at) \<Rightarrow> starts_at \<le> dp_at d \<and> dp_at d < expires_at"
      using sent(7) by (auto simp: verify_authorization_def split: option.splits if_splits)
    have clean: "case state_of (cw_caller w) (executor_campaign ex) of
        None \<Rightarrow> True
      | Some st \<Rightarrow> st_pending_idempotency_key st = None \<and> st_incident_class st = None"
      using sent(5) by (simp split: option.splits)
    show ?thesis
      using sent(1,2,6) window clean by (auto simp: run)
  qed
qed


text \<open>
  C2. Over every sequence of runs of the executor, interleaved with any operations of other
  processes, no action is sent twice: the writes that left carry distinct idempotency keys,
  and each of their actions has left the reserved state and never returns to it.
\<close>

theorem action_sent_at_most_once:
  assumes "reach durable_init (durable_step wl cod ex) w"
  shows "distinct (map (departed_key (executor_campaign ex)) (cw_departed w)) \<and>
    (\<forall>d \<in> set (cw_departed w). \<exists>key a. departed_key (executor_campaign ex) d = Some key \<and>
       action_of (cw_caller w) (executor_campaign ex) key = Some a \<and> a_status a \<noteq> Act_Reserved)"
  using durable.reach_inv [OF assms] by (auto simp: durable_inv_def started_def)

theorem action_sent_at_most_once_witness:
  "\<exists>d key a. cw_departed (snd midnight_run) = [d] \<and> departed_key durable_campaign d = Some key \<and>
     action_of (cw_caller (snd midnight_run)) durable_campaign key = Some a \<and>
     a_status a \<noteq> Act_Reserved"
  using action_sent_at_most_once [OF midnight_reachable] midnight_run_sends(3)
  by (auto simp: executor_campaign_midnight)

end
