(* ===== verification/Wb_Durable_Receipt.thy ===== *)
theory Wb_Durable_Receipt
  imports Wb_Durable_Correct
begin

text \<open>
  The receipt of a run tells the truth about the database: its revision is the one stored,
  and its outcome is what the state of the campaign and the log of departures show.
\<close>

definition outcome_true ::
  "campaign_key \<Rightarrow> execution_outcome \<Rightarrow> database departure list \<Rightarrow> database departure list \<Rightarrow>
     state_row \<Rightarrow> bool" where
  "outcome_true c outcome before after st \<longleftrightarrow>
     (case outcome of
        Observed \<Rightarrow> after = before \<and>
          st_pending_idempotency_key st = None \<and> st_incident_class st = None
      | ReservationCancelled \<Rightarrow> after = before \<and> st_pending_idempotency_key st = None
      | Reconciled \<Rightarrow> after = before \<and> st_pending_idempotency_key st = None
      | AwaitingReadback \<Rightarrow> after = before \<and> st_pending_idempotency_key st \<noteq> None
      | IncidentLocked \<Rightarrow> after = before \<and> st_incident_class st \<noteq> None
      | WriteSentReconciliationRequired \<Rightarrow>
          (\<exists>d key. after = d # before \<and> departed_key c d = Some key \<and>
             st_pending_idempotency_key st = Some key))"

definition receipt_true ::
  "campaign_key \<Rightarrow> execution_outcome \<Rightarrow> u64 \<Rightarrow> durable_world \<Rightarrow> durable_world \<Rightarrow> bool" where
  "receipt_true c outcome revision w w' \<longleftrightarrow>
     (\<exists>st. state_of (cw_caller w') c = Some st \<and> st_revision st = uint revision \<and>
        outcome_true c outcome (cw_departed w) (cw_departed w') st)"

lemma load_pending_action_Ok:
  assumes "load_pending_action c key revision db = Inr a"
  shows "\<exists>st. state_of db c = Some st \<and> st_pending_idempotency_key st = Some key \<and>
    st_revision st = uint revision" "action_of db c key = Some a"
  using assms
  by (auto simp: load_pending_action_def verify_pending_state_def load_action_in_transaction_def
      result_elim split: if_splits)

lemma reconcile_true:
  assumes "reconcile_postgres_pending lib cod env c ob action revision cycle_id w
      = (Inr (outcome, n), w')"
    and "store_inv lib (cw_caller w)"
    and "load_pending_action c key revision (cw_caller w) = Inr action"
  shows "receipt_true c outcome n w w'"
proof -
  note loaded = load_pending_action_Ok [OF assms(3)]
  obtain st where st: "state_of (cw_caller w) c = Some st"
      "st_pending_idempotency_key st = Some key" "st_revision st = uint revision"
    using loaded(1) by blast
  note mem = action_of_memD [OF loaded(2)]
  have incident: "st_incident_class st \<noteq> None" if "a_status action = Act_ReconciliationRequired"
    using store_invD(4) [OF assms(2) mem(2)] that st by (simp add: row_ok_def unresolved_status_def)
  have same: "cw_departed w' = cw_departed w"
    using reconcile_quiet [of lib w cod env c ob action revision cycle_id] assms(1)
    by (simp add: quiet_def)
  show ?thesis
    using assms(1) st incident same
    unfolding reconcile_postgres_pending_def Let_def receipt_true_def
    by (auto simp: result_elim outcome_true_def cancel_reserved_def mark_reconciliation_required_def
        mark_awaiting_readback_def split: if_splits option.splits
        dest!: resolve_post applied_post transition_Ok)
qed

lemma classify_left:
  assumes "classify_postgres_write (and_then r (\<lambda>_. Ok ())) = Inr result"
  shows "may_have_left r \<longleftrightarrow> result \<noteq> NotSent"
proof (cases r)
  case (Inl f)
  with assms show ?thesis
  proof (cases f)
    case (Err e)
    with assms Inl show ?thesis
      by (cases e) (auto split: write_outcome_kind.splits)
  qed simp
qed (use assms in auto)

lemma reserve_and_send_true:
  fixes cod :: codecs
  assumes "reserve_and_send wl ex env c r authorization pending w = (Inr (outcome, n), w')"
    and "state_of (cw_caller w) c = Some st" and "st_pending_idempotency_key st = None"
    and "rs_request_json r = request_text cod (pa_kind pending)"
    and "rs_action_kind r = durable_action_kind_of (pa_kind pending)"
  shows "receipt_true c outcome n w w'"
proof -
  let ?lib = "wl_core wl" and ?key = "rs_idempotency_key r"
  let ?call = "case authorization of
        None \<Rightarrow> reserve_action ?lib (de_link env Call_Reserve) (de_now env Call_Reserve) c r
      | Some reference \<Rightarrow> reserve_explicit_quota_override_action ?lib (de_link env Call_Reserve)
          (de_now env Call_Reserve) c r reference"
  obtain rec db1 r1 w2 result where
    call: "?call (cw_caller w) = (Inr rec, db1)"
    and guarded: "guarded_write wl (ex_writer ex) (de_client env)
        (pending_request (p_campaign_id (ex_policy ex)) (pa_kind pending))
        (write_permit ?lib env c ?key (rr_state_revision rec)) (w\<lparr>cw_caller := db1\<rparr>) = (r1, w2)"
    and result: "classify_postgres_write (and_then r1 (\<lambda>_. Ok ())) = Inr result"
    and settle: "settle_write ?lib env c ?key (rr_state_revision rec) result w2
      = (Inr (outcome, n), w')"
    using assms(1)
    by (auto simp: reserve_and_send_def send_pending_postgres_def Let_def result_elim
        split: prod.splits)
  note reserve = reserve_call_Ok [OF call]
  have same: "cw_departed w' = cw_departed w2"
    using settle_quiet [of ?lib w2 env c ?key "rr_state_revision rec" result] settle
    by (simp add: quiet_def)
  show ?thesis
    using guarded
  proof (cases rule: guarded_write_cases)
    case (left d)
    have "departs_reserved ?lib cod (p_campaign_id (ex_policy ex)) c ?key d"
      by (rule permit_after_reserve [OF reserve assms(2,3) _ assms(4,5) left(3)])
        (use left(5,6) in simp)
    then have key: "departed_key c d = Some ?key"
      by (rule departs_reserved_key)
    have "result = Sent \<or> result = Ambiguous"
      using classify_left [OF result] left(1) by (cases result) auto
    then show ?thesis
      using settle same left(2) key
      by (auto simp: settle_write_def Let_def result_elim receipt_true_def outcome_true_def
          mark_reconciliation_required_def mark_awaiting_readback_def
          dest!: resolve_post transition_Ok)
  next
    case stayed
    then have "result = NotSent"
      using classify_left [OF result] by simp
    then show ?thesis
      using settle same stayed(2)
      by (auto simp: settle_write_def Let_def result_elim receipt_true_def outcome_true_def
          cancel_not_sent_def dest!: resolve_post)
  qed
qed

lemma act_on_cycle_true:
  assumes "act_on_cycle wl cod ex env t intent authorization c ds sn cycle_id w
      = (Inr (outcome, n), w')"
    and "state_of (cw_caller w) c = Some st" and "parse_state c st = Inr ds"
    and "store_inv (wl_core wl) (cw_caller w)"
  shows "receipt_true c outcome n w w'"
proof (cases "ds_pending_idempotency_key ds")
  case (Some key)
  with assms(1,4) show ?thesis
    by (auto simp: act_on_cycle_def Let_def result_elim intro: reconcile_true)
next
  case None
  note idle = None parse_state_Ok [OF assms(3)]
  show ?thesis
  proof (cases "pending_from_decision (d_action (sn_decision sn)) (sn_observation sn)
      (p_min_bid_kopecks (ex_policy ex)) t")
    case None
    with assms(1,2) idle show ?thesis
      by (auto simp: act_on_cycle_def Let_def result_elim receipt_true_def outcome_true_def
          split: if_splits dest!: incident_post)
  next
    case (Some pending)
    have send: "receipt_true c outcome n w w'"
      if "reserve_and_send wl ex env c (build_reservation (wl_core wl) cod ex cycle_id
          (wb_automation_business_date t) (ds_revision ds) authorization pending)
          authorization pending w = (Inr (outcome, n), w')"
      by (rule reserve_and_send_true [OF that assms(2), where cod = cod])
        (use idle in \<open>simp_all add: build_reservation_request\<close>)
    show ?thesis
      using assms(1,2) idle Some
      by (auto simp: act_on_cycle_def Let_def result_elim receipt_true_def outcome_true_def
          split: if_splits dest!: incident_post send [unfolded receipt_true_def outcome_true_def])
  qed
qed


section \<open>Property\<close>

text \<open>
  C28. The receipt of a durable run is truthful. Its revision is the revision stored; after
  \<open>Observed\<close>, \<open>ReservationCancelled\<close> and \<open>Reconciled\<close> no action is pending and nothing was
  sent; after \<open>AwaitingReadback\<close> an action is pending; \<open>IncidentLocked\<close> is reported only with
  an incident stored; \<open>WriteSentReconciliationRequired\<close> is reported exactly with one
  departure, of the action that is then pending.
\<close>

theorem receipt_truthful:
  assumes "run_once_postgres_with_intent wl cod ex env legacy t intent authorization w
      = (Ok (Some rc), w')"
    and "store_inv (wl_core wl) (cw_caller w)"
  shows "receipt_true (executor_campaign ex) (pr_outcome rc) (pr_state_revision rc) w w'"
  using assms(1)
proof (cases rule: run_lock_cases)
  case (loaded imported ds st w1)
  from loaded(6) show ?thesis
  proof (cases rule: run_loaded_cases)
    case (acted sn cycle_id inserted w2 r)
    note same = observe_cycle_Ok [OF acted(1)]
    have before: "quiet (wl_core wl) w w2"
      using quiet_trans [OF loaded(1), of w2]
        observe_cycle_quiet [of wl w1 cod ex env t intent "executor_campaign ex" ds] acted(1)
      by simp
    obtain outcome n where r: "r = Inr (outcome, n)" and
      rc: "pr_outcome rc = outcome" "pr_state_revision rc = n"
      using acted(3) by fastforce
    have "receipt_true (executor_campaign ex) outcome n w2 w'"
    proof (rule act_on_cycle_true [OF acted(2) [unfolded r]])
      show "state_of (cw_caller w2) (executor_campaign ex) = Some st"
        using loaded(2) same(1) by simp
      show "store_inv (wl_core wl) (cw_caller w2)"
        using before steps_inv [OF _ assms(2)] by (simp add: quiet_def)
    qed (fact loaded(3))
    with before rc show ?thesis
      by (simp add: receipt_true_def quiet_def)
  qed blast
qed blast

theorem receipt_truthful_witness:
  "receipt_true durable_campaign WriteSentReconciliationRequired 2 durable_world_start
     (snd midnight_run)"
proof -
  have run: "run_once_postgres_with_intent durable_lib durable_codecs durable_executor midnight_env
      durable_seed (moscow_midnight - seconds 1) Automatic None durable_world_start
      = (Ok (Some midnight_receipt), snd midnight_run)"
    using pair_of_fst [OF midnight_run_sends(1)]
    by (simp add: midnight_run_def run_once_postgres_def)
  have "store_inv (wl_core durable_lib) (cw_caller durable_world_start)"
    using store_inv_empty by (simp add: durable_world_start_def empty_database_def)
  from receipt_truthful [OF run this] show ?thesis
    by (simp add: midnight_receipt_def executor_campaign_midnight)
qed

end
