(* ===== verification/Wb_Durable_Midnight.thy ===== *)
theory Wb_Durable_Midnight
  imports Wb_Durable_Receipt
begin

text \<open>
  A pause that the server reserves after midnight for an observation made before midnight.
  The executor confirms a pause with the business date of \<open>reserved_at\<close>, the store accepts
  only a date up to the state's business date, which is the date of the observation: no
  later run can confirm such a pause.
\<close>

definition stuck_pause :: "campaign_key \<Rightarrow> string \<Rightarrow> database \<Rightarrow> bool" where
  "stuck_pause c key db \<longleftrightarrow>
     (\<exists>st a. state_of db c = Some st \<and> st_pending_idempotency_key st = Some key \<and>
        action_of db c key = Some a \<and> a_action_kind a = Kind_PauseCampaignForDailyCap \<and>
        a_status a \<in> {Act_WriteStarted, Act_AwaitingReadback, Act_ReconciliationRequired} \<and>
        st_business_date st < wb_automation_business_date (a_reserved_at a))"

definition executor_run ::
  "web_libraries \<Rightarrow> codecs \<Rightarrow> executor \<Rightarrow> durable_world \<Rightarrow> durable_world \<Rightarrow> bool" where
  "executor_run wl cod ex w w' \<longleftrightarrow>
     (\<exists>env legacy t intent authorization.
        w' = snd (run_once_postgres_with_intent wl cod ex env legacy t intent authorization w))"

lemma stuck_transaction:
  assumes "stuck_pause c key db" and "\<And>x db'. body db = Inr (x, db') \<Longrightarrow> stuck_pause c key db'"
  shows "stuck_pause c key (snd (transaction l body db))"
  using assms by (auto simp: transaction_def split: sum.splits prod.splits)

lemma stuck_awaiting:
  assumes "stuck_pause c key db"
  shows "stuck_pause c key (snd (mark_awaiting_readback lib l now c key revision db))"
proof -
  have "stuck_pause c key db'"
    if "transition_in_transaction lib now c key expected Act_WriteStarted Act_AwaitingReadback
        ''awaiting_readback'' db = Inr (x, db')" for expected x db'
    using transition_in_transaction_Ok [OF that] assms by (auto simp: stuck_pause_def)
  then show ?thesis
    using assms
    by (auto simp: mark_awaiting_readback_def transition_without_state_change_def validated_def
        split: sum.splits intro!: stuck_transaction)
qed

lemma stuck_reconciliation:
  assumes "stuck_pause c key db"
  shows "stuck_pause c key
    (snd (mark_reconciliation_required lib l now c key revision error_class db))"
proof -
  let ?k = Resolve_ReconciliationRequired
  have "stuck_pause c key db'"
    if "resolve_in_transaction lib now c key expected error_class ?k db = Inr (x, db')"
    for expected x db'
    using resolve_in_transaction_Ok [OF that]
  proof (elim disjE exE conjE)
    fix st a a' evs
    assume st: "state_of db c = Some st" "st_pending_idempotency_key st = Some key"
      and a: "action_of db c key = Some a"
      and a': "enforce_action_transition lib now a (a\<lparr>a_status := resolution_status ?k,
          a_last_error_class := Some error_class\<rparr>) = Some a'"
      and db': "db' = (put_state c (resolve_state_change ?k error_class (expected + 1) st)
          (put_action a' db))\<lparr>db_audit := evs @ db_audit db\<rparr>"
    note keep = enforce_action_transition_Some [OF a']
    have "action_of db' c key = Some a'"
      using a action_of_memD(1) [OF a] keep(1) by (simp add: db' action_of_put_action)
    moreover have "state_of db' c = Some (resolve_state_change ?k error_class (expected + 1) st)"
      using st by (simp add: db')
    ultimately show ?thesis
      using assms st a keep
      by (auto simp: stuck_pause_def resolve_state_change_def resolution_status_def)
  qed (use assms in simp)
  then show ?thesis
    using assms
    by (auto simp: mark_reconciliation_required_def resolve_without_write_def validated_def
        split: sum.splits intro!: stuck_transaction)
qed

text \<open>The date of the pause is refused, whatever happens to the connection.\<close>

lemma stuck_not_applied:
  assumes "stuck_pause c key db" and "action_of db c key = Some a"
    and "paused_on = Some (wb_automation_business_date (a_reserved_at a))"
  shows "snd (mark_applied lib l now c key revision readback paused_on db) = db"
    and "fst (mark_applied lib l now c key revision readback paused_on db) \<noteq> Inr x"
proof -
  have "applied_in_transaction lib now c key expected readback paused_on db = Error InvalidInput"
    for expected
    using assms by (auto simp: stuck_pause_def applied_in_transaction_def pause_shape_matches_def
        load_locked_state_summary_def load_action_in_transaction_def)
  then show "snd (mark_applied lib l now c key revision readback paused_on db) = db"
    and "fst (mark_applied lib l now c key revision readback paused_on db) \<noteq> Inr x"
    by (auto simp: mark_applied_def validated_def transaction_def split: sum.splits)
qed


section \<open>Runs on a stuck pause\<close>

lemma stuck_cong:
  assumes "state_of db' = state_of db" and "db_actions db' = db_actions db"
  shows "stuck_pause c key db' = stuck_pause c key db"
  unfolding stuck_pause_def assms(1) action_of_cong [OF assms(2)] ..

lemma and_run_stuck:
  assumes "stuck_pause c key (cw_caller (snd r))"
    and "\<And>x. fst r = Inr x \<Longrightarrow> stuck_pause c key (cw_caller (snd (f x (snd r))))"
  shows "stuck_pause c key (cw_caller (snd (and_run r f)))"
  using assms by (auto simp: and_run_def split: sum.splits)

lemma on_store_caller [simp]: "cw_caller (snd (on_store f w)) = snd (f (cw_caller w))"
  by (simp add: on_store_def case_prod_beta Let_def)

lemma stuck_reconcile:
  assumes "stuck_pause c key (cw_caller w)"
    and "action_of (cw_caller w) c key = Some action"
  shows "stuck_pause c key (cw_caller (snd (reconcile_postgres_pending lib cod env c ob action
    revision cycle_id w)))"
proof -
  have key: "a_idempotency_key action = key"
    by (rule action_of_memD(1) [OF assms(2)])
  have status: "a_status action \<noteq> Act_Reserved" "a_action_kind action = Kind_PauseCampaignForDailyCap"
    using assms by (auto simp: stuck_pause_def)
  have date: "durable_pause_date pending = Some (wb_automation_business_date (a_reserved_at action))"
    if "pending_from_durable_action cod action = Inr pending" for pending
  proof -
    from that obtain kind where "durable_action_kind_of kind = Kind_PauseCampaignForDailyCap"
        "pending = \<lparr>pa_reserved_at = a_reserved_at action, pa_kind = kind\<rparr>"
      using status(2) by (auto simp: pending_from_durable_action_def result_elim)
    then show ?thesis
      by (cases kind) (auto simp: durable_pause_date_def)
  qed
  show ?thesis
    unfolding reconcile_postgres_pending_def Let_def key
    using assms status(1)
    by (intro and_run_stuck) (auto simp: date stuck_not_applied(1) [OF assms] stuck_awaiting
        stuck_reconciliation split: option.splits intro!: and_run_stuck)
qed

lemma persist_frame:
  "state_of (snd (persist_shadow_cycle lib l c cycle_id sha t d revision sj dj db)) = state_of db"
  "db_actions (snd (persist_shadow_cycle lib l c cycle_id sha t d revision sj dj db))
     = db_actions db"
  by (auto simp: persist_shadow_cycle_def validated_def transaction_def result_elim
      split: sum.splits if_splits prod.splits)

lemma stuck_observe:
  assumes "stuck_pause c key (cw_caller w)"
  shows "stuck_pause c key (cw_caller (snd (observe_cycle wl cod ex env t intent c' ds w)))"
  unfolding observe_cycle_def Let_def
  using assms by (intro and_run_stuck) (simp_all add: stuck_cong [OF persist_frame])

lemma stuck_load:
  assumes "stuck_pause c key (cw_caller w)"
  shows "snd (load_or_import env sha legacy c w) = w"
proof -
  obtain st where "state_of (cw_caller w) c = Some st"
    using assms by (auto simp: stuck_pause_def)
  then have "load_state c (cw_caller w) \<noteq> Inr None"
    by (simp add: load_state_Ok)
  then show ?thesis
    by (auto simp: load_or_import_def and_run_def read_store_def wrap_err_def
        split: sum.splits failure.splits option.splits)
qed

lemma stuck_act:
  assumes "stuck_pause c key (cw_caller w)" and "ds_pending_idempotency_key ds = Some key"
  shows "stuck_pause c key (cw_caller (snd (act_on_cycle wl cod ex env t intent authorization c ds sn
    cycle_id w)))"
proof -
  have "stuck_pause c key (cw_caller (snd (reconcile_postgres_pending lib cod env c ob action
      revision cycle_id w)))"
    if "load_pending_action c key revision (cw_caller w) = Inr action" for lib ob action revision
    by (rule stuck_reconcile [OF assms(1) load_pending_action_Ok(2) [OF that]])
  then show ?thesis
    using assms
    by (auto simp: act_on_cycle_def Let_def read_store_def wrap_err_Ok intro!: and_run_stuck)
qed

lemma stuck_run:
  assumes "stuck_pause (executor_campaign ex) key (cw_caller w)"
  shows "stuck_pause (executor_campaign ex) key (cw_caller
    (snd (run_once_postgres_with_intent wl cod ex env legacy t intent authorization w)))"
proof -
  let ?c = "executor_campaign ex"
  have lease: "c = ?c" if "fst (try_acquire_campaign env (ex_policy ex) w) = Inr (Some c)" for c
    using try_acquire_Ok [of env ex w c] that by (metis prod.collapse)
  have pending: "ds_pending_idempotency_key ds = Some key"
    if "fst (load_or_import env (ex_policy_sha256 ex) legacy ?c w) = Inr (imported, ds)"
    for imported ds
  proof -
    have "load_or_import env (ex_policy_sha256 ex) legacy ?c w = (Inr (imported, ds), w)"
      using that stuck_load [OF assms] by (metis prod.collapse)
    from load_or_import_Ok(1) [OF this] assms show ?thesis
      by (auto simp: stuck_pause_def parse_state_Ok)
  qed
  show ?thesis
  proof (cases "p_write_enabled (ex_policy ex)")
    case True
    show ?thesis
      unfolding run_once_postgres_with_intent_def
      using True assms
      by (auto split: option.splits simp: stuck_load pending stuck_observe
          dest!: lease intro!: and_run_stuck stuck_act)
  qed (use assms in \<open>simp add: run_once_postgres_with_intent_def\<close>)
qed


section \<open>Property\<close>

text \<open>
  C29. A pause whose reservation falls on a later business date than its observation is never
  confirmed: over any number of runs, in any environment (the marketplace may show the
  campaign paused all the time), the action stays pending and unapplied, and the campaign
  never sends another write.
\<close>

theorem midnight_pause_never_confirmed:
  assumes "steps (executor_run wl cod ex) w w'"
    and "stuck_pause (executor_campaign ex) key (cw_caller w)"
  shows "stuck_pause (executor_campaign ex) key (cw_caller w') \<and> cw_departed w' = cw_departed w"
  using assms
proof (induction rule: steps.induct)
  case (steps_step s t u)
  then have t: "stuck_pause (executor_campaign ex) key (cw_caller t)" "cw_departed t = cw_departed s"
    by simp_all
  obtain env legacy now intent authorization res where run: "run_once_postgres_with_intent wl cod ex
      env legacy now intent authorization t = (res, u)"
    using steps_step(2) by (metis executor_run_def prod.collapse)
  have "cw_departed u = cw_departed t"
    using run t(1) by (cases rule: run_cases) (auto simp: quiet_def stuck_pause_def)
  then show ?case
    using stuck_run [OF t(1), of wl cod env legacy now intent authorization] run t(2) by simp
qed simp

theorem midnight_pause_never_confirmed_witness:
  "stuck_pause durable_campaign midnight_key (cw_caller (snd (run_once_postgres durable_lib
     durable_codecs durable_executor morning_env durable_seed (moscow_midnight + seconds 120)
     (snd midnight_run))))"
proof -
  have "stuck_pause durable_campaign midnight_key db_midnight_waiting"
    unfolding stuck_pause_def
    by (rule exI [of _ midnight_state], rule exI [of _ "midnight_action Act_AwaitingReadback"])
      code_simp
  then have stuck: "stuck_pause (executor_campaign durable_executor) midnight_key
      (cw_caller (snd midnight_run))"
    by (simp add: midnight_run_sends executor_campaign_midnight)
  have "steps (executor_run durable_lib durable_codecs durable_executor) (snd midnight_run)
      (snd (run_once_postgres durable_lib durable_codecs durable_executor morning_env durable_seed
        (moscow_midnight + seconds 120) (snd midnight_run)))"
    unfolding run_once_postgres_def by (rule steps_single) (unfold executor_run_def, blast)
  from midnight_pause_never_confirmed [OF this stuck] show ?thesis
    by (simp add: executor_campaign_midnight)
qed

end
