(* ===== verification/Ozon_Guard.thy ===== *)
theory Ozon_Guard
  imports Wb_Client
begin

text \<open>
  The decisions of the Ozon campaign guard: \<open>src/src/control/ozon/guard.rs\<close> (the spend and
  DRR stop, and the one product a guarded campaign may hold) and
  \<open>src/src/control/ozon/pacing.rs\<close> (the bid controller). Amounts in microroubles and in
  kopecks (\<open>minor\<close>) are \<open>u64\<close>; the DRR products are taken in \<open>u128\<close>, where they cannot
  overflow.
\<close>


section \<open>The campaign guard\<close>

datatype guard_stop_reason = SpendCapReached | DrrCapExceeded

definition stop_reason_str :: "guard_stop_reason \<Rightarrow> string" where
  "stop_reason_str r =
     (case r of SpendCapReached \<Rightarrow> ''spend_cap_reached'' | DrrCapExceeded \<Rightarrow> ''drr_cap_exceeded'')"

datatype guard_evaluation_error = InvalidGuardLimit

definition guard_limits_valid :: "u64 \<Rightarrow> u8 \<Rightarrow> bool" where
  "guard_limits_valid spend_cap_microrubles target_drr_percent \<longleftrightarrow>
     spend_cap_microrubles \<noteq> 0 \<and> spend_cap_microrubles mod 10000 = 0 \<and>
     10 \<le> target_drr_percent \<and> target_drr_percent \<le> 100"

definition drr_exceeded :: "u64 \<Rightarrow> u64 \<Rightarrow> u8 \<Rightarrow> bool" where
  "drr_exceeded spend_minor attributed_revenue_minor target_drr_percent \<longleftrightarrow>
     0 < attributed_revenue_minor \<and>
     widen attributed_revenue_minor * ucast target_drr_percent < widen spend_minor * 100"

definition evaluate_ozon_campaign_guard ::
  "u64 \<Rightarrow> u64 \<Rightarrow> u64 \<Rightarrow> u8 \<Rightarrow> (guard_evaluation_error, guard_stop_reason option) result" where
  "evaluate_ozon_campaign_guard spend_minor attributed_revenue_minor spend_cap_microrubles
     target_drr_percent =
     (if \<not> guard_limits_valid spend_cap_microrubles target_drr_percent
      then Error InvalidGuardLimit
      else if spend_cap_microrubles div 10000 \<le> spend_minor then Ok (Some SpendCapReached)
      else if drr_exceeded spend_minor attributed_revenue_minor target_drr_percent
      then Ok (Some DrrCapExceeded)
      else Ok None)"


section \<open>The product of a campaign\<close>

datatype product_guard_error =
    InvalidLimit
  | InvalidSnapshot
  | SkuMismatch
  | BidOutOfRange

definition canonical_decimal :: "string \<Rightarrow> u64 option" where
  "canonical_decimal s =
     (case parse_u64 s of
        None \<Rightarrow> None
      | Some n \<Rightarrow> if decimal n = s then Some (word_of_int n) else None)"

definition canonical_u64 :: "json option \<Rightarrow> u64 option" where
  "canonical_u64 v =
     (case v of
        Some (JString s) \<Rightarrow> canonical_decimal s
      | Some (JInt n) \<Rightarrow> json_as_u64 (JInt n)
      | _ \<Rightarrow> None)"

definition parse_ozon_campaign_product :: "json \<Rightarrow> (product_guard_error, u64 \<times> u64) result" where
  "parse_ozon_campaign_product snapshot =
     (case Option.bind (json_get snapshot ''products'') json_as_array of
        Some [product] \<Rightarrow>
          and_then (ok_or (canonical_u64 (json_get product ''sku'')) InvalidSnapshot) (\<lambda>sku.
          and_then (ok_or (canonical_u64 (json_get product ''bid'')) InvalidSnapshot) (\<lambda>bid.
          Ok (sku, bid)))
      | _ \<Rightarrow> Error InvalidSnapshot)"

definition corridor_valid :: "u64 \<Rightarrow> u64 \<Rightarrow> bool" where
  "corridor_valid min_bid max_bid \<longleftrightarrow>
     min_bid \<noteq> 0 \<and> min_bid \<le> max_bid \<and> min_bid mod 1000000 = 0 \<and> max_bid mod 1000000 = 0"

definition validate_ozon_campaign_product_guard ::
  "json \<Rightarrow> u64 \<Rightarrow> u64 \<Rightarrow> u64 \<Rightarrow> (product_guard_error, u64) result" where
  "validate_ozon_campaign_product_guard snapshot expected_sku min_bid max_bid =
     ensure (expected_sku \<noteq> 0 \<and> corridor_valid min_bid max_bid) InvalidLimit
     (and_then (parse_ozon_campaign_product snapshot) (\<lambda>(sku, bid).
      ensure (sku = expected_sku) SkuMismatch
     (ensure (min_bid \<le> bid \<and> bid \<le> max_bid) BidOutOfRange
     (Ok bid))))"


section \<open>Bid pacing\<close>

definition MICRORUBLES_PER_RUBLE :: u64 where
  "MICRORUBLES_PER_RUBLE = 1000000"

record bid_pacing_policy =
  bp_min_bid_microrubles :: u64
  bp_max_bid_microrubles :: u64
  bp_bid_step_microrubles :: u64
  bp_spend_cap_microrubles :: u64
  bp_target_drr_percent :: u8
  bp_target_position :: u16
  bp_cooldown_seconds :: u64
  bp_max_position_age_seconds :: u64

record position_signal =
  ps_observed_at :: instant
  ps_position :: u16

record bid_pacing_observation =
  bo_observed_at :: instant
  bo_current_bid_microrubles :: u64
  bo_spend_minor :: u64
  bo_attributed_revenue_minor :: u64
  bo_position :: "position_signal option"
  bo_last_bid_change_at :: "instant option"

datatype pacing_hold_reason =
    PacingCooldown
  | PositionUnavailable
  | PositionStale
  | TargetPositionReached
  | BidCeilingReached

datatype pacing_pause_reason = PauseSpendCapReached | DrrExceededAtBidFloor

datatype bid_pacing_adjustment = AdjustHold pacing_hold_reason | AdjustBid u64 u64

datatype bid_pacing_action =
    PacingHold pacing_hold_reason
  | PacingChangeBid u64 u64
  | PacingPause pacing_pause_reason

datatype bid_pacing_error = InvalidPacingPolicy | InvalidPacingObservation

fun pacing_action_of :: "bid_pacing_adjustment \<Rightarrow> bid_pacing_action" where
  "pacing_action_of (AdjustHold reason) = PacingHold reason"
| "pacing_action_of (AdjustBid b b') = PacingChangeBid b b'"

text \<open>
  \<open>i64::try_from\<close> followed by \<open>Duration::try_seconds\<close>, which accepts up to \<open>i64::MAX\<close>
  milliseconds.
\<close>

definition try_seconds :: "u64 \<Rightarrow> duration option" where
  "try_seconds n = (if uint n \<le> (2 ^ 63 - 1) div 1000 then Some (seconds (uint n)) else None)"

definition validate_pacing_policy :: "bid_pacing_policy \<Rightarrow> (bid_pacing_error, unit) result" where
  "validate_pacing_policy p =
     (if bp_min_bid_microrubles p = 0 \<or> bp_max_bid_microrubles p < bp_min_bid_microrubles p \<or>
         bp_bid_step_microrubles p = 0 \<or>
         bp_min_bid_microrubles p mod MICRORUBLES_PER_RUBLE \<noteq> 0 \<or>
         bp_max_bid_microrubles p mod MICRORUBLES_PER_RUBLE \<noteq> 0 \<or>
         bp_bid_step_microrubles p mod MICRORUBLES_PER_RUBLE \<noteq> 0 \<or>
         \<not> guard_limits_valid (bp_spend_cap_microrubles p) (bp_target_drr_percent p) \<or>
         bp_target_position p = 0 \<or> bp_cooldown_seconds p = 0 \<or>
         bp_max_position_age_seconds p < bp_cooldown_seconds p
      then Error InvalidPacingPolicy else Ok ())"

definition validate_pacing_inputs ::
  "bid_pacing_policy \<Rightarrow> bid_pacing_observation \<Rightarrow> (bid_pacing_error, unit) result" where
  "validate_pacing_inputs p ob =
     and_then (validate_pacing_policy p) (\<lambda>_.
     ensure (bp_min_bid_microrubles p \<le> bo_current_bid_microrubles ob \<and>
             bo_current_bid_microrubles ob \<le> bp_max_bid_microrubles p) InvalidPacingObservation
     (Ok ()))"

definition cooldown_active ::
  "bid_pacing_policy \<Rightarrow> bid_pacing_observation \<Rightarrow> (bid_pacing_error, bool) result" where
  "cooldown_active p ob =
     (case bo_last_bid_change_at ob of
        None \<Rightarrow> Ok False
      | Some last_change \<Rightarrow>
          (let age = bo_observed_at ob - last_change in
           ensure (0 \<le> age) InvalidPacingObservation
           (and_then (ok_or (try_seconds (bp_cooldown_seconds p)) InvalidPacingPolicy)
              (\<lambda>cooldown. Ok (age < cooldown)))))"

definition position_bid_adjustment ::
  "bid_pacing_policy \<Rightarrow> bid_pacing_observation \<Rightarrow>
     (bid_pacing_error, bid_pacing_adjustment) result" where
  "position_bid_adjustment p ob =
     (case bo_position ob of
        None \<Rightarrow> Ok (AdjustHold PositionUnavailable)
      | Some position \<Rightarrow>
          (let age = bo_observed_at ob - ps_observed_at position in
           and_then (ok_or (try_seconds (bp_max_position_age_seconds p)) InvalidPacingPolicy)
             (\<lambda>max_age.
           if age < 0 \<or> max_age < age then Ok (AdjustHold PositionStale)
           else if ps_position position \<le> bp_target_position p
           then Ok (AdjustHold TargetPositionReached)
           else if bo_current_bid_microrubles ob = bp_max_bid_microrubles p
           then Ok (AdjustHold BidCeilingReached)
           else and_then (cooldown_active p ob) (\<lambda>cooling.
             if cooling then Ok (AdjustHold PacingCooldown)
             else and_then (ok_or (checked_add (bo_current_bid_microrubles ob)
                                     (bp_bid_step_microrubles p)) InvalidPacingObservation)
               (\<lambda>raised. Ok (AdjustBid (bo_current_bid_microrubles ob)
                                (min raised (bp_max_bid_microrubles p))))))))"

definition evaluate_ozon_bid_increase_after_guard ::
  "bid_pacing_policy \<Rightarrow> bid_pacing_observation \<Rightarrow>
     (bid_pacing_error, bid_pacing_adjustment) result" where
  "evaluate_ozon_bid_increase_after_guard p ob =
     and_then (validate_pacing_inputs p ob) (\<lambda>_. position_bid_adjustment p ob)"

definition evaluate_ozon_bid_pacing ::
  "bid_pacing_policy \<Rightarrow> bid_pacing_observation \<Rightarrow> (bid_pacing_error, bid_pacing_action) result" where
  "evaluate_ozon_bid_pacing p ob =
     and_then (validate_pacing_inputs p ob) (\<lambda>_.
     if bp_spend_cap_microrubles p div 10000 \<le> bo_spend_minor ob
     then Ok (PacingPause PauseSpendCapReached)
     else if drr_exceeded (bo_spend_minor ob) (bo_attributed_revenue_minor ob)
               (bp_target_drr_percent p)
     then
       (if bo_current_bid_microrubles ob = bp_min_bid_microrubles p
        then Ok (PacingPause DrrExceededAtBidFloor)
        else and_then (cooldown_active p ob) (\<lambda>cooling.
          if cooling then Ok (PacingHold PacingCooldown)
          else Ok (PacingChangeBid (bo_current_bid_microrubles ob)
                     (max (saturating_sub (bo_current_bid_microrubles ob)
                             (bp_bid_step_microrubles p)) (bp_min_bid_microrubles p)))))
     else and_then (position_bid_adjustment p ob) (\<lambda>a. Ok (pacing_action_of a)))"

end
