(* ===== verification/Ozon_Config.thy ===== *)
theory Ozon_Config
  imports Ozon_Guard
begin

text \<open>
  \<open>src/src/control/ozon/static_guard.rs\<close>: the operator-authored file that names the campaigns
  the headless Ozon guard may write to, its validation, and the proof that the active control
  policy bounds it. The JSON text of the file and the calendar of \<open>chrono\<close> are parameters.
\<close>

datatype campaign_guard_status = GuardActive | GuardStopping | GuardStopped | GuardIncident

record campaign_guard =
  cg_plan_id :: string
  cg_account_id :: string
  cg_sku :: u64
  cg_campaign_id :: u64
  cg_date_from :: string
  cg_spend_cap_microrubles :: u64
  cg_target_drr_percent :: u8
  cg_status :: campaign_guard_status
  cg_stop_reason :: "string option"
  cg_incident_error_class :: "string option"

record static_campaign_guard =
  sg_guard :: campaign_guard
  sg_min_cpc_bid_microrubles :: u64
  sg_max_cpc_bid_microrubles :: u64

record dynamic_bid_control =
  dc_position_store_id :: string
  dc_position_region_name :: string
  dc_target_position :: u16
  dc_bid_step_microrubles :: u64
  dc_cooldown_seconds :: u64
  dc_max_position_age_seconds :: u64

record static_guard_config =
  sc_guards :: "static_campaign_guard list"
  sc_dynamic_bid_control :: "dynamic_bid_control option"

record static_guard_entry =
  se_campaign_id :: u64
  se_sku :: u64
  se_date_from :: string
  se_spend_cap_microrubles :: u64
  se_target_drr_percent :: u8
  se_min_cpc_bid_microrubles :: u64
  se_max_cpc_bid_microrubles :: u64

record static_guard_file =
  sf_account_id :: string
  sf_dynamic_bid_control :: "dynamic_bid_control option"
  sf_guards :: "static_guard_entry list"

datatype static_guard_error =
    InvalidSize
  | InvalidFormat
  | ScopeMismatch
  | InvalidGuard
  | InvalidDynamicBidControl
  | PolicyMismatch

record ozon_libraries =
  ol_web :: web_libraries
  ol_guard_file :: "string \<Rightarrow> static_guard_file option"
  ol_parse_date :: "string \<Rightarrow> naive_date option"
  ol_date_text :: "naive_date \<Rightarrow> string"

definition MAX_OZON_STATIC_GUARDS :: nat where
  "MAX_OZON_STATIC_GUARDS = 50"

definition MAX_OZON_STATIC_GUARD_FILE_BYTES :: int where
  "MAX_OZON_STATIC_GUARD_FILE_BYTES = 64 * 1024"

definition is_canonical_static_guard_date :: "ozon_libraries \<Rightarrow> string \<Rightarrow> bool" where
  "is_canonical_static_guard_date ol date \<longleftrightarrow>
     str_len date = 10 \<and>
     (case ol_parse_date ol date of None \<Rightarrow> False | Some d \<Rightarrow> ol_date_text ol d = date)"

definition dynamic_control_valid :: "string \<Rightarrow> dynamic_bid_control \<Rightarrow> bool" where
  "dynamic_control_valid expected_account_id c \<longleftrightarrow>
     dc_position_store_id c = expected_account_id \<and>
     dc_position_region_name c \<noteq> [] \<and> is_trimmed (dc_position_region_name c) \<and>
     str_len (dc_position_region_name c) \<le> 128 \<and>
     \<not> list_ex is_control (str_chars (dc_position_region_name c)) \<and>
     dc_target_position c \<noteq> 0 \<and> dc_bid_step_microrubles c \<noteq> 0 \<and>
     dc_bid_step_microrubles c mod 1000000 = 0 \<and>
     dc_cooldown_seconds c = 1800 \<and>
     dc_cooldown_seconds c \<le> dc_max_position_age_seconds c"

definition guard_entry_valid :: "ozon_libraries \<Rightarrow> static_guard_entry \<Rightarrow> bool" where
  "guard_entry_valid ol e \<longleftrightarrow>
     se_campaign_id e \<noteq> 0 \<and> se_sku e \<noteq> 0 \<and> is_canonical_static_guard_date ol (se_date_from e) \<and>
     (case evaluate_ozon_campaign_guard 0 0 (se_spend_cap_microrubles e)
             (se_target_drr_percent e) of Inl _ \<Rightarrow> False | Inr _ \<Rightarrow> True) \<and>
     corridor_valid (se_min_cpc_bid_microrubles e) (se_max_cpc_bid_microrubles e)"

definition static_guard_of :: "string \<Rightarrow> static_guard_entry \<Rightarrow> static_campaign_guard" where
  "static_guard_of account_id e = \<lparr>
     sg_guard = \<lparr>
       cg_plan_id = ''static-'' @ decimal (uint (se_campaign_id e)),
       cg_account_id = account_id,
       cg_sku = se_sku e,
       cg_campaign_id = se_campaign_id e,
       cg_date_from = se_date_from e,
       cg_spend_cap_microrubles = se_spend_cap_microrubles e,
       cg_target_drr_percent = se_target_drr_percent e,
       cg_status = GuardActive,
       cg_stop_reason = None,
       cg_incident_error_class = None\<rparr>,
     sg_min_cpc_bid_microrubles = se_min_cpc_bid_microrubles e,
     sg_max_cpc_bid_microrubles = se_max_cpc_bid_microrubles e\<rparr>"

fun static_guards_of ::
  "ozon_libraries \<Rightarrow> string \<Rightarrow> u64 set \<Rightarrow> u64 set \<Rightarrow> static_guard_entry list \<Rightarrow>
     (static_guard_error, static_campaign_guard list) result" where
  "static_guards_of ol account_id campaigns skus [] = Ok []"
| "static_guards_of ol account_id campaigns skus (e # es) =
     (if \<not> guard_entry_valid ol e \<or> se_campaign_id e \<in> campaigns \<or> se_sku e \<in> skus
      then Error InvalidGuard
      else and_then (static_guards_of ol account_id (insert (se_campaign_id e) campaigns)
                       (insert (se_sku e) skus) es)
             (\<lambda>guards. Ok (static_guard_of account_id e # guards)))"

definition parse_ozon_static_guard_config ::
  "ozon_libraries \<Rightarrow> string \<Rightarrow> string \<Rightarrow> (static_guard_error, static_guard_config) result" where
  "parse_ozon_static_guard_config ol bytes expected_account_id =
     ensure (bytes \<noteq> [] \<and> str_len bytes \<le> MAX_OZON_STATIC_GUARD_FILE_BYTES) InvalidSize
     (and_then (ok_or (ol_guard_file ol bytes) InvalidFormat) (\<lambda>config.
      ensure (sf_account_id config = expected_account_id \<and> sf_guards config \<noteq> [] \<and>
              length (sf_guards config) \<le> MAX_OZON_STATIC_GUARDS) ScopeMismatch
     (ensure (case sf_dynamic_bid_control config of
                None \<Rightarrow> True
              | Some c \<Rightarrow> dynamic_control_valid expected_account_id c) InvalidDynamicBidControl
     (and_then (static_guards_of ol expected_account_id {} {} (sf_guards config)) (\<lambda>guards.
      Ok \<lparr>sc_guards = guards, sc_dynamic_bid_control = sf_dynamic_bid_control config\<rparr>)))))"

definition parse_ozon_static_guards ::
  "ozon_libraries \<Rightarrow> string \<Rightarrow> string \<Rightarrow>
     (static_guard_error, static_campaign_guard list) result" where
  "parse_ozon_static_guards ol bytes expected_account_id =
     and_then (parse_ozon_static_guard_config ol bytes expected_account_id)
       (\<lambda>config. Ok (sc_guards config))"


section \<open>The control policy\<close>

datatype control_mode = ControlDisabled | ControlPlanOnly | ControlEnabled

record launch_target =
  lt_account_id :: string
  lt_skus :: "u64 list"
  lt_per_sku_spend_cap_microrubles :: u64
  lt_initial_cpc_bid_microrubles :: u64
  lt_max_cpc_bid_microrubles :: u64
  lt_target_drr_percent :: u8
  lt_target_position :: u8

record control_policy =
  cp_version :: u32
  cp_revision :: u64
  cp_mode :: control_mode
  cp_actors :: "launch_target list list"
  cp_digest :: string

definition target_bounds_guard :: "static_campaign_guard \<Rightarrow> launch_target \<Rightarrow> bool" where
  "target_bounds_guard sg t \<longleftrightarrow>
     lt_account_id t = cg_account_id (sg_guard sg) \<and>
     lt_skus t = [cg_sku (sg_guard sg)] \<and>
     lt_per_sku_spend_cap_microrubles t = cg_spend_cap_microrubles (sg_guard sg) \<and>
     lt_target_drr_percent t = cg_target_drr_percent (sg_guard sg) \<and>
     lt_initial_cpc_bid_microrubles t = sg_min_cpc_bid_microrubles sg \<and>
     sg_max_cpc_bid_microrubles sg \<le> lt_max_cpc_bid_microrubles t"

definition guard_bounded_by_policy ::
  "control_policy \<Rightarrow> dynamic_bid_control option \<Rightarrow> static_campaign_guard \<Rightarrow> bool" where
  "guard_bounded_by_policy policy control sg \<longleftrightarrow>
     (case find (target_bounds_guard sg) (concat (cp_actors policy)) of
        None \<Rightarrow> False
      | Some t \<Rightarrow>
          (case control of
             None \<Rightarrow> True
           | Some c \<Rightarrow> ucast (lt_target_position t) = dc_target_position c))"

definition validate_ozon_static_guard_policy ::
  "static_guard_config \<Rightarrow> control_policy \<Rightarrow> (static_guard_error, unit) result" where
  "validate_ozon_static_guard_policy config policy =
     ensure (cp_mode policy = ControlEnabled \<and>
             list_all (guard_bounded_by_policy policy (sc_dynamic_bid_control config))
               (sc_guards config)) PolicyMismatch
     (Ok ())"

end
