(* ===== verification/Ozon_Client.thy ===== *)
theory Ozon_Client
  imports Ozon_Config
begin

text \<open>
  The isolated write client of \<open>src/src/control/ozon/client.rs\<close>. A guarded write obtains an
  access token, probes the shared quota, takes the write slot, runs the caller's permit, asks
  for a departure and sends one request. As in the other write client, every request that
  leaves is recorded together with the state of the caller at that moment. The transport,
  the clocks and the quota sessions are the environment of a call; the pacer shared with the
  read client only delays and is not modelled.
\<close>


section \<open>Requests\<close>

datatype ozon_placement = SearchAndCategory | TopPromotionPlacement
datatype campaign_strategy = TargetBids | TargetCir | TopPromotion

record campaign_create_request =
  cc_title :: string
  cc_from_date :: string
  cc_to_date :: string
  cc_weekly_budget :: u64
  cc_placement :: ozon_placement
  cc_product_autopilot_strategy :: campaign_strategy

record campaign_product =
  op_sku :: u64
  op_bid :: "u64 option"
  op_target_cir :: "u8 option"
  op_top_position :: "u8 option"

datatype ozon_request =
    OzonCreate campaign_create_request
  | OzonAddProducts u64 campaign_strategy "campaign_product list"
  | OzonUpdateProducts u64 campaign_strategy "campaign_product list"
  | OzonActivate u64
  | OzonDeactivate u64

datatype ozon_write_error =
    OzonSharedQuota quota_error
  | OzonInvalidRequest
  | InvalidToken
  | TokenTransport
  | TokenHttp u16
  | Unauthorized
  | Forbidden
  | OzonHttp u16
  | AmbiguousTransport
  | TokenResponseTooLarge
  | OzonResponseTooLarge
  | InvalidCreateResponse

datatype ozon_write_error_kind = OzonDefinite | OzonAmbiguous

datatype 'e ozon_guarded_error = OzonPermit 'e | OzonWrite ozon_write_error

definition status_is_server_error :: "u16 \<Rightarrow> bool" where
  "status_is_server_error s \<longleftrightarrow> 500 \<le> s \<and> s < 600"

definition ozon_error_kind :: "ozon_write_error \<Rightarrow> ozon_write_error_kind" where
  "ozon_error_kind e =
     (case e of
        AmbiguousTransport \<Rightarrow> OzonAmbiguous
      | OzonResponseTooLarge \<Rightarrow> OzonAmbiguous
      | InvalidCreateResponse \<Rightarrow> OzonAmbiguous
      | OzonHttp status \<Rightarrow> if status_is_server_error status then OzonAmbiguous else OzonDefinite
      | _ \<Rightarrow> OzonDefinite)"

definition MAX_PRODUCTS :: nat where
  "MAX_PRODUCTS = 50"

definition MAX_TITLE_BYTES :: int where
  "MAX_TITLE_BYTES = 128"

definition validate_ozon_create_request ::
  "ozon_libraries \<Rightarrow> campaign_create_request \<Rightarrow> (ozon_write_error, unit) result" where
  "validate_ozon_create_request ol r =
     (if cc_title r = [] \<or> MAX_TITLE_BYTES < str_len (cc_title r) \<or> \<not> is_trimmed (cc_title r) \<or>
         list_ex is_ascii_control (cc_title r) \<or> cc_weekly_budget r = 0
      then Error OzonInvalidRequest
      else and_then (ok_or (ol_parse_date ol (cc_from_date r)) OzonInvalidRequest) (\<lambda>from.
           and_then (ok_or (ol_parse_date ol (cc_to_date r)) OzonInvalidRequest) (\<lambda>to_date.
           ensure (from \<le> to_date \<and> to_date - from \<le> 31) OzonInvalidRequest
          (ensure (cc_placement r = SearchAndCategory \<and>
                     (cc_product_autopilot_strategy r = TargetBids \<or>
                      cc_product_autopilot_strategy r = TargetCir) \<or>
                   cc_placement r = TopPromotionPlacement \<and>
                     cc_product_autopilot_strategy r = TopPromotion) OzonInvalidRequest
          (Ok ())))))"

definition product_valid :: "campaign_strategy \<Rightarrow> campaign_product \<Rightarrow> bool" where
  "product_valid strategy p \<longleftrightarrow>
     (case strategy of
        TargetBids \<Rightarrow> op_bid p \<noteq> None \<and> op_bid p \<noteq> Some 0 \<and> op_target_cir p = None \<and>
          op_top_position p = None
      | TargetCir \<Rightarrow> op_bid p = None \<and> op_top_position p = None \<and>
          (case op_target_cir p of None \<Rightarrow> False | Some v \<Rightarrow> 10 \<le> v \<and> v \<le> 100)
      | TopPromotion \<Rightarrow> op_bid p = None \<and> op_target_cir p = None \<and>
          (case op_top_position p of None \<Rightarrow> False | Some v \<Rightarrow> v = 4 \<or> v = 12 \<or> v = 20 \<or> v = 30))"

definition validate_products_request ::
  "campaign_strategy \<Rightarrow> campaign_product list \<Rightarrow> (ozon_write_error, unit) result" where
  "validate_products_request strategy bids =
     ensure (bids \<noteq> [] \<and> length bids \<le> MAX_PRODUCTS \<and> distinct (map op_sku bids) \<and>
             list_all (\<lambda>p. op_sku p \<noteq> 0 \<and> product_valid strategy p) bids) OzonInvalidRequest
     (Ok ())"

definition validate_campaign_id :: "u64 \<Rightarrow> (ozon_write_error, unit) result" where
  "validate_campaign_id campaign_id = ensure (campaign_id \<noteq> 0) OzonInvalidRequest (Ok ())"

fun validate_ozon_request ::
  "ozon_libraries \<Rightarrow> ozon_request \<Rightarrow> (ozon_write_error, unit) result" where
  "validate_ozon_request ol (OzonCreate r) = validate_ozon_create_request ol r"
| "validate_ozon_request ol (OzonAddProducts campaign_id strategy bids) =
     and_then (validate_campaign_id campaign_id) (\<lambda>_. validate_products_request strategy bids)"
| "validate_ozon_request ol (OzonUpdateProducts campaign_id strategy bids) =
     and_then (validate_campaign_id campaign_id) (\<lambda>_. validate_products_request strategy bids)"
| "validate_ozon_request ol (OzonActivate campaign_id) = validate_campaign_id campaign_id"
| "validate_ozon_request ol (OzonDeactivate campaign_id) = validate_campaign_id campaign_id"


section \<open>Answers\<close>

definition classify_status :: "u16 \<Rightarrow> ozon_write_error" where
  "classify_status status =
     (if status = 401 then Unauthorized else if status = 403 then Forbidden else OzonHttp status)"

definition MAX_RESPONSE_BYTES :: int where
  "MAX_RESPONSE_BYTES = 1048576"

definition MAX_TOKEN_BYTES :: int where
  "MAX_TOKEN_BYTES = 64 * 1024"

definition MAX_ACCESS_TOKEN_BYTES :: int where
  "MAX_ACCESS_TOKEN_BYTES = 16 * 1024"

definition decode_write_response :: "http_response \<Rightarrow> (ozon_write_error, string) result" where
  "decode_write_response r =
     (if \<not> status_is_success (hr_status r) then Error (classify_status (hr_status r))
      else wrap_err (\<lambda>e. case e of BodyTransport \<Rightarrow> AmbiguousTransport | _ \<Rightarrow> OzonResponseTooLarge)
             (read_bounded_body r MAX_RESPONSE_BYTES))"

definition parse_retry_after ::
  "web_libraries \<Rightarrow> (string \<times> string) list \<Rightarrow> instant \<Rightarrow> parsed_retry_delay" where
  "parse_retry_after wl headers now =
     (case map_of headers ''retry-after'' of
        None \<Rightarrow> DelayAbsent
      | Some raw \<Rightarrow>
          (case header_to_str raw of
             None \<Rightarrow> DelayInvalid
           | Some text \<Rightarrow>
               (let v = trim_header text in
                if v = [] \<or> MAX_REQUEST_ID_BYTES < str_len v then DelayInvalid
                else if list_all is_ascii_digit v
                then (case parse_u64 v of None \<Rightarrow> DelayInvalid | Some n \<Rightarrow> DelayValid (seconds n))
                else (case wl_rfc2822 wl v of
                        None \<Rightarrow> DelayInvalid
                      | Some retry_at \<Rightarrow> DelayValid (max 0 (retry_at - now))))))"

definition retry_after_duration ::
  "web_libraries \<Rightarrow> (string \<times> string) list \<Rightarrow> instant \<Rightarrow> duration option" where
  "retry_after_duration wl headers now =
     (case parse_retry_after wl headers now of DelayValid d \<Rightarrow> Some d | _ \<Rightarrow> None)"

definition TOKEN_QUOTA_INTERVAL :: duration where
  "TOKEN_QUOTA_INTERVAL = seconds 30"

definition OZON_MIN_WRITE_INTERVAL :: duration where
  "OZON_MIN_WRITE_INTERVAL = seconds 1"

definition MAX_TOKEN_LIFETIME :: duration where
  "MAX_TOKEN_LIFETIME = hours 24"

definition TOKEN_REFRESH_SKEW :: duration where
  "TOKEN_REFRESH_SKEW = seconds 60"

definition shared_response_cooldown :: "u16 \<Rightarrow> duration option \<Rightarrow> duration option" where
  "shared_response_cooldown status vendor =
     (if status = 429 then Some (case vendor of None \<Rightarrow> TOKEN_QUOTA_INTERVAL | Some d \<Rightarrow> d)
      else if status = 503 then vendor
      else None)"


section \<open>The client\<close>

record ozon_client =
  zc_client_id :: string
  zc_backend :: backend
  zc_minimum_interval :: duration

record exchange_env =
  xe_admit_session :: session
  xe_admit_clock :: instant
  xe_reply :: http_reply
  xe_response_clock :: instant
  xe_defer_session :: session
  xe_defer_clock :: instant

record ozon_env =
  oe_token_clock :: instant
  oe_token :: exchange_env
  oe_token_stored_at :: instant
  oe_preflight :: bool
  oe_locked_at :: instant
  oe_overslept :: nat
  oe_permit_took :: nat
  oe_write :: exchange_env

record 'w ozon_departure =
  od_request :: ozon_request
  od_slot :: instant
  od_caller :: 'w

record 'w ozon_world =
  ow_caller :: 'w
  ow_quota :: departures
  ow_token :: "(string \<times> instant) option"
  ow_next_start :: instant
  ow_departed :: "'w ozon_departure list"

definition quota_key_ozon_performance ::
  "ozon_libraries \<Rightarrow> string \<Rightarrow> string \<Rightarrow> (quota_error, string) result" where
  "quota_key_ozon_performance ol client_id bucket =
     quota_key_new (wl_core (ol_web ol)) ''ozon_performance'' client_id bucket"

definition admit_shared_request ::
  "ozon_libraries \<Rightarrow> ozon_client \<Rightarrow> exchange_env \<Rightarrow> string \<Rightarrow> duration \<Rightarrow> departures \<Rightarrow>
     (ozon_write_error, unit) result \<times> departures" where
  "admit_shared_request ol c env bucket interval t =
     (if \<not> quota_is_enabled (zc_backend c) then (Ok (), t)
      else case quota_key_ozon_performance ol (zc_client_id c) bucket of
        Inl e \<Rightarrow> (wrap_err OzonSharedQuota (Inl e), t)
      | Inr key \<Rightarrow>
          (let (r, t) = admit (zc_backend c) (xe_admit_session env) (xe_admit_clock env) key interval t
           in (wrap_err OzonSharedQuota r, t)))"

definition defer_shared_response ::
  "ozon_libraries \<Rightarrow> ozon_client \<Rightarrow> exchange_env \<Rightarrow> string \<Rightarrow> http_response \<Rightarrow> departures \<Rightarrow>
     departures" where
  "defer_shared_response ol c env bucket r t =
     (if \<not> quota_is_enabled (zc_backend c) then t
      else case shared_response_cooldown (hr_status r)
                  (retry_after_duration (ol_web ol) (hr_headers r) (xe_response_clock env)) of
        None \<Rightarrow> t
      | Some delay \<Rightarrow>
          (case quota_key_ozon_performance ol (zc_client_id c) bucket of
             Inl _ \<Rightarrow> t
           | Inr key \<Rightarrow> snd (defer_cooldown (zc_backend c) (xe_defer_session env)
                                (xe_defer_clock env) key delay t)))"

text \<open>The body of the token answer, and when it has to be refreshed.\<close>

definition ascii_lower :: "char \<Rightarrow> char" where
  "ascii_lower b = (if is_ascii_uppercase b then char_of (byte b + 32) else b)"

definition token_of_response ::
  "ozon_libraries \<Rightarrow> http_response \<Rightarrow> (ozon_write_error, string \<times> duration) result" where
  "token_of_response ol r =
     (if \<not> status_is_success (hr_status r) then Error (TokenHttp (hr_status r))
      else
        and_then (wrap_err (\<lambda>e. case e of BodyTransport \<Rightarrow> TokenTransport
                                       | _ \<Rightarrow> TokenResponseTooLarge)
                   (read_bounded_body r MAX_TOKEN_BYTES)) (\<lambda>bytes.
        and_then (ok_or (from_str (wl_core (ol_web ol)) bytes) InvalidToken) (\<lambda>j.
        and_then (ok_or (Option.bind (json_get j ''access_token'') json_as_str) InvalidToken)
          (\<lambda>access_token.
        and_then (ok_or (Option.bind (json_get j ''token_type'') json_as_str) InvalidToken)
          (\<lambda>token_type.
        and_then (ok_or (Option.bind (json_get j ''expires_in'') json_as_u64) InvalidToken)
          (\<lambda>expires_in.
        ensure (access_token \<noteq> [] \<and> str_len access_token \<le> MAX_ACCESS_TOKEN_BYTES \<and>
                map ascii_lower token_type = ''bearer'' \<and> expires_in \<noteq> 0 \<and>
                seconds (uint expires_in) \<le> MAX_TOKEN_LIFETIME) InvalidToken
        (Ok (access_token, max 0 (seconds (uint expires_in) - TOKEN_REFRESH_SKEW)))))))))"

definition access_token ::
  "ozon_libraries \<Rightarrow> ozon_client \<Rightarrow> ozon_env \<Rightarrow> 'w ozon_world \<Rightarrow>
     (ozon_write_error, string) result \<times> 'w ozon_world" where
  "access_token ol c env w =
     (case (case ow_token w of
              None \<Rightarrow> None
            | Some (tok, refresh_at) \<Rightarrow> if oe_token_clock env < refresh_at then Some tok else None) of
        Some tok \<Rightarrow> (Ok tok, w)
      | None \<Rightarrow>
          (let (admitted, t) = admit_shared_request ol c (oe_token env) ''oauth''
                                 TOKEN_QUOTA_INTERVAL (ow_quota w);
               w = w\<lparr>ow_quota := t\<rparr>
           in case admitted of
             Inl e \<Rightarrow> (Inl e, w)
           | Inr _ \<Rightarrow>
               (case xe_reply (oe_token env) of
                  Responded r \<Rightarrow>
                    (let w = w\<lparr>ow_quota := defer_shared_response ol c (oe_token env) ''oauth'' r
                                            (ow_quota w)\<rparr>
                     in case token_of_response ol r of
                       Inl e \<Rightarrow> (Inl e, w)
                     | Inr (tok, lifetime) \<Rightarrow>
                         (Ok tok, w\<lparr>ow_token := Some (tok, oe_token_stored_at env + lifetime)\<rparr>))
                | _ \<Rightarrow> (Error TokenTransport, w))))"

definition ozon_write_slot :: "ozon_env \<Rightarrow> instant \<Rightarrow> instant" where
  "ozon_write_slot env next_start =
     max (oe_locked_at env) next_start + int (oe_overslept env) + int (oe_permit_took env)"

definition send_guarded ::
  "ozon_libraries \<Rightarrow> ozon_client \<Rightarrow> ozon_env \<Rightarrow> ozon_request \<Rightarrow> instant \<Rightarrow> 'w ozon_world \<Rightarrow>
     (ozon_write_error, string) result \<times> 'w ozon_world" where
  "send_guarded ol c env request slot w =
     (let (admitted, t) = admit_shared_request ol c (oe_write env) ''api'' OZON_MIN_WRITE_INTERVAL
                            (ow_quota w);
          w = w\<lparr>ow_quota := t\<rparr>
      in case admitted of
        Inl e \<Rightarrow> (Inl e, w)
      | Inr _ \<Rightarrow>
          (let w = w\<lparr>ow_next_start := slot + zc_minimum_interval c,
                     ow_departed := \<lparr>od_request = request, od_slot = slot,
                                     od_caller = ow_caller w\<rparr> # ow_departed w\<rparr>
           in case xe_reply (oe_write env) of
             Responded r \<Rightarrow>
               (decode_write_response r,
                w\<lparr>ow_quota := defer_shared_response ol c (oe_write env) ''api'' r (ow_quota w)\<rparr>)
           | _ \<Rightarrow> (Error AmbiguousTransport, w)))"

definition write_guarded ::
  "ozon_libraries \<Rightarrow> ozon_client \<Rightarrow> ozon_env \<Rightarrow> ozon_request \<Rightarrow>
     ('w \<Rightarrow> ('e, unit) result \<times> 'w) \<Rightarrow> 'w ozon_world \<Rightarrow>
     ('e ozon_guarded_error, string) result \<times> 'w ozon_world" where
  "write_guarded ol c env request permit w =
     (let (token, w) = access_token ol c env w in
      case token of
        Inl e \<Rightarrow> (wrap_err OzonWrite (Inl e), w)
      | Inr tok \<Rightarrow>
          if \<not> header_value_ok (''Bearer '' @ tok) then (Error (OzonWrite InvalidToken), w)
          else case quota_preflight (zc_backend c) (oe_preflight env) of
            Inl e \<Rightarrow> (wrap_err OzonWrite (wrap_err OzonSharedQuota (Inl e)), w)
          | Inr _ \<Rightarrow>
              (let slot = ozon_write_slot env (ow_next_start w);
                   (permitted, caller) = permit (ow_caller w);
                   w = w\<lparr>ow_caller := caller\<rparr>
               in case permitted of
                 Inl e \<Rightarrow> (wrap_err OzonPermit (Inl e), w)
               | Inr _ \<Rightarrow>
                   (let (r, w) = send_guarded ol c env request slot w in (wrap_err OzonWrite r, w))))"

definition ozon_guarded_write ::
  "ozon_libraries \<Rightarrow> ozon_client \<Rightarrow> ozon_env \<Rightarrow> ozon_request \<Rightarrow>
     ('w \<Rightarrow> ('e, unit) result \<times> 'w) \<Rightarrow> 'w ozon_world \<Rightarrow>
     ('e ozon_guarded_error, string) result \<times> 'w ozon_world" where
  "ozon_guarded_write ol c env request permit w =
     (case validate_ozon_request ol request of
        Inl e \<Rightarrow> (wrap_err OzonWrite (Inl e), w)
      | Inr _ \<Rightarrow> write_guarded ol c env request permit w)"

text \<open>The answer of a creation names the new campaign.\<close>

definition create_campaign_with_permit ::
  "ozon_libraries \<Rightarrow> ozon_client \<Rightarrow> ozon_env \<Rightarrow> campaign_create_request \<Rightarrow>
     ('w \<Rightarrow> ('e, unit) result \<times> 'w) \<Rightarrow> 'w ozon_world \<Rightarrow>
     ('e ozon_guarded_error, u64) result \<times> 'w ozon_world" where
  "create_campaign_with_permit ol c env r permit w =
     (let (answer, w) = ozon_guarded_write ol c env (OzonCreate r) permit w in
      (and_then answer (\<lambda>bytes.
         case Option.bind (Option.bind (Option.bind (from_str (wl_core (ol_web ol)) bytes)
                (\<lambda>j. json_get j ''campaignId'')) json_as_str) canonical_decimal of
           None \<Rightarrow> Error (OzonWrite InvalidCreateResponse)
         | Some campaign_id \<Rightarrow>
             if campaign_id = 0 then Error (OzonWrite InvalidCreateResponse) else Ok campaign_id), w))"

end
