(* ===== verification/Ozon_Client_Correct.thy ===== *)
theory Ozon_Client_Correct
  imports Ozon_Client Wb_Client_Correct
begin

text \<open>
  One guarded write of the Ozon client: at most one request leaves, only after the caller's
  permit, and the class of the result says whether it may have left.
\<close>

definition ozon_ambiguous :: "('e ozon_guarded_error, 'a) result \<Rightarrow> bool" where
  "ozon_ambiguous r \<longleftrightarrow>
     (case r of Inl (Err (OzonWrite e)) \<Rightarrow> ozon_error_kind e = OzonAmbiguous | _ \<Rightarrow> False)"

lemma ozon_ambiguous_simps [simp]:
  "\<not> ozon_ambiguous (Inr x)" "\<not> ozon_ambiguous (Inl Panic)"
  "\<not> ozon_ambiguous (Inl (Err (OzonPermit p)))"
  "ozon_ambiguous (Inl (Err (OzonWrite e))) \<longleftrightarrow> ozon_error_kind e = OzonAmbiguous"
  by (simp_all add: ozon_ambiguous_def)

lemma ozon_error_kind_simps [simp]:
  "ozon_error_kind (OzonSharedQuota q) = OzonDefinite"
  "ozon_error_kind OzonInvalidRequest = OzonDefinite"
  "ozon_error_kind InvalidToken = OzonDefinite"
  "ozon_error_kind TokenTransport = OzonDefinite"
  "ozon_error_kind (TokenHttp status) = OzonDefinite"
  "ozon_error_kind Unauthorized = OzonDefinite"
  "ozon_error_kind Forbidden = OzonDefinite"
  "ozon_error_kind AmbiguousTransport = OzonAmbiguous"
  "ozon_error_kind TokenResponseTooLarge = OzonDefinite"
  "ozon_error_kind OzonResponseTooLarge = OzonAmbiguous"
  "ozon_error_kind InvalidCreateResponse = OzonAmbiguous"
  by (simp_all add: ozon_error_kind_def)

text \<open>The errors before the request leaves are definite.\<close>

definition definite_failure :: "ozon_write_error failure \<Rightarrow> bool" where
  "definite_failure f \<longleftrightarrow> (case f of Err e \<Rightarrow> ozon_error_kind e = OzonDefinite | Panic \<Rightarrow> True)"

lemma definite_failure_simps [simp]:
  "definite_failure Panic" "definite_failure (Err e) \<longleftrightarrow> ozon_error_kind e = OzonDefinite"
  by (simp_all add: definite_failure_def)

lemma definite_not_ambiguous: "definite_failure f \<Longrightarrow> \<not> ozon_ambiguous (wrap_err OzonWrite (Inl f))"
  by (cases f) simp_all

lemma admit_shared_definite:
  "fst (admit_shared_request ol c env bucket interval t) = Inl e \<Longrightarrow> definite_failure e"
  by (cases e) (auto simp: admit_shared_request_def wrap_err_def split: if_splits sum.splits
      failure.splits prod.splits)

lemma token_of_response_definite: "token_of_response ol r = Inl e \<Longrightarrow> definite_failure e"
  unfolding token_of_response_def
  by (cases e) (auto simp: and_then_Inl wrap_err_def ensure_def ok_or_def
      split: if_splits sum.splits failure.splits option.splits bounded_body_error.splits)

lemma access_token_frame:
  assumes "access_token ol c env w = (r, w')"
  shows "ow_caller w' = ow_caller w" "ow_departed w' = ow_departed w"
    "ow_next_start w' = ow_next_start w" "r = Inl e \<Longrightarrow> definite_failure e"
  using assms admit_shared_definite token_of_response_definite
  by (auto simp: access_token_def Let_def split: option.splits prod.splits sum.splits
      http_reply.splits if_splits) (metis fst_conv)+

lemma validate_ozon_request_definite:
  "validate_ozon_request ol request = Inl e \<Longrightarrow> e = Err OzonInvalidRequest"
  by (cases request) (auto simp: validate_ozon_create_request_def validate_campaign_id_def
      validate_products_request_def and_then_Inl ensure_def ok_or_def
      split: if_splits option.splits)

lemma preflight_ozon_definite:
  "wrap_err OzonSharedQuota r = Inl e \<Longrightarrow> definite_failure e"
  by (cases e) (auto simp: wrap_err_def split: sum.splits failure.splits)

lemma client_status [simp]: "\<not> status_is_server_error 401" "\<not> status_is_server_error 403"
  by (simp_all add: status_is_server_error_def)

text \<open>What an answer can become.\<close>

definition answered :: "http_reply \<Rightarrow> (ozon_write_error, string) result \<Rightarrow> bool" where
  "answered reply r \<longleftrightarrow>
     (\<exists>b. r = Ok b) \<or> (\<exists>e. r = Error e \<and> ozon_error_kind e = OzonAmbiguous) \<or>
     (\<exists>response. reply = Responded response \<and> \<not> status_is_success (hr_status response) \<and>
        \<not> status_is_server_error (hr_status response) \<and>
        r = Error (classify_status (hr_status response)))"

lemma decode_write_response_answered: "answered (Responded response) (decode_write_response response)"
proof (cases "status_is_success (hr_status response)")
  case True
  have "\<exists>b. decode_write_response response = Ok b \<or>
      (\<exists>e. decode_write_response response = Error e \<and> ozon_error_kind e = OzonAmbiguous)"
  proof (cases "read_bounded_body response MAX_RESPONSE_BYTES")
    case (Inl f)
    with read_bounded_Panic [of response MAX_RESPONSE_BYTES] obtain e where "f = Err e"
      by (cases f) auto
    with Inl True show ?thesis
      by (auto simp: decode_write_response_def split: bounded_body_error.splits)
  qed (use True in \<open>simp add: decode_write_response_def\<close>)
  then show ?thesis
    by (auto simp: answered_def)
next
  case False
  then show ?thesis
    by (auto simp: answered_def decode_write_response_def classify_status_def ozon_error_kind_def)
qed

lemma send_guarded_cases:
  assumes "send_guarded ol c env request slot w = (r, w')"
  shows "ow_caller w' = ow_caller w"
    and "ow_departed w' = ow_departed w \<and> ow_next_start w' = ow_next_start w \<and>
           (\<exists>f. r = Inl f \<and> definite_failure f) \<or>
         ow_departed w' = \<lparr>od_request = request, od_slot = slot, od_caller = ow_caller w\<rparr> # ow_departed w \<and>
           ow_next_start w' = slot + zc_minimum_interval c \<and> answered (xe_reply (oe_write env)) r"
  using assms admit_shared_definite [of ol c "oe_write env" "''api''" OZON_MIN_WRITE_INTERVAL "ow_quota w"]
    decode_write_response_answered
  by (auto simp: send_guarded_def Let_def answered_def split: prod.splits sum.splits http_reply.splits)

lemma write_guarded_cases:
  assumes "write_guarded ol c env request permit w = (r, w')"
  shows "ow_departed w' = ow_departed w \<and> ow_next_start w' = ow_next_start w \<and>
      (\<forall>b. r \<noteq> Ok b) \<and> \<not> ozon_ambiguous r \<and>
      (ow_caller w' = ow_caller w \<or> ow_caller w' = snd (permit (ow_caller w)))
    \<or> (\<exists>slot reply. ow_departed w' = \<lparr>od_request = request, od_slot = slot, od_caller = ow_caller w'\<rparr>
           # ow_departed w \<and>
         permit (ow_caller w) = (Ok (), ow_caller w') \<and>
         slot = ozon_write_slot env (ow_next_start w) \<and>
         ow_next_start w' = slot + zc_minimum_interval c \<and>
         r = wrap_err OzonWrite reply \<and> answered (xe_reply (oe_write env)) reply)"
proof -
  obtain token w1 where tok: "access_token ol c env w = (token, w1)"
    by (metis surj_pair)
  note frame = access_token_frame [OF tok]
  show ?thesis
  proof (cases token)
    case (Inl e)
    with assms tok frame definite_not_ambiguous show ?thesis
      by (cases e) (auto simp: write_guarded_def)
  next
    case (Inr t)
    obtain permitted caller where p: "permit (ow_caller w) = (permitted, caller)"
      by (metis surj_pair)
    consider "\<not> header_value_ok (''Bearer '' @ t)"
      | e where "header_value_ok (''Bearer '' @ t)" "quota_preflight (zc_backend c) (oe_preflight env) = Inl e"
      | e u where "header_value_ok (''Bearer '' @ t)" "quota_preflight (zc_backend c) (oe_preflight env) = Inr u"
          "permitted = Inl e"
      | u where "header_value_ok (''Bearer '' @ t)" "quota_preflight (zc_backend c) (oe_preflight env) = Inr u"
          "permitted = Inr ()"
      by (cases "quota_preflight (zc_backend c) (oe_preflight env)"; cases permitted) auto
    then show ?thesis
    proof cases
      case 1
      with assms tok Inr frame show ?thesis by (auto simp: write_guarded_def)
    next
      case 2
      with assms tok Inr frame show ?thesis
        by (cases e) (auto simp: write_guarded_def)
    next
      case 3
      with assms tok Inr frame p show ?thesis
        by (cases e) (auto simp: write_guarded_def)
    next
      case 4
      define slot where "slot = ozon_write_slot env (ow_next_start w)"
      obtain reply w2 where send:
        "send_guarded ol c env request slot (w1\<lparr>ow_caller := caller\<rparr>) = (reply, w2)"
        by (metis surj_pair)
      have r: "r = wrap_err OzonWrite reply" "w' = w2"
        using assms tok Inr 4 p send frame by (auto simp: write_guarded_def slot_def Let_def)
      from send_guarded_cases [OF send] show ?thesis
      proof (elim disjE conjE exE)
        fix f
        assume "ow_caller w2 = ow_caller (w1\<lparr>ow_caller := caller\<rparr>)" "reply = Inl f"
          "definite_failure f" "ow_departed w2 = ow_departed (w1\<lparr>ow_caller := caller\<rparr>)"
          "ow_next_start w2 = ow_next_start (w1\<lparr>ow_caller := caller\<rparr>)"
        with r frame p definite_not_ambiguous [of f] show ?thesis
          by (cases f) auto
      next
        assume "ow_caller w2 = ow_caller (w1\<lparr>ow_caller := caller\<rparr>)"
          "ow_departed w2 = \<lparr>od_request = request, od_slot = slot, od_caller = ow_caller (w1\<lparr>ow_caller := caller\<rparr>)\<rparr>
             # ow_departed (w1\<lparr>ow_caller := caller\<rparr>)"
          "ow_next_start w2 = slot + zc_minimum_interval c" "answered (xe_reply (oe_write env)) reply"
        with r frame p 4 slot_def show ?thesis by auto
      qed
    qed
  qed
qed

text \<open>
  C33. A guarded Ozon write either sends nothing, and then reports a refusal of the permit or a
  definite error; or it validated the request, had the permit's consent, and sent exactly this
  request once, at the paced slot, with the caller in the state the permit left. After a
  departure a definite error is only an HTTP status that Ozon itself answered, outside the
  success and server-error ranges.\<close>

theorem ozon_write_departure:
  assumes "ozon_guarded_write ol c env request permit w = (r, w')"
  shows "ow_departed w' = ow_departed w \<and> (\<forall>b. r \<noteq> Ok b) \<and> \<not> ozon_ambiguous r
    \<or> validate_ozon_request ol request = Ok () \<and> permit (ow_caller w) = (Ok (), ow_caller w') \<and>
      ow_departed w' = \<lparr>od_request = request, od_slot = ozon_write_slot env (ow_next_start w),
        od_caller = ow_caller w'\<rparr> # ow_departed w \<and>
      ow_next_start w' = ozon_write_slot env (ow_next_start w) + zc_minimum_interval c \<and>
      ((\<exists>b. r = Ok b) \<or> ozon_ambiguous r \<or>
       (\<exists>response. xe_reply (oe_write env) = Responded response \<and>
          \<not> status_is_success (hr_status response) \<and> \<not> status_is_server_error (hr_status response)))"
proof (cases "validate_ozon_request ol request")
  case (Inl e)
  with assms validate_ozon_request_definite [OF Inl] show ?thesis
    by (auto simp: ozon_guarded_write_def)
next
  case (Inr u)
  with assms have "write_guarded ol c env request permit w = (r, w')"
    by (simp add: ozon_guarded_write_def)
  from write_guarded_cases [OF this] Inr show ?thesis
    by (auto simp: answered_def)
qed

definition sample_ozon_world :: "nat ozon_world" where
  "sample_ozon_world = \<lparr>ow_caller = 0, ow_quota = (\<lambda>_. None), ow_token = Some (''token'', 5),
     ow_next_start = 9, ow_departed = []\<rparr>"

definition sample_ozon_env :: ozon_env where
  "sample_ozon_env = (let exchange = \<lparr>xe_admit_session = Answered, xe_admit_clock = 4,
       xe_reply = TimedOut, xe_response_clock = 4, xe_defer_session = Answered, xe_defer_clock = 4\<rparr>
     in \<lparr>oe_token_clock = 4, oe_token = exchange, oe_token_stored_at = 4, oe_preflight = True,
          oe_locked_at = 4, oe_overslept = 1, oe_permit_took = 2, oe_write = exchange\<rparr>)"

definition sample_client_libraries :: ozon_libraries where
  "sample_client_libraries = \<lparr>
     ol_web = \<lparr>
       wl_core = \<lparr>from_str = (\<lambda>_. None), to_json_string = (\<lambda>_. []), jsonb = (\<lambda>_. None),
                  sha256_hex = (\<lambda>_. []), rfc3339 = (\<lambda>_. [])\<rparr>,
       wl_sid_of = (\<lambda>_. None), wl_rfc2822 = (\<lambda>_. None)\<rparr>,
     ol_guard_file = (\<lambda>_. None), ol_parse_date = (\<lambda>_. None), ol_date_text = (\<lambda>_. [])\<rparr>"

definition sample_ozon_write :: "(unit ozon_guarded_error, string) result \<times> nat ozon_world" where
  "sample_ozon_write = ozon_guarded_write sample_client_libraries
     \<lparr>zc_client_id = ''client'', zc_backend = QuotaDisabled, zc_minimum_interval = 6\<rparr>
     sample_ozon_env (OzonDeactivate 7) (\<lambda>n. (Ok (), Suc n)) sample_ozon_world"

lemma sample_ozon_write_left: "fst sample_ozon_write = Error (OzonWrite AmbiguousTransport)"
  by code_simp

theorem ozon_write_departure_witness:
  "ow_departed (snd sample_ozon_write) =
     [\<lparr>od_request = OzonDeactivate 7, od_slot = 12, od_caller = 1\<rparr>] \<and>
   ow_next_start (snd sample_ozon_write) = 18"
proof -
  have ambiguous: "ozon_ambiguous (fst sample_ozon_write)"
    by (simp add: sample_ozon_write_left)
  have slot: "ozon_write_slot sample_ozon_env 9 = 12"
    by (simp add: ozon_write_slot_def sample_ozon_env_def Let_def)
  have "ozon_guarded_write sample_client_libraries
      \<lparr>zc_client_id = ''client'', zc_backend = QuotaDisabled, zc_minimum_interval = 6\<rparr>
      sample_ozon_env (OzonDeactivate 7) (\<lambda>n. (Ok (), Suc n)) sample_ozon_world =
      (fst sample_ozon_write, snd sample_ozon_write)"
    by (simp add: sample_ozon_write_def)
  from ozon_write_departure [OF this] ambiguous slot
  show ?thesis
    by (auto simp: sample_ozon_world_def)
qed

end
