(* ===== verification/Ozon_Telemetry.thy ===== *)
theory Ozon_Telemetry
  imports Ozon_Config
begin

text \<open>
  The telemetry half of \<open>src/src/control/ozon/guard_workflow.rs\<close>: which campaigns run, which
  statistics window each needs, and the sums of a complete set of rows. Missing, duplicate
  and unrequested rows are errors, never zeroes. A \<open>BTreeSet\<close> is a set of the model.
\<close>

datatype guard_telemetry_error =
    UnexpectedCampaign
  | MissingCampaign
  | MissingCurrentDay
  | MissingCampaignDay
  | TelemetryOverflow
  | InvalidDateWindow
  | RowOutsideDateWindow
  | DuplicateMetricRow
  | InvalidCampaignSnapshot
  | DuplicateCampaign

record guard_metric_row =
  mr_business_date :: naive_date
  mr_campaign_id :: u64
  mr_spend_minor :: u64
  mr_attributed_revenue_minor :: u64

record guard_metrics =
  gm_spend_minor :: u64
  gm_attributed_revenue_minor :: u64

datatype static_guard_first_step = FirstStop guard_stop_reason | InspectProduct

definition plan_static_guard_first_step ::
  "campaign_guard \<Rightarrow> guard_metrics \<Rightarrow> (guard_evaluation_error, static_guard_first_step) result" where
  "plan_static_guard_first_step g m =
     and_then (evaluate_ozon_campaign_guard (gm_spend_minor m) (gm_attributed_revenue_minor m)
                 (cg_spend_cap_microrubles g) (cg_target_drr_percent g))
       (\<lambda>reason. Ok (case reason of None \<Rightarrow> InspectProduct | Some r \<Rightarrow> FirstStop r))"


section \<open>Campaign states\<close>

definition canonical_campaign_id :: "json option \<Rightarrow> u64 option" where
  "canonical_campaign_id v =
     Option.bind (canonical_u64 v) (\<lambda>n. if n \<noteq> 0 then Some n else None)"

definition idle_campaign_states :: "string list" where
  "idle_campaign_states =
     [''CAMPAIGN_STATE_STOPPED'', ''CAMPAIGN_STATE_INACTIVE'', ''CAMPAIGN_STATE_FINISHED'',
      ''CAMPAIGN_STATE_ARCHIVED'', ''CAMPAIGN_STATE_PLANNED'', ''CAMPAIGN_STATE_MODERATION_DRAFT'',
      ''CAMPAIGN_STATE_MODERATION_FAILED'', ''CAMPAIGN_STATE_MODERATION_IN_PROGRESS'']"

fun running_campaign_rows ::
  "u64 set \<Rightarrow> json list \<Rightarrow> u64 set \<Rightarrow> u64 set \<Rightarrow>
     (guard_telemetry_error, u64 set \<times> u64 set) result" where
  "running_campaign_rows expected [] observed running = Ok (observed, running)"
| "running_campaign_rows expected (row # rows) observed running =
     and_then (ok_or (canonical_campaign_id (json_get row ''id'')) InvalidCampaignSnapshot)
       (\<lambda>campaign_id.
     and_then (ok_or (Option.bind (json_get row ''state'') json_as_str) InvalidCampaignSnapshot)
       (\<lambda>state.
     ensure (campaign_id \<in> expected) UnexpectedCampaign
    (ensure (campaign_id \<notin> observed) DuplicateCampaign
    (if state = ''CAMPAIGN_STATE_RUNNING''
     then running_campaign_rows expected rows (insert campaign_id observed)
            (insert campaign_id running)
     else if state \<in> set idle_campaign_states
     then running_campaign_rows expected rows (insert campaign_id observed) running
     else Error InvalidCampaignSnapshot))))"

definition parse_complete_running_campaigns ::
  "json \<Rightarrow> u64 set \<Rightarrow> (guard_telemetry_error, u64 set) result" where
  "parse_complete_running_campaigns snapshot expected =
     and_then (ok_or (Option.bind (json_get snapshot ''list'') json_as_array)
                 InvalidCampaignSnapshot) (\<lambda>rows.
     and_then (running_campaign_rows expected rows {} {}) (\<lambda>(observed, running).
     ensure (observed = expected) MissingCampaign (Ok running)))"


section \<open>Statistics windows\<close>

fun metric_windows ::
  "ozon_libraries \<Rightarrow> u64 set \<Rightarrow> naive_date \<Rightarrow> static_campaign_guard list \<Rightarrow>
     (string \<times> u64 set) list \<Rightarrow> (guard_telemetry_error, (string \<times> u64 set) list) result" where
  "metric_windows ol running date_to [] windows = Ok windows"
| "metric_windows ol running date_to (sg # sgs) windows =
     (let g = sg_guard sg in
      if cg_campaign_id g \<notin> running then metric_windows ol running date_to sgs windows
      else and_then (ok_or (ol_parse_date ol (cg_date_from g)) InvalidDateWindow) (\<lambda>date_from.
        ensure (date_from \<le> date_to) InvalidDateWindow
        (metric_windows ol running date_to sgs
           (btree_insert (cg_date_from g)
              (insert (cg_campaign_id g)
                 (case btree_get windows (cg_date_from g) of None \<Rightarrow> {} | Some s \<Rightarrow> s))
              windows))))"

definition group_static_guard_metric_windows ::
  "ozon_libraries \<Rightarrow> static_campaign_guard list \<Rightarrow> u64 set \<Rightarrow> string \<Rightarrow>
     (guard_telemetry_error, (string \<times> u64 set) list) result" where
  "group_static_guard_metric_windows ol guards running date_to =
     and_then (ok_or (ol_parse_date ol date_to) InvalidDateWindow) (\<lambda>date_to.
     ensure (running \<subseteq> set (map (\<lambda>sg. cg_campaign_id (sg_guard sg)) guards)) UnexpectedCampaign
     (metric_windows ol running date_to guards []))"


section \<open>Sums of complete rows\<close>

record aggregate_state =
  ag_metrics :: "(u64 \<times> guard_metrics) list"
  ag_observed_days :: "(u64 \<times> naive_date) set"
  ag_current_day_campaigns :: "u64 set"

definition aggregate_row ::
  "u64 set \<Rightarrow> naive_date \<Rightarrow> naive_date \<Rightarrow> guard_metric_row \<Rightarrow> aggregate_state \<Rightarrow>
     (guard_telemetry_error, aggregate_state) result" where
  "aggregate_row expected date_from date_to row st =
     (let c = mr_campaign_id row; d = mr_business_date row;
          entry = (case btree_get (ag_metrics st) c of
                     None \<Rightarrow> \<lparr>gm_spend_minor = 0, gm_attributed_revenue_minor = 0\<rparr>
                   | Some m \<Rightarrow> m)
      in ensure (date_from \<le> d \<and> d \<le> date_to) RowOutsideDateWindow
        (ensure (c \<in> expected) UnexpectedCampaign
        (ensure ((c, d) \<notin> ag_observed_days st) DuplicateMetricRow
        (and_then (ok_or (checked_add (gm_spend_minor entry) (mr_spend_minor row))
                     TelemetryOverflow) (\<lambda>spend.
         and_then (ok_or (checked_add (gm_attributed_revenue_minor entry)
                             (mr_attributed_revenue_minor row)) TelemetryOverflow) (\<lambda>revenue.
         Ok \<lparr>ag_metrics = btree_insert c
               \<lparr>gm_spend_minor = spend, gm_attributed_revenue_minor = revenue\<rparr> (ag_metrics st),
             ag_observed_days = insert (c, d) (ag_observed_days st),
             ag_current_day_campaigns =
               (if d = date_to then insert c (ag_current_day_campaigns st)
                else ag_current_day_campaigns st)\<rparr>))))))"

fun aggregate_rows ::
  "u64 set \<Rightarrow> naive_date \<Rightarrow> naive_date \<Rightarrow> guard_metric_row list \<Rightarrow> aggregate_state \<Rightarrow>
     (guard_telemetry_error, aggregate_state) result" where
  "aggregate_rows expected date_from date_to [] st = Ok st"
| "aggregate_rows expected date_from date_to (row # rows) st =
     and_then (aggregate_row expected date_from date_to row st)
       (aggregate_rows expected date_from date_to rows)"

definition aggregate_complete_guard_metrics ::
  "u64 set \<Rightarrow> naive_date \<Rightarrow> naive_date \<Rightarrow> guard_metric_row list \<Rightarrow>
     (guard_telemetry_error, (u64 \<times> guard_metrics) list) result" where
  "aggregate_complete_guard_metrics expected date_from date_to rows =
     ensure (date_from \<le> date_to) InvalidDateWindow
     (let inclusive_days = date_to - date_from + 1 in
      ensure (inclusive_days < 2 ^ 63) InvalidDateWindow
     (ensure (inclusive_days * int (card expected) < 2 ^ 64) TelemetryOverflow
     (and_then (aggregate_rows expected date_from date_to rows
                  \<lparr>ag_metrics = [], ag_observed_days = {}, ag_current_day_campaigns = {}\<rparr>) (\<lambda>st.
      ensure (set (btree_keys (ag_metrics st)) = expected) MissingCampaign
     (ensure (ag_current_day_campaigns st = expected) MissingCurrentDay
     (ensure (int (card (ag_observed_days st)) = inclusive_days * int (card expected))
        MissingCampaignDay
     (Ok (ag_metrics st))))))))"

end
