(* ===== verification/Ozon_Guard_Correct.thy ===== *)
theory Ozon_Guard_Correct
  imports Ozon_Telemetry
begin

text \<open>
  The decisions of the Ozon guard are exact: the stop rule agrees with its statement over the
  natural numbers, a paced bid stays within one step and the corridor, the number reader
  accepts one spelling of each \<open>u64\<close>, and the telemetry of a cycle is accepted only when it is
  complete.
\<close>


section \<open>The stop rule\<close>

lemma unat_widen_percent: "unat (widen a * ucast (d :: u8)) = unat a * unat d"
proof -
  have d: "unat (ucast d :: u128) = unat d"
    using u8_bound [of d] by (simp add: unsigned_ucast_eq take_bit_nat_eq_self)
  have "unat a * unat d \<le> 18446744073709551616 * 256"
    using u64_bound [of a] u8_bound [of d] by (intro mult_le_mono) auto
  then show ?thesis
    by (simp add: unat_word_ariths unat_widen d)
qed

lemma unat_widen_hundred: "unat (widen a * 100) = unat a * 100"
  using u64_bound [of a] by (simp add: unat_word_ariths unat_widen)

lemma unat_strict: "a \<le> b \<Longrightarrow> a \<noteq> b \<Longrightarrow> unat a < unat b" for a b :: "'a::len word"
  by (metis order_le_less word_less_nat_alt)

lemma drr_exceeded_nat:
  "drr_exceeded s r d \<longleftrightarrow> 0 < unat r \<and> unat r * unat d < 100 * unat s"
  unfolding drr_exceeded_def
  by (simp add: word_less_nat_alt unat_widen_percent unat_widen_hundred mult.commute)

lemma cap_reached_nat:
  assumes "cap mod 10000 = 0"
  shows "cap div 10000 \<le> s \<longleftrightarrow> unat cap \<le> 10000 * unat (s :: u64)"
proof -
  have "unat cap mod 10000 = 0"
    using assms by (simp add: unat_arith_simps)
  then have "unat cap = 10000 * (unat cap div 10000)"
    by auto
  moreover have "cap div 10000 \<le> s \<longleftrightarrow> unat cap div 10000 \<le> unat s"
    by (simp add: word_le_nat_alt unat_div)
  ultimately show ?thesis
    by linarith
qed

lemma guard_limits_valid_nat:
  "guard_limits_valid cap d \<longleftrightarrow>
     0 < unat cap \<and> unat cap mod 10000 = 0 \<and> 10 \<le> unat d \<and> unat d \<le> 100"
proof -
  have "cap mod 10000 = 0 \<longleftrightarrow> unat cap mod 10000 = 0"
    by (simp add: unat_arith_simps)
  moreover have "10 \<le> d \<longleftrightarrow> 10 \<le> unat d" "d \<le> 100 \<longleftrightarrow> unat d \<le> 100"
    by (simp_all add: word_le_nat_alt)
  ultimately show ?thesis
    by (simp add: guard_limits_valid_def unat_gt_0)
qed

text \<open>
  C20. The stop rule decides over the natural numbers, whatever the amounts: limits outside the
  reviewed shape are refused; otherwise a campaign stops when its spend (kopecks) reaches the
  cap (microroubles), and when it has revenue and its spend is more than the target share of
  it. No amount wraps around.\<close>

theorem campaign_guard_exact:
  "evaluate_ozon_campaign_guard s r cap d =
     (if unat cap = 0 \<or> 0 < unat cap mod 10000 \<or> unat d < 10 \<or> 100 < unat d
      then Error InvalidGuardLimit
      else if unat cap \<le> 10000 * unat s then Ok (Some SpendCapReached)
      else if 0 < unat r \<and> unat r * unat d < 100 * unat s then Ok (Some DrrCapExceeded)
      else Ok None)"
proof (cases "guard_limits_valid cap d")
  case True
  then have "cap mod 10000 = 0"
    by (simp add: guard_limits_valid_def)
  from True this show ?thesis
    unfolding evaluate_ozon_campaign_guard_def
    by (simp add: cap_reached_nat drr_exceeded_nat) (auto simp: guard_limits_valid_nat)
next
  case False
  then show ?thesis
    unfolding evaluate_ozon_campaign_guard_def by (auto simp: guard_limits_valid_nat)
qed


section \<open>Bid pacing\<close>

lemma validate_pacing_inputs_Ok:
  "validate_pacing_inputs p ob = Inr u \<Longrightarrow>
     bp_min_bid_microrubles p \<le> bo_current_bid_microrubles ob \<and>
     bo_current_bid_microrubles ob \<le> bp_max_bid_microrubles p \<and>
     0 < unat (bp_bid_step_microrubles p) \<and>
     guard_limits_valid (bp_spend_cap_microrubles p) (bp_target_drr_percent p)"
  by (auto simp: validate_pacing_inputs_def validate_pacing_policy_def unat_gt_0
      result_elim split: if_splits)

lemma try_seconds_Some: "try_seconds n = Some d \<Longrightarrow> d = seconds (uint n)"
  by (simp add: try_seconds_def split: if_splits)

definition cooled_down :: "bid_pacing_policy \<Rightarrow> bid_pacing_observation \<Rightarrow> bool" where
  "cooled_down p ob \<longleftrightarrow>
     (case bo_last_bid_change_at ob of
        None \<Rightarrow> True
      | Some t \<Rightarrow> seconds (uint (bp_cooldown_seconds p)) \<le> bo_observed_at ob - t)"

definition position_behind :: "bid_pacing_policy \<Rightarrow> bid_pacing_observation \<Rightarrow> bool" where
  "position_behind p ob \<longleftrightarrow>
     (case bo_position ob of
        None \<Rightarrow> False
      | Some s \<Rightarrow> ps_observed_at s \<le> bo_observed_at ob \<and>
          bo_observed_at ob - ps_observed_at s \<le> seconds (uint (bp_max_position_age_seconds p)) \<and>
          bp_target_position p < ps_position s)"

lemma cooldown_active_Ok: "cooldown_active p ob = Inr False \<Longrightarrow> cooled_down p ob"
  by (auto simp: cooldown_active_def cooled_down_def result_elim Let_def
      dest: try_seconds_Some split: option.splits)

lemma position_bid_adjustment_bid:
  assumes "position_bid_adjustment p ob = Ok (AdjustBid b b')"
    and "bo_current_bid_microrubles ob \<le> bp_max_bid_microrubles p"
    and "0 < unat (bp_bid_step_microrubles p)"
  shows "b = bo_current_bid_microrubles ob" "b < b'" "b' \<le> bp_max_bid_microrubles p"
    "unat b' \<le> unat b + unat (bp_bid_step_microrubles p)"
    "cooled_down p ob" "position_behind p ob"
proof -
  from assms(1) obtain s max_age raised where s: "bo_position ob = Some s"
    and age: "try_seconds (bp_max_position_age_seconds p) = Some max_age"
      "\<not> (bo_observed_at ob - ps_observed_at s < 0 \<or> max_age < bo_observed_at ob - ps_observed_at s)"
    and behind: "\<not> ps_position s \<le> bp_target_position p"
    and below: "bo_current_bid_microrubles ob \<noteq> bp_max_bid_microrubles p"
    and cool: "cooldown_active p ob = Inr False"
    and raised: "checked_add (bo_current_bid_microrubles ob) (bp_bid_step_microrubles p) = Some raised"
    and b: "b = bo_current_bid_microrubles ob" "b' = min raised (bp_max_bid_microrubles p)"
    by (auto simp: position_bid_adjustment_def Let_def result_elim
        split: option.splits if_splits)
  from b show "b = bo_current_bid_microrubles ob" by simp
  from b show "b' \<le> bp_max_bid_microrubles p" by simp
  from below assms(2) have lt: "unat (bo_current_bid_microrubles ob) < unat (bp_max_bid_microrubles p)"
    by (metis unat_strict)
  from unat_checked_add [OF raised] lt assms(3) show "b < b'"
    by (simp add: b word_less_nat_alt unat_min)
  from unat_checked_add [OF raised] show "unat b' \<le> unat b + unat (bp_bid_step_microrubles p)"
    by (simp add: b unat_min)
  from cool show "cooled_down p ob" by (rule cooldown_active_Ok)
  from s age behind show "position_behind p ob"
    by (auto simp: position_behind_def dest: try_seconds_Some)
qed

lemma lowered_bid:
  assumes "lo \<le> b" "b \<noteq> lo" "0 < unat step" and b': "b' = max (saturating_sub b step) (lo :: u64)"
  shows "b' < b" "lo \<le> b'" "unat b \<le> unat b' + unat step"
proof -
  have "unat lo < unat b"
    using assms(1,2) by (metis unat_strict)
  with assms(3) show "b' < b"
    by (simp add: b' word_less_nat_alt unat_max unat_saturating_sub)
  show "lo \<le> b'" by (simp add: b')
  show "unat b \<le> unat b' + unat step"
    by (simp add: b' unat_max unat_saturating_sub)
qed

text \<open>
  C31. A paced bid change starts at the current bid, ends inside the corridor at most one step
  away, and waits for the cooldown. It never happens at the spend cap; it lowers the bid
  exactly when the DRR is exceeded, and raises it only on a fresh position that is behind the
  target.\<close>

theorem paced_bid_bounds:
  assumes "evaluate_ozon_bid_pacing p ob = Ok (PacingChangeBid b b')"
  shows "b = bo_current_bid_microrubles ob \<and> b' \<noteq> b \<and>
    bp_min_bid_microrubles p \<le> b' \<and> b' \<le> bp_max_bid_microrubles p \<and>
    unat b' \<le> unat b + unat (bp_bid_step_microrubles p) \<and>
    unat b \<le> unat b' + unat (bp_bid_step_microrubles p) \<and>
    cooled_down p ob \<and>
    evaluate_ozon_campaign_guard (bo_spend_minor ob) (bo_attributed_revenue_minor ob)
      (bp_spend_cap_microrubles p) (bp_target_drr_percent p) =
      Ok (if b' < b then Some DrrCapExceeded else None) \<and>
    (b' < b \<or> position_behind p ob)"
proof -
  from assms obtain u where ok: "validate_pacing_inputs p ob = Inr u"
    by (auto simp: evaluate_ozon_bid_pacing_def result_elim)
  note inputs = validate_pacing_inputs_Ok [OF ok]
  have below: "\<not> bp_spend_cap_microrubles p div 10000 \<le> bo_spend_minor ob"
    using assms by (auto simp: evaluate_ozon_bid_pacing_def ok)
  show ?thesis
  proof (cases "drr_exceeded (bo_spend_minor ob) (bo_attributed_revenue_minor ob)
      (bp_target_drr_percent p)")
    case True
    with assms below have low: "bo_current_bid_microrubles ob \<noteq> bp_min_bid_microrubles p"
      "cooldown_active p ob = Inr False" "b = bo_current_bid_microrubles ob"
      "b' = max (saturating_sub (bo_current_bid_microrubles ob) (bp_bid_step_microrubles p))
              (bp_min_bid_microrubles p)"
      by (auto simp: evaluate_ozon_bid_pacing_def ok result_elim split: if_splits)
    have b': "b' < b" "bp_min_bid_microrubles p \<le> b'"
      "unat b \<le> unat b' + unat (bp_bid_step_microrubles p)"
      using lowered_bid [OF _ low(1) _ low(4)] inputs low(3) by auto
    moreover have "b' \<le> bp_max_bid_microrubles p"
      using b'(1) inputs low(3) by (meson order.strict_implies_order order_trans)
    moreover have "unat b' \<le> unat b + unat (bp_bid_step_microrubles p)"
      using b'(1) by (simp add: word_less_nat_alt)
    moreover have "cooled_down p ob"
      using low(2) by (rule cooldown_active_Ok)
    ultimately show ?thesis
      using inputs below True low(3) by (simp add: evaluate_ozon_campaign_guard_def)
  next
    case False
    with assms below have "position_bid_adjustment p ob = Ok (AdjustBid b b')"
      by (auto simp: evaluate_ozon_bid_pacing_def ok result_elim split: if_splits
          elim: pacing_action_of.elims)
    note up = position_bid_adjustment_bid [OF this]
    have "b \<le> b'" "\<not> b' < b" "bp_min_bid_microrubles p \<le> b'" "unat b \<le> unat b'"
      using up(1,2) inputs by (auto simp: word_less_nat_alt word_le_nat_alt)
    with up inputs below False show ?thesis
      by (auto simp: evaluate_ozon_campaign_guard_def)
  qed
qed

theorem paced_bid_bounds_witness:
  "evaluate_ozon_bid_pacing
     \<lparr>bp_min_bid_microrubles = 3000000, bp_max_bid_microrubles = 9000000,
      bp_bid_step_microrubles = 2000000, bp_spend_cap_microrubles = 500000000,
      bp_target_drr_percent = 20, bp_target_position = 4, bp_cooldown_seconds = 1800,
      bp_max_position_age_seconds = 3600\<rparr>
     \<lparr>bo_observed_at = seconds 9000, bo_current_bid_microrubles = 8000000, bo_spend_minor = 1000,
      bo_attributed_revenue_minor = 90000,
      bo_position = Some \<lparr>ps_observed_at = seconds 8000, ps_position = 7\<rparr>,
      bo_last_bid_change_at = Some (seconds 7200)\<rparr>
   = Ok (PacingChangeBid 8000000 9000000) \<and> (9000000 :: u64) \<noteq> 8000000"
proof -
  have "evaluate_ozon_bid_pacing
     \<lparr>bp_min_bid_microrubles = 3000000, bp_max_bid_microrubles = 9000000,
      bp_bid_step_microrubles = 2000000, bp_spend_cap_microrubles = 500000000,
      bp_target_drr_percent = 20, bp_target_position = 4, bp_cooldown_seconds = 1800,
      bp_max_position_age_seconds = 3600\<rparr>
     \<lparr>bo_observed_at = seconds 9000, bo_current_bid_microrubles = 8000000, bo_spend_minor = 1000,
      bo_attributed_revenue_minor = 90000,
      bo_position = Some \<lparr>ps_observed_at = seconds 8000, ps_position = 7\<rparr>,
      bo_last_bid_change_at = Some (seconds 7200)\<rparr>
     = Ok (PacingChangeBid 8000000 9000000)" (is ?run)
    by code_simp
  with paced_bid_bounds [OF this] show ?thesis
    by blast
qed

end
