(* ===== verification/Ozon_State.thy ===== *)
theory Ozon_State
  imports Ozon_Config Business_Calendar
begin

text \<open>
  \<open>src/src/control/ozon/static_state.rs\<close>: the local state file of the static Ozon guard, its
  validation, and the atomic replacement of the file. A save that fails after the rename
  (the directory could not be synchronised) leaves the new file in place and still reports
  an error. The JSON text of the state and the file permissions are not modelled: a save or
  a load that fails for such a reason is an outcome of the environment.
\<close>


section \<open>Data\<close>

record pending_bid_change =
  sb_account_id :: "string option"
  sb_sku :: "u64 option"
  sb_min_cpc_bid_microrubles :: "u64 option"
  sb_max_cpc_bid_microrubles :: "u64 option"
  sb_date_from :: "string option"
  sb_spend_cap_microrubles :: "u64 option"
  sb_target_drr_percent :: "u8 option"
  sb_from_microrubles :: u64
  sb_to_microrubles :: u64
  sb_started_at :: instant

datatype campaign_mutation_kind = MutationDeactivate | MutationActivate

record pending_campaign_mutation =
  sm_account_id :: string
  sm_sku :: u64
  sm_min_cpc_bid_microrubles :: u64
  sm_max_cpc_bid_microrubles :: u64
  sm_date_from :: string
  sm_spend_cap_microrubles :: u64
  sm_target_drr_percent :: u8
  sm_kind :: campaign_mutation_kind
  sm_stop_reason :: "string option"
  sm_spend_minor :: "u64 option"
  sm_revenue_minor :: "u64 option"
  sm_started_at :: instant

record static_incident =
  si_account_id :: "string option"
  si_sku :: "u64 option"
  si_min_cpc_bid_microrubles :: "u64 option"
  si_max_cpc_bid_microrubles :: "u64 option"
  si_date_from :: "string option"
  si_spend_cap_microrubles :: "u64 option"
  si_target_drr_percent :: "u8 option"
  si_stop_reason :: "string option"
  si_error_class :: string
  si_spend_minor :: "u64 option"
  si_revenue_minor :: "u64 option"
  si_occurred_at :: instant

record static_state =
  ss_last_static_audit_event_id :: "u64 option"
  ss_incident_campaign_ids :: "u64 set"
  ss_incidents :: "(u64 \<times> static_incident) list"
  ss_last_bid_change_at :: "(u64 \<times> instant) list"
  ss_pending_bid_changes :: "(u64 \<times> pending_bid_change) list"
  ss_pending_campaign_mutations :: "(u64 \<times> pending_campaign_mutation) list"

datatype static_state_error = InvalidState | StateIo

definition empty_static_state :: static_state where
  "empty_static_state = \<lparr>
     ss_last_static_audit_event_id = None,
     ss_incident_campaign_ids = {},
     ss_incidents = [],
     ss_last_bid_change_at = [],
     ss_pending_bid_changes = [],
     ss_pending_campaign_mutations = []\<rparr>"


section \<open>Validation\<close>

definition valid_evidence_label :: "string \<Rightarrow> bool" where
  "valid_evidence_label label \<longleftrightarrow>
     label \<noteq> [] \<and> str_len label \<le> 64 \<and>
     list_all (\<lambda>b. is_ascii_lowercase b \<or> is_ascii_digit b \<or> b = CHR ''_'') label"

definition valid_evidence_pair :: "u64 option \<Rightarrow> u64 option \<Rightarrow> bool" where
  "valid_evidence_pair spend_minor revenue_minor \<longleftrightarrow>
     (spend_minor \<noteq> None) = (revenue_minor \<noteq> None)"

definition valid_complete_binding ::
  "ozon_libraries \<Rightarrow> string \<Rightarrow> u64 \<Rightarrow> u64 \<Rightarrow> u64 \<Rightarrow> string \<Rightarrow> u64 \<Rightarrow> u8 \<Rightarrow> bool" where
  "valid_complete_binding ol account_id sku min_bid max_bid date_from spend_cap target_drr \<longleftrightarrow>
     account_id \<noteq> [] \<and> is_trimmed account_id \<and> str_len account_id \<le> 128 \<and>
     \<not> list_ex is_control (str_chars account_id) \<and> sku \<noteq> 0 \<and>
     corridor_valid min_bid max_bid \<and> is_canonical_static_guard_date ol date_from \<and>
     guard_limits_valid spend_cap target_drr"

text \<open>The seven optional fields of a binding: all absent, or all present and valid.\<close>

definition binding_is_legacy ::
  "string option \<Rightarrow> u64 option \<Rightarrow> u64 option \<Rightarrow> u64 option \<Rightarrow> string option \<Rightarrow> u64 option \<Rightarrow>
     u8 option \<Rightarrow> bool" where
  "binding_is_legacy account sku min_bid max_bid date cap drr \<longleftrightarrow>
     account = None \<and> sku = None \<and> min_bid = None \<and> max_bid = None \<and> date = None \<and> cap = None \<and>
     drr = None"

definition binding_is_valid ::
  "ozon_libraries \<Rightarrow> string option \<Rightarrow> u64 option \<Rightarrow> u64 option \<Rightarrow> u64 option \<Rightarrow> string option \<Rightarrow>
     u64 option \<Rightarrow> u8 option \<Rightarrow> bool" where
  "binding_is_valid ol account sku min_bid max_bid date cap drr \<longleftrightarrow>
     (case (account, sku, min_bid, max_bid, date, cap, drr) of
        (Some account, Some sku, Some min_bid, Some max_bid, Some date, Some cap, Some drr) \<Rightarrow>
          valid_complete_binding ol account sku min_bid max_bid date cap drr
      | _ \<Rightarrow> False)"

definition clamp :: "u64 \<Rightarrow> u64 \<Rightarrow> u64 \<Rightarrow> u64" where
  "clamp v lo hi = (if v < lo then lo else if hi < v then hi else v)"

definition valid_static_bid_transition :: "pending_bid_change \<Rightarrow> bool" where
  "valid_static_bid_transition p \<longleftrightarrow>
     (case (sb_min_cpc_bid_microrubles p, sb_max_cpc_bid_microrubles p) of
        (Some min_bid, Some max_bid) \<Rightarrow>
          (let from = sb_from_microrubles p; to_bid = sb_to_microrubles p in
           min_bid \<noteq> 0 \<and> min_bid \<le> max_bid \<and> from \<noteq> 0 \<and> from \<noteq> to_bid \<and>
           from mod 1000000 = 0 \<and> to_bid mod 1000000 = 0 \<and>
           min_bid \<le> to_bid \<and> to_bid \<le> max_bid \<and>
           (min_bid \<le> from \<and> from \<le> max_bid \<or> to_bid = clamp from min_bid max_bid))
      | _ \<Rightarrow> False)"

definition valid_pending_bid_change :: "ozon_libraries \<Rightarrow> pending_bid_change \<Rightarrow> bool" where
  "valid_pending_bid_change ol p \<longleftrightarrow>
     (binding_is_legacy (sb_account_id p) (sb_sku p) (sb_min_cpc_bid_microrubles p)
        (sb_max_cpc_bid_microrubles p) (sb_date_from p) (sb_spend_cap_microrubles p)
        (sb_target_drr_percent p) \<or>
      binding_is_valid ol (sb_account_id p) (sb_sku p) (sb_min_cpc_bid_microrubles p)
        (sb_max_cpc_bid_microrubles p) (sb_date_from p) (sb_spend_cap_microrubles p)
        (sb_target_drr_percent p) \<and> valid_static_bid_transition p) \<and>
     sb_from_microrubles p \<noteq> 0 \<and> sb_to_microrubles p \<noteq> 0 \<and>
     sb_from_microrubles p \<noteq> sb_to_microrubles p \<and>
     sb_from_microrubles p mod 1000000 = 0 \<and> sb_to_microrubles p mod 1000000 = 0"

definition valid_pending_campaign_mutation ::
  "ozon_libraries \<Rightarrow> pending_campaign_mutation \<Rightarrow> bool" where
  "valid_pending_campaign_mutation ol p \<longleftrightarrow>
     valid_complete_binding ol (sm_account_id p) (sm_sku p) (sm_min_cpc_bid_microrubles p)
       (sm_max_cpc_bid_microrubles p) (sm_date_from p) (sm_spend_cap_microrubles p)
       (sm_target_drr_percent p) \<and>
     valid_evidence_pair (sm_spend_minor p) (sm_revenue_minor p) \<and>
     (case sm_kind p of
        MutationDeactivate \<Rightarrow>
          (case sm_stop_reason p of None \<Rightarrow> False | Some r \<Rightarrow> valid_evidence_label r)
      | MutationActivate \<Rightarrow>
          sm_stop_reason p = None \<and> sm_spend_minor p = None \<and> sm_revenue_minor p = None)"

definition valid_incident :: "ozon_libraries \<Rightarrow> static_incident \<Rightarrow> bool" where
  "valid_incident ol i \<longleftrightarrow>
     (binding_is_legacy (si_account_id i) (si_sku i) (si_min_cpc_bid_microrubles i)
        (si_max_cpc_bid_microrubles i) (si_date_from i) (si_spend_cap_microrubles i)
        (si_target_drr_percent i) \<or>
      binding_is_valid ol (si_account_id i) (si_sku i) (si_min_cpc_bid_microrubles i)
        (si_max_cpc_bid_microrubles i) (si_date_from i) (si_spend_cap_microrubles i)
        (si_target_drr_percent i)) \<and>
     valid_evidence_label (si_error_class i) \<and>
     (case si_stop_reason i of None \<Rightarrow> True | Some r \<Rightarrow> valid_evidence_label r) \<and>
     valid_evidence_pair (si_spend_minor i) (si_revenue_minor i)"

definition state_campaign_ids :: "static_state \<Rightarrow> u64 set" where
  "state_campaign_ids st =
     ss_incident_campaign_ids st \<union> set (btree_keys (ss_incidents st)) \<union>
     set (btree_keys (ss_last_bid_change_at st)) \<union> set (btree_keys (ss_pending_bid_changes st)) \<union>
     set (btree_keys (ss_pending_campaign_mutations st))"

definition state_is_valid :: "ozon_libraries \<Rightarrow> static_state \<Rightarrow> bool" where
  "state_is_valid ol st \<longleftrightarrow>
     ss_last_static_audit_event_id st \<noteq> Some 0 \<and>
     card (state_campaign_ids st) \<le> MAX_OZON_STATIC_GUARDS \<and> 0 \<notin> state_campaign_ids st \<and>
     list_all (\<lambda>c. c \<in> ss_incident_campaign_ids st) (btree_keys (ss_incidents st)) \<and>
     list_all (valid_incident ol) (btree_values (ss_incidents st)) \<and>
     list_all (valid_pending_bid_change ol) (btree_values (ss_pending_bid_changes st)) \<and>
     list_all (\<lambda>(c, p). btree_get (ss_pending_bid_changes st) c = None \<and>
                        valid_pending_campaign_mutation ol p) (ss_pending_campaign_mutations st)"

definition validate_state :: "ozon_libraries \<Rightarrow> static_state \<Rightarrow> (static_state_error, unit) result" where
  "validate_state ol st = ensure (state_is_valid ol st) InvalidState (Ok ())"

definition validate_ozon_static_guard_state_scope ::
  "ozon_libraries \<Rightarrow> static_state \<Rightarrow> u64 set \<Rightarrow> (static_state_error, unit) result" where
  "validate_ozon_static_guard_state_scope ol st allowed =
     and_then (validate_state ol st) (\<lambda>_.
     ensure (state_campaign_ids st \<subseteq> allowed) InvalidState (Ok ()))"


section \<open>Loading and saving\<close>

definition legacy_incident :: static_incident where
  "legacy_incident = \<lparr>
     si_account_id = None, si_sku = None, si_min_cpc_bid_microrubles = None,
     si_max_cpc_bid_microrubles = None, si_date_from = None, si_spend_cap_microrubles = None,
     si_target_drr_percent = None, si_stop_reason = None,
     si_error_class = ''legacy_incident_unclassified'', si_spend_minor = None,
     si_revenue_minor = None, si_occurred_at = 0\<rparr>"

definition or_insert :: "'k::linorder \<Rightarrow> 'v \<Rightarrow> ('k \<times> 'v) list \<Rightarrow> ('k \<times> 'v) list" where
  "or_insert k v m = (if btree_get m k = None then btree_insert k v m else m)"

definition normalize_legacy_incidents :: "static_state \<Rightarrow> static_state" where
  "normalize_legacy_incidents st =
     st\<lparr>ss_incidents := fold (\<lambda>c. or_insert c legacy_incident)
          (sorted_list_of_set (ss_incident_campaign_ids st)) (ss_incidents st)\<rparr>"

text \<open>The outcome of reading the file (\<open>None\<close> fails), and of replacing it.\<close>

definition load_static_state ::
  "ozon_libraries \<Rightarrow> bool \<Rightarrow> static_state option \<Rightarrow> (static_state_error, static_state) result" where
  "load_static_state ol readable stored =
     (case stored of
        None \<Rightarrow> Ok empty_static_state
      | Some st \<Rightarrow>
          ensure readable StateIo
          (let st = normalize_legacy_incidents st in
           and_then (validate_state ol st) (\<lambda>_. Ok st)))"

datatype save_outcome = StateSaved | SaveFailed | SavedUnsynced


definition persist_static_state ::
  "ozon_libraries \<Rightarrow> save_outcome \<Rightarrow> static_state \<Rightarrow> static_state option \<Rightarrow>
     (static_state_error, unit) result \<times> static_state option" where
  "persist_static_state ol outcome st stored =
     (case validate_state ol st of
        Inl e \<Rightarrow> (Inl e, stored)
      | Inr _ \<Rightarrow>
          (case outcome of
             StateSaved \<Rightarrow> (Ok (), Some st)
           | SaveFailed \<Rightarrow> (Error StateIo, stored)
           | SavedUnsynced \<Rightarrow> (Error StateIo, Some st)))"

end
