(* ===== verification/Ozon_Audit.thy ===== *)
theory Ozon_Audit
  imports Ozon_Config
begin

text \<open>
  The authorization of a static guard write in \<open>src/src/control/ozon/repository.rs\<close>, over the
  append-only audit table, the policy revisions and the runtime gates of
  \<open>src/position-monitor/initdb/025_ozon_durable_launch_workflow.sql\<close>. The audit event is
  staged, the caller's local marker is made durable, and only then the transaction commits.
  Event ids come from a sequence that a rolled-back transaction does not give back.
\<close>


section \<open>Tables\<close>

datatype static_guard_mutation = Mut_Activate | Mut_Deactivate | Mut_SetBid

record static_audit_event =
  ae_event_id :: int
  ae_account_id :: string
  ae_sku :: "int option"
  ae_campaign_id :: "int option"
  ae_mutation :: "static_guard_mutation option"
  ae_target_bid :: "int option"
  ae_config_digest :: string
  ae_schema_version :: int
  ae_policy_revision :: int
  ae_policy_digest :: string
  ae_worker_id :: string
  ae_event_type :: string

record policy_revision_row =
  pv_schema_version :: int
  pv_policy_revision :: int
  pv_policy_digest :: string

record gate_row =
  gt_enabled :: bool
  gt_lease_expires_at :: instant
  gt_disabled_until :: "instant option"

record ozon_tables =
  oz_events :: "static_audit_event list"
  oz_sequence :: int
  oz_policies :: "policy_revision_row list"
  oz_gates :: "string \<rightharpoonup> gate_row"

datatype plan_store_error =
    Plan_Unavailable
  | Plan_InvalidState
  | Plan_InvalidPlan
  | Plan_PolicyChanged
  | Plan_RuntimeDisabled
  | Plan_LeaseLost

definition identity_char :: "char \<Rightarrow> bool" where
  "identity_char b \<longleftrightarrow>
     is_ascii_alphanumeric b \<or> b = CHR ''_'' \<or> b = CHR ''-'' \<or> b = CHR ''.''"

definition valid_identity :: "string \<Rightarrow> bool" where
  "valid_identity v \<longleftrightarrow> v \<noteq> [] \<and> str_len v \<le> 128 \<and> list_all identity_char v"

definition valid_hex_digest :: "string \<Rightarrow> bool" where
  "valid_hex_digest v \<longleftrightarrow> str_len v = 64 \<and> list_all is_lower_hexdigit v"

definition audit_event_check :: "static_audit_event \<Rightarrow> bool" where
  "audit_event_check e \<longleftrightarrow>
     valid_identity (ae_account_id e) \<and> valid_identity (ae_worker_id e) \<and>
     (case ae_sku e of None \<Rightarrow> True | Some n \<Rightarrow> 0 < n) \<and>
     (case ae_campaign_id e of None \<Rightarrow> True | Some n \<Rightarrow> 0 < n) \<and>
     (case ae_target_bid e of None \<Rightarrow> True | Some n \<Rightarrow> 0 < n) \<and>
     valid_hex_digest (ae_config_digest e) \<and> valid_hex_digest (ae_policy_digest e) \<and>
     0 < ae_schema_version e \<and>
     (ae_event_type e = ''state_initialized'' \<and> ae_sku e = None \<and> ae_campaign_id e = None \<and>
        ae_mutation e = None \<and> ae_target_bid e = None \<or>
      ae_event_type e = ''write_authorized'' \<and> ae_sku e \<noteq> None \<and> ae_campaign_id e \<noteq> None \<and>
        ae_mutation e \<noteq> None \<and> (ae_mutation e = Some Mut_SetBid) = (ae_target_bid e \<noteq> None))"

text \<open>\<open>max(event_id)\<close> of an account.\<close>

definition latest_event_id :: "string \<Rightarrow> ozon_tables \<Rightarrow> int option" where
  "latest_event_id account t =
     (case map ae_event_id (filter (\<lambda>e. ae_account_id e = account) (oz_events t)) of
        [] \<Rightarrow> None
      | n # ns \<Rightarrow> Some (fold max ns n))"

definition gate_is_active :: "instant \<Rightarrow> gate_row option \<Rightarrow> bool" where
  "gate_is_active now g \<longleftrightarrow>
     (case g of
        None \<Rightarrow> False
      | Some g \<Rightarrow> gt_enabled g \<and> now < gt_lease_expires_at g \<and>
          (case gt_disabled_until g of None \<Rightarrow> True | Some d \<Rightarrow> d \<le> now))"

definition ozon_runtime_gates_active ::
  "instant \<Rightarrow> string \<Rightarrow> int \<Rightarrow> ozon_tables \<Rightarrow> bool" where
  "ozon_runtime_gates_active now account sku t \<longleftrightarrow>
     valid_identity account \<and> 0 < sku \<and>
     gate_is_active now (oz_gates t ''global'') \<and>
     gate_is_active now (oz_gates t (''account/'' @ account)) \<and>
     gate_is_active now (oz_gates t (''sku/'' @ account @ ''/'' @ decimal sku))"

definition current_policy :: "ozon_tables \<Rightarrow> policy_revision_row option" where
  "current_policy t = max_by_key pv_policy_revision (oz_policies t)"


section \<open>Checks of a transaction\<close>

definition plan_i64 :: "u64 \<Rightarrow> (plan_store_error, int) result" where
  "plan_i64 v = (if uint v < 2 ^ 63 then Ok (uint v) else Error Plan_InvalidPlan)"

definition plan_i32 :: "u32 \<Rightarrow> (plan_store_error, int) result" where
  "plan_i32 v = (if uint v < 2 ^ 31 then Ok (uint v) else Error Plan_InvalidPlan)"

definition lock_static_guard_audit_cursor ::
  "string \<Rightarrow> u64 option \<Rightarrow> ozon_tables \<Rightarrow> (plan_store_error, unit) result" where
  "lock_static_guard_audit_cursor account expected t =
     and_then (case expected of
                 None \<Rightarrow> Ok None
               | Some n \<Rightarrow> and_then (plan_i64 n) (\<lambda>i. Ok (Some i))) (\<lambda>expected.
     ensure (latest_event_id account t = expected) Plan_LeaseLost (Ok ()))"

definition require_policy ::
  "int \<Rightarrow> int \<Rightarrow> string \<Rightarrow> ozon_tables \<Rightarrow> (plan_store_error, unit) result" where
  "require_policy schema revision digest t =
     (case current_policy t of
        None \<Rightarrow> Error Plan_PolicyChanged
      | Some row \<Rightarrow>
          ensure (pv_schema_version row = schema \<and> pv_policy_revision row = revision \<and>
                  pv_policy_digest row = digest) Plan_PolicyChanged (Ok ()))"

definition require_gates ::
  "instant \<Rightarrow> string \<Rightarrow> int \<Rightarrow> ozon_tables \<Rightarrow> (plan_store_error, unit) result" where
  "require_gates now account sku t =
     ensure (ozon_runtime_gates_active now account sku t) Plan_RuntimeDisabled (Ok ())"

text \<open>
  The fate of the session: not reached, answered to the end, or lost in the commit, which
  then happened or did not.
\<close>

datatype audit_link = AuditUnreached | AuditAnswered | CommitLost | CommitFailed

text \<open>
  The insertion with the id of the sequence, the caller's marker, and the commit. The marker
  changes the local state \<open>s\<close>; its error rolls the transaction back.
\<close>

definition stage_event ::
  "audit_link \<Rightarrow> (int \<Rightarrow> static_audit_event) \<Rightarrow> (u64 \<Rightarrow> 's \<Rightarrow> ('e, unit) result \<times> 's) \<Rightarrow>
     's \<Rightarrow> ozon_tables \<Rightarrow> (plan_store_error, unit) result \<times> 's \<times> ozon_tables" where
  "stage_event lk build marker s t =
     (if 2 ^ 63 - 1 \<le> oz_sequence t then (Error Plan_Unavailable, s, t)
      else let event_id = oz_sequence t + 1; ev = build event_id; t' = t\<lparr>oz_sequence := event_id\<rparr> in
        if \<not> audit_event_check ev then (Error Plan_Unavailable, s, t')
        else case marker (word_of_int event_id) s of
          (Inl e, s') \<Rightarrow> (map_err Plan_Unavailable (Inl e), s', t')
        | (Inr _, s') \<Rightarrow>
            (let committed = t'\<lparr>oz_events := ev # oz_events t'\<rparr> in
             case lk of
               AuditAnswered \<Rightarrow> (Ok (), s', committed)
             | CommitLost \<Rightarrow> (Error Plan_Unavailable, s', committed)
             | _ \<Rightarrow> (Error Plan_Unavailable, s', t')))"


section \<open>The operations\<close>

record static_write_intent =
  wi_account_id :: string
  wi_sku :: u64
  wi_campaign_id :: u64
  wi_mutation :: static_guard_mutation
  wi_target_bid_microrubles :: "u64 option"
  wi_config_digest :: string

definition intent_target_bid ::
  "static_write_intent \<Rightarrow> (plan_store_error, int option) result" where
  "intent_target_bid i =
     (case (wi_mutation i, wi_target_bid_microrubles i) of
        (Mut_SetBid, Some bid) \<Rightarrow>
          if bid = 0 then Error Plan_InvalidPlan
          else and_then (plan_i64 bid) (\<lambda>n. Ok (Some n))
      | (Mut_SetBid, None) \<Rightarrow> Error Plan_InvalidPlan
      | (_, None) \<Rightarrow> Ok None
      | (_, Some _) \<Rightarrow> Error Plan_InvalidPlan)"

text \<open>The checks before the session, with the numbers in the width of the columns.\<close>

definition validate_write_intent ::
  "u32 \<Rightarrow> u64 \<Rightarrow> string \<Rightarrow> static_write_intent \<Rightarrow> string \<Rightarrow>
     (plan_store_error, int option \<times> int \<times> int \<times> int \<times> int) result" where
  "validate_write_intent schema revision digest i worker_id =
     ensure (valid_hex_digest digest \<and> valid_identity (wi_account_id i) \<and>
             valid_identity worker_id \<and> valid_hex_digest (wi_config_digest i)) Plan_InvalidPlan
     (and_then (intent_target_bid i) (\<lambda>target_bid.
      ensure (schema \<noteq> 0 \<and> revision \<noteq> 0 \<and> wi_sku i \<noteq> 0 \<and> wi_campaign_id i \<noteq> 0) Plan_InvalidPlan
     (and_then (plan_i32 schema) (\<lambda>schema.
      and_then (plan_i64 revision) (\<lambda>revision.
      and_then (plan_i64 (wi_sku i)) (\<lambda>sku.
      and_then (plan_i64 (wi_campaign_id i)) (\<lambda>campaign_id.
      Ok (target_bid, schema, revision, sku, campaign_id))))))))"

definition authorize_static_guard_write ::
  "audit_link \<Rightarrow> instant \<Rightarrow> u32 \<Rightarrow> u64 \<Rightarrow> string \<Rightarrow> static_write_intent \<Rightarrow> string \<Rightarrow> u64 option \<Rightarrow>
     (u64 \<Rightarrow> 's \<Rightarrow> ('e, unit) result \<times> 's) \<Rightarrow> 's \<Rightarrow> ozon_tables \<Rightarrow>
     (plan_store_error, unit) result \<times> 's \<times> ozon_tables" where
  "authorize_static_guard_write lk now schema revision digest i worker_id expected_prior marker s t =
     (case validate_write_intent schema revision digest i worker_id of
        Inl e \<Rightarrow> (Inl e, s, t)
      | Inr (target_bid, schema, revision, sku, campaign_id) \<Rightarrow>
          if lk = AuditUnreached then (Error Plan_Unavailable, s, t)
          else if expected_prior = None then (Error Plan_InvalidState, s, t)
          else case and_then (lock_static_guard_audit_cursor (wi_account_id i) expected_prior t) (\<lambda>_.
                    and_then (require_policy schema revision digest t) (\<lambda>_.
                    require_gates now (wi_account_id i) sku t)) of
            Inl e \<Rightarrow> (Inl e, s, t)
          | Inr _ \<Rightarrow>
              stage_event lk (\<lambda>event_id. \<lparr>
                  ae_event_id = event_id, ae_account_id = wi_account_id i, ae_sku = Some sku,
                  ae_campaign_id = Some campaign_id, ae_mutation = Some (wi_mutation i),
                  ae_target_bid = target_bid, ae_config_digest = wi_config_digest i,
                  ae_schema_version = schema, ae_policy_revision = revision,
                  ae_policy_digest = digest, ae_worker_id = worker_id,
                  ae_event_type = ''write_authorized''\<rparr>) marker s t)"

definition initialize_static_guard_state ::
  "audit_link \<Rightarrow> u32 \<Rightarrow> u64 \<Rightarrow> string \<Rightarrow> string \<Rightarrow> string \<Rightarrow> string \<Rightarrow> u64 option \<Rightarrow>
     (u64 \<Rightarrow> 's \<Rightarrow> ('e, unit) result \<times> 's) \<Rightarrow> 's \<Rightarrow> ozon_tables \<Rightarrow>
     (plan_store_error, unit) result \<times> 's \<times> ozon_tables" where
  "initialize_static_guard_state lk schema revision digest account config_digest worker_id
     expected_prior cursor s t =
     (case ensure (valid_hex_digest digest \<and> valid_identity account \<and>
                   valid_hex_digest config_digest \<and> valid_identity worker_id \<and>
                   schema \<noteq> 0 \<and> revision \<noteq> 0) Plan_InvalidPlan
           (and_then (plan_i32 schema) (\<lambda>schema.
            and_then (plan_i64 revision) (\<lambda>revision. Ok (schema, revision)))) of
        Inl e \<Rightarrow> (Inl e, s, t)
      | Inr (schema, revision) \<Rightarrow>
          if lk = AuditUnreached then (Error Plan_Unavailable, s, t)
          else case and_then (lock_static_guard_audit_cursor account expected_prior t) (\<lambda>_.
                    require_policy schema revision digest t) of
            Inl e \<Rightarrow> (Inl e, s, t)
          | Inr _ \<Rightarrow>
              stage_event lk (\<lambda>event_id. \<lparr>
                  ae_event_id = event_id, ae_account_id = account, ae_sku = None,
                  ae_campaign_id = None, ae_mutation = None, ae_target_bid = None,
                  ae_config_digest = config_digest, ae_schema_version = schema,
                  ae_policy_revision = revision, ae_policy_digest = digest,
                  ae_worker_id = worker_id, ae_event_type = ''state_initialized''\<rparr>) cursor s t)"

end
