(* ===== verification/Ozon_Static.thy ===== *)
theory Ozon_Static
  imports Ozon_Client Ozon_State Ozon_Audit Ozon_Telemetry
begin

text \<open>
  The static Ozon guard: \<open>src/src/control/ozon/guard_runtime.rs\<close> with
  \<open>guard_runtime/static_cycle.rs\<close>, \<open>static_runtime.rs\<close> and \<open>startup.rs\<close>. A process keeps a set of
  reviewed campaigns inside a spend and DRR guard. Its state is in memory and in a local
  file; each write is authorized by an audit event and marked as pending in the file before
  it leaves, and recovery after that only reads.

  The answers of the outside world come from an oracle: \<open>ask\<close> takes the next one. So every
  read, save, clock and write of a run is independent of the others. The statistics rows and
  the position are parsed answers; the executor lease is not modelled.
\<close>


section \<open>Data\<close>

record registry_account =
  ra_id :: string
  ra_ozon :: "(string \<times> string option) option"

record guard_authority =
  ga_policy :: control_policy
  ga_runtime_account_id :: string
  ga_store :: string
  ga_executor_fingerprint :: string
  ga_worker_id :: string
  ga_config_digest :: string

record answer =
  an_save :: save_outcome
  an_read :: "json option"
  an_rows :: "guard_metric_row list option"
  an_position :: "position_signal option"
  an_position_ready :: bool
  an_now :: instant
  an_write :: ozon_env
  an_registry :: "registry_account list option"
  an_config :: "string option"
  an_link :: audit_link
  an_database_now :: instant
  an_readable :: bool

record static_runtime =
  rt_libraries :: ozon_libraries
  rt_client :: ozon_client
  rt_authority :: guard_authority
  rt_guards :: "static_campaign_guard list"
  rt_control :: "dynamic_bid_control option"
  rt_answers :: "nat \<Rightarrow> answer"

record static_local =
  sl_memory :: static_state
  sl_file :: "static_state option"
  sl_tables :: ozon_tables

record static_world =
  sw_ozon :: "static_local ozon_world"
  sw_tick :: nat

datatype marker_error =
    NotMonotonic
  | MarkerNotSaved
  | RegistryUnavailable
  | RegistryChanged
  | ReloadFailed
  | GuardPolicyChanged
  | GuardConfigChanged
  | OutsideReviewedCorridor
  | NotAuthorized plan_store_error

datatype static_error =
    StaticState static_state_error
  | StaticConfig static_guard_error
  | StaticPlan plan_store_error
  | StaticMarker marker_error
  | OutsideScope
  | PendingDisappeared
  | AlreadyPending
  | FailedBeforeMarker
  | MissingMarker
  | WriteUnconfirmed
  | ReadUnavailable
  | TelemetryFailed guard_telemetry_error
  | TelemetryFailedClosed
  | MissingMetrics
  | GuardLimitsInvalid guard_evaluation_error
  | ProductInvalid product_guard_error
  | SkuDiffers
  | PacingFailed bid_pacing_error
  | BidReadbackDiffers
  | NotInitialized
  | WatermarkDiffers
  | InitializationRefused
  | PositionReaderUnavailable
  | CycleFailureLimit
  | UnresolvedIncidents
  | StalePending

type_synonym 'a static_run = "(static_error, 'a) result \<times> static_world"

definition bind_run :: "'a static_run \<Rightarrow> ('a \<Rightarrow> static_world \<Rightarrow> 'b static_run) \<Rightarrow> 'b static_run" where
  "bind_run r f = (case fst r of Inl e \<Rightarrow> (Inl e, snd r) | Inr x \<Rightarrow> f x (snd r))"

definition ask :: "static_runtime \<Rightarrow> static_world \<Rightarrow> answer \<times> static_world" where
  "ask rt w = (rt_answers rt (sw_tick w), w\<lparr>sw_tick := Suc (sw_tick w)\<rparr>)"

definition local_of :: "static_world \<Rightarrow> static_local" where
  "local_of w = ow_caller (sw_ozon w)"

definition memory_of :: "static_world \<Rightarrow> static_state" where
  "memory_of w = sl_memory (local_of w)"

definition set_local :: "static_local \<Rightarrow> static_world \<Rightarrow> static_world" where
  "set_local l w = w\<lparr>sw_ozon := (sw_ozon w)\<lparr>ow_caller := l\<rparr>\<rparr>"

definition update_memory :: "(static_state \<Rightarrow> static_state) \<Rightarrow> static_world \<Rightarrow> static_world" where
  "update_memory f w = set_local ((local_of w)\<lparr>sl_memory := f (memory_of w)\<rparr>) w"

text \<open>\<open>persist_static_state(state_path, state)?\<close>.\<close>

definition save_memory :: "static_runtime \<Rightarrow> static_world \<Rightarrow> unit static_run" where
  "save_memory rt w =
     (let (a, w) = ask rt w; l = local_of w;
          (r, stored) = persist_static_state (rt_libraries rt) (an_save a) (sl_memory l) (sl_file l)
      in (wrap_err StaticState r, set_local (l\<lparr>sl_file := stored\<rparr>) w))"

definition campaign_of :: "static_campaign_guard \<Rightarrow> u64" where
  "campaign_of sg = cg_campaign_id (sg_guard sg)"

definition find_guard :: "static_runtime \<Rightarrow> u64 \<Rightarrow> static_campaign_guard option" where
  "find_guard rt campaign_id = find (\<lambda>sg. campaign_of sg = campaign_id) (rt_guards rt)"


section \<open>Authorization of a write\<close>

definition validate_static_runtime_registry ::
  "registry_account list \<Rightarrow> guard_authority \<Rightarrow> (marker_error, unit) result" where
  "validate_static_runtime_registry accounts ga =
     (case find (\<lambda>a. ra_id a = ga_runtime_account_id ga) accounts of
        None \<Rightarrow> Error RegistryChanged
      | Some account \<Rightarrow>
          (case ra_ozon account of
             None \<Rightarrow> Error RegistryChanged
           | Some (store, fingerprint) \<Rightarrow>
               ensure (store = ga_store ga \<and> fingerprint = Some (ga_executor_fingerprint ga))
                 RegistryChanged (Ok ())))"

definition load_static_guards ::
  "ozon_libraries \<Rightarrow> string option \<Rightarrow> string \<Rightarrow>
     (static_guard_error, static_guard_config \<times> string) result" where
  "load_static_guards ol bytes account_id =
     (case bytes of
        None \<Rightarrow> Error InvalidSize
      | Some b \<Rightarrow>
          and_then (parse_ozon_static_guard_config ol b account_id)
            (\<lambda>config. Ok (config, sha256_hex (wl_core (ol_web ol)) b)))"

definition validate_reloaded_static_guard ::
  "static_guard_config \<Rightarrow> string \<Rightarrow> string \<Rightarrow> control_policy \<Rightarrow> static_campaign_guard \<Rightarrow>
     static_guard_mutation \<Rightarrow> u64 option \<Rightarrow> (marker_error, unit) result" where
  "validate_reloaded_static_guard config digest startup_digest policy sg mutation target =
     and_then (map_err GuardPolicyChanged (validate_ozon_static_guard_policy config policy)) (\<lambda>_.
     ensure (digest = startup_digest \<and> sg \<in> set (sc_guards config)) GuardConfigChanged
     (ensure (case (mutation, target) of
                (Mut_SetBid, Some bid) \<Rightarrow>
                  sg_min_cpc_bid_microrubles sg \<le> bid \<and> bid \<le> sg_max_cpc_bid_microrubles sg
              | (Mut_SetBid, None) \<Rightarrow> False
              | (_, None) \<Rightarrow> True
              | (_, Some _) \<Rightarrow> False) OutsideReviewedCorridor
     (Ok ())))"

definition advance_static_audit_watermark ::
  "static_state \<Rightarrow> u64 \<Rightarrow> (marker_error, static_state) result" where
  "advance_static_audit_watermark st event_id =
     ensure (event_id \<noteq> 0 \<and>
             (case ss_last_static_audit_event_id st of None \<Rightarrow> True | Some p \<Rightarrow> p < event_id))
       NotMonotonic
     (Ok (st\<lparr>ss_last_static_audit_event_id := Some event_id\<rparr>))"

text \<open>
  The local marker of a mutation: advance the watermark, insert the pending entry, save; a
  failed save takes both back in memory.
\<close>

definition static_marker ::
  "ozon_libraries \<Rightarrow> save_outcome \<Rightarrow> (static_state \<Rightarrow> static_state) \<Rightarrow>
     (static_state \<Rightarrow> static_state) \<Rightarrow> u64 \<Rightarrow> static_state \<times> static_state option \<Rightarrow>
     (marker_error, unit) result \<times> static_state \<times> static_state option" where
  "static_marker ol outcome insert_pending remove_pending event_id s =
     (let (st, stored) = s in
      case advance_static_audit_watermark st event_id of
        Inl e \<Rightarrow> (Inl e, s)
      | Inr advanced \<Rightarrow>
          (let marked = insert_pending advanced;
               (r, stored') = persist_static_state ol outcome marked stored
           in case r of
             Inl e \<Rightarrow>
               (map_err MarkerNotSaved (Inl e),
                (remove_pending marked)\<lparr>ss_last_static_audit_event_id :=
                   ss_last_static_audit_event_id st\<rparr>, stored')
           | Inr _ \<Rightarrow> (Ok (), marked, stored')))"

definition persist_marker ::
  "static_runtime \<Rightarrow> answer \<Rightarrow> static_campaign_guard \<Rightarrow> static_guard_mutation \<Rightarrow> u64 option \<Rightarrow>
     u64 option \<Rightarrow>
     (u64 \<Rightarrow> static_state \<times> static_state option \<Rightarrow>
        (marker_error, unit) result \<times> static_state \<times> static_state option) \<Rightarrow>
     static_local \<Rightarrow> (marker_error, unit) result \<times> static_local" where
  "persist_marker rt a sg mutation target expected_prior marker l =
     (let ol = rt_libraries rt; ga = rt_authority rt;
          checked =
            and_then (ok_or (an_registry a) RegistryUnavailable) (\<lambda>accounts.
            and_then (validate_static_runtime_registry accounts ga) (\<lambda>_.
            and_then (map_err ReloadFailed (load_static_guards ol (an_config a)
                        (ga_runtime_account_id ga))) (\<lambda>(config, digest).
            validate_reloaded_static_guard config digest (ga_config_digest ga) (ga_policy ga) sg
              mutation target)))
      in case checked of
        Inl e \<Rightarrow> (Inl e, l)
      | Inr _ \<Rightarrow>
          (let (r, s, t) = authorize_static_guard_write (an_link a) (an_database_now a)
                 (cp_version (ga_policy ga)) (cp_revision (ga_policy ga)) (cp_digest (ga_policy ga))
                 \<lparr>wi_account_id = cg_account_id (sg_guard sg), wi_sku = cg_sku (sg_guard sg),
                  wi_campaign_id = campaign_of sg, wi_mutation = mutation,
                  wi_target_bid_microrubles = target, wi_config_digest = ga_config_digest ga\<rparr>
                 (ga_worker_id ga) expected_prior marker (sl_memory l, sl_file l) (sl_tables l)
           in (wrap_err NotAuthorized r,
               l\<lparr>sl_memory := fst s, sl_file := snd s, sl_tables := t\<rparr>)))"

definition static_write ::
  "static_runtime \<Rightarrow> static_campaign_guard \<Rightarrow> static_guard_mutation \<Rightarrow> u64 option \<Rightarrow> ozon_request \<Rightarrow>
     (static_state \<Rightarrow> static_state) \<Rightarrow> (static_state \<Rightarrow> static_state) \<Rightarrow> static_world \<Rightarrow>
     (marker_error ozon_guarded_error, string) result \<times> static_world" where
  "static_write rt sg mutation target request insert_pending remove_pending w =
     (let prior = ss_last_static_audit_event_id (memory_of w);
          (a, w) = ask rt w;
          (r, oz) = ozon_guarded_write (rt_libraries rt) (rt_client rt) (an_write a) request
                      (persist_marker rt a sg mutation target prior
                         (static_marker (rt_libraries rt) (an_save a) insert_pending remove_pending))
                      (sw_ozon w)
      in (r, w\<lparr>sw_ozon := oz\<rparr>))"


section \<open>Reads\<close>

definition campaign_product_snapshot :: "static_runtime \<Rightarrow> static_world \<Rightarrow> json static_run" where
  "campaign_product_snapshot rt w =
     (let (a, w) = ask rt w in (ok_or (an_read a) ReadUnavailable, w))"

definition exact_static_product_bid :: "json \<Rightarrow> u64 \<Rightarrow> (static_error, u64) result" where
  "exact_static_product_bid snapshot expected_sku =
     and_then (wrap_err ProductInvalid (parse_ozon_campaign_product snapshot)) (\<lambda>(sku, bid).
     ensure (sku = expected_sku) SkuDiffers (Ok bid))"

definition read_exact_bid ::
  "static_runtime \<Rightarrow> static_campaign_guard \<Rightarrow> static_world \<Rightarrow> u64 static_run" where
  "read_exact_bid rt sg w =
     bind_run (campaign_product_snapshot rt w) (\<lambda>snapshot w.
       (exact_static_product_bid snapshot (cg_sku (sg_guard sg)), w))"

definition validate_static_campaign_product ::
  "static_runtime \<Rightarrow> static_campaign_guard \<Rightarrow> static_world \<Rightarrow> u64 static_run" where
  "validate_static_campaign_product rt sg w =
     bind_run (campaign_product_snapshot rt w) (\<lambda>snapshot w.
       (wrap_err ProductInvalid (validate_ozon_campaign_product_guard snapshot
          (cg_sku (sg_guard sg)) (sg_min_cpc_bid_microrubles sg) (sg_max_cpc_bid_microrubles sg)), w))"

definition campaign_is_running ::
  "static_runtime \<Rightarrow> u64 \<Rightarrow> static_world \<Rightarrow> bool static_run" where
  "campaign_is_running rt campaign_id w =
     (let (a, w) = ask rt w in
      (and_then (ok_or (an_read a) ReadUnavailable) (\<lambda>snapshot.
       and_then (wrap_err TelemetryFailed (parse_complete_running_campaigns snapshot {campaign_id}))
         (\<lambda>running. Ok (campaign_id \<in> running))), w))"

definition running_static_campaigns :: "static_runtime \<Rightarrow> static_world \<Rightarrow> u64 set static_run" where
  "running_static_campaigns rt w =
     (let (a, w) = ask rt w in
      (and_then (ok_or (an_read a) ReadUnavailable) (\<lambda>snapshot.
       wrap_err TelemetryFailed
         (parse_complete_running_campaigns snapshot (set (map campaign_of (rt_guards rt))))), w))"


section \<open>Pending entries and incidents\<close>

definition pending_campaign_mutation_matches_guard ::
  "pending_campaign_mutation \<Rightarrow> static_campaign_guard \<Rightarrow> bool" where
  "pending_campaign_mutation_matches_guard p sg \<longleftrightarrow>
     sm_account_id p = cg_account_id (sg_guard sg) \<and> sm_sku p = cg_sku (sg_guard sg) \<and>
     sm_min_cpc_bid_microrubles p = sg_min_cpc_bid_microrubles sg \<and>
     sm_max_cpc_bid_microrubles p = sg_max_cpc_bid_microrubles sg \<and>
     sm_date_from p = cg_date_from (sg_guard sg) \<and>
     sm_spend_cap_microrubles p = cg_spend_cap_microrubles (sg_guard sg) \<and>
     sm_target_drr_percent p = cg_target_drr_percent (sg_guard sg)"

definition pending_matches_static_guard ::
  "pending_bid_change \<Rightarrow> static_campaign_guard \<Rightarrow> bool" where
  "pending_matches_static_guard p sg \<longleftrightarrow>
     sb_account_id p = Some (cg_account_id (sg_guard sg)) \<and>
     sb_sku p = Some (cg_sku (sg_guard sg)) \<and>
     sb_min_cpc_bid_microrubles p = Some (sg_min_cpc_bid_microrubles sg) \<and>
     sb_max_cpc_bid_microrubles p = Some (sg_max_cpc_bid_microrubles sg) \<and>
     sb_date_from p = Some (cg_date_from (sg_guard sg)) \<and>
     sb_spend_cap_microrubles p = Some (cg_spend_cap_microrubles (sg_guard sg)) \<and>
     sb_target_drr_percent p = Some (cg_target_drr_percent (sg_guard sg)) \<and>
     valid_static_bid_transition p"

definition pending_static_bid_matches_guard ::
  "static_state \<Rightarrow> static_campaign_guard \<Rightarrow> bool" where
  "pending_static_bid_matches_guard st sg \<longleftrightarrow>
     (case btree_get (ss_pending_bid_changes st) (campaign_of sg) of
        None \<Rightarrow> True
      | Some p \<Rightarrow> pending_matches_static_guard p sg)"

definition pending_bid_of ::
  "static_campaign_guard \<Rightarrow> u64 \<Rightarrow> u64 \<Rightarrow> instant \<Rightarrow> pending_bid_change" where
  "pending_bid_of sg from_bid to_bid started_at = \<lparr>
     sb_account_id = Some (cg_account_id (sg_guard sg)),
     sb_sku = Some (cg_sku (sg_guard sg)),
     sb_min_cpc_bid_microrubles = Some (sg_min_cpc_bid_microrubles sg),
     sb_max_cpc_bid_microrubles = Some (sg_max_cpc_bid_microrubles sg),
     sb_date_from = Some (cg_date_from (sg_guard sg)),
     sb_spend_cap_microrubles = Some (cg_spend_cap_microrubles (sg_guard sg)),
     sb_target_drr_percent = Some (cg_target_drr_percent (sg_guard sg)),
     sb_from_microrubles = from_bid,
     sb_to_microrubles = to_bid,
     sb_started_at = started_at\<rparr>"

definition pending_mutation_of ::
  "static_campaign_guard \<Rightarrow> campaign_mutation_kind \<Rightarrow> string option \<Rightarrow> u64 option \<Rightarrow> u64 option \<Rightarrow>
     instant \<Rightarrow> pending_campaign_mutation" where
  "pending_mutation_of sg kind stop_reason spend_minor revenue_minor started_at = \<lparr>
     sm_account_id = cg_account_id (sg_guard sg),
     sm_sku = cg_sku (sg_guard sg),
     sm_min_cpc_bid_microrubles = sg_min_cpc_bid_microrubles sg,
     sm_max_cpc_bid_microrubles = sg_max_cpc_bid_microrubles sg,
     sm_date_from = cg_date_from (sg_guard sg),
     sm_spend_cap_microrubles = cg_spend_cap_microrubles (sg_guard sg),
     sm_target_drr_percent = cg_target_drr_percent (sg_guard sg),
     sm_kind = kind,
     sm_stop_reason = stop_reason,
     sm_spend_minor = spend_minor,
     sm_revenue_minor = revenue_minor,
     sm_started_at = started_at\<rparr>"

definition insert_pending_bid :: "u64 \<Rightarrow> pending_bid_change \<Rightarrow> static_state \<Rightarrow> static_state" where
  "insert_pending_bid c p st =
     st\<lparr>ss_pending_bid_changes := btree_insert c p (ss_pending_bid_changes st)\<rparr>"

definition remove_pending_bid :: "u64 \<Rightarrow> static_state \<Rightarrow> static_state" where
  "remove_pending_bid c st =
     st\<lparr>ss_pending_bid_changes := btree_remove c (ss_pending_bid_changes st)\<rparr>"

definition insert_pending_mutation ::
  "u64 \<Rightarrow> pending_campaign_mutation \<Rightarrow> static_state \<Rightarrow> static_state" where
  "insert_pending_mutation c p st =
     st\<lparr>ss_pending_campaign_mutations := btree_insert c p (ss_pending_campaign_mutations st)\<rparr>"

definition remove_pending_mutation :: "u64 \<Rightarrow> static_state \<Rightarrow> static_state" where
  "remove_pending_mutation c st =
     st\<lparr>ss_pending_campaign_mutations := btree_remove c (ss_pending_campaign_mutations st)\<rparr>"

definition note_bid_change :: "u64 \<Rightarrow> instant \<Rightarrow> static_state \<Rightarrow> static_state" where
  "note_bid_change c started_at st =
     (remove_pending_bid c st)\<lparr>ss_last_bid_change_at :=
        btree_insert c started_at (ss_last_bid_change_at st)\<rparr>"

definition incident_of ::
  "static_campaign_guard \<Rightarrow> string option \<Rightarrow> string \<Rightarrow> u64 option \<Rightarrow> u64 option \<Rightarrow> instant \<Rightarrow>
     static_incident" where
  "incident_of sg stop_reason error_class spend_minor revenue_minor occurred_at = \<lparr>
     si_account_id = Some (cg_account_id (sg_guard sg)),
     si_sku = Some (cg_sku (sg_guard sg)),
     si_min_cpc_bid_microrubles = Some (sg_min_cpc_bid_microrubles sg),
     si_max_cpc_bid_microrubles = Some (sg_max_cpc_bid_microrubles sg),
     si_date_from = Some (cg_date_from (sg_guard sg)),
     si_spend_cap_microrubles = Some (cg_spend_cap_microrubles (sg_guard sg)),
     si_target_drr_percent = Some (cg_target_drr_percent (sg_guard sg)),
     si_stop_reason = stop_reason,
     si_error_class = error_class,
     si_spend_minor = spend_minor,
     si_revenue_minor = revenue_minor,
     si_occurred_at = occurred_at\<rparr>"

definition record_static_guard_incident ::
  "static_runtime \<Rightarrow> static_campaign_guard \<Rightarrow> string option \<Rightarrow> string \<Rightarrow> u64 option \<Rightarrow> u64 option \<Rightarrow>
     static_world \<Rightarrow> unit static_run" where
  "record_static_guard_incident rt sg stop_reason error_class spend_minor revenue_minor w =
     (let (a, w) = ask rt w; c = campaign_of sg in
      save_memory rt (update_memory (\<lambda>st. st\<lparr>
        ss_incident_campaign_ids := insert c (ss_incident_campaign_ids st),
        ss_incidents := or_insert c
          (incident_of sg stop_reason error_class spend_minor revenue_minor (an_now a))
          (ss_incidents st)\<rparr>) w))"


section \<open>Recovery\<close>

definition recover_campaign_mutation ::
  "static_runtime \<Rightarrow> u64 \<Rightarrow> static_world \<Rightarrow> unit static_run" where
  "recover_campaign_mutation rt campaign_id w =
     (case find_guard rt campaign_id of
        None \<Rightarrow> (Error OutsideScope, w)
      | Some sg \<Rightarrow>
          (case btree_get (ss_pending_campaign_mutations (memory_of w)) campaign_id of
             None \<Rightarrow> (Error PendingDisappeared, w)
           | Some p \<Rightarrow>
               if \<not> pending_campaign_mutation_matches_guard p sg
               then record_static_guard_incident rt sg (sm_stop_reason p)
                      ''pending_mutation_config_mismatch'' (sm_spend_minor p) (sm_revenue_minor p) w
               else
                 (let (readback, w) = campaign_is_running rt campaign_id w in
                  case readback of
                    Inr is_running \<Rightarrow>
                      if is_running = (sm_kind p = MutationActivate)
                      then save_memory rt (update_memory (remove_pending_mutation campaign_id) w)
                      else record_static_guard_incident rt sg (sm_stop_reason p)
                             (case sm_kind p of
                                MutationDeactivate \<Rightarrow> ''pending_deactivate_readback_mismatch''
                              | MutationActivate \<Rightarrow> ''pending_activate_readback_mismatch'')
                             (sm_spend_minor p) (sm_revenue_minor p) w
                  | Inl _ \<Rightarrow>
                      record_static_guard_incident rt sg (sm_stop_reason p)
                        ''pending_campaign_readback_unavailable'' (sm_spend_minor p)
                        (sm_revenue_minor p) w)))"

fun for_campaigns ::
  "(u64 \<Rightarrow> static_world \<Rightarrow> unit static_run) \<Rightarrow> u64 list \<Rightarrow> static_world \<Rightarrow> unit static_run" where
  "for_campaigns f [] w = (Ok (), w)"
| "for_campaigns f (c # cs) w = bind_run (f c w) (\<lambda>_. for_campaigns f cs)"

definition recover_pending_static_campaign_mutations ::
  "static_runtime \<Rightarrow> static_world \<Rightarrow> unit static_run" where
  "recover_pending_static_campaign_mutations rt w =
     for_campaigns (recover_campaign_mutation rt)
       (btree_keys (ss_pending_campaign_mutations (memory_of w))) w"

definition reconcile_pending_static_bid ::
  "static_runtime \<Rightarrow> static_campaign_guard \<Rightarrow> u64 \<Rightarrow> static_world \<Rightarrow> unit static_run" where
  "reconcile_pending_static_bid rt sg current_bid w =
     (case btree_get (ss_pending_bid_changes (memory_of w)) (campaign_of sg) of
        None \<Rightarrow> (Ok (), w)
      | Some p \<Rightarrow>
          if pending_matches_static_guard p sg \<and> current_bid = sb_to_microrubles p
          then save_memory rt
                 (update_memory (note_bid_change (campaign_of sg) (sb_started_at p)) w)
          else record_static_guard_incident rt sg None ''pending_bid_readback_mismatch'' None None w)"

definition recover_static_bid ::
  "static_runtime \<Rightarrow> u64 \<Rightarrow> static_world \<Rightarrow> unit static_run" where
  "recover_static_bid rt campaign_id w =
     (case find_guard rt campaign_id of
        None \<Rightarrow> (Error OutsideScope, w)
      | Some sg \<Rightarrow>
          if \<not> pending_static_bid_matches_guard (memory_of w) sg
          then record_static_guard_incident rt sg None ''pending_bid_config_mismatch'' None None w
          else
            (let (readback, w) = read_exact_bid rt sg w in
             case readback of
               Inr current_bid \<Rightarrow> reconcile_pending_static_bid rt sg current_bid w
             | Inl _ \<Rightarrow>
                 record_static_guard_incident rt sg None ''pending_bid_readback_unavailable''
                   None None w))"

definition recover_pending_static_bids :: "static_runtime \<Rightarrow> static_world \<Rightarrow> unit static_run" where
  "recover_pending_static_bids rt w =
     for_campaigns (recover_static_bid rt)
       (btree_keys (ss_pending_bid_changes (memory_of w))) w"


section \<open>Mutations\<close>

definition bid_request :: "static_campaign_guard \<Rightarrow> u64 \<Rightarrow> ozon_request" where
  "bid_request sg to_bid =
     OzonUpdateProducts (campaign_of sg) TargetBids
       [\<lparr>op_sku = cg_sku (sg_guard sg), op_bid = Some to_bid, op_target_cir = None,
         op_top_position = None\<rparr>]"

definition marker_missing ::
  "('e ozon_guarded_error, string) result \<Rightarrow> static_error" where
  "marker_missing write = (case write of Inl _ \<Rightarrow> FailedBeforeMarker | Inr _ \<Rightarrow> MissingMarker)"

definition change_static_campaign_bid ::
  "static_runtime \<Rightarrow> static_campaign_guard \<Rightarrow> u64 \<Rightarrow> u64 \<Rightarrow> instant \<Rightarrow> static_world \<Rightarrow>
     unit static_run" where
  "change_static_campaign_bid rt sg from_bid to_bid started_at w =
     (let c = campaign_of sg in
      if btree_get (ss_pending_bid_changes (memory_of w)) c \<noteq> None then (Error AlreadyPending, w)
      else
        (let (write, w) = static_write rt sg Mut_SetBid (Some to_bid) (bid_request sg to_bid)
               (insert_pending_bid c (pending_bid_of sg from_bid to_bid started_at))
               (remove_pending_bid c) w
         in if btree_get (ss_pending_bid_changes (memory_of w)) c = None
            then (Error (marker_missing write), w)
            else
              (let (readback, w) = read_exact_bid rt sg w in
               if readback = Ok to_bid
               then save_memory rt (update_memory (note_bid_change c started_at) w)
               else bind_run (record_static_guard_incident rt sg None ''bid_write_unconfirmed''
                                None None w)
                      (\<lambda>_ w. (Error WriteUnconfirmed, w)))))"

text \<open>
  \<open>activate_static_campaign_with_io\<close> and \<open>guard_campaign_static_with_io\<close> differ in the request,
  the evidence and the labels of their incidents.
\<close>

definition campaign_request :: "campaign_mutation_kind \<Rightarrow> u64 \<Rightarrow> ozon_request" where
  "campaign_request kind c =
     (case kind of MutationActivate \<Rightarrow> OzonActivate c | MutationDeactivate \<Rightarrow> OzonDeactivate c)"

definition audit_mutation :: "campaign_mutation_kind \<Rightarrow> static_guard_mutation" where
  "audit_mutation kind =
     (case kind of MutationActivate \<Rightarrow> Mut_Activate | MutationDeactivate \<Rightarrow> Mut_Deactivate)"

definition mutation_label :: "campaign_mutation_kind \<Rightarrow> string \<Rightarrow> string" where
  "mutation_label kind suffix =
     (case kind of MutationActivate \<Rightarrow> ''activate'' | MutationDeactivate \<Rightarrow> ''deactivate'') @ suffix"

definition mutate_static_campaign ::
  "static_runtime \<Rightarrow> static_campaign_guard \<Rightarrow> campaign_mutation_kind \<Rightarrow> string option \<Rightarrow>
     u64 option \<Rightarrow> u64 option \<Rightarrow> static_world \<Rightarrow> unit static_run" where
  "mutate_static_campaign rt sg kind stop_reason spend_minor revenue_minor w =
     (let c = campaign_of sg in
      if btree_get (ss_pending_campaign_mutations (memory_of w)) c \<noteq> None
      then (Error AlreadyPending, w)
      else
        (let (a, w) = ask rt w;
             (write, w) = static_write rt sg (audit_mutation kind) None (campaign_request kind c)
               (insert_pending_mutation c
                  (pending_mutation_of sg kind stop_reason spend_minor revenue_minor (an_now a)))
               (remove_pending_mutation c) w
         in if btree_get (ss_pending_campaign_mutations (memory_of w)) c = None
            then (Error (marker_missing write), w)
            else
              (let (readback, w) = campaign_is_running rt c w in
               if readback = Ok (kind = MutationActivate)
               then save_memory rt (update_memory (remove_pending_mutation c) w)
               else bind_run (record_static_guard_incident rt sg stop_reason
                      (mutation_label kind
                         (case readback of
                            Inl _ \<Rightarrow> ''_readback_unavailable''
                          | Inr _ \<Rightarrow> (case write of Inl _ \<Rightarrow> ''_write_failed''
                                               | Inr _ \<Rightarrow> ''_readback_mismatch'')))
                      spend_minor revenue_minor w)
                 (\<lambda>_ w. (Error WriteUnconfirmed, w)))))"

definition activate_static_campaign ::
  "static_runtime \<Rightarrow> static_campaign_guard \<Rightarrow> static_world \<Rightarrow> unit static_run" where
  "activate_static_campaign rt sg w = mutate_static_campaign rt sg MutationActivate None None None w"

definition guard_campaign_static ::
  "static_runtime \<Rightarrow> static_campaign_guard \<Rightarrow> u64 option \<Rightarrow> u64 option \<Rightarrow> string option \<Rightarrow>
     static_world \<Rightarrow> unit static_run" where
  "guard_campaign_static rt sg spend_minor revenue_minor stop_reason w =
     (case stop_reason of
        None \<Rightarrow> (Ok (), w)
      | Some reason \<Rightarrow>
          mutate_static_campaign rt sg MutationDeactivate (Some reason) spend_minor revenue_minor w)"

end
