(* ===== verification/Ozon_Cycle.thy ===== *)
theory Ozon_Cycle
  imports Ozon_Static
begin

text \<open>
  One cycle of the static Ozon guard (\<open>guard_runtime/static_cycle.rs\<close>), the operator's
  reconciliation, and the start and the loop of the process (\<open>static_runtime.rs\<close>,
  \<open>startup.rs\<close>).
\<close>


section \<open>Metrics\<close>

fun window_metrics ::
  "static_runtime \<Rightarrow> naive_date \<Rightarrow> (string \<times> u64 set) list \<Rightarrow> (u64 \<times> u64 \<times> u64) list \<Rightarrow>
     static_world \<Rightarrow> (u64 \<times> u64 \<times> u64) list static_run" where
  "window_metrics rt date_to [] metrics w = (Ok metrics, w)"
| "window_metrics rt date_to ((date_from, ids) # windows) metrics w =
     bind_run (ok_or (ol_parse_date (rt_libraries rt) date_from) (TelemetryFailed InvalidDateWindow), w)
       (\<lambda>from_date w.
     let (a, w) = ask rt w in
     bind_run (ok_or (an_rows a) ReadUnavailable, w) (\<lambda>rows w.
     bind_run (wrap_err TelemetryFailed
                 (aggregate_complete_guard_metrics ids from_date date_to rows), w) (\<lambda>sums w.
     window_metrics rt date_to windows
       (fold (\<lambda>(c, m). btree_insert c (gm_spend_minor m, gm_attributed_revenue_minor m)) sums
          metrics) w)))"

definition static_guard_metrics ::
  "static_runtime \<Rightarrow> u64 set \<Rightarrow> instant \<Rightarrow> static_world \<Rightarrow> (u64 \<times> u64 \<times> u64) list static_run" where
  "static_guard_metrics rt running observed_at w =
     (let ol = rt_libraries rt; date_to = ol_date_text ol (date_in yekaterinburg observed_at) in
      bind_run (ok_or (ol_parse_date ol date_to) (TelemetryFailed InvalidDateWindow), w)
        (\<lambda>date_to_value w.
      bind_run (wrap_err TelemetryFailed
                  (group_static_guard_metric_windows ol (rt_guards rt) running date_to), w)
        (\<lambda>windows w. window_metrics rt date_to_value windows [] w)))"


section \<open>One campaign of a cycle\<close>

text \<open>A failed stop is only logged: the cycle goes on.\<close>

definition request_stop ::
  "static_runtime \<Rightarrow> static_campaign_guard \<Rightarrow> u64 option \<Rightarrow> u64 option \<Rightarrow> string \<Rightarrow> static_world \<Rightarrow>
     static_world" where
  "request_stop rt sg spend_minor revenue_minor reason w =
     snd (guard_campaign_static rt sg spend_minor revenue_minor (Some reason) w)"

definition read_validated_bid ::
  "static_runtime \<Rightarrow> static_campaign_guard \<Rightarrow> u64 \<Rightarrow> u64 \<Rightarrow> static_world \<Rightarrow> u64 option static_run" where
  "read_validated_bid rt sg spend_minor revenue_minor w =
     (let (snapshot, w) = campaign_product_snapshot rt w in
      case snapshot of
        Inl _ \<Rightarrow> (Ok None, w)
      | Inr j \<Rightarrow>
          (case validate_ozon_campaign_product_guard j (cg_sku (sg_guard sg))
                  (sg_min_cpc_bid_microrubles sg) (sg_max_cpc_bid_microrubles sg) of
             Inl _ \<Rightarrow>
               (Ok None, request_stop rt sg (Some spend_minor) (Some revenue_minor)
                           ''product_guard_failed'' w)
           | Inr bid \<Rightarrow> (Ok (Some bid), w)))"

definition pacing_policy_of ::
  "static_campaign_guard \<Rightarrow> dynamic_bid_control \<Rightarrow> bid_pacing_policy" where
  "pacing_policy_of sg c = \<lparr>
     bp_min_bid_microrubles = sg_min_cpc_bid_microrubles sg,
     bp_max_bid_microrubles = sg_max_cpc_bid_microrubles sg,
     bp_bid_step_microrubles = dc_bid_step_microrubles c,
     bp_spend_cap_microrubles = cg_spend_cap_microrubles (sg_guard sg),
     bp_target_drr_percent = cg_target_drr_percent (sg_guard sg),
     bp_target_position = dc_target_position c,
     bp_cooldown_seconds = dc_cooldown_seconds c,
     bp_max_position_age_seconds = dc_max_position_age_seconds c\<rparr>"

definition apply_dynamic_bid_control ::
  "static_runtime \<Rightarrow> static_campaign_guard \<Rightarrow> dynamic_bid_control \<Rightarrow> instant \<Rightarrow> u64 \<Rightarrow> u64 \<Rightarrow> u64 \<Rightarrow>
     static_world \<Rightarrow> unit static_run" where
  "apply_dynamic_bid_control rt sg control observed_at current_bid spend_minor revenue_minor w =
     (let (a, w) = ask rt w in
      bind_run (wrap_err PacingFailed (evaluate_ozon_bid_increase_after_guard
          (pacing_policy_of sg control)
          \<lparr>bo_observed_at = observed_at, bo_current_bid_microrubles = current_bid,
           bo_spend_minor = spend_minor, bo_attributed_revenue_minor = revenue_minor,
           bo_position = an_position a,
           bo_last_bid_change_at =
             btree_get (ss_last_bid_change_at (memory_of w)) (campaign_of sg)\<rparr>), w)
        (\<lambda>action w.
      case action of
        AdjustHold _ \<Rightarrow> (Ok (), w)
      | AdjustBid from_bid to_bid \<Rightarrow>
          (Ok (), snd (change_static_campaign_bid rt sg from_bid to_bid observed_at w))))"

definition guard_observation ::
  "static_runtime \<Rightarrow> instant \<Rightarrow> (u64 \<times> u64 \<times> u64) list \<Rightarrow> static_campaign_guard \<Rightarrow> static_world \<Rightarrow>
     unit static_run" where
  "guard_observation rt observed_at metrics sg w =
     bind_run (ok_or (btree_get metrics (campaign_of sg)) MissingMetrics, w)
       (\<lambda>(spend_minor, revenue_minor) w.
     bind_run (wrap_err GuardLimitsInvalid (plan_static_guard_first_step (sg_guard sg)
         \<lparr>gm_spend_minor = spend_minor, gm_attributed_revenue_minor = revenue_minor\<rparr>), w)
       (\<lambda>step w.
     case step of
       FirstStop reason \<Rightarrow>
         (Ok (), request_stop rt sg (Some spend_minor) (Some revenue_minor)
                   (stop_reason_str reason) w)
     | InspectProduct \<Rightarrow>
         bind_run (read_validated_bid rt sg spend_minor revenue_minor w) (\<lambda>bid w.
         case (bid, rt_control rt) of
           (Some current_bid, Some control) \<Rightarrow>
             apply_dynamic_bid_control rt sg control observed_at current_bid spend_minor
               revenue_minor w
         | _ \<Rightarrow> (Ok (), w))))"


section \<open>The cycle\<close>

definition locked_or_idle :: "u64 set \<Rightarrow> static_campaign_guard \<Rightarrow> static_world \<Rightarrow> bool" where
  "locked_or_idle running sg w \<longleftrightarrow>
     campaign_of sg \<in> ss_incident_campaign_ids (memory_of w) \<or> campaign_of sg \<notin> running"

fun stop_unobserved_campaigns ::
  "static_runtime \<Rightarrow> u64 set \<Rightarrow> static_campaign_guard list \<Rightarrow> static_world \<Rightarrow> static_world" where
  "stop_unobserved_campaigns rt running [] w = w"
| "stop_unobserved_campaigns rt running (sg # sgs) w =
     stop_unobserved_campaigns rt running sgs
       (if locked_or_idle running sg w then w
        else request_stop rt sg None None ''telemetry_unavailable'' w)"

fun guard_campaigns ::
  "static_runtime \<Rightarrow> instant \<Rightarrow> u64 set \<Rightarrow> (u64 \<times> u64 \<times> u64) list \<Rightarrow> static_campaign_guard list \<Rightarrow>
     (static_error, unit) result \<Rightarrow> static_world \<Rightarrow> unit static_run" where
  "guard_campaigns rt observed_at running metrics [] outcome w = (outcome, w)"
| "guard_campaigns rt observed_at running metrics (sg # sgs) outcome w =
     (if locked_or_idle running sg w
      then guard_campaigns rt observed_at running metrics sgs outcome w
      else let (r, w) = guard_observation rt observed_at metrics sg w in
        guard_campaigns rt observed_at running metrics sgs (and_then outcome (\<lambda>_. r)) w)"

definition guard_running_campaigns ::
  "static_runtime \<Rightarrow> instant \<Rightarrow> u64 set \<Rightarrow> static_world \<Rightarrow> unit static_run" where
  "guard_running_campaigns rt observed_at running w =
     (let (metrics, w) = static_guard_metrics rt running observed_at w in
      case metrics of
        Inl _ \<Rightarrow> (Error TelemetryFailedClosed, stop_unobserved_campaigns rt running (rt_guards rt) w)
      | Inr metrics \<Rightarrow> guard_campaigns rt observed_at running metrics (rt_guards rt) (Ok ()) w)"

definition guard_once_static :: "static_runtime \<Rightarrow> instant \<Rightarrow> static_world \<Rightarrow> unit static_run" where
  "guard_once_static rt observed_at w =
     bind_run (recover_pending_static_campaign_mutations rt w) (\<lambda>_ w.
     bind_run (recover_pending_static_bids rt w) (\<lambda>_ w.
     bind_run (running_static_campaigns rt w) (\<lambda>running w.
     if running = {} then (Ok (), w) else guard_running_campaigns rt observed_at running w)))"


section \<open>Reconciliation and audit\<close>

definition clear_reconciled_static_campaign_state ::
  "static_runtime \<Rightarrow> u64 \<Rightarrow> static_world \<Rightarrow> unit static_run" where
  "clear_reconciled_static_campaign_state rt c w =
     (let st = memory_of w;
          w' = update_memory (\<lambda>st. (remove_pending_mutation c (remove_pending_bid c st))\<lparr>
                 ss_incident_campaign_ids := ss_incident_campaign_ids st - {c},
                 ss_incidents := btree_remove c (ss_incidents st)\<rparr>) w
      in if c \<in> ss_incident_campaign_ids st \<or> btree_get (ss_incidents st) c \<noteq> None \<or>
            btree_get (ss_pending_bid_changes st) c \<noteq> None \<or>
            btree_get (ss_pending_campaign_mutations st) c \<noteq> None
         then save_memory rt w' else (Ok (), w'))"

definition reconcile_bid ::
  "static_runtime \<Rightarrow> static_campaign_guard \<Rightarrow> static_world \<Rightarrow> unit static_run" where
  "reconcile_bid rt sg w =
     bind_run (campaign_product_snapshot rt w) (\<lambda>snapshot w.
     bind_run (exact_static_product_bid snapshot (cg_sku (sg_guard sg)), w) (\<lambda>current_bid w.
     let desired_bid = clamp current_bid (sg_min_cpc_bid_microrubles sg)
                         (sg_max_cpc_bid_microrubles sg) in
     if desired_bid = current_bid
     then bind_run (wrap_err ProductInvalid (validate_ozon_campaign_product_guard snapshot
            (cg_sku (sg_guard sg)) (sg_min_cpc_bid_microrubles sg)
            (sg_max_cpc_bid_microrubles sg)), w) (\<lambda>_ w. (Ok (), w))
     else
       (let (a, w) = ask rt w in
        bind_run (change_static_campaign_bid rt sg current_bid desired_bid (an_now a) w) (\<lambda>_ w.
        bind_run (validate_static_campaign_product rt sg w) (\<lambda>readback w.
        (ensure (readback = desired_bid) BidReadbackDiffers (Ok ()), w))))))"

definition reconcile_static_campaign ::
  "static_runtime \<Rightarrow> static_campaign_guard \<Rightarrow> static_world \<Rightarrow> unit static_run" where
  "reconcile_static_campaign rt sg w =
     bind_run (reconcile_bid rt sg w) (\<lambda>_ w.
     bind_run (campaign_is_running rt (campaign_of sg) w) (\<lambda>is_running w.
     bind_run (if is_running then (Ok (), w) else activate_static_campaign rt sg w) (\<lambda>_ w.
     clear_reconciled_static_campaign_state rt (campaign_of sg) w)))"

fun reconcile_static_campaigns ::
  "static_runtime \<Rightarrow> static_campaign_guard list \<Rightarrow> static_world \<Rightarrow> unit static_run" where
  "reconcile_static_campaigns rt [] w = (Ok (), w)"
| "reconcile_static_campaigns rt (sg # sgs) w =
     bind_run (reconcile_static_campaign rt sg w) (\<lambda>_. reconcile_static_campaigns rt sgs)"

fun audit_campaign_products ::
  "static_runtime \<Rightarrow> static_campaign_guard list \<Rightarrow> static_world \<Rightarrow> unit static_run" where
  "audit_campaign_products rt [] w = (Ok (), w)"
| "audit_campaign_products rt (sg # sgs) w =
     bind_run (campaign_product_snapshot rt w) (\<lambda>snapshot w.
     bind_run (wrap_err ProductInvalid (parse_ozon_campaign_product snapshot), w)
       (\<lambda>_. audit_campaign_products rt sgs))"

definition audit_static_campaigns :: "static_runtime \<Rightarrow> static_world \<Rightarrow> unit static_run" where
  "audit_static_campaigns rt w =
     bind_run (running_static_campaigns rt w) (\<lambda>_. audit_campaign_products rt (rt_guards rt))"


section \<open>The process\<close>

datatype guard_command = Serve | AuditStaticOnce | InitializeStaticState | ReconcileStaticOnce

datatype audit_continuity = ContinuityMatched | ContinuityInitialize | ContinuityReadOnly

definition validate_static_audit_continuity ::
  "static_state \<Rightarrow> u64 option \<Rightarrow> (static_error, unit) result" where
  "validate_static_audit_continuity st latest =
     ensure (ss_last_static_audit_event_id st \<noteq> None \<and> latest \<noteq> None) NotInitialized
     (ensure (ss_last_static_audit_event_id st = latest) WatermarkDiffers (Ok ()))"

definition validate_static_command_audit_continuity ::
  "guard_command \<Rightarrow> static_state \<Rightarrow> u64 option \<Rightarrow> (static_error, audit_continuity) result" where
  "validate_static_command_audit_continuity command st latest =
     (if command = InitializeStaticState
      then ensure (ss_last_static_audit_event_id st = None \<and> latest = None) InitializationRefused
             (Ok ContinuityInitialize)
      else case validate_static_audit_continuity st latest of
        Inr _ \<Rightarrow> Ok ContinuityMatched
      | Inl e \<Rightarrow> if command = AuditStaticOnce then Ok ContinuityReadOnly else Inl e)"

definition STATIC_PENDING_HEALTH_GRACE :: duration where
  "STATIC_PENDING_HEALTH_GRACE = seconds 180"

definition validate_static_state_health ::
  "static_state \<Rightarrow> instant \<Rightarrow> (static_error, unit) result" where
  "validate_static_state_health st now =
     ensure (ss_incident_campaign_ids st = {} \<and> ss_incidents st = []) UnresolvedIncidents
     (ensure (list_all (\<lambda>started_at. 0 \<le> now - started_at \<and>
                          now - started_at \<le> STATIC_PENDING_HEALTH_GRACE)
                (map sb_started_at (btree_values (ss_pending_bid_changes st)) @
                 map sm_started_at (btree_values (ss_pending_campaign_mutations st)))) StalePending
     (Ok ()))"

definition MAX_CONSECUTIVE_WORKFLOW_FAILURES :: nat where
  "MAX_CONSECUTIVE_WORKFLOW_FAILURES = 3"

definition record_static_cycle_result ::
  "(static_error, unit) result \<Rightarrow> nat \<Rightarrow> (static_error, nat) result" where
  "record_static_cycle_result r failures =
     (case r of
        Inr _ \<Rightarrow> Ok 0
      | Inl _ \<Rightarrow>
          ensure (Suc failures < MAX_CONSECUTIVE_WORKFLOW_FAILURES) CycleFailureLimit
            (Ok (Suc failures)))"

text \<open>The polling loop until the shutdown: one cycle for each instant of the list.\<close>

fun serve_static :: "static_runtime \<Rightarrow> nat \<Rightarrow> instant list \<Rightarrow> static_world \<Rightarrow> unit static_run" where
  "serve_static rt failures [] w = (Ok (), w)"
| "serve_static rt failures (t # ts) w =
     (let (r, w) = guard_once_static rt t w in
      bind_run (record_static_cycle_result r failures, w) (\<lambda>failures. serve_static rt failures ts))"

definition static_cursor ::
  "ozon_libraries \<Rightarrow> save_outcome \<Rightarrow> u64 \<Rightarrow> static_state \<times> static_state option \<Rightarrow>
     (marker_error, unit) result \<times> static_state \<times> static_state option" where
  "static_cursor ol outcome = static_marker ol outcome (\<lambda>st. st) (\<lambda>st. st)"

definition initialize_static :: "static_runtime \<Rightarrow> static_world \<Rightarrow> unit static_run" where
  "initialize_static rt w =
     (let prior = ss_last_static_audit_event_id (memory_of w); (a, w) = ask rt w;
          ga = rt_authority rt; l = local_of w;
          (r, s, t) = initialize_static_guard_state (an_link a) (cp_version (ga_policy ga))
            (cp_revision (ga_policy ga)) (cp_digest (ga_policy ga)) (ga_runtime_account_id ga)
            (ga_config_digest ga) (ga_worker_id ga) prior
            (static_cursor (rt_libraries rt) (an_save a)) (sl_memory l, sl_file l) (sl_tables l)
      in (wrap_err StaticPlan r, set_local (l\<lparr>sl_memory := fst s, sl_file := snd s, sl_tables := t\<rparr>) w))"

definition latest_static_guard_audit_event_id ::
  "static_runtime \<Rightarrow> static_world \<Rightarrow> u64 option static_run" where
  "latest_static_guard_audit_event_id rt w =
     (let account = ga_runtime_account_id (rt_authority rt); (a, w) = ask rt w in
      (ensure (valid_identity account) (StaticPlan Plan_InvalidPlan)
      (ensure (an_link a \<noteq> AuditUnreached) (StaticPlan Plan_Unavailable)
      (Ok (map_option word_of_int (latest_event_id account (sl_tables (local_of w)))))), w))"

text \<open>Load the state of the file into memory and check its scope.\<close>

definition load_into_memory :: "static_runtime \<Rightarrow> static_world \<Rightarrow> unit static_run" where
  "load_into_memory rt w =
     (let (a, w) = ask rt w in
      bind_run (wrap_err StaticState (load_static_state (rt_libraries rt) (an_readable a)
                  (sl_file (local_of w))), w) (\<lambda>st w.
      (wrap_err StaticState (validate_ozon_static_guard_state_scope (rt_libraries rt) st
         (set (map campaign_of (rt_guards rt)))), update_memory (\<lambda>_. st) w)))"

definition open_position_reader :: "static_runtime \<Rightarrow> static_world \<Rightarrow> unit static_run" where
  "open_position_reader rt w =
     (if rt_control rt = None then (Ok (), w)
      else let (a, w) = ask rt w in
        (ensure (an_position_ready a) PositionReaderUnavailable (Ok ()), w))"

definition run_static ::
  "static_runtime \<Rightarrow> guard_command \<Rightarrow> instant list \<Rightarrow> static_world \<Rightarrow> unit static_run" where
  "run_static rt command polls w =
     bind_run (wrap_err StaticConfig (validate_ozon_static_guard_policy
         \<lparr>sc_guards = rt_guards rt, sc_dynamic_bid_control = rt_control rt\<rparr>
         (ga_policy (rt_authority rt))), w) (\<lambda>_ w.
     bind_run (load_into_memory rt w) (\<lambda>_ w.
     bind_run (latest_static_guard_audit_event_id rt w) (\<lambda>latest w.
     bind_run (validate_static_command_audit_continuity command (memory_of w) latest, w)
       (\<lambda>continuity w.
     case continuity of
       ContinuityInitialize \<Rightarrow> initialize_static rt w
     | ContinuityReadOnly \<Rightarrow> audit_static_campaigns rt w
     | ContinuityMatched \<Rightarrow>
         bind_run (open_position_reader rt w) (\<lambda>_ w.
         bind_run (recover_pending_static_campaign_mutations rt w) (\<lambda>_ w.
         bind_run (recover_pending_static_bids rt w) (\<lambda>_ w.
         case command of
           AuditStaticOnce \<Rightarrow> audit_static_campaigns rt w
         | ReconcileStaticOnce \<Rightarrow> reconcile_static_campaigns rt (rt_guards rt) w
         | _ \<Rightarrow> serve_static rt 0 polls w)))))))"

end
