(* ===== verification/Ozon_Static_Facts.thy ===== *)
theory Ozon_Static_Facts
  imports Ozon_Cycle Ozon_Client_Correct
begin

text \<open>
  What one write of the static Ozon guard does: the local marker, the authorization of the
  database, and the departure. The interface \<open>cycle_relation\<close> collects the elementary moves of
  the process; a relation on worlds that holds of each of them holds of a whole cycle, and
  with the moves of \<open>run_relation\<close> of a whole run of the process.
\<close>


section \<open>Worlds\<close>

definition departures_of :: "static_world \<Rightarrow> static_local ozon_departure list" where
  "departures_of w = ow_departed (sw_ozon w)"

lemma ask_frame [simp]:
  "local_of (snd (ask rt w)) = local_of w" "memory_of (snd (ask rt w)) = memory_of w"
  "departures_of (snd (ask rt w)) = departures_of w" "fst (ask rt w) = rt_answers rt (sw_tick w)"
  by (simp_all add: ask_def local_of_def memory_of_def departures_of_def)

lemma set_local_frame [simp]:
  "local_of (set_local l w) = l" "departures_of (set_local l w) = departures_of w"
  "memory_of (set_local l w) = sl_memory l"
  by (simp_all add: set_local_def local_of_def departures_of_def memory_of_def)

lemma update_memory_frame [simp]:
  "local_of (update_memory f w) = (local_of w)\<lparr>sl_memory := f (memory_of w)\<rparr>"
  "memory_of (update_memory f w) = f (memory_of w)"
  "departures_of (update_memory f w) = departures_of w"
  by (simp_all add: update_memory_def)

lemma sl_memory_local [simp]: "sl_memory (local_of w) = memory_of w"
  by (simp add: memory_of_def)

lemma bind_run_simps [simp]:
  "bind_run (Inl e, w) f = (Inl e, w)" "bind_run (Inr x, w) f = f x w"
  by (simp_all add: bind_run_def)


section \<open>The marker and the authorization\<close>

lemma validate_state_Ok [result_elim]: "validate_state ol st = Inr u \<longleftrightarrow> state_is_valid ol st"
  by (simp add: validate_state_def ensure_def)

lemma persist_cases:
  assumes "persist_static_state ol outcome st stored = (r, stored')"
  shows "stored' = stored \<or> stored' = Some st \<and> state_is_valid ol st"
    and "r = Inr u \<Longrightarrow> stored' = Some st \<and> state_is_valid ol st"
  using assms by (auto simp: persist_static_state_def result_elim split: sum.splits save_outcome.splits)

lemma save_memory_frame:
  assumes "save_memory rt w = (r, w')"
  shows "memory_of w' = memory_of w" "departures_of w' = departures_of w"
    "sl_tables (local_of w') = sl_tables (local_of w)"
    "sl_file (local_of w') = sl_file (local_of w) \<or>
     sl_file (local_of w') = Some (memory_of w) \<and> state_is_valid (rt_libraries rt) (memory_of w)"
proof -
  obtain p stored where p: "persist_static_state (rt_libraries rt) (an_save (rt_answers rt (sw_tick w)))
      (memory_of w) (sl_file (local_of w)) = (p, stored)"
    by (metis surj_pair)
  with assms have w': "w' = set_local ((local_of w)\<lparr>sl_file := stored\<rparr>) (snd (ask rt w))"
    by (auto simp: save_memory_def ask_def local_of_def memory_of_def Let_def split: prod.splits)
  then show "memory_of w' = memory_of w" "departures_of w' = departures_of w"
    "sl_tables (local_of w') = sl_tables (local_of w)"
    by simp_all
  from persist_cases(1) [OF p] w' show "sl_file (local_of w') = sl_file (local_of w) \<or>
     sl_file (local_of w') = Some (memory_of w) \<and> state_is_valid (rt_libraries rt) (memory_of w)"
    by auto
qed

lemmas save_memory_snd = save_memory_frame [OF prod.collapse [symmetric]]

definition marked_state :: "(static_state \<Rightarrow> static_state) \<Rightarrow> u64 \<Rightarrow> static_state \<Rightarrow> static_state" where
  "marked_state insert_pending event_id st =
     insert_pending (st\<lparr>ss_last_static_audit_event_id := Some event_id\<rparr>)"

definition unmarked_state ::
  "(static_state \<Rightarrow> static_state) \<Rightarrow> (static_state \<Rightarrow> static_state) \<Rightarrow> u64 \<Rightarrow> static_state \<Rightarrow> static_state" where
  "unmarked_state insert_pending remove_pending event_id st =
     (remove_pending (marked_state insert_pending event_id st))
       \<lparr>ss_last_static_audit_event_id := ss_last_static_audit_event_id st\<rparr>"

lemma static_marker_cases:
  assumes "static_marker ol outcome ins del e (st, stored) = (r, st', stored')"
  shows "r = Inr u \<Longrightarrow> st' = marked_state ins e st \<and> stored' = Some st' \<and> state_is_valid ol st'"
    and "r = Inl f \<Longrightarrow> (st' = st \<and> stored' = stored) \<or>
      st' = unmarked_state ins del e st \<and>
      (stored' = stored \<or> stored' = Some (marked_state ins e st) \<and> state_is_valid ol (marked_state ins e st))"
proof -
  consider f where "advance_static_audit_watermark st e = Inl f"
    | "advance_static_audit_watermark st e = Inr (st\<lparr>ss_last_static_audit_event_id := Some e\<rparr>)"
    by (cases "advance_static_audit_watermark st e")
      (auto simp: advance_static_audit_watermark_def result_elim)
  then have "(r = Inr u \<longrightarrow> st' = marked_state ins e st \<and> stored' = Some st' \<and> state_is_valid ol st') \<and>
      (r = Inl f \<longrightarrow> st' = st \<and> stored' = stored \<or> st' = unmarked_state ins del e st \<and>
        (stored' = stored \<or> stored' = Some (marked_state ins e st) \<and> state_is_valid ol (marked_state ins e st)))"
  proof cases
    case 1
    with assms show ?thesis by (auto simp: static_marker_def)
  next
    case 2
    obtain p s where p: "persist_static_state ol outcome (marked_state ins e st) stored = (p, s)"
      by (metis surj_pair)
    show ?thesis
    proof (cases p)
      case (Inl g)
      with persist_cases(1) [OF p] 2 p assms show ?thesis
        by (cases g) (auto simp: static_marker_def Let_def marked_state_def unmarked_state_def)
    next
      case (Inr v)
      with persist_cases(2) [OF p] 2 p assms show ?thesis
        by (auto simp: static_marker_def Let_def marked_state_def)
    qed
  qed
  then show "r = Inr u \<Longrightarrow> st' = marked_state ins e st \<and> stored' = Some st' \<and> state_is_valid ol st'"
    "r = Inl f \<Longrightarrow> (st' = st \<and> stored' = stored) \<or> st' = unmarked_state ins del e st \<and>
      (stored' = stored \<or> stored' = Some (marked_state ins e st) \<and> state_is_valid ol (marked_state ins e st))"
    by blast+
qed

text \<open>The tables after a transaction, and the local state the marker left.\<close>

definition tables_grow :: "ozon_tables \<Rightarrow> ozon_tables \<Rightarrow> bool" where
  "tables_grow t t' \<longleftrightarrow>
     oz_sequence t \<le> oz_sequence t' \<and> (\<exists>evs. oz_events t' = evs @ oz_events t)"

lemma tables_grow_refl [simp]: "tables_grow t t"
  by (auto simp: tables_grow_def)

lemma stage_event_cases:
  assumes "stage_event lk build marker s t = (r, s', t')"
  shows "tables_grow t t'"
    and "s' = s \<or> s' = snd (marker (word_of_int (oz_sequence t + 1)) s)"
    and "r = Inr u \<Longrightarrow> marker (word_of_int (oz_sequence t + 1)) s = (Inr (), s') \<and>
      oz_sequence t < 2 ^ 63 - 1 \<and> oz_sequence t' = oz_sequence t + 1 \<and>
      oz_events t' = build (oz_sequence t + 1) # oz_events t"
proof -
  obtain m s1 where m: "marker (word_of_int (oz_sequence t + 1)) s = (m, s1)"
    by (metis surj_pair)
  with assms have "tables_grow t t' \<and> (s' = s \<or> s' = s1) \<and> (r = Inr u \<longrightarrow> m = Inr () \<and> s' = s1 \<and>
      oz_sequence t < 2 ^ 63 - 1 \<and> oz_sequence t' = oz_sequence t + 1 \<and>
      oz_events t' = build (oz_sequence t + 1) # oz_events t)"
    by (auto simp: stage_event_def Let_def tables_grow_def map_err_def
        split: if_splits sum.splits audit_link.splits failure.splits)
  with m show "tables_grow t t'" "s' = s \<or> s' = snd (marker (word_of_int (oz_sequence t + 1)) s)"
    "r = Inr u \<Longrightarrow> marker (word_of_int (oz_sequence t + 1)) s = (Inr (), s') \<and>
      oz_sequence t < 2 ^ 63 - 1 \<and> oz_sequence t' = oz_sequence t + 1 \<and>
      oz_events t' = build (oz_sequence t + 1) # oz_events t"
    by auto
qed

definition event_of_intent :: "static_write_intent \<Rightarrow> int \<Rightarrow> static_audit_event \<Rightarrow> bool" where
  "event_of_intent i e ev \<longleftrightarrow>
     ae_event_id ev = e \<and> ae_account_id ev = wi_account_id i \<and> ae_sku ev = Some (uint (wi_sku i)) \<and>
     ae_campaign_id ev = Some (uint (wi_campaign_id i)) \<and> ae_mutation ev = Some (wi_mutation i) \<and>
     ae_target_bid ev = map_option uint (wi_target_bid_microrubles i) \<and>
     ae_config_digest ev = wi_config_digest i \<and> ae_event_type ev = ''write_authorized''"

lemma validate_write_intent_Ok:
  assumes "validate_write_intent schema revision digest i worker_id =
    Inr (target, schema', revision', sku, campaign_id)"
  shows "target = map_option uint (wi_target_bid_microrubles i)" "sku = uint (wi_sku i)"
    "campaign_id = uint (wi_campaign_id i)"
  using assms
  by (auto simp: validate_write_intent_def intent_target_bid_def plan_i64_def plan_i32_def result_elim
      split: static_guard_mutation.splits option.splits if_splits)

lemma authorize_cases:
  assumes "authorize_static_guard_write lk now schema revision digest i worker_id prior marker s t
    = (r, s', t')"
  shows "tables_grow t t'"
    and "s' = s \<or> s' = snd (marker (word_of_int (oz_sequence t + 1)) s)"
    and "r = Inr u \<Longrightarrow> marker (word_of_int (oz_sequence t + 1)) s = (Inr (), s') \<and>
      oz_sequence t < 2 ^ 63 - 1 \<and> oz_sequence t' = oz_sequence t + 1 \<and>
      (\<exists>ev. event_of_intent i (oz_sequence t + 1) ev \<and> oz_events t' = ev # oz_events t)"
proof -
  show "tables_grow t t'" "s' = s \<or> s' = snd (marker (word_of_int (oz_sequence t + 1)) s)"
    using assms
    by (auto simp: authorize_static_guard_write_def dest: stage_event_cases(1,2)
        split: sum.splits prod.splits if_splits)
  assume "r = Inr u"
  then obtain target schema' revision' sku campaign_id where
    i: "validate_write_intent schema revision digest i worker_id =
      Inr (target, schema', revision', sku, campaign_id)"
    and staged: "stage_event lk (\<lambda>event_id. \<lparr>
        ae_event_id = event_id, ae_account_id = wi_account_id i, ae_sku = Some sku,
        ae_campaign_id = Some campaign_id, ae_mutation = Some (wi_mutation i),
        ae_target_bid = target, ae_config_digest = wi_config_digest i,
        ae_schema_version = schema', ae_policy_revision = revision',
        ae_policy_digest = digest, ae_worker_id = worker_id,
        ae_event_type = ''write_authorized''\<rparr>) marker s t = (Inr (), s', t')"
    using assms
    by (auto simp: authorize_static_guard_write_def split: sum.splits prod.splits if_splits)
  from stage_event_cases(3) [OF staged refl] validate_write_intent_Ok [OF i]
  show "marker (word_of_int (oz_sequence t + 1)) s = (Inr (), s') \<and>
      oz_sequence t < 2 ^ 63 - 1 \<and> oz_sequence t' = oz_sequence t + 1 \<and>
      (\<exists>ev. event_of_intent i (oz_sequence t + 1) ev \<and> oz_events t' = ev # oz_events t)"
    by (simp add: event_of_intent_def)
qed


section \<open>One write\<close>

definition write_intent ::
  "static_runtime \<Rightarrow> static_campaign_guard \<Rightarrow> static_guard_mutation \<Rightarrow> u64 option \<Rightarrow>
     static_write_intent" where
  "write_intent rt sg mutation target =
     \<lparr>wi_account_id = cg_account_id (sg_guard sg), wi_sku = cg_sku (sg_guard sg),
      wi_campaign_id = campaign_of sg, wi_mutation = mutation,
      wi_target_bid_microrubles = target, wi_config_digest = ga_config_digest (rt_authority rt)\<rparr>"

text \<open>The two outcomes of a write for the local state: marked and committed, or not sent.\<close>

definition marked_local ::
  "static_runtime \<Rightarrow> static_campaign_guard \<Rightarrow> static_guard_mutation \<Rightarrow> u64 option \<Rightarrow>
     (static_state \<Rightarrow> static_state) \<Rightarrow> static_local \<Rightarrow> static_local \<Rightarrow> bool" where
  "marked_local rt sg mutation target ins l l' \<longleftrightarrow>
     (let t = sl_tables l; e = oz_sequence t + 1 in
      oz_sequence t < 2 ^ 63 - 1 \<and> oz_sequence (sl_tables l') = e \<and>
      sl_memory l' = marked_state ins (word_of_int e) (sl_memory l) \<and>
      sl_file l' = Some (sl_memory l') \<and> state_is_valid (rt_libraries rt) (sl_memory l') \<and>
      (mutation = Mut_SetBid \<longrightarrow> (\<exists>b. target = Some b \<and>
         sg_min_cpc_bid_microrubles sg \<le> b \<and> b \<le> sg_max_cpc_bid_microrubles sg)) \<and>
      (\<exists>ev. event_of_intent (write_intent rt sg mutation target) e ev \<and>
        oz_events (sl_tables l') = ev # oz_events t))"

definition kept_local ::
  "static_runtime \<Rightarrow> (static_state \<Rightarrow> static_state) \<Rightarrow> (static_state \<Rightarrow> static_state) \<Rightarrow>
     static_local \<Rightarrow> static_local \<Rightarrow> bool" where
  "kept_local rt ins del l l' \<longleftrightarrow>
     tables_grow (sl_tables l) (sl_tables l') \<and>
     (sl_memory l' = sl_memory l \<and> sl_file l' = sl_file l \<or>
      (\<exists>e. sl_memory l' = marked_state ins e (sl_memory l) \<and> sl_file l' = Some (sl_memory l') \<and>
         state_is_valid (rt_libraries rt) (sl_memory l')) \<or>
      (\<exists>e. sl_memory l' = unmarked_state ins del e (sl_memory l) \<and>
         (sl_file l' = sl_file l \<or> sl_file l' = Some (marked_state ins e (sl_memory l)) \<and>
            state_is_valid (rt_libraries rt) (marked_state ins e (sl_memory l)))))"

lemma kept_local_refl [simp]: "kept_local rt ins del l l"
  by (auto simp: kept_local_def)


lemma persist_marker_cases:
  assumes "persist_marker rt a sg mutation target prior
      (static_marker (rt_libraries rt) outcome ins del) l = (r, l')"
  shows "kept_local rt ins del l l'"
    and "r = Inr u \<Longrightarrow> marked_local rt sg mutation target ins l l'"
proof -
  let ?marker = "static_marker (rt_libraries rt) outcome ins del"
  let ?i = "write_intent rt sg mutation target"
  let ?e = "word_of_int (oz_sequence (sl_tables l) + 1) :: u64"
  let ?ga = "rt_authority rt"
  obtain ra s t where auth: "authorize_static_guard_write (an_link a) (an_database_now a)
      (cp_version (ga_policy ?ga)) (cp_revision (ga_policy ?ga)) (cp_digest (ga_policy ?ga)) ?i
      (ga_worker_id ?ga) prior ?marker (sl_memory l, sl_file l) (sl_tables l) = (ra, s, t)"
    by (metis surj_pair)
  define checked where "checked = and_then (ok_or (an_registry a) RegistryUnavailable) (\<lambda>accounts.
      and_then (validate_static_runtime_registry accounts ?ga) (\<lambda>_.
      and_then (map_err ReloadFailed (load_static_guards (rt_libraries rt) (an_config a)
                  (ga_runtime_account_id ?ga))) (\<lambda>(config, digest).
      validate_reloaded_static_guard config digest (ga_config_digest ?ga) (ga_policy ?ga) sg
        mutation target)))"
  have run: "(r, l') = (case checked of Inl e \<Rightarrow> (Inl e, l) | Inr _ \<Rightarrow>
      (wrap_err NotAuthorized ra, l\<lparr>sl_memory := fst s, sl_file := snd s, sl_tables := t\<rparr>))"
    using assms [unfolded persist_marker_def Let_def, folded checked_def write_intent_def] auth
    by (auto split: sum.splits)
  note cases = authorize_cases [OF auth]
  obtain mr ms mf where m: "?marker ?e (sl_memory l, sl_file l) = (mr, ms, mf)"
    by (metis surj_pair)
  have "kept_local rt ins del l (l\<lparr>sl_memory := fst s, sl_file := snd s, sl_tables := t\<rparr>)"
    using cases(1,2) static_marker_cases [OF m] m
    by (cases mr) (auto simp: kept_local_def)
  then show "kept_local rt ins del l l'"
    using run by (auto split: sum.splits)
  assume "r = Inr u"
  then have ok: "ra = Inr ()" "checked = Inr ()"
    "l' = l\<lparr>sl_memory := fst s, sl_file := snd s, sl_tables := t\<rparr>"
    using run by (cases checked; cases ra; auto simp: wrap_err_def split: failure.splits)+
  have target: "\<exists>b. target = Some b \<and> sg_min_cpc_bid_microrubles sg \<le> b \<and> b \<le> sg_max_cpc_bid_microrubles sg"
    if "mutation = Mut_SetBid"
    using ok(2) that
    by (auto simp: checked_def result_elim validate_reloaded_static_guard_def split: option.splits)
  from cases(3) [OF ok(1)] m static_marker_cases(1) [OF m] target ok(3)
  show "marked_local rt sg mutation target ins l l'"
    by (auto simp: marked_local_def Let_def)
qed

text \<open>The whole write, as seen from outside.\<close>

definition sends ::
  "static_runtime \<Rightarrow> static_campaign_guard \<Rightarrow> static_guard_mutation \<Rightarrow> u64 option \<Rightarrow> ozon_request \<Rightarrow>
     (static_state \<Rightarrow> static_state) \<Rightarrow> static_world \<Rightarrow> static_world \<Rightarrow> bool" where
  "sends rt sg mutation target request ins w w' \<longleftrightarrow>
     marked_local rt sg mutation target ins (local_of w) (local_of w') \<and>
     (\<exists>slot. departures_of w' =
        \<lparr>od_request = request, od_slot = slot, od_caller = local_of w'\<rparr> # departures_of w)"

lemma static_write_cases:
  assumes "static_write rt sg mutation target request ins del w = (r, w')"
  shows "departures_of w' = departures_of w \<and> kept_local rt ins del (local_of w) (local_of w') \<or>
    sends rt sg mutation target request ins w w'"
proof -
  let ?permit = "persist_marker rt (rt_answers rt (sw_tick w)) sg mutation target
      (ss_last_static_audit_event_id (memory_of w))
      (static_marker (rt_libraries rt) (an_save (rt_answers rt (sw_tick w))) ins del)"
  obtain oz where oz: "ozon_guarded_write (rt_libraries rt) (rt_client rt)
      (an_write (rt_answers rt (sw_tick w))) request ?permit (sw_ozon w) = (r, oz)"
    and w': "sw_ozon w' = oz"
    using assms by (auto simp: static_write_def ask_def Let_def split: prod.splits)
  have caller: "local_of w' = ow_caller oz" "departures_of w' = ow_departed oz"
    "local_of w = ow_caller (sw_ozon w)" "departures_of w = ow_departed (sw_ozon w)"
    by (simp_all add: local_of_def departures_of_def w')
  obtain pr pl where p: "?permit (local_of w) = (pr, pl)"
    by (metis surj_pair)
  note permit = persist_marker_cases [OF p]
  have "(ow_departed oz = ow_departed (sw_ozon w) \<and>
        (ow_caller oz = ow_caller (sw_ozon w) \<or> ow_caller oz = pl)) \<or>
      (pr = Inr () \<and> ow_caller oz = pl \<and> (\<exists>slot. ow_departed oz =
        \<lparr>od_request = request, od_slot = slot, od_caller = ow_caller oz\<rparr> # ow_departed (sw_ozon w)))"
  proof (cases "validate_ozon_request (rt_libraries rt) request")
    case (Inl e)
    with oz show ?thesis by (auto simp: ozon_guarded_write_def)
  next
    case (Inr u)
    with oz have "write_guarded (rt_libraries rt) (rt_client rt) (an_write (rt_answers rt (sw_tick w)))
        request ?permit (sw_ozon w) = (r, oz)"
      by (simp add: ozon_guarded_write_def)
    from write_guarded_cases [OF this] p show ?thesis
      by (auto simp: caller(3))
  qed
  then show ?thesis
    using permit(1) permit(2) [of "()"] by (auto simp: sends_def caller)
qed

end
