(* ===== verification/Ozon_Static_Moves.thy ===== *)
theory Ozon_Static_Moves
  imports Ozon_Static_Facts
begin

text \<open>
  The elementary moves of the static Ozon guard as an interface. A reflexive and transitive
  relation between worlds that holds of every move of \<open>cycle_relation\<close> holds of a whole cycle
  and of the polling loop; with the moves of \<open>run_relation\<close> (the operator's commands, the load of
  the state file) it holds of every run of the process.
\<close>

abbreviation locked :: "u64 \<Rightarrow> static_world \<Rightarrow> bool" where
  "locked c w \<equiv> c \<in> ss_incident_campaign_ids (memory_of w)"

abbreviation pending_bid :: "static_world \<Rightarrow> u64 \<Rightarrow> pending_bid_change option" where
  "pending_bid w c \<equiv> btree_get (ss_pending_bid_changes (memory_of w)) c"

abbreviation pending_mutation :: "static_world \<Rightarrow> u64 \<Rightarrow> pending_campaign_mutation option" where
  "pending_mutation w c \<equiv> btree_get (ss_pending_campaign_mutations (memory_of w)) c"

definition write_bid ::
  "static_runtime \<Rightarrow> static_campaign_guard \<Rightarrow> u64 \<Rightarrow> u64 \<Rightarrow> instant \<Rightarrow> static_world \<Rightarrow>
     (marker_error ozon_guarded_error, string) result \<times> static_world" where
  "write_bid rt sg from_bid to_bid started_at w =
     static_write rt sg Mut_SetBid (Some to_bid) (bid_request sg to_bid)
       (insert_pending_bid (campaign_of sg) (pending_bid_of sg from_bid to_bid started_at))
       (remove_pending_bid (campaign_of sg)) w"

definition write_mutation ::
  "static_runtime \<Rightarrow> static_campaign_guard \<Rightarrow> campaign_mutation_kind \<Rightarrow> string option \<Rightarrow>
     u64 option \<Rightarrow> u64 option \<Rightarrow> instant \<Rightarrow> static_world \<Rightarrow>
     (marker_error ozon_guarded_error, string) result \<times> static_world" where
  "write_mutation rt sg kind reason spend revenue started_at w =
     static_write rt sg (audit_mutation kind) None (campaign_request kind (campaign_of sg))
       (insert_pending_mutation (campaign_of sg)
          (pending_mutation_of sg kind reason spend revenue started_at))
       (remove_pending_mutation (campaign_of sg)) w"

lemma btree_get_insert_any [simp]: "btree_get (btree_insert k v m) = (btree_get m)(k \<mapsto> v)"
  unfolding btree_get_def by (induction k v m rule: btree_insert.induct) (auto simp: fun_eq_iff)

lemma marked_bid [simp]:
  "ss_pending_bid_changes (marked_state (insert_pending_bid c p) e st) =
     btree_insert c p (ss_pending_bid_changes st)"
  "ss_pending_campaign_mutations (marked_state (insert_pending_bid c p) e st) =
     ss_pending_campaign_mutations st"
  "ss_incident_campaign_ids (marked_state (insert_pending_bid c p) e st) = ss_incident_campaign_ids st"
  "ss_last_static_audit_event_id (marked_state (insert_pending_bid c p) e st) = Some e"
  by (simp_all add: marked_state_def insert_pending_bid_def)

lemma marked_mutation [simp]:
  "ss_pending_bid_changes (marked_state (insert_pending_mutation c q) e st) = ss_pending_bid_changes st"
  "ss_pending_campaign_mutations (marked_state (insert_pending_mutation c q) e st) =
     btree_insert c q (ss_pending_campaign_mutations st)"
  "ss_incident_campaign_ids (marked_state (insert_pending_mutation c q) e st) =
     ss_incident_campaign_ids st"
  "ss_last_static_audit_event_id (marked_state (insert_pending_mutation c q) e st) = Some e"
  by (simp_all add: marked_state_def insert_pending_mutation_def)

lemma unmarked_bid [simp]:
  "ss_pending_bid_changes (unmarked_state (insert_pending_bid c p) (remove_pending_bid c) e st) =
     btree_remove c (btree_insert c p (ss_pending_bid_changes st))"
  "ss_pending_campaign_mutations (unmarked_state (insert_pending_bid c p) (remove_pending_bid c) e st) =
     ss_pending_campaign_mutations st"
  "ss_incident_campaign_ids (unmarked_state (insert_pending_bid c p) (remove_pending_bid c) e st) =
     ss_incident_campaign_ids st"
  by (simp_all add: unmarked_state_def remove_pending_bid_def)

lemma unmarked_mutation [simp]:
  "ss_pending_bid_changes (unmarked_state (insert_pending_mutation c q) (remove_pending_mutation c) e st) =
     ss_pending_bid_changes st"
  "ss_pending_campaign_mutations
     (unmarked_state (insert_pending_mutation c q) (remove_pending_mutation c) e st) =
     btree_remove c (btree_insert c q (ss_pending_campaign_mutations st))"
  "ss_incident_campaign_ids
     (unmarked_state (insert_pending_mutation c q) (remove_pending_mutation c) e st) =
     ss_incident_campaign_ids st"
  by (simp_all add: unmarked_state_def remove_pending_mutation_def)

lemmas write_cases = static_write_cases [OF prod.collapse [symmetric]]

text \<open>After a write the pending entry of the campaign is absent, or the one it inserted.\<close>

lemma write_bid_pending:
  assumes "write_bid rt sg a b t w = (r, w')" "pending_bid w (campaign_of sg) = None"
    "pending_bid w' (campaign_of sg) = Some p"
  shows "p = pending_bid_of sg a b t"
  using static_write_cases [OF assms(1) [unfolded write_bid_def]] assms(2,3)
  by (auto simp: kept_local_def sends_def marked_local_def Let_def btree_get_remove)

lemma write_mutation_pending:
  assumes "write_mutation rt sg k reason s v t w = (r, w')" "pending_mutation w (campaign_of sg) = None"
    "pending_mutation w' (campaign_of sg) = Some p"
  shows "p = pending_mutation_of sg k reason s v t"
  using static_write_cases [OF assms(1) [unfolded write_mutation_def]] assms(2,3)
  by (auto simp: kept_local_def sends_def marked_local_def Let_def btree_get_remove)

locale cycle_relation =
  fixes rt :: static_runtime and R :: "static_world \<Rightarrow> static_world \<Rightarrow> bool"
  assumes R_refl: "R w w"
    and R_trans: "R w w1 \<Longrightarrow> R w1 w2 \<Longrightarrow> R w w2"
    and R_ask: "R w (snd (ask rt w))"
    and R_incident: "sg \<in> set (rt_guards rt) \<Longrightarrow>
      R w (snd (record_static_guard_incident rt sg reason cls spend revenue w))"
    and R_bid_confirmed: "sg \<in> set (rt_guards rt) \<Longrightarrow> pending_bid w (campaign_of sg) = Some p \<Longrightarrow>
      read_exact_bid rt sg w = (Ok (sb_to_microrubles p), w1) \<Longrightarrow>
      R w (snd (save_memory rt (update_memory (note_bid_change (campaign_of sg) t) w1)))"
    and R_mutation_confirmed: "sg \<in> set (rt_guards rt) \<Longrightarrow>
      pending_mutation w (campaign_of sg) = Some q \<Longrightarrow>
      campaign_is_running rt (campaign_of sg) w = (Ok (sm_kind q = MutationActivate), w1) \<Longrightarrow>
      R w (snd (save_memory rt (update_memory (remove_pending_mutation (campaign_of sg)) w1)))"
    and R_bid: "sg \<in> set (rt_guards rt) \<Longrightarrow> \<not> locked (campaign_of sg) w \<Longrightarrow>
      pending_bid w (campaign_of sg) = None \<Longrightarrow> R w (snd (write_bid rt sg a b t w))"
    and R_deactivate: "sg \<in> set (rt_guards rt) \<Longrightarrow> \<not> locked (campaign_of sg) w \<Longrightarrow>
      pending_mutation w (campaign_of sg) = None \<Longrightarrow>
      R w (snd (write_mutation rt sg MutationDeactivate reason spend revenue t w))"
begin

lemma R_bind:
  assumes "R w (snd r)" and "\<And>x. fst r = Inr x \<Longrightarrow> R (snd r) (snd (f x (snd r)))"
  shows "R w (snd (bind_run r f))"
  using assms R_trans by (cases r) (auto simp: bind_run_def split: sum.splits)

lemma R_ask_then:
  assumes "\<And>a w. R w (snd (f a w))"
  shows "R w (snd (case ask rt w of (a, w) \<Rightarrow> f a w))"
  using R_trans [OF R_ask [of w] assms] by (simp add: split_beta)

lemma R_read:
  "R w (snd (campaign_product_snapshot rt w))" "R w (snd (read_exact_bid rt sg w))"
  "R w (snd (campaign_is_running rt c w))" "R w (snd (running_static_campaigns rt w))"
  "R w (snd (validate_static_campaign_product rt sg w))"
  using R_ask [of w]
  by (auto simp: campaign_product_snapshot_def read_exact_bid_def campaign_is_running_def
      running_static_campaigns_def validate_static_campaign_product_def ask_def bind_run_def
      split: sum.splits)

lemma R_for_campaigns:
  "(\<And>c w. R w (snd (f c w))) \<Longrightarrow> R w (snd (for_campaigns f cs w))"
  by (induction cs arbitrary: w) (auto intro: R_refl R_bind)

lemma find_guard_Some: "find_guard rt c = Some sg \<Longrightarrow> sg \<in> set (rt_guards rt) \<and> campaign_of sg = c"
  by (auto simp: find_guard_def find_Some_iff)

lemma R_recover_mutation: "R w (snd (recover_campaign_mutation rt c w))"
proof (cases "find_guard rt c")
  case (Some sg)
  note sg = find_guard_Some [OF Some]
  show ?thesis
  proof (cases "pending_mutation w c")
    case (Some p)
    obtain r w1 where read: "campaign_is_running rt c w = (r, w1)"
      by (metis surj_pair)
    have "R w w1"
      using R_read(3) [of w c] read by simp
    moreover have "R w (snd (save_memory rt (update_memory (remove_pending_mutation c) w1)))"
      if "r = Inr (sm_kind p = MutationActivate)"
      using R_mutation_confirmed [of sg w p w1] sg Some read that by auto
    ultimately show ?thesis
      using R_incident sg R_trans \<open>find_guard rt c = Some sg\<close> Some read
      by (auto simp: recover_campaign_mutation_def split: sum.splits campaign_mutation_kind.splits
          intro: R_trans)
  qed (use Some in \<open>simp add: recover_campaign_mutation_def R_refl\<close>)
qed (simp add: recover_campaign_mutation_def R_refl)

lemma R_recover_bid: "R w (snd (recover_static_bid rt c w))"
proof (cases "find_guard rt c")
  case (Some sg)
  note sg = find_guard_Some [OF Some]
  obtain r w1 where read: "read_exact_bid rt sg w = (r, w1)"
    by (metis surj_pair)
  have w1: "R w w1" "memory_of w1 = memory_of w"
    using R_read(2) [of w sg] read
    by (auto simp: read_exact_bid_def campaign_product_snapshot_def ask_def bind_run_def
        memory_of_def local_of_def split: sum.splits)
  have "R w (snd (reconcile_pending_static_bid rt sg b w1))" if "r = Inr b" for b
  proof (cases "pending_bid w1 (campaign_of sg)")
    case None
    then show ?thesis by (simp add: reconcile_pending_static_bid_def w1)
  next
    case (Some p)
    then have "R w (snd (save_memory rt (update_memory
        (note_bid_change (campaign_of sg) (sb_started_at p)) w1)))" if "b = sb_to_microrubles p"
      using R_bid_confirmed [of sg w p w1] sg read \<open>r = Inr b\<close> that w1(2) by simp
    with Some R_incident sg w1(1) show ?thesis
      by (auto simp: reconcile_pending_static_bid_def intro: R_trans)
  qed
  with \<open>find_guard rt c = Some sg\<close> read R_incident sg w1(1) show ?thesis
    by (auto simp: recover_static_bid_def intro: R_trans split: sum.splits)
qed (simp add: recover_static_bid_def R_refl)

lemma R_recover:
  "R w (snd (recover_pending_static_campaign_mutations rt w))"
  "R w (snd (recover_pending_static_bids rt w))"
  by (auto simp: recover_pending_static_campaign_mutations_def recover_pending_static_bids_def
      intro: R_for_campaigns R_recover_mutation R_recover_bid)

text \<open>A mutation is a write, the read of its effect, and a confirmation or an incident.\<close>

lemma R_change_bid_after:
  assumes "sg \<in> set (rt_guards rt)"
    and "pending_bid w (campaign_of sg) = None \<Longrightarrow> R w (snd (write_bid rt sg a b t w))"
  shows "R w (snd (change_static_campaign_bid rt sg a b t w))"
proof (cases "pending_bid w (campaign_of sg)")
  case None
  obtain r w1 where sent: "write_bid rt sg a b t w = (r, w1)"
    by (metis surj_pair)
  obtain v w2 where read: "read_exact_bid rt sg w1 = (v, w2)"
    by (metis surj_pair)
  have w1: "R w w1" "R w1 w2"
    using assms(2) [OF None] sent R_read(2) [of w1 sg] read by simp_all
  have "R w1 (snd (save_memory rt (update_memory (note_bid_change (campaign_of sg) t) w2)))"
    if "pending_bid w1 (campaign_of sg) = Some p" "v = Inr b" for p
    using R_bid_confirmed [OF assms(1) that(1), of w2 t] read that(2)
      write_bid_pending [OF sent None that(1)] by (simp add: pending_bid_of_def)
  moreover have "R w1 (snd (bind_run (record_static_guard_incident rt sg None cls None None w2) (\<lambda>_ w. (Error e, w))))"
    for cls and e :: static_error
    using R_trans [OF w1(2) R_incident [OF assms(1)]]
    by (auto simp: bind_run_def split: sum.splits)
  ultimately show ?thesis
    using None sent [unfolded write_bid_def] read w1(1)
    by (auto simp: change_static_campaign_bid_def Let_def intro: R_trans)
qed (simp add: change_static_campaign_bid_def R_refl)

lemma R_mutate_after:
  assumes "sg \<in> set (rt_guards rt)"
    and "\<And>t w1. memory_of w1 = memory_of w \<Longrightarrow> pending_mutation w (campaign_of sg) = None \<Longrightarrow>
      R w1 (snd (write_mutation rt sg k reason s v t w1))"
  shows "R w (snd (mutate_static_campaign rt sg k reason s v w))"
proof (cases "pending_mutation w (campaign_of sg)")
  case None
  let ?t = "an_now (rt_answers rt (sw_tick w))"
  define w0 where "w0 = snd (ask rt w)"
  have ask: "ask rt w = (rt_answers rt (sw_tick w), w0)"
    by (simp add: w0_def ask_def)
  obtain r w1 where sent: "write_mutation rt sg k reason s v ?t w0 = (r, w1)"
    by (metis surj_pair)
  obtain u w2 where read: "campaign_is_running rt (campaign_of sg) w1 = (u, w2)"
    by (metis surj_pair)
  have "R w0 w1"
    using assms(2) [of w0 ?t] None sent by (simp add: w0_def)
  then have w1: "R w w1" "R w1 w2"
    using R_ask [of w] R_trans R_read(3) [of w1 "campaign_of sg"] read by (auto simp: w0_def)
  have "R w1 (snd (save_memory rt (update_memory (remove_pending_mutation (campaign_of sg)) w2)))"
    if "pending_mutation w1 (campaign_of sg) = Some p" "u = Inr (k = MutationActivate)" for p
    using R_mutation_confirmed [OF assms(1) that(1), of w2] read that(2)
      write_mutation_pending [OF sent _ that(1)] None by (simp add: pending_mutation_of_def w0_def)
  moreover have "R w1 (snd (bind_run (record_static_guard_incident rt sg reason cls s v w2) (\<lambda>_ w. (Error e, w))))"
    for cls and e :: static_error
    using R_trans [OF w1(2) R_incident [OF assms(1)]]
    by (auto simp: bind_run_def split: sum.splits)
  ultimately show ?thesis
    using None ask sent [unfolded write_mutation_def] read w1(1)
    by (auto simp: mutate_static_campaign_def Let_def intro: R_trans)
qed (simp add: mutate_static_campaign_def R_refl)

lemma R_change_bid:
  assumes "sg \<in> set (rt_guards rt)" "\<not> locked (campaign_of sg) w"
  shows "R w (snd (change_static_campaign_bid rt sg a b t w))"
  using assms by (intro R_change_bid_after R_bid)

lemma R_request_stop:
  assumes "sg \<in> set (rt_guards rt)" "\<not> locked (campaign_of sg) w"
  shows "R w (request_stop rt sg s v reason w)"
  unfolding request_stop_def guard_campaign_static_def option.case
  using assms by (intro R_mutate_after R_deactivate) simp_all

text \<open>The cycle.\<close>

lemma R_window_metrics: "R w (snd (window_metrics rt d windows m w))"
proof (induction windows arbitrary: m w)
  case (Cons x windows)
  have "R w (snd (window_metrics rt d windows m' (snd (ask rt w))))" for m'
    by (rule R_trans [OF R_ask Cons.IH])
  then show ?case
    by (cases x) (auto simp: bind_run_def ask_def [of rt w] R_refl
        intro: R_ask [of w, unfolded ask_def, simplified] split: sum.splits)
qed (simp add: R_refl)

lemma R_static_guard_metrics: "R w (snd (static_guard_metrics rt running t w))"
  unfolding static_guard_metrics_def Let_def
  by (intro R_bind) (simp_all add: R_refl R_window_metrics)

lemma R_read_validated_bid:
  assumes "sg \<in> set (rt_guards rt)" "\<not> locked (campaign_of sg) w"
  shows "R w (snd (read_validated_bid rt sg s v w))"
    and "read_validated_bid rt sg s v w = (Inr (Some b), w') \<Longrightarrow> memory_of w' = memory_of w"
proof -
  define w1 where "w1 = snd (ask rt w)"
  have snap: "campaign_product_snapshot rt w =
      (ok_or (an_read (rt_answers rt (sw_tick w))) ReadUnavailable, w1)"
    by (simp add: campaign_product_snapshot_def w1_def ask_def)
  have w1: "memory_of w1 = memory_of w" "R w w1"
    by (simp_all add: w1_def R_ask)
  have "R w (request_stop rt sg (Some s) (Some v) reason w1)" for reason
    using R_request_stop [of sg w1] assms w1 R_trans by metis
  with w1 show "R w (snd (read_validated_bid rt sg s v w))"
    by (auto simp: read_validated_bid_def snap ok_or_def split: sum.splits option.splits)
  show "memory_of w' = memory_of w" if "read_validated_bid rt sg s v w = (Inr (Some b), w')"
    using that w1(1) by (auto simp: read_validated_bid_def snap ok_or_def
        split: sum.splits option.splits)
qed

lemma R_apply_control:
  assumes "sg \<in> set (rt_guards rt)" "\<not> locked (campaign_of sg) w"
  shows "R w (snd (apply_dynamic_bid_control rt sg control t b s v w))"
proof -
  define w1 where "w1 = snd (ask rt w)"
  have ask: "ask rt w = (rt_answers rt (sw_tick w), w1)"
    by (simp add: w1_def ask_def)
  have w1: "R w w1" "\<not> locked (campaign_of sg) w1"
    using assms(2) by (simp_all add: w1_def R_ask)
  show ?thesis
    unfolding apply_dynamic_bid_control_def ask Let_def prod.case
    using w1 R_trans [OF w1(1) R_change_bid [OF assms(1) w1(2)]]
    by (auto simp: bind_run_def split: sum.splits bid_pacing_adjustment.splits)
qed

lemma R_guard_observation:
  assumes "sg \<in> set (rt_guards rt)" "\<not> locked (campaign_of sg) w"
  shows "R w (snd (guard_observation rt t metrics sg w))"
proof -
  have "R w (snd (bind_run (read_validated_bid rt sg s v w) (\<lambda>bid w.
      case (bid, rt_control rt) of
        (Some current_bid, Some control) \<Rightarrow>
          apply_dynamic_bid_control rt sg control t current_bid s v w
      | _ \<Rightarrow> (Ok (), w))))" for s v
  proof (rule R_bind)
    fix bid
    assume ok: "fst (read_validated_bid rt sg s v w) = Inr bid"
    show "R (snd (read_validated_bid rt sg s v w)) (snd (case (bid, rt_control rt) of
        (Some current_bid, Some control) \<Rightarrow>
          apply_dynamic_bid_control rt sg control t current_bid s v (snd (read_validated_bid rt sg s v w))
      | _ \<Rightarrow> (Ok (), snd (read_validated_bid rt sg s v w))))"
    proof (cases "(bid, rt_control rt)")
      case (Pair x y)
      have "\<not> locked (campaign_of sg) (snd (read_validated_bid rt sg s v w))" if "bid = Some b" for b
        using R_read_validated_bid(2) [OF assms, of s v b] ok that assms(2)
        by (metis prod.collapse)
      with Pair R_apply_control [OF assms(1)] show ?thesis
        by (auto simp: R_refl split: option.splits)
    qed
  qed (rule R_read_validated_bid [OF assms])
  with R_request_stop [OF assms] show ?thesis
    unfolding guard_observation_def
    by (auto simp: bind_run_def [of "(_, _)"] R_refl split: sum.splits static_guard_first_step.splits)
qed

lemma R_stop_unobserved:
  "set sgs \<subseteq> set (rt_guards rt) \<Longrightarrow> R w (stop_unobserved_campaigns rt running sgs w)"
  by (induction sgs arbitrary: w)
    (auto simp: locked_or_idle_def R_refl intro: R_trans [OF R_request_stop])

lemma R_guard_campaigns:
  "set sgs \<subseteq> set (rt_guards rt) \<Longrightarrow> R w (snd (guard_campaigns rt t running metrics sgs outcome w))"
proof (induction sgs arbitrary: outcome w)
  case (Cons sg sgs)
  show ?case
  proof (cases "locked_or_idle running sg w")
    case False
    with Cons.prems have "R w (snd (guard_observation rt t metrics sg w))"
      by (intro R_guard_observation) (auto simp: locked_or_idle_def)
    with False Cons show ?thesis
      by (auto simp: split: prod.splits intro: R_trans)
  qed (use Cons in simp)
qed (simp add: R_refl)

lemma R_guard_running: "R w (snd (guard_running_campaigns rt t running w))"
proof -
  obtain m w1 where m: "static_guard_metrics rt running t w = (m, w1)"
    by (metis surj_pair)
  have "R w w1"
    using R_static_guard_metrics [of w running t] m by simp
  then show ?thesis
    using R_trans R_stop_unobserved [of "rt_guards rt"] R_guard_campaigns [of "rt_guards rt"]
    by (auto simp: guard_running_campaigns_def m split: sum.splits)
qed

lemma R_cycle: "R w (snd (guard_once_static rt t w))"
  unfolding guard_once_static_def
  by (intro R_bind R_recover R_read) (simp add: R_refl R_guard_running)

lemma R_serve: "R w (snd (serve_static rt failures ts w))"
proof (induction ts arbitrary: failures w)
  case (Cons t ts)
  obtain r w1 where run: "guard_once_static rt t w = (r, w1)"
    by (metis surj_pair)
  then have "R w w1"
    using R_cycle [of w t] by simp
  with Cons R_trans run show ?case
    by (auto simp: bind_run_def split: sum.splits)
qed (simp add: R_refl)

end

text \<open>The moves of the operator's commands and of the start of the process.\<close>

locale run_relation = cycle_relation rt R
  for rt :: static_runtime and R :: "static_world \<Rightarrow> static_world \<Rightarrow> bool" +
  assumes R_any_bid: "sg \<in> set (rt_guards rt) \<Longrightarrow> pending_bid w (campaign_of sg) = None \<Longrightarrow>
      R w (snd (write_bid rt sg a b t w))"
    and R_activate: "sg \<in> set (rt_guards rt) \<Longrightarrow> pending_mutation w (campaign_of sg) = None \<Longrightarrow>
      R w (snd (write_mutation rt sg MutationActivate reason spend revenue t w))"
    and R_clear: "sg \<in> set (rt_guards rt) \<Longrightarrow>
      R w (snd (clear_reconciled_static_campaign_state rt (campaign_of sg) w))"
    and R_load: "load_static_state (rt_libraries rt) readable (sl_file (local_of w)) = Inr st \<Longrightarrow>
      R w (update_memory (\<lambda>_. st) w)"
    and R_initialize: "R w (snd (initialize_static rt w))"
begin

lemma R_reconcile_bid:
  assumes "sg \<in> set (rt_guards rt)"
  shows "R w (snd (reconcile_bid rt sg w))"
proof -
  have change: "R w (snd (change_static_campaign_bid rt sg a b t w))" for a b t w
    using assms by (intro R_change_bid_after R_any_bid)
  show ?thesis
    unfolding reconcile_bid_def Let_def
    by (intro R_bind R_read)
      (simp_all add: R_refl R_bind R_read change R_ask_then)
qed

lemma R_reconcile:
  "set sgs \<subseteq> set (rt_guards rt) \<Longrightarrow> R w (snd (reconcile_static_campaigns rt sgs w))"
proof (induction sgs arbitrary: w)
  case (Cons sg sgs)
  then have sg: "sg \<in> set (rt_guards rt)"
    by simp
  have "R w (snd (activate_static_campaign rt sg w))" for w
    unfolding activate_static_campaign_def using sg by (intro R_mutate_after R_activate) simp_all
  then have "R w (snd (reconcile_static_campaign rt sg w))"
    unfolding reconcile_static_campaign_def
    by (intro R_bind R_reconcile_bid R_read R_clear sg) (auto simp: R_refl)
  with Cons show ?case
    by (auto intro: R_bind)
qed (simp add: R_refl)

lemma R_audit: "R w (snd (audit_static_campaigns rt w))"
proof -
  have "R w (snd (audit_campaign_products rt sgs w))" for sgs w
    by (induction sgs arbitrary: w) (auto simp: R_refl intro!: R_bind R_read)
  then show ?thesis
    unfolding audit_static_campaigns_def by (auto intro: R_bind R_read)
qed

lemma R_load_into_memory: "R w (snd (load_into_memory rt w))"
proof -
  define w1 where "w1 = snd (ask rt w)"
  have ask: "ask rt w = (rt_answers rt (sw_tick w), w1)"
    by (simp add: w1_def ask_def)
  have "R w w1"
    by (simp add: w1_def R_ask)
  then show ?thesis
    unfolding load_into_memory_def ask Let_def prod.case
    by (auto simp: bind_run_def wrap_err_def split: sum.splits failure.splits
        intro: R_trans [OF _ R_load])
qed

lemma R_run: "R w (snd (run_static rt command polls w))"
proof -
  have latest: "R w (snd (latest_static_guard_audit_event_id rt w))" for w
    using R_ask [of w] by (simp add: latest_static_guard_audit_event_id_def ask_def Let_def)
  have position: "R w (snd (open_position_reader rt w))" for w
    using R_ask [of w] by (simp add: open_position_reader_def ask_def R_refl)
  show ?thesis
    unfolding run_static_def
    by (intro R_bind R_load_into_memory latest)
      (auto simp: R_refl R_initialize R_audit split: audit_continuity.splits guard_command.splits
        intro!: R_bind position R_recover R_reconcile R_serve)
qed

end

end
