(* ===== verification/Decimal_Text.thy ===== *)
theory Decimal_Text
  imports Wb_Client
begin

text \<open>
  Printing and parsing of unsigned integers: \<open>to_string\<close> writes decimal digits without
  leading zeroes, and \<open>str::parse\<close> reads them back.
\<close>

lemma decimal_nonneg [simp]: "0 \<le> n \<Longrightarrow> decimal n = decimal_digits n"
  by (simp add: decimal_def)

lemma byte_digit:
  assumes "0 \<le> k" "k < 10"
  shows "byte (char_of (48 + k)) = 48 + k"
  using assms by (simp add: byte_def)

lemma digits_value_snoc: "digits_value (s @ [b]) = digits_value s * 10 + (byte b - 48)"
  by (simp add: digits_value_def)

lemma digits_value_nonneg: "list_all is_ascii_digit s \<Longrightarrow> 0 \<le> digits_value s"
  by (induction s rule: rev_induct)
    (auto simp: digits_value_snoc is_ascii_digit_def, simp add: digits_value_def)

lemma digits_value_decimal: "0 \<le> n \<Longrightarrow> digits_value (decimal_digits n) = n"
proof (induction n rule: decimal_digits.induct)
  case (1 n)
  show ?case
  proof (cases "n < 10")
    case True
    with 1 show ?thesis
      by (simp add: decimal_digits.simps [of n] digits_value_def byte_digit)
  next
    case False
    with 1 show ?thesis
      by (simp add: decimal_digits.simps [of n] digits_value_snoc byte_digit)
  qed
qed

lemma digits_of_decimal: "0 \<le> n \<Longrightarrow> list_all is_ascii_digit (decimal_digits n)"
proof (induction n rule: decimal_digits.induct)
  case (1 n)
  have "is_ascii_digit (char_of (48 + k))" if "0 \<le> k" "k < 10" for k :: int
    using byte_digit [OF that] that by (simp add: is_ascii_digit_def)
  with 1 show ?case
    by (simp add: decimal_digits.simps [of n])
qed

lemma decimal_digits_nonempty [simp]: "decimal_digits n \<noteq> []"
  by (simp add: decimal_digits.simps [of n])

lemma parse_u64_decimal: "0 \<le> n \<Longrightarrow> n < 2 ^ 64 \<Longrightarrow> parse_u64 (decimal_digits n) = Some n"
proof -
  assume n: "0 \<le> n" "n < 2 ^ 64"
  have "\<not> is_ascii_digit CHR ''+''"
    by (simp add: is_ascii_digit_def byte_def)
  then have "(case decimal_digits n of CHR ''+'' # ds \<Rightarrow> ds | _ \<Rightarrow> decimal_digits n) = decimal_digits n"
    using digits_of_decimal [OF n(1)] by (auto split: list.splits char.splits bool.splits)
  with n digits_of_decimal [OF n(1)] digits_value_decimal [OF n(1)] show ?thesis
    by (simp add: parse_u64_def)
qed

lemma parse_u64_Some: "parse_u64 s = Some n \<Longrightarrow> 0 \<le> n \<and> n < 2 ^ 64"
  by (auto simp: parse_u64_def Let_def digits_value_nonneg split: if_splits)

text \<open>The first digit of a positive number is not zero.\<close>

lemma decimal_digits_head: "0 < n \<Longrightarrow> hd (decimal_digits n) \<noteq> CHR ''0''"
proof (induction n rule: decimal_digits.induct)
  case (1 n)
  show ?case
  proof (cases "n < 10")
    case True
    then have "hd (decimal_digits n) = char_of (48 + n)"
      by (simp add: decimal_digits.simps [of n])
    moreover have "byte (char_of (48 + n)) \<noteq> byte CHR ''0''"
      using 1(2) True byte_digit [of n] by (simp add: byte_def)
    ultimately show ?thesis by metis
  next
    case False
    with 1 show ?thesis
      by (simp add: decimal_digits.simps [of n] pos_imp_zdiv_pos_iff)
  qed
qed

end
