(* ===== verification/Ozon_Telemetry_Correct.thy ===== *)
theory Ozon_Telemetry_Correct
  imports Ozon_Guard_Correct Decimal_Text
begin

text \<open>
  The telemetry of the Ozon guard is accepted only when it is complete: the number reader takes
  one spelling of each \<open>u64\<close>, the campaign snapshot has each expected campaign once in a known
  state, and the statistics have one row for each campaign and day. The sums agree with a
  reference definition over the natural numbers.
\<close>


section \<open>Canonical numbers\<close>

lemma canonical_decimal_exact: "canonical_decimal s = Some n \<longleftrightarrow> s = decimal (uint n)"
proof
  assume "canonical_decimal s = Some n"
  then obtain k where k: "parse_u64 s = Some k" "decimal k = s" "n = word_of_int k"
    by (auto simp: canonical_decimal_def split: option.splits if_splits)
  from parse_u64_Some [OF k(1)] k(3) have "uint n = k"
    by (simp add: uint_word_of_int)
  with k(2) show "s = decimal (uint n)" by simp
next
  assume s: "s = decimal (uint n)"
  have "uint n < 2 ^ 64"
    using uint_bounded [of n] by simp
  with s show "canonical_decimal s = Some n"
    by (simp add: canonical_decimal_def parse_u64_decimal)
qed

text \<open>
  C32. An identifier or amount of the marketplace is read from exactly two spellings: the JSON
  number, and the JSON string with the decimal digits that \<open>to_string\<close> prints, without sign or
  leading zeroes. So reading inverts printing, and no other text is taken for a number.\<close>

theorem canonical_u64_exact:
  "canonical_u64 v = Some n \<longleftrightarrow>
     v = Some (JInt (uint n)) \<or> v = Some (JString (decimal (uint n)))"
proof -
  have "json_as_u64 (JInt k) = Some n \<longleftrightarrow> k = uint n" for k
    using uint_bounded [of n] by (auto simp: uint_word_of_int)
  then show ?thesis
    by (auto simp: canonical_u64_def canonical_decimal_exact split: option.splits json.splits)
qed


section \<open>The campaign snapshot\<close>

definition row_campaign :: "json \<Rightarrow> u64 option" where
  "row_campaign row = canonical_campaign_id (json_get row ''id'')"

definition row_state :: "json \<Rightarrow> string option" where
  "row_state row = Option.bind (json_get row ''state'') json_as_str"

definition known_row :: "u64 set \<Rightarrow> json \<Rightarrow> bool" where
  "known_row expected row \<longleftrightarrow>
     (case (row_campaign row, row_state row) of
        (Some c, Some s) \<Rightarrow> c \<in> expected \<and> s \<in> set (''CAMPAIGN_STATE_RUNNING'' # idle_campaign_states)
      | _ \<Rightarrow> False)"

definition campaigns_of :: "json list \<Rightarrow> u64 set" where
  "campaigns_of rows = {c. Some c \<in> row_campaign ` set rows}"

definition running_of :: "json list \<Rightarrow> u64 set" where
  "running_of rows =
     {c. \<exists>row \<in> set rows. row_campaign row = Some c \<and> row_state row = Some ''CAMPAIGN_STATE_RUNNING''}"

lemma running_not_idle: "''CAMPAIGN_STATE_RUNNING'' \<notin> set idle_campaign_states"
  by (simp add: idle_campaign_states_def)

lemma running_campaign_rows_exact:
  "running_campaign_rows expected rows observed running = Inr (observed', running') \<longleftrightarrow>
     list_all (known_row expected) rows \<and> distinct (map row_campaign rows) \<and>
     campaigns_of rows \<inter> observed = {} \<and>
     observed' = observed \<union> campaigns_of rows \<and> running' = running \<union> running_of rows"
proof (induction rows arbitrary: observed running)
  case Nil
  then show ?case by (auto simp: campaigns_of_def running_of_def)
next
  case (Cons row rows)
  have split: "campaigns_of (row # rows) = set_option (row_campaign row) \<union> campaigns_of rows"
    by (auto simp: campaigns_of_def elem_set)
  show ?case
  proof (cases "known_row expected row")
    case False
    then show ?thesis
      by (auto simp: known_row_def row_campaign_def row_state_def result_elim
          split: option.splits if_splits)
  next
    case True
    then obtain c s where row: "row_campaign row = Some c" "row_state row = Some s" "c \<in> expected"
      and s: "s = ''CAMPAIGN_STATE_RUNNING'' \<or> s \<in> set idle_campaign_states"
      by (auto simp: known_row_def split: option.splits)
    have run: "running_of (row # rows) =
        (if s = ''CAMPAIGN_STATE_RUNNING'' then {c} else {}) \<union> running_of rows"
      by (auto simp: running_of_def row)
    have fresh: "c \<notin> campaigns_of rows \<longleftrightarrow> row_campaign row \<notin> row_campaign ` set rows"
      by (simp add: campaigns_of_def row)
    have "running_campaign_rows expected (row # rows) observed running =
        (if c \<in> observed then Error DuplicateCampaign
         else running_campaign_rows expected rows (insert c observed)
           (if s = ''CAMPAIGN_STATE_RUNNING'' then insert c running else running))"
      using row s running_not_idle by (auto simp: row_campaign_def row_state_def)
    then show ?thesis
      using True fresh by (auto simp: Cons.IH split run row)
  qed
qed

text \<open>
  The set of running campaigns is accepted exactly when the snapshot lists each expected
  campaign once and no other, each with a state the guard knows; it is then the campaigns in
  the running state. A missing, repeated, foreign or unreadable row is an error, never an
  absent campaign.\<close>

theorem running_campaigns_exact:
  "parse_complete_running_campaigns snapshot expected = Ok running \<longleftrightarrow>
     (\<exists>rows. Option.bind (json_get snapshot ''list'') json_as_array = Some rows \<and>
        list_all (known_row expected) rows \<and> distinct (map row_campaign rows) \<and>
        campaigns_of rows = expected \<and> running = running_of rows)"
  unfolding parse_complete_running_campaigns_def
  by (auto simp: result_elim running_campaign_rows_exact)


section \<open>Complete statistics\<close>

definition row_key :: "guard_metric_row \<Rightarrow> u64 \<times> naive_date" where
  "row_key r = (mr_campaign_id r, mr_business_date r)"

definition row_sum :: "(guard_metric_row \<Rightarrow> u64) \<Rightarrow> u64 \<Rightarrow> guard_metric_row list \<Rightarrow> nat" where
  "row_sum f c rows = (\<Sum>r\<leftarrow>filter (\<lambda>r. mr_campaign_id r = c) rows. unat (f r))"

definition sums_fit :: "guard_metric_row list \<Rightarrow> bool" where
  "sums_fit rows \<longleftrightarrow>
     (\<forall>c. row_sum mr_spend_minor c rows < 2 ^ 64 \<and>
          row_sum mr_attributed_revenue_minor c rows < 2 ^ 64)"

definition summed :: "guard_metric_row list \<Rightarrow> u64 \<Rightarrow> guard_metrics option" where
  "summed rows c =
     (if c \<in> mr_campaign_id ` set rows
      then Some \<lparr>gm_spend_minor = of_nat (row_sum mr_spend_minor c rows),
                 gm_attributed_revenue_minor = of_nat (row_sum mr_attributed_revenue_minor c rows)\<rparr>
      else None)"

lemma row_sum_append [simp]: "row_sum f c (rows @ rows') = row_sum f c rows + row_sum f c rows'"
  by (simp add: row_sum_def)

lemma row_sum_one [simp]:
  "row_sum f c [] = 0" "row_sum f c [r] = (if mr_campaign_id r = c then unat (f r) else 0)"
  by (simp_all add: row_sum_def)

lemma row_sum_absent: "c \<notin> mr_campaign_id ` set rows \<Longrightarrow> row_sum f c rows = 0"
  by (induction rows) (auto simp: row_sum_def)

lemma sums_fit_prefix: "sums_fit (rows @ rows') \<Longrightarrow> sums_fit rows"
  by (auto simp: sums_fit_def dest: add_lessD1)

lemma checked_add_of_nat:
  fixes a :: u64
  assumes "n < 2 ^ 64"
  shows "checked_add (of_nat n) a = (if n + unat a < 2 ^ 64 then Some (of_nat (n + unat a)) else None)"
proof -
  have "unat (of_nat n :: u64) = n"
    using assms by (simp add: unsigned_of_nat take_bit_nat_eq_self)
  then show ?thesis
    by (simp add: checked_add_def)
qed

definition agg_inv :: "naive_date \<Rightarrow> guard_metric_row list \<Rightarrow> aggregate_state \<Rightarrow> bool" where
  "agg_inv date_to rows st \<longleftrightarrow>
     btree_invar (ag_metrics st) \<and> btree_get (ag_metrics st) = summed rows \<and>
     ag_observed_days st = row_key ` set rows \<and>
     ag_current_day_campaigns st = {c. (c, date_to) \<in> row_key ` set rows} \<and> sums_fit rows"

definition row_accepted ::
  "u64 set \<Rightarrow> naive_date \<Rightarrow> naive_date \<Rightarrow> guard_metric_row \<Rightarrow> bool" where
  "row_accepted expected date_from date_to r \<longleftrightarrow> row_key r \<in> expected \<times> {date_from..date_to}"

lemma sums_fit_snoc:
  "sums_fit (rows @ [r]) \<longleftrightarrow>
     sums_fit rows \<and> row_sum mr_spend_minor (mr_campaign_id r) rows + unat (mr_spend_minor r) < 2 ^ 64 \<and>
     row_sum mr_attributed_revenue_minor (mr_campaign_id r) rows +
       unat (mr_attributed_revenue_minor r) < 2 ^ 64"
  by (auto simp: sums_fit_def dest: add_lessD1)

lemma summed_snoc:
  "summed (rows @ [r]) = (summed rows)(mr_campaign_id r \<mapsto>
     \<lparr>gm_spend_minor = of_nat (row_sum mr_spend_minor (mr_campaign_id r) rows + unat (mr_spend_minor r)),
      gm_attributed_revenue_minor = of_nat (row_sum mr_attributed_revenue_minor (mr_campaign_id r) rows +
        unat (mr_attributed_revenue_minor r))\<rparr>)"
  by (auto simp: summed_def fun_eq_iff)

lemma aggregate_row_exact:
  assumes inv: "agg_inv date_to rows st"
  shows "(\<exists>st'. aggregate_row expected date_from date_to r st = Inr st') \<longleftrightarrow>
      row_accepted expected date_from date_to r \<and> row_key r \<notin> row_key ` set rows \<and>
      sums_fit (rows @ [r])"
    and "aggregate_row expected date_from date_to r st = Inr st' \<Longrightarrow>
      agg_inv date_to (rows @ [r]) st'"
proof -
  let ?c = "mr_campaign_id r"
  let ?entry = "case btree_get (ag_metrics st) ?c of
      None \<Rightarrow> \<lparr>gm_spend_minor = 0, gm_attributed_revenue_minor = 0\<rparr> | Some m \<Rightarrow> m"
  let ?s = "row_sum mr_spend_minor ?c rows"
  let ?v = "row_sum mr_attributed_revenue_minor ?c rows"
  have entry: "?entry = \<lparr>gm_spend_minor = of_nat ?s, gm_attributed_revenue_minor = of_nat ?v\<rparr>"
    using inv row_sum_absent [of ?c rows] by (auto simp: agg_inv_def summed_def)
  have fit: "?s < 2 ^ 64" "?v < 2 ^ 64"
    using inv by (auto simp: agg_inv_def sums_fit_def)
  have ok: "aggregate_row expected date_from date_to r st = Inr st' \<longleftrightarrow>
      row_accepted expected date_from date_to r \<and> row_key r \<notin> ag_observed_days st \<and>
      ?s + unat (mr_spend_minor r) < 2 ^ 64 \<and> ?v + unat (mr_attributed_revenue_minor r) < 2 ^ 64 \<and>
      st' = \<lparr>ag_metrics = btree_insert ?c
               \<lparr>gm_spend_minor = of_nat (?s + unat (mr_spend_minor r)),
                gm_attributed_revenue_minor = of_nat (?v + unat (mr_attributed_revenue_minor r))\<rparr>
               (ag_metrics st),
             ag_observed_days = insert (row_key r) (ag_observed_days st),
             ag_current_day_campaigns =
               (if mr_business_date r = date_to then insert ?c (ag_current_day_campaigns st)
                else ag_current_day_campaigns st)\<rparr>" for st'
    unfolding aggregate_row_def Let_def entry
    by (auto simp: result_elim checked_add_of_nat [OF fit(1)] checked_add_of_nat [OF fit(2)]
        row_accepted_def row_key_def split: if_splits)
  from inv show "(\<exists>st'. aggregate_row expected date_from date_to r st = Inr st') \<longleftrightarrow>
      row_accepted expected date_from date_to r \<and> row_key r \<notin> row_key ` set rows \<and>
      sums_fit (rows @ [r])"
    unfolding ok sums_fit_snoc by (simp add: agg_inv_def)
  show "agg_inv date_to (rows @ [r]) st'"
    if "aggregate_row expected date_from date_to r st = Inr st'"
    using that inv unfolding ok agg_inv_def sums_fit_snoc summed_snoc
    by (auto simp: btree_insert_invar btree_get_insert row_key_def)
qed

lemma aggregate_rows_exact:
  assumes "agg_inv date_to seen st" and "distinct (map row_key seen)"
  shows "(\<exists>st'. aggregate_rows expected date_from date_to rows st = Inr st') \<longleftrightarrow>
      list_all (row_accepted expected date_from date_to) rows \<and>
      distinct (map row_key (seen @ rows)) \<and> sums_fit (seen @ rows)"
    and "aggregate_rows expected date_from date_to rows st = Inr st' \<Longrightarrow>
      agg_inv date_to (seen @ rows) st'"
proof -
  have "((\<exists>st'. aggregate_rows expected date_from date_to rows st = Inr st') \<longleftrightarrow>
      list_all (row_accepted expected date_from date_to) rows \<and>
      distinct (map row_key (seen @ rows)) \<and> sums_fit (seen @ rows)) \<and>
      (\<forall>st'. aggregate_rows expected date_from date_to rows st = Inr st' \<longrightarrow>
        agg_inv date_to (seen @ rows) st')"
    using assms
  proof (induction rows arbitrary: seen st)
    case Nil
    then show ?case by (simp add: agg_inv_def)
  next
    case (Cons r rows)
    note step = aggregate_row_exact [OF Cons.prems(1), of expected date_from r]
    show ?case
    proof (cases "aggregate_row expected date_from date_to r st")
      case (Inl e)
      have "\<not> (row_accepted expected date_from date_to r \<and> row_key r \<notin> row_key ` set seen \<and>
          sums_fit (seen @ [r]))"
        using step(1) Inl by auto
      moreover have "sums_fit (seen @ r # rows) \<Longrightarrow> sums_fit (seen @ [r])"
        using sums_fit_prefix [of "seen @ [r]" rows] by simp
      ultimately show ?thesis
        using Inl by auto
    next
      case (Inr st1)
      have acc: "row_accepted expected date_from date_to r" "row_key r \<notin> row_key ` set seen"
        using step(1) Inr by auto
      have inv1: "agg_inv date_to (seen @ [r]) st1"
        using step(2) Inr by blast
      have "distinct (map row_key (seen @ [r]))"
        using acc(2) Cons.prems(2) by auto
      from Cons.IH [OF inv1 this] Inr acc(1) show ?thesis
        by simp
    qed
  qed
  then show "(\<exists>st'. aggregate_rows expected date_from date_to rows st = Inr st') \<longleftrightarrow>
      list_all (row_accepted expected date_from date_to) rows \<and>
      distinct (map row_key (seen @ rows)) \<and> sums_fit (seen @ rows)"
    "aggregate_rows expected date_from date_to rows st = Inr st' \<Longrightarrow>
      agg_inv date_to (seen @ rows) st'"
    by blast+
qed

lemma btree_unique:
  assumes "btree_invar m" "btree_invar m'" "btree_get m = btree_get m'"
  shows "m = m'"
proof (rule map_sorted_distinct_set_unique)
  show sets: "set m = set m'"
    using btree.entries_get [OF assms(1)] btree.entries_get [OF assms(2)] assms(3) by auto
  show "sorted (map fst m)" "distinct (map fst m)" "sorted (map fst m')" "distinct (map fst m')"
    using assms(1,2) by (simp_all add: btree_invar_def strict_sorted_iff)
  then show "inj_on fst (set m \<union> set m')"
    by (simp add: sets distinct_map)
qed

text \<open>The reference: one row for each expected campaign and day, and sums that fit.\<close>

definition complete_statistics ::
  "u64 set \<Rightarrow> naive_date \<Rightarrow> naive_date \<Rightarrow> guard_metric_row list \<Rightarrow> bool" where
  "complete_statistics expected date_from date_to rows \<longleftrightarrow>
     distinct (map row_key rows) \<and> row_key ` set rows = expected \<times> {date_from..date_to} \<and>
     sums_fit rows"

lemma cover_by_count:
  fixes expected :: "u64 set"
  assumes "keys \<subseteq> expected \<times> {date_from..date_to}" and "date_from \<le> date_to"
  shows "(fst ` keys = expected \<and> {c. (c, date_to) \<in> keys} = expected \<and>
      int (card keys) = (date_to - date_from + 1) * int (card expected)) \<longleftrightarrow>
    keys = expected \<times> {date_from..date_to :: int}"
proof -
  have fin: "finite (expected \<times> {date_from..date_to})"
    by simp
  have "int (card (expected \<times> {date_from..date_to})) = (date_to - date_from + 1) * int (card expected)"
    using assms(2) by (simp add: card_cartesian_product mult.commute)
  then have "int (card keys) = (date_to - date_from + 1) * int (card expected) \<longleftrightarrow>
      keys = expected \<times> {date_from..date_to}"
    using assms(1) fin by (metis card_subset_eq of_nat_eq_iff)
  moreover have "fst ` keys = expected \<and> {c. (c, date_to) \<in> keys} = expected"
    if "keys = expected \<times> {date_from..date_to}"
    using assms(2) that by force
  ultimately show ?thesis
    by blast
qed

lemma accepted_cover:
  "list_all (row_accepted expected date_from date_to) rows \<longleftrightarrow>
     row_key ` set rows \<subseteq> expected \<times> {date_from..date_to}"
  by (auto simp: list_all_iff row_accepted_def)

lemma campaigns_of_keys: "mr_campaign_id ` set rows = fst ` row_key ` set rows"
  by (auto simp: row_key_def image_iff)

text \<open>
  C19. The statistics of a window are accepted exactly when they have one row for each expected
  campaign and each day of the window, and no other; the result maps each campaign to the
  sums of its rows over the natural numbers. So a missing day is never read as zero spend, a
  repeated row is never counted twice, and no sum wraps around.\<close>

theorem guard_metrics_exact:
  "aggregate_complete_guard_metrics expected date_from date_to rows = Ok m \<longleftrightarrow>
     date_from \<le> date_to \<and> date_to - date_from + 1 < 2 ^ 63 \<and>
     (date_to - date_from + 1) * int (card expected) < 2 ^ 64 \<and>
     complete_statistics expected date_from date_to rows \<and>
     btree_invar m \<and> btree_get m = summed rows"
proof -
  let ?st0 = "\<lparr>ag_metrics = [], ag_observed_days = {}, ag_current_day_campaigns = {}\<rparr>"
  have inv0: "agg_inv date_to [] ?st0"
    by (simp add: agg_inv_def btree_invar_def btree_get_def summed_def fun_eq_iff sums_fit_def)
  note run = aggregate_rows_exact [OF inv0, simplified]
  have keys: "set (btree_keys (ag_metrics st)) = fst ` row_key ` set rows"
    if "agg_inv date_to rows st" for st
    using that btree.keys_of_entries [of "ag_metrics st"]
    by (auto simp: agg_inv_def btree_keys_def summed_def dom_def campaigns_of_keys [symmetric])
  have accept: "(set (btree_keys (ag_metrics st)) = expected \<and> ag_current_day_campaigns st = expected \<and>
      int (card (ag_observed_days st)) = (date_to - date_from + 1) * int (card expected)) \<longleftrightarrow>
      row_key ` set rows = expected \<times> {date_from..date_to}"
    if "agg_inv date_to rows st" "row_key ` set rows \<subseteq> expected \<times> {date_from..date_to}"
      "date_from \<le> date_to" for st
  proof -
    have "ag_observed_days st = row_key ` set rows"
      "ag_current_day_campaigns st = {c. (c, date_to) \<in> row_key ` set rows}"
      using that(1) by (simp_all add: agg_inv_def)
    then show ?thesis
      unfolding keys [OF that(1)] using cover_by_count [OF that(2,3)] by simp
  qed
  show ?thesis (is "_ \<longleftrightarrow> ?rhs")
  proof
    assume ok: "aggregate_complete_guard_metrics expected date_from date_to rows = Ok m"
    then obtain st where st: "aggregate_rows expected date_from date_to rows ?st0 = Inr st" "m = ag_metrics st"
      "set (btree_keys (ag_metrics st)) = expected" "ag_current_day_campaigns st = expected"
      "int (card (ag_observed_days st)) = (date_to - date_from + 1) * int (card expected)"
      and lim: "date_from \<le> date_to" "date_to - date_from + 1 < 2 ^ 63"
        "(date_to - date_from + 1) * int (card expected) < 2 ^ 64"
      by (auto simp: aggregate_complete_guard_metrics_def Let_def result_elim)
    have "distinct (map row_key rows)" "sums_fit rows"
      "row_key ` set rows \<subseteq> expected \<times> {date_from..date_to}"
      using run(1) [of expected date_from rows] st(1) by (auto simp: accepted_cover)
    with run(2) [OF st(1)] accept st lim show ?rhs
      by (auto simp: complete_statistics_def agg_inv_def)
  next
    assume rhs: ?rhs
    then have cover: "row_key ` set rows \<subseteq> expected \<times> {date_from..date_to}"
      by (simp add: complete_statistics_def)
    with rhs run(1) [of expected date_from rows] obtain st
      where st: "aggregate_rows expected date_from date_to rows ?st0 = Inr st"
      by (auto simp: accepted_cover complete_statistics_def)
    note inv = run(2) [OF st]
    have "m = ag_metrics st"
      by (rule btree_unique) (use rhs inv in \<open>simp_all add: agg_inv_def\<close>)
    with rhs st accept [OF inv cover] show
      "aggregate_complete_guard_metrics expected date_from date_to rows = Ok m"
      by (simp add: aggregate_complete_guard_metrics_def Let_def complete_statistics_def)
  qed
qed

end
