(* ===== verification/Ozon_Samples.thy ===== *)
theory Ozon_Samples
  imports Ozon_Cycle
begin

text \<open>
  A concrete instance of the parameters of the static Ozon guard: one reviewed campaign, the
  authority that bounds it, a database that answers, and an observation whose spend is above
  the cap while the marketplace keeps reporting the campaign as running.
\<close>

definition ozon_sample_libraries :: ozon_libraries where
  "ozon_sample_libraries = \<lparr>
     ol_web = \<lparr>
       wl_core = \<lparr>from_str = (\<lambda>_. None), to_json_string = (\<lambda>_. []), jsonb = (\<lambda>_. None),
                  sha256_hex = (\<lambda>_. replicate 64 (CHR ''a'')), rfc3339 = (\<lambda>_. [])\<rparr>,
       wl_sid_of = (\<lambda>_. None), wl_rfc2822 = (\<lambda>_. None)\<rparr>,
     ol_guard_file = (\<lambda>bytes. if bytes = ''guards'' then Some \<lparr>
         sf_account_id = ''main'', sf_dynamic_bid_control = None,
         sf_guards = [\<lparr>se_campaign_id = 7, se_sku = 9, se_date_from = ''2026-08-20'',
           se_spend_cap_microrubles = 500000000, se_target_drr_percent = 20,
           se_min_cpc_bid_microrubles = 3000000, se_max_cpc_bid_microrubles = 9000000\<rparr>]\<rparr> else None),
     ol_parse_date = (\<lambda>s. if s = ''2026-08-20'' then Some 20685 else None),
     ol_date_text = (\<lambda>d. if d = 20685 then ''2026-08-20'' else ''2026-08-21'')\<rparr>"

definition sample_static_guard :: static_campaign_guard where
  "sample_static_guard = static_guard_of ''main''
     \<lparr>se_campaign_id = 7, se_sku = 9, se_date_from = ''2026-08-20'',
      se_spend_cap_microrubles = 500000000, se_target_drr_percent = 20,
      se_min_cpc_bid_microrubles = 3000000, se_max_cpc_bid_microrubles = 9000000\<rparr>"

definition sample_control_policy :: control_policy where
  "sample_control_policy = \<lparr>cp_version = 1, cp_revision = 1, cp_mode = ControlEnabled,
     cp_actors = [[\<lparr>lt_account_id = ''main'', lt_skus = [9],
       lt_per_sku_spend_cap_microrubles = 500000000, lt_initial_cpc_bid_microrubles = 3000000,
       lt_max_cpc_bid_microrubles = 9000000, lt_target_drr_percent = 20, lt_target_position = 4\<rparr>]],
     cp_digest = replicate 64 (CHR ''b'')\<rparr>"

definition sample_authority :: guard_authority where
  "sample_authority = \<lparr>ga_policy = sample_control_policy, ga_runtime_account_id = ''main'',
     ga_store = ''store'', ga_executor_fingerprint = ''print'', ga_worker_id = ''guard'',
     ga_config_digest = replicate 64 (CHR ''a'')\<rparr>"

definition noon :: instant where
  "noon = seconds (20685 * 86400 + 43200)"

definition ok_exchange :: exchange_env where
  "ok_exchange = \<lparr>xe_admit_session = Answered, xe_admit_clock = noon,
     xe_reply = Responded \<lparr>hr_status = 200, hr_headers = [], hr_content_length = Some 0, hr_chunks = []\<rparr>,
     xe_response_clock = noon, xe_defer_session = Answered, xe_defer_clock = noon\<rparr>"

definition sample_answer :: answer where
  "sample_answer = \<lparr>
     an_save = StateSaved,
     an_read = Some (JObject
       [(''list'', JArray [JObject [(''id'', JInt 7), (''state'', JString ''CAMPAIGN_STATE_RUNNING'')]]),
        (''products'', JArray [JObject [(''sku'', JInt 9), (''bid'', JInt 5000000)]])]),
     an_rows = Some [\<lparr>mr_business_date = 20685, mr_campaign_id = 7, mr_spend_minor = 60000,
                      mr_attributed_revenue_minor = 900000\<rparr>],
     an_position = None,
     an_position_ready = True,
     an_now = noon,
     an_write = \<lparr>oe_token_clock = noon, oe_token = ok_exchange, oe_token_stored_at = noon,
       oe_preflight = True, oe_locked_at = noon, oe_overslept = 0, oe_permit_took = 0,
       oe_write = ok_exchange\<rparr>,
     an_registry = Some [\<lparr>ra_id = ''main'', ra_ozon = Some (''store'', Some ''print'')\<rparr>],
     an_config = Some ''guards'',
     an_link = AuditAnswered,
     an_database_now = noon,
     an_readable = True\<rparr>"

definition sample_static_runtime :: static_runtime where
  "sample_static_runtime = \<lparr>rt_libraries = ozon_sample_libraries,
     rt_client = \<lparr>zc_client_id = ''client'', zc_backend = QuotaDisabled, zc_minimum_interval = seconds 1\<rparr>,
     rt_authority = sample_authority, rt_guards = [sample_static_guard], rt_control = None,
     rt_answers = (\<lambda>_. sample_answer)\<rparr>"

definition sample_gate :: gate_row where
  "sample_gate = \<lparr>gt_enabled = True, gt_lease_expires_at = noon + 1, gt_disabled_until = None\<rparr>"

definition sample_tables :: ozon_tables where
  "sample_tables = \<lparr>
     oz_events = [\<lparr>ae_event_id = 1, ae_account_id = ''main'', ae_sku = None, ae_campaign_id = None,
       ae_mutation = None, ae_target_bid = None, ae_config_digest = replicate 64 (CHR ''a''),
       ae_schema_version = 1, ae_policy_revision = 1, ae_policy_digest = replicate 64 (CHR ''b''),
       ae_worker_id = ''guard'', ae_event_type = ''state_initialized''\<rparr>],
     oz_sequence = 1,
     oz_policies = [\<lparr>pv_schema_version = 1, pv_policy_revision = 1,
                     pv_policy_digest = replicate 64 (CHR ''b'')\<rparr>],
     oz_gates = (\<lambda>_. Some sample_gate)\<rparr>"

definition sample_static_state :: static_state where
  "sample_static_state = empty_static_state\<lparr>ss_last_static_audit_event_id := Some 1\<rparr>"

definition sample_static_world :: static_world where
  "sample_static_world = \<lparr>
     sw_ozon = \<lparr>
       ow_caller = \<lparr>sl_memory = sample_static_state, sl_file = Some sample_static_state,
                    sl_tables = sample_tables\<rparr>,
       ow_quota = (\<lambda>_. None), ow_token = Some (''token'', noon + 1), ow_next_start = 0,
       ow_departed = []\<rparr>,
     sw_tick = 0\<rparr>"

text \<open>The world after one cycle.\<close>

definition sample_cycle :: "(static_error, unit) result \<times> static_world" where
  "sample_cycle = guard_once_static sample_static_runtime noon sample_static_world"

end
