(* ===== verification/Ozon_Static_Correct.thy ===== *)
theory Ozon_Static_Correct
  imports Ozon_Static_Moves Ozon_Telemetry_Correct Ozon_Samples
begin

text \<open>
  What the static Ozon guard promises about its writes: every request that leaves is recorded
  before (in the state file and in the audit table), a campaign with an unresolved incident is
  left alone by the cycles, and a bid is only raised on the evidence of the same cycle.
\<close>


section \<open>Departures of a run\<close>

definition extends :: "(static_local ozon_departure \<Rightarrow> bool) \<Rightarrow> static_world \<Rightarrow> static_world \<Rightarrow> bool" where
  "extends P w w' \<longleftrightarrow> (\<exists>ds. departures_of w' = ds @ departures_of w \<and> list_all P ds)"

lemma extends_refl [simp]: "departures_of w' = departures_of w \<Longrightarrow> extends P w w'"
  by (auto simp: extends_def)

lemma extends_trans: "extends P w w1 \<Longrightarrow> extends P w1 w2 \<Longrightarrow> extends P w w2"
  by (auto simp: extends_def)

lemma extends_sends:
  "sends rt sg mutation target request ins w w' \<Longrightarrow>
     (\<And>d. od_request d = request \<Longrightarrow> od_caller d = local_of w' \<Longrightarrow> P d) \<Longrightarrow> extends P w w'"
  by (auto simp: extends_def sends_def)

lemma read_frame:
  assumes "read_exact_bid rt sg w = (r, w')"
  shows "local_of w' = local_of w" "departures_of w' = departures_of w"
  using assms
  by (auto simp: read_exact_bid_def campaign_product_snapshot_def ask_def bind_run_def
      local_of_def departures_of_def split: sum.splits)

lemma running_frame:
  assumes "campaign_is_running rt c w = (r, w')"
  shows "local_of w' = local_of w" "departures_of w' = departures_of w"
  using assms by (auto simp: campaign_is_running_def ask_def local_of_def departures_of_def)

lemma memory_frame: "local_of w' = local_of w \<Longrightarrow> memory_of w' = memory_of w"
  by (simp only: memory_of_def)

definition clear_campaign :: "u64 \<Rightarrow> static_state \<Rightarrow> static_state" where
  "clear_campaign c st = (remove_pending_mutation c (remove_pending_bid c st))\<lparr>
     ss_incident_campaign_ids := ss_incident_campaign_ids st - {c},
     ss_incidents := btree_remove c (ss_incidents st)\<rparr>"

lemma clear_cases:
  "snd (clear_reconciled_static_campaign_state rt c w) = update_memory (clear_campaign c) w \<or>
   snd (clear_reconciled_static_campaign_state rt c w) =
     snd (save_memory rt (update_memory (clear_campaign c) w))"
  unfolding clear_reconciled_static_campaign_state_def Let_def clear_campaign_def by simp

lemma initialize_cases:
  assumes "initialize_static_guard_state lk schema revision digest account config worker prior
    cursor s t = (r, s', t')"
  shows "tables_grow t t'" "s' = s \<or> s' = snd (cursor (word_of_int (oz_sequence t + 1)) s)"
  using assms
  by (auto simp: initialize_static_guard_state_def dest: stage_event_cases(1,2)
      split: sum.splits prod.splits if_splits)

lemma initialize_frame:
  assumes "initialize_static rt w = (r, w')"
  shows "departures_of w' = departures_of w"
    "kept_local rt (\<lambda>st. st) (\<lambda>st. st) (local_of w) (local_of w')"
proof -
  let ?a = "rt_answers rt (sw_tick w)" and ?ga = "rt_authority rt" and ?l = "local_of w"
  obtain ri s t where init: "initialize_static_guard_state (an_link ?a) (cp_version (ga_policy ?ga))
      (cp_revision (ga_policy ?ga)) (cp_digest (ga_policy ?ga)) (ga_runtime_account_id ?ga)
      (ga_config_digest ?ga) (ga_worker_id ?ga) (ss_last_static_audit_event_id (memory_of w))
      (static_cursor (rt_libraries rt) (an_save ?a)) (sl_memory ?l, sl_file ?l) (sl_tables ?l)
      = (ri, s, t)"
    by (metis surj_pair)
  with assms have w': "w' = set_local (?l\<lparr>sl_memory := fst s, sl_file := snd s, sl_tables := t\<rparr>)
      (snd (ask rt w))"
    by (auto simp: initialize_static_def ask_def local_of_def memory_of_def Let_def)
  then show "departures_of w' = departures_of w" by simp
  obtain mr ms mf where m: "static_cursor (rt_libraries rt) (an_save ?a)
      (word_of_int (oz_sequence (sl_tables ?l) + 1)) (sl_memory ?l, sl_file ?l) = (mr, ms, mf)"
    by (metis surj_pair)
  from initialize_cases [OF init] m static_marker_cases [OF m [unfolded static_cursor_def]] w'
  show "kept_local rt (\<lambda>st. st) (\<lambda>st. st) ?l (local_of w')"
    by (cases mr) (auto simp: kept_local_def)
qed


section \<open>Write-ahead\<close>

definition evidence_of ::
  "static_campaign_guard \<Rightarrow> ozon_request \<Rightarrow> static_state \<Rightarrow> static_audit_event \<Rightarrow> bool" where
  "evidence_of sg request st ev \<longleftrightarrow>
     (\<exists>p. request = bid_request sg (sb_to_microrubles p) \<and>
        btree_get (ss_pending_bid_changes st) (campaign_of sg) = Some p \<and>
        btree_get (ss_pending_campaign_mutations st) (campaign_of sg) = None \<and>
        pending_matches_static_guard p sg \<and>
        ae_mutation ev = Some Mut_SetBid \<and> ae_target_bid ev = Some (uint (sb_to_microrubles p))) \<or>
     (\<exists>q. request = campaign_request (sm_kind q) (campaign_of sg) \<and>
        btree_get (ss_pending_campaign_mutations st) (campaign_of sg) = Some q \<and>
        btree_get (ss_pending_bid_changes st) (campaign_of sg) = None \<and>
        pending_campaign_mutation_matches_guard q sg \<and>
        ae_mutation ev = Some (audit_mutation (sm_kind q)) \<and> ae_target_bid ev = None)"

definition write_ahead :: "static_runtime \<Rightarrow> static_local ozon_departure \<Rightarrow> bool" where
  "write_ahead rt d \<longleftrightarrow>
     (let l = od_caller d; st = sl_memory l in
      sl_file l = Some st \<and> state_is_valid (rt_libraries rt) st \<and>
      (\<exists>sg \<in> set (rt_guards rt). \<exists>ev evs.
         oz_events (sl_tables l) = ev # evs \<and> ae_event_type ev = ''write_authorized'' \<and>
         ss_last_static_audit_event_id st = Some (word_of_int (ae_event_id ev)) \<and>
         ae_account_id ev = cg_account_id (sg_guard sg) \<and>
         ae_sku ev = Some (uint (cg_sku (sg_guard sg))) \<and>
         ae_campaign_id ev = Some (uint (campaign_of sg)) \<and>
         ae_config_digest ev = ga_config_digest (rt_authority rt) \<and>
         evidence_of sg (od_request d) st ev))"

lemma valid_pending_exclusive:
  assumes "state_is_valid ol st" "btree_get (ss_pending_bid_changes st) c = Some p"
    "btree_get (ss_pending_campaign_mutations st) c = Some q"
  shows False
proof -
  have "(c, q) \<in> set (ss_pending_campaign_mutations st)"
    using assms(3) by (auto simp: btree_get_def dest: map_of_SomeD)
  with assms(1,2) show False
    by (auto simp: state_is_valid_def list_all_iff)
qed

lemma valid_pending_bid_value:
  assumes "state_is_valid ol st" "btree_get (ss_pending_bid_changes st) c = Some p"
  shows "valid_pending_bid_change ol p"
  using assms by (force simp: state_is_valid_def list_all_iff btree_get_def btree_values_def
      dest: map_of_SomeD)

lemma pending_bid_matches:
  assumes "valid_pending_bid_change ol (pending_bid_of sg a b t)"
  shows "pending_matches_static_guard (pending_bid_of sg a b t) sg"
  using assms
  by (auto simp: valid_pending_bid_change_def pending_matches_static_guard_def pending_bid_of_def
      binding_is_legacy_def)

lemma marked_write_ahead:
  assumes "sg \<in> set (rt_guards rt)" "marked_local rt sg mutation target ins l (od_caller d)"
    and "\<And>e st. ss_last_static_audit_event_id (marked_state ins e st) = Some e"
    and "\<And>e ev. event_of_intent (write_intent rt sg mutation target) e ev \<Longrightarrow>
      evidence_of sg (od_request d) (sl_memory (od_caller d)) ev"
  shows "write_ahead rt d"
proof -
  from assms(2) obtain ev where ev: "event_of_intent (write_intent rt sg mutation target)
      (oz_sequence (sl_tables l) + 1) ev"
    "oz_events (sl_tables (od_caller d)) = ev # oz_events (sl_tables l)"
    by (auto simp: marked_local_def Let_def)
  have "ss_last_static_audit_event_id (sl_memory (od_caller d)) = Some (word_of_int (ae_event_id ev))"
    using assms(2,3) ev(1) by (simp add: marked_local_def Let_def event_of_intent_def)
  with assms(2) ev assms(4) [OF ev(1)] show ?thesis
    unfolding write_ahead_def Let_def
    by (intro conjI bexI [OF _ assms(1)])
      (auto simp: marked_local_def Let_def event_of_intent_def write_intent_def)
qed

lemma bid_write_ahead:
  assumes "sg \<in> set (rt_guards rt)"
    and "sends rt sg Mut_SetBid (Some b) (bid_request sg b)
      (insert_pending_bid (campaign_of sg) (pending_bid_of sg a b t)) w w'"
  shows "od_request d = bid_request sg b \<Longrightarrow> od_caller d = local_of w' \<Longrightarrow> write_ahead rt d"
proof -
  let ?p = "pending_bid_of sg a b t" and ?st = "memory_of w'"
  assume d: "od_request d = bid_request sg b" "od_caller d = local_of w'"
  from assms(2) have m: "marked_local rt sg Mut_SetBid (Some b)
      (insert_pending_bid (campaign_of sg) ?p) (local_of w) (local_of w')"
    by (simp add: sends_def)
  then have valid: "state_is_valid (rt_libraries rt) ?st"
    and bid: "btree_get (ss_pending_bid_changes ?st) (campaign_of sg) = Some ?p"
    by (auto simp: marked_local_def Let_def)
  have "btree_get (ss_pending_campaign_mutations ?st) (campaign_of sg) = None"
    using valid_pending_exclusive [OF valid bid] by fastforce
  with bid have "evidence_of sg (bid_request sg b) ?st ev"
    if "event_of_intent (write_intent rt sg Mut_SetBid (Some b)) e ev" for e ev
    using that pending_bid_matches [OF valid_pending_bid_value [OF valid bid]]
    by (auto simp: evidence_of_def event_of_intent_def write_intent_def pending_bid_of_def)
  with m d assms(1) show "write_ahead rt d"
    by (intro marked_write_ahead) auto
qed

lemma mutation_write_ahead:
  assumes "sg \<in> set (rt_guards rt)"
    and "sends rt sg (audit_mutation k) None (campaign_request k (campaign_of sg))
      (insert_pending_mutation (campaign_of sg) (pending_mutation_of sg k reason s v t)) w w'"
  shows "od_request d = campaign_request k (campaign_of sg) \<Longrightarrow> od_caller d = local_of w' \<Longrightarrow>
    write_ahead rt d"
proof -
  let ?q = "pending_mutation_of sg k reason s v t" and ?st = "memory_of w'"
  assume d: "od_request d = campaign_request k (campaign_of sg)" "od_caller d = local_of w'"
  from assms(2) have m: "marked_local rt sg (audit_mutation k) None
      (insert_pending_mutation (campaign_of sg) ?q) (local_of w) (local_of w')"
    by (simp add: sends_def)
  then have valid: "state_is_valid (rt_libraries rt) ?st"
    and q: "btree_get (ss_pending_campaign_mutations ?st) (campaign_of sg) = Some ?q"
    by (auto simp: marked_local_def Let_def)
  have "btree_get (ss_pending_bid_changes ?st) (campaign_of sg) = None"
    using valid_pending_exclusive [OF valid _ q] by fastforce
  with q have "evidence_of sg (campaign_request k (campaign_of sg)) ?st ev"
    if "event_of_intent (write_intent rt sg (audit_mutation k) None) e ev" for e ev
    using that
    by (auto simp: evidence_of_def event_of_intent_def write_intent_def pending_mutation_of_def
        pending_campaign_mutation_matches_guard_def)
  with m d assms(1) show "write_ahead rt d"
    by (intro marked_write_ahead) auto
qed

lemma extends_bid:
  assumes "sg \<in> set (rt_guards rt)"
  shows "extends (write_ahead rt) w (snd (write_bid rt sg a b t w))"
  using write_cases [of rt sg Mut_SetBid "Some b" "bid_request sg b"
      "insert_pending_bid (campaign_of sg) (pending_bid_of sg a b t)"
      "remove_pending_bid (campaign_of sg)" w, folded write_bid_def]
  by (auto intro: extends_sends bid_write_ahead [OF assms])

lemma extends_mutation:
  assumes "sg \<in> set (rt_guards rt)"
  shows "extends (write_ahead rt) w (snd (write_mutation rt sg k reason s v t w))"
  using write_cases [of rt sg "audit_mutation k" None "campaign_request k (campaign_of sg)"
      "insert_pending_mutation (campaign_of sg) (pending_mutation_of sg k reason s v t)"
      "remove_pending_mutation (campaign_of sg)" w, folded write_mutation_def]
  by (auto intro: extends_sends mutation_write_ahead [OF assms])

lemma incident_frame:
  assumes "record_static_guard_incident rt sg reason cls s v w = (r, w')"
  shows "departures_of w' = departures_of w"
    "ss_incident_campaign_ids (memory_of w') =
       insert (campaign_of sg) (ss_incident_campaign_ids (memory_of w))"
    "ss_pending_bid_changes (memory_of w') = ss_pending_bid_changes (memory_of w)"
    "ss_pending_campaign_mutations (memory_of w') = ss_pending_campaign_mutations (memory_of w)"
    "sl_tables (local_of w') = sl_tables (local_of w)"
    "sl_file (local_of w') = sl_file (local_of w) \<or> sl_file (local_of w') = Some (memory_of w') \<and>
       state_is_valid (rt_libraries rt) (memory_of w')"
proof -
  define f where "f = (\<lambda>st :: static_state. st\<lparr>
      ss_incident_campaign_ids := insert (campaign_of sg) (ss_incident_campaign_ids st),
      ss_incidents := or_insert (campaign_of sg)
        (incident_of sg reason cls s v (an_now (rt_answers rt (sw_tick w)))) (ss_incidents st)\<rparr>)"
  have "save_memory rt (update_memory f (snd (ask rt w))) = (r, w')"
    using assms by (simp add: record_static_guard_incident_def ask_def Let_def f_def)
  note save = save_memory_frame [OF this]
  then show "departures_of w' = departures_of w"
    "ss_incident_campaign_ids (memory_of w') =
       insert (campaign_of sg) (ss_incident_campaign_ids (memory_of w))"
    "ss_pending_bid_changes (memory_of w') = ss_pending_bid_changes (memory_of w)"
    "ss_pending_campaign_mutations (memory_of w') = ss_pending_campaign_mutations (memory_of w)"
    "sl_tables (local_of w') = sl_tables (local_of w)"
    "sl_file (local_of w') = sl_file (local_of w) \<or> sl_file (local_of w') = Some (memory_of w') \<and>
       state_is_valid (rt_libraries rt) (memory_of w')"
    by (simp_all add: f_def)
qed

lemmas incident_snd = incident_frame [OF prod.collapse [symmetric]]

lemma clear_departures:
  "departures_of (snd (clear_reconciled_static_campaign_state rt c w)) = departures_of w"
  using clear_cases [of rt c w] by (auto simp: save_memory_snd)

interpretation ahead: run_relation rt "extends (write_ahead rt)" for rt
  by unfold_locales
    (auto simp: save_memory_snd incident_snd clear_departures read_frame running_frame
      initialize_frame [OF prod.collapse [symmetric]]
      intro: extends_bid extends_mutation extends_trans)

text \<open>
  C5. Whatever the command, the marketplace, the database and the disk answer, every write of a
  run of the static guard leaves with its record already durable: the state file equals the
  valid memory and holds the pending change of exactly this campaign, bound to the reviewed
  guard; and the newest committed audit event, whose id is the watermark of the file, is the
  authorization of this request.\<close>

theorem static_write_ahead:
  "\<exists>ds. departures_of (snd (run_static rt command polls w)) = ds @ departures_of w \<and>
     list_all (write_ahead rt) ds"
  using ahead.R_run [of rt w command polls] by (simp add: extends_def)


section \<open>Incidents lock a campaign\<close>

fun request_campaign :: "ozon_request \<Rightarrow> u64 option" where
  "request_campaign (OzonCreate r) = None"
| "request_campaign (OzonAddProducts c strategy bids) = Some c"
| "request_campaign (OzonUpdateProducts c strategy bids) = Some c"
| "request_campaign (OzonActivate c) = Some c"
| "request_campaign (OzonDeactivate c) = Some c"

lemma request_campaign_simps [simp]:
  "request_campaign (bid_request sg b) = Some (campaign_of sg)"
  "request_campaign (campaign_request k c) = Some c"
  by (simp_all add: bid_request_def campaign_request_def split: campaign_mutation_kind.splits)

definition unlocked_departure :: "static_local ozon_departure \<Rightarrow> bool" where
  "unlocked_departure d \<longleftrightarrow>
     (\<exists>c. request_campaign (od_request d) = Some c \<and>
        c \<notin> ss_incident_campaign_ids (sl_memory (od_caller d)))"

definition lock_kept :: "static_world \<Rightarrow> static_world \<Rightarrow> bool" where
  "lock_kept w w' \<longleftrightarrow>
     ss_incident_campaign_ids (memory_of w) \<subseteq> ss_incident_campaign_ids (memory_of w') \<and>
     (\<exists>ds. departures_of w' = ds @ departures_of w \<and>
        list_all (\<lambda>d. unlocked_departure d \<and>
          ss_incident_campaign_ids (memory_of w) \<subseteq> ss_incident_campaign_ids (sl_memory (od_caller d))) ds)"

lemma lock_kept_quiet:
  "ss_incident_campaign_ids (memory_of w) \<subseteq> ss_incident_campaign_ids (memory_of w') \<Longrightarrow>
     departures_of w' = departures_of w \<Longrightarrow> lock_kept w w'"
  by (auto simp: lock_kept_def)

lemma lock_kept_trans: "lock_kept w w1 \<Longrightarrow> lock_kept w1 w2 \<Longrightarrow> lock_kept w w2"
  unfolding lock_kept_def by (auto simp: list_all_iff) blast+

lemma lock_kept_write:
  assumes "static_write rt sg mutation target request ins del w = (r, w')"
    and "request_campaign request = Some (campaign_of sg)" "\<not> locked (campaign_of sg) w"
    and "\<And>e st. ss_incident_campaign_ids (marked_state ins e st) = ss_incident_campaign_ids st"
    and "\<And>e st. ss_incident_campaign_ids (unmarked_state ins del e st) = ss_incident_campaign_ids st"
  shows "lock_kept w w'"
proof -
  have ids: "ss_incident_campaign_ids (memory_of w') = ss_incident_campaign_ids (memory_of w)"
    using static_write_cases [OF assms(1)] assms(4,5)
    by (auto simp: kept_local_def sends_def marked_local_def Let_def)
  from static_write_cases [OF assms(1)] show ?thesis
  proof
    assume "sends rt sg mutation target request ins w w'"
    with ids assms(2,3) show ?thesis
      by (auto simp: sends_def lock_kept_def unlocked_departure_def)
  qed (use ids in \<open>simp add: lock_kept_quiet\<close>)
qed

lemma note_bid_change_ids [simp]:
  "ss_incident_campaign_ids (note_bid_change c t st) = ss_incident_campaign_ids st"
  "ss_incident_campaign_ids (remove_pending_mutation c st) = ss_incident_campaign_ids st"
  by (simp_all add: note_bid_change_def remove_pending_bid_def remove_pending_mutation_def)

interpretation lock: cycle_relation rt lock_kept for rt
proof unfold_locales
  show "lock_kept w w2" if "lock_kept w w1" "lock_kept w1 w2" for w w1 w2
    using that by (rule lock_kept_trans)
  show "lock_kept w (snd (write_bid rt sg a b t w))" if "\<not> locked (campaign_of sg) w" for w sg a b t
    unfolding write_bid_def
    by (rule lock_kept_write [OF prod.collapse [symmetric]]) (use that in simp_all)
  show "lock_kept w (snd (write_mutation rt sg MutationDeactivate reason s v t w))"
    if "\<not> locked (campaign_of sg) w" for w sg reason s v t
    unfolding write_mutation_def
    by (rule lock_kept_write [OF prod.collapse [symmetric]]) (use that in simp_all)
qed (auto simp: save_memory_snd incident_snd read_frame running_frame memory_frame [OF read_frame(1)]
    memory_frame [OF running_frame(1)] intro!: lock_kept_quiet)

text \<open>
  C14. Through any number of cycles of the polling loop a campaign with an unresolved incident
  stays locked and no request for it leaves; and every request that leaves is for a campaign
  without an incident at that moment. Only the operator's reconciliation opens the lock.\<close>

theorem static_incident_lock:
  assumes "serve_static rt failures polls w = (r, w')" and "locked c w"
  shows "locked c w' \<and> (\<exists>ds. departures_of w' = ds @ departures_of w \<and>
    (\<forall>d \<in> set ds. request_campaign (od_request d) \<noteq> Some c \<and> unlocked_departure d))"
proof -
  have "lock_kept w w'"
    using lock.R_serve [of w rt failures polls] assms(1) by simp
  with assms(2) show ?thesis
    by (fastforce simp: lock_kept_def list_all_iff unlocked_departure_def)
qed

lemma sample_cycle_shape:
  "(case sample_cycle of (r, w) \<Rightarrow>
      (r, map od_request (departures_of w), ss_incident_campaign_ids (memory_of w)))
   = (Ok (), [OzonDeactivate 7], {7})"
  by code_simp

theorem static_incident_lock_witness:
  "locked 7 (snd (serve_static sample_static_runtime 0 [noon] (snd sample_cycle)))"
proof -
  obtain r w where cycle: "sample_cycle = (r, w)"
    by (metis surj_pair)
  have "ss_incident_campaign_ids (memory_of w) = {7}"
    using sample_cycle_shape [unfolded cycle prod.case prod.inject] by blast
  then have "locked 7 w"
    by simp
  from static_incident_lock [OF prod.collapse [symmetric] this, of sample_static_runtime 0 "[noon]"]
  show ?thesis
    unfolding cycle snd_conv by (rule conjunct1)
qed


section \<open>The evidence of a cycle\<close>

text \<open>The oracle only moves on, so an answer taken in a cycle is an answer of that cycle.\<close>

lemma tick_simps [simp]:
  "sw_tick (snd (ask rt w)) = Suc (sw_tick w)" "sw_tick (set_local l w) = sw_tick w"
  "sw_tick (update_memory f w) = sw_tick w" "sw_tick (snd (save_memory rt w)) = Suc (sw_tick w)"
  "sw_tick (snd (static_write rt sg mutation target request ins del w)) = Suc (sw_tick w)"
  by (simp_all add: ask_def set_local_def update_memory_def save_memory_def static_write_def Let_def
      split: prod.splits)




















section \<open>The audit cursor\<close>

text \<open>The watermark of the memory is not the newest audit event of any guarded account.\<close>

definition stale_cursor :: "static_runtime \<Rightarrow> static_world \<Rightarrow> bool" where
  "stale_cursor rt w \<longleftrightarrow>
     list_all (\<lambda>sg. map_option uint (ss_last_static_audit_event_id (memory_of w)) \<noteq>
         latest_event_id (cg_account_id (sg_guard sg)) (sl_tables (local_of w)) \<or>
       ss_last_static_audit_event_id (memory_of w) = None) (rt_guards rt)"

definition cursor_kept :: "static_runtime \<Rightarrow> static_world \<Rightarrow> static_world \<Rightarrow> bool" where
  "cursor_kept rt w w' \<longleftrightarrow>
     \<not> stale_cursor rt w \<or> stale_cursor rt w' \<and> departures_of w' = departures_of w"

lemma cursor_kept_edit:
  "ss_last_static_audit_event_id (memory_of w') = ss_last_static_audit_event_id (memory_of w) \<Longrightarrow>
     sl_tables (local_of w') = sl_tables (local_of w) \<Longrightarrow> departures_of w' = departures_of w \<Longrightarrow>
     cursor_kept rt w w'"
  by (auto simp: cursor_kept_def stale_cursor_def)

lemma cursor_lock_refuses:
  assumes "lock_static_guard_audit_cursor account prior t = Ok ()" "prior \<noteq> None"
  shows "map_option uint prior = latest_event_id account t"
  using assms by (auto simp: lock_static_guard_audit_cursor_def plan_i64_def result_elim split: if_splits)

lemma authorize_refuses:
  assumes "authorize_static_guard_write lk now schema revision digest i worker prior marker s t
      = (r, s', t')"
    and "prior = None \<or> map_option uint prior \<noteq> latest_event_id (wi_account_id i) t"
  shows "s' = s \<and> t' = t \<and> (\<exists>e. r = Inl e)"
  using assms cursor_lock_refuses
  by (auto simp: authorize_static_guard_write_def result_elim split: sum.splits prod.splits if_splits)

lemma persist_marker_refuses:
  assumes "prior = None \<or> map_option uint prior \<noteq> latest_event_id (cg_account_id (sg_guard sg)) (sl_tables l)"
  shows "\<exists>e. persist_marker rt a sg mutation target prior marker l = (Inl e, l)"
proof -
  let ?ga = "rt_authority rt"
  obtain r s t where auth: "authorize_static_guard_write (an_link a) (an_database_now a)
      (cp_version (ga_policy ?ga)) (cp_revision (ga_policy ?ga)) (cp_digest (ga_policy ?ga))
      \<lparr>wi_account_id = cg_account_id (sg_guard sg), wi_sku = cg_sku (sg_guard sg),
       wi_campaign_id = campaign_of sg, wi_mutation = mutation,
       wi_target_bid_microrubles = target, wi_config_digest = ga_config_digest ?ga\<rparr>
      (ga_worker_id ?ga) prior marker (sl_memory l, sl_file l) (sl_tables l) = (r, s, t)"
    by (metis surj_pair)
  from authorize_refuses [OF auth] assms obtain e where "s = (sl_memory l, sl_file l)" "t = sl_tables l"
    "r = Inl e"
    by auto
  with auth show ?thesis
    unfolding persist_marker_def Let_def auth by (cases e) (auto split: sum.splits)
qed

lemma stale_cursor_write:
  assumes "stale_cursor rt w" "sg \<in> set (rt_guards rt)"
    and "static_write rt sg mutation target request ins del w = (r, w')"
  shows "local_of w' = local_of w \<and> departures_of w' = departures_of w"
proof -
  let ?a = "rt_answers rt (sw_tick w)"
  let ?permit = "persist_marker rt ?a sg mutation target (ss_last_static_audit_event_id (memory_of w))
      (static_marker (rt_libraries rt) (an_save ?a) ins del)"
  obtain oz where oz: "ozon_guarded_write (rt_libraries rt) (rt_client rt) (an_write ?a) request
      ?permit (sw_ozon w) = (r, oz)" and w': "sw_ozon w' = oz"
    using assms(3) by (auto simp: static_write_def ask_def Let_def split: prod.splits)
  have prior: "ss_last_static_audit_event_id (memory_of w) = None \<or>
      map_option uint (ss_last_static_audit_event_id (memory_of w)) \<noteq>
      latest_event_id (cg_account_id (sg_guard sg)) (sl_tables (local_of w))"
    using assms(1,2) by (auto simp: stale_cursor_def list_all_iff)
  have "\<exists>e. ?permit (local_of w) = (Inl e, local_of w)"
    using prior by (intro persist_marker_refuses) simp_all
  then obtain e where "?permit (ow_caller (sw_ozon w)) = (Inl e, ow_caller (sw_ozon w))"
    by (auto simp: local_of_def)
  then have refused: "snd (?permit (ow_caller (sw_ozon w))) = ow_caller (sw_ozon w)"
    "fst (?permit (ow_caller (sw_ozon w))) \<noteq> Ok ()"
    by simp_all
  have "ow_caller oz = ow_caller (sw_ozon w) \<and> ow_departed oz = ow_departed (sw_ozon w)"
  proof (cases "validate_ozon_request (rt_libraries rt) request")
    case (Inl f)
    with oz show ?thesis by (auto simp: ozon_guarded_write_def)
  next
    case (Inr u)
    with oz have "write_guarded (rt_libraries rt) (rt_client rt) (an_write ?a) request ?permit
        (sw_ozon w) = (r, oz)"
      by (simp add: ozon_guarded_write_def)
    from write_guarded_cases [OF this] refused show ?thesis
      by (metis fst_conv)
  qed
  then show ?thesis
    by (simp add: local_of_def departures_of_def w')
qed

lemma cursor_kept_write:
  assumes "sg \<in> set (rt_guards rt)"
  shows "cursor_kept rt w (snd (write_bid rt sg a b t w))"
    "cursor_kept rt w (snd (write_mutation rt sg k reason s v t w))"
proof -
  have "cursor_kept rt w (snd (static_write rt sg mutation target request ins del w))"
    for mutation target request ins del
  proof (cases "stale_cursor rt w")
    case True
    note same = stale_cursor_write [OF True assms prod.collapse [symmetric],
        of mutation target request ins del]
    show ?thesis
      using same memory_frame [OF conjunct1 [OF same]] by (intro cursor_kept_edit) simp_all
  qed (simp add: cursor_kept_def)
  then show "cursor_kept rt w (snd (write_bid rt sg a b t w))"
    "cursor_kept rt w (snd (write_mutation rt sg k reason s v t w))"
    by (simp_all add: write_bid_def write_mutation_def)
qed

lemma watermark_edits [simp]:
  "ss_last_static_audit_event_id (note_bid_change c t st) = ss_last_static_audit_event_id st"
  "ss_last_static_audit_event_id (remove_pending_mutation c st) = ss_last_static_audit_event_id st"
  by (simp_all add: note_bid_change_def remove_pending_bid_def remove_pending_mutation_def)

lemma incident_watermark:
  "ss_last_static_audit_event_id (memory_of (snd (record_static_guard_incident rt sg reason cls s v w)))
     = ss_last_static_audit_event_id (memory_of w)"
  by (simp add: record_static_guard_incident_def split_beta Let_def save_memory_snd)

interpretation cursor: cycle_relation rt "cursor_kept rt" for rt
proof unfold_locales
  show "cursor_kept rt w w2" if "cursor_kept rt w w1" "cursor_kept rt w1 w2" for w w1 w2
    using that by (auto simp: cursor_kept_def)
qed (auto simp: save_memory_snd incident_snd incident_watermark read_frame running_frame
    memory_frame [OF read_frame(1)] memory_frame [OF running_frame(1)]
    intro!: cursor_kept_edit cursor_kept_write)

text \<open>
  C34. A stale audit cursor blocks every write. While the watermark of the process is missing or
  differs from the newest audit event of the account in the database, no cycle sends anything,
  and no cycle repairs the cursor: the loop goes on without write authority.\<close>

theorem static_stale_cursor_blocks:
  assumes "stale_cursor rt w"
  shows "departures_of (snd (serve_static rt failures polls w)) = departures_of w \<and>
    stale_cursor rt (snd (serve_static rt failures polls w))"
  using cursor.R_serve [of rt w failures polls] assms by (simp add: cursor_kept_def)

text \<open>The state file was lost: the memory has no watermark, the table has events.\<close>

definition lost_volume_world :: static_world where
  "lost_volume_world = update_memory (\<lambda>_. empty_static_state) sample_static_world"

theorem static_stale_cursor_blocks_witness:
  "departures_of (snd (serve_static sample_static_runtime 0 [noon, noon] lost_volume_world)) = []"
proof -
  have "stale_cursor sample_static_runtime lost_volume_world"
    by (simp add: stale_cursor_def lost_volume_world_def empty_static_state_def list_all_iff)
  from static_stale_cursor_blocks [OF this, of 0 "[noon, noon]"] show ?thesis
    by (simp add: lost_volume_world_def) (simp add: departures_of_def sample_static_world_def)
qed

end
