(* ===== verification/Ozon_Static_Flight.thy ===== *)
theory Ozon_Static_Flight
  imports Ozon_Static_Correct Transition
begin

text \<open>
  The static Ozon guard across crashes. A step of the process is one of its elementary moves; a
  crash is a load of the state file at any point, and other writers of the audit table may move
  at any point. Beside the world runs the set of campaigns with a request in flight: a
  campaign enters it when a request leaves, and leaves it when a read of the marketplace shows
  the effect, or when the operator reconciles it. Every run of the process is a sequence of
  such steps, and no request leaves for a campaign that is in flight.
\<close>


section \<open>Steps\<close>

definition newly_sent :: "u64 \<Rightarrow> static_world \<Rightarrow> static_world \<Rightarrow> u64 set" where
  "newly_sent c w w' = (if departures_of w' = departures_of w then {} else {c})"

abbreviation with_answers :: "static_runtime \<Rightarrow> (nat \<Rightarrow> answer) \<Rightarrow> static_runtime" where
  "with_answers rt ans \<equiv> rt\<lparr>rt_answers := ans\<rparr>"

inductive guard_step ::
  "static_runtime \<Rightarrow> static_world \<times> u64 set \<Rightarrow> static_world \<times> u64 set \<Rightarrow> bool"
  for rt :: static_runtime where
  quiet: "local_of w' = local_of w \<Longrightarrow> departures_of w' = departures_of w \<Longrightarrow>
    guard_step rt (w, F) (w', F)"
| incident: "record_static_guard_incident (with_answers rt ans) sg reason cls s v w = (r, w') \<Longrightarrow>
    guard_step rt (w, F) (w', F)"
| bid_confirmed: "pending_bid w (campaign_of sg) = Some p \<Longrightarrow>
    read_exact_bid (with_answers rt ans) sg w = (Ok (sb_to_microrubles p), w1) \<Longrightarrow>
    save_memory (with_answers rt ans) (update_memory (note_bid_change (campaign_of sg) t) w1) = (r, w') \<Longrightarrow>
    guard_step rt (w, F) (w', F - {campaign_of sg})"
| mutation_confirmed: "pending_mutation w (campaign_of sg) = Some q \<Longrightarrow>
    campaign_is_running (with_answers rt ans) (campaign_of sg) w =
      (Ok (sm_kind q = MutationActivate), w1) \<Longrightarrow>
    save_memory (with_answers rt ans) (update_memory (remove_pending_mutation (campaign_of sg)) w1)
      = (r, w') \<Longrightarrow>
    guard_step rt (w, F) (w', F - {campaign_of sg})"
| set_bid: "pending_bid w (campaign_of sg) = None \<Longrightarrow>
    write_bid (with_answers rt ans) sg a b t w = (r, w') \<Longrightarrow>
    guard_step rt (w, F) (w', F \<union> newly_sent (campaign_of sg) w w')"
| mutate: "pending_mutation w (campaign_of sg) = None \<Longrightarrow>
    write_mutation (with_answers rt ans) sg k reason s v t w = (r, w') \<Longrightarrow>
    guard_step rt (w, F) (w', F \<union> newly_sent (campaign_of sg) w w')"
| reconciled: "clear_reconciled_static_campaign_state (with_answers rt ans) c w = (r, w') \<Longrightarrow>
    guard_step rt (w, F) (w', F - {c})"
| initialized: "initialize_static (with_answers rt ans) w = (r, w') \<Longrightarrow>
    guard_step rt (w, F) (w', F)"
| load: "load_static_state (rt_libraries rt) readable (sl_file (local_of w)) = Ok st \<Longrightarrow>
    guard_step rt (w, F) (update_memory (\<lambda>_. st) w, F)"
| elsewhere: "tables_grow (sl_tables (local_of w)) t \<Longrightarrow>
    guard_step rt (w, F) (set_local ((local_of w)\<lparr>sl_tables := t\<rparr>) w, F)"

definition guard_start :: "static_runtime \<Rightarrow> static_world \<times> u64 set \<Rightarrow> bool" where
  "guard_start rt x \<longleftrightarrow>
     departures_of (fst x) = [] \<and> snd x = {} \<and>
     (case sl_file (local_of (fst x)) of
        None \<Rightarrow> True | Some st \<Rightarrow> state_is_valid (rt_libraries rt) st)"


section \<open>Every run is a sequence of steps\<close>

definition stepwise :: "static_runtime \<Rightarrow> static_world \<Rightarrow> static_world \<Rightarrow> bool" where
  "stepwise rt w w' \<longleftrightarrow> (\<forall>F. \<exists>F'. steps (guard_step rt) (w, F) (w', F'))"

lemma stepwise_trans: "stepwise rt w w1 \<Longrightarrow> stepwise rt w1 w2 \<Longrightarrow> stepwise rt w w2"
  unfolding stepwise_def by (metis steps_trans)

lemma stepwise_step: "(\<And>F. \<exists>F'. guard_step rt (w, F) (w', F')) \<Longrightarrow> stepwise rt w w'"
  unfolding stepwise_def by (metis steps_refl steps_step)

lemma own_answers [simp]: "with_answers rt (rt_answers rt) = rt"
  by simp

interpretation steps: run_relation rt "stepwise rt" for rt
proof unfold_locales
  note own = own_answers [of rt]
  show "stepwise rt w w" for w
    unfolding stepwise_def by (intro allI exI, rule steps_refl)
  show "stepwise rt w w2" if "stepwise rt w w1" "stepwise rt w1 w2" for w w1 w2
    using that by (rule stepwise_trans)
  show "stepwise rt w (snd (ask rt w))" for w
    by (rule stepwise_step, rule exI, rule quiet) simp_all
  show "stepwise rt w (snd (record_static_guard_incident rt sg reason cls s v w))" for w sg reason cls s v
    by (rule stepwise_step, rule exI, rule incident [where rt = rt and ans = "rt_answers rt", unfolded own],
        rule prod.collapse [symmetric])
  show "stepwise rt w (snd (save_memory rt (update_memory (note_bid_change (campaign_of sg) t) w1)))"
    if "pending_bid w (campaign_of sg) = Some p" "read_exact_bid rt sg w = (Ok (sb_to_microrubles p), w1)"
    for w sg p w1 t
    by (rule stepwise_step, rule exI, rule bid_confirmed [where rt = rt and ans = "rt_answers rt", unfolded own,
          OF that], rule prod.collapse [symmetric])
  show "stepwise rt w (snd (save_memory rt (update_memory (remove_pending_mutation (campaign_of sg)) w1)))"
    if "pending_mutation w (campaign_of sg) = Some q"
      "campaign_is_running rt (campaign_of sg) w = (Ok (sm_kind q = MutationActivate), w1)"
    for w sg q w1
    by (rule stepwise_step, rule exI, rule mutation_confirmed [where rt = rt and ans = "rt_answers rt", unfolded own,
          OF that], rule prod.collapse [symmetric])
  show bid: "stepwise rt w (snd (write_bid rt sg a b t w))" if "pending_bid w (campaign_of sg) = None"
    for w sg a b t
    by (rule stepwise_step, rule exI, rule set_bid [where rt = rt and ans = "rt_answers rt", unfolded own, OF that],
        rule prod.collapse [symmetric])
  then show "stepwise rt w (snd (write_bid rt sg a b t w))"
    if "pending_bid w (campaign_of sg) = None" for w sg a b t
    using that by blast
  have mutation: "stepwise rt w (snd (write_mutation rt sg k reason s v t w))"
    if "pending_mutation w (campaign_of sg) = None" for w sg k reason s v t
    by (rule stepwise_step, rule exI, rule mutate [where rt = rt and ans = "rt_answers rt", unfolded own, OF that],
        rule prod.collapse [symmetric])
  then show "stepwise rt w (snd (write_mutation rt sg MutationDeactivate reason s v t w))"
    "stepwise rt w (snd (write_mutation rt sg MutationActivate reason s v t w))"
    if "pending_mutation w (campaign_of sg) = None" for w sg reason s v t
    using that by blast+
  show "stepwise rt w (snd (clear_reconciled_static_campaign_state rt (campaign_of sg) w))" for w sg
    by (rule stepwise_step, rule exI, rule reconciled [where rt = rt and ans = "rt_answers rt", unfolded own],
        rule prod.collapse [symmetric])
  show "stepwise rt w (update_memory (\<lambda>_. st) w)"
    if "load_static_state (rt_libraries rt) readable (sl_file (local_of w)) = Ok st" for readable w st
    by (rule stepwise_step, rule exI, rule load [OF that])
  show "stepwise rt w (snd (initialize_static rt w))" for w
    by (rule stepwise_step, rule exI, rule initialized [where rt = rt and ans = "rt_answers rt", unfolded own],
        rule prod.collapse [symmetric])
qed

text \<open>
  C35. Every run of the static guard, with any command and any answers of its environment, is a
  sequence of elementary steps. So what holds between any two steps holds wherever the process
  may crash.\<close>

theorem static_run_steps:
  "\<exists>F'. steps (guard_step rt) (w, F) (snd (run_static rt command polls w), F')"
  using steps.R_run [of rt w command polls] by (simp add: stepwise_def)


section \<open>The invariant\<close>

definition has_pending :: "u64 \<Rightarrow> static_state \<Rightarrow> bool" where
  "has_pending c st \<longleftrightarrow>
     btree_get (ss_pending_bid_changes st) c \<noteq> None \<or>
     btree_get (ss_pending_campaign_mutations st) c \<noteq> None"

definition departure_event :: "static_local ozon_departure \<Rightarrow> int" where
  "departure_event d = ae_event_id (hd (oz_events (sl_tables (od_caller d))))"

definition file_covers :: "static_runtime \<Rightarrow> u64 set \<Rightarrow> static_state option \<Rightarrow> bool" where
  "file_covers rt F stored \<longleftrightarrow>
     (case stored of
        None \<Rightarrow> F = {}
      | Some st \<Rightarrow> state_is_valid (rt_libraries rt) st \<and> (\<forall>c \<in> F. has_pending c st))"

definition events_ordered :: "static_world \<Rightarrow> bool" where
  "events_ordered w \<longleftrightarrow>
     sorted_wrt (>) (map departure_event (departures_of w)) \<and>
     (\<forall>d \<in> set (departures_of w). departure_event d \<le> oz_sequence (sl_tables (local_of w)))"

definition flight_inv :: "static_runtime \<Rightarrow> static_world \<times> u64 set \<Rightarrow> bool" where
  "flight_inv rt x \<longleftrightarrow>
     (\<forall>c \<in> snd x. has_pending c (memory_of (fst x))) \<and>
     file_covers rt (snd x) (sl_file (local_of (fst x))) \<and> events_ordered (fst x)"

lemma file_covers_mono: "file_covers rt F stored \<Longrightarrow> F' \<subseteq> F \<Longrightarrow> file_covers rt F' stored"
  by (auto simp: file_covers_def split: option.splits)

lemma file_covers_saved:
  "state_is_valid (rt_libraries rt) st \<Longrightarrow> (\<And>c. c \<in> F \<Longrightarrow> has_pending c st) \<Longrightarrow>
     file_covers rt F (Some st)"
  by (simp add: file_covers_def)

text \<open>Moves that send nothing.\<close>

lemma flight_inv_edit:
  assumes "flight_inv rt (w, F)" "F' \<subseteq> F" "departures_of w' = departures_of w"
    and "tables_grow (sl_tables (local_of w)) (sl_tables (local_of w'))"
    and "\<And>c. c \<in> F' \<Longrightarrow> has_pending c (memory_of w) \<Longrightarrow> has_pending c (memory_of w')"
    and "sl_file (local_of w') = sl_file (local_of w) \<or>
      (\<exists>st. sl_file (local_of w') = Some st \<and> state_is_valid (rt_libraries rt) st \<and>
        (\<forall>c \<in> F'. has_pending c (memory_of w) \<longrightarrow> has_pending c st))"
  shows "flight_inv rt (w', F')"
  unfolding flight_inv_def fst_conv snd_conv
proof (intro conjI)
  show "\<forall>c \<in> F'. has_pending c (memory_of w')"
    using assms(1,2,5) by (auto simp: flight_inv_def)
  have "file_covers rt F' (sl_file (local_of w))"
    using assms(1,2) by (auto simp: flight_inv_def intro: file_covers_mono)
  then show "file_covers rt F' (sl_file (local_of w'))"
    using assms(1,2,6) by (auto simp: flight_inv_def subset_iff intro!: file_covers_saved)
  have "oz_sequence (sl_tables (local_of w)) \<le> oz_sequence (sl_tables (local_of w'))"
    using assms(4) by (simp add: tables_grow_def)
  with assms(1,3) show "events_ordered w'"
    by (force simp: flight_inv_def events_ordered_def)
qed

text \<open>A write, given what its marker does to the pending entries.\<close>

lemma flight_inv_write:
  assumes inv: "flight_inv rt (w, F)"
    and write_run: "static_write (with_answers rt ans) sg mutation target request ins del w = (r, w')"
    and mark: "\<And>c e st. has_pending c st \<Longrightarrow> has_pending c (marked_state ins e st)"
      "\<And>e st. has_pending (campaign_of sg) (marked_state ins e st)"
      "\<And>c e. has_pending c (memory_of w) \<Longrightarrow> has_pending c (unmarked_state ins del e (memory_of w))"
    and fresh: "\<And>e. state_is_valid (rt_libraries rt) (marked_state ins e (memory_of w)) \<Longrightarrow>
      \<not> has_pending (campaign_of sg) (memory_of w)"
  shows "flight_inv rt (w', F \<union> newly_sent (campaign_of sg) w w')"
    and "departures_of w' = d # departures_of w \<Longrightarrow> od_request d = request \<and> campaign_of sg \<notin> F \<and>
      (\<forall>d' \<in> set (departures_of w). departure_event d' < departure_event d)"
proof -
  note cases = static_write_cases [OF write_run]
  have kept: "flight_inv rt (w', F)"
    if "departures_of w' = departures_of w"
      "kept_local (with_answers rt ans) ins del (local_of w) (local_of w')"
    using that mark(1,3) by (intro flight_inv_edit [OF inv])
      (auto simp: kept_local_def)
  have sent: "flight_inv rt (w', insert (campaign_of sg) F) \<and> campaign_of sg \<notin> F \<and>
      (\<exists>slot. departures_of w' = \<lparr>od_request = request, od_slot = slot, od_caller = local_of w'\<rparr> # departures_of w) \<and>
      departure_event (hd (departures_of w')) = oz_sequence (sl_tables (local_of w)) + 1"
    if s: "sends (with_answers rt ans) sg mutation target request ins w w'"
  proof -
    from s obtain slot ev where new: "memory_of w' = marked_state ins
          (word_of_int (oz_sequence (sl_tables (local_of w)) + 1)) (memory_of w)"
        "sl_file (local_of w') = Some (memory_of w')" "state_is_valid (rt_libraries rt) (memory_of w')"
        "oz_sequence (sl_tables (local_of w')) = oz_sequence (sl_tables (local_of w)) + 1"
        "oz_events (sl_tables (local_of w')) = ev # oz_events (sl_tables (local_of w))"
        "ae_event_id ev = oz_sequence (sl_tables (local_of w)) + 1"
      and dep: "departures_of w' = \<lparr>od_request = request, od_slot = slot, od_caller = local_of w'\<rparr> # departures_of w"
      by (auto simp: sends_def marked_local_def Let_def event_of_intent_def)
    have "campaign_of sg \<notin> F"
      using fresh new(1,3) inv by (auto simp: flight_inv_def)
    moreover have "\<forall>c \<in> insert (campaign_of sg) F. has_pending c (memory_of w')"
      using mark(1,2) new(1) inv by (auto simp: flight_inv_def)
    moreover have event: "departure_event (hd (departures_of w')) = oz_sequence (sl_tables (local_of w)) + 1"
      using dep new(5,6) by (simp add: departure_event_def)
    moreover have "events_ordered w'"
      using inv dep new(4) event by (force simp: flight_inv_def events_ordered_def)
    ultimately show ?thesis
      using dep new(2,3) by (auto simp: flight_inv_def intro!: file_covers_saved)
  qed
  show "flight_inv rt (w', F \<union> newly_sent (campaign_of sg) w w')"
    using cases kept sent by (auto simp: newly_sent_def)
  show "od_request d = request \<and> campaign_of sg \<notin> F \<and>
      (\<forall>d' \<in> set (departures_of w). departure_event d' < departure_event d)"
    if "departures_of w' = d # departures_of w"
    using cases sent that inv by (force simp: flight_inv_def events_ordered_def)
qed

lemma has_pending_marked [simp]:
  "has_pending c (marked_state (insert_pending_bid c' p) e st) \<longleftrightarrow> c = c' \<or> has_pending c st"
  "has_pending c (marked_state (insert_pending_mutation c' q) e st) \<longleftrightarrow> c = c' \<or> has_pending c st"
  by (auto simp: has_pending_def)

lemma has_pending_unmarked:
  "btree_get (ss_pending_bid_changes st) c' = None \<Longrightarrow>
     has_pending c (unmarked_state (insert_pending_bid c' p) (remove_pending_bid c') e st) \<longleftrightarrow>
     has_pending c st"
  "btree_get (ss_pending_campaign_mutations st) c' = None \<Longrightarrow>
     has_pending c (unmarked_state (insert_pending_mutation c' q) (remove_pending_mutation c') e st) \<longleftrightarrow>
     has_pending c st"
  by (auto simp: has_pending_def btree_get_remove)

lemma fresh_bid:
  assumes "state_is_valid ol (marked_state (insert_pending_bid c p) e st)"
    and "btree_get (ss_pending_bid_changes st) c = None"
  shows "\<not> has_pending c st"
  using valid_pending_exclusive [OF assms(1), of c p] assms(2) by (fastforce simp: has_pending_def)

lemma fresh_mutation:
  assumes "state_is_valid ol (marked_state (insert_pending_mutation c q) e st)"
    and "btree_get (ss_pending_campaign_mutations st) c = None"
  shows "\<not> has_pending c st"
  using valid_pending_exclusive [OF assms(1), of c _ q] assms(2) by (fastforce simp: has_pending_def)

lemma flight_inv_set_bid:
  assumes "flight_inv rt (w, F)" "pending_bid w (campaign_of sg) = None"
    and "write_bid (with_answers rt ans) sg a b t w = (r, w')"
  shows "flight_inv rt (w', F \<union> newly_sent (campaign_of sg) w w')"
    and "departures_of w' = d # departures_of w \<Longrightarrow> od_request d = bid_request sg b \<and>
      campaign_of sg \<notin> F \<and> (\<forall>d' \<in> set (departures_of w). departure_event d' < departure_event d)"
  by (rule flight_inv_write [OF assms(1) assms(3) [unfolded write_bid_def]];
      use assms(2) in \<open>simp add: has_pending_unmarked fresh_bid\<close>)+

lemma flight_inv_mutate:
  assumes "flight_inv rt (w, F)" "pending_mutation w (campaign_of sg) = None"
    and "write_mutation (with_answers rt ans) sg k reason s v t w = (r, w')"
  shows "flight_inv rt (w', F \<union> newly_sent (campaign_of sg) w w')"
    and "departures_of w' = d # departures_of w \<Longrightarrow> od_request d = campaign_request k (campaign_of sg) \<and>
      campaign_of sg \<notin> F \<and> (\<forall>d' \<in> set (departures_of w). departure_event d' < departure_event d)"
  by (rule flight_inv_write [OF assms(1) assms(3) [unfolded write_mutation_def]];
      use assms(2) in \<open>simp add: has_pending_unmarked fresh_mutation\<close>)+

text \<open>Loading the file: the incidents get a record, the pending entries stay.\<close>

lemma or_insert_subset: "set (or_insert k v m) \<subseteq> insert (k, v) (set m)"
proof -
  have "set (btree_insert k v m) \<subseteq> insert (k, v) (set m)"
    by (induction k v m rule: btree_insert.induct) auto
  then show ?thesis
    by (simp add: or_insert_def subset_insertI)
qed

lemma fold_or_insert_subset:
  "set (fold (\<lambda>c. or_insert c v) cs m) \<subseteq> (\<lambda>c. (c, v)) ` set cs \<union> set m"
proof (induction cs arbitrary: m)
  case (Cons c cs)
  from Cons [of "or_insert c v m"] or_insert_subset [of c v m] show ?case
    by auto
qed simp

lemma valid_legacy_incident: "valid_incident ol legacy_incident"
  by (simp add: valid_incident_def legacy_incident_def binding_is_legacy_def valid_evidence_label_def
      valid_evidence_pair_def str_len_def is_ascii_lowercase_def is_ascii_digit_def byte_def)

lemma normalize_valid:
  assumes "state_is_valid ol st"
  shows "state_is_valid ol (normalize_legacy_incidents st)"
proof -
  let ?new = "normalize_legacy_incidents st"
  have sub: "set (ss_incidents ?new) \<subseteq>
      (\<lambda>c. (c, legacy_incident)) ` ss_incident_campaign_ids st \<union> set (ss_incidents st)"
    using fold_or_insert_subset [of legacy_incident "sorted_list_of_set (ss_incident_campaign_ids st)"
        "ss_incidents st"]
    by (simp add: normalize_legacy_incidents_def)
  have old: "fst ` set (ss_incidents st) \<subseteq> ss_incident_campaign_ids st"
    "\<forall>i \<in> snd ` set (ss_incidents st). valid_incident ol i"
    using assms by (auto simp: state_is_valid_def list_all_iff btree_keys_def btree_values_def)
  have keys: "fst ` set (ss_incidents ?new) \<subseteq> ss_incident_campaign_ids st"
    using image_mono [OF sub, of fst] old(1) by (auto simp: image_Un image_image)
  have vals: "\<forall>i \<in> snd ` set (ss_incidents ?new). valid_incident ol i"
    using image_mono [OF sub, of snd] old(2) valid_legacy_incident [of ol] by fastforce
  have same: "ss_last_static_audit_event_id ?new = ss_last_static_audit_event_id st"
    "ss_incident_campaign_ids ?new = ss_incident_campaign_ids st"
    "ss_last_bid_change_at ?new = ss_last_bid_change_at st"
    "ss_pending_bid_changes ?new = ss_pending_bid_changes st"
    "ss_pending_campaign_mutations ?new = ss_pending_campaign_mutations st"
    by (simp_all add: normalize_legacy_incidents_def)
  have "state_campaign_ids ?new = state_campaign_ids st"
    using keys old(1) by (auto simp: state_campaign_ids_def same btree_keys_def)
  with assms keys vals same show ?thesis
    by (auto simp: state_is_valid_def list_all_iff btree_keys_def btree_values_def)
qed

lemma valid_empty_state: "state_is_valid ol empty_static_state"
  by (simp add: state_is_valid_def empty_static_state_def state_campaign_ids_def btree_keys_def
      btree_values_def)

lemma has_pending_normalize [simp]: "has_pending c (normalize_legacy_incidents st) = has_pending c st"
  by (simp add: has_pending_def normalize_legacy_incidents_def)

lemma flight_inv_load:
  assumes "flight_inv rt (w, F)"
    and "load_static_state (rt_libraries rt) readable (sl_file (local_of w)) = Ok st"
  shows "flight_inv rt (update_memory (\<lambda>_. st) w, F)"
proof -
  have "\<forall>c \<in> F. has_pending c st"
    using assms
    by (auto simp: load_static_state_def flight_inv_def file_covers_def Let_def result_elim
        split: option.splits)
  with assms(1) show ?thesis
    by (simp add: flight_inv_def events_ordered_def)
qed

lemma has_pending_other:
  "c \<noteq> c' \<Longrightarrow> has_pending c (note_bid_change c' t st) = has_pending c st"
  "c \<noteq> c' \<Longrightarrow> has_pending c (remove_pending_mutation c' st) = has_pending c st"
  "c \<noteq> c' \<Longrightarrow> has_pending c (clear_campaign c' st) = has_pending c st"
  by (simp_all add: has_pending_def note_bid_change_def remove_pending_bid_def clear_campaign_def
      remove_pending_mutation_def btree_get_remove)

lemma flight_inv_save:
  assumes "flight_inv rt (w, F)" "local_of w1 = local_of w" "departures_of w1 = departures_of w"
    and "\<And>c st. c \<in> F' \<Longrightarrow> has_pending c st \<Longrightarrow> has_pending c (f st)" "F' \<subseteq> F"
    and "save_memory (with_answers rt ans) (update_memory f w1) = (r, w')"
  shows "flight_inv rt (w', F')"
  using save_memory_frame [OF assms(6)] assms(2-5) memory_frame [OF assms(2)]
  by (intro flight_inv_edit [OF assms(1)]) auto

lemma step_flight_inv: "guard_step rt x y \<Longrightarrow> flight_inv rt x \<Longrightarrow> flight_inv rt y"
proof (induction rule: guard_step.induct)
  case (quiet w' w F)
  from memory_frame [OF quiet(1)] quiet show ?case
    by (intro flight_inv_edit [OF quiet(3)]) auto
next
  case (incident ans sg reason cls s v w r w' F)
  note frame = incident_frame [OF incident(1)]
  have same: "has_pending c (memory_of w') = has_pending c (memory_of w)" for c
    by (simp add: has_pending_def frame(3,4))
  show ?case
    by (rule flight_inv_edit [OF incident(2)]) (use frame(1,5,6) in \<open>auto simp: same\<close>)
next
  case (bid_confirmed w sg p ans w1 t r w' F)
  from read_frame [OF bid_confirmed(2)] show ?case
    by (intro flight_inv_save [OF bid_confirmed(4) _ _ _ _ bid_confirmed(3)])
      (auto simp: has_pending_other)
next
  case (mutation_confirmed w sg q ans w1 r w' F)
  from running_frame [OF mutation_confirmed(2)] show ?case
    by (intro flight_inv_save [OF mutation_confirmed(4) _ _ _ _ mutation_confirmed(3)])
      (auto simp: has_pending_other)
next
  case (set_bid w sg ans a b t r w' F)
  then show ?case by (intro flight_inv_set_bid(1))
next
  case (mutate w sg ans k reason s v t r w' F)
  then show ?case by (intro flight_inv_mutate(1))
next
  case (reconciled ans c w r w' F)
  from reconciled(1) clear_cases [of "with_answers rt ans" c w]
  consider "w' = update_memory (clear_campaign c) w"
    | "save_memory (with_answers rt ans) (update_memory (clear_campaign c) w) =
        (fst (save_memory (with_answers rt ans) (update_memory (clear_campaign c) w)), w')"
    by (metis prod.collapse snd_conv)
  then show ?case
  proof cases
    case 1
    then show ?thesis
      by (intro flight_inv_edit [OF reconciled(2)]) (auto simp: has_pending_other)
  next
    case 2
    then show ?thesis
      by (intro flight_inv_save [OF reconciled(2) refl refl _ _ 2]) (auto simp: has_pending_other)
  qed
next
  case (initialized ans w r w' F)
  have "has_pending c (marked_state (\<lambda>st. st) e st) = has_pending c st"
    "has_pending c (unmarked_state (\<lambda>st. st) (\<lambda>st. st) e st) = has_pending c st" for c e st
    by (simp_all add: has_pending_def marked_state_def unmarked_state_def)
  with initialize_frame [OF initialized(1)] show ?case
    by (intro flight_inv_edit [OF initialized(2)]) (auto simp: kept_local_def)
next
  case (load readable w st F)
  then show ?case by (intro flight_inv_load)
next
  case (elsewhere w t F)
  then show ?case
    by (intro flight_inv_edit [OF elsewhere(2)]) auto
qed

interpretation flight: inductive_invariant "guard_start rt" "guard_step rt" "flight_inv rt" for rt
proof unfold_locales
  show "flight_inv rt x" if "guard_start rt x" for x
    using that by (auto simp: guard_start_def flight_inv_def file_covers_def events_ordered_def
        split: option.splits)
  show "flight_inv rt y" if "flight_inv rt x" "guard_step rt x y" for x y
    using that(2,1) by (rule step_flight_inv)
qed


section \<open>One request in flight\<close>

text \<open>
  C6. At most one request per campaign is in flight. When a request leaves, no earlier request
  for the same campaign is in flight (sent, and neither confirmed by a read nor reconciled by
  the operator), whatever crashes and reloads happened since; and it leaves on an audit event
  of its own, newer than that of every earlier request.\<close>

theorem static_one_in_flight:
  assumes "reach (guard_start rt) (guard_step rt) (w, F)"
    and "guard_step rt (w, F) (w', F')" and "departures_of w' = d # departures_of w"
  shows "\<exists>c. request_campaign (od_request d) = Some c \<and> c \<notin> F \<and> F' = insert c F \<and>
    (\<forall>d' \<in> set (departures_of w). departure_event d' < departure_event d)"
proof -
  have inv: "flight_inv rt (w, F)"
    using assms(1) by (rule flight.reach_inv)
  have grown: "departures_of w' \<noteq> departures_of w"
    using assms(3) by simp
  from assms(2) show ?thesis
  proof cases
    case (set_bid sg ans a b t r)
    from flight_inv_set_bid(2) [OF inv set_bid(2,3) assms(3)] set_bid(1) grown show ?thesis
      by (auto simp: newly_sent_def)
  next
    case (mutate sg ans k reason s v t r)
    from flight_inv_mutate(2) [OF inv mutate(2,3) assms(3)] mutate(1) grown show ?thesis
      by (auto simp: newly_sent_def)
  next
    case (bid_confirmed sg p ans w1 t r)
    with grown show ?thesis
      using save_memory_frame(2) [OF bid_confirmed(4)] read_frame(2) [OF bid_confirmed(3)] by simp
  next
    case (mutation_confirmed sg q ans w1 r)
    with grown show ?thesis
      using save_memory_frame(2) [OF mutation_confirmed(4)] running_frame(2) [OF mutation_confirmed(3)]
      by simp
  next
    case (reconciled ans c r)
    with grown show ?thesis
      using clear_departures [of "with_answers rt ans" c w] by simp
  qed (use grown in \<open>simp_all add: incident_frame initialize_frame\<close>)
qed

text \<open>
  C36. Whenever the process crashes, its next start finds a state file that loads (when the file
  can be read), is valid, and holds a pending entry for every campaign with a request in
  flight.\<close>

theorem static_file_reloads:
  assumes "reach (guard_start rt) (guard_step rt) (w, F)"
  shows "\<exists>st. load_static_state (rt_libraries rt) True (sl_file (local_of w)) = Ok st \<and>
    state_is_valid (rt_libraries rt) st \<and> (\<forall>c \<in> F. has_pending c st)"
proof -
  have "flight_inv rt (w, F)"
    using assms by (rule flight.reach_inv)
  then show ?thesis
    by (auto simp: flight_inv_def file_covers_def load_static_state_def Let_def normalize_valid
        validate_state_def valid_empty_state split: option.splits)
qed


section \<open>A stop leaves\<close>

definition sample_stop :: "(marker_error ozon_guarded_error, string) result \<times> static_world" where
  "sample_stop = write_mutation sample_static_runtime sample_static_guard MutationDeactivate
     (Some ''spend_cap_reached'') (Some 60000) (Some 900000) noon sample_static_world"

lemma sample_stop_departs: "map od_request (departures_of (snd sample_stop)) = [OzonDeactivate 7]"
  by code_simp

lemma sample_start: "guard_start sample_static_runtime (sample_static_world, {})"
  by (simp add: guard_start_def sample_static_world_def departures_of_def local_of_def
      sample_static_state_def state_is_valid_def empty_static_state_def state_campaign_ids_def
      btree_keys_def btree_values_def)

lemma sample_stop_step:
  "guard_step sample_static_runtime (sample_static_world, {}) (snd sample_stop, {7})"
proof -
  let ?rt = sample_static_runtime and ?w = sample_static_world
  have "departures_of (snd sample_stop) \<noteq> departures_of ?w"
    using sample_stop_departs by (auto simp: sample_static_world_def departures_of_def)
  then have sent: "newly_sent (campaign_of sample_static_guard) ?w (snd sample_stop) = {7}"
    by (simp add: newly_sent_def campaign_of_def sample_static_guard_def static_guard_of_def)
  have "pending_mutation ?w (campaign_of sample_static_guard) = None"
    by (simp add: sample_static_world_def memory_of_def local_of_def sample_static_state_def
        empty_static_state_def btree_get_def)
  then have "guard_step ?rt (?w, {})
      (snd sample_stop, {} \<union> newly_sent (campaign_of sample_static_guard) ?w (snd sample_stop))"
    unfolding sample_stop_def
    by (rule mutate [where rt = ?rt and ans = "rt_answers ?rt", unfolded own_answers])
      (rule prod.collapse [symmetric])
  then show ?thesis
    by (simp add: sent)
qed

lemma sample_start_reached:
  "reach (guard_start sample_static_runtime) (guard_step sample_static_runtime)
     (sample_static_world, {})"
  by (rule reach_init) (rule sample_start)

theorem static_one_in_flight_witness:
  "\<exists>d. departures_of (snd sample_stop) = d # departures_of sample_static_world \<and>
     request_campaign (od_request d) = Some 7"
proof -
  obtain d where d: "departures_of (snd sample_stop) = d # departures_of sample_static_world"
    using sample_stop_departs by (auto simp: sample_static_world_def departures_of_def)
  from static_one_in_flight [OF sample_start_reached sample_stop_step d] d show ?thesis
    by auto
qed

theorem static_file_reloads_witness:
  "\<exists>st. load_static_state ozon_sample_libraries True (sl_file (local_of (snd sample_stop))) = Ok st \<and>
     has_pending 7 st"
proof -
  have "rt_libraries sample_static_runtime = ozon_sample_libraries"
    by (simp add: sample_static_runtime_def)
  with static_file_reloads [OF reach_step [OF sample_start_reached sample_stop_step]]
  show ?thesis by auto
qed

end
