(* ===== verification/Ozon_Loop.thy ===== *)
theory Ozon_Loop
  imports Ozon_Cycle
begin


definition three_failures :: "bool list \<Rightarrow> bool" where
  "three_failures bs \<longleftrightarrow> (\<exists>i. i + 2 < length bs \<and> bs ! i \<and> bs ! (i + 1) \<and> bs ! (i + 2))"


lemma three_failures_Nil [simp]: "\<not> three_failures []"
  by (simp add: three_failures_def)





end
