(* ===== verification/Report_Schedule.thy ===== *)
theory Report_Schedule
  imports Wb_Database
begin

text \<open>
  The identities and the schedule of the daily reports: \<open>src/src/reporting/mod.rs\<close> and
  \<open>src/src/reporting/scheduler.rs\<close>. A business day is a day of the Yekaterinburg clock. The
  morning report is due from 08:00 to 14:00, the evening report from 17:00 to 23:00; a morning
  report that was missed is due again with the evening one.
\<close>


section \<open>Identities\<close>

datatype report_kind = Morning | Evening

text \<open>The derived order of the constructors.\<close>

instantiation report_kind :: linorder
begin

definition less_eq_report_kind :: "report_kind \<Rightarrow> report_kind \<Rightarrow> bool" where
  "less_eq_report_kind a b \<longleftrightarrow> a = Morning \<or> b = Evening"

definition less_report_kind :: "report_kind \<Rightarrow> report_kind \<Rightarrow> bool" where
  "less_report_kind a b \<longleftrightarrow> a = Morning \<and> b = Evening"

instance
proof
  fix a b c :: report_kind
  show "a < b \<longleftrightarrow> a \<le> b \<and> \<not> b \<le> a" "a \<le> a" "a \<le> b \<or> b \<le> a"
    "a \<le> b \<Longrightarrow> b \<le> c \<Longrightarrow> a \<le> c" "a \<le> b \<Longrightarrow> b \<le> a \<Longrightarrow> a = b"
    by (cases a; cases b; simp add: less_eq_report_kind_def less_report_kind_def)+
qed

end

record report_key =
  rk_local_date :: naive_date
  rk_kind :: report_kind
  rk_recipient_id :: string
  rk_report_version :: u32

record pending_delivery =
  pd_covered_keys :: "report_key list"
  pd_scheduled_for :: instant
  pd_delayed :: bool

datatype report_schedule_error = InvalidReportVersion | InvalidRecipientId | OutOfRange

definition recipient_char :: "char \<Rightarrow> bool" where
  "recipient_char b \<longleftrightarrow> is_ascii_alphanumeric b \<or> b = CHR ''_'' \<or> b = CHR ''-''"

definition validate_report_identity :: "string \<Rightarrow> u32 \<Rightarrow> (report_schedule_error, unit) result" where
  "validate_report_identity recipient_id report_version =
     (if report_version = 0 then Error InvalidReportVersion
      else if recipient_id = [] \<or> 128 < str_len recipient_id \<or> \<not> list_all recipient_char recipient_id
      then Error InvalidRecipientId
      else Ok ())"

definition report_key_of :: "naive_date \<Rightarrow> report_kind \<Rightarrow> string \<Rightarrow> u32 \<Rightarrow> report_key" where
  "report_key_of local_date kind recipient_id report_version =
     \<lparr>rk_local_date = local_date, rk_kind = kind, rk_recipient_id = recipient_id,
      rk_report_version = report_version\<rparr>"


section \<open>Times of a business day\<close>

definition MORNING_HOUR :: int where
  "MORNING_HOUR = 8"

definition MORNING_DEADLINE_HOUR :: int where
  "MORNING_DEADLINE_HOUR = 14"

definition EVENING_HOUR :: int where
  "EVENING_HOUR = 17"

definition EVENING_DEADLINE_HOUR :: int where
  "EVENING_DEADLINE_HOUR = 23"

lemmas report_hours =
  MORNING_HOUR_def MORNING_DEADLINE_HOUR_def EVENING_HOUR_def EVENING_DEADLINE_HOUR_def

definition report_business_date :: "instant \<Rightarrow> naive_date" where
  "report_business_date now = date_in yekaterinburg now"

text \<open>The instant at which the Yekaterinburg clock shows a full hour.\<close>

definition local_hour :: "naive_date \<Rightarrow> int \<Rightarrow> instant" where
  "local_hour date hour = days date + hours hour - seconds yekaterinburg"

definition report_time :: "naive_date \<Rightarrow> int \<Rightarrow> (report_schedule_error, instant) result" where
  "report_time date hour =
     (if 0 \<le> hour \<and> hour < 24 then Ok (local_hour date hour) else Error OutOfRange)"

definition delivery_deadline :: "report_key \<Rightarrow> (report_schedule_error, instant) result" where
  "delivery_deadline key =
     and_then (validate_report_identity (rk_recipient_id key) (rk_report_version key)) (\<lambda>_.
     report_time (rk_local_date key)
       (case rk_kind key of Morning \<Rightarrow> MORNING_DEADLINE_HOUR | Evening \<Rightarrow> EVENING_DEADLINE_HOUR))"

definition reporting_interval ::
  "report_key \<Rightarrow> (report_schedule_error, instant \<times> instant) result" where
  "reporting_interval key =
     and_then (validate_report_identity (rk_recipient_id key) (rk_report_version key)) (\<lambda>_.
     let date = (case rk_kind key of Morning \<Rightarrow> rk_local_date key - 1 | Evening \<Rightarrow> rk_local_date key)
     in and_then (report_time date 0) (\<lambda>start.
        and_then (case rk_kind key of
                    Morning \<Rightarrow> report_time (rk_local_date key) 0
                  | Evening \<Rightarrow> report_time (rk_local_date key) EVENING_HOUR) (\<lambda>end_time.
        Ok (start, end_time))))"

definition report_cutoff :: "report_key \<Rightarrow> (report_schedule_error, instant) result" where
  "report_cutoff key =
     and_then (reporting_interval key) (\<lambda>(_, interval_end).
     Ok (case rk_kind key of Morning \<Rightarrow> interval_end + hours MORNING_HOUR | Evening \<Rightarrow> interval_end))"


section \<open>Due deliveries\<close>

definition due_deliveries ::
  "instant \<Rightarrow> string \<Rightarrow> u32 \<Rightarrow> report_key set \<Rightarrow>
     (report_schedule_error, pending_delivery list) result" where
  "due_deliveries now recipient_id report_version sent =
     and_then (validate_report_identity recipient_id report_version) (\<lambda>_.
     let date = report_business_date now in
     and_then (report_time date MORNING_HOUR) (\<lambda>morning.
     and_then (report_time date MORNING_DEADLINE_HOUR) (\<lambda>morning_deadline.
     and_then (report_time date EVENING_HOUR) (\<lambda>evening.
     and_then (report_time date EVENING_DEADLINE_HOUR) (\<lambda>evening_deadline.
     let morning_key = report_key_of date Morning recipient_id report_version;
         evening_key = report_key_of date Evening recipient_id report_version;
         morning_missing = (morning_key \<notin> sent);
         evening_missing = (evening_key \<notin> sent)
     in if evening \<le> now \<and> now \<le> evening_deadline
        then Ok ((if morning_missing
                  then [\<lparr>pd_covered_keys = [morning_key], pd_scheduled_for = evening,
                         pd_delayed = True\<rparr>] else []) @
                 (if evening_missing
                  then [\<lparr>pd_covered_keys = [evening_key], pd_scheduled_for = evening,
                         pd_delayed = (evening < now)\<rparr>] else []))
        else if morning \<le> now \<and> now \<le> morning_deadline \<and> morning_missing
        then Ok [\<lparr>pd_covered_keys = [morning_key], pd_scheduled_for = morning,
                  pd_delayed = (morning < now)\<rparr>]
        else Ok [])))))"

record scheduled_delivery =
  sc_recipient_id :: string
  sc_delivery :: pending_delivery

definition due_for_audience ::
  "instant \<Rightarrow> string \<Rightarrow> u32 \<Rightarrow> report_key set \<Rightarrow>
     (report_schedule_error, scheduled_delivery list) result" where
  "due_for_audience now recipient_id report_version covered_keys =
     and_then (due_deliveries now recipient_id report_version covered_keys) (\<lambda>deliveries.
     Ok (map (\<lambda>d. \<lparr>sc_recipient_id = recipient_id, sc_delivery = d\<rparr>) deliveries))"

record audience_policy =
  ap_id :: string
  ap_email_env :: string

record daily_report_policy =
  rp_version :: u32
  rp_enabled :: bool
  rp_sender_email_env :: string
  rp_audiences :: "audience_policy list"

fun due_for_audiences ::
  "instant \<Rightarrow> u32 \<Rightarrow> (string \<Rightarrow> naive_date \<Rightarrow> u32 \<Rightarrow> report_key set) \<Rightarrow> audience_policy list \<Rightarrow>
     (report_schedule_error, scheduled_delivery list) result" where
  "due_for_audiences now version covered_for [] = Ok []"
| "due_for_audiences now version covered_for (audience # audiences) =
     and_then (due_for_audience now (ap_id audience) version
                 (covered_for (ap_id audience) (report_business_date now) version)) (\<lambda>planned.
     and_then (due_for_audiences now version covered_for audiences) (\<lambda>rest.
     Ok (planned @ rest)))"

definition due_for_policy ::
  "instant \<Rightarrow> daily_report_policy \<Rightarrow> (string \<Rightarrow> naive_date \<Rightarrow> u32 \<Rightarrow> report_key set) \<Rightarrow>
     (report_schedule_error, scheduled_delivery list) result" where
  "due_for_policy now policy covered_for =
     due_for_audiences now (rp_version policy) covered_for (rp_audiences policy)"


section \<open>Facts\<close>

lemma report_time_hours [simp]:
  "report_time date MORNING_HOUR = Ok (local_hour date 8)"
  "report_time date MORNING_DEADLINE_HOUR = Ok (local_hour date 14)"
  "report_time date EVENING_HOUR = Ok (local_hour date 17)"
  "report_time date EVENING_DEADLINE_HOUR = Ok (local_hour date 23)"
  "report_time date 0 = Ok (local_hour date 0)"
  by (simp_all add: report_time_def report_hours)

lemma local_hour_order [simp]:
  "local_hour date h \<le> local_hour date h' \<longleftrightarrow> h \<le> h'"
  "local_hour date h < local_hour date h' \<longleftrightarrow> h < h'"
  "local_hour date h = local_hour date h' \<longleftrightarrow> h = h'"
  by (simp_all add: local_hour_def duration_defs)

lemma local_hour_six [simp]:
  "local_hour date h + hours 6 = local_hour date (h + 6)"
  "local_hour date h - hours 6 = local_hour date (h - 6)"
  by (simp_all add: local_hour_def duration_defs)

end
