(* ===== verification/Report_Record.thy ===== *)
theory Report_Record
  imports Report_Schedule Wb_Client
begin

text \<open>
  The life of one report delivery as \<open>src/src/reporting/outbox.rs\<close> writes it down: a value
  \<open>DeliveryRecord\<close> with its guarded transitions. The database outbox implements the same
  life over tables; the record is its specification. The parser of a calendar date is a
  parameter.
\<close>


section \<open>Data\<close>

datatype delivery_status =
    St_Planned
  | St_Generating
  | St_Ready
  | St_Sending
  | St_Sent
  | St_Expired
  | St_PermanentFailure

definition is_terminal :: "delivery_status \<Rightarrow> bool" where
  "is_terminal s \<longleftrightarrow> s = St_Sent \<or> s = St_Expired \<or> s = St_PermanentFailure"

datatype delivery_error_class =
    Class_Authentication
  | Class_InvalidRecipient
  | Class_InvalidArtifact
  | Class_InvalidRouting
  | Class_ProviderRejected
  | Class_RateLimited
  | Class_ProviderUnavailable
  | Class_Transport

definition is_transient :: "delivery_error_class \<Rightarrow> bool" where
  "is_transient c \<longleftrightarrow> c = Class_RateLimited \<or> c = Class_ProviderUnavailable \<or> c = Class_Transport"

record artifact_identity =
  ai_object_key :: string
  ai_sha256 :: string
  ai_html_sha256 :: string

record delivery_record =
  dr_covered_keys :: "report_key list"
  dr_scheduled_for :: instant
  dr_status :: delivery_status
  dr_delayed :: bool
  dr_attempts :: u8
  dr_artifact :: "artifact_identity option"
  dr_next_attempt_at :: "instant option"
  dr_provider_message_id :: "string option"
  dr_last_error :: "delivery_error_class option"

datatype outbox_error =
    InvalidTransition
  | DeadlineExceeded
  | InvalidArtifact
  | InvalidProviderMessageId
  | InvalidRetryTime
  | InvalidSchedule

definition MAX_DELIVERY_ATTEMPTS :: u8 where
  "MAX_DELIVERY_ATTEMPTS = 5"


section \<open>Validation\<close>

text \<open>\<open>str::split\<close> at a character.\<close>

fun split_on :: "char \<Rightarrow> string \<Rightarrow> string list" where
  "split_on c [] = [[]]"
| "split_on c (b # s) =
     (if b = c then [] # split_on c s
      else case split_on c s of [] \<Rightarrow> [[b]] | p # ps \<Rightarrow> (b # p) # ps)"

text \<open>\<open>str::parse::<u32>\<close>.\<close>

definition parse_u32 :: "string \<Rightarrow> int option" where
  "parse_u32 s = Option.bind (parse_u64 s) (\<lambda>n. if n < 2 ^ 32 then Some n else None)"

definition artifact_version_valid :: "string \<Rightarrow> bool" where
  "artifact_version_valid version \<longleftrightarrow>
     (case version of
        CHR ''v'' # digits \<Rightarrow> (case parse_u32 digits of None \<Rightarrow> False | Some n \<Rightarrow> 0 < n)
      | _ \<Rightarrow> False)"

definition valid_artifact_key :: "(string \<Rightarrow> naive_date option) \<Rightarrow> string \<Rightarrow> bool" where
  "valid_artifact_key parse_date v \<longleftrightarrow>
     str_len v \<le> 512 \<and>
     (case split_on (CHR ''/'') v of
        [root, year, month, day, recipient, version, leaf] \<Rightarrow>
          root = ''daily-reports'' \<and>
          str_len year = 4 \<and> str_len month = 2 \<and> str_len day = 2 \<and>
          parse_date (year @ ''-'' @ month @ ''-'' @ day) \<noteq> None \<and>
          recipient \<noteq> [] \<and> str_len recipient \<le> 128 \<and> list_all recipient_char recipient \<and>
          artifact_version_valid version \<and>
          (leaf = ''morning.xlsx'' \<or> leaf = ''evening.xlsx'')
      | _ \<Rightarrow> False)"

definition validate_artifact ::
  "(string \<Rightarrow> naive_date option) \<Rightarrow> artifact_identity \<Rightarrow> (outbox_error, unit) result" where
  "validate_artifact parse_date a =
     ensure (valid_artifact_key parse_date (ai_object_key a) \<and>
             str_len (ai_sha256 a) = 64 \<and> str_len (ai_html_sha256 a) = 64 \<and>
             list_all is_lower_hexdigit (ai_sha256 a) \<and>
             list_all is_lower_hexdigit (ai_html_sha256 a)) InvalidArtifact
     (Ok ())"

definition message_id_char :: "char \<Rightarrow> bool" where
  "message_id_char b \<longleftrightarrow>
     is_ascii_alphanumeric b \<or> b = CHR ''_'' \<or> b = CHR ''-'' \<or> b = CHR ''.'' \<or> b = CHR '':'' \<or>
     b = CHR ''@''"

definition validate_provider_message_id :: "string \<Rightarrow> (outbox_error, unit) result" where
  "validate_provider_message_id v =
     ensure (v \<noteq> [] \<and> str_len v \<le> 512 \<and> list_all message_id_char v) InvalidProviderMessageId
     (Ok ())"


section \<open>A planned delivery\<close>

fun latest_deadline ::
  "instant option \<Rightarrow> report_key list \<Rightarrow> (outbox_error, instant option) result" where
  "latest_deadline maximum [] = Ok maximum"
| "latest_deadline maximum (key # keys) =
     and_then (map_err InvalidSchedule (delivery_deadline key)) (\<lambda>candidate.
     latest_deadline
       (Some (case maximum of None \<Rightarrow> candidate | Some current \<Rightarrow> max current candidate)) keys)"

definition keys_deadline :: "report_key list \<Rightarrow> (outbox_error, instant) result" where
  "keys_deadline keys =
     and_then (latest_deadline None keys) (\<lambda>maximum. ok_or maximum InvalidSchedule)"

definition recovered_morning_schedule ::
  "report_key list \<Rightarrow> (outbox_error, instant option) result" where
  "recovered_morning_schedule keys =
     (case keys of
        [key] \<Rightarrow>
          if rk_kind key = Morning
          then and_then (map_err InvalidSchedule (delivery_deadline (key\<lparr>rk_kind := Evening\<rparr>)))
                 (\<lambda>deadline. Ok (Some (deadline - hours 6)))
          else Ok None
      | _ \<Rightarrow> Ok None)"

definition same_occasion :: "report_key \<Rightarrow> report_key \<Rightarrow> bool" where
  "same_occasion a b \<longleftrightarrow>
     rk_recipient_id a = rk_recipient_id b \<and> rk_report_version a = rk_report_version b \<and>
     rk_local_date a = rk_local_date b"

definition delivery_planned :: "pending_delivery \<Rightarrow> (outbox_error, delivery_record) result" where
  "delivery_planned d =
     ensure (pd_covered_keys d \<noteq> [] \<and> length (pd_covered_keys d) \<le> 2) InvalidSchedule
    (ensure (list_all (same_occasion (hd (pd_covered_keys d))) (pd_covered_keys d)) InvalidSchedule
    (ensure (distinct (pd_covered_keys d)) InvalidSchedule
    (and_then (keys_deadline (pd_covered_keys d)) (\<lambda>deadline.
     and_then (recovered_morning_schedule (pd_covered_keys d)) (\<lambda>recovered.
     ensure (pd_scheduled_for d = deadline - hours 6 \<or> Some (pd_scheduled_for d) = recovered)
       InvalidSchedule
    (Ok \<lparr>dr_covered_keys = pd_covered_keys d, dr_scheduled_for = pd_scheduled_for d,
         dr_status = St_Planned, dr_delayed = pd_delayed d, dr_attempts = 0, dr_artifact = None,
         dr_next_attempt_at = None, dr_provider_message_id = None, dr_last_error = None\<rparr>))))))"

definition record_deadline_at :: "delivery_record \<Rightarrow> instant" where
  "record_deadline_at r = dr_scheduled_for r + hours 6"

definition require_before_deadline :: "instant \<Rightarrow> delivery_record \<Rightarrow> (outbox_error, unit) result" where
  "require_before_deadline now r = ensure (now \<le> record_deadline_at r) DeadlineExceeded (Ok ())"


section \<open>Transitions\<close>

definition delivery_start_generation ::
  "instant \<Rightarrow> delivery_record \<Rightarrow> (outbox_error, delivery_record) result" where
  "delivery_start_generation now r =
     and_then (require_before_deadline now r) (\<lambda>_.
     ensure (dr_status r = St_Planned) InvalidTransition
    (Ok (r\<lparr>dr_status := St_Generating\<rparr>)))"

definition delivery_mark_ready ::
  "(string \<Rightarrow> naive_date option) \<Rightarrow> instant \<Rightarrow> artifact_identity \<Rightarrow> delivery_record \<Rightarrow>
     (outbox_error, delivery_record) result" where
  "delivery_mark_ready parse_date now a r =
     and_then (require_before_deadline now r) (\<lambda>_.
     ensure (dr_status r = St_Generating) InvalidTransition
    (and_then (validate_artifact parse_date a) (\<lambda>_.
     Ok (r\<lparr>dr_artifact := Some a, dr_status := St_Ready\<rparr>))))"

definition delivery_claim_send ::
  "instant \<Rightarrow> delivery_record \<Rightarrow> (outbox_error, delivery_record) result" where
  "delivery_claim_send now r =
     and_then (require_before_deadline now r) (\<lambda>_.
     ensure (dr_status r = St_Ready \<and>
             (case dr_next_attempt_at r of None \<Rightarrow> True | Some retry \<Rightarrow> retry \<le> now)) InvalidTransition
    (and_then (or_panic (checked_add (dr_attempts r) 1)) (\<lambda>attempts.
     Ok (r\<lparr>dr_attempts := attempts, dr_next_attempt_at := None, dr_status := St_Sending\<rparr>))))"

definition delivery_record_sent ::
  "string \<Rightarrow> delivery_record \<Rightarrow> (outbox_error, delivery_record) result" where
  "delivery_record_sent provider_message_id r =
     ensure (dr_status r = St_Sending) InvalidTransition
    (and_then (validate_provider_message_id provider_message_id) (\<lambda>_.
     Ok (r\<lparr>dr_provider_message_id := Some provider_message_id, dr_last_error := None,
           dr_status := St_Sent\<rparr>)))"

definition delivery_record_failure ::
  "instant \<Rightarrow> delivery_error_class \<Rightarrow> instant option \<Rightarrow> delivery_record \<Rightarrow>
     (outbox_error, delivery_record) result" where
  "delivery_record_failure now class retry_at r =
     ensure (dr_status r = St_Sending) InvalidTransition
    (if \<not> is_transient class \<or> MAX_DELIVERY_ATTEMPTS \<le> dr_attempts r
     then Ok (r\<lparr>dr_last_error := Some class, dr_status := St_PermanentFailure\<rparr>)
     else and_then (ok_or retry_at InvalidRetryTime) (\<lambda>retry_at.
          ensure (now < retry_at \<and> retry_at \<le> record_deadline_at r) InvalidRetryTime
         (Ok (r\<lparr>dr_last_error := Some class, dr_next_attempt_at := Some retry_at,
                dr_status := St_Ready\<rparr>))))"

definition delivery_expire ::
  "instant \<Rightarrow> delivery_record \<Rightarrow> (outbox_error, delivery_record) result" where
  "delivery_expire now r =
     ensure (\<not> is_terminal (dr_status r)) InvalidTransition
    (ensure (record_deadline_at r < now) DeadlineExceeded
    (Ok (r\<lparr>dr_status := St_Expired, dr_next_attempt_at := None\<rparr>)))"

end
