(* ===== verification/Report_Database.thy ===== *)
theory Report_Database
  imports Report_Record
begin

text \<open>
  The outbox tables of the schema \<open>daily_reporting\<close>
  (\<open>src/position-monitor/initdb/005\<close>, \<open>008\<close>, \<open>009\<close>, \<open>012\<close>, \<open>013\<close>, \<open>014\<close>, \<open>028\<close>, \<open>050\<close>) as
  the role \<open>report_worker\<close> sees them: rows, CHECK constraints, keys, and the BEFORE triggers.
  A statement that a constraint or a trigger refuses is \<open>None\<close>. The texts of a status and of a
  report kind are the values of their data types. Asia/Yekaterinburg is its fixed offset. A
  statement reads the clock of the server once. How chrono and the server write the parts of
  a date are parameters.
\<close>


section \<open>Rows\<close>

record report_libraries =
  pl_parse_date :: "string \<Rightarrow> naive_date option"
  pl_date_parts :: "naive_date \<Rightarrow> string \<times> string \<times> string"
  pl_date_text :: "naive_date \<Rightarrow> string"
  pl_to_char :: "naive_date \<Rightarrow> string \<times> string \<times> string"
  pl_from_slice :: "string \<Rightarrow> json option"

record delivery_batch =
  ba_id :: int
  ba_recipient_id :: string
  ba_report_version :: int
  ba_scheduled_for :: instant
  ba_status :: delivery_status
  ba_delayed :: bool
  ba_attempts :: int
  ba_object_key :: "string option"
  ba_sha256 :: "string option"
  ba_html_sha256 :: "string option"
  ba_next_attempt_at :: "instant option"
  ba_provider_message_id :: "string option"
  ba_last_error_class :: "string option"
  ba_created_at :: instant
  ba_updated_at :: instant
  ba_sent_at :: "instant option"
  ba_generation_started_at :: "instant option"

record delivery_coverage =
  co_batch_id :: int
  co_recipient_id :: string
  co_report_version :: int
  co_local_date :: naive_date
  co_report_kind :: report_kind
  co_scheduled_for :: instant
  co_deadline_at :: instant

datatype attempt_outcome = Attempt_Sent | Attempt_Transient | Attempt_Permanent

record delivery_attempt =
  da_batch_id :: int
  da_attempt_no :: int
  da_started_at :: instant
  da_finished_at :: instant
  da_outcome :: attempt_outcome
  da_error_class :: "string option"
  da_provider_message_id :: "string option"

record delivery_reconciliation =
  rc_batch_id :: int
  rc_attempt_no :: int
  rc_reconciled_at :: instant
  rc_decision :: string
  rc_provider_message_id :: "string option"

record generation_attempt =
  ga_batch_id :: int
  ga_attempt_no :: int
  ga_failed_at :: instant
  ga_retry_after :: instant
  ga_error_class :: string

record outbox_db =
  ob_batches :: "delivery_batch list"
  ob_sequence :: int
  ob_coverage :: "delivery_coverage list"
  ob_attempts :: "delivery_attempt list"
  ob_reconciliations :: "delivery_reconciliation list"
  ob_generations :: "generation_attempt list"

definition batch_of :: "int \<Rightarrow> outbox_db \<Rightarrow> delivery_batch option" where
  "batch_of i db = List.find (\<lambda>b. ba_id b = i) (ob_batches db)"

definition coverage_of :: "int \<Rightarrow> outbox_db \<Rightarrow> delivery_coverage list" where
  "coverage_of i db = filter (\<lambda>c. co_batch_id c = i) (ob_coverage db)"

text \<open>\<open>max\<close> and \<open>min\<close> of a column; no row gives NULL.\<close>

fun column_max :: "int list \<Rightarrow> int option" where
  "column_max [] = None"
| "column_max (x # xs) = Some (fold max xs x)"


section \<open>CHECK constraints\<close>

definition message_id_text :: "string \<Rightarrow> bool" where
  "message_id_text v \<longleftrightarrow> v \<noteq> [] \<and> str_len v \<le> 512 \<and> list_all message_id_char v"

definition version_text :: "string \<Rightarrow> bool" where
  "version_text v \<longleftrightarrow>
     (case v of
        CHR ''v'' # d # ds \<Rightarrow> is_ascii_digit d \<and> d \<noteq> CHR ''0'' \<and> list_all is_ascii_digit ds
      | _ \<Rightarrow> False)"

definition digits_text :: "int \<Rightarrow> string \<Rightarrow> bool" where
  "digits_text n v \<longleftrightarrow> str_len v = n \<and> list_all is_ascii_digit v"

definition artifact_key_text :: "string \<Rightarrow> bool" where
  "artifact_key_text v \<longleftrightarrow>
     v \<noteq> [] \<and> str_len v \<le> 512 \<and>
     (case split_on (CHR ''/'') v of
        [root, year, month, day, recipient, version, leaf] \<Rightarrow>
          root = ''daily-reports'' \<and> digits_text 4 year \<and> digits_text 2 month \<and>
          digits_text 2 day \<and> recipient \<noteq> [] \<and> list_all recipient_char recipient \<and>
          version_text version \<and> (leaf = ''morning.xlsx'' \<or> leaf = ''evening.xlsx'')
      | _ \<Rightarrow> False)"

definition artifact_digest_text :: "string \<Rightarrow> bool" where
  "artifact_digest_text v \<longleftrightarrow> str_len v = 64 \<and> list_all is_lower_hexdigit v"

text \<open>A check that compares with NULL does not refuse.\<close>

definition null_or :: "('a \<Rightarrow> bool) \<Rightarrow> 'a option \<Rightarrow> bool" where
  "null_or P v \<longleftrightarrow> (case v of None \<Rightarrow> True | Some x \<Rightarrow> P x)"

definition delivery_error_classes :: "string list" where
  "delivery_error_classes =
     [''authentication'', ''invalid_recipient'', ''invalid_artifact'', ''invalid_routing'',
      ''provider_rejected'', ''rate_limited'', ''provider_unavailable'', ''transport'']"

definition transient_error_classes :: "string list" where
  "transient_error_classes = [''rate_limited'', ''provider_unavailable'', ''transport'']"

definition batch_error_classes :: "string list" where
  "batch_error_classes =
     delivery_error_classes @
     [''artifact_generation'', ''data_incomplete'', ''storage'', ''operator_reconciled_unknown'']"

definition batch_check :: "delivery_batch \<Rightarrow> bool" where
  "batch_check b \<longleftrightarrow>
     ba_recipient_id b \<noteq> [] \<and> str_len (ba_recipient_id b) \<le> 128 \<and>
     list_all recipient_char (ba_recipient_id b) \<and>
     0 < ba_report_version b \<and> 0 \<le> ba_attempts b \<and> ba_attempts b \<le> 5 \<and>
     null_or artifact_key_text (ba_object_key b) \<and>
     null_or artifact_digest_text (ba_sha256 b) \<and>
     null_or artifact_digest_text (ba_html_sha256 b) \<and>
     (ba_status b \<in> {St_Ready, St_Sending, St_Sent} \<longrightarrow> ba_object_key b \<noteq> None) \<and>
     (ba_status b = St_Ready \<and> ba_next_attempt_at b \<noteq> None \<or>
      ba_status b \<noteq> St_Ready \<and> ba_next_attempt_at b = None \<or>
      ba_status b = St_Ready \<and> ba_attempts b = 0) \<and>
     (ba_status b = St_Sent \<and> ba_provider_message_id b \<noteq> None \<and> ba_sent_at b \<noteq> None \<or>
      ba_status b \<noteq> St_Sent \<and> ba_provider_message_id b = None \<and> ba_sent_at b = None) \<and>
     null_or message_id_text (ba_provider_message_id b) \<and>
     null_or (\<lambda>c. c \<in> set batch_error_classes) (ba_last_error_class b) \<and>
     (ba_status b = St_PermanentFailure \<longrightarrow> ba_last_error_class b \<noteq> None) \<and>
     ba_created_at b \<le> ba_updated_at b"

definition coverage_schedule_check :: "delivery_coverage \<Rightarrow> bool" where
  "coverage_schedule_check c \<longleftrightarrow>
     (let at = local_hour (co_local_date c) in
      co_report_kind c = Morning \<and>
        (co_scheduled_for c = at 8 \<and> co_deadline_at c = at 14 \<or>
         co_scheduled_for c = at 17 \<and> co_deadline_at c = at 23) \<or>
      co_report_kind c = Evening \<and> co_scheduled_for c = at 17 \<and> co_deadline_at c = at 23)"

definition attempt_check :: "delivery_attempt \<Rightarrow> bool" where
  "attempt_check a \<longleftrightarrow>
     1 \<le> da_attempt_no a \<and> da_attempt_no a \<le> 5 \<and> da_started_at a \<le> da_finished_at a \<and>
     (case da_outcome a of
        Attempt_Sent \<Rightarrow> da_error_class a = None \<and> da_provider_message_id a \<noteq> None
      | _ \<Rightarrow> null_or (\<lambda>c. c \<in> set delivery_error_classes) (da_error_class a) \<and>
          da_provider_message_id a = None) \<and>
     null_or message_id_text (da_provider_message_id a) \<and>
     (da_outcome a = Attempt_Transient \<longrightarrow>
        null_or (\<lambda>c. c \<in> set transient_error_classes) (da_error_class a))"

definition reconciliation_check :: "delivery_reconciliation \<Rightarrow> bool" where
  "reconciliation_check r \<longleftrightarrow>
     1 \<le> rc_attempt_no r \<and> rc_attempt_no r \<le> 5 \<and>
     null_or message_id_text (rc_provider_message_id r) \<and>
     (rc_decision r = ''confirmed_sent'' \<and> rc_provider_message_id r \<noteq> None \<or>
      rc_decision r = ''suppressed_unknown'' \<and> rc_provider_message_id r = None)"

definition generation_check :: "generation_attempt \<Rightarrow> bool" where
  "generation_check g \<longleftrightarrow>
     1 \<le> ga_attempt_no g \<and> ga_attempt_no g \<le> 5 \<and> ga_failed_at g < ga_retry_after g \<and>
     (case ga_error_class g of
        [] \<Rightarrow> False
      | c # cs \<Rightarrow> is_ascii_lowercase c \<and> str_len cs \<le> 63 \<and>
          list_all (\<lambda>b. is_ascii_lowercase b \<or> is_ascii_digit b \<or> b = CHR ''_'') cs)"


section \<open>Triggers\<close>

text \<open>\<open>enforce_generation_clock\<close>, for an update.\<close>

definition enforce_generation_clock ::
  "instant \<Rightarrow> delivery_batch \<Rightarrow> delivery_batch \<Rightarrow> delivery_batch option" where
  "enforce_generation_clock clock old new =
     (if ba_generation_started_at new \<noteq> ba_generation_started_at old then None
      else if ba_status old = St_Planned \<and> ba_status new = St_Generating
      then Some (new\<lparr>ba_generation_started_at := Some clock\<rparr>)
      else Some new)"

definition coverage_kind :: "delivery_coverage list \<Rightarrow> report_kind" where
  "coverage_kind cs = (if list_ex (\<lambda>c. co_report_kind c = Evening) cs then Evening else Morning)"

definition kind_text :: "report_kind \<Rightarrow> string" where
  "kind_text k = (case k of Morning \<Rightarrow> ''morning'' | Evening \<Rightarrow> ''evening'')"

definition object_key_text ::
  "string \<times> string \<times> string \<Rightarrow> string \<Rightarrow> int \<Rightarrow> report_kind \<Rightarrow> string" where
  "object_key_text date recipient_id report_version kind =
     (case date of (year, month, day) \<Rightarrow>
        ''daily-reports/'' @ year @ ''/'' @ month @ ''/'' @ day @ ''/'' @ recipient_id @ ''/v'' @
        decimal report_version @ ''/'' @ kind_text kind @ ''.xlsx'')"

definition expected_object_key ::
  "report_libraries \<Rightarrow> delivery_batch \<Rightarrow> delivery_coverage list \<Rightarrow> string option" where
  "expected_object_key lib b cs =
     (case column_max (map (\<lambda>c. - co_local_date c) cs) of
        None \<Rightarrow> None
      | Some d \<Rightarrow> Some (object_key_text (pl_to_char lib (- d)) (ba_recipient_id b)
                         (ba_report_version b) (coverage_kind cs)))"

definition enforce_artifact_identity ::
  "report_libraries \<Rightarrow> delivery_coverage list \<Rightarrow> delivery_batch \<Rightarrow> bool" where
  "enforce_artifact_identity lib cs new \<longleftrightarrow>
     ba_status new \<noteq> St_Ready \<or>
     1 \<le> length cs \<and> length cs \<le> 2 \<and> ba_object_key new = expected_object_key lib new cs"

definition batch_transition :: "delivery_status \<Rightarrow> delivery_status \<Rightarrow> bool" where
  "batch_transition old new \<longleftrightarrow>
     (case old of
        St_Planned \<Rightarrow> new \<in> {St_Generating, St_Expired, St_PermanentFailure}
      | St_Generating \<Rightarrow> new \<in> {St_Ready, St_Expired, St_PermanentFailure}
      | St_Ready \<Rightarrow> new \<in> {St_Sending, St_Expired, St_PermanentFailure}
      | St_Sending \<Rightarrow> new \<in> {St_Ready, St_Sent, St_Expired, St_PermanentFailure}
      | _ \<Rightarrow> False)"

definition enforce_batch_state ::
  "delivery_coverage list \<Rightarrow> delivery_batch \<Rightarrow> delivery_batch \<Rightarrow> bool" where
  "enforce_batch_state cs old new \<longleftrightarrow>
     ba_status old \<notin> {St_Sent, St_Expired, St_PermanentFailure} \<and>
     ba_id new = ba_id old \<and> ba_recipient_id new = ba_recipient_id old \<and>
     ba_report_version new = ba_report_version old \<and>
     ba_scheduled_for new = ba_scheduled_for old \<and> ba_delayed new = ba_delayed old \<and>
     ba_created_at new = ba_created_at old \<and>
     ba_updated_at old < ba_updated_at new \<and>
     batch_transition (ba_status old) (ba_status new) \<and>
     (if ba_status old = St_Ready \<and> ba_status new = St_Sending
      then ba_attempts new = ba_attempts old + 1 \<and> ba_attempts new \<le> 5
      else ba_attempts new = ba_attempts old) \<and>
     1 \<le> length cs \<and> length cs \<le> 2 \<and>
     column_max (map co_scheduled_for cs) = Some (ba_scheduled_for old) \<and>
     list_all (\<lambda>c. co_local_date c = co_local_date (hd cs)) cs \<and>
     (case column_max (map co_deadline_at cs) of
        None \<Rightarrow> False
      | Some deadline \<Rightarrow>
          (ba_status old = St_Sending \<and> ba_status new = St_Ready \<longrightarrow>
             (case ba_next_attempt_at new of
                None \<Rightarrow> False
              | Some retry \<Rightarrow> ba_updated_at new < retry \<and> retry \<le> deadline)) \<and>
          (ba_status new \<in> {St_Generating, St_Ready, St_Sending} \<longrightarrow>
             ba_updated_at new \<le> deadline) \<and>
          (ba_status new = St_Expired \<longrightarrow> deadline < ba_updated_at new))"


section \<open>Statements\<close>

definition microsecond :: duration where
  "microsecond = 1000"

text \<open>
  An update of the row with an id that meets its condition: the number of rows and the new
  table. Every update moves \<open>updated_at\<close> forward.
\<close>

definition update_batch ::
  "report_libraries \<Rightarrow> instant \<Rightarrow> int \<Rightarrow> (delivery_batch \<Rightarrow> bool) \<Rightarrow>
     (delivery_batch \<Rightarrow> delivery_batch) \<Rightarrow> outbox_db \<Rightarrow> (nat \<times> outbox_db) option" where
  "update_batch lib clock i applies change db =
     (case batch_of i db of
        None \<Rightarrow> Some (0, db)
      | Some old \<Rightarrow>
          if \<not> applies old then Some (0, db)
          else case enforce_generation_clock clock old
                      ((change old)\<lparr>ba_updated_at := max clock (ba_updated_at old + microsecond)\<rparr>) of
            None \<Rightarrow> None
          | Some new \<Rightarrow>
              if enforce_artifact_identity lib (coverage_of i db) new \<and>
                 enforce_batch_state (coverage_of i db) old new \<and> batch_check new
              then Some (1, db\<lparr>ob_batches :=
                     map (\<lambda>b. if ba_id b = i then new else b) (ob_batches db)\<rparr>)
              else None)"

text \<open>
  Identity columns take their values from a sequence; \<open>skipped\<close> counts the values that
  transactions have taken and not used.
\<close>

definition insert_batch ::
  "instant \<Rightarrow> nat \<Rightarrow> string \<Rightarrow> int \<Rightarrow> instant \<Rightarrow> bool \<Rightarrow> outbox_db \<Rightarrow> (int \<times> outbox_db) option" where
  "insert_batch clock skipped recipient_id report_version scheduled_for delayed db =
     (let i = ob_sequence db + int skipped + 1;
          b = \<lparr>ba_id = i, ba_recipient_id = recipient_id, ba_report_version = report_version,
               ba_scheduled_for = scheduled_for, ba_status = St_Planned, ba_delayed = delayed,
               ba_attempts = 0, ba_object_key = None, ba_sha256 = None, ba_html_sha256 = None,
               ba_next_attempt_at = None, ba_provider_message_id = None,
               ba_last_error_class = None, ba_created_at = clock, ba_updated_at = clock,
               ba_sent_at = None, ba_generation_started_at = None\<rparr>
      in if i < 2 ^ 63 \<and> batch_check b
         then Some (i, db\<lparr>ob_sequence := i, ob_batches := ob_batches db @ [b]\<rparr>)
         else None)"

definition occurrence_of :: "delivery_coverage \<Rightarrow> naive_date \<times> report_kind \<times> string \<times> int" where
  "occurrence_of c =
     (co_local_date c, co_report_kind c, co_recipient_id c, co_report_version c)"

definition insert_coverage :: "delivery_coverage \<Rightarrow> outbox_db \<Rightarrow> outbox_db option" where
  "insert_coverage c db =
     (case batch_of (co_batch_id c) db of
        None \<Rightarrow> None
      | Some b \<Rightarrow>
          if ba_status b = St_Planned \<and> ba_recipient_id b = co_recipient_id c \<and>
             ba_report_version b = co_report_version c \<and> coverage_schedule_check c \<and>
             \<not> list_ex (\<lambda>c'. occurrence_of c' = occurrence_of c) (ob_coverage db) \<and>
             \<not> list_ex (\<lambda>c'. co_batch_id c' = co_batch_id c \<and>
                              co_report_kind c' = co_report_kind c) (ob_coverage db)
          then Some (db\<lparr>ob_coverage := ob_coverage db @ [c]\<rparr>)
          else None)"

definition insert_attempt :: "delivery_attempt \<Rightarrow> outbox_db \<Rightarrow> outbox_db option" where
  "insert_attempt a db =
     (case batch_of (da_batch_id a) db of
        None \<Rightarrow> None
      | Some b \<Rightarrow>
          if ba_status b = St_Sending \<and> da_attempt_no a = ba_attempts b \<and> attempt_check a \<and>
             \<not> list_ex (\<lambda>a'. da_batch_id a' = da_batch_id a \<and>
                              da_attempt_no a' = da_attempt_no a) (ob_attempts db)
          then Some (db\<lparr>ob_attempts := a # ob_attempts db\<rparr>)
          else None)"

definition insert_reconciliation ::
  "instant \<Rightarrow> delivery_reconciliation \<Rightarrow> outbox_db \<Rightarrow> outbox_db option" where
  "insert_reconciliation clock r db =
     (case batch_of (rc_batch_id r) db of
        None \<Rightarrow> None
      | Some b \<Rightarrow>
          if ba_status b = St_Sending \<and> rc_attempt_no r = ba_attempts b \<and>
             ba_updated_at b \<le> rc_reconciled_at r \<and> rc_reconciled_at r \<le> clock + minutes 1 \<and>
             reconciliation_check r \<and>
             \<not> list_ex (\<lambda>r'. rc_batch_id r' = rc_batch_id r \<and>
                              rc_attempt_no r' = rc_attempt_no r) (ob_reconciliations db)
          then Some (db\<lparr>ob_reconciliations := r # ob_reconciliations db\<rparr>)
          else None)"

definition insert_generation :: "generation_attempt \<Rightarrow> outbox_db \<Rightarrow> outbox_db option" where
  "insert_generation g db =
     (case batch_of (ga_batch_id g) db of
        None \<Rightarrow> None
      | Some b \<Rightarrow>
          if (ba_status b = St_Planned \<or> ba_status b = St_Generating) \<and>
             ga_attempt_no g =
               int (length (filter (\<lambda>g'. ga_batch_id g' = ga_batch_id g) (ob_generations db))) + 1 \<and>
             generation_check g \<and>
             \<not> list_ex (\<lambda>g'. ga_batch_id g' = ga_batch_id g \<and>
                              ga_attempt_no g' = ga_attempt_no g) (ob_generations db)
          then Some (db\<lparr>ob_generations := g # ob_generations db\<rparr>)
          else None)"

end
