(* ===== verification/Report_Store.thy ===== *)
theory Report_Store
  imports Report_Database Wb_Store
begin

text \<open>
  The PostgreSQL outbox of the daily reports: \<open>src/src/reporting/postgres_outbox.rs\<close> with
  \<open>generation.rs\<close> and \<open>reconciliation.rs\<close>. An operation takes the fate of its connection, the
  clock of the server, and what else the server decides: the rows that other sessions have
  locked, and the values of the sequence that they have used up.
\<close>


section \<open>Results and transactions\<close>

datatype postgres_outbox_error =
    Outbox_Unavailable
  | Outbox_Conflict
  | Outbox_InvalidDelivery
  | AmbiguousDelivery
  | CanaryMissing

record outbox_call =
  oc_link :: link
  oc_clock :: instant
  oc_locked :: "int set"
  oc_skipped :: nat

type_synonym 'a outbox_run = "(postgres_outbox_error, 'a) result \<times> outbox_db"

definition outbox_transaction ::
  "outbox_call \<Rightarrow> (outbox_db \<Rightarrow> (postgres_outbox_error, 'a \<times> outbox_db) result) \<Rightarrow> outbox_db \<Rightarrow>
     'a outbox_run" where
  "outbox_transaction call body db =
     (if oc_link call = LostBeforeCommit then (Error Outbox_Unavailable, db)
      else case body db of
        Inl e \<Rightarrow> (Inl e, db)
      | Inr (x, db') \<Rightarrow>
          if oc_link call = LostInCommit then (Error Outbox_Unavailable, db') else (Ok x, db'))"

definition outbox_query ::
  "outbox_call \<Rightarrow> (outbox_db \<Rightarrow> (postgres_outbox_error, 'a) result) \<Rightarrow> outbox_db \<Rightarrow>
     (postgres_outbox_error, 'a) result" where
  "outbox_query call f db =
     (if oc_link call = Connected then f db else Error Outbox_Unavailable)"

definition checked_then ::
  "(postgres_outbox_error, 'v) result \<Rightarrow> ('v \<Rightarrow> outbox_db \<Rightarrow> 'a outbox_run) \<Rightarrow> outbox_db \<Rightarrow>
     'a outbox_run" where
  "checked_then check run db = (case check of Inl e \<Rightarrow> (Inl e, db) | Inr v \<Rightarrow> run v db)"

definition exactly_one :: "nat \<Rightarrow> (postgres_outbox_error, unit) result" where
  "exactly_one changed = ensure (changed = 1) Outbox_Conflict (Ok ())"

text \<open>An update that must change one row.\<close>

definition update_one ::
  "(nat \<times> outbox_db) option \<Rightarrow> (postgres_outbox_error, outbox_db) result" where
  "update_one stmt =
     and_then (ok_or stmt Outbox_Unavailable) (\<lambda>(changed, db).
     and_then (exactly_one changed) (\<lambda>_. Ok db))"

definition version_i32 :: "u32 \<Rightarrow> (postgres_outbox_error, int) result" where
  "version_i32 v = ensure (uint v < 2 ^ 31) Outbox_InvalidDelivery (Ok (uint v))"

definition version_u32 :: "int \<Rightarrow> (postgres_outbox_error, u32) result" where
  "version_u32 v = ensure (0 \<le> v \<and> v < 2 ^ 32) Outbox_Unavailable (Ok (word_of_int v))"


section \<open>Planning\<close>

datatype create_outcome = Inserted int | Existing int

fun insert_coverages :: "delivery_coverage list \<Rightarrow> outbox_db \<Rightarrow> outbox_db option" where
  "insert_coverages [] db = Some db"
| "insert_coverages (c # cs) db = Option.bind (insert_coverage c db) (insert_coverages cs)"

definition planned_row :: "int \<Rightarrow> int \<Rightarrow> delivery_record \<Rightarrow> report_key \<Rightarrow> delivery_coverage" where
  "planned_row batch_id version r key =
     \<lparr>co_batch_id = batch_id, co_recipient_id = rk_recipient_id key, co_report_version = version,
      co_local_date = rk_local_date key, co_report_kind = rk_kind key,
      co_scheduled_for = dr_scheduled_for r, co_deadline_at = record_deadline_at r\<rparr>"

definition insert_planned ::
  "outbox_call \<Rightarrow> delivery_record \<Rightarrow> report_key \<Rightarrow> int \<Rightarrow> outbox_db \<Rightarrow>
     (postgres_outbox_error, create_outcome \<times> outbox_db) result" where
  "insert_planned call r first version db =
     and_then (ok_or (insert_batch (oc_clock call) (oc_skipped call) (rk_recipient_id first) version
                        (dr_scheduled_for r) (dr_delayed r) db) Outbox_Unavailable) (\<lambda>(batch_id, db).
     and_then (ok_or (insert_coverages (map (planned_row batch_id version r) (dr_covered_keys r)) db)
                 Outbox_Unavailable) (\<lambda>db.
     Ok (Inserted batch_id, db)))"

definition create_planned_inner ::
  "outbox_call \<Rightarrow> delivery_record \<Rightarrow> outbox_db \<Rightarrow>
     (postgres_outbox_error, create_outcome \<times> outbox_db) result" where
  "create_planned_inner call r db =
     (case dr_covered_keys r of
        [] \<Rightarrow> Error Outbox_InvalidDelivery
      | first # _ \<Rightarrow>
          and_then (version_i32 (rk_report_version first)) (\<lambda>version.
          let existing = filter (\<lambda>c. co_recipient_id c = rk_recipient_id first \<and>
                                   co_report_version c = version \<and>
                                   co_local_date c = rk_local_date first) (ob_coverage db);
              existing_kinds = co_report_kind ` set existing;
              requested_kinds = rk_kind ` set (dr_covered_keys r)
          in case existing of
               [] \<Rightarrow> insert_planned call r first version db
             | c # _ \<Rightarrow>
                 if list_all (\<lambda>c'. co_batch_id c' = co_batch_id c) existing \<and>
                    existing_kinds = requested_kinds
                 then Ok (Existing (co_batch_id c), db)
                 else if existing_kinds \<inter> requested_kinds \<noteq> {} then Error Outbox_Conflict
                 else insert_planned call r first version db))"

definition create_planned ::
  "outbox_call \<Rightarrow> pending_delivery \<Rightarrow> outbox_db \<Rightarrow> create_outcome outbox_run" where
  "create_planned call delivery =
     checked_then (map_err Outbox_InvalidDelivery (delivery_planned delivery)) (\<lambda>r.
     outbox_transaction call (create_planned_inner call r))"

definition covered_keys ::
  "outbox_call \<Rightarrow> instant \<Rightarrow> string \<Rightarrow> u32 \<Rightarrow> outbox_db \<Rightarrow>
     (postgres_outbox_error, report_key set) result" where
  "covered_keys call now recipient_id report_version db =
     and_then (version_i32 report_version) (\<lambda>version.
     let date = report_business_date now in
     outbox_query call (\<lambda>db.
       Ok ((\<lambda>c. report_key_of date (co_report_kind c) recipient_id report_version) `
           {c \<in> set (ob_coverage db). co_recipient_id c = recipient_id \<and>
              co_report_version c = version \<and> co_local_date c = date})) db)"

text \<open>The calls of a planning pass, numbered in their order.\<close>

fun plan_deliveries ::
  "(nat \<Rightarrow> outbox_call) \<Rightarrow> nat \<Rightarrow> scheduled_delivery list \<Rightarrow>
     (scheduled_delivery \<times> create_outcome) list \<Rightarrow> outbox_db \<Rightarrow>
     (nat \<times> (scheduled_delivery \<times> create_outcome) list) outbox_run" where
  "plan_deliveries calls n [] outcomes db = (Ok (n, outcomes), db)"
| "plan_deliveries calls n (d # ds) outcomes db =
     (case create_planned (calls n) (sc_delivery d) db of
        (Inl e, db) \<Rightarrow> (Inl e, db)
      | (Inr outcome, db) \<Rightarrow>
          plan_deliveries calls (Suc n) ds (outcomes @ [(d, outcome)]) db)"

fun plan_audiences ::
  "(nat \<Rightarrow> outbox_call) \<Rightarrow> instant \<Rightarrow> u32 \<Rightarrow> nat \<Rightarrow> audience_policy list \<Rightarrow>
     (scheduled_delivery \<times> create_outcome) list \<Rightarrow> outbox_db \<Rightarrow>
     (scheduled_delivery \<times> create_outcome) list outbox_run" where
  "plan_audiences calls now version n [] outcomes db = (Ok outcomes, db)"
| "plan_audiences calls now version n (audience # audiences) outcomes db =
     (case and_then (covered_keys (calls n) now (ap_id audience) version db) (\<lambda>covered.
           map_err Outbox_InvalidDelivery
             (due_for_audience now (ap_id audience) version covered)) of
        Inl e \<Rightarrow> (Inl e, db)
      | Inr deliveries \<Rightarrow>
          (case plan_deliveries calls (Suc n) deliveries outcomes db of
             (Inl e, db) \<Rightarrow> (Inl e, db)
           | (Inr (n, outcomes), db) \<Rightarrow> plan_audiences calls now version n audiences outcomes db))"

definition plan_due ::
  "(nat \<Rightarrow> outbox_call) \<Rightarrow> instant \<Rightarrow> daily_report_policy \<Rightarrow> outbox_db \<Rightarrow>
     (scheduled_delivery \<times> create_outcome) list outbox_run" where
  "plan_due calls now policy =
     plan_audiences calls now (rp_version policy) 0 (rp_audiences policy) []"


section \<open>Generation\<close>

datatype generation_error_class = Generation_Timeout | Generation_Failed

definition generation_error_str :: "generation_error_class \<Rightarrow> string" where
  "generation_error_str c = (case c of Generation_Timeout \<Rightarrow> ''timeout'' | Generation_Failed \<Rightarrow> ''failed'')"

datatype generation_status = Gen_Planned | Gen_Generating | Gen_Ready

definition parse_generation_status ::
  "delivery_status \<Rightarrow> (postgres_outbox_error, generation_status) result" where
  "parse_generation_status s =
     (case s of
        St_Planned \<Rightarrow> Ok Gen_Planned
      | St_Generating \<Rightarrow> Ok Gen_Generating
      | St_Ready \<Rightarrow> Ok Gen_Ready
      | _ \<Rightarrow> Error Outbox_Unavailable)"

record generation_candidate =
  gc_batch_id :: int
  gc_key :: report_key
  gc_generated_at :: instant
  gc_status :: generation_status

definition GENERATION_SOURCE_SETTLE_DELAY :: duration where
  "GENERATION_SOURCE_SETTLE_DELAY = minutes 30"

definition GENERATION_RETRY_BASE_SECONDS :: int where
  "GENERATION_RETRY_BASE_SECONDS = 60"

definition MAX_GENERATION_CANDIDATES :: u16 where
  "MAX_GENERATION_CANDIDATES = 16"

definition start_generation ::
  "report_libraries \<Rightarrow> outbox_call \<Rightarrow> int \<Rightarrow> outbox_db \<Rightarrow> unit outbox_run" where
  "start_generation lib call batch_id =
     outbox_transaction call (\<lambda>db.
       and_then (update_one (update_batch lib (oc_clock call) batch_id
                   (\<lambda>b. ba_status b = St_Planned) (\<lambda>b. b\<lparr>ba_status := St_Generating\<rparr>) db)) (\<lambda>db.
       Ok ((), db)))"

text \<open>Rows of a batch in the order of the text of the report kind: \<open>evening\<close> comes first.\<close>

definition coverage_by_kind :: "int \<Rightarrow> outbox_db \<Rightarrow> delivery_coverage list" where
  "coverage_by_kind batch_id db =
     filter (\<lambda>c. co_report_kind c = Evening) (coverage_of batch_id db) @
     filter (\<lambda>c. co_report_kind c = Morning) (coverage_of batch_id db)"

definition load_generation_candidate ::
  "outbox_call \<Rightarrow> int \<Rightarrow> instant \<Rightarrow> outbox_db \<Rightarrow>
     (postgres_outbox_error, generation_candidate) result" where
  "load_generation_candidate call batch_id now db =
     ensure (0 < batch_id) Outbox_InvalidDelivery
    (outbox_query call (\<lambda>db.
       case batch_of batch_id db of
         None \<Rightarrow> Error Outbox_Conflict
       | Some b \<Rightarrow>
           ensure (ba_status b \<in> {St_Planned, St_Generating, St_Ready} \<and>
                   ba_scheduled_for b \<le> now - GENERATION_SOURCE_SETTLE_DELAY \<and>
                   list_ex (\<lambda>c. now \<le> co_deadline_at c) (coverage_of batch_id db)) Outbox_Conflict
          (case coverage_by_kind batch_id db of
             [c] \<Rightarrow>
               and_then (parse_generation_status (ba_status b)) (\<lambda>status.
               and_then (version_u32 (ba_report_version b)) (\<lambda>version.
               Ok \<lparr>gc_batch_id = batch_id,
                   gc_key = report_key_of (co_local_date c) (co_report_kind c) (ba_recipient_id b)
                     version,
                   gc_generated_at = (case ba_generation_started_at b of
                                        None \<Rightarrow> ba_created_at b | Some t \<Rightarrow> t),
                   gc_status = status\<rparr>))
           | _ \<Rightarrow> Error Outbox_Conflict)) db)"

text \<open>The view \<open>generatable_batches\<close>, with the conditions of the scan.\<close>

definition generatable :: "instant \<Rightarrow> outbox_db \<Rightarrow> delivery_batch \<Rightarrow> bool" where
  "generatable now db b \<longleftrightarrow>
     (ba_status b = St_Planned \<or> ba_status b = St_Generating) \<and>
     length (coverage_of (ba_id b) db) = 1 \<and>
     (let failed = filter (\<lambda>g. ga_batch_id g = ba_id b) (ob_generations db) in
      length failed < 5 \<and>
      ba_scheduled_for b \<le> now - GENERATION_SOURCE_SETTLE_DELAY \<and>
      (case column_max (map co_deadline_at (coverage_of (ba_id b) db)) of
         None \<Rightarrow> False | Some deadline \<Rightarrow> now \<le> deadline) \<and>
      (case column_max (map ga_retry_after failed) of
         None \<Rightarrow> True | Some retry_after \<Rightarrow> retry_after \<le> now))"

definition pending_generation_ids ::
  "outbox_call \<Rightarrow> instant \<Rightarrow> u16 \<Rightarrow> outbox_db \<Rightarrow> (postgres_outbox_error, int list) result" where
  "pending_generation_ids call now limit db =
     ensure (limit \<noteq> 0 \<and> limit \<le> MAX_GENERATION_CANDIDATES) Outbox_InvalidDelivery
    (outbox_query call (\<lambda>db.
       Ok (take (unat limit)
             (map snd (sort (map (\<lambda>b. (ba_scheduled_for b, ba_id b))
                               (filter (generatable now db) (ob_batches db))))))) db)"

definition record_generation_failure ::
  "outbox_call \<Rightarrow> int \<Rightarrow> instant \<Rightarrow> generation_error_class \<Rightarrow> outbox_db \<Rightarrow> unit outbox_run" where
  "record_generation_failure call batch_id now error_class =
     outbox_transaction call (\<lambda>db.
       let n = length (filter (\<lambda>g. ga_batch_id g = batch_id) (ob_generations db)) in
       and_then (ok_or (insert_generation
                   \<lparr>ga_batch_id = batch_id, ga_attempt_no = int n + 1, ga_failed_at = now,
                    ga_retry_after = now + seconds (GENERATION_RETRY_BASE_SECONDS * 2 ^ n),
                    ga_error_class = generation_error_str error_class\<rparr> db) Outbox_Unavailable) (\<lambda>db.
       Ok ((), db)))"

definition artifact_object_key :: "report_libraries \<Rightarrow> report_key \<Rightarrow> string" where
  "artifact_object_key lib key =
     object_key_text (pl_date_parts lib (rk_local_date key)) (rk_recipient_id key)
       (uint (rk_report_version key)) (rk_kind key)"

definition verify_generation_artifact ::
  "report_libraries \<Rightarrow> outbox_call \<Rightarrow> int \<Rightarrow> artifact_identity \<Rightarrow> outbox_db \<Rightarrow>
     (postgres_outbox_error, unit) result" where
  "verify_generation_artifact lib call batch_id artifact db =
     and_then (map_err Outbox_InvalidDelivery (validate_artifact (pl_parse_date lib) artifact)) (\<lambda>_.
     outbox_query call (\<lambda>db.
       case (batch_of batch_id db, coverage_by_kind batch_id db) of
         (Some b, first # rest) \<Rightarrow>
           ensure ((ba_status b = St_Generating \<or> ba_status b = St_Ready) \<and>
                   list_all (\<lambda>c. co_local_date c = co_local_date first) (first # rest)) Outbox_Conflict
          (and_then (version_u32 (ba_report_version b)) (\<lambda>version.
           ensure (ai_object_key artifact =
                   artifact_object_key lib
                     (report_key_of (co_local_date first)
                        (fold max (map co_report_kind rest) (co_report_kind first))
                        (ba_recipient_id b) version)) Outbox_Conflict
          (Ok ())))
       | _ \<Rightarrow> Error Outbox_Conflict) db)"

text \<open>
  \<open>mark_ready\<close> accepts that the batch is ready already, with the same artifact. Its update
  commits by itself.
\<close>

definition ready_with :: "artifact_identity \<Rightarrow> delivery_batch \<Rightarrow> bool" where
  "ready_with a b \<longleftrightarrow>
     ba_status b = St_Ready \<and> ba_object_key b = Some (ai_object_key a) \<and>
     ba_sha256 b = Some (ai_sha256 a) \<and> ba_html_sha256 b = Some (ai_html_sha256 a)"

definition mark_ready ::
  "report_libraries \<Rightarrow> outbox_call \<Rightarrow> int \<Rightarrow> artifact_identity \<Rightarrow> outbox_db \<Rightarrow> unit outbox_run" where
  "mark_ready lib call batch_id artifact =
     checked_then (map_err Outbox_InvalidDelivery (validate_artifact (pl_parse_date lib) artifact)) (\<lambda>_.
     outbox_transaction call (\<lambda>db.
       and_then (ok_or (update_batch lib (oc_clock call) batch_id
                   (\<lambda>b. ba_status b = St_Generating)
                   (\<lambda>b. b\<lparr>ba_status := St_Ready, ba_object_key := Some (ai_object_key artifact),
                          ba_sha256 := Some (ai_sha256 artifact),
                          ba_html_sha256 := Some (ai_html_sha256 artifact),
                          ba_next_attempt_at := None\<rparr>) db) Outbox_Unavailable) (\<lambda>(changed, db).
       if changed = 1 then Ok ((), db)
       else ensure (case batch_of batch_id db of None \<Rightarrow> False | Some b \<Rightarrow> ready_with artifact b)
              Outbox_Conflict
           (Ok ((), db)))))"


section \<open>Sending\<close>

record claimed_delivery =
  cl_batch_id :: int
  cl_recipient_id :: string
  cl_report_version :: u32
  cl_attempt_no :: u8
  cl_artifact :: artifact_identity
  cl_covered_keys :: "report_key list"
  cl_deadline_at :: instant

definition ready_batch :: "instant \<Rightarrow> outbox_db \<Rightarrow> delivery_batch \<Rightarrow> bool" where
  "ready_batch now db b \<longleftrightarrow>
     ba_status b = St_Ready \<and> ba_attempts b < uint MAX_DELIVERY_ATTEMPTS \<and>
     null_or (\<lambda>retry. retry \<le> now) (ba_next_attempt_at b) \<and>
     list_ex (\<lambda>c. now \<le> co_deadline_at c) (coverage_of (ba_id b) db)"

definition has_ready_delivery ::
  "outbox_call \<Rightarrow> instant \<Rightarrow> outbox_db \<Rightarrow> (postgres_outbox_error, bool) result" where
  "has_ready_delivery call now =
     outbox_query call (\<lambda>db. Ok (list_ex (ready_batch now db) (ob_batches db)))"

definition claimable :: "outbox_call \<Rightarrow> instant \<Rightarrow> outbox_db \<Rightarrow> delivery_batch option" where
  "claimable call now db =
     min_by_key (\<lambda>b. (ba_scheduled_for b, ba_id b))
       (filter (\<lambda>b. ready_batch now db b \<and> ba_id b \<notin> oc_locked call) (ob_batches db))"

definition claim_of ::
  "outbox_db \<Rightarrow> delivery_batch \<Rightarrow> (postgres_outbox_error, claimed_delivery) result" where
  "claim_of db b =
     and_then (version_u32 (ba_report_version b)) (\<lambda>version.
     and_then (ensure (0 \<le> ba_attempts b + 1 \<and> ba_attempts b + 1 < 2 ^ 8) Outbox_Unavailable
                 (Ok (word_of_int (ba_attempts b + 1)))) (\<lambda>attempt_no.
     and_then (or_panic (ba_object_key b)) (\<lambda>object_key.
     and_then (or_panic (ba_sha256 b)) (\<lambda>sha256.
     and_then (or_panic (ba_html_sha256 b)) (\<lambda>html_sha256.
     let coverage = coverage_by_kind (ba_id b) db in
     and_then (ok_or (column_max (map co_deadline_at coverage)) Outbox_Conflict) (\<lambda>deadline_at.
     Ok \<lparr>cl_batch_id = ba_id b, cl_recipient_id = ba_recipient_id b, cl_report_version = version,
         cl_attempt_no = attempt_no,
         cl_artifact = \<lparr>ai_object_key = object_key, ai_sha256 = sha256,
                        ai_html_sha256 = html_sha256\<rparr>,
         cl_covered_keys = map (\<lambda>c. report_key_of (co_local_date c) (co_report_kind c)
                                     (ba_recipient_id b) version) coverage,
         cl_deadline_at = deadline_at\<rparr>))))))"

definition claim_ready ::
  "report_libraries \<Rightarrow> outbox_call \<Rightarrow> instant \<Rightarrow> outbox_db \<Rightarrow> claimed_delivery option outbox_run" where
  "claim_ready lib call now =
     outbox_transaction call (\<lambda>db.
       case claimable call now db of
         None \<Rightarrow> Ok (None, db)
       | Some b \<Rightarrow>
           and_then (claim_of db b) (\<lambda>claim.
           and_then (update_one (update_batch lib (oc_clock call) (ba_id b)
                       (\<lambda>b. ba_status b = St_Ready)
                       (\<lambda>b. b\<lparr>ba_status := St_Sending, ba_attempts := ba_attempts b + 1,
                              ba_next_attempt_at := None\<rparr>) db)) (\<lambda>db.
           Ok (Some claim, db))))"

definition transient_error_text ::
  "delivery_error_class \<Rightarrow> (postgres_outbox_error, string) result" where
  "transient_error_text class =
     (case class of
        Class_RateLimited \<Rightarrow> Ok ''rate_limited''
      | Class_ProviderUnavailable \<Rightarrow> Ok ''provider_unavailable''
      | Class_Transport \<Rightarrow> Ok ''transport''
      | _ \<Rightarrow> Error Outbox_InvalidDelivery)"

definition permanent_error_text ::
  "delivery_error_class \<Rightarrow> (postgres_outbox_error, string) result" where
  "permanent_error_text class =
     (case class of
        Class_Authentication \<Rightarrow> Ok ''authentication''
      | Class_InvalidRecipient \<Rightarrow> Ok ''invalid_recipient''
      | Class_InvalidArtifact \<Rightarrow> Ok ''invalid_artifact''
      | Class_InvalidRouting \<Rightarrow> Ok ''invalid_routing''
      | Class_ProviderRejected \<Rightarrow> Ok ''provider_rejected''
      | _ \<Rightarrow> Error Outbox_InvalidDelivery)"

definition validate_attempt_times ::
  "instant \<Rightarrow> instant \<Rightarrow> (postgres_outbox_error, unit) result" where
  "validate_attempt_times started_at finished_at =
     ensure (started_at \<le> finished_at) Outbox_InvalidDelivery (Ok ())"

definition finish_attempt ::
  "report_libraries \<Rightarrow> outbox_call \<Rightarrow> claimed_delivery \<Rightarrow> instant \<Rightarrow> instant \<Rightarrow> attempt_outcome \<Rightarrow>
     string option \<Rightarrow> string option \<Rightarrow> instant option \<Rightarrow> outbox_db \<Rightarrow> unit outbox_run" where
  "finish_attempt lib call claim started_at finished_at outcome error_class provider_message_id
     retry_at =
     outbox_transaction call (\<lambda>db.
       and_then (ok_or (insert_attempt
                   \<lparr>da_batch_id = cl_batch_id claim, da_attempt_no = uint (cl_attempt_no claim),
                    da_started_at = started_at, da_finished_at = finished_at,
                    da_outcome = outcome, da_error_class = error_class,
                    da_provider_message_id = provider_message_id\<rparr> db) Outbox_Unavailable) (\<lambda>db.
       and_then (update_one (update_batch lib (oc_clock call) (cl_batch_id claim)
                   (\<lambda>b. ba_status b = St_Sending \<and> ba_attempts b = uint (cl_attempt_no claim))
                   (\<lambda>b. b\<lparr>ba_status := (case outcome of
                                          Attempt_Sent \<Rightarrow> St_Sent
                                        | Attempt_Transient \<Rightarrow> St_Ready
                                        | Attempt_Permanent \<Rightarrow> St_PermanentFailure),
                          ba_next_attempt_at := retry_at,
                          ba_provider_message_id := provider_message_id,
                          ba_last_error_class := error_class,
                          ba_sent_at := (if outcome = Attempt_Sent then Some finished_at else None)\<rparr>)
                   db)) (\<lambda>db.
       Ok ((), db))))"

definition record_sent ::
  "report_libraries \<Rightarrow> outbox_call \<Rightarrow> claimed_delivery \<Rightarrow> instant \<Rightarrow> instant \<Rightarrow> string \<Rightarrow> outbox_db \<Rightarrow>
     unit outbox_run" where
  "record_sent lib call claim started_at finished_at provider_message_id =
     checked_then (and_then (validate_attempt_times started_at finished_at) (\<lambda>_.
        map_err Outbox_InvalidDelivery (validate_provider_message_id provider_message_id))) (\<lambda>_.
     finish_attempt lib call claim started_at finished_at Attempt_Sent None
       (Some provider_message_id) None)"

definition record_transient_failure ::
  "report_libraries \<Rightarrow> outbox_call \<Rightarrow> claimed_delivery \<Rightarrow> instant \<Rightarrow> instant \<Rightarrow>
     delivery_error_class \<Rightarrow> instant \<Rightarrow> outbox_db \<Rightarrow> unit outbox_run" where
  "record_transient_failure lib call claim started_at finished_at class retry_at =
     checked_then (and_then (transient_error_text class) (\<lambda>class.
        and_then (validate_attempt_times started_at finished_at) (\<lambda>_. Ok class))) (\<lambda>class.
     if MAX_DELIVERY_ATTEMPTS \<le> cl_attempt_no claim
     then finish_attempt lib call claim started_at finished_at Attempt_Permanent (Some class) None None
     else if retry_at \<le> finished_at \<or> cl_deadline_at claim < retry_at
     then Pair (Error Outbox_InvalidDelivery)
     else finish_attempt lib call claim started_at finished_at Attempt_Transient (Some class) None
            (Some retry_at))"

definition record_permanent_failure ::
  "report_libraries \<Rightarrow> outbox_call \<Rightarrow> claimed_delivery \<Rightarrow> instant \<Rightarrow> instant \<Rightarrow>
     delivery_error_class \<Rightarrow> outbox_db \<Rightarrow> unit outbox_run" where
  "record_permanent_failure lib call claim started_at finished_at class =
     checked_then (and_then (validate_attempt_times started_at finished_at) (\<lambda>_.
        permanent_error_text class)) (\<lambda>class.
     finish_attempt lib call claim started_at finished_at Attempt_Permanent (Some class) None None)"

definition record_exhausted_failure ::
  "report_libraries \<Rightarrow> outbox_call \<Rightarrow> claimed_delivery \<Rightarrow> instant \<Rightarrow> instant \<Rightarrow>
     delivery_error_class \<Rightarrow> outbox_db \<Rightarrow> unit outbox_run" where
  "record_exhausted_failure lib call claim started_at finished_at class =
     checked_then (and_then (validate_attempt_times started_at finished_at) (\<lambda>_.
        transient_error_text class)) (\<lambda>class.
     finish_attempt lib call claim started_at finished_at Attempt_Permanent (Some class) None None)"


section \<open>Activation and reconciliation\<close>

definition MAIL_CANARY_MAX_AGE :: duration where
  "MAIL_CANARY_MAX_AGE = hours 24"

definition validate_mail_activation_state ::
  "nat \<Rightarrow> instant option \<Rightarrow> instant \<Rightarrow> (postgres_outbox_error, instant) result" where
  "validate_mail_activation_state ambiguous_count sent_at now =
     ensure (ambiguous_count = 0) AmbiguousDelivery
    (and_then (ok_or sent_at CanaryMissing) (\<lambda>sent_at.
     ensure (now - MAIL_CANARY_MAX_AGE \<le> sent_at \<and> sent_at \<le> now) CanaryMissing
    (Ok sent_at)))"

definition verify_mail_activation ::
  "outbox_call \<Rightarrow> string \<Rightarrow> u32 \<Rightarrow> instant \<Rightarrow> outbox_db \<Rightarrow> (postgres_outbox_error, instant) result" where
  "verify_mail_activation call recipient_id report_version now db =
     and_then (map_err Outbox_InvalidDelivery
                 (validate_report_identity recipient_id report_version)) (\<lambda>_.
     and_then (version_i32 report_version) (\<lambda>version.
     outbox_query call (\<lambda>db.
       let rows = filter (\<lambda>b. ba_recipient_id b = recipient_id \<and> ba_report_version b = version)
                    (ob_batches db) in
       validate_mail_activation_state
         (length (filter (\<lambda>b. ba_status b = St_Sending) rows))
         (column_max (filter_map ba_sent_at (filter (\<lambda>b. ba_status b = St_Sent) rows))) now) db))"

datatype reconciliation_decision = ConfirmedSent string | SuppressedUnknown
datatype reconciliation_outcome = Reconciliation_Applied | Reconciliation_Existing

text \<open>The decision as text, the message id, the final status, the error class, and whether the
  batch gets a time of sending.\<close>

fun decision_columns ::
  "reconciliation_decision \<Rightarrow>
     (postgres_outbox_error, string \<times> string option \<times> delivery_status \<times> string option) result" where
  "decision_columns (ConfirmedSent provider_message_id) =
     and_then (map_err Outbox_InvalidDelivery
                 (validate_provider_message_id provider_message_id)) (\<lambda>_.
     Ok (''confirmed_sent'', Some provider_message_id, St_Sent, None))"
| "decision_columns SuppressedUnknown =
     Ok (''suppressed_unknown'', None, St_PermanentFailure, Some ''operator_reconciled_unknown'')"

definition reconcile_in_transaction ::
  "report_libraries \<Rightarrow> outbox_call \<Rightarrow> int \<Rightarrow> int \<Rightarrow> string \<Rightarrow> int \<Rightarrow> instant \<Rightarrow>
     string \<times> string option \<times> delivery_status \<times> string option \<Rightarrow> outbox_db \<Rightarrow>
     (postgres_outbox_error, reconciliation_outcome \<times> outbox_db) result" where
  "reconcile_in_transaction lib call batch_id attempt_no recipient_id version reconciled_at columns db =
     (case columns of (decision_text, provider_message_id, terminal_status, error_class) \<Rightarrow>
      and_then (ok_or (List.find (\<lambda>b. ba_id b = batch_id \<and> ba_recipient_id b = recipient_id \<and>
                                   ba_report_version b = version) (ob_batches db))
                  Outbox_Conflict) (\<lambda>batch.
      case List.find (\<lambda>r. rc_batch_id r = batch_id \<and> rc_attempt_no r = attempt_no)
             (ob_reconciliations db) of
        Some existing \<Rightarrow>
          ensure (rc_decision existing = decision_text \<and>
                  rc_provider_message_id existing = provider_message_id \<and>
                  ba_status batch = terminal_status \<and>
                  ba_provider_message_id batch = provider_message_id \<and>
                  ba_last_error_class batch = error_class) Outbox_Conflict
         (Ok (Reconciliation_Existing, db))
      | None \<Rightarrow>
          ensure (ba_status batch = St_Sending \<and> ba_attempts batch = attempt_no) Outbox_Conflict
         (and_then (ok_or (insert_reconciliation (oc_clock call)
                      \<lparr>rc_batch_id = batch_id, rc_attempt_no = attempt_no,
                       rc_reconciled_at = reconciled_at, rc_decision = decision_text,
                       rc_provider_message_id = provider_message_id\<rparr> db)
                      Outbox_Unavailable) (\<lambda>db.
          and_then (update_one (update_batch lib (oc_clock call) batch_id
                      (\<lambda>b. ba_status b = St_Sending \<and> ba_attempts b = attempt_no)
                      (\<lambda>b. b\<lparr>ba_status := terminal_status, ba_next_attempt_at := None,
                             ba_provider_message_id := provider_message_id,
                             ba_last_error_class := error_class,
                             ba_sent_at := (if terminal_status = St_Sent then Some reconciled_at
                                            else None)\<rparr>) db)) (\<lambda>db.
          Ok (Reconciliation_Applied, db))))))"

definition reconcile_sending ::
  "report_libraries \<Rightarrow> outbox_call \<Rightarrow> int \<Rightarrow> u8 \<Rightarrow> string \<Rightarrow> u32 \<Rightarrow> instant \<Rightarrow>
     reconciliation_decision \<Rightarrow> outbox_db \<Rightarrow> reconciliation_outcome outbox_run" where
  "reconcile_sending lib call batch_id attempt_no recipient_id report_version reconciled_at decision =
     checked_then
       (and_then (map_err Outbox_InvalidDelivery
                    (validate_report_identity recipient_id report_version)) (\<lambda>_.
        ensure (0 < batch_id \<and> 1 \<le> attempt_no \<and> attempt_no \<le> MAX_DELIVERY_ATTEMPTS)
          Outbox_InvalidDelivery
       (and_then (version_i32 report_version) (\<lambda>version.
        and_then (decision_columns decision) (\<lambda>columns. Ok (version, columns))))))
       (\<lambda>(version, columns).
     outbox_transaction call
       (reconcile_in_transaction lib call batch_id (uint attempt_no) recipient_id version
          reconciled_at columns))"

end
