(* ===== verification/Report_Mail.thy ===== *)
theory Report_Mail
  imports Report_Store
begin

text \<open>
  What leaves the process: the message (\<open>src/src/reporting/mail.rs\<close>), the address book
  (\<open>mail_routing.rs\<close>), the access token (\<open>gmail_oauth.rs\<close>), the one request to Gmail
  (\<open>gmail.rs\<close>) and their composition (\<open>gmail_delivery.rs\<close>). The reply of a server is an
  argument of a call. The encoding of a message as a MIME text, the loading of files and the
  construction of the HTTP clients are not modelled; the JSON parsers are parameters.
\<close>


section \<open>Addresses and messages\<close>

datatype mail_build_error = InvalidAddress | InvalidScope | InvalidMailArtifact

definition is_ascii_whitespace :: "char \<Rightarrow> bool" where
  "is_ascii_whitespace b \<longleftrightarrow>
     byte b = 32 \<or> byte b = 9 \<or> byte b = 10 \<or> byte b = 12 \<or> byte b = 13"

definition MAX_ADDRESS_BYTES :: int where
  "MAX_ADDRESS_BYTES = 254"

definition MAX_HTML_BYTES :: int where
  "MAX_HTML_BYTES = 1024 * 1024"

definition MAX_XLSX_BYTES :: int where
  "MAX_XLSX_BYTES = 8 * 1024 * 1024"

fun contains_dots :: "string \<Rightarrow> bool" where
  "contains_dots (a # b # s) = (a = CHR ''.'' \<and> b = CHR ''.'' \<or> contains_dots (b # s))"
| "contains_dots _ = False"

definition local_part_char :: "char \<Rightarrow> bool" where
  "local_part_char b \<longleftrightarrow>
     is_ascii_alphanumeric b \<or> b \<in> set ''.!#$%&*+-/=?^_{|}~'' \<or> byte b = 39 \<or> byte b = 96"

definition local_part_valid :: "string \<Rightarrow> bool" where
  "local_part_valid v \<longleftrightarrow>
     v \<noteq> [] \<and> str_len v \<le> 64 \<and> hd v \<noteq> CHR ''.'' \<and> last v \<noteq> CHR ''.'' \<and> \<not> contains_dots v \<and>
     list_all local_part_char v"

definition domain_label_valid :: "string \<Rightarrow> bool" where
  "domain_label_valid v \<longleftrightarrow>
     v \<noteq> [] \<and> str_len v \<le> 63 \<and> hd v \<noteq> CHR ''-'' \<and> last v \<noteq> CHR ''-'' \<and>
     list_all (\<lambda>b. is_ascii_alphanumeric b \<or> b = CHR ''-'') v"

definition domain_valid :: "string \<Rightarrow> bool" where
  "domain_valid v \<longleftrightarrow>
     str_len v \<le> 253 \<and> CHR ''.'' \<in> set v \<and> list_all domain_label_valid (split_on (CHR ''.'') v)"

definition validate_address :: "string \<Rightarrow> (mail_build_error, unit) result" where
  "validate_address v =
     ensure (v \<noteq> [] \<and> str_len v \<le> MAX_ADDRESS_BYTES \<and> list_all (\<lambda>b. byte b < 128) v \<and>
             \<not> list_ex (\<lambda>b. is_ascii_control b \<or> is_ascii_whitespace b) v) InvalidAddress
    (case split_on (CHR ''@'') v of
       [local_part, domain] \<Rightarrow>
         ensure (local_part_valid local_part \<and> domain_valid domain) InvalidAddress (Ok ())
     | _ \<Rightarrow> Error InvalidAddress)"

record stored_report_bundle =
  rb_html :: string
  rb_xlsx :: string

record report_email =
  em_sender :: string
  em_recipient :: string
  em_subject :: string
  em_html :: string
  em_attachment_name :: string
  em_xlsx :: string

text \<open>The subject in UTF-8: the name of the report, the kind of the report, the date.\<close>

definition subject_prefix :: string where
  "subject_prefix =
     [CHR 0xD0, CHR 0x95, CHR 0xD0, CHR 0xB6, CHR 0xD0, CHR 0xB5, CHR 0xD0, CHR 0xB4,
      CHR 0xD0, CHR 0xBD, CHR 0xD0, CHR 0xB5, CHR 0xD0, CHR 0xB2, CHR 0xD0, CHR 0xBD,
      CHR 0xD1, CHR 0x8B, CHR 0xD0, CHR 0xB9, CHR 0x20, CHR 0xD0, CHR 0xBE, CHR 0xD1,
      CHR 0x82, CHR 0xD1, CHR 0x87, CHR 0xD1, CHR 0x91, CHR 0xD1, CHR 0x82, CHR 0x20,
      CHR 0x4F, CHR 0x7A, CHR 0x6F, CHR 0x6E, CHR 0x2F, CHR 0x57, CHR 0x42, CHR 0x20,
      CHR 0xE2, CHR 0x80, CHR 0x94, CHR 0x20]"

definition subject_dash :: string where
  "subject_dash = [CHR 0x20, CHR 0xE2, CHR 0x80, CHR 0x94, CHR 0x20]"

definition subject_kind :: "report_kind \<Rightarrow> string" where
  "subject_kind k =
     (case k of
        Morning \<Rightarrow>
         [CHR 0xD1, CHR 0x83, CHR 0xD1, CHR 0x82, CHR 0xD1, CHR 0x80, CHR 0xD0, CHR 0xB5,
      CHR 0xD0, CHR 0xBD, CHR 0xD0, CHR 0xBD, CHR 0xD0, CHR 0xB8, CHR 0xD0, CHR 0xB9]
      | Evening \<Rightarrow>
         [CHR 0xD0, CHR 0xB2, CHR 0xD0, CHR 0xB5, CHR 0xD1, CHR 0x87, CHR 0xD0, CHR 0xB5,
      CHR 0xD1, CHR 0x80, CHR 0xD0, CHR 0xBD, CHR 0xD0, CHR 0xB8, CHR 0xD0, CHR 0xB9])"

definition build_report_email ::
  "report_libraries \<Rightarrow> string \<Rightarrow> string \<Rightarrow> claimed_delivery \<Rightarrow> stored_report_bundle \<Rightarrow>
     (mail_build_error, report_email) result" where
  "build_report_email lib sender recipient claim bundle =
     and_then (validate_address sender) (\<lambda>_.
     and_then (validate_address recipient) (\<lambda>_.
     case cl_covered_keys claim of
       [key] \<Rightarrow>
         ensure (0 < cl_batch_id claim \<and> cl_attempt_no claim \<noteq> 0 \<and>
                 rk_recipient_id key = cl_recipient_id claim \<and>
                 rk_report_version key = cl_report_version claim) InvalidScope
        (ensure (trim_chars (str_chars (rb_html bundle)) \<noteq> [] \<and>
                 str_len (rb_html bundle) \<le> MAX_HTML_BYTES \<and> rb_xlsx bundle \<noteq> [] \<and>
                 str_len (rb_xlsx bundle) \<le> MAX_XLSX_BYTES) InvalidMailArtifact
        (Ok \<lparr>em_sender = sender, em_recipient = recipient,
             em_subject = subject_prefix @ subject_kind (rk_kind key) @ subject_dash @
               pl_date_text lib (rk_local_date key),
             em_html = rb_html bundle,
             em_attachment_name = ''ozonofk-daily-'' @ pl_date_text lib (rk_local_date key) @ ''-'' @
               kind_text (rk_kind key) @ ''.xlsx'',
             em_xlsx = rb_xlsx bundle\<rparr>))
     | _ \<Rightarrow> Error InvalidScope))"


section \<open>The address book\<close>

datatype mail_routing_error = InvalidRoutingFile | InvalidDocument | UnknownAudience

record route_entry =
  re_name :: string
  re_address :: string

record routing_document =
  rd_version :: u32
  rd_routes :: "route_entry list"

record mail_route =
  mr_sender :: string
  mr_recipient :: string

record mail_routing =
  mo_sender :: string
  mo_recipients :: "(string \<times> string) list"

definition ROUTING_VERSION :: u32 where
  "ROUTING_VERSION = 1"

definition MAX_ROUTING_BYTES :: int where
  "MAX_ROUTING_BYTES = 64 * 1024"

definition MAX_ROUTES :: nat where
  "MAX_ROUTES = 65"

fun routes_by_name ::
  "route_entry list \<Rightarrow> (string \<times> string) list \<Rightarrow> (mail_routing_error, (string \<times> string) list) result" where
  "routes_by_name [] by_name = Ok by_name"
| "routes_by_name (r # rs) by_name =
     ensure (validate_address (re_address r) = Ok () \<and> btree_get by_name (re_name r) = None)
       InvalidDocument
    (routes_by_name rs (btree_insert (re_name r) (re_address r) by_name))"

fun take_recipients ::
  "audience_policy list \<Rightarrow> (string \<times> string) list \<Rightarrow> (string \<times> string) list \<Rightarrow>
     (mail_routing_error, (string \<times> string) list) result" where
  "take_recipients [] by_name recipients = Ok recipients"
| "take_recipients (a # as) by_name recipients =
     and_then (ok_or (btree_get by_name (ap_email_env a)) InvalidDocument) (\<lambda>address.
     take_recipients as (btree_remove (ap_email_env a) by_name)
       (btree_insert (ap_id a) address recipients))"

definition routing_from_document ::
  "routing_document \<Rightarrow> daily_report_policy \<Rightarrow> (mail_routing_error, mail_routing) result" where
  "routing_from_document document policy =
     ensure (rd_version document = ROUTING_VERSION \<and> rd_routes document \<noteq> [] \<and>
             length (rd_routes document) \<le> MAX_ROUTES) InvalidDocument
    (and_then (routes_by_name (rd_routes document) []) (\<lambda>by_name.
     ensure (set (btree_keys by_name) =
             insert (rp_sender_email_env policy) (ap_email_env ` set (rp_audiences policy)))
       InvalidDocument
    (and_then (ok_or (btree_get by_name (rp_sender_email_env policy)) InvalidDocument) (\<lambda>sender.
     and_then (take_recipients (rp_audiences policy)
                 (btree_remove (rp_sender_email_env policy) by_name) []) (\<lambda>recipients.
     Ok \<lparr>mo_sender = sender, mo_recipients = recipients\<rparr>)))))"

definition routing_from_slice ::
  "(string \<Rightarrow> routing_document option) \<Rightarrow> string \<Rightarrow> daily_report_policy \<Rightarrow>
     (mail_routing_error, mail_routing) result" where
  "routing_from_slice parse bytes policy =
     ensure (bytes \<noteq> [] \<and> str_len bytes \<le> MAX_ROUTING_BYTES) InvalidDocument
    (and_then (ok_or (parse bytes) InvalidDocument) (\<lambda>document.
     routing_from_document document policy))"

definition resolve_route ::
  "mail_routing \<Rightarrow> string \<Rightarrow> (mail_routing_error, mail_route) result" where
  "resolve_route routing audience_id =
     and_then (ok_or (btree_get (mo_recipients routing) audience_id) UnknownAudience) (\<lambda>recipient.
     Ok \<lparr>mr_sender = mo_sender routing, mr_recipient = recipient\<rparr>)"


section \<open>The access token\<close>

datatype gmail_oauth_error = OAuth_Rejected | OAuth_RateLimited | OAuth_Unavailable | OAuth_InvalidResponse

definition GMAIL_SEND_SCOPE :: string where
  "GMAIL_SEND_SCOPE = ''https://www.googleapis.com/auth/gmail.send''"

definition MAX_TOKEN_RESPONSE_BYTES :: int where
  "MAX_TOKEN_RESPONSE_BYTES = 8 * 1024"

definition MIN_ACCESS_TOKEN_SECONDS :: u64 where
  "MIN_ACCESS_TOKEN_SECONDS = 60"

definition MAX_ACCESS_TOKEN_SECONDS :: u64 where
  "MAX_ACCESS_TOKEN_SECONDS = 2 * 60 * 60"

definition GMAIL_MAX_ACCESS_TOKEN_BYTES :: int where
  "GMAIL_MAX_ACCESS_TOKEN_BYTES = 4 * 1024"

definition access_token_is_valid :: "string \<Rightarrow> bool" where
  "access_token_is_valid t \<longleftrightarrow>
     t \<noteq> [] \<and> str_len t \<le> GMAIL_MAX_ACCESS_TOKEN_BYTES \<and>
     \<not> list_ex (\<lambda>b. is_ascii_control b \<or> is_ascii_whitespace b) t"

text \<open>\<open>split_ascii_whitespace\<close>.\<close>

fun ascii_words :: "string \<Rightarrow> string \<Rightarrow> string list" where
  "ascii_words word [] = (if word = [] then [] else [word])"
| "ascii_words word (b # s) =
     (if is_ascii_whitespace b then (if word = [] then [] else [word]) @ ascii_words [] s
      else ascii_words (word @ [b]) s)"

definition parse_token_response ::
  "report_libraries \<Rightarrow> http_response \<Rightarrow> (gmail_oauth_error, string) result" where
  "parse_token_response lib response =
     and_then (map_err OAuth_InvalidResponse (read_bounded_body response MAX_TOKEN_RESPONSE_BYTES))
       (\<lambda>body.
     and_then (ok_or (pl_from_slice lib body) OAuth_InvalidResponse) (\<lambda>v.
     and_then (ok_or (Option.bind (Option.bind (json_get v ''access_token'') json_as_str)
                        (\<lambda>t. if access_token_is_valid t then Some t else None)) OAuth_InvalidResponse)
       (\<lambda>access_token.
     and_then (ok_or (Option.bind (json_get v ''token_type'') json_as_str) OAuth_InvalidResponse)
       (\<lambda>token_type.
     and_then (ok_or (Option.bind (json_get v ''expires_in'') json_as_u64) OAuth_InvalidResponse)
       (\<lambda>expires_in.
     ensure (MIN_ACCESS_TOKEN_SECONDS \<le> expires_in \<and> expires_in \<le> MAX_ACCESS_TOKEN_SECONDS \<and>
             token_type = ''Bearer'' \<and>
             (case json_get v ''scope'' of
                None \<Rightarrow> True
              | Some (JString scope) \<Rightarrow> ascii_words [] scope = [GMAIL_SEND_SCOPE]
              | Some _ \<Rightarrow> False)) OAuth_InvalidResponse
    (Ok access_token))))))"

definition oauth_refresh ::
  "report_libraries \<Rightarrow> http_reply \<Rightarrow> (gmail_oauth_error, string) result" where
  "oauth_refresh lib reply =
     (case reply of
        Responded response \<Rightarrow>
          (let status = hr_status response in
           if status = 200 then parse_token_response lib response
           else if status = 400 \<or> status = 401 \<or> status = 403 then Error OAuth_Rejected
           else if status = 429 then Error OAuth_RateLimited
           else Error OAuth_Unavailable)
      | _ \<Rightarrow> Error OAuth_Unavailable)"


section \<open>The request to Gmail\<close>

datatype gmail_send_error =
    Send_InvalidCredential
  | Send_Authentication
  | Send_RateLimited
  | Send_Rejected
  | Send_Ambiguous

definition MAX_GMAIL_RESPONSE_BYTES :: int where
  "MAX_GMAIL_RESPONSE_BYTES = 4 * 1024"

definition bearer_authorization :: "string \<Rightarrow> (gmail_send_error, string) result" where
  "bearer_authorization access_token =
     ensure (access_token_is_valid access_token \<and> header_value_ok (''Bearer '' @ access_token))
       Send_InvalidCredential
    (Ok (''Bearer '' @ access_token))"

definition valid_message_id :: "string \<Rightarrow> bool" where
  "valid_message_id v \<longleftrightarrow>
     v \<noteq> [] \<and> str_len v \<le> 256 \<and>
     list_all (\<lambda>b. is_ascii_alphanumeric b \<or> b = CHR ''-'' \<or> b = CHR ''_'' \<or> b = CHR ''.'') v"

definition parse_success_response ::
  "report_libraries \<Rightarrow> http_response \<Rightarrow> (gmail_send_error, string) result" where
  "parse_success_response lib response =
     and_then (map_err Send_Ambiguous (read_bounded_body response MAX_GMAIL_RESPONSE_BYTES)) (\<lambda>body.
     and_then (ok_or (pl_from_slice lib body) Send_Ambiguous) (\<lambda>v.
     ok_or (Option.bind (Option.bind (json_get v ''id'') json_as_str)
              (\<lambda>i. if valid_message_id i then Some i else None)) Send_Ambiguous))"

definition is_client_error :: "u16 \<Rightarrow> bool" where
  "is_client_error s \<longleftrightarrow> 400 \<le> s \<and> s < 500"

definition classify_reply ::
  "report_libraries \<Rightarrow> http_reply \<Rightarrow> (gmail_send_error, string) result" where
  "classify_reply lib reply =
     (case reply of
        Responded response \<Rightarrow>
          (let status = hr_status response in
           if status = 200 then parse_success_response lib response
           else if status = 401 \<or> status = 403 then Error Send_Authentication
           else if status = 429 then Error Send_RateLimited
           else if is_client_error status then Error Send_Rejected
           else Error Send_Ambiguous)
      | _ \<Rightarrow> Error Send_Ambiguous)"

text \<open>The result of a send, and whether the request left.\<close>

definition gmail_send ::
  "report_libraries \<Rightarrow> http_reply \<Rightarrow> string \<Rightarrow> bool \<times> (gmail_send_error, string) result" where
  "gmail_send lib reply access_token =
     (case bearer_authorization access_token of
        Inl e \<Rightarrow> (False, Inl e)
      | Inr _ \<Rightarrow> (True, classify_reply lib reply))"


section \<open>One delivery\<close>

datatype gmail_delivery_error =
    Del_Routing
  | Del_Message
  | Del_Authentication
  | Del_OAuthRateLimited
  | Del_OAuthUnavailable
  | Del_OAuthInvalidResponse
  | Del_ProviderRateLimited
  | Del_ProviderRejected
  | Del_Ambiguous

definition map_oauth_error :: "gmail_oauth_error \<Rightarrow> gmail_delivery_error" where
  "map_oauth_error e =
     (case e of
        OAuth_Rejected \<Rightarrow> Del_Authentication
      | OAuth_RateLimited \<Rightarrow> Del_OAuthRateLimited
      | OAuth_Unavailable \<Rightarrow> Del_OAuthUnavailable
      | OAuth_InvalidResponse \<Rightarrow> Del_OAuthInvalidResponse)"

definition map_send_error :: "gmail_send_error \<Rightarrow> gmail_delivery_error" where
  "map_send_error e =
     (case e of
        Send_InvalidCredential \<Rightarrow> Del_Authentication
      | Send_Authentication \<Rightarrow> Del_Authentication
      | Send_RateLimited \<Rightarrow> Del_ProviderRateLimited
      | Send_Rejected \<Rightarrow> Del_ProviderRejected
      | Send_Ambiguous \<Rightarrow> Del_Ambiguous)"

definition authorize :: "report_libraries \<Rightarrow> http_reply \<Rightarrow> (gmail_delivery_error, string) result" where
  "authorize lib reply = wrap_err map_oauth_error (oauth_refresh lib reply)"

text \<open>The message that left, if one did, and the result.\<close>

definition send_report ::
  "report_libraries \<Rightarrow> mail_routing \<Rightarrow> claimed_delivery \<Rightarrow> stored_report_bundle \<Rightarrow> string \<Rightarrow>
     http_reply \<Rightarrow> report_email option \<times> (gmail_delivery_error, string) result" where
  "send_report lib routing claim bundle token reply =
     (case and_then (map_err Del_Routing (resolve_route routing (cl_recipient_id claim))) (\<lambda>route.
           map_err Del_Message
             (build_report_email lib (mr_sender route) (mr_recipient route) claim bundle)) of
        Inl e \<Rightarrow> (None, Inl e)
      | Inr email \<Rightarrow>
          (let (departed, r) = gmail_send lib reply token
           in (if departed then Some email else None, wrap_err map_send_error r)))"

end
