(* ===== verification/Report_Worker.thy ===== *)
theory Report_Worker
  imports Report_Mail
begin

text \<open>
  The delivery worker of \<open>src/src/reporting/gmail_outbox.rs\<close>: one attempt probes the outbox,
  refreshes the access token, claims a batch, loads its artifact, sends one message and
  records the outcome. The worker may be dropped at any of its awaits, by the timeout of a
  pass or by the end of the process; a request or a transaction that is under way then may
  still take effect. Every message that leaves is recorded with the claim and the database at
  that moment.
\<close>


section \<open>The world of a worker\<close>

record report_departure =
  rd_claim :: claimed_delivery
  rd_email :: report_email
  rd_reply :: http_reply
  rd_db :: outbox_db

record mail_world =
  mw_db :: outbox_db
  mw_departed :: "report_departure list"

datatype await = At_Probe | At_Authorize | At_Claim | At_Load | At_Send | At_Finish

record delivery_env =
  dv_started_at :: instant
  dv_probe :: outbox_call
  dv_token_reply :: http_reply
  dv_claim :: outbox_call
  dv_bundle :: "stored_report_bundle option"
  dv_reply :: http_reply
  dv_finished_at :: instant
  dv_finish :: outbox_call
  dv_dropped :: "await option"

datatype delivery_tick_outcome =
    Tick_Idle
  | Tick_Sent int u8
  | Tick_RetryScheduled int u8
  | Tick_RetryExhausted int u8
  | Tick_PermanentFailure int u8
  | Tick_Ambiguous int u8

datatype gmail_outbox_error = ClaimUnavailable | CompletionUncertain | AttemptTimedOut

record delivery_pass_outcome =
  po_attempts :: u8
  po_queue_drained :: bool

definition RETRY_BASE_SECONDS :: int where
  "RETRY_BASE_SECONDS = 60"

definition RETRY_MAX_SECONDS :: int where
  "RETRY_MAX_SECONDS = 15 * 60"

definition MAX_DELIVERIES_PER_PASS :: nat where
  "MAX_DELIVERIES_PER_PASS = 16"

definition retry_delay :: "u8 \<Rightarrow> duration" where
  "retry_delay attempt_no =
     (let exponent = min (unat (saturating_sub attempt_no 1)) 4
      in seconds (min (RETRY_BASE_SECONDS * 2 ^ exponent) RETRY_MAX_SECONDS))"

definition permanent_class :: "gmail_delivery_error \<Rightarrow> delivery_error_class option" where
  "permanent_class e =
     (case e of
        Del_Routing \<Rightarrow> Some Class_InvalidRouting
      | Del_Message \<Rightarrow> Some Class_InvalidArtifact
      | Del_Authentication \<Rightarrow> Some Class_Authentication
      | Del_ProviderRejected \<Rightarrow> Some Class_ProviderRejected
      | _ \<Rightarrow> None)"

definition transient_class :: "gmail_delivery_error \<Rightarrow> delivery_error_class option" where
  "transient_class e =
     (case e of
        Del_OAuthRateLimited \<Rightarrow> Some Class_RateLimited
      | Del_ProviderRateLimited \<Rightarrow> Some Class_RateLimited
      | Del_OAuthUnavailable \<Rightarrow> Some Class_ProviderUnavailable
      | Del_OAuthInvalidResponse \<Rightarrow> Some Class_ProviderUnavailable
      | _ \<Rightarrow> None)"


section \<open>The end of an attempt\<close>

text \<open>
  The call of the outbox that an attempt makes at its end, and what the worker reports when the
  call succeeds; \<open>None\<close> makes no call.
\<close>

datatype completion =
    Record_Sent string
  | Record_Transient delivery_error_class instant
  | Record_Exhausted delivery_error_class
  | Record_Permanent delivery_error_class

definition run_completion ::
  "report_libraries \<Rightarrow> outbox_call \<Rightarrow> claimed_delivery \<Rightarrow> instant \<Rightarrow> instant \<Rightarrow> completion \<Rightarrow>
     outbox_db \<Rightarrow> unit outbox_run" where
  "run_completion lib call claim started_at finished_at c =
     (case c of
        Record_Sent provider_message_id \<Rightarrow>
          record_sent lib call claim started_at finished_at provider_message_id
      | Record_Transient class retry_at \<Rightarrow>
          record_transient_failure lib call claim started_at finished_at class retry_at
      | Record_Exhausted class \<Rightarrow>
          record_exhausted_failure lib call claim started_at finished_at class
      | Record_Permanent class \<Rightarrow>
          record_permanent_failure lib call claim started_at finished_at class)"

definition completion_outcome :: "claimed_delivery \<Rightarrow> completion \<Rightarrow> delivery_tick_outcome" where
  "completion_outcome claim c =
     (case c of
        Record_Sent _ \<Rightarrow> Tick_Sent (cl_batch_id claim) (cl_attempt_no claim)
      | Record_Transient _ _ \<Rightarrow> Tick_RetryScheduled (cl_batch_id claim) (cl_attempt_no claim)
      | Record_Exhausted _ \<Rightarrow> Tick_RetryExhausted (cl_batch_id claim) (cl_attempt_no claim)
      | Record_Permanent _ \<Rightarrow> Tick_PermanentFailure (cl_batch_id claim) (cl_attempt_no claim))"

text \<open>\<open>record_known_failure\<close>: which call it makes.\<close>

definition known_failure ::
  "claimed_delivery \<Rightarrow> instant \<Rightarrow> gmail_delivery_error \<Rightarrow> (gmail_outbox_error, completion) result" where
  "known_failure claim finished_at e =
     (case permanent_class e of
        Some class \<Rightarrow> Ok (Record_Permanent class)
      | None \<Rightarrow>
          and_then (ok_or (transient_class e) CompletionUncertain) (\<lambda>class.
          let retry_at = finished_at + retry_delay (cl_attempt_no claim)
          in if retry_at \<le> cl_deadline_at claim then Ok (Record_Transient class retry_at)
             else Ok (Record_Exhausted class)))"

definition completion_of ::
  "claimed_delivery \<Rightarrow> instant \<Rightarrow> (gmail_delivery_error, string) result \<Rightarrow>
     (gmail_outbox_error, completion option) result" where
  "completion_of claim finished_at r =
     (case r of
        Inr provider_message_id \<Rightarrow> Ok (Some (Record_Sent provider_message_id))
      | Inl (Err Del_Ambiguous) \<Rightarrow> Ok None
      | Inl (Err e) \<Rightarrow> and_then (known_failure claim finished_at e) (\<lambda>c. Ok (Some c))
      | Inl Panic \<Rightarrow> Panics)"

definition finish_with ::
  "report_libraries \<Rightarrow> delivery_env \<Rightarrow> claimed_delivery \<Rightarrow> completion \<Rightarrow> mail_world \<Rightarrow>
     (gmail_outbox_error, delivery_tick_outcome) result option \<times> mail_world" where
  "finish_with lib env claim c w =
     (let (r, db) = run_completion lib (dv_finish env) claim (dv_started_at env)
                      (dv_finished_at env) c (mw_db w)
      in (if dv_dropped env = Some At_Finish then None
          else Some (and_then (map_err CompletionUncertain r) (\<lambda>_. Ok (completion_outcome claim c))),
          w\<lparr>mw_db := db\<rparr>))"


section \<open>One attempt\<close>

text \<open>After the claim: the artifact, the message, the record of the outcome.\<close>

definition deliver_claimed ::
  "report_libraries \<Rightarrow> mail_routing \<Rightarrow> delivery_env \<Rightarrow> (gmail_delivery_error, string) result \<Rightarrow>
     claimed_delivery \<Rightarrow> mail_world \<Rightarrow>
     (gmail_outbox_error, delivery_tick_outcome) result option \<times> mail_world" where
  "deliver_claimed lib routing env authorization claim w =
     (if dv_dropped env = Some At_Load then (None, w)
      else case dv_bundle env of
        None \<Rightarrow> finish_with lib env claim (Record_Permanent Class_InvalidArtifact) w
      | Some bundle \<Rightarrow>
          (let (departed, r) =
             (case authorization of
                Inl e \<Rightarrow> (None, Inl e)
              | Inr token \<Rightarrow> send_report lib routing claim bundle token (dv_reply env));
               w = (case departed of
                      None \<Rightarrow> w
                    | Some email \<Rightarrow>
                        w\<lparr>mw_departed := \<lparr>rd_claim = claim, rd_email = email,
                             rd_reply = dv_reply env, rd_db = mw_db w\<rparr> # mw_departed w\<rparr>)
           in if dv_dropped env = Some At_Send then (None, w)
              else case completion_of claim (dv_finished_at env) r of
                Inl e \<Rightarrow> (Some (Inl e), w)
              | Inr None \<Rightarrow> (Some (Ok (Tick_Ambiguous (cl_batch_id claim) (cl_attempt_no claim))), w)
              | Inr (Some c) \<Rightarrow> finish_with lib env claim c w))"

text \<open>An attempt that was dropped has no result.\<close>

definition deliver_one ::
  "report_libraries \<Rightarrow> mail_routing \<Rightarrow> delivery_env \<Rightarrow> mail_world \<Rightarrow>
     (gmail_outbox_error, delivery_tick_outcome) result option \<times> mail_world" where
  "deliver_one lib routing env w =
     (if dv_dropped env = Some At_Probe then (None, w)
      else case map_err ClaimUnavailable
                  (has_ready_delivery (dv_probe env) (dv_started_at env) (mw_db w)) of
        Inl e \<Rightarrow> (Some (Inl e), w)
      | Inr ready \<Rightarrow>
          if \<not> ready then (Some (Ok Tick_Idle), w)
          else if dv_dropped env = Some At_Authorize then (None, w)
          else let authorization = authorize lib (dv_token_reply env);
                   (r, db) = claim_ready lib (dv_claim env) (dv_started_at env) (mw_db w);
                   w = w\<lparr>mw_db := db\<rparr>
               in if dv_dropped env = Some At_Claim then (None, w)
                  else case map_err ClaimUnavailable r of
                    Inl e \<Rightarrow> (Some (Inl e), w)
                  | Inr None \<Rightarrow> (Some (Ok Tick_Idle), w)
                  | Inr (Some claim) \<Rightarrow> deliver_claimed lib routing env authorization claim w)"


section \<open>A pass\<close>

text \<open>
  The environment of a pass: before each attempt, whether the shutdown was requested, and the
  environment of the attempt. The loop runs at most \<open>MAX_DELIVERIES_PER_PASS\<close> times;
  \<open>remaining\<close> counts down to the cap.
\<close>

fun deliver_loop ::
  "report_libraries \<Rightarrow> mail_routing \<Rightarrow> (nat \<Rightarrow> bool \<times> delivery_env) \<Rightarrow> nat \<Rightarrow> u8 \<Rightarrow> mail_world \<Rightarrow>
     (gmail_outbox_error, delivery_pass_outcome) result \<times> mail_world" where
  "deliver_loop lib routing envs 0 attempts w =
     (Ok \<lparr>po_attempts = attempts, po_queue_drained = False\<rparr>, w)"
| "deliver_loop lib routing envs (Suc remaining) attempts w =
     (let (stop, env) = envs (unat attempts) in
      if stop then (Ok \<lparr>po_attempts = attempts, po_queue_drained = False\<rparr>, w)
      else case deliver_one lib routing env w of
        (None, w) \<Rightarrow> (Error AttemptTimedOut, w)
      | (Some (Inl e), w) \<Rightarrow> (Inl e, w)
      | (Some (Inr outcome), w) \<Rightarrow>
          if outcome = Tick_Idle then (Ok \<lparr>po_attempts = attempts, po_queue_drained = True\<rparr>, w)
          else deliver_loop lib routing envs remaining (attempts + 1) w)"

definition deliver_ready ::
  "report_libraries \<Rightarrow> mail_routing \<Rightarrow> (nat \<Rightarrow> bool \<times> delivery_env) \<Rightarrow> mail_world \<Rightarrow>
     (gmail_outbox_error, delivery_pass_outcome) result \<times> mail_world" where
  "deliver_ready lib routing envs = deliver_loop lib routing envs MAX_DELIVERIES_PER_PASS 0"

end
