(* ===== verification/Report_Facts.thy ===== *)
theory Report_Facts
  imports Report_Worker Decimal_Text
begin

text \<open>
  The outbox tables read as delivery records: \<open>records_of\<close> maps every batch to a value of
  \<open>outbox.rs\<close>. The invariant of the tables, and for each kind of statement what it does to the
  records.
\<close>


section \<open>The records of a database\<close>

definition class_of_text :: "string \<Rightarrow> delivery_error_class option" where
  "class_of_text t =
     map_of [(''authentication'', Class_Authentication),
             (''invalid_recipient'', Class_InvalidRecipient),
             (''invalid_artifact'', Class_InvalidArtifact),
             (''invalid_routing'', Class_InvalidRouting),
             (''provider_rejected'', Class_ProviderRejected),
             (''rate_limited'', Class_RateLimited),
             (''provider_unavailable'', Class_ProviderUnavailable),
             (''transport'', Class_Transport)] t"

definition key_of_row :: "delivery_coverage \<Rightarrow> report_key" where
  "key_of_row c =
     report_key_of (co_local_date c) (co_report_kind c) (co_recipient_id c)
       (word_of_int (co_report_version c))"

definition artifact_of_batch :: "delivery_batch \<Rightarrow> artifact_identity option" where
  "artifact_of_batch b =
     (case (ba_object_key b, ba_sha256 b, ba_html_sha256 b) of
        (Some k, Some s, Some h) \<Rightarrow> Some \<lparr>ai_object_key = k, ai_sha256 = s, ai_html_sha256 = h\<rparr>
      | _ \<Rightarrow> None)"

definition record_of :: "delivery_coverage list \<Rightarrow> delivery_batch \<Rightarrow> delivery_record" where
  "record_of cs b = \<lparr>
     dr_covered_keys = map key_of_row cs, dr_scheduled_for = ba_scheduled_for b,
     dr_status = ba_status b, dr_delayed = ba_delayed b,
     dr_attempts = word_of_int (ba_attempts b), dr_artifact = artifact_of_batch b,
     dr_next_attempt_at = ba_next_attempt_at b,
     dr_provider_message_id = ba_provider_message_id b,
     dr_last_error = Option.bind (ba_last_error_class b) class_of_text\<rparr>"

definition records_of :: "outbox_db \<Rightarrow> int \<rightharpoonup> delivery_record" where
  "records_of db i = map_option (record_of (coverage_of i db)) (batch_of i db)"


section \<open>The invariant of the tables\<close>

definition coverage_inv :: "delivery_batch \<Rightarrow> delivery_coverage list \<Rightarrow> bool" where
  "coverage_inv b cs \<longleftrightarrow>
     cs \<noteq> [] \<and> length cs \<le> 2 \<and>
     (\<forall>c \<in> set cs. co_recipient_id c = ba_recipient_id b \<and>
        co_report_version c = ba_report_version b \<and> co_scheduled_for c = ba_scheduled_for b \<and>
        co_deadline_at c = ba_scheduled_for b + hours 6)"

definition batch_inv :: "outbox_db \<Rightarrow> delivery_batch \<Rightarrow> bool" where
  "batch_inv db b \<longleftrightarrow>
     0 < ba_id b \<and> ba_id b \<le> ob_sequence db \<and> batch_check b \<and> ba_report_version b < 2 ^ 31 \<and>
     ba_status b \<noteq> St_Expired \<and> coverage_inv b (coverage_of (ba_id b) db) \<and>
     (ba_status b \<in> {St_Ready, St_Sending, St_Sent} \<longrightarrow> artifact_of_batch b \<noteq> None)"

definition outbox_inv :: "outbox_db \<Rightarrow> bool" where
  "outbox_inv db \<longleftrightarrow>
     0 \<le> ob_sequence db \<and> distinct (map ba_id (ob_batches db)) \<and>
     (\<forall>b \<in> set (ob_batches db). batch_inv db b) \<and>
     (\<forall>c \<in> set (ob_coverage db). co_batch_id c \<in> ba_id ` set (ob_batches db)) \<and>
     distinct (map occurrence_of (ob_coverage db))"

lemma batch_of_Some: "batch_of i db = Some b \<Longrightarrow> b \<in> set (ob_batches db) \<and> ba_id b = i"
  by (auto simp: batch_of_def find_Some_iff)

lemma batch_of_member:
  assumes "distinct (map ba_id (ob_batches db))"
  shows "batch_of i db = Some b \<longleftrightarrow> b \<in> set (ob_batches db) \<and> ba_id b = i"
proof
  assume b: "b \<in> set (ob_batches db) \<and> ba_id b = i"
  then obtain b' where b': "batch_of i db = Some b'"
    by (cases "batch_of i db") (auto simp: batch_of_def find_None_iff)
  with batch_of_Some [OF b'] b assms have "b' = b"
    by (auto simp: distinct_map dest: inj_onD)
  with b' show "batch_of i db = Some b" by simp
qed (rule batch_of_Some)

lemma outbox_inv_batch:
  "outbox_inv db \<Longrightarrow> batch_of i db = Some b \<Longrightarrow> batch_inv db b \<and> ba_id b = i"
  by (auto simp: outbox_inv_def dest: batch_of_Some)

lemma records_of_Some:
  "records_of db i = Some r \<longleftrightarrow> (\<exists>b. batch_of i db = Some b \<and> r = record_of (coverage_of i db) b)"
  by (auto simp: records_of_def)

text \<open>Tables whose batches and coverage agree have the same records.\<close>

definition same_core :: "outbox_db \<Rightarrow> outbox_db \<Rightarrow> bool" where
  "same_core db db' \<longleftrightarrow>
     ob_batches db' = ob_batches db \<and> ob_coverage db' = ob_coverage db \<and>
     ob_sequence db' = ob_sequence db"

lemma same_core_refl [simp]: "same_core db db"
  by (simp add: same_core_def)

lemma same_core_reads:
  assumes "same_core db db'"
  shows "batch_of i db' = batch_of i db" "coverage_of i db' = coverage_of i db"
    "records_of db' = records_of db" "outbox_inv db' = outbox_inv db"
proof -
  show reads: "batch_of i db' = batch_of i db" "coverage_of i db' = coverage_of i db" for i
    using assms by (simp_all add: same_core_def batch_of_def coverage_of_def)
  show "records_of db' = records_of db"
    by (simp add: records_of_def fun_eq_iff reads)
  show "outbox_inv db' = outbox_inv db"
    using assms by (simp add: outbox_inv_def batch_inv_def reads) (simp add: same_core_def)
qed


section \<open>An update of a batch\<close>

text \<open>
  The effect of an update: one batch is replaced by one that passed the trigger and the checks.
\<close>

definition moved :: "outbox_db \<Rightarrow> outbox_db \<Rightarrow> delivery_batch \<Rightarrow> delivery_batch \<Rightarrow> bool" where
  "moved db db' old new \<longleftrightarrow>
     batch_of (ba_id old) db = Some old \<and>
     ob_batches db' = map (\<lambda>b. if ba_id b = ba_id old then new else b) (ob_batches db) \<and>
     ob_coverage db' = ob_coverage db \<and> ob_sequence db' = ob_sequence db \<and>
     enforce_batch_state (coverage_of (ba_id old) db) old new \<and> batch_check new"

definition stamped :: "instant \<Rightarrow> delivery_batch \<Rightarrow> delivery_batch \<Rightarrow> delivery_batch" where
  "stamped clock old new =
     new\<lparr>ba_updated_at := max clock (ba_updated_at old + microsecond),
         ba_generation_started_at :=
           (if ba_status old = St_Planned \<and> ba_status new = St_Generating then Some clock
            else ba_generation_started_at new)\<rparr>"

lemma enforce_generation_clock_stamped:
  "enforce_generation_clock clock old
     (new\<lparr>ba_updated_at := max clock (ba_updated_at old + microsecond)\<rparr>) = Some new' \<Longrightarrow>
   new' = stamped clock old new"
  unfolding enforce_generation_clock_def stamped_def by (auto split: if_splits)

lemma update_batch_Some:
  assumes "update_batch lib clock i P f db = Some (n, db')"
  shows "n = 0 \<and> db' = db \<and> (\<forall>b. batch_of i db = Some b \<longrightarrow> \<not> P b) \<or>
    n = 1 \<and> (\<exists>old. ba_id old = i \<and> P old \<and> moved db db' old (stamped clock old (f old)) \<and>
      enforce_artifact_identity lib (coverage_of i db) (stamped clock old (f old)))"
proof (cases "\<exists>old. batch_of i db = Some old \<and> P old")
  case False
  then have "update_batch lib clock i P f db = Some (0, db)"
    by (cases "batch_of i db") (simp_all add: update_batch_def)
  with False assms show ?thesis by simp
next
  case True
  then obtain old where old: "batch_of i db = Some old" "P old"
    by blast
  from batch_of_Some [OF old(1)] have ident: "ba_id old = i" ..
  from assms obtain new where new:
    "enforce_generation_clock clock old
       ((f old)\<lparr>ba_updated_at := max clock (ba_updated_at old + microsecond)\<rparr>) = Some new"
    by (simp add: update_batch_def old split: option.splits)
  have stamp: "new = stamped clock old (f old)"
    by (rule enforce_generation_clock_stamped [OF new])
  from assms have "enforce_artifact_identity lib (coverage_of i db) new"
    and "enforce_batch_state (coverage_of i db) old new" and "batch_check new"
    and "n = 1" and "db' = db\<lparr>ob_batches := map (\<lambda>b. if ba_id b = i then new else b) (ob_batches db)\<rparr>"
    by (simp_all add: update_batch_def old new split: if_splits)
  with old ident show ?thesis
    unfolding stamp moved_def by auto
qed

lemma update_one_Ok:
  assumes "update_one (update_batch lib clock i P f db) = Ok db'"
  shows "\<exists>old. ba_id old = i \<and> P old \<and> moved db db' old (stamped clock old (f old)) \<and>
    enforce_artifact_identity lib (coverage_of i db) (stamped clock old (f old))"
proof -
  from assms have "update_batch lib clock i P f db = Some (1, db')"
    by (auto simp: update_one_def result_elim exactly_one_def)
  from update_batch_Some [OF this] show ?thesis by auto
qed

lemma record_of_stamped [simp]: "record_of cs (stamped clock old b) = record_of cs b"
  by (simp add: record_of_def stamped_def artifact_of_batch_def)

lemma stamped_simps [simp]:
  "ba_id (stamped clock old b) = ba_id b" "ba_status (stamped clock old b) = ba_status b"
  "ba_attempts (stamped clock old b) = ba_attempts b"
  "ba_recipient_id (stamped clock old b) = ba_recipient_id b"
  "ba_report_version (stamped clock old b) = ba_report_version b"
  "ba_scheduled_for (stamped clock old b) = ba_scheduled_for b"
  "ba_next_attempt_at (stamped clock old b) = ba_next_attempt_at b"
  "artifact_of_batch (stamped clock old b) = artifact_of_batch b"
  "ba_updated_at (stamped clock old b) = max clock (ba_updated_at old + microsecond)"
  by (simp_all add: stamped_def artifact_of_batch_def)

lemma moved_reads:
  assumes "moved db db' old new" and "outbox_inv db"
  shows "coverage_of i db' = coverage_of i db"
    and "batch_of i db' = (if i = ba_id old then Some new else batch_of i db)"
    and "records_of db' =
      (records_of db)(ba_id old \<mapsto> record_of (coverage_of (ba_id old) db) new)"
proof -
  have same_id: "ba_id new = ba_id old"
    using assms(1) by (simp add: moved_def enforce_batch_state_def)
  show cov: "coverage_of i db' = coverage_of i db" for i
    using assms(1) by (simp add: moved_def coverage_of_def)
  have dist: "distinct (map ba_id (ob_batches db))"
    using assms(2) by (simp add: outbox_inv_def)
  have "map ba_id (ob_batches db') = map ba_id (ob_batches db)"
    using assms(1) same_id by (simp add: moved_def)
  with dist have dist': "distinct (map ba_id (ob_batches db'))"
    by simp
  have old: "old \<in> set (ob_batches db)"
    using assms(1) by (auto simp: moved_def dest: batch_of_Some)
  show bat: "batch_of i db' = (if i = ba_id old then Some new else batch_of i db)" for i
  proof (cases "i = ba_id old")
    case True
    then show ?thesis
      using assms(1) old same_id by (auto simp: batch_of_member [OF dist'] moved_def)
  next
    case False
    have "batch_of i db' = Some b \<longleftrightarrow> batch_of i db = Some b" for b
      using assms(1) same_id False
      by (auto simp: batch_of_member [OF dist] batch_of_member [OF dist'] moved_def)
    then have "batch_of i db' = batch_of i db"
      by (metis not_None_eq)
    with False show ?thesis by simp
  qed
  show "records_of db' = (records_of db)(ba_id old \<mapsto> record_of (coverage_of (ba_id old) db) new)"
    by (simp add: records_of_def fun_eq_iff cov bat)
qed

lemma moved_inv:
  assumes "moved db db' old new" and "outbox_inv db" and "ba_status new \<noteq> St_Expired"
    and "ba_status new \<in> {St_Ready, St_Sending, St_Sent} \<Longrightarrow> artifact_of_batch new \<noteq> None"
  shows "outbox_inv db'"
proof -
  note m = assms(1) [unfolded moved_def enforce_batch_state_def]
  have same_ids: "map ba_id (ob_batches db') = map ba_id (ob_batches db)"
    using m by simp
  have old: "batch_inv db old"
    using m assms(2) by (auto dest: outbox_inv_batch)
  have cov: "coverage_of i db' = coverage_of i db" for i
    by (rule moved_reads [OF assms(1,2)])
  from old m have "batch_inv db' new"
    using assms(3,4) by (simp add: batch_inv_def cov coverage_inv_def)
  moreover have "batch_inv db' b" if "batch_inv db b" for b
    using that m by (simp add: batch_inv_def cov)
  ultimately have "\<forall>b \<in> set (ob_batches db'). batch_inv db' b"
    using m assms(2) by (auto simp: outbox_inv_def)
  moreover have "ba_id ` set (ob_batches db') = ba_id ` set (ob_batches db)"
    using same_ids by (metis set_map)
  moreover have "ob_sequence db' = ob_sequence db" "ob_coverage db' = ob_coverage db"
    using m by simp_all
  ultimately show ?thesis
    using assms(2) same_ids by (simp add: outbox_inv_def)
qed

end
