(* ===== verification/Report_Effects.thy ===== *)
theory Report_Effects
  imports Report_Facts
begin

text \<open>
  Each operation of the outbox either leaves the batches and their coverage as they are, or
  changes one delivery record by one transition of \<open>outbox.rs\<close>, and keeps the invariant.
\<close>


section \<open>Transactions\<close>

lemma outbox_transaction_cases:
  assumes "outbox_transaction call body db = (r, db')"
  obtains "db' = db" "\<And>x. r \<noteq> Ok x"
  | x where "body db = Ok (x, db')" "r = Ok x \<or> r = Error Outbox_Unavailable"
  using assms by (auto simp: outbox_transaction_def split: if_splits sum.splits)

lemma checked_then_cases:
  assumes "checked_then check run db = (r, db')"
  obtains "db' = db" "\<And>x. r \<noteq> Ok x" | v where "check = Ok v" "run v db = (r, db')"
  using assms by (auto simp: checked_then_def split: sum.splits)

lemma column_max_const: "xs \<noteq> [] \<Longrightarrow> \<forall>x \<in> set xs. x = k \<Longrightarrow> column_max xs = Some k"
proof (cases xs)
  case (Cons y ys)
  assume "\<forall>x \<in> set xs. x = k"
  moreover have "fold max ys k = k" if "\<forall>y \<in> set ys. y = k" for ys
    using that by (induction ys) simp_all
  ultimately show ?thesis using Cons by simp
qed simp

lemma coverage_inv_deadline:
  "coverage_inv b cs \<Longrightarrow> column_max (map co_deadline_at cs) = Some (ba_scheduled_for b + hours 6)"
  by (rule column_max_const) (auto simp: coverage_inv_def)

lemma record_deadline_of [simp]: "record_deadline_at (record_of cs b) = ba_scheduled_for b + hours 6"
  by (simp add: record_deadline_at_def record_of_def)

lemma record_of_simps [simp]:
  "dr_status (record_of cs b) = ba_status b"
  "dr_attempts (record_of cs b) = word_of_int (ba_attempts b)"
  "dr_next_attempt_at (record_of cs b) = ba_next_attempt_at b"
  "dr_artifact (record_of cs b) = artifact_of_batch b"
  "dr_covered_keys (record_of cs b) = map key_of_row cs"
  "dr_scheduled_for (record_of cs b) = ba_scheduled_for b"
  by (simp_all add: record_of_def)

lemma moved_old:
  assumes "moved db db' old new" and "outbox_inv db"
  shows "records_of db (ba_id old) = Some (record_of (coverage_of (ba_id old) db) old)"
    and "batch_inv db old" and "coverage_inv old (coverage_of (ba_id old) db)"
    and "batch_check old" and "batch_check new"
proof -
  have old: "batch_of (ba_id old) db = Some old" and "batch_check new"
    using assms(1) by (simp_all add: moved_def)
  with outbox_inv_batch [OF assms(2) old] show "batch_inv db old"
    "coverage_inv old (coverage_of (ba_id old) db)" "batch_check old" "batch_check new"
    by (simp_all add: batch_inv_def)
  from old show "records_of db (ba_id old) = Some (record_of (coverage_of (ba_id old) db) old)"
    by (simp add: records_of_def)
qed

text \<open>The time conditions of the trigger.\<close>

lemma moved_times:
  assumes "moved db db' old new" and "outbox_inv db"
  shows "ba_status new \<in> {St_Generating, St_Ready, St_Sending} \<Longrightarrow>
      ba_updated_at new \<le> ba_scheduled_for old + hours 6"
    and "ba_status old = St_Sending \<Longrightarrow> ba_status new = St_Ready \<Longrightarrow>
      \<exists>retry. ba_next_attempt_at new = Some retry \<and> retry \<le> ba_scheduled_for old + hours 6"
proof -
  have "enforce_batch_state (coverage_of (ba_id old) db) old new"
    using assms(1) by (simp add: moved_def)
  note trigger = this [unfolded enforce_batch_state_def
      coverage_inv_deadline [OF moved_old(3) [OF assms]] option.case]
  from trigger show "ba_status new \<in> {St_Generating, St_Ready, St_Sending} \<Longrightarrow>
      ba_updated_at new \<le> ba_scheduled_for old + hours 6"
    by blast
  from trigger show "ba_status old = St_Sending \<Longrightarrow> ba_status new = St_Ready \<Longrightarrow>
      \<exists>retry. ba_next_attempt_at new = Some retry \<and> retry \<le> ba_scheduled_for old + hours 6"
    by (auto split: option.splits)
qed

lemma idle_columns:
  assumes "batch_check b"
  shows "ba_status b \<noteq> St_Ready \<Longrightarrow> ba_next_attempt_at b = None"
    and "ba_status b \<noteq> St_Sent \<Longrightarrow> ba_provider_message_id b = None"
    and "0 \<le> ba_attempts b" and "ba_attempts b \<le> 5"
  using assms by (simp_all add: batch_check_def)


section \<open>One record changes\<close>

text \<open>
  \<open>changes db db' i r r'\<close>: the record of batch \<open>i\<close> goes from \<open>r\<close> to \<open>r'\<close>, the others stay, and
  the invariant holds again.
\<close>

definition changes ::
  "outbox_db \<Rightarrow> outbox_db \<Rightarrow> int \<Rightarrow> delivery_record \<Rightarrow> delivery_record \<Rightarrow> bool" where
  "changes db db' i r r' \<longleftrightarrow>
     records_of db i = Some r \<and> records_of db' = (records_of db)(i \<mapsto> r') \<and> outbox_inv db' \<and>
     ob_coverage db' = ob_coverage db"

lemma changesI:
  assumes "moved db db' old new" and "outbox_inv db" and "ba_status new \<noteq> St_Expired"
    and "ba_status new \<in> {St_Ready, St_Sending, St_Sent} \<Longrightarrow> artifact_of_batch new \<noteq> None"
  shows "changes db db' (ba_id old) (record_of (coverage_of (ba_id old) db) old)
    (record_of (coverage_of (ba_id old) db) new)"
  unfolding changes_def
  using moved_inv [OF assms] moved_reads(3) [OF assms(1,2)] moved_old(1) [OF assms(1,2)] assms(1)
  by (simp add: moved_def)

lemma same_core_changes: "same_core db0 db \<Longrightarrow> changes db db' i r r' \<Longrightarrow> changes db0 db' i r r'"
  by (simp add: changes_def same_core_reads) (simp add: same_core_def)

lemma start_generation_effect:
  assumes "start_generation lib call i db = (res, db')" and "outbox_inv db"
  obtains "db' = db" "\<And>x. res \<noteq> Ok x"
  | r r' t where "changes db db' i r r'" "delivery_start_generation t r = Ok r'"
proof (rule outbox_transaction_cases [OF assms(1) [unfolded start_generation_def]])
  fix x
  assume "and_then (update_one (update_batch lib (oc_clock call) i (\<lambda>b. ba_status b = St_Planned)
    (\<lambda>b. b\<lparr>ba_status := St_Generating\<rparr>) db)) (\<lambda>db. Ok ((), db)) = Ok (x, db')"
  then have "update_one (update_batch lib (oc_clock call) i (\<lambda>b. ba_status b = St_Planned)
    (\<lambda>b. b\<lparr>ba_status := St_Generating\<rparr>) db) = Ok db'"
    by (auto simp: result_elim)
  from update_one_Ok [OF this] obtain old where old: "ba_id old = i" "ba_status old = St_Planned"
    and m: "moved db db' old (stamped (oc_clock call) old (old\<lparr>ba_status := St_Generating\<rparr>))"
    by blast
  have "changes db db' i (record_of (coverage_of i db) old)
      (record_of (coverage_of i db) (old\<lparr>ba_status := St_Generating\<rparr>))"
    using changesI [OF m assms(2)] old by simp
  moreover have "delivery_start_generation (max (oc_clock call) (ba_updated_at old + microsecond))
      (record_of (coverage_of i db) old)
      = Ok (record_of (coverage_of i db) (old\<lparr>ba_status := St_Generating\<rparr>))"
    using moved_times(1) [OF m assms(2)] old
    by (simp add: delivery_start_generation_def require_before_deadline_def)
      (simp add: record_of_def artifact_of_batch_def)
  ultimately show thesis by (rule that(2))
qed (use that(1) in blast)


lemma artifact_of_ready:
  "artifact_of_batch (b\<lparr>ba_status := st, ba_object_key := Some k, ba_sha256 := Some s,
     ba_html_sha256 := Some h, ba_next_attempt_at := t\<rparr>)
   = Some \<lparr>ai_object_key = k, ai_sha256 = s, ai_html_sha256 = h\<rparr>"
  by (simp add: artifact_of_batch_def)

lemma mark_ready_effect:
  assumes "mark_ready lib call i a db = (res, db')" and "outbox_inv db"
  obtains "db' = db"
  | r r' t where "changes db db' i r r'" "delivery_mark_ready (pl_parse_date lib) t a r = Ok r'"
proof (rule checked_then_cases [OF assms(1) [unfolded mark_ready_def]])
  let ?f = "\<lambda>b. b\<lparr>ba_status := St_Ready, ba_object_key := Some (ai_object_key a),
    ba_sha256 := Some (ai_sha256 a), ba_html_sha256 := Some (ai_html_sha256 a),
    ba_next_attempt_at := None\<rparr>"
  let ?u = "update_batch lib (oc_clock call) i (\<lambda>b. ba_status b = St_Generating) ?f db"
  fix v
  assume valid: "map_err Outbox_InvalidDelivery (validate_artifact (pl_parse_date lib) a) = Ok v"
  assume run: "outbox_transaction call (\<lambda>db.
       and_then (ok_or (update_batch lib (oc_clock call) i
                   (\<lambda>b. ba_status b = St_Generating) ?f db) Outbox_Unavailable) (\<lambda>(changed, db).
       if changed = 1 then Ok ((), db)
       else ensure (case batch_of i db of None \<Rightarrow> False | Some b \<Rightarrow> ready_with a b)
              Outbox_Conflict (Ok ((), db)))) db = (res, db')"
  show thesis
  proof (rule outbox_transaction_cases [OF run])
    fix x
    assume "and_then (ok_or ?u Outbox_Unavailable) (\<lambda>(changed, db).
       if changed = 1 then Ok ((), db)
       else ensure (case batch_of i db of None \<Rightarrow> False | Some b \<Rightarrow> ready_with a b)
              Outbox_Conflict (Ok ((), db))) = Ok (x, db')"
    then obtain n where u: "?u = Some (n, db')"
      by (auto simp: result_elim split: if_splits)
    from update_batch_Some [OF u] show thesis
    proof (elim disjE conjE exE)
      fix old
      assume old: "ba_id old = i" "ba_status old = St_Generating"
        and m: "moved db db' old (stamped (oc_clock call) old (?f old))"
      have "changes db db' i (record_of (coverage_of i db) old)
          (record_of (coverage_of i db) (?f old))"
        using changesI [OF m assms(2)] old by (simp add: artifact_of_ready)
      moreover have "delivery_mark_ready (pl_parse_date lib)
          (max (oc_clock call) (ba_updated_at old + microsecond)) a
          (record_of (coverage_of i db) old) = Ok (record_of (coverage_of i db) (?f old))"
        using moved_times(1) [OF m assms(2)] old valid
          idle_columns(1) [OF moved_old(4) [OF m assms(2)]]
        by (simp add: delivery_mark_ready_def require_before_deadline_def map_err_Ok)
          (simp add: record_of_def artifact_of_batch_def)
      ultimately show thesis by (rule that(2))
    qed (rule that(1))
  qed (rule that(1))
qed (rule that(1))

lemma insert_core:
  "insert_generation g db = Some db' \<Longrightarrow> same_core db db'"
  "insert_attempt a db = Some db' \<Longrightarrow> same_core db db'"
  "insert_reconciliation clock rc db = Some db' \<Longrightarrow> same_core db db'"
  by (auto simp: insert_generation_def insert_attempt_def insert_reconciliation_def same_core_def
      split: option.splits if_splits)

lemma record_generation_failure_effect:
  assumes "record_generation_failure call i now c db = (res, db')"
  shows "same_core db db'"
  by (rule outbox_transaction_cases [OF assms [unfolded record_generation_failure_def]])
    (auto simp: Let_def result_elim intro: insert_core)


section \<open>A claim\<close>

text \<open>A claim is made for the record as the claim left it.\<close>

definition claim_matches :: "claimed_delivery \<Rightarrow> delivery_record \<Rightarrow> bool" where
  "claim_matches claim r \<longleftrightarrow>
     cl_attempt_no claim = dr_attempts r \<and> set (cl_covered_keys claim) = set (dr_covered_keys r) \<and>
     cl_deadline_at claim = record_deadline_at r \<and> dr_artifact r = Some (cl_artifact claim)"

lemma set_coverage_by_kind: "set (coverage_by_kind i db) = set (coverage_of i db)"
  using report_kind.exhaust by (auto simp: coverage_by_kind_def)

lemma length_coverage_by_kind: "length (coverage_by_kind i db) = length (coverage_of i db)"
proof -
  have other: "(\<lambda>c. co_report_kind c = Morning) = (\<lambda>c. \<not> co_report_kind c = Evening)"
    by (rule ext) (metis report_kind.exhaust report_kind.distinct(1))
  show ?thesis
    unfolding coverage_by_kind_def length_append other by (rule sum_length_filter_compl)
qed

lemma claim_of_Ok:
  assumes "claim_of db b = Ok claim" and "batch_inv db b"
  shows "cl_batch_id claim = ba_id b" and "cl_attempt_no claim = word_of_int (ba_attempts b + 1)"
    and "artifact_of_batch b = Some (cl_artifact claim)"
    and "set (cl_covered_keys claim) = key_of_row ` set (coverage_of (ba_id b) db)"
    and "cl_deadline_at claim = ba_scheduled_for b + hours 6"
proof -
  have cov: "coverage_inv b (coverage_of (ba_id b) db)"
    using assms(2) by (simp add: batch_inv_def)
  then have "coverage_inv b (coverage_by_kind (ba_id b) db)"
    by (simp add: coverage_inv_def set_coverage_by_kind length_coverage_by_kind
        flip: length_greater_0_conv)
  note max = coverage_inv_deadline [OF this]
  show "cl_batch_id claim = ba_id b" "cl_attempt_no claim = word_of_int (ba_attempts b + 1)"
    "artifact_of_batch b = Some (cl_artifact claim)" "cl_deadline_at claim = ba_scheduled_for b + hours 6"
    using assms(1) by (auto simp: claim_of_def result_elim Let_def max artifact_of_batch_def)
  show "set (cl_covered_keys claim) = key_of_row ` set (coverage_of (ba_id b) db)"
    using assms(1) cov
    by (auto simp: claim_of_def result_elim Let_def set_coverage_by_kind key_of_row_def
        version_u32_def coverage_inv_def image_iff)
qed


lemma claimable_Some:
  assumes "claimable call now db = Some b" and "outbox_inv db"
  shows "batch_inv db b" and "batch_of (ba_id b) db = Some b" and "ready_batch now db b"
    and "ba_id b \<notin> oc_locked call"
proof -
  from min_by_key_Some [OF assms(1) [unfolded claimable_def]]
  have b: "b \<in> set (ob_batches db)" "ready_batch now db b" "ba_id b \<notin> oc_locked call"
    by auto
  with assms(2) show "batch_inv db b" "ready_batch now db b" "ba_id b \<notin> oc_locked call"
    by (simp_all add: outbox_inv_def)
  from assms(2) b(1) show "batch_of (ba_id b) db = Some b"
    by (simp add: outbox_inv_def batch_of_member)
qed

lemma attempts_step:
  assumes "0 \<le> n" and "n < 5"
  shows "checked_add (word_of_int n :: u8) 1 = Some (word_of_int (n + 1))"
    and "unat (word_of_int n :: u8) = nat n"
proof -
  show nat: "unat (word_of_int n :: u8) = nat n"
    using assms by (simp add: unsigned_of_int take_bit_int_eq_self)
  with assms show "checked_add (word_of_int n :: u8) 1 = Some (word_of_int (n + 1))"
    by (simp add: checked_add_def add.commute)
qed

lemma claim_ready_effect:
  assumes "claim_ready lib call now db = (res, db')" and "outbox_inv db"
  obtains "db' = db" "\<And>c. res \<noteq> Ok (Some c)"
  | claim r r' where "changes db db' (cl_batch_id claim) r r'" "delivery_claim_send now r = Ok r'"
    "dr_attempts r < 5" "claim_matches claim r'" "res = Ok (Some claim) \<or> res = Error Outbox_Unavailable"
    "oc_clock call \<le> cl_deadline_at claim"
proof (rule outbox_transaction_cases [OF assms(1) [unfolded claim_ready_def]])
  let ?f = "\<lambda>b. b\<lparr>ba_status := St_Sending, ba_attempts := ba_attempts b + 1, ba_next_attempt_at := None\<rparr>"
  fix x
  assume body: "(case claimable call now db of
         None \<Rightarrow> Ok (None, db)
       | Some b \<Rightarrow>
           and_then (claim_of db b) (\<lambda>claim.
           and_then (update_one (update_batch lib (oc_clock call) (ba_id b)
                       (\<lambda>b. ba_status b = St_Ready) ?f db)) (\<lambda>db.
           Ok (Some claim, db)))) = Ok (x, db')"
  assume res: "res = Ok x \<or> res = Error Outbox_Unavailable"
  show thesis
  proof (cases "claimable call now db")
    case None
    with body res show thesis by (auto intro: that(1))
  next
    case (Some b)
    note b = claimable_Some [OF Some assms(2)]
    from body obtain claim where claim: "claim_of db b = Ok claim" "x = Some claim"
      and u: "update_one (update_batch lib (oc_clock call) (ba_id b) (\<lambda>b. ba_status b = St_Ready)
        ?f db) = Ok db'"
      by (auto simp: Some result_elim)
    from update_one_Ok [OF u] obtain old where same: "ba_id old = ba_id b"
      and old: "moved db db' old (stamped (oc_clock call) old (?f old))"
      by blast
    from old have "batch_of (ba_id old) db = Some old"
      unfolding moved_def by (rule conjunct1)
    with same b(2) have "old = b" by simp
    with old have m: "moved db db' b (stamped (oc_clock call) b (?f b))" by simp
    note c = claim_of_Ok [OF claim(1) b(1)]
    let ?cs = "coverage_of (ba_id b) db"
    have n: "0 \<le> ba_attempts b" "ba_attempts b < 5"
      using b(3) idle_columns(3) [OF moved_old(4) [OF m assms(2)]]
      by (simp_all add: ready_batch_def MAX_DELIVERY_ATTEMPTS_def)
    have art: "artifact_of_batch (?f b) = Some (cl_artifact claim)"
      using c(3) by (simp add: artifact_of_batch_def)
    have "changes db db' (cl_batch_id claim) (record_of ?cs b) (record_of ?cs (?f b))"
      using changesI [OF m assms(2)] c(1) art by simp
    moreover have "now \<le> ba_scheduled_for b + hours 6"
      using b(1,3) by (auto simp: ready_batch_def batch_inv_def coverage_inv_def list_ex_iff)
    then have "delivery_claim_send now (record_of ?cs b) = Ok (record_of ?cs (?f b))"
      using b(3) attempts_step(1) [OF n]
      by (simp add: delivery_claim_send_def require_before_deadline_def ready_batch_def null_or_def)
        (simp add: record_of_def artifact_of_batch_def)
    moreover have "dr_attempts (record_of ?cs b) < 5"
      using n attempts_step(2) [OF n] by (simp add: word_less_nat_alt)
    moreover have "claim_matches claim (record_of ?cs (?f b))"
      using c art by (simp add: claim_matches_def)
    moreover have "oc_clock call \<le> cl_deadline_at claim"
      using moved_times(1) [OF m assms(2)] c(5) by simp
    moreover have "res = Ok (Some claim) \<or> res = Error Outbox_Unavailable"
      using res claim(2) by simp
    ultimately show thesis by (intro that(2))
  qed
next
  assume "db' = db" "\<And>x. res \<noteq> Ok x"
  then show thesis by (rule that(1))
qed


section \<open>The end of an attempt\<close>

lemma finish_attempt_effect:
  assumes "finish_attempt lib call claim t0 t1 outcome class msg retry db = (res, db')"
    and "outbox_inv db"
  obtains "db' = db" "\<And>x. res \<noteq> Ok x"
  | old where "ba_id old = cl_batch_id claim" "ba_status old = St_Sending"
    "ba_attempts old = uint (cl_attempt_no claim)" "batch_check old"
    "changes db db' (cl_batch_id claim) (record_of (coverage_of (cl_batch_id claim) db) old)
       (record_of (coverage_of (cl_batch_id claim) db) (old\<lparr>
          ba_status := (case outcome of Attempt_Sent \<Rightarrow> St_Sent | Attempt_Transient \<Rightarrow> St_Ready
                        | Attempt_Permanent \<Rightarrow> St_PermanentFailure),
          ba_next_attempt_at := retry, ba_provider_message_id := msg,
          ba_last_error_class := class,
          ba_sent_at := (if outcome = Attempt_Sent then Some t1 else None)\<rparr>))"
    "outcome = Attempt_Transient \<Longrightarrow> \<exists>t. retry = Some t \<and> t \<le> ba_scheduled_for old + hours 6"
    "res = Ok () \<or> res = Error Outbox_Unavailable"
proof (rule outbox_transaction_cases [OF assms(1) [unfolded finish_attempt_def]])
  let ?i = "cl_batch_id claim" and ?n = "uint (cl_attempt_no claim)"
  let ?a = "\<lparr>da_batch_id = ?i, da_attempt_no = ?n, da_started_at = t0, da_finished_at = t1,
    da_outcome = outcome, da_error_class = class, da_provider_message_id = msg\<rparr>"
  let ?f = "\<lambda>b. b\<lparr>ba_status := (case outcome of Attempt_Sent \<Rightarrow> St_Sent | Attempt_Transient \<Rightarrow> St_Ready
                        | Attempt_Permanent \<Rightarrow> St_PermanentFailure),
          ba_next_attempt_at := retry, ba_provider_message_id := msg,
          ba_last_error_class := class,
          ba_sent_at := (if outcome = Attempt_Sent then Some t1 else None)\<rparr>"
  fix x
  assume "and_then (ok_or (insert_attempt ?a db) Outbox_Unavailable) (\<lambda>db.
       and_then (update_one (update_batch lib (oc_clock call) ?i
                   (\<lambda>b. ba_status b = St_Sending \<and> ba_attempts b = ?n) ?f db)) (\<lambda>db.
       Ok ((), db))) = Ok (x, db')"
    and res: "res = Ok x \<or> res = Error Outbox_Unavailable"
  then obtain db1 where ins: "insert_attempt ?a db = Some db1"
    and u: "update_one (update_batch lib (oc_clock call) ?i
              (\<lambda>b. ba_status b = St_Sending \<and> ba_attempts b = ?n) ?f db1) = Ok db'"
    by (auto simp: result_elim)
  have core: "same_core db db1"
    by (rule insert_core(2) [OF ins])
  with assms(2) have inv1: "outbox_inv db1"
    by (simp add: same_core_reads)
  from update_one_Ok [OF u] obtain old where old: "ba_id old = ?i" "ba_status old = St_Sending"
      "ba_attempts old = ?n"
    and m: "moved db1 db' old (stamped (oc_clock call) old (?f old))"
    by blast
  have art: "artifact_of_batch (?f old) = artifact_of_batch old" "artifact_of_batch old \<noteq> None"
    using moved_old(2) [OF m inv1] old(2)
    by (simp_all add: batch_inv_def) (simp add: artifact_of_batch_def)
  have "changes db1 db' ?i (record_of (coverage_of ?i db1) old) (record_of (coverage_of ?i db1) (?f old))"
    using changesI [OF m inv1] old(1) art by (simp split: attempt_outcome.splits)
  from same_core_changes [OF core this]
  have "changes db db' ?i (record_of (coverage_of ?i db) old) (record_of (coverage_of ?i db) (?f old))"
    by (simp add: same_core_reads(2) [OF core])
  moreover have "\<exists>t. retry = Some t \<and> t \<le> ba_scheduled_for old + hours 6"
    if "outcome = Attempt_Transient"
    using that moved_times(2) [OF m inv1] old(2) by simp
  ultimately show thesis
    using old moved_old(4) [OF m inv1] res by (intro that(2) [of old]) simp_all
qed (use that(1) in blast)

end
