(* ===== verification/Report_Moves.thy ===== *)
theory Report_Moves
  imports Report_Effects
begin

text \<open>
  The remaining effects: the calls at the end of an attempt, the operator's reconciliation, and
  planning. Together they give the refinement of \<open>outbox.rs\<close> by the tables: every operation is
  a \<open>record_step\<close> of one delivery, or plans a new one.
\<close>


section \<open>Completions\<close>

fun completion_step :: "instant \<Rightarrow> completion \<Rightarrow> delivery_record \<Rightarrow> delivery_record \<Rightarrow> bool" where
  "completion_step t (Record_Sent msg) r r' \<longleftrightarrow> delivery_record_sent msg r = Ok r'"
| "completion_step t (Record_Transient class retry) r r' \<longleftrightarrow>
     is_transient class \<and> delivery_record_failure t class (Some retry) r = Ok r'"
| "completion_step t (Record_Exhausted class) r r' \<longleftrightarrow>
     is_transient class \<and> r' = r\<lparr>dr_last_error := Some class, dr_status := St_PermanentFailure\<rparr>"
| "completion_step t (Record_Permanent class) r r' \<longleftrightarrow>
     \<not> is_transient class \<and> delivery_record_failure t class None r = Ok r'"

lemma error_texts:
  "transient_error_text class = Ok t \<Longrightarrow> is_transient class \<and> class_of_text t = Some class"
  "permanent_error_text class = Ok t \<Longrightarrow> \<not> is_transient class \<and> class_of_text t = Some class"
  by (auto simp: transient_error_text_def permanent_error_text_def is_transient_def
      class_of_text_def split: delivery_error_class.splits)

text \<open>The record of a batch that is being sent, after its end.\<close>

lemma record_of_finished:
  assumes "ba_status b = St_Sending" and "batch_check b"
  shows "record_of cs (b\<lparr>ba_status := s, ba_next_attempt_at := retry,
      ba_provider_message_id := msg, ba_last_error_class := class, ba_sent_at := t\<rparr>)
    = (record_of cs b)\<lparr>dr_status := s, dr_next_attempt_at := retry,
        dr_provider_message_id := msg, dr_last_error := Option.bind class class_of_text\<rparr>"
    and "dr_next_attempt_at (record_of cs b) = None"
    and "dr_provider_message_id (record_of cs b) = None"
  using idle_columns [OF assms(2)] assms(1) by (simp_all add: record_of_def artifact_of_batch_def)

lemma run_completion_effect:
  assumes "run_completion lib call claim t0 t1 c db = (res, db')" and "outbox_inv db"
  obtains "db' = db" "\<And>x. res \<noteq> Ok x"
  | r r' where "changes db db' (cl_batch_id claim) r r'" "dr_status r = St_Sending"
    "dr_attempts r = cl_attempt_no claim" "completion_step t1 c r r'"
    "res = Ok () \<or> res = Error Outbox_Unavailable"
proof -
  note unchanged = that(1) and changed = that(2)
  let ?i = "cl_batch_id claim" and ?cs = "coverage_of (cl_batch_id claim) db"
  have finish: thesis
    if run: "finish_attempt lib call claim t0 t1 outcome cls msg retry db = (res, db')"
      and step: "\<And>r. dr_status r = St_Sending \<Longrightarrow> dr_attempts r = cl_attempt_no claim \<Longrightarrow>
        dr_next_attempt_at r = None \<Longrightarrow> dr_provider_message_id r = None \<Longrightarrow>
        (outcome = Attempt_Transient \<Longrightarrow> \<exists>t. retry = Some t \<and> t \<le> record_deadline_at r) \<Longrightarrow>
        completion_step t1 c r (r\<lparr>dr_status := (case outcome of Attempt_Sent \<Rightarrow> St_Sent
             | Attempt_Transient \<Rightarrow> St_Ready | Attempt_Permanent \<Rightarrow> St_PermanentFailure),
          dr_next_attempt_at := retry, dr_provider_message_id := msg,
          dr_last_error := Option.bind cls class_of_text\<rparr>)"
    for outcome cls msg retry
  proof (rule finish_attempt_effect [OF run assms(2)])
    fix old
    assume old: "ba_status old = St_Sending" "ba_attempts old = uint (cl_attempt_no claim)"
        "batch_check old"
      and ch: "changes db db' ?i (record_of ?cs old) (record_of ?cs (old\<lparr>
          ba_status := (case outcome of Attempt_Sent \<Rightarrow> St_Sent | Attempt_Transient \<Rightarrow> St_Ready
                        | Attempt_Permanent \<Rightarrow> St_PermanentFailure),
          ba_next_attempt_at := retry, ba_provider_message_id := msg,
          ba_last_error_class := cls,
          ba_sent_at := (if outcome = Attempt_Sent then Some t1 else None)\<rparr>))"
      and dl: "outcome = Attempt_Transient \<Longrightarrow>
        \<exists>t. retry = Some t \<and> t \<le> ba_scheduled_for old + hours 6"
      and res: "res = Ok () \<or> res = Error Outbox_Unavailable"
    note new = record_of_finished [OF old(1,3)]
    show thesis
      by (rule changed [OF ch [unfolded new(1)] _ _ step res])
        (use old dl new(2,3) in simp_all)
  qed (rule unchanged)
  show thesis
  proof (cases c)
    case (Record_Sent msg)
    from assms(1) [unfolded run_completion_def Record_Sent completion.case record_sent_def]
    show thesis
      by (rule checked_then_cases)
        (rule unchanged, assumption+, erule finish,
          auto simp: Record_Sent delivery_record_sent_def result_elim)
  next
    case (Record_Transient cls retry)
    from assms(1) [unfolded run_completion_def Record_Transient completion.case
        record_transient_failure_def]
    show thesis
    proof (rule checked_then_cases)
      fix label
      assume "and_then (transient_error_text cls) (\<lambda>cls.
          and_then (validate_attempt_times t0 t1) (\<lambda>_. Ok cls)) = Ok label"
      then have tr: "is_transient cls" "class_of_text label = Some cls"
        using error_texts(1) by (auto simp: result_elim)
      assume run: "(if MAX_DELIVERY_ATTEMPTS \<le> cl_attempt_no claim
         then finish_attempt lib call claim t0 t1 Attempt_Permanent (Some label) None None
         else if retry \<le> t1 \<or> cl_deadline_at claim < retry
         then Pair (Error Outbox_InvalidDelivery)
         else finish_attempt lib call claim t0 t1 Attempt_Transient (Some label) None
                (Some retry)) db = (res, db')"
      show thesis
      proof (cases "MAX_DELIVERY_ATTEMPTS \<le> cl_attempt_no claim")
        case True
        with run have "finish_attempt lib call claim t0 t1 Attempt_Permanent (Some label) None None db
            = (res, db')" by simp
        then show thesis
          by (rule finish) (auto simp: Record_Transient tr delivery_record_failure_def True)
      next
        case few: False
        show thesis
        proof (cases "retry \<le> t1 \<or> cl_deadline_at claim < retry")
          case True
          with few run show thesis by (auto intro: unchanged)
        next
          case False
          with few run have "finish_attempt lib call claim t0 t1 Attempt_Transient (Some label) None
              (Some retry) db = (res, db')" by simp
          then show thesis
            by (rule finish) (use few False in
              \<open>auto simp: Record_Transient tr delivery_record_failure_def\<close>)
        qed
      qed
    qed (rule unchanged)
  next
    case (Record_Exhausted cls)
    from assms(1) [unfolded run_completion_def Record_Exhausted completion.case
        record_exhausted_failure_def]
    show thesis
      by (rule checked_then_cases)
        (rule unchanged, assumption+, erule finish,
          auto simp: Record_Exhausted result_elim dest!: error_texts(1))
  next
    case (Record_Permanent cls)
    from assms(1) [unfolded run_completion_def Record_Permanent completion.case
        record_permanent_failure_def]
    show thesis
      by (rule checked_then_cases)
        (rule unchanged, assumption+, erule finish,
          auto simp: Record_Permanent delivery_record_failure_def result_elim dest!: error_texts(2))
  qed
qed



section \<open>Reconciliation\<close>

text \<open>\<open>closed d\<close>: the operator's decision on a record that is being sent.\<close>

fun closed :: "reconciliation_decision \<Rightarrow> delivery_record \<Rightarrow> delivery_record \<Rightarrow> bool" where
  "closed (ConfirmedSent msg) r r' \<longleftrightarrow> delivery_record_sent msg r = Ok r'"
| "closed SuppressedUnknown r r' \<longleftrightarrow>
     r' = r\<lparr>dr_status := St_PermanentFailure, dr_last_error := None\<rparr>"

lemma decision_columns_Ok:
  assumes "decision_columns d = Ok (label, msg, s, cls)"
  shows "s = St_Sent \<or> s = St_PermanentFailure"
    and "dr_status r = St_Sending \<Longrightarrow> dr_next_attempt_at r = None \<Longrightarrow>
      dr_provider_message_id r = None \<Longrightarrow>
      closed d r (r\<lparr>dr_status := s, dr_next_attempt_at := None, dr_provider_message_id := msg,
        dr_last_error := Option.bind cls class_of_text\<rparr>)"
  using assms
  by (cases d; auto simp: result_elim delivery_record_sent_def class_of_text_def)+

lemma reconcile_effect:
  assumes "reconcile_sending lib call i n recipient version t d db = (res, db')"
    and "outbox_inv db"
  obtains "db' = db"
  | r r' where "changes db db' i r r'" "dr_status r = St_Sending" "dr_attempts r = n" "closed d r r'"
proof (rule checked_then_cases [OF assms(1) [unfolded reconcile_sending_def]])
  fix v
  assume check: "and_then (map_err Outbox_InvalidDelivery (validate_report_identity recipient version))
       (\<lambda>_. ensure (0 < i \<and> 1 \<le> n \<and> n \<le> MAX_DELIVERY_ATTEMPTS) Outbox_InvalidDelivery
       (and_then (version_i32 version) (\<lambda>version.
        and_then (decision_columns d) (\<lambda>columns. Ok (version, columns))))) = Ok v"
    and run: "(case v of (version, columns) \<Rightarrow> outbox_transaction call
       (reconcile_in_transaction lib call i (uint n) recipient version t columns)) db = (res, db')"
  obtain ver label msg s cls where v: "v = (ver, label, msg, s, cls)"
    by (metis surj_pair)
  with check have d: "decision_columns d = Ok (label, msg, s, cls)"
    by (auto simp: result_elim)
  let ?f = "\<lambda>b. b\<lparr>ba_status := s, ba_next_attempt_at := None, ba_provider_message_id := msg,
    ba_last_error_class := cls, ba_sent_at := (if s = St_Sent then Some t else None)\<rparr>"
  show thesis
  proof (rule outbox_transaction_cases [OF run [unfolded v prod.case]])
    fix x
    assume body: "reconcile_in_transaction lib call i (uint n) recipient ver t (label, msg, s, cls) db
        = Ok (x, db')"
    show thesis
    proof (cases "List.find (\<lambda>r. rc_batch_id r = i \<and> rc_attempt_no r = uint n)
        (ob_reconciliations db)")
      case (Some existing)
      with body show thesis
        by (auto simp: reconcile_in_transaction_def result_elim intro: that(1))
    next
      case None
      with body obtain rc db1 where "insert_reconciliation (oc_clock call) rc db = Some db1"
        and u: "update_one (update_batch lib (oc_clock call) i
          (\<lambda>b. ba_status b = St_Sending \<and> ba_attempts b = uint n) ?f db1) = Ok db'"
        by (auto simp: reconcile_in_transaction_def result_elim)
      then have core: "same_core db db1"
        by (intro insert_core(3))
      with assms(2) have inv1: "outbox_inv db1"
        by (simp add: same_core_reads)
      from update_one_Ok [OF u] obtain old where old: "ba_id old = i" "ba_status old = St_Sending"
          "ba_attempts old = uint n"
        and m: "moved db1 db' old (stamped (oc_clock call) old (?f old))"
        by blast
      have art: "artifact_of_batch (?f old) = artifact_of_batch old" "artifact_of_batch old \<noteq> None"
        using moved_old(2) [OF m inv1] old(2)
        by (simp_all add: batch_inv_def) (simp add: artifact_of_batch_def)
      note new = record_of_finished [OF old(2) moved_old(4) [OF m inv1]]
      have "changes db1 db' i (record_of (coverage_of i db1) old)
          (record_of (coverage_of i db1) (?f old))"
        using changesI [OF m inv1] old(1) art decision_columns_Ok(1) [OF d] by auto
      note ch = same_core_changes [OF core this [unfolded new(1)]]
      show thesis
        by (rule that(2) [OF ch _ _ decision_columns_Ok(2) [OF d]])
          (use old(2,3) new(2,3) in simp_all)
    qed
  qed (rule that(1))
qed (rule that(1))


section \<open>Planning\<close>

lemma insert_coverage_Some:
  assumes "insert_coverage c db = Some db'"
  shows "db' = db\<lparr>ob_coverage := ob_coverage db @ [c]\<rparr>"
    and "occurrence_of c \<notin> occurrence_of ` set (ob_coverage db)"
  using assms by (auto simp: insert_coverage_def list_ex_iff split: option.splits if_splits)

lemma insert_coverages_Some:
  assumes "insert_coverages cs db = Some db'" and "distinct (map occurrence_of (ob_coverage db))"
  shows "db' = db\<lparr>ob_coverage := ob_coverage db @ cs\<rparr>"
    and "distinct (map occurrence_of (ob_coverage db'))"
proof -
  have "db' = db\<lparr>ob_coverage := ob_coverage db @ cs\<rparr> \<and>
      distinct (map occurrence_of (ob_coverage db'))"
    using assms
  proof (induction cs arbitrary: db)
    case (Cons c cs)
    then obtain db1 where db1: "insert_coverage c db = Some db1" "insert_coverages cs db1 = Some db'"
      by (auto simp: bind_eq_Some_conv)
    note c = insert_coverage_Some [OF db1(1)]
    with Cons.prems have "distinct (map occurrence_of (ob_coverage db1))"
      by auto
    note rest = Cons.IH [OF db1(2) this]
    from conjunct1 [OF rest] c(1) have "db' = db\<lparr>ob_coverage := ob_coverage db @ c # cs\<rparr>"
      by simp
    with conjunct2 [OF rest] show ?case by blast
  qed simp
  then show "db' = db\<lparr>ob_coverage := ob_coverage db @ cs\<rparr>"
    "distinct (map occurrence_of (ob_coverage db'))"
    by blast+
qed


text \<open>A batch with a fresh id and the rows of its coverage.\<close>

lemma planned_batch:
  assumes "outbox_inv db" and "ob_sequence db < i" and "batch_check b" and "ba_id b = i"
    and "ba_status b = St_Planned" and "ba_report_version b < 2 ^ 31"
    and "coverage_inv b cs" and "\<forall>c \<in> set cs. co_batch_id c = i"
    and "distinct (map occurrence_of (ob_coverage db @ cs))"
    and "db' = db\<lparr>ob_sequence := i, ob_batches := ob_batches db @ [b], ob_coverage := ob_coverage db @ cs\<rparr>"
  shows "outbox_inv db'" and "records_of db i = None"
    and "records_of db' = (records_of db)(i \<mapsto> record_of cs b)"
proof -
  have batches: "ob_batches db' = ob_batches db @ [b]" and seq: "ob_sequence db' = i"
    and rows: "ob_coverage db' = ob_coverage db @ cs"
    using assms(10) by simp_all
  have fresh: "i \<notin> ba_id ` set (ob_batches db)"
    using assms(1,2) by (auto simp: outbox_inv_def batch_inv_def)
  then have no_rows: "coverage_of i db = []"
    using assms(1) by (auto simp: outbox_inv_def coverage_of_def filter_empty_conv)
  have cov: "coverage_of j db' = (if j = i then cs else coverage_of j db)" for j
    using no_rows assms(8) by (auto simp: coverage_of_def filter_empty_conv rows)
  have fresh_find: "batch_of i db = None"
    using fresh by (auto simp: batch_of_def find_None_iff)
  then show "records_of db i = None"
    by (simp add: records_of_def)
  have dist: "distinct (map ba_id (ob_batches db'))"
    using assms(1,4) fresh by (auto simp: outbox_inv_def batches)
  have bat: "batch_of j db' = (if j = i then Some b else batch_of j db)" for j
  proof -
    have "b' \<noteq> b \<and> ba_id b' \<noteq> i" if "b' \<in> set (ob_batches db)" for b'
      using fresh that assms(4) by blast
    then have "batch_of j db' = Some b' \<longleftrightarrow> (if j = i then Some b else batch_of j db) = Some b'" for b'
      using assms(1,4)
      by (auto simp: batch_of_member [OF dist] batch_of_member outbox_inv_def batches)
    then show ?thesis by (metis not_None_eq)
  qed
  show "records_of db' = (records_of db)(i \<mapsto> record_of cs b)"
    by (simp add: records_of_def fun_eq_iff bat cov)
  have "batch_inv db' b"
    using assms(1-7) by (simp add: batch_inv_def cov outbox_inv_def seq)
  moreover have "batch_inv db' b'" if "b' \<in> set (ob_batches db)" for b'
  proof -
    have "batch_inv db b'" "ba_id b' \<noteq> i"
      using that fresh assms(1) by (auto simp: outbox_inv_def)
    then show ?thesis
      using assms(2) by (simp add: batch_inv_def cov seq)
  qed
  ultimately show "outbox_inv db'"
    using assms(1,2,4,8,9) dist by (auto simp: outbox_inv_def batches seq rows)
qed

lemma delivery_planned_Ok:
  assumes "delivery_planned d = Ok r"
  shows "dr_covered_keys r \<noteq> []" and "length (dr_covered_keys r) \<le> 2"
    and "\<forall>k \<in> set (dr_covered_keys r). same_occasion (hd (dr_covered_keys r)) k"
    and "r = \<lparr>dr_covered_keys = dr_covered_keys r, dr_scheduled_for = dr_scheduled_for r,
      dr_status = St_Planned, dr_delayed = dr_delayed r, dr_attempts = 0, dr_artifact = None,
      dr_next_attempt_at = None, dr_provider_message_id = None, dr_last_error = None\<rparr>"
  using assms by (auto simp: delivery_planned_def result_elim list_all_iff)

lemma create_planned_inner_Ok:
  assumes "create_planned_inner call r db = Ok (x, db')"
  obtains "db' = db"
  | i version db1 where "version_i32 (rk_report_version (hd (dr_covered_keys r))) = Ok version"
    "insert_batch (oc_clock call) (oc_skipped call) (rk_recipient_id (hd (dr_covered_keys r)))
       version (dr_scheduled_for r) (dr_delayed r) db = Some (i, db1)"
    "insert_coverages (map (planned_row i version r) (dr_covered_keys r)) db1 = Some db'"
    "x = Inserted i"
proof (cases "dr_covered_keys r")
  case Nil
  with assms show thesis by (simp add: create_planned_inner_def)
next
  case (Cons first keys)
  with assms obtain version where v: "version_i32 (rk_report_version first) = Ok version"
    by (auto simp: create_planned_inner_def result_elim)
  from assms have "db' = db \<or> insert_planned call r first version db = Ok (x, db')"
    by (auto simp: create_planned_inner_def Cons v Let_def simp del: set_filter
        split: list.splits if_splits)
  then show thesis
  proof
    assume "insert_planned call r first version db = Ok (x, db')"
    then show thesis
      using v Cons by (auto simp: insert_planned_def result_elim intro: that(2))
  qed (rule that(1))
qed

lemma create_planned_effect:
  assumes "create_planned call d db = (res, db')" and "outbox_inv db"
  obtains "db' = db"
  | i r where "records_of db i = None" "records_of db' = (records_of db)(i \<mapsto> r)"
    "delivery_planned d = Ok r" "outbox_inv db'"
    "\<exists>cs. ob_coverage db' = ob_coverage db @ cs \<and> (\<forall>c \<in> set cs. co_batch_id c = i)"
proof (rule checked_then_cases [OF assms(1) [unfolded create_planned_def]])
  fix r
  assume "map_err Outbox_InvalidDelivery (delivery_planned d) = Ok r"
  then have d: "delivery_planned d = Ok r"
    by (simp add: map_err_Ok)
  assume run: "outbox_transaction call (create_planned_inner call r) db = (res, db')"
  show thesis
  proof (rule outbox_transaction_cases [OF run])
    fix x
    assume "create_planned_inner call r db = Ok (x, db')"
    then show thesis
    proof (rule create_planned_inner_Ok)
      fix i version db1
      let ?first = "hd (dr_covered_keys r)"
      let ?cs = "map (planned_row i version r) (dr_covered_keys r)"
      assume v: "version_i32 (rk_report_version ?first) = Ok version"
        and b: "insert_batch (oc_clock call) (oc_skipped call) (rk_recipient_id ?first) version
          (dr_scheduled_for r) (dr_delayed r) db = Some (i, db1)"
        and c: "insert_coverages ?cs db1 = Some db'"
      from b obtain row where row: "db1 = db\<lparr>ob_sequence := i, ob_batches := ob_batches db @ [row]\<rparr>"
          "ob_sequence db < i" "batch_check row" "ba_id row = i" "ba_status row = St_Planned"
          "ba_recipient_id row = rk_recipient_id ?first" "ba_report_version row = version"
          "ba_scheduled_for row = dr_scheduled_for r"
        and rec: "record_of ?cs row = \<lparr>dr_covered_keys = map key_of_row ?cs,
            dr_scheduled_for = dr_scheduled_for r, dr_status = St_Planned,
            dr_delayed = dr_delayed r, dr_attempts = 0, dr_artifact = None,
            dr_next_attempt_at = None, dr_provider_message_id = None, dr_last_error = None\<rparr>"
        by (auto simp: insert_batch_def Let_def record_of_def artifact_of_batch_def split: if_splits)
      have "distinct (map occurrence_of (ob_coverage db1))"
        using assms(2) row(1) by (simp add: outbox_inv_def)
      note ins = insert_coverages_Some [OF c this]
      note p = delivery_planned_Ok [OF d]
      have ver: "version < 2 ^ 31" "word_of_int version = rk_report_version ?first"
        using v by (auto simp: version_i32_def result_elim)
      have keys: "map key_of_row ?cs = dr_covered_keys r"
        unfolding map_map
        by (rule map_idI) (use p(3) ver(2) in \<open>auto simp: key_of_row_def planned_row_def
          report_key_of_def same_occasion_def\<close>)
      have "coverage_inv row ?cs"
        using p(1-3) row(6-8)
        by (auto simp: coverage_inv_def planned_row_def record_deadline_at_def same_occasion_def)
      moreover have "db' = db\<lparr>ob_sequence := i, ob_batches := ob_batches db @ [row],
          ob_coverage := ob_coverage db @ ?cs\<rparr>"
        using ins(1) row(1) by simp
      moreover from this ins(2) have "distinct (map occurrence_of (ob_coverage db @ ?cs))"
        by simp
      ultimately have "outbox_inv db'" "records_of db i = None"
          "records_of db' = (records_of db)(i \<mapsto> record_of ?cs row)"
        using planned_batch [OF assms(2) row(2-5), of ?cs db'] row(7) ver(1)
        by (simp_all add: planned_row_def)
      moreover have "record_of ?cs row = r"
        using rec keys p(4) by metis
      ultimately show thesis
        using d ins(1) row(1) by (intro that(2) [of i r]) (auto simp: planned_row_def)
    qed (rule that(1))
  qed (rule that(1))
qed (rule that(1))

end
