(* ===== verification/Report_Machine.thy ===== *)
theory Report_Machine
  imports Report_Moves Transition
begin

text \<open>
  Any number of delivery workers, planners, generators and operators over one outbox. A state
  has the tables, the messages that left, the claims that live workers hold and have not used,
  and the claims whose attempt has a result that is not recorded yet. A step is one operation
  on the tables, one request to Gmail, or the loss of a worker.
\<close>


section \<open>States and steps\<close>

record mail_state =
  ms_db :: outbox_db
  ms_departed :: "report_departure list"
  ms_held :: "claimed_delivery list"
  ms_answers :: "(claimed_delivery \<times> (gmail_delivery_error, string) result) list"

inductive mail_step :: "report_libraries \<Rightarrow> mail_routing \<Rightarrow> mail_state \<Rightarrow> mail_state \<Rightarrow> bool"
  for lib :: report_libraries and routing :: mail_routing where
  plan: "create_planned call d (ms_db s) = (res, db) \<Longrightarrow> mail_step lib routing s (s\<lparr>ms_db := db\<rparr>)"
| generate: "start_generation lib call i (ms_db s) = (res, db) \<Longrightarrow>
    mail_step lib routing s (s\<lparr>ms_db := db\<rparr>)"
| give_up: "record_generation_failure call i now e (ms_db s) = (res, db) \<Longrightarrow>
    mail_step lib routing s (s\<lparr>ms_db := db\<rparr>)"
| make_ready: "mark_ready lib call i a (ms_db s) = (res, db) \<Longrightarrow>
    mail_step lib routing s (s\<lparr>ms_db := db\<rparr>)"
| reconcile: "reconcile_sending lib call i n recipient version t decision (ms_db s) = (out, db) \<Longrightarrow>
    mail_step lib routing s (s\<lparr>ms_db := db\<rparr>)"
| claim: "claim_ready lib call now (ms_db s) = (Ok (Some c), db) \<Longrightarrow>
    mail_step lib routing s (s\<lparr>ms_db := db, ms_held := c # ms_held s\<rparr>)"
| claim_lost: "claim_ready lib call now (ms_db s) = (res', db) \<Longrightarrow>
    mail_step lib routing s (s\<lparr>ms_db := db\<rparr>)"
| depart: "c \<in> set (ms_held s) \<Longrightarrow> send_report lib routing c bundle token reply = (Some email, r) \<Longrightarrow>
    mail_step lib routing s (s\<lparr>ms_held := remove1 c (ms_held s),
      ms_answers := (c, r) # ms_answers s,
      ms_departed := \<lparr>rd_claim = c, rd_email = email, rd_reply = reply, rd_db = ms_db s\<rparr>
        # ms_departed s\<rparr>)"
| stay: "c \<in> set (ms_held s) \<Longrightarrow>
    mail_step lib routing s (s\<lparr>ms_held := remove1 c (ms_held s),
      ms_answers := (c, Inl e') # ms_answers s\<rparr>)"
| finish: "(c, r) \<in> set (ms_answers s) \<Longrightarrow> completion_of c t1 r = Ok (Some what) \<Longrightarrow>
    run_completion lib call c t0 t1 what (ms_db s) = (res, db) \<Longrightarrow>
    mail_step lib routing s (s\<lparr>ms_answers := remove1 (c, r) (ms_answers s), ms_db := db\<rparr>)"
| lose_claim: "mail_step lib routing s (s\<lparr>ms_held := remove1 c (ms_held s)\<rparr>)"
| lose_answer: "mail_step lib routing s (s\<lparr>ms_answers := remove1 a (ms_answers s)\<rparr>)"

definition empty_outbox :: outbox_db where
  "empty_outbox = \<lparr>ob_batches = [], ob_sequence = 0, ob_coverage = [], ob_attempts = [],
     ob_reconciliations = [], ob_generations = []\<rparr>"

definition mail_start :: "mail_state \<Rightarrow> bool" where
  "mail_start s \<longleftrightarrow>
     s = \<lparr>ms_db = empty_outbox, ms_departed = [], ms_held = [], ms_answers = []\<rparr>"


section \<open>The invariant\<close>

text \<open>Gmail refused a message for its rate limit: the one reply after which a report is retried.\<close>

definition rate_limited :: "report_departure \<Rightarrow> bool" where
  "rate_limited d \<longleftrightarrow>
     (case rd_reply d of Responded response \<Rightarrow> hr_status response = 429 | _ \<Rightarrow> False)"

abbreviation batch_id_of :: "report_departure \<Rightarrow> int" where
  "batch_id_of d \<equiv> cl_batch_id (rd_claim d)"

abbreviation attempt_of :: "report_departure \<Rightarrow> u8" where
  "attempt_of d \<equiv> cl_attempt_no (rd_claim d)"

definition closing :: "delivery_record \<Rightarrow> bool" where
  "closing r \<longleftrightarrow> dr_status r \<in> {St_Sending, St_Sent, St_PermanentFailure}"

definition claim_ok :: "claimed_delivery \<Rightarrow> delivery_record \<Rightarrow> bool" where
  "claim_ok c r \<longleftrightarrow>
     dr_attempts r = cl_attempt_no c \<and> cl_attempt_no c \<noteq> 0 \<and> closing r \<and>
     set (cl_covered_keys c) = set (dr_covered_keys r)"

definition departure_ok :: "report_departure \<Rightarrow> delivery_record \<Rightarrow> bool" where
  "departure_ok d r \<longleftrightarrow>
     attempt_of d \<le> dr_attempts r \<and> attempt_of d \<noteq> 0 \<and>
     set (cl_covered_keys (rd_claim d)) = set (dr_covered_keys r) \<and>
     (rate_limited d \<or> attempt_of d = dr_attempts r \<and> closing r)"

definition claims_of :: "mail_state \<Rightarrow> claimed_delivery list" where
  "claims_of s = ms_held s @ map fst (ms_answers s)"

definition later_attempt :: "report_departure \<Rightarrow> report_departure \<Rightarrow> bool" where
  "later_attempt d d' \<longleftrightarrow>
     (batch_id_of d = batch_id_of d' \<longrightarrow> attempt_of d' < attempt_of d \<and> rate_limited d')"

definition result_of_departure ::
  "report_libraries \<Rightarrow> report_departure \<Rightarrow> (gmail_delivery_error, string) result" where
  "result_of_departure lib d = wrap_err map_send_error (classify_reply lib (rd_reply d))"

definition mail_inv :: "report_libraries \<Rightarrow> mail_state \<Rightarrow> bool" where
  "mail_inv lib s \<longleftrightarrow>
     outbox_inv (ms_db s) \<and> distinct (map cl_batch_id (claims_of s)) \<and>
     (\<forall>c \<in> set (claims_of s). \<exists>r. records_of (ms_db s) (cl_batch_id c) = Some r \<and> claim_ok c r) \<and>
     (\<forall>d \<in> set (ms_departed s).
        \<exists>r. records_of (ms_db s) (batch_id_of d) = Some r \<and> departure_ok d r) \<and>
     (\<forall>c \<in> set (ms_held s). \<forall>d \<in> set (ms_departed s).
        batch_id_of d = cl_batch_id c \<longrightarrow> attempt_of d < cl_attempt_no c) \<and>
     (\<forall>(c, r) \<in> set (ms_answers s). \<forall>d \<in> set (ms_departed s).
        batch_id_of d = cl_batch_id c \<longrightarrow> attempt_of d = cl_attempt_no c \<longrightarrow>
        r = result_of_departure lib d) \<and>
     sorted_wrt later_attempt (ms_departed s)"

lemma mail_inv_start: "mail_start s \<Longrightarrow> mail_inv lib s"
  by (simp add: mail_start_def mail_inv_def claims_of_def empty_outbox_def outbox_inv_def)

text \<open>The invariant depends on the tables through the records only.\<close>

lemma mail_inv_records:
  assumes "mail_inv lib s" and "outbox_inv db"
    and "\<And>i r. records_of (ms_db s) i = Some r \<Longrightarrow> \<exists>r'. records_of db i = Some r' \<and>
      (\<forall>c \<in> set (claims_of s). cl_batch_id c = i \<longrightarrow> claim_ok c r \<longrightarrow> claim_ok c r') \<and>
      (\<forall>d \<in> set (ms_departed s). batch_id_of d = i \<longrightarrow> departure_ok d r \<longrightarrow> departure_ok d r')"
  shows "mail_inv lib (s\<lparr>ms_db := db\<rparr>)"
proof -
  have "\<exists>r. records_of db (cl_batch_id c) = Some r \<and> claim_ok c r" if "c \<in> set (claims_of s)" for c
    using assms(1,3) that by (fastforce simp: mail_inv_def)
  moreover have "\<exists>r. records_of db (batch_id_of d) = Some r \<and> departure_ok d r"
    if "d \<in> set (ms_departed s)" for d
    using assms(1,3) that by (fastforce simp: mail_inv_def)
  ultimately show ?thesis
    using assms(1,2) by (simp add: mail_inv_def claims_of_def)
qed

lemma mail_inv_core:
  assumes "mail_inv lib s" and "same_core (ms_db s) db"
  shows "mail_inv lib (s\<lparr>ms_db := db\<rparr>)"
  using assms
  by (intro mail_inv_records) (auto simp: same_core_reads mail_inv_def)

text \<open>A change that keeps the attempt and leaves no closing record.\<close>

lemma mail_inv_change:
  assumes "mail_inv lib s" and "changes (ms_db s) db i r r'"
    and "dr_attempts r' = dr_attempts r" and "dr_covered_keys r' = dr_covered_keys r"
    and "closing r \<Longrightarrow> closing r'"
  shows "mail_inv lib (s\<lparr>ms_db := db\<rparr>)"
proof (rule mail_inv_records [OF assms(1)])
  show "outbox_inv db"
    using assms(2) by (simp add: changes_def)
  fix j x
  assume "records_of (ms_db s) j = Some x"
  with assms(2-5) show "\<exists>r'. records_of db j = Some r' \<and>
      (\<forall>c \<in> set (claims_of s). cl_batch_id c = j \<longrightarrow> claim_ok c x \<longrightarrow> claim_ok c r') \<and>
      (\<forall>d \<in> set (ms_departed s). batch_id_of d = j \<longrightarrow> departure_ok d x \<longrightarrow> departure_ok d r')"
    by (cases "j = i") (auto simp: changes_def claim_ok_def departure_ok_def)
qed

end
