(* ===== verification/Report_Once.thy ===== *)
theory Report_Once
  imports Report_Machine "HOL-Library.Multiset"
begin

text \<open>
  Every step of the mail machine keeps the invariant, so that a report leaves again only after
  Gmail has refused it for its rate limit, and never more than five times.
\<close>


section \<open>Steps that leave the claims alone\<close>

lemma mail_inv_db: "mail_inv lib s \<Longrightarrow> outbox_inv (ms_db s)"
  by (simp add: mail_inv_def)

lemma mail_inv_claim:
  "mail_inv lib s \<Longrightarrow> c \<in> set (claims_of s) \<Longrightarrow>
   \<exists>r. records_of (ms_db s) (cl_batch_id c) = Some r \<and> claim_ok c r"
  by (simp add: mail_inv_def)

lemma mail_inv_departed:
  "mail_inv lib s \<Longrightarrow> d \<in> set (ms_departed s) \<Longrightarrow>
   \<exists>r. records_of (ms_db s) (batch_id_of d) = Some r \<and> departure_ok d r"
  by (simp add: mail_inv_def)

lemma mail_inv_plan:
  assumes "mail_inv lib s" and "create_planned call d (ms_db s) = (res, db)"
  shows "mail_inv lib (s\<lparr>ms_db := db\<rparr>)"
proof (rule create_planned_effect [OF assms(2) mail_inv_db [OF assms(1)]])
  assume "db = ms_db s"
  with assms(1) show ?thesis by simp
next
  fix i r
  assume "records_of (ms_db s) i = None" "records_of db = (records_of (ms_db s))(i \<mapsto> r)"
    and "outbox_inv db"
  then show ?thesis
    by (intro mail_inv_records [OF assms(1)]) auto
qed

lemma mail_inv_generate:
  assumes "mail_inv lib s" and "start_generation lib call i (ms_db s) = (res, db)"
  shows "mail_inv lib (s\<lparr>ms_db := db\<rparr>)"
proof (rule start_generation_effect [OF assms(2) mail_inv_db [OF assms(1)]])
  fix r r' t
  assume ch: "changes (ms_db s) db i r r'" and "delivery_start_generation t r = Ok r'"
  then have "dr_status r = St_Planned" "r' = r\<lparr>dr_status := St_Generating\<rparr>"
    by (auto simp: delivery_start_generation_def result_elim)
  then show ?thesis
    by (intro mail_inv_change [OF assms(1) ch]) (simp_all add: closing_def)
qed (use assms(1) in simp)

lemma mail_inv_make_ready:
  assumes "mail_inv lib s" and "mark_ready lib call i a (ms_db s) = (res, db)"
  shows "mail_inv lib (s\<lparr>ms_db := db\<rparr>)"
proof (rule mark_ready_effect [OF assms(2) mail_inv_db [OF assms(1)]])
  fix r r' t
  assume ch: "changes (ms_db s) db i r r'"
    and "delivery_mark_ready (pl_parse_date lib) t a r = Ok r'"
  then have "dr_status r = St_Generating" "r' = r\<lparr>dr_artifact := Some a, dr_status := St_Ready\<rparr>"
    by (auto simp: delivery_mark_ready_def result_elim)
  then show ?thesis
    by (intro mail_inv_change [OF assms(1) ch]) (simp_all add: closing_def)
qed (use assms(1) in simp)

lemma mail_inv_reconcile:
  assumes "mail_inv lib s"
    and "reconcile_sending lib call i n recipient version t d (ms_db s) = (res, db)"
  shows "mail_inv lib (s\<lparr>ms_db := db\<rparr>)"
proof (rule reconcile_effect [OF assms(2) mail_inv_db [OF assms(1)]])
  fix r r'
  assume ch: "changes (ms_db s) db i r r'" and "closed d r r'"
  then show ?thesis
    by (intro mail_inv_change [OF assms(1) ch])
      (cases d; auto simp: closing_def delivery_record_sent_def result_elim)+
qed (use assms(1) in simp)


section \<open>Claims\<close>

lemma claim_sends:
  assumes "delivery_claim_send now r = Ok r'" and "dr_attempts r < 5"
  shows "dr_status r = St_Ready" and "\<not> closing r" and "closing r'"
    and "dr_attempts r < dr_attempts r'" and "dr_attempts r' = dr_attempts r + 1"
    and "dr_covered_keys r' = dr_covered_keys r"
proof -
  from assms(1) have r: "dr_status r = St_Ready"
      "r' = r\<lparr>dr_attempts := dr_attempts r + 1, dr_next_attempt_at := None, dr_status := St_Sending\<rparr>"
    by (auto simp: delivery_claim_send_def result_elim checked_add_def split: if_splits)
  have "dr_attempts r < dr_attempts r + 1"
    using assms(2) by (simp add: word_less_nat_alt unat_word_ariths)
  with r show "dr_status r = St_Ready" "\<not> closing r" "closing r'"
      "dr_attempts r < dr_attempts r'" "dr_attempts r' = dr_attempts r + 1"
      "dr_covered_keys r' = dr_covered_keys r"
    by (simp_all add: closing_def)
qed

lemma mail_inv_claimed:
  assumes "mail_inv lib s" and ch: "changes (ms_db s) db (cl_batch_id claim) r r'"
    and "delivery_claim_send now r = Ok r'" and "dr_attempts r < 5" and "claim_matches claim r'"
  shows "mail_inv lib (s\<lparr>ms_db := db\<rparr>)"
    and "mail_inv lib (s\<lparr>ms_db := db, ms_held := claim # ms_held s\<rparr>)"
proof -
  note sends = claim_sends [OF assms(3,4)]
  let ?i = "cl_batch_id claim"
  have before: "records_of (ms_db s) ?i = Some r"
    and after: "records_of db = (records_of (ms_db s))(?i \<mapsto> r')"
    using ch by (simp_all add: changes_def)
  have free: "cl_batch_id c \<noteq> ?i" if "c \<in> set (claims_of s)" for c
    using mail_inv_claim [OF assms(1) that] before sends(2) by (auto simp: claim_ok_def)
  have spent: "attempt_of d < dr_attempts r' \<and> departure_ok d r'"
    if "d \<in> set (ms_departed s)" "batch_id_of d = ?i" for d
    using mail_inv_departed [OF assms(1) that(1)] that(2) before sends
    by (auto simp: departure_ok_def)
  show same: "mail_inv lib (s\<lparr>ms_db := db\<rparr>)"
  proof (rule mail_inv_records [OF assms(1)])
    show "outbox_inv db"
      using ch by (simp add: changes_def)
    fix j x
    assume "records_of (ms_db s) j = Some x"
    then show "\<exists>r'. records_of db j = Some r' \<and>
      (\<forall>c \<in> set (claims_of s). cl_batch_id c = j \<longrightarrow> claim_ok c x \<longrightarrow> claim_ok c r') \<and>
      (\<forall>d \<in> set (ms_departed s). batch_id_of d = j \<longrightarrow> departure_ok d x \<longrightarrow> departure_ok d r')"
      using free spent by (cases "j = ?i") (auto simp: after)
  qed
  have "claim_ok claim r'"
    using assms(5) sends(3,4) by (auto simp: claim_ok_def claim_matches_def)
  moreover have "attempt_of d < cl_attempt_no claim"
    if "d \<in> set (ms_departed s)" "batch_id_of d = ?i" for d
    using spent [OF that] assms(5) by (simp add: claim_matches_def)
  moreover have "?i \<notin> cl_batch_id ` set (claims_of s)"
    using free by (metis imageE)
  ultimately show "mail_inv lib (s\<lparr>ms_db := db, ms_held := claim # ms_held s\<rparr>)"
    using same by (simp add: mail_inv_def claims_of_def after image_Un image_image)
qed

lemma mail_inv_claim_step:
  assumes "mail_inv lib s" and "claim_ready lib call now (ms_db s) = (res, db)"
  shows "mail_inv lib (s\<lparr>ms_db := db\<rparr>)"
    and "res = Ok (Some c) \<Longrightarrow> mail_inv lib (s\<lparr>ms_db := db, ms_held := c # ms_held s\<rparr>)"
  using assms
  by (rule_tac claim_ready_effect [OF assms(2) mail_inv_db [OF assms(1)]];
      auto dest: mail_inv_claimed)+


section \<open>Departures and answers\<close>

text \<open>After any other reply the attempt is not a transient failure.\<close>

lemma classify_not_limited:
  assumes "\<not> rate_limited d"
  shows "completion_of c t (result_of_departure lib d) \<noteq> Ok (Some (Record_Transient cls retry))"
proof (cases "classify_reply lib (rd_reply d)")
  case (Inr msg)
  then show ?thesis by (simp add: result_of_departure_def wrap_err_def completion_of_def)
next
  case (Inl e)
  with assms have "e \<noteq> Err Send_RateLimited"
    by (auto simp: rate_limited_def classify_reply_def Let_def
        parse_success_response_def and_then_Inl map_err_def ok_or_def
        split: http_reply.splits if_splits sum.splits failure.splits option.splits)
  with Inl show ?thesis
    by (cases e) (auto simp: result_of_departure_def wrap_err_def map_send_error_def
        completion_of_def known_failure_def permanent_class_def split: gmail_send_error.splits)
qed

lemma departure_result:
  assumes "send_report lib routing c bundle token reply = (Some email, r)"
  shows "r = result_of_departure lib \<lparr>rd_claim = c, rd_email = email, rd_reply = reply, rd_db = db\<rparr>"
  using assms
  by (auto simp: send_report_def gmail_send_def result_of_departure_def split: sum.splits if_splits)

text \<open>Fewer claims, or a claim that moves from the held ones to the answers.\<close>

lemma distinct_sub_mset:
  assumes "mset xs \<subseteq># mset ys" and "distinct ys"
  shows "distinct xs"
proof -
  from assms(1) obtain zs where "mset ys = mset (xs @ zs)"
    by (metis ex_mset mset_append mset_subset_eq_exists_conv)
  with assms(2) show ?thesis
    by (metis distinct_append mset_eq_imp_distinct_iff)
qed

lemma mail_inv_claims:
  assumes "mail_inv lib s" and sub: "mset (claims_of t) \<subseteq># mset (claims_of s)"
    and "ms_db t = ms_db s" and "ms_departed t = ms_departed s"
    and "set (ms_held t) \<subseteq> set (ms_held s)"
    and "\<And>c r. (c, r) \<in> set (ms_answers t) \<Longrightarrow> (c, r) \<in> set (ms_answers s) \<or>
      c \<in> set (ms_held s)"
  shows "mail_inv lib t"
proof -
  have "mset (map cl_batch_id (claims_of t)) \<subseteq># mset (map cl_batch_id (claims_of s))"
    using sub by (simp add: image_mset_subseteq_mono)
  then have "distinct (map cl_batch_id (claims_of t))"
    by (rule distinct_sub_mset) (use assms(1) in \<open>simp add: mail_inv_def\<close>)
  moreover have "set (claims_of t) \<subseteq> set (claims_of s)"
    using sub by (metis set_mset_mono set_mset_mset)
  moreover have "r = result_of_departure lib d"
    if "(c, r) \<in> set (ms_answers t)" "d \<in> set (ms_departed s)" "batch_id_of d = cl_batch_id c"
      "attempt_of d = cl_attempt_no c" for c r d
    using assms(6) [OF that(1)]
  proof
    assume "(c, r) \<in> set (ms_answers s)"
    with assms(1) that(2-) show ?thesis by (fastforce simp: mail_inv_def)
  next
    assume "c \<in> set (ms_held s)"
    with assms(1) that(2-) show ?thesis by (fastforce simp: mail_inv_def)
  qed
  then have "\<forall>(c, r) \<in> set (ms_answers t). \<forall>d \<in> set (ms_departed s). batch_id_of d = cl_batch_id c \<longrightarrow>
      attempt_of d = cl_attempt_no c \<longrightarrow> r = result_of_departure lib d"
    by blast
  ultimately show ?thesis
    using assms(1,3-5) by (simp add: mail_inv_def subset_iff)
qed

lemma mail_inv_answer:
  assumes "mail_inv lib s" and "c \<in> set (ms_held s)"
  shows "mail_inv lib (s\<lparr>ms_held := remove1 c (ms_held s), ms_answers := (c, r) # ms_answers s\<rparr>)"
  using assms(2)
  by (intro mail_inv_claims [OF assms(1)])
    (auto simp: claims_of_def dest: set_remove1_subset [THEN subsetD])

lemma mail_inv_drop:
  assumes "mail_inv lib s"
  shows "mail_inv lib (s\<lparr>ms_held := remove1 c (ms_held s)\<rparr>)"
    and "mail_inv lib (s\<lparr>ms_answers := remove1 a (ms_answers s)\<rparr>)"
proof -
  show "mail_inv lib (s\<lparr>ms_held := remove1 c (ms_held s)\<rparr>)"
    by (intro mail_inv_claims [OF assms])
      (auto simp: claims_of_def dest: set_remove1_subset [THEN subsetD])
  show "mail_inv lib (s\<lparr>ms_answers := remove1 a (ms_answers s)\<rparr>)"
    by (intro mail_inv_claims [OF assms])
      (auto simp: claims_of_def image_mset_subseteq_mono dest: set_remove1_subset [THEN subsetD])
qed

lemma mail_inv_departure:
  assumes "mail_inv lib s" and "records_of (ms_db s) (batch_id_of d) = Some x" and "departure_ok d x"
    and "\<forall>c \<in> set (ms_held s). batch_id_of d \<noteq> cl_batch_id c"
    and "\<forall>(c, r) \<in> set (ms_answers s). batch_id_of d = cl_batch_id c \<longrightarrow> r = result_of_departure lib d"
    and "\<forall>d' \<in> set (ms_departed s). later_attempt d d'"
  shows "mail_inv lib (s\<lparr>ms_departed := d # ms_departed s\<rparr>)"
  using assms by (simp add: mail_inv_def claims_of_def case_prod_unfold)

lemma mail_inv_depart:
  assumes "mail_inv lib s" and "c \<in> set (ms_held s)"
    and d: "rd_claim d = c" "r = result_of_departure lib d"
  shows "mail_inv lib (s\<lparr>ms_held := remove1 c (ms_held s), ms_answers := (c, r) # ms_answers s,
    ms_departed := d # ms_departed s\<rparr>)"
proof -
  let ?t = "s\<lparr>ms_held := remove1 c (ms_held s), ms_answers := (c, r) # ms_answers s\<rparr>"
  have t: "mail_inv lib ?t"
    using assms(1,2) by (rule mail_inv_answer)
  have "c \<in> set (claims_of s)"
    using assms(2) by (simp add: claims_of_def)
  then obtain x where x: "records_of (ms_db s) (cl_batch_id c) = Some x" "claim_ok c x"
    using mail_inv_claim [OF assms(1)] by blast
  have other: "cl_batch_id c' \<noteq> cl_batch_id c"
    if "c' \<in> set (remove1 c (ms_held s)) \<or> c' \<in> set (map fst (ms_answers s))" for c'
  proof -
    have "distinct (map cl_batch_id (claims_of ?t))"
      using t by (simp add: mail_inv_def)
    then have "cl_batch_id c \<notin> cl_batch_id ` (set (remove1 c (ms_held s)) \<union> set (map fst (ms_answers s)))"
      by (auto simp: claims_of_def)
    with that show ?thesis
      by (metis UnI1 UnI2 imageI)
  qed
  have "departure_ok d x"
    using x(2) d(1) by (simp add: departure_ok_def claim_ok_def)
  moreover have "later_attempt d d'" if "d' \<in> set (ms_departed s)" for d'
  proof -
    have "attempt_of d' < cl_attempt_no c" if "batch_id_of d' = cl_batch_id c"
      using assms(1,2) that \<open>d' \<in> set (ms_departed s)\<close> by (simp add: mail_inv_def)
    with mail_inv_departed [OF assms(1) that] x d(1) show ?thesis
      by (auto simp: later_attempt_def departure_ok_def claim_ok_def)
  qed
  moreover have "batch_id_of d \<noteq> cl_batch_id c'" if "c' \<in> set (remove1 c (ms_held s))" for c'
    using other [of c'] that d(1) by simp
  moreover have "r' = result_of_departure lib d"
    if "(c', r') \<in> set ((c, r) # ms_answers s)" "batch_id_of d = cl_batch_id c'" for c' r'
    using other [of c'] that d by (force simp: image_iff)
  ultimately have "mail_inv lib (?t\<lparr>ms_departed := d # ms_departed ?t\<rparr>)"
    using x(1) d(1) by (intro mail_inv_departure [OF t]) auto
  then show ?thesis by simp
qed

text \<open>The end of an attempt.\<close>

lemma completion_closing:
  assumes "completion_step t what r r'" and "dr_status r = St_Sending"
  shows "dr_attempts r' = dr_attempts r" and "dr_covered_keys r' = dr_covered_keys r"
    and "closing r' \<or> (\<exists>cls retry. what = Record_Transient cls retry)"
  using assms
  by (cases what; auto simp: closing_def delivery_record_sent_def delivery_record_failure_def
      result_elim split: if_splits)+

lemma mail_inv_finish:
  assumes "mail_inv lib s" and "(c, r) \<in> set (ms_answers s)"
    and "completion_of c t1 r = Ok (Some what)"
    and "run_completion lib call c t0 t1 what (ms_db s) = (res, db)"
  shows "mail_inv lib (s\<lparr>ms_answers := remove1 (c, r) (ms_answers s), ms_db := db\<rparr>)"
proof (rule run_completion_effect [OF assms(4) mail_inv_db [OF assms(1)]])
  assume "db = ms_db s"
  with mail_inv_drop(2) [OF assms(1), of "(c, r)"] show ?thesis
    by (simp add: mail_inv_def claims_of_def)
next
  let ?i = "cl_batch_id c" and ?t = "s\<lparr>ms_answers := remove1 (c, r) (ms_answers s)\<rparr>"
  fix x x'
  assume ch: "changes (ms_db s) db ?i x x'" and x: "dr_status x = St_Sending"
      "dr_attempts x = cl_attempt_no c" and step: "completion_step t1 what x x'"
  have before: "records_of (ms_db s) ?i = Some x"
    and after: "records_of db = (records_of (ms_db s))(?i \<mapsto> x')" and inv: "outbox_inv db"
    using ch by (simp_all add: changes_def)
  note keeps = completion_closing [OF step x(1)]
  have alone: "cl_batch_id c' \<noteq> ?i" if "c' \<in> set (claims_of ?t)" for c'
  proof -
    have "mset (ms_answers s) = add_mset (c, r) (mset (remove1 (c, r) (ms_answers s)))"
      using assms(2) by simp
    then have "mset (claims_of s) = add_mset c (mset (claims_of ?t))"
      by (simp add: claims_of_def del: mset_remove1)
    moreover have "distinct (map cl_batch_id (claims_of s))"
      using assms(1) by (simp add: mail_inv_def)
    ultimately have "distinct (map cl_batch_id (c # claims_of ?t))"
      by (metis mset.simps(2) mset_eq_imp_distinct_iff mset_map)
    with that show ?thesis
      by (metis distinct.simps(2) imageI list.simps(9) set_map)
  qed
  have "departure_ok d x'" if d: "d \<in> set (ms_departed s)" "batch_id_of d = ?i" "departure_ok d x" for d
  proof (cases "rate_limited d")
    case True
    with d(3) keeps(1,2) show ?thesis by (simp add: departure_ok_def)
  next
    case False
    with d(3) x(2) have n: "attempt_of d = cl_attempt_no c"
      by (simp add: departure_ok_def)
    with assms(1,2) d(1,2) have "r = result_of_departure lib d"
      by (fastforce simp: mail_inv_def)
    with classify_not_limited [OF False] assms(3) have "\<nexists>cls retry. what = Record_Transient cls retry"
      by metis
    with keeps d(3) n x(2) show ?thesis
      by (auto simp: departure_ok_def)
  qed
  with alone before after have "mail_inv lib (?t\<lparr>ms_db := db\<rparr>)"
    by (intro mail_inv_records [OF mail_inv_drop(2) [OF assms(1)] inv]) (auto simp: after)
  then show ?thesis by simp
qed


section \<open>Every step\<close>

lemma mail_step_inv:
  assumes "mail_inv lib s" and "mail_step lib routing s t"
  shows "mail_inv lib t"
  using assms(2,1)
proof cases
  case (give_up call i now e res db)
  with assms(1) show ?thesis
    by (simp add: mail_inv_core record_generation_failure_effect)
next
  case (depart c artifact token reply email r)
  with assms(1) show ?thesis
    by (simp add: mail_inv_depart departure_result)
qed (simp_all add: mail_inv_plan mail_inv_generate mail_inv_make_ready mail_inv_reconcile
    mail_inv_claim_step mail_inv_answer mail_inv_finish mail_inv_drop)

interpretation mail: inductive_invariant mail_start "mail_step lib routing" "mail_inv lib"
  by unfold_locales (auto intro: mail_inv_start mail_step_inv)

end
