(* ===== verification/Report_Samples.thy ===== *)
theory Report_Samples
  imports Report_Worker
begin

text \<open>
  A concrete instance of the parameters of the report delivery: one morning report, an address
  book, a token service that answers, and Gmail, which refuses the first message for its rate
  limit and accepts the second.
\<close>

definition sample_report_day :: naive_date where
  "sample_report_day = 0"

definition sample_report_lib :: report_libraries where
  "sample_report_lib = \<lparr>
     pl_parse_date = (\<lambda>s. if s = ''1970-01-01'' then Some 0 else None),
     pl_date_parts = (\<lambda>_. (''1970'', ''01'', ''01'')),
     pl_date_text = (\<lambda>_. ''1970-01-01''),
     pl_to_char = (\<lambda>_. (''1970'', ''01'', ''01'')),
     pl_from_slice = (\<lambda>body.
       if body = ''token'' then Some (JObject [(''access_token'', JString ''abc''),
         (''token_type'', JString ''Bearer''), (''expires_in'', JInt 3600)])
       else if body = ''sent'' then Some (JObject [(''id'', JString ''m1'')])
       else None)\<rparr>"

definition sample_policy_document :: daily_report_policy where
  "sample_policy_document = \<lparr>rp_version = 1, rp_enabled = True, rp_sender_email_env = ''SENDER'',
     rp_audiences = [\<lparr>ap_id = ''boss'', ap_email_env = ''BOSS''\<rparr>]\<rparr>"

definition sample_routes :: routing_document where
  "sample_routes = \<lparr>rd_version = 1, rd_routes =
     [\<lparr>re_name = ''SENDER'', re_address = ''robot@a.ru''\<rparr>,
      \<lparr>re_name = ''BOSS'', re_address = ''boss@b.ru''\<rparr>]\<rparr>"

definition sample_routing :: mail_routing where
  "sample_routing = \<lparr>mo_sender = ''robot@a.ru'', mo_recipients = [(''boss'', ''boss@b.ru'')]\<rparr>"

definition sample_key :: report_key where
  "sample_key = report_key_of sample_report_day Morning ''boss'' 1"

definition sample_delivery :: pending_delivery where
  "sample_delivery = \<lparr>pd_covered_keys = [sample_key],
     pd_scheduled_for = local_hour sample_report_day 8, pd_delayed = False\<rparr>"

definition at_minute :: "int \<Rightarrow> instant" where
  "at_minute n = local_hour sample_report_day 8 + minutes n"

definition sample_call :: "int \<Rightarrow> outbox_call" where
  "sample_call n = \<lparr>oc_link = Connected, oc_clock = at_minute n, oc_locked = {}, oc_skipped = 0\<rparr>"

definition sample_artifact :: artifact_identity where
  "sample_artifact = \<lparr>ai_object_key = ''daily-reports/1970/01/01/boss/v1/morning.xlsx'',
     ai_sha256 = replicate 64 (CHR ''a''), ai_html_sha256 = replicate 64 (CHR ''b'')\<rparr>"

definition sample_response :: "u16 \<Rightarrow> string \<Rightarrow> http_reply" where
  "sample_response status body = Responded \<lparr>hr_status = status, hr_headers = [],
     hr_content_length = None, hr_chunks = [Chunk body]\<rparr>"

definition sample_attempt :: "int \<Rightarrow> http_reply \<Rightarrow> delivery_env" where
  "sample_attempt n reply = \<lparr>dv_started_at = at_minute n, dv_probe = sample_call n,
     dv_token_reply = sample_response 200 ''token'', dv_claim = sample_call n,
     dv_bundle = Some \<lparr>rb_html = ''report'', rb_xlsx = ''sheet''\<rparr>, dv_reply = reply,
     dv_finished_at = at_minute (n + 1), dv_finish = sample_call (n + 1), dv_dropped = None\<rparr>"

definition sample_prepared :: outbox_db where
  "sample_prepared =
     snd (mark_ready sample_report_lib (sample_call 40) 1 sample_artifact
    (snd (start_generation sample_report_lib (sample_call 35) 1
    (snd (create_planned (sample_call 0) sample_delivery
       \<lparr>ob_batches = [], ob_sequence = 0, ob_coverage = [], ob_attempts = [],
        ob_reconciliations = [], ob_generations = []\<rparr>)))))"

text \<open>The tables of the sample, by the status, the attempts and the retry of the one batch.\<close>

definition sample_tables_of ::
  "delivery_status \<Rightarrow> int \<Rightarrow> int option \<Rightarrow> string option \<Rightarrow> int \<Rightarrow> delivery_attempt list \<Rightarrow> outbox_db" where
  "sample_tables_of status attempts retry e updated finished = \<lparr>
     ob_batches = [\<lparr>ba_id = 1, ba_recipient_id = ''boss'', ba_report_version = 1,
       ba_scheduled_for = local_hour sample_report_day 8, ba_status = status, ba_delayed = False,
       ba_attempts = attempts, ba_object_key = Some (ai_object_key sample_artifact),
       ba_sha256 = Some (ai_sha256 sample_artifact),
       ba_html_sha256 = Some (ai_html_sha256 sample_artifact),
       ba_next_attempt_at = map_option at_minute retry, ba_provider_message_id = None,
       ba_last_error_class = e, ba_created_at = at_minute 0, ba_updated_at = at_minute updated,
       ba_sent_at = None, ba_generation_started_at = Some (at_minute 35)\<rparr>],
     ob_sequence = 1,
     ob_coverage = [\<lparr>co_batch_id = 1, co_recipient_id = ''boss'', co_report_version = 1,
       co_local_date = sample_report_day, co_report_kind = Morning,
       co_scheduled_for = local_hour sample_report_day 8,
       co_deadline_at = local_hour sample_report_day 14\<rparr>],
     ob_attempts = finished, ob_reconciliations = [], ob_generations = []\<rparr>"

definition sample_start :: mail_world where
  "sample_start = \<lparr>mw_db = sample_tables_of St_Ready 0 None None 40 [], mw_departed = []\<rparr>"

definition sample_first :: mail_world where
  "sample_first = snd (deliver_one sample_report_lib sample_routing
     (sample_attempt 45 (sample_response 429 [])) sample_start)"

definition sample_second :: mail_world where
  "sample_second = snd (deliver_one sample_report_lib sample_routing
     (sample_attempt 50 (sample_response 200 ''sent'')) sample_first)"

lemma sample_prepared_tables: "sample_prepared = mw_db sample_start"
  by code_simp

end
