(* ===== verification/Report_Pass.thy ===== *)
theory Report_Pass
  imports Report_Once Report_Samples
begin

text \<open>
  A pass of the delivery worker as a run of the mail machine, and the concrete run of the sample:
  two attempts on one report, both reached.
\<close>


section \<open>Worlds and states\<close>

text \<open>A state of the machine read as the world of one worker, and the state after its work.\<close>

definition world_of :: "mail_state \<Rightarrow> mail_world" where
  "world_of s = \<lparr>mw_db = ms_db s, mw_departed = ms_departed s\<rparr>"

definition with_world :: "mail_state \<Rightarrow> mail_world \<Rightarrow> mail_state" where
  "with_world s w = s\<lparr>ms_db := mw_db w, ms_departed := mw_departed w\<rparr>"

lemma world_laws [simp]:
  "with_world s (world_of s) = s" "world_of (with_world s w) = w"
  "with_world (with_world s w) w' = with_world s w'"
  "mw_db (world_of s) = ms_db s" "mw_departed (world_of s) = ms_departed s"
  by (simp_all add: with_world_def world_of_def)

lemma mail_step_then:
  "mail_step lib routing s t \<Longrightarrow> steps (mail_step lib routing) t u \<Longrightarrow> steps (mail_step lib routing) s u"
  by (rule steps_trans [OF steps_single])

text \<open>The end of an attempt whose result is \<open>r\<close>.\<close>

lemma finish_steps:
  assumes "completion_of claim (dv_finished_at env) r = Ok (Some c)"
  shows "steps (mail_step lib routing) (s\<lparr>ms_answers := (claim, r) # ms_answers s\<rparr>)
    (with_world s (snd (finish_with lib env claim c (world_of s))))"
proof -
  obtain res db where run: "run_completion lib (dv_finish env) claim (dv_started_at env)
      (dv_finished_at env) c (ms_db s) = (res, db)"
    by (metis surj_pair)
  have "mail_step lib routing (s\<lparr>ms_answers := (claim, r) # ms_answers s\<rparr>) (s\<lparr>ms_db := db\<rparr>)"
    using mail_step.finish [where s = "s\<lparr>ms_answers := (claim, r) # ms_answers s\<rparr>" and lib = lib
        and routing = routing, OF _ assms] run
    by simp
  then show ?thesis
    by (simp add: finish_with_def world_of_def with_world_def run steps_single)
qed

text \<open>The worker after the answer, as the last lines of \<open>deliver_claimed\<close> have it.\<close>

definition after_answer ::
  "report_libraries \<Rightarrow> delivery_env \<Rightarrow> claimed_delivery \<Rightarrow> (gmail_delivery_error, string) result \<Rightarrow>
     mail_world \<Rightarrow> (gmail_outbox_error, delivery_tick_outcome) result option \<times> mail_world" where
  "after_answer lib env claim r w =
     (if dv_dropped env = Some At_Send then (None, w)
      else case completion_of claim (dv_finished_at env) r of
        Inl e \<Rightarrow> (Some (Inl e), w)
      | Inr None \<Rightarrow> (Some (Ok (Tick_Ambiguous (cl_batch_id claim) (cl_attempt_no claim))), w)
      | Inr (Some c) \<Rightarrow> finish_with lib env claim c w)"

lemma deliver_claimed_answer:
  assumes "dv_dropped env \<noteq> Some At_Load" and "dv_bundle env = Some artifact"
    and "(case authorization of Inl e \<Rightarrow> (None, Inl e)
          | Inr token \<Rightarrow> send_report lib routing claim artifact token (dv_reply env)) = (departed, r)"
  shows "deliver_claimed lib routing env authorization claim w =
    after_answer lib env claim r (case departed of None \<Rightarrow> w
      | Some email \<Rightarrow> w\<lparr>mw_departed := \<lparr>rd_claim = claim, rd_email = email,
          rd_reply = dv_reply env, rd_db = mw_db w\<rparr> # mw_departed w\<rparr>)"
  unfolding deliver_claimed_def after_answer_def assms(2,3) Let_def option.case prod.case
  using assms(1) by simp

lemma answer_steps:
  "steps (mail_step lib routing) (s\<lparr>ms_answers := (claim, r) # ms_answers s\<rparr>)
     (with_world s (snd (after_answer lib env claim r (world_of s))))"
proof -
  have lost: "steps (mail_step lib routing) (s\<lparr>ms_answers := (claim, r) # ms_answers s\<rparr>) s"
    using mail_step.lose_answer [of lib routing "s\<lparr>ms_answers := (claim, r) # ms_answers s\<rparr>" "(claim, r)"]
    by (simp add: steps_single)
  show ?thesis
    using lost finish_steps [of claim env r]
    by (auto simp: after_answer_def split: sum.splits option.splits)
qed

lemma send_report_stays:
  "send_report lib routing claim bundle token reply = (None, r) \<Longrightarrow> \<exists>e. r = Inl e"
  by (auto simp: send_report_def gmail_send_def wrap_err_def
      split: sum.splits if_splits failure.splits)

lemma claimed_steps:
  "steps (mail_step lib routing) (s\<lparr>ms_held := claim # ms_held s\<rparr>)
     (with_world s (snd (deliver_claimed lib routing env authorization claim (world_of s))))"
proof -
  let ?s = "s\<lparr>ms_held := claim # ms_held s\<rparr>"
  have stay: "steps (mail_step lib routing) ?s
      (with_world s (snd (after_answer lib env claim (Inl e) (world_of s))))" for e
  proof -
    have "mail_step lib routing ?s (s\<lparr>ms_answers := (claim, Inl e) # ms_answers s\<rparr>)"
      using mail_step.stay [of claim ?s lib routing e] by simp
    then show ?thesis
      by (rule mail_step_then [OF _ answer_steps])
  qed
  have sent: "steps (mail_step lib routing) ?s (with_world s (snd (after_answer lib env claim r
      (world_of (s\<lparr>ms_departed := \<lparr>rd_claim = claim, rd_email = email, rd_reply = dv_reply env,
        rd_db = ms_db s\<rparr> # ms_departed s\<rparr>)))))"
    if "send_report lib routing claim artifact token (dv_reply env) = (Some email, r)"
    for artifact token email r
  proof -
    let ?t = "s\<lparr>ms_departed := \<lparr>rd_claim = claim, rd_email = email, rd_reply = dv_reply env,
        rd_db = ms_db s\<rparr> # ms_departed s\<rparr>"
    have "mail_step lib routing ?s (?t\<lparr>ms_answers := (claim, r) # ms_answers ?t\<rparr>)"
      using mail_step.depart [of claim ?s lib routing, OF _ that] by (cases s) simp
    from mail_step_then [OF this answer_steps] show ?thesis
      by (simp add: with_world_def)
  qed
  show ?thesis
  proof (cases "dv_dropped env = Some At_Load")
    case True
    then show ?thesis
      using mail_step.lose_claim [of lib routing ?s claim]
      by (simp add: deliver_claimed_def steps_single)
  next
    case loaded: False
    show ?thesis
    proof (cases "dv_bundle env")
      case None
      have "mail_step lib routing ?s (s\<lparr>ms_answers := (claim, Inl (Err Del_Message)) # ms_answers s\<rparr>)"
        using mail_step.stay [of claim ?s lib routing "Err Del_Message"] by simp
      moreover have "completion_of claim (dv_finished_at env) (Inl (Err Del_Message))
          = Ok (Some (Record_Permanent Class_InvalidArtifact))"
        by (simp add: completion_of_def known_failure_def permanent_class_def)
      ultimately show ?thesis
        using loaded None finish_steps mail_step_then by (simp add: deliver_claimed_def)
    next
      case (Some artifact)
      obtain departed r where send: "(case authorization of Inl e \<Rightarrow> (None, Inl e)
          | Inr token \<Rightarrow> send_report lib routing claim artifact token (dv_reply env)) = (departed, r)"
        by (metis surj_pair)
      note unfold = deliver_claimed_answer [OF loaded Some send]
      show ?thesis
      proof (cases departed)
        case None
        with send obtain e where "r = Inl e"
          by (auto split: sum.splits dest: send_report_stays)
        with None stay show ?thesis
          by (simp add: unfold)
      next
        case email: (Some email)
        with send obtain token where
          "send_report lib routing claim artifact token (dv_reply env) = (Some email, r)"
          by (auto split: sum.splits)
        from sent [OF this] email show ?thesis
          by (simp add: unfold) (simp add: world_of_def)
      qed
    qed
  qed
qed

lemma deliver_one_steps:
  "steps (mail_step lib routing) s (with_world s (snd (deliver_one lib routing env (world_of s))))"
proof -
  obtain r db where claim: "claim_ready lib (dv_claim env) (dv_started_at env) (ms_db s) = (r, db)"
    by (metis surj_pair)
  let ?t = "s\<lparr>ms_db := db\<rparr>"
  have lost: "steps (mail_step lib routing) s ?t"
    by (rule steps_single) (rule mail_step.claim_lost [OF claim])
  have held: "steps (mail_step lib routing) s (with_world s (snd (deliver_claimed lib routing env
      authorization c (world_of ?t))))" if "r = Ok (Some c)" for c authorization
  proof -
    have "mail_step lib routing s (?t\<lparr>ms_held := c # ms_held ?t\<rparr>)"
      using mail_step.claim [of lib "dv_claim env" "dv_started_at env" s c db] claim that by simp
    from mail_step_then [OF this claimed_steps] show ?thesis
      by (simp add: with_world_def)
  qed
  have idle: "with_world s (world_of ?t) = ?t"
    by (simp add: with_world_def world_of_def)
  have claimed: "(world_of s)\<lparr>mw_db := db\<rparr> = world_of ?t"
    by (simp add: world_of_def)
  show ?thesis
    using lost held claim
    by (auto simp: deliver_one_def Let_def claimed idle map_err_def steps_refl
        split: sum.splits option.splits failure.splits)
qed

lemma deliver_loop_steps:
  "steps (mail_step lib routing) s
     (with_world s (snd (deliver_loop lib routing envs n attempts (world_of s))))"
proof (induction n arbitrary: attempts s)
  case (Suc n)
  obtain stop env where e: "envs (unat attempts) = (stop, env)"
    by (metis surj_pair)
  obtain r w where one: "deliver_one lib routing env (world_of s) = (r, w)"
    by (metis surj_pair)
  have this_one: "steps (mail_step lib routing) s (with_world s w)"
    using deliver_one_steps [of lib routing s env] one by simp
  moreover from steps_trans [OF this_one Suc.IH]
  have "steps (mail_step lib routing) s
      (with_world s (snd (deliver_loop lib routing envs n (attempts + 1) w)))"
    by simp
  ultimately show ?case
    by (auto simp: e one steps_refl split: sum.splits option.splits)
qed (simp add: steps_refl)


section \<open>The sample\<close>

definition sample_state :: "mail_world \<Rightarrow> mail_state" where
  "sample_state w = \<lparr>ms_db = mw_db w, ms_departed = mw_departed w, ms_held = [], ms_answers = []\<rparr>"

lemma sample_empty:
  "reach mail_start (mail_step sample_report_lib sample_routing)
     (sample_state \<lparr>mw_db = empty_outbox, mw_departed = []\<rparr>)"
  by (rule reach_init) (simp add: mail_start_def sample_state_def)

lemma sample_db_step:
  assumes "reach mail_start (mail_step sample_report_lib sample_routing)
      (sample_state \<lparr>mw_db = db, mw_departed = []\<rparr>)"
  shows "reach mail_start (mail_step sample_report_lib sample_routing)
      (sample_state \<lparr>mw_db = snd (create_planned call d db), mw_departed = []\<rparr>)"
    and "reach mail_start (mail_step sample_report_lib sample_routing)
      (sample_state \<lparr>mw_db = snd (start_generation sample_report_lib call i db), mw_departed = []\<rparr>)"
    and "reach mail_start (mail_step sample_report_lib sample_routing)
      (sample_state \<lparr>mw_db = snd (mark_ready sample_report_lib call i a db), mw_departed = []\<rparr>)"
proof -
  let ?s = "sample_state \<lparr>mw_db = db, mw_departed = []\<rparr>"
  have db: "ms_db ?s = db" "?s\<lparr>ms_db := db'\<rparr> = sample_state \<lparr>mw_db = db', mw_departed = []\<rparr>" for db'
    by (simp_all add: sample_state_def)
  show "reach mail_start (mail_step sample_report_lib sample_routing)
      (sample_state \<lparr>mw_db = snd (create_planned call d db), mw_departed = []\<rparr>)"
    by (rule reach_step [OF assms mail_step.plan [of call d ?s, unfolded db]]) (rule prod.collapse [symmetric])
  show "reach mail_start (mail_step sample_report_lib sample_routing)
      (sample_state \<lparr>mw_db = snd (start_generation sample_report_lib call i db), mw_departed = []\<rparr>)"
    by (rule reach_step [OF assms mail_step.generate [of sample_report_lib call i ?s, unfolded db]])
      (rule prod.collapse [symmetric])
  show "reach mail_start (mail_step sample_report_lib sample_routing)
      (sample_state \<lparr>mw_db = snd (mark_ready sample_report_lib call i a db), mw_departed = []\<rparr>)"
    by (rule reach_step [OF assms mail_step.make_ready [of sample_report_lib call i a ?s, unfolded db]])
      (rule prod.collapse [symmetric])
qed

lemma sample_report_reached:
  "reach mail_start (mail_step sample_report_lib sample_routing) (sample_state sample_start)"
proof -
  have "reach mail_start (mail_step sample_report_lib sample_routing)
      (sample_state \<lparr>mw_db = sample_prepared, mw_departed = []\<rparr>)"
    unfolding sample_prepared_def
    by (rule sample_db_step(3) [OF sample_db_step(2) [OF sample_db_step(1)
        [OF sample_empty [unfolded empty_outbox_def]]]])
  moreover have "\<lparr>mw_db = sample_prepared, mw_departed = []\<rparr> = sample_start"
    by (simp add: sample_prepared_tables sample_start_def)
  ultimately show ?thesis by simp
qed

lemma sample_attempt_reached:
  assumes "reach mail_start (mail_step sample_report_lib sample_routing) (sample_state w)"
  shows "reach mail_start (mail_step sample_report_lib sample_routing)
    (sample_state (snd (deliver_one sample_report_lib sample_routing env w)))"
proof -
  have "world_of (sample_state w) = w" "with_world (sample_state w) w' = sample_state w'" for w'
    by (simp_all add: world_of_def with_world_def sample_state_def)
  with reach_steps [OF assms deliver_one_steps] show ?thesis
    by metis
qed

lemma sample_second_reached:
  "reach mail_start (mail_step sample_report_lib sample_routing) (sample_state sample_second)"
  unfolding sample_second_def sample_first_def
  by (intro sample_attempt_reached sample_report_reached)

lemma sample_departures:
  "map (\<lambda>d. (rate_limited d, attempt_of d, cl_covered_keys (rd_claim d))) (mw_departed sample_second)
   = [(False, 2, [sample_key]), (True, 1, [sample_key])]"
  by code_simp

end
