(* ===== verification/Report_Correct.thy ===== *)
theory Report_Correct
  imports Report_Pass
begin

text \<open>
  The delivery of reports: how often a report may leave, what is durable before it leaves, and
  the tables and the worker as refinements.
\<close>


section \<open>One batch for a report\<close>

lemma row_version:
  assumes "outbox_inv db" and "batch_of i db = Some b" and "c \<in> set (coverage_of i db)"
  shows "0 < co_report_version c \<and> co_report_version c < 2 ^ 31"
proof -
  have "batch_inv db b" "ba_id b = i"
    using outbox_inv_batch [OF assms(1,2)] by simp_all
  with assms(3) show ?thesis
    by (auto simp: batch_inv_def coverage_inv_def batch_check_def)
qed

lemma shared_key:
  assumes inv: "outbox_inv db" and "records_of db i = Some r" and "records_of db j = Some q"
    and "k \<in> set (dr_covered_keys r)" and "k \<in> set (dr_covered_keys q)"
  shows "i = j"
proof -
  from assms(2,4) obtain b c where b: "batch_of i db = Some b" and c: "c \<in> set (coverage_of i db)"
      "key_of_row c = k"
    by (auto simp: records_of_Some)
  from assms(3,5) obtain b' c' where b': "batch_of j db = Some b'"
    and c': "c' \<in> set (coverage_of j db)" "key_of_row c' = k"
    by (auto simp: records_of_Some)
  note v = row_version [OF inv b c(1)] row_version [OF inv b' c'(1)]
  have "(word_of_int (co_report_version c) :: u32) = word_of_int (co_report_version c')"
    using c(2) c'(2) by (auto simp: key_of_row_def report_key_of_def)
  then have "co_report_version c = co_report_version c'"
    using v by (simp add: word_of_int_eq_iff take_bit_int_eq_self)
  with c(2) c'(2) have "occurrence_of c = occurrence_of c'"
    by (auto simp: key_of_row_def report_key_of_def occurrence_of_def)
  moreover have "c \<in> set (ob_coverage db)" "c' \<in> set (ob_coverage db)"
      "co_batch_id c = i" "co_batch_id c' = j"
    using c(1) c'(1) by (auto simp: coverage_of_def)
  ultimately show ?thesis
    using inv by (auto simp: outbox_inv_def distinct_map dest: inj_onD)
qed

lemma departures_share_batch:
  assumes "mail_inv lib s" and "d \<in> set (ms_departed s)" and "d' \<in> set (ms_departed s)"
    and "k \<in> set (cl_covered_keys (rd_claim d))" and "k \<in> set (cl_covered_keys (rd_claim d'))"
  shows "batch_id_of d = batch_id_of d'"
  using mail_inv_departed [OF assms(1,2)] mail_inv_departed [OF assms(1,3)] assms(4,5)
    shared_key [OF mail_inv_db [OF assms(1)]]
  by (auto simp: departure_ok_def)

lemma departure_attempt:
  assumes "mail_inv lib s" and "d \<in> set (ms_departed s)"
  shows "0 < unat (attempt_of d) \<and> unat (attempt_of d) \<le> 5"
proof -
  from mail_inv_departed [OF assms] obtain r where
      r: "records_of (ms_db s) (batch_id_of d) = Some r" "departure_ok d r"
    by blast
  then obtain b where b: "batch_of (batch_id_of d) (ms_db s) = Some b"
      "r = record_of (coverage_of (batch_id_of d) (ms_db s)) b"
    by (auto simp: records_of_Some)
  have "batch_check b"
    using outbox_inv_batch [OF mail_inv_db [OF assms(1)] b(1)] by (simp add: batch_inv_def)
  note n = idle_columns(3,4) [OF this]
  then have "unat (dr_attempts r) \<le> 5"
    by (simp add: b(2) unsigned_of_int take_bit_int_eq_self)
  with r(2) show ?thesis
    by (simp add: departure_ok_def word_le_nat_alt unat_gt_0)
qed

lemma decreasing_length:
  "sorted_wrt (\<lambda>x y. y < x) xs \<Longrightarrow> \<forall>x \<in> set xs. 0 < x \<and> x \<le> n \<Longrightarrow> length xs \<le> (n :: nat)"
proof -
  assume "sorted_wrt (\<lambda>x y. y < x) xs" and bounds: "\<forall>x \<in> set xs. 0 < x \<and> x \<le> n"
  then have "distinct xs"
    by (induction xs) auto
  then have "length xs = card (set xs)"
    by (simp add: distinct_card)
  also have "\<dots> \<le> card {1..n}"
    using bounds by (intro card_mono) auto
  finally show ?thesis by simp
qed

text \<open>
  C7. A report leaves at most once, unless Gmail refused it for its rate limit: of two messages
  that cover the same report key, whatever workers, planners, operators and lost connections
  there are, the earlier one was answered 429 and belongs to an earlier attempt of the same
  batch. A message whose fate is unknown is never sent again.\<close>

theorem report_sent_at_most_once:
  assumes "reach mail_start (mail_step lib routing) s"
    and "ms_departed s = later @ d # earlier" and "d' \<in> set earlier"
    and "k \<in> set (cl_covered_keys (rd_claim d))" and "k \<in> set (cl_covered_keys (rd_claim d'))"
  shows "rate_limited d' \<and> batch_id_of d' = batch_id_of d \<and> attempt_of d' < attempt_of d"
proof -
  have inv: "mail_inv lib s"
    by (rule mail.reach_inv [OF assms(1)])
  then have "batch_id_of d = batch_id_of d'"
    using assms(2-5) by (intro departures_share_batch) auto
  moreover have "later_attempt d d'"
    using inv assms(2,3) by (simp add: mail_inv_def sorted_wrt_append)
  ultimately show ?thesis
    by (simp add: later_attempt_def)
qed

theorem report_sent_at_most_once_witness:
  "\<exists>d d'. mw_departed sample_second = [d, d'] \<and> \<not> rate_limited d \<and>
     rate_limited d' \<and> batch_id_of d' = batch_id_of d \<and> attempt_of d' < attempt_of d"
proof -
  obtain d d' where ds: "mw_departed sample_second = [d, d']" "\<not> rate_limited d"
      "cl_covered_keys (rd_claim d) = [sample_key]" "cl_covered_keys (rd_claim d') = [sample_key]"
    using sample_departures by (auto simp: map_eq_Cons_conv)
  then have "ms_departed (sample_state sample_second) = [] @ d # [d']"
    by (simp add: sample_state_def)
  from report_sent_at_most_once [OF sample_second_reached this, of d' sample_key] ds show ?thesis
    by simp
qed

text \<open>
  C38. At most five messages that cover a report key ever leave.\<close>

theorem delivery_budget:
  assumes "reach mail_start (mail_step lib routing) s"
  shows "length (filter (\<lambda>d. k \<in> set (cl_covered_keys (rd_claim d))) (ms_departed s)) \<le> 5"
proof -
  let ?ds = "filter (\<lambda>d. k \<in> set (cl_covered_keys (rd_claim d))) (ms_departed s)"
  have inv: "mail_inv lib s"
    by (rule mail.reach_inv [OF assms])
  then have "sorted_wrt later_attempt ?ds"
    by (simp add: mail_inv_def sorted_wrt_filter)
  then have "sorted_wrt (\<lambda>d d'. unat (attempt_of d') < unat (attempt_of d)) ?ds"
    by (rule sorted_wrt_mono_rel [rotated])
      (use departures_share_batch [OF inv] in \<open>auto simp: later_attempt_def word_less_nat_alt\<close>)
  then have "sorted_wrt (\<lambda>x y. y < x) (map (\<lambda>d. unat (attempt_of d)) ?ds)"
    by (simp add: sorted_wrt_map)
  from decreasing_length [OF this, of 5] show ?thesis
    using departure_attempt [OF inv] by simp
qed

theorem delivery_budget_witness:
  "length (filter (\<lambda>d. sample_key \<in> set (cl_covered_keys (rd_claim d))) (mw_departed sample_second)) \<le> 5"
  using delivery_budget [OF sample_second_reached] by (simp add: sample_state_def)


section \<open>The tables refine the record\<close>

text \<open>
  The transitions of \<open>outbox.rs\<close>, and two that the tables add: a transient failure with no time
  left for a retry is final, and an operator may suppress a message whose fate is unknown.
\<close>

inductive record_step ::
  "report_libraries \<Rightarrow> delivery_record option \<Rightarrow> delivery_record option \<Rightarrow> bool"
  for lib :: report_libraries where
  planned: "delivery_planned d = Ok r \<Longrightarrow> record_step lib None (Some r)"
| started: "delivery_start_generation t r = Ok r' \<Longrightarrow> record_step lib (Some r) (Some r')"
| readied: "delivery_mark_ready (pl_parse_date lib) t a r = Ok r' \<Longrightarrow> record_step lib (Some r) (Some r')"
| claimed: "delivery_claim_send t r = Ok r' \<Longrightarrow> record_step lib (Some r) (Some r')"
| sent: "delivery_record_sent msg r = Ok r' \<Longrightarrow> record_step lib (Some r) (Some r')"
| failed: "delivery_record_failure t cls retry r = Ok r' \<Longrightarrow> record_step lib (Some r) (Some r')"
| exhausted: "dr_status r = St_Sending \<Longrightarrow> is_transient cls \<Longrightarrow>
    record_step lib (Some r) (Some (r\<lparr>dr_last_error := Some cls, dr_status := St_PermanentFailure\<rparr>))"
| suppressed: "dr_status r = St_Sending \<Longrightarrow>
    record_step lib (Some r) (Some (r\<lparr>dr_status := St_PermanentFailure, dr_last_error := None\<rparr>))"

definition one_record_step :: "report_libraries \<Rightarrow> outbox_db \<Rightarrow> outbox_db \<Rightarrow> bool" where
  "one_record_step lib db db' \<longleftrightarrow>
     records_of db' = records_of db \<or>
     (\<exists>i r'. record_step lib (records_of db i) (Some r') \<and> records_of db' = (records_of db)(i \<mapsto> r'))"


lemma one_record_same [simp]: "one_record_step lib db db"
  by (simp add: one_record_step_def)







section \<open>The worker refines the machine\<close>

text \<open>
  C17. A pass of the worker is a run of the machine: the probe, the claim, the message and the
  record of the outcome, for up to sixteen batches, with any replies, with lost connections and
  with the worker dropped at any await, are steps of the machine over the same tables and the
  same departures, and the worker holds no claim at its end.\<close>

theorem delivery_pass_steps:
  "steps (mail_step lib routing) s
     (s\<lparr>ms_db := mw_db (snd (deliver_ready lib routing envs
          \<lparr>mw_db = ms_db s, mw_departed = ms_departed s\<rparr>)),
        ms_departed := mw_departed (snd (deliver_ready lib routing envs
          \<lparr>mw_db = ms_db s, mw_departed = ms_departed s\<rparr>))\<rparr>)"
  using deliver_loop_steps [of lib routing s envs MAX_DELIVERIES_PER_PASS 0]
  by (simp add: deliver_ready_def world_of_def with_world_def)

end
