(* ===== verification/Report_Duties.thy ===== *)
theory Report_Duties
  imports Report_Correct
begin

text \<open>
  What holds of each message and of each due report: what is durable before a message leaves and
  where it goes, the address book, that a due report is planned, and the ends of a delivery that
  its comments describe differently.
\<close>


section \<open>Before a message leaves\<close>

definition departed_well :: "mail_routing \<Rightarrow> report_departure \<Rightarrow> bool" where
  "departed_well routing d \<longleftrightarrow>
     (\<exists>r. records_of (rd_db d) (batch_id_of d) = Some r \<and> claim_ok (rd_claim d) r) \<and>
     (\<exists>route. resolve_route routing (cl_recipient_id (rd_claim d)) = Ok route \<and>
        em_sender (rd_email d) = mr_sender route \<and> em_recipient (rd_email d) = mr_recipient route) \<and>
     (\<exists>key. cl_covered_keys (rd_claim d) = [key] \<and>
        rk_recipient_id key = cl_recipient_id (rd_claim d))"

lemma send_report_to:
  assumes "send_report lib routing c artifact token reply = (Some email, r)"
  shows "\<exists>route. resolve_route routing (cl_recipient_id c) = Ok route \<and>
      em_sender email = mr_sender route \<and> em_recipient email = mr_recipient route"
    and "\<exists>key. cl_covered_keys c = [key] \<and> rk_recipient_id key = cl_recipient_id c"
proof -
  from assms obtain route where route: "resolve_route routing (cl_recipient_id c) = Ok route"
    and mail: "build_report_email lib (mr_sender route) (mr_recipient route) c artifact = Ok email"
    by (auto simp: send_report_def result_elim map_err_Ok split: sum.splits prod.splits if_splits)
  from mail obtain key where "cl_covered_keys c = [key]" "rk_recipient_id key = cl_recipient_id c"
      "em_sender email = mr_sender route" "em_recipient email = mr_recipient route"
    by (auto simp: build_report_email_def result_elim split: list.splits)
  with route show "\<exists>route. resolve_route routing (cl_recipient_id c) = Ok route \<and>
      em_sender email = mr_sender route \<and> em_recipient email = mr_recipient route"
    "\<exists>key. cl_covered_keys c = [key] \<and> rk_recipient_id key = cl_recipient_id c"
    by simp_all
qed

lemma departures_well:
  "reach mail_start (mail_step lib routing) s \<Longrightarrow> \<forall>d \<in> set (ms_departed s). departed_well routing d"
proof (induction rule: reach.induct)
  case (reach_init s)
  then show ?case by (simp add: mail_start_def)
next
  case (reach_step s t)
  have inv: "mail_inv lib s"
    by (rule mail.reach_inv [OF reach_step(1)])
  from reach_step(2) show ?case
  proof cases
    case (depart c artifact token reply email r)
    have "\<exists>r. records_of (ms_db s) (cl_batch_id c) = Some r \<and> claim_ok c r"
      using mail_inv_claim [OF inv] depart(2) by (simp add: claims_of_def)
    then have "departed_well routing
        \<lparr>rd_claim = c, rd_email = email, rd_reply = reply, rd_db = ms_db s\<rparr>"
      using send_report_to [OF depart(3)] by (simp add: departed_well_def)
    with depart(1) reach_step.IH show ?thesis by simp
  qed (use reach_step.IH in simp_all)
qed

text \<open>
  C18. No message leaves on the word of a worker alone: when it left, the tables already held the
  batch with this attempt counted and no longer ready to be claimed; it covers one report, it is
  addressed to the recipient of that report by the address book, and comes from its sender.\<close>

theorem durable_before_departure:
  assumes "reach mail_start (mail_step lib routing) s" and "d \<in> set (ms_departed s)"
  shows "\<exists>r route key. records_of (rd_db d) (cl_batch_id (rd_claim d)) = Some r \<and>
    dr_attempts r = cl_attempt_no (rd_claim d) \<and>
    dr_status r \<in> {St_Sending, St_Sent, St_PermanentFailure} \<and>
    cl_covered_keys (rd_claim d) = [key] \<and> set (dr_covered_keys r) = {key} \<and>
    resolve_route routing (rk_recipient_id key) = Ok route \<and>
    em_sender (rd_email d) = mr_sender route \<and> em_recipient (rd_email d) = mr_recipient route"
  using departures_well [OF assms(1)] assms(2)
  by (fastforce simp: departed_well_def claim_ok_def closing_def)

theorem durable_before_departure_witness:
  "\<exists>d r route key. d \<in> set (mw_departed sample_second) \<and>
     records_of (rd_db d) (cl_batch_id (rd_claim d)) = Some r \<and>
     dr_attempts r = cl_attempt_no (rd_claim d) \<and> set (dr_covered_keys r) = {key} \<and>
     resolve_route sample_routing (rk_recipient_id key) = Ok route \<and>
     em_recipient (rd_email d) = mr_recipient route"
proof -
  obtain d where d: "d \<in> set (mw_departed sample_second)"
    using sample_departures by (cases "mw_departed sample_second") auto
  then have "d \<in> set (ms_departed (sample_state sample_second))"
    by (simp add: sample_state_def)
  from durable_before_departure [OF sample_second_reached this] d show ?thesis
    by blast
qed


section \<open>The address book\<close>

lemma routes_by_name_Ok:
  assumes "routes_by_name rs m = Ok by_name" and "btree_invar m"
  shows "btree_invar by_name" and "btree_get by_name = (btree_get m) ++ map_of (map (\<lambda>r. (re_name r, re_address r)) rs)"
    and "distinct (map re_name rs)"
    and "\<forall>r \<in> set rs. btree_get m (re_name r) = None"
proof -
  have "btree_invar by_name \<and>
      btree_get by_name = (btree_get m) ++ map_of (map (\<lambda>r. (re_name r, re_address r)) rs) \<and>
      distinct (map re_name rs) \<and> (\<forall>r \<in> set rs. btree_get m (re_name r) = None)"
    using assms
  proof (induction rs arbitrary: m)
    case (Cons r rs)
    from Cons.prems(1) have free: "btree_get m (re_name r) = None"
      and rest: "routes_by_name rs (btree_insert (re_name r) (re_address r) m) = Ok by_name"
      by (auto simp: result_elim)
    note get = btree_get_insert [OF Cons.prems(2), of "re_name r" "re_address r"]
    note IH = Cons.IH [OF rest btree_insert_invar [OF Cons.prems(2)], unfolded get]
    then have other: "re_name q \<noteq> re_name r \<and> btree_get m (re_name q) = None" if "q \<in> set rs" for q
      using that by (force split: if_splits)
    then have "map_of (map (\<lambda>r. (re_name r, re_address r)) rs) (re_name r) = None"
      by (force simp: map_of_eq_None_iff)
    then have "(btree_get m)(re_name r \<mapsto> re_address r) ++ map_of (map (\<lambda>r. (re_name r, re_address r)) rs)
        = (btree_get m) ++ map_of (map (\<lambda>r. (re_name r, re_address r)) (r # rs))"
      by (auto simp: fun_eq_iff map_add_def split: option.splits)
    then have "btree_get by_name = (btree_get m) ++ map_of (map (\<lambda>r. (re_name r, re_address r)) (r # rs))"
      using IH by metis
    moreover have "distinct (map re_name (r # rs))"
      using conjunct1 [OF conjunct2 [OF conjunct2 [OF IH]]] other
      by simp (metis imageE)
    moreover have "\<forall>q \<in> set (r # rs). btree_get m (re_name q) = None"
      using free other by auto
    ultimately show ?case
      using conjunct1 [OF IH] by blast
  qed simp
  then show "btree_invar by_name" "btree_get by_name = (btree_get m) ++ map_of (map (\<lambda>r. (re_name r, re_address r)) rs)"
      "distinct (map re_name rs)" "\<forall>r \<in> set rs. btree_get m (re_name r) = None"
    by blast+
qed

lemma take_recipients_Ok:
  assumes "take_recipients as by_name m = Ok recipients" and "btree_invar m"
    and "distinct (map ap_id as)"
  shows "btree_get recipients = (btree_get m) ++ map_of (map (\<lambda>a. (ap_id a, the (btree_get by_name (ap_email_env a)))) as)
    \<and> (\<forall>a \<in> set as. btree_get by_name (ap_email_env a) \<noteq> None) \<and> distinct (map ap_email_env as)"
  using assms
proof (induction as arbitrary: by_name m)
  case (Cons a as)
  from Cons.prems(1) obtain address where here: "btree_get by_name (ap_email_env a) = Some address"
    and rest: "take_recipients as (btree_remove (ap_email_env a) by_name)
      (btree_insert (ap_id a) address m) = Ok recipients"
    by (auto simp: result_elim)
  note get = btree_get_insert [OF Cons.prems(2), of "ap_id a" address]
  have "distinct (map ap_id as)"
    using Cons.prems(3) by simp
  note R = Cons.IH [OF rest btree_insert_invar [OF Cons.prems(2)] this, unfolded get]
  note IH = conjunct1 [OF R] and found = conjunct1 [OF conjunct2 [OF R]]
    and dist = conjunct2 [OF conjunct2 [OF R]]
  from found have other: "ap_email_env b \<noteq> ap_email_env a \<and> btree_get by_name (ap_email_env b) \<noteq> None"
    if "b \<in> set as" for b
    using that by (auto simp: btree_get_remove split: if_splits)
  then have same: "map (\<lambda>b. (ap_id b, the (btree_get (btree_remove (ap_email_env a) by_name) (ap_email_env b)))) as
      = map (\<lambda>b. (ap_id b, the (btree_get by_name (ap_email_env b)))) as"
    by (simp add: btree_get_remove)
  have "ap_id a \<notin> dom (map_of (map (\<lambda>b. (ap_id b, the (btree_get by_name (ap_email_env b)))) as))"
    using Cons.prems(3) by (simp add: dom_map_of_conv_image_fst image_image)
  note map_add_upd_left [OF this]
  then have "btree_get recipients = (btree_get m) ++
      map_of (map (\<lambda>b. (ap_id b, the (btree_get by_name (ap_email_env b)))) (a # as))"
    unfolding IH same using here by (simp add: map_add_upd del: fun_upd_apply)
  with here other dist show ?case
    by force
qed simp

lemma btree_get_empty: "btree_get [] = Map.empty"
  by (simp add: fun_eq_iff btree_get_def)

definition address_in :: "routing_document \<Rightarrow> string \<Rightarrow> string" where
  "address_in document name = the (map_of (map (\<lambda>r. (re_name r, re_address r)) (rd_routes document)) name)"

lemma routing_from_document_Ok:
  assumes "routing_from_document document policy = Ok routing"
    and "distinct (map ap_id (rp_audiences policy))"
  shows "distinct (map re_name (rd_routes document))"
    and "set (map re_name (rd_routes document)) =
      insert (rp_sender_email_env policy) (ap_email_env ` set (rp_audiences policy))"
    and "distinct (rp_sender_email_env policy # map ap_email_env (rp_audiences policy))"
    and "mo_sender routing = address_in document (rp_sender_email_env policy)"
    and "btree_get (mo_recipients routing) =
      map_of (map (\<lambda>a. (ap_id a, address_in document (ap_email_env a))) (rp_audiences policy))"
proof -
  let ?sender = "rp_sender_email_env policy" and ?as = "rp_audiences policy"
  from assms(1) obtain by_name recipients where
      routes: "routes_by_name (rd_routes document) [] = Ok by_name"
    and keys: "set (btree_keys by_name) = insert ?sender (ap_email_env ` set ?as)"
    and sender: "btree_get by_name ?sender = Some (mo_sender routing)"
    and take: "take_recipients ?as (btree_remove ?sender by_name) [] = Ok (mo_recipients routing)"
    by (auto simp: routing_from_document_def result_elim)
  have empty: "btree_invar []"
    by (simp add: btree_invar_def)
  have get: "btree_get by_name = map_of (map (\<lambda>r. (re_name r, re_address r)) (rd_routes document))"
    using routes_by_name_Ok(2) [OF routes empty] by (simp add: btree_get_empty)
  show dist: "distinct (map re_name (rd_routes document))"
    by (rule routes_by_name_Ok(3) [OF routes empty])
  have "set (btree_keys by_name) = dom (btree_get by_name)"
    by (auto simp: btree_keys_def btree_get_def dom_def map_of_eq_None_iff simp flip: not_None_eq)
  then show "set (map re_name (rd_routes document)) = insert ?sender (ap_email_env ` set ?as)"
    using keys by (simp add: get dom_map_of_conv_image_fst image_image)
  note R = take_recipients_Ok [OF take empty assms(2)]
  have other: "ap_email_env a \<noteq> ?sender" if "a \<in> set ?as" for a
    using conjunct1 [OF conjunct2 [OF R]] that by (auto simp: btree_get_remove)
  then show "distinct (?sender # map ap_email_env ?as)"
    using conjunct2 [OF conjunct2 [OF R]] by simp (metis imageE)
  show "mo_sender routing = address_in document ?sender"
    using sender by (simp add: address_in_def get)
  have same: "map (\<lambda>a. (ap_id a, the (btree_get (btree_remove ?sender by_name) (ap_email_env a)))) ?as
      = map (\<lambda>a. (ap_id a, address_in document (ap_email_env a))) ?as"
    using other by (simp add: btree_get_remove address_in_def get)
  show "btree_get (mo_recipients routing) =
      map_of (map (\<lambda>a. (ap_id a, address_in document (ap_email_env a))) ?as)"
    using conjunct1 [OF R] unfolding same btree_get_empty by simp
qed

text \<open>
  An address book that loads names exactly the sender and the audiences of the policy, each
  by its own variable and once. An audience is resolved to the address the document has under
  the audience's variable, from the sender's address; no other audience is resolved.\<close>

theorem routing_exact:
  assumes "routing_from_document document policy = Ok routing"
    and "distinct (map ap_id (rp_audiences policy))"
  shows "distinct (rp_sender_email_env policy # map ap_email_env (rp_audiences policy)) \<and>
    distinct (map re_name (rd_routes document)) \<and>
    set (map re_name (rd_routes document)) =
      set (rp_sender_email_env policy # map ap_email_env (rp_audiences policy)) \<and>
    resolve_route routing audience =
      (case map_of (map (\<lambda>a. (ap_id a, ap_email_env a)) (rp_audiences policy)) audience of
         None \<Rightarrow> Error UnknownAudience
       | Some name \<Rightarrow> Ok \<lparr>mr_sender = address_in document (rp_sender_email_env policy),
           mr_recipient = address_in document name\<rparr>)"
proof -
  note R = routing_from_document_Ok [OF assms]
  have routed: "map_of (map (\<lambda>a. (ap_id a, address_in document (ap_email_env a))) as) audience =
      map_option (address_in document) (map_of (map (\<lambda>a. (ap_id a, ap_email_env a)) as) audience)" for as
    by (induction as) simp_all
  show ?thesis
    using R(1-3) by (simp add: resolve_route_def R(4,5) routed split: option.split)
qed

theorem routing_exact_witness:
  "routing_from_document sample_routes sample_policy_document = Ok sample_routing \<and>
   resolve_route sample_routing ''boss'' =
     Ok \<lparr>mr_sender = ''robot@a.ru'', mr_recipient = ''boss@b.ru''\<rparr> \<and>
   resolve_route sample_routing ''other'' = Error UnknownAudience"
proof -
  have routing: "routing_from_document sample_routes sample_policy_document = Ok sample_routing"
    and dist: "distinct (map ap_id (rp_audiences sample_policy_document))"
    by code_simp+
  show ?thesis
    using routing routing_exact [OF routing dist, of "''boss''"]
      routing_exact [OF routing dist, of "''other''"]
    by (simp add: sample_policy_document_def sample_routes_def address_in_def)
qed


section \<open>Planning\<close>

text \<open>One due report: its key, its window and its schedule.\<close>

definition due_slot :: "instant \<Rightarrow> string \<Rightarrow> u32 \<Rightarrow> report_kind \<Rightarrow> int \<Rightarrow> pending_delivery \<Rightarrow> bool" where
  "due_slot now recipient_id version kind hour d \<longleftrightarrow>
     pd_covered_keys d = [report_key_of (report_business_date now) kind recipient_id version] \<and>
     pd_scheduled_for d = local_hour (report_business_date now) hour \<and>
     (kind = Morning \<and> (hour = 8 \<or> hour = 17) \<or> kind = Evening \<and> hour = 17)"

lemma report_key_of_eq [simp]:
  "report_key_of date kind recipient_id version = report_key_of date' kind' recipient_id' version' \<longleftrightarrow>
   date = date' \<and> kind = kind' \<and> recipient_id = recipient_id' \<and> version = version'"
  by (simp add: report_key_of_def)

lemma due_deliveries_slot:
  assumes "due_deliveries now recipient_id version sent = Ok ds" and "d \<in> set ds"
  shows "\<exists>kind hour. due_slot now recipient_id version kind hour d \<and>
    report_key_of (report_business_date now) kind recipient_id version \<notin> sent"
    and "validate_report_identity recipient_id version = Ok ()"
proof -
  show "validate_report_identity recipient_id version = Ok ()"
    using assms(1) by (auto simp: due_deliveries_def result_elim)
  then show "\<exists>kind hour. due_slot now recipient_id version kind hour d \<and>
      report_key_of (report_business_date now) kind recipient_id version \<notin> sent"
    using assms by (auto simp: due_deliveries_def due_slot_def Let_def split: if_splits)
qed

lemma due_slot_planned:
  assumes "due_slot now recipient_id version kind hour d"
    and "validate_report_identity recipient_id version = Ok ()"
  shows "\<exists>r. delivery_planned d = Ok r \<and> dr_scheduled_for r = local_hour (report_business_date now) hour \<and>
    dr_covered_keys r = [report_key_of (report_business_date now) kind recipient_id version]"
  using assms
  by (auto simp: due_slot_def delivery_planned_def keys_deadline_def recovered_morning_schedule_def
      delivery_deadline_def report_key_of_def same_occasion_def map_err_def)

lemma find_append:
  "List.find P (xs @ ys) = (case List.find P xs of None \<Rightarrow> List.find P ys | Some x \<Rightarrow> Some x)"
  by (induction xs) simp_all

lemma fresh_batch:
  assumes "outbox_inv db" and "ob_sequence db < ba_id b"
    and "ob_batches db' = ob_batches db @ [b]"
  shows "batch_of (ba_id b) db' = Some b" and "batch_of (ba_id b) db = None"
    and "\<forall>c \<in> set (ob_coverage db). co_batch_id c \<noteq> ba_id b"
proof -
  have fresh: "\<forall>b' \<in> set (ob_batches db). ba_id b' \<noteq> ba_id b"
    using assms(1,2) by (auto simp: outbox_inv_def batch_inv_def)
  then show none: "batch_of (ba_id b) db = None"
    by (auto simp: batch_of_def find_None_iff)
  show "batch_of (ba_id b) db' = Some b"
    using none by (auto simp: batch_of_def assms(3) find_append)
  show "\<forall>c \<in> set (ob_coverage db). co_batch_id c \<noteq> ba_id b"
    using fresh assms(1) by (auto simp: outbox_inv_def)
qed

lemma planned_inner_free:
  assumes "uint version < 2 ^ 31"
    and "dr_covered_keys r = [report_key_of date kind recipient_id version]"
    and "\<forall>c \<in> set (ob_coverage db). co_recipient_id c = recipient_id \<longrightarrow>
      co_report_version c = uint version \<longrightarrow> co_local_date c = date \<longrightarrow> co_report_kind c \<noteq> kind"
  shows "create_planned_inner call r db =
    insert_planned call r (report_key_of date kind recipient_id version) (uint version) db"
proof -
  let ?existing = "filter (\<lambda>c. co_recipient_id c = recipient_id \<and> co_report_version c = uint version \<and>
    co_local_date c = date) (ob_coverage db)"
  have "kind \<notin> co_report_kind ` set ?existing"
    using assms(3) by auto
  with assms(1) show ?thesis
    by (simp add: create_planned_inner_def assms(2) version_i32_def Let_def report_key_of_def
        split: list.split del: set_filter) (metis image_eqI list.set_intros(1))
qed

text \<open>The plan of a due report succeeds on a live connection.\<close>

lemma create_due:
  assumes inv: "outbox_inv db" and slot: "due_slot now recipient_id version kind hour d"
    and ident: "validate_report_identity recipient_id version = Ok ()" and v: "uint version < 2 ^ 31"
    and free: "\<forall>c \<in> set (ob_coverage db). co_recipient_id c = recipient_id \<longrightarrow>
      co_report_version c = uint version \<longrightarrow> co_local_date c = report_business_date now \<longrightarrow>
      co_report_kind c \<noteq> kind"
    and call: "oc_link call = Connected" "ob_sequence db + int (oc_skipped call) + 1 < 2 ^ 63"
  shows "\<exists>i db'. create_planned call d db = (Ok (Inserted i), db') \<and> batch_of i db' \<noteq> None \<and>
    batch_of i db = None"
proof -
  let ?i = "ob_sequence db + int (oc_skipped call) + 1" and ?date = "report_business_date now"
  let ?key = "report_key_of ?date kind recipient_id version"
  from due_slot_planned [OF slot ident] obtain r where r: "delivery_planned d = Ok r"
      "dr_scheduled_for r = local_hour ?date hour" "dr_covered_keys r = [?key]"
    by blast
  let ?row = "\<lparr>ba_id = ?i, ba_recipient_id = recipient_id, ba_report_version = uint version,
    ba_scheduled_for = dr_scheduled_for r, ba_status = St_Planned, ba_delayed = dr_delayed r,
    ba_attempts = 0, ba_object_key = None, ba_sha256 = None, ba_html_sha256 = None,
    ba_next_attempt_at = None, ba_provider_message_id = None, ba_last_error_class = None,
    ba_created_at = oc_clock call, ba_updated_at = oc_clock call, ba_sent_at = None,
    ba_generation_started_at = None\<rparr>"
  let ?db1 = "db\<lparr>ob_sequence := ?i, ob_batches := ob_batches db @ [?row]\<rparr>"
  let ?c = "planned_row ?i (uint version) r ?key"
  have pos: "0 < uint version"
    using ident by (auto simp: validate_report_identity_def word_gt_0_no uint_0_iff
        order_less_le split: if_splits)
  have "batch_check ?row"
    using ident pos by (auto simp: batch_check_def null_or_def validate_report_identity_def
        split: if_splits)
  then have batch: "insert_batch (oc_clock call) (oc_skipped call) recipient_id (uint version)
      (dr_scheduled_for r) (dr_delayed r) db = Some (?i, ?db1)"
    using call(2) by (simp add: insert_batch_def Let_def)
  have fresh: "batch_of ?i ?db1 = Some ?row" "batch_of ?i db = None"
      "\<forall>c \<in> set (ob_coverage db). co_batch_id c \<noteq> ?i"
    using fresh_batch [OF inv, of ?row ?db1] by simp_all
  have "coverage_schedule_check ?c"
    using slot by (auto simp: coverage_schedule_check_def planned_row_def record_deadline_at_def
        r(2) report_key_of_def due_slot_def Let_def)
  moreover have "\<not> list_ex (\<lambda>c'. occurrence_of c' = occurrence_of ?c) (ob_coverage db)"
    using free by (auto simp: list_ex_iff occurrence_of_def planned_row_def report_key_of_def)
  ultimately have "insert_coverage ?c ?db1 = Some (?db1\<lparr>ob_coverage := ob_coverage db @ [?c]\<rparr>)"
    using fresh by (auto simp: insert_coverage_def planned_row_def report_key_of_def list_ex_iff)
  then have "insert_planned call r ?key (uint version) db
      = Ok (Inserted ?i, ?db1\<lparr>ob_coverage := ob_coverage db @ [?c]\<rparr>)"
    using batch by (simp add: insert_planned_def r(3)) (simp add: report_key_of_def)
  moreover have "create_planned_inner call r db = insert_planned call r ?key (uint version) db"
    by (rule planned_inner_free [OF v r(3) free])
  moreover have "batch_of ?i (?db1\<lparr>ob_coverage := ob_coverage db @ [?c]\<rparr>) \<noteq> None"
    using fresh(1) by (simp add: batch_of_def)
  ultimately show ?thesis
    using call(1) fresh(2) r(1)
    by (simp add: create_planned_def checked_then_def outbox_transaction_def map_err_def)
qed

lemma covered_keys_free:
  assumes "covered_keys call now recipient_id version db = Ok known"
    and "report_key_of (report_business_date now) kind recipient_id version \<notin> known"
    and "c \<in> set (ob_coverage db)" and "co_recipient_id c = recipient_id"
    and "co_report_version c = uint version" and "co_local_date c = report_business_date now"
  shows "co_report_kind c \<noteq> kind"
  using assms
  by (auto simp: covered_keys_def version_i32_def result_elim outbox_query_def Let_def
      split: if_splits)

text \<open>
  C39. A report that is due is planned: of the deliveries the schedule gives for the keys the
  outbox does not cover yet, each one passes the rules of \<open>DeliveryRecord::planned\<close> and the
  checks of the tables, and becomes a new batch of its own, the morning and the evening report of
  a day and a recovered morning report included.\<close>

theorem due_delivery_planned:
  assumes "reach mail_start (mail_step lib routing) s"
    and "covered_keys probe now recipient_id version (ms_db s) = Ok known"
    and "due_for_audience now recipient_id version known = Ok due" and "d \<in> set due"
    and "oc_link call = Connected" and "ob_sequence (ms_db s) + int (oc_skipped call) + 1 < 2 ^ 63"
  shows "\<exists>i r db. create_planned call (sc_delivery d) (ms_db s) = (Ok (Inserted i), db) \<and>
    delivery_planned (sc_delivery d) = Ok r \<and> records_of (ms_db s) i = None \<and>
    records_of db = (records_of (ms_db s))(i \<mapsto> r)"
proof -
  have inv: "outbox_inv (ms_db s)"
    by (rule mail_inv_db [OF mail.reach_inv [OF assms(1)]])
  from assms(3,4) obtain ds where due: "due_deliveries now recipient_id version known = Ok ds"
      "sc_delivery d \<in> set ds"
    by (auto simp: due_for_audience_def result_elim)
  note ident = due_deliveries_slot(2) [OF due]
  from due_deliveries_slot(1) [OF due] obtain kind hour where
      slot: "due_slot now recipient_id version kind hour (sc_delivery d)"
    and key: "report_key_of (report_business_date now) kind recipient_id version \<notin> known"
    by blast
  have "uint version < 2 ^ 31"
    using assms(2) by (auto simp: covered_keys_def version_i32_def result_elim)
  then obtain i db where run: "create_planned call (sc_delivery d) (ms_db s) = (Ok (Inserted i), db)"
    and new: "batch_of i db \<noteq> None" "batch_of i (ms_db s) = None"
    using create_due [OF inv slot ident _ _ assms(5,6)] covered_keys_free [OF assms(2) key] by blast
  from run inv show ?thesis
  proof (rule create_planned_effect)
    assume "db = ms_db s"
    with new show ?thesis by simp
  next
    fix j r
    assume j: "records_of (ms_db s) j = None" "records_of db = (records_of (ms_db s))(j \<mapsto> r)"
      "delivery_planned (sc_delivery d) = Ok r"
    have "records_of db i \<noteq> None" "records_of (ms_db s) i = None"
      using new by (simp_all add: records_of_def)
    with j(2) have "j = i"
      by (auto split: if_splits)
    with run j show ?thesis by blast
  qed
qed

theorem due_delivery_planned_witness:
  "\<exists>(d :: scheduled_delivery) i r db. create_planned (sample_call 5) (sc_delivery d) empty_outbox = (Ok (Inserted i), db) \<and>
     delivery_planned (sc_delivery d) = Ok r \<and> records_of db = (records_of empty_outbox)(i \<mapsto> r)"
proof -
  let ?s = "sample_state \<lparr>mw_db = empty_outbox, mw_departed = []\<rparr>"
  have db: "ms_db ?s = empty_outbox"
    by (simp add: sample_state_def)
  have keys: "covered_keys (sample_call 5) (at_minute 5) ''boss'' 1 empty_outbox = Ok {}"
    by code_simp
  have "case due_for_audience (at_minute 5) ''boss'' 1 {} of Inr (d # ds) \<Rightarrow> True | _ \<Rightarrow> False"
    by code_simp
  then obtain d ds where due: "due_for_audience (at_minute 5) ''boss'' 1 {} = Ok (d # ds)"
    by (auto split: sum.splits list.splits)
  have live: "oc_link (sample_call 5) = Connected"
      "ob_sequence empty_outbox + int (oc_skipped (sample_call 5)) + 1 < 2 ^ 63"
    by (simp_all add: sample_call_def empty_outbox_def)
  from due_delivery_planned [OF sample_empty, unfolded db, OF keys due list.set_intros(1) live]
  obtain i r db' where "create_planned (sample_call 5) (sc_delivery d) empty_outbox = (Ok (Inserted i), db')"
      "delivery_planned (sc_delivery d) = Ok r" "records_of db' = (records_of empty_outbox)(i \<mapsto> r)"
    by (elim exE conjE)
  then show ?thesis
    by (intro exI conjI)
qed


section \<open>Two ends of a delivery\<close>

text \<open>
  C40. After the last attempt the worker reports a retry that will not happen. A rate limit or an
  unavailable token service at the fifth attempt, with time left before the deadline, is
  committed as a permanent failure, while the outcome says that a retry is scheduled.\<close>

theorem last_retry_misreported:
  assumes "outbox_inv (mw_db w)" and "cl_attempt_no claim = MAX_DELIVERY_ATTEMPTS"
    and "permanent_class e = None"
    and "dv_finished_at env + retry_delay MAX_DELIVERY_ATTEMPTS \<le> cl_deadline_at claim"
    and "known_failure claim (dv_finished_at env) e = Ok c"
    and "finish_with lib env claim c w = (Some (Ok outcome), w')"
  shows "outcome = Tick_RetryScheduled (cl_batch_id claim) (cl_attempt_no claim) \<and>
    (\<exists>r. records_of (mw_db w') (cl_batch_id claim) = Some r \<and> dr_status r = St_PermanentFailure)"
proof -
  from assms(2-5) obtain cls retry where c: "c = Record_Transient cls retry"
    by (auto simp: known_failure_def result_elim Let_def)
  obtain res db where run: "run_completion lib (dv_finish env) claim (dv_started_at env)
      (dv_finished_at env) c (mw_db w) = (res, db)"
    by (metis surj_pair)
  with assms(6) have res: "res = Ok ()" and w': "mw_db w' = db"
    and outcome: "outcome = completion_outcome claim c"
    by (auto simp: finish_with_def result_elim split: if_splits)
  from run assms(1) show ?thesis
  proof (rule run_completion_effect)
    fix r r'
    assume r: "changes (mw_db w) db (cl_batch_id claim) r r'" "dr_attempts r = cl_attempt_no claim"
      and "completion_step (dv_finished_at env) c r r'"
    then have "dr_status r' = St_PermanentFailure"
      using assms(2) by (auto simp: c delivery_record_failure_def result_elim)
    with r(1) outcome show ?thesis
      by (simp add: w' c completion_outcome_def changes_def)
  qed (use res in simp)
qed

theorem last_retry_misreported_witness:
  "\<exists>claim w. cl_attempt_no claim = MAX_DELIVERY_ATTEMPTS \<and>
     finish_with sample_report_lib (sample_attempt 100 (sample_response 429 [])) claim
       (Record_Transient Class_RateLimited (at_minute 116))
       \<lparr>mw_db = sample_tables_of St_Sending 5 None None 99 [], mw_departed = []\<rparr>
       = (Some (Ok (Tick_RetryScheduled 1 5)), w) \<and>
     (\<exists>r. records_of (mw_db w) 1 = Some r \<and> dr_status r = St_PermanentFailure)"
proof -
  let ?claim = "\<lparr>cl_batch_id = 1, cl_recipient_id = ''boss'', cl_report_version = 1,
    cl_attempt_no = 5, cl_artifact = sample_artifact, cl_covered_keys = [sample_key],
    cl_deadline_at = local_hour sample_report_day 14\<rparr>"
  let ?w = "\<lparr>mw_db = sample_tables_of St_Sending 5 None None 99 [], mw_departed = []\<rparr>"
  let ?env = "sample_attempt 100 (sample_response 429 [])"
  let ?c = "Record_Transient Class_RateLimited (at_minute 116)"
  have inv: "outbox_inv (mw_db ?w)" and last: "cl_attempt_no ?claim = MAX_DELIVERY_ATTEMPTS"
    and "permanent_class Del_ProviderRateLimited = None"
    and "dv_finished_at ?env + retry_delay MAX_DELIVERY_ATTEMPTS \<le> cl_deadline_at ?claim"
    and "known_failure ?claim (dv_finished_at ?env) Del_ProviderRateLimited = Ok ?c"
    by code_simp+
  note misreported = last_retry_misreported [OF this]
  have "case fst (finish_with sample_report_lib ?env ?claim ?c ?w) of
      Some (Inr outcome) \<Rightarrow> True | _ \<Rightarrow> False"
    by code_simp
  then obtain outcome w' where run: "finish_with sample_report_lib ?env ?claim ?c ?w = (Some (Ok outcome), w')"
    by (cases "finish_with sample_report_lib ?env ?claim ?c ?w") (auto split: option.splits sum.splits)
  from misreported [OF run] run last show ?thesis
    by (intro exI [of _ ?claim] exI [of _ w']) simp
qed

text \<open>
  No delivery is ever recorded as expired: the status exists in the record, in the tables and
  in the comments, and no operation of the outbox sets it, however late a delivery is.\<close>

theorem never_expired:
  assumes "reach mail_start (mail_step lib routing) s" and "records_of (ms_db s) i = Some r"
  shows "dr_status r \<noteq> St_Expired"
  using assms(2) outbox_inv_batch [OF mail_inv_db [OF mail.reach_inv [OF assms(1)]]]
  by (auto simp: records_of_Some batch_inv_def)

theorem never_expired_witness:
  "\<exists>r. records_of (mw_db sample_start) 1 = Some r \<and> dr_status r \<noteq> St_Expired"
proof -
  have "records_of (mw_db sample_start) 1 \<noteq> None"
    by code_simp
  then obtain r where r: "records_of (mw_db sample_start) 1 = Some r" by auto
  then have "records_of (ms_db (sample_state sample_start)) 1 = Some r"
    by (simp add: sample_state_def)
  from never_expired [OF sample_report_reached this] r show ?thesis by simp
qed

end
