(* ===== verification/Spec2Isabelle.thy ===== *)
theory Spec2Isabelle
  imports Wb_Decision_Correct Wb_Feedback_Correct Wb_Execution_Correct Wb_Store_Correct Wb_Store_Ops
    Wb_Client_Correct Wb_Durable_Midnight Ozon_Client_Correct Ozon_Guard_Correct Ozon_Static_Flight
    Ozon_Loop Report_Duties
begin

text \<open>
  A verification of the parts of the marketplace server in \<open>src/\<close> that act on the outside
  world: the Wildberries robot, the static Ozon guard, and the delivery of the daily reports.

  \<^bold>\<open>The program.\<close> The repository is a Rust service around two marketplaces: read-only tools,
  reports, and a control plane that may write. What changes something outside the process is
  the subject here: bids, campaigns and e-mails. The Wildberries robot observes one advertising campaign, decides, and
  changes bids or pauses the campaign, under a policy an operator has reviewed. Its parts call
  each other in this order:

  \<^item> an observer (\<open>src/src/control/automation_observer.rs\<close>) turns collected facts into an
    observation and asks the decision engine (\<open>src/src/control/automation.rs\<close>);
  \<^item> an intent may replace the decision: the feedback controller
    (\<open>automation_executor/feedback.rs\<close>) or an operator's request
    (\<open>automation_executor/explicit_decisions.rs\<close>);
  \<^item> an executor (\<open>automation_executor.rs\<close>) makes the decision durable, sends one write and
    reconciles it later. \<open>run_once\<close> keeps its state in a file, \<open>run_once_postgres\<close> in the
    store (\<open>automation_postgres.rs\<close>, over the tables and triggers of
    \<open>src/position-monitor/initdb/\<close>);
  \<^item> the write client (\<open>src/src/control/wb/client.rs\<close>) holds the pacing slot, asks the shared
    quota (\<open>src/src/marketplace_quota.rs\<close>) and the caller's permit, and sends.

  The static Ozon guard (\<open>src/src/control/ozon/\<close>) watches the campaigns of a reviewed file.
  One process runs one command. The command \<open>run\<close> is a loop; each of its cycles

  \<^item> recovers the changes that an earlier cycle or process left pending
    (\<open>guard_runtime.rs\<close>);
  \<^item> reads which campaigns run, and their statistics, and refuses them unless they are
    complete (\<open>guard_workflow.rs\<close>);
  \<^item> stops each campaign that reached its spend cap or exceeds its DRR (\<open>guard.rs\<close>), or whose
    product is not the reviewed one, and raises the bid of a campaign behind its target
    position (\<open>pacing.rs\<close>, \<open>guard_runtime/static_cycle.rs\<close>);
  \<^item> makes every write durable first, in an audit event of the database
    (\<open>repository.rs\<close>) and in a state file (\<open>static_state.rs\<close>), inside the permit of the write
    client (\<open>client.rs\<close>), and reads the marketplace back after it. A write whose effect is not
    seen becomes an incident, which locks the campaign until the operator reconciles it.

  The report delivery (\<open>src/src/reporting/\<close>) sends each daily report once, by e-mail. Its state
  is an outbox in the database:

  \<^item> the schedule (\<open>mod.rs\<close>, \<open>scheduler.rs\<close>) says which reports are due, and a planner reserves
    a batch for each (\<open>postgres_outbox.rs\<close>);
  \<^item> a generator renders the report and marks the batch ready (\<open>postgres_outbox/generation.rs\<close>);
  \<^item> a worker (\<open>gmail_outbox.rs\<close>) claims a batch, resolves the address (\<open>mail_routing.rs\<close>),
    builds the message (\<open>mail.rs\<close>), sends it through Gmail (\<open>gmail_oauth.rs\<close>, \<open>gmail.rs\<close>,
    \<open>gmail_delivery.rs\<close>) and records the outcome. A message whose fate is unknown stays claimed
    until an operator decides (\<open>postgres_outbox/reconciliation.rs\<close>);
  \<^item> \<open>outbox.rs\<close> has the same life of a delivery as a value; it is the specification of the
    tables.

  \<^bold>\<open>The theories.\<close>

  \<^item> \<open>Prelude\<close>: Rust integers at their width, \<open>Result\<close> values with panics, the string and
    iterator operations the sources use. The release profile of \<open>Cargo.toml\<close> sets
    \<open>overflow-checks\<close>, so a plain overflow is a panic of the model. \<open>Ordered_Map\<close> is the
    contract of \<open>BTreeMap\<close> and its interpretation. \<open>Transition\<close> holds reachability and the
    interface \<open>inductive_invariant\<close>, which every state machine below interprets.
  \<^item> \<open>Business_Calendar\<close>, \<open>Wb_Policy\<close>, \<open>Wb_Decision\<close>: the calendar, the policy with its
    validation, and \<open>evaluate_wb_automation\<close>. \<open>Wb_Decision_Correct\<close> shows that no bid leaves
    the reviewed corridor, that a stopped SKU is never raised, that the protective pause comes
    before every other rule, that every stop is accounted for, and that the engine never
    panics.
  \<^item> \<open>Wb_Observer\<close>, \<open>Wb_Feedback\<close>, \<open>Wb_Explicit\<close>, \<open>Wb_Intent\<close>: the observation and the
    other sources of decisions. \<open>Wb_Sources\<close> states as a locale what the executor relies on
    from any source, and interprets it for each of them.
  \<^item> \<open>Wb_Execution\<close>: the executor with its state file. \<open>Wb_Execution_Correct\<close> shows write-ahead,
    the daily quota over all runs, that an incident is never cleared, and that a reservation
    is resolved.
  \<^item> \<open>Wb_Database\<close>, \<open>Wb_Store\<close>, \<open>Wb_Store_Policy\<close>: the tables with their CHECK constraints,
    indexes and triggers, and every transaction of the store over them. \<open>Wb_Store_Facts\<close> and
    \<open>Wb_Store_Inv\<close> reduce each transaction to a few effects and prove the invariant;
    \<open>Wb_Store_Steps\<close> states the contract of an operation as a locale and interprets it for all
    of them. \<open>Wb_Store_Correct\<close> and \<open>Wb_Store_Ops\<close> hold the properties: one unresolved action,
    the life cycle of an action, evidence for an applied action, single use of an override,
    and that a call with a lost reply can be repeated.
  \<^item> \<open>Marketplace_Quota\<close>: the departure table that all processes share, with the spacing of
    departures. \<open>Wb_Client\<close>: the guarded writes; \<open>Wb_Client_Correct\<close> shows that the result
    of a write says exactly whether a request may have left.
  \<^item> \<open>Wb_Durable\<close>: the PostgreSQL executor, composed of all of the above.
    \<open>Wb_Durable_Correct\<close> shows write-ahead, that no action is sent twice over any
    interleaving of runs with other processes, and that a run refines sequences of store
    operations; \<open>Wb_Durable_Receipt\<close> that its receipt is truthful; \<open>Wb_Durable_Midnight\<close>
    that a pause reserved across a Moscow midnight is never confirmed.
  \<^item> \<open>Ozon_Guard\<close>, \<open>Ozon_Config\<close>, \<open>Ozon_Telemetry\<close>: the stop rule, the bid controller, the
    reviewed file with the policy that bounds it, and the telemetry of a cycle.
    \<open>Ozon_Guard_Correct\<close> shows that the stop rule is exact over the natural numbers and that
    a paced bid keeps its bounds; \<open>Ozon_Telemetry_Correct\<close> that amounts are read from
    their canonical spellings only and that a snapshot or a report is accepted exactly when
    it is complete, with the sums of a reference definition.
  \<^item> \<open>Ozon_Client\<close>, \<open>Ozon_Client_Correct\<close>: the guarded writes of the Ozon client, and that
    their result says whether the request may have left.
  \<^item> \<open>Ozon_State\<close>, \<open>Ozon_Audit\<close>, \<open>Ozon_Static\<close>, \<open>Ozon_Cycle\<close>: the state file, the audit table
    with its transactions, the writes with their markers and readbacks, recovery, a cycle, the
    commands and the loop.
  \<^item> \<open>Ozon_Static_Facts\<close> splits a write into its cases. \<open>Ozon_Static_Moves\<close> states as locales
    that a relation kept by the elementary moves is kept by a whole cycle and a whole run;
    \<open>Ozon_Static_Correct\<close> interprets them four times, for write-ahead, the lock of an
    incident, the stale cursor and the clock, and adds that every request of a cycle is
    justified by what the cycle read. \<open>Ozon_Static_Flight\<close> interprets them for an abstract
    machine of steps, crashes and restarts: at most one request per campaign is in flight,
    and the state file always loads and covers it. \<open>Ozon_Loop\<close> says when the loop ends.
  \<^item> \<open>Report_Schedule\<close>, \<open>Report_Record\<close>: the identities, the windows and the delivery record.
    \<open>Report_Database\<close>, \<open>Report_Store\<close>: the outbox tables with their checks and triggers, and
    every operation of the repository over them. \<open>Report_Mail\<close>, \<open>Report_Worker\<close>: the message, the
    address book, the token, the request to Gmail, an attempt and a pass of the worker.
  \<^item> \<open>Report_Facts\<close> reads the tables as delivery records and states their invariant;
    \<open>Report_Effects\<close> and \<open>Report_Moves\<close> reduce every operation to a transition of one record.
    \<open>Report_Machine\<close> is the machine of any number of workers, planners, generators and
    operators over one outbox; \<open>Report_Once\<close> shows its invariant and interprets
    \<open>inductive_invariant\<close>; \<open>Report_Pass\<close> shows that the worker takes its steps.
    \<open>Report_Correct\<close> holds the properties of the outbox: a report leaves again only after a
    429, at most five times; the tables refine \<open>outbox.rs\<close>; a pass refines the machine.
    \<open>Report_Duties\<close> shows what is durable when a message leaves and where it goes, that the
    address book is exact, that a due report is planned, that the outcome of a fifth transient
    failure is misreported, and that no delivery expires.
  \<^item> \<open>Decimal_Text\<close>: reading inverts printing of decimal numbers, for the amounts of Ozon and
    the keys of the reports.
  \<^item> \<open>Wb_Samples\<close>, \<open>Wb_Store_Samples\<close>, \<open>Wb_Durable_Samples\<close>, \<open>Ozon_Samples\<close>, \<open>Report_Samples\<close>:
    the inputs of the witnesses.

  \<^bold>\<open>Choices.\<close> Words stand for the unsigned types, \<open>int\<close> with its range written out for the
  signed ones. An instant is a number of nanoseconds and a date a number of days; strings are
  UTF-8 bytes. Every function is total, no loop needs fuel. A database operation is one
  transaction: it takes the clock of the server and the fate of the connection (answered, lost
  before the commit, lost after it). A call to the marketplace takes its reply; a read takes
  the facts it returns. These environments are arguments of a run, and the properties quantify
  over them. The static guard asks for its answers one after the other, so its environment is
  an infinite stream of answers; a crash drops the memory of the process between two steps,
  and a restart loads the state file. The polls of a loop are a list of instants, which ends
  with the shutdown. The delivery worker may be dropped at each of its awaits, and a row that
  another session has locked is not claimable. SHA-256, the JSON texts of serde, the claims of a token and the e-mail date
  format are parameters; no property assumes anything of them beyond what its statement
  shows.

  \<^bold>\<open>Not modelled.\<close> Of the robot: the JSON parsers and the paged reads of the observer, the
  loading of policies, tokens and registries from files, the advisory lock itself (its answer
  is an input), the HTTP transport, exceptions that the triggers make for the administrator,
  and the ends of the calendar range. Of the static Ozon guard: the lease of the executor, the
  parser of the statistics report, the SQL of the position reader, the permissions and the
  JSON text of the state file. Of the report delivery: the rendering of a report, the files of
  artifacts, credentials and addresses, the MIME text of a message, the HTTP clients, and the
  check of the database contract at startup. Of the rest of the repository: the durable Ozon guard with its
  launches and plans, the plans and launches of Wildberries, the control server, the
  read-only tool server, the marketplace read clients, authentication and configuration, the
  reporting collectors, and the position collector.
\<close>

end
